(* ===== verification/Prelude.thy ===== *)
theory Prelude
  imports Complex_Main "HOL-Library.AList" "HOL-Library.Multiset" "HOL-Library.List_Lexorder"
    "HOL-Library.Char_ord"
begin

text \<open>
  Shared vocabulary of the development: the Python values the code works with and the generic
  facts about them that the component theories use.

  \<^item> \<open>result\<close>: a Python computation that may raise. \<open>Inl\<close> carries the exception.
  \<^item> \<open>dict\<close>: a Python dict is an association list in insertion order; assignment is
    \<^const>\<open>AList.update\<close>, which replaces in place or appends, as CPython does.
  \<^item> \<open>string\<close>: one \<^typ>\<open>char\<close> per code point. The em dash of the code's
    messages is the single character \<open>CHR 0x97\<close>, so lengths and slices agree.
  \<^item> floats are exact rationals: IEEE rounding of intermediate results is not modelled,
    while every explicit \<open>round(x, n)\<close> and every format such as \<open>:.0%\<close> is.
\<close>

named_theorems dict_simps "lookups in dictionaries after updates"
named_theorems py_defs "definitions of the Python helpers"

section \<open>Exceptions as values\<close>

datatype exn =
    RuntimeError string
  | ValueError string
  | TypeError string
  | AttributeError string
  | KeyError string
  | IndexError
  | ValidationError string
  | ExternalError string
  | BadZipFile string

type_synonym 'a result = "exn + 'a"

text \<open>\<open>str(exc)\<close>.\<close>

fun exn_str :: "exn \<Rightarrow> string" where
  "exn_str (RuntimeError m) = m"
| "exn_str (ValueError m) = m"
| "exn_str (TypeError m) = m"
| "exn_str (AttributeError m) = m"
| "exn_str (KeyError m) = m"
| "exn_str IndexError = ''list index out of range''"
| "exn_str (ValidationError m) = m"
| "exn_str (ExternalError m) = m"
| "exn_str (BadZipFile m) = m"

fun rbind :: "'a result \<Rightarrow> ('a \<Rightarrow> 'b result) \<Rightarrow> 'b result" where
  "rbind (Inl e) f = Inl e"
| "rbind (Inr x) f = f x"

lemma rbind_Inr_iff: "rbind r f = Inr y \<longleftrightarrow> (\<exists>x. r = Inr x \<and> f x = Inr y)"
  by (cases r) auto

lemma rbind_split:
  "P (rbind r f) \<longleftrightarrow> (\<forall>e. r = Inl e \<longrightarrow> P (Inl e)) \<and> (\<forall>x. r = Inr x \<longrightarrow> P (f x))"
  by (cases r) auto

section \<open>Dictionaries\<close>

type_synonym ('k, 'v) dict = "('k \<times> 'v) list"

abbreviation dict_get :: "('k, 'v) dict \<Rightarrow> 'k \<rightharpoonup> 'v" where
  "dict_get \<equiv> map_of"

abbreviation dict_set :: "'k \<Rightarrow> 'v \<Rightarrow> ('k, 'v) dict \<Rightarrow> ('k, 'v) dict" where
  "dict_set \<equiv> AList.update"

abbreviation dict_keys :: "('k, 'v) dict \<Rightarrow> 'k list" where
  "dict_keys d \<equiv> map fst d"

abbreviation dict_mem :: "'k \<Rightarrow> ('k, 'v) dict \<Rightarrow> bool" where
  "dict_mem k d \<equiv> k \<in> set (dict_keys d)"

text \<open>\<open>d.update(other)\<close>: the pairs of \<open>other\<close> are assigned one after the other.\<close>

fun dict_update :: "('k, 'v) dict \<Rightarrow> ('k, 'v) dict \<Rightarrow> ('k, 'v) dict" where
  "dict_update d [] = d"
| "dict_update d ((k, v) # kvs) = dict_update (dict_set k v d) kvs"

text \<open>A comprehension \<open>{f(x): g(x) for x in xs}\<close> assigns from left to right.\<close>

definition dict_of :: "('k \<times> 'v) list \<Rightarrow> ('k, 'v) dict" where
  "dict_of kvs = dict_update [] kvs"

definition get_default :: "('k, 'v) dict \<Rightarrow> 'k \<Rightarrow> 'v \<Rightarrow> 'v" where
  "get_default d k v = (case dict_get d k of None \<Rightarrow> v | Some w \<Rightarrow> w)"

lemma dict_get_set [simp, dict_simps]:
  "dict_get (dict_set k v d) k' = (if k' = k then Some v else dict_get d k')"
  by (simp add: update_conv')

lemma dict_get_update [dict_simps]:
  "dict_get (dict_update d kvs) k = (case map_of (rev kvs) k of None \<Rightarrow> dict_get d k | Some v \<Rightarrow> Some v)"
  by (induction kvs arbitrary: d rule: list.induct)
    (auto simp: map_add_def split: option.splits)

lemma map_of_rev_distinct: "distinct (map fst kvs) \<Longrightarrow> map_of (rev kvs) = map_of kvs"
proof (induction kvs)
  case Nil
  then show ?case by simp
next
  case (Cons kv kvs)
  then have "map_of kvs (fst kv) = None" by (simp add: map_of_eq_None_iff)
  with Cons show ?case by (cases kv) (auto simp: map_add_def fun_eq_iff split: option.splits)
qed

lemma dict_get_update_distinct:
  "distinct (map fst kvs) \<Longrightarrow>
   dict_get (dict_update d kvs) k = (case map_of kvs k of None \<Rightarrow> dict_get d k | Some v \<Rightarrow> Some v)"
  by (simp add: dict_get_update map_of_rev_distinct)

lemma keys_dict_set [simp]: "fst ` set (dict_set k v d) = insert k (fst ` set d)"
  by (induction d) auto

lemma keys_dict_update [simp]: "fst ` set (dict_update d kvs) = fst ` set d \<union> fst ` set kvs"
proof (induction kvs arbitrary: d)
  case Nil
  then show ?case by simp
next
  case (Cons kv kvs)
  then show ?case by (cases kv) (simp del: set_map)
qed

lemma distinct_dict_set [simp]: "distinct (dict_keys d) \<Longrightarrow> distinct (dict_keys (dict_set k v d))"
  by (rule distinct_update)

lemma distinct_dict_update [simp]:
  "distinct (dict_keys d) \<Longrightarrow> distinct (dict_keys (dict_update d kvs))"
  by (induction kvs arbitrary: d rule: list.induct) auto

lemma distinct_dict_of [simp]: "distinct (dict_keys (dict_of kvs))"
  by (simp add: dict_of_def)

lemma dict_get_None_iff: "dict_get d k = None \<longleftrightarrow> \<not> dict_mem k d"
  by (metis map_of_eq_None_iff image_set)

lemma dict_set_fresh: "\<not> dict_mem k d \<Longrightarrow> dict_set k v d = d @ [(k, v)]"
  by (induction d) auto

lemma dict_update_append: "dict_update d (xs @ ys) = dict_update (dict_update d xs) ys"
  by (induction xs arbitrary: d rule: list.induct) auto

lemma dict_update_fresh:
  "distinct (map fst kvs) \<Longrightarrow> set (map fst kvs) \<inter> set (dict_keys d) = {} \<Longrightarrow>
   dict_update d kvs = d @ kvs"
proof (induction kvs arbitrary: d)
  case Nil
  then show ?case by simp
next
  case (Cons kv kvs)
  obtain k v where kv: "kv = (k, v)" by fastforce
  have "dict_set k v d = d @ [(k, v)]"
    using Cons.prems kv by (intro dict_set_fresh) auto
  moreover have "dict_update (d @ [(k, v)]) kvs = (d @ [(k, v)]) @ kvs"
    using Cons.prems kv by (intro Cons.IH) auto
  ultimately show ?case by (simp add: kv)
qed

lemma dict_of_distinct: "distinct (map fst kvs) \<Longrightarrow> dict_of kvs = kvs"
  by (simp add: dict_of_def dict_update_fresh)

section \<open>Strings\<close>

definition em_dash :: char where
  "em_dash = CHR 0x97"

definition dash :: string where
  "dash = [CHR 0x20, em_dash, CHR 0x20]"

definition quoted :: "string \<Rightarrow> string" where
  "quoted s = CHR 0x27 # s @ [CHR 0x27]"

text \<open>\<open>str.isspace\<close> and the class \<open>\s\<close> of \<open>re\<close>, on the characters of this model.\<close>

definition is_space :: "char \<Rightarrow> bool" where
  "is_space c \<longleftrightarrow> (of_char c :: nat) \<in> {9, 10, 11, 12, 13, 28, 29, 30, 31, 32, 133, 160}"

definition lower_char :: "char \<Rightarrow> char" where
  "lower_char c = (if 65 \<le> (of_char c :: nat) \<and> (of_char c :: nat) \<le> 90
     then char_of ((of_char c :: nat) + 32) else c)"

definition lower :: "string \<Rightarrow> string" where
  "lower s = map lower_char s"

definition strip :: "string \<Rightarrow> string" where
  "strip s = rev (dropWhile is_space (rev (dropWhile is_space s)))"

text \<open>\<open>re.sub(r"\s+", " ", s)\<close>.\<close>

function collapse :: "string \<Rightarrow> string" where
  "collapse [] = []"
| "collapse (c # cs) =
     (if is_space c then CHR 0x20 # collapse (dropWhile is_space cs) else c # collapse cs)"
  by pat_completeness auto
termination
  by (relation "measure length") (auto simp: le_imp_less_Suc length_dropWhile_le)

definition ws_norm :: "string \<Rightarrow> string" where
  "ws_norm s = strip (collapse s)"

definition starts_with :: "string \<Rightarrow> string \<Rightarrow> bool" where
  "starts_with p s \<longleftrightarrow> take (length p) s = p"

text \<open>\<open>needle in hay\<close>.\<close>

fun contains_str :: "string \<Rightarrow> string \<Rightarrow> bool" where
  "contains_str needle [] \<longleftrightarrow> needle = []"
| "contains_str needle (c # cs) \<longleftrightarrow> starts_with needle (c # cs) \<or> contains_str needle cs"

text \<open>\<open>sep.join(parts)\<close>.\<close>

fun join :: "string \<Rightarrow> string list \<Rightarrow> string" where
  "join sep [] = []"
| "join sep [x] = x"
| "join sep (x # y # zs) = x @ sep @ join sep (y # zs)"

lemma contains_str_append: "contains_str needle (xs @ needle @ ys)"
proof (induction xs)
  case Nil
  have "starts_with needle (needle @ ys)" by (simp add: starts_with_def)
  then show ?case by (cases "needle @ ys") auto
next
  case (Cons x xs)
  then show ?case by simp
qed

section \<open>Numbers\<close>

definition digit_char :: "nat \<Rightarrow> char" where
  "digit_char n = char_of (48 + n)"

fun show_nat :: "nat \<Rightarrow> string" where
  "show_nat n = (if n < 10 then [digit_char n] else show_nat (n div 10) @ [digit_char (n mod 10)])"

declare show_nat.simps [simp del]

definition show_int :: "int \<Rightarrow> string" where
  "show_int i = (if i < 0 then CHR ''-'' # show_nat (nat (- i)) else show_nat (nat i))"

lemma show_nat_not_Nil [simp]: "show_nat n \<noteq> []"
  by (subst show_nat.simps) simp

text \<open>Python's \<open>round\<close>: to the nearest integer, ties to even.\<close>

definition round_half_even :: "rat \<Rightarrow> int" where
  "round_half_even x =
     (let f = \<lfloor>x\<rfloor>; d = x - of_int f
      in if d < 1 / 2 then f else if 1 / 2 < d then f + 1 else if even f then f else f + 1)"

definition py_round :: "nat \<Rightarrow> rat \<Rightarrow> rat" where
  "py_round n x = of_int (round_half_even (x * 10 ^ n)) / 10 ^ n"

lemma round_half_even_of_int [simp]: "round_half_even (of_int i) = i"
  by (simp add: round_half_even_def)

lemma round_half_even_bounds: "x - 1 / 2 \<le> of_int (round_half_even x) \<and> of_int (round_half_even x) \<le> x + 1 / 2"
proof -
  have "of_int \<lfloor>x\<rfloor> \<le> x" and "x < of_int \<lfloor>x\<rfloor> + 1"
    using floor_correct[of x] by simp_all
  then show ?thesis unfolding round_half_even_def Let_def by (auto simp del: of_int_floor_le simp: not_less)
qed

lemma round_half_even_mono:
  assumes "x \<le> y"
  shows "round_half_even x \<le> round_half_even y"
proof (cases "\<lfloor>x\<rfloor> = \<lfloor>y\<rfloor>")
  case True
  with assms show ?thesis by (auto simp: round_half_even_def Let_def)
next
  case False
  with assms have "\<lfloor>x\<rfloor> + 1 \<le> \<lfloor>y\<rfloor>" using floor_mono[OF assms] by simp
  then show ?thesis by (auto simp: round_half_even_def Let_def)
qed

lemma py_round_mono: "x \<le> y \<Longrightarrow> py_round n x \<le> py_round n y"
  unfolding py_round_def
  by (intro divide_right_mono) (simp_all add: round_half_even_mono mult_right_mono)

lemma py_round_of_int [simp]: "py_round n (of_int i) = of_int i"
proof -
  have "(of_int i :: rat) * 10 ^ n = of_int (i * 10 ^ n)" by simp
  then show ?thesis unfolding py_round_def by (simp only: round_half_even_of_int) simp
qed

lemma py_round_0 [simp]: "py_round n 0 = 0"
  using py_round_of_int[of n 0] by simp

lemma py_round_1 [simp]: "py_round n 1 = 1"
  using py_round_of_int[of n 1] by simp

lemma py_round_unit: "0 \<le> x \<Longrightarrow> x \<le> 1 \<Longrightarrow> 0 \<le> py_round n x \<and> py_round n x \<le> 1"
  using py_round_mono[of 0 x n] py_round_mono[of x 1 n] by simp

lemma py_round_error: "\<bar>py_round n x - x\<bar> \<le> 1 / (2 * 10 ^ n)"
proof -
  have "\<bar>of_int (round_half_even (x * 10 ^ n)) - x * 10 ^ n\<bar> \<le> (1 / 2 :: rat)"
    using round_half_even_bounds[of "x * 10 ^ n"] by (intro abs_leI) linarith+
  then have "\<bar>of_int (round_half_even (x * 10 ^ n)) - x * 10 ^ n\<bar> / 10 ^ n \<le> (1 / 2 :: rat) / 10 ^ n"
    by (intro divide_right_mono) simp_all
  moreover have "\<bar>py_round n x - x\<bar> = \<bar>of_int (round_half_even (x * 10 ^ n)) - x * 10 ^ n\<bar> / (10 ^ n :: rat)"
  proof -
    have "py_round n x - x = (of_int (round_half_even (x * 10 ^ n)) - x * 10 ^ n) / 10 ^ n"
      unfolding py_round_def by (simp add: diff_divide_distrib)
    then show ?thesis by (simp add: abs_divide)
  qed
  ultimately show ?thesis by simp
qed

lemma py_round_idem [simp]: "py_round n (py_round n x) = py_round n x"
proof -
  have "py_round n x * 10 ^ n = of_int (round_half_even (x * 10 ^ n))" by (simp add: py_round_def)
  then show ?thesis unfolding py_round_def[of n "py_round n x"] by (simp add: py_round_def)
qed

text \<open>\<open>f"{x:.nf}"\<close> and \<open>f"{x:.0%}"\<close>.\<close>

definition pad_left :: "nat \<Rightarrow> string \<Rightarrow> string" where
  "pad_left n s = replicate (n - length s) (CHR ''0'') @ s"

definition fmt_fixed :: "nat \<Rightarrow> rat \<Rightarrow> string" where
  "fmt_fixed n x =
     (let m = nat (round_half_even (\<bar>x\<bar> * 10 ^ n)); ip = m div 10 ^ n; fp = m mod 10 ^ n
      in (if x < 0 then ''-'' else []) @ show_nat ip @
         (if n = 0 then [] else ''.'' @ pad_left n (show_nat fp)))"

definition fmt_pct :: "rat \<Rightarrow> string" where
  "fmt_pct x = fmt_fixed 0 (x * 100) @ ''%''"

text \<open>\<open>str(x)\<close> of a float that is a short decimal, such as \<open>7.0\<close> or \<open>0.25\<close>; at most 16
  decimals are printed.\<close>

fun dec_places :: "nat \<Rightarrow> rat \<Rightarrow> nat" where
  "dec_places 0 x = 0"
| "dec_places (Suc n) x = (if of_int \<lfloor>x\<rfloor> = x then 0 else Suc (dec_places n (x * 10)))"

definition show_float :: "rat \<Rightarrow> string" where
  "show_float x = fmt_fixed (max 1 (dec_places 16 x)) x"

text \<open>\<open>repr\<close> of a list of strings that contain no quote.\<close>

definition show_strs :: "string list \<Rightarrow> string" where
  "show_strs xs = ''['' @ join '', '' (map quoted xs) @ '']''"

section \<open>Lists\<close>

text \<open>\<open>sorted(xs, key=k)\<close> is \<^const>\<open>sort_key\<close> (both are stable); with \<open>reverse=True\<close>
  Python keeps equal elements in their original order, so it is the stable sort by the
  negated key.\<close>

definition sort_desc :: "('a \<Rightarrow> rat) \<Rightarrow> 'a list \<Rightarrow> 'a list" where
  "sort_desc k xs = sort_key (\<lambda>x. - k x) xs"

lemma mset_sort_desc [simp]: "mset (sort_desc k xs) = mset xs"
  by (simp add: sort_desc_def)

lemma set_sort_desc [simp]: "set (sort_desc k xs) = set xs"
  by (simp add: sort_desc_def)

lemma length_sort_desc [simp]: "length (sort_desc k xs) = length xs"
  by (simp add: sort_desc_def)

lemma distinct_sort_desc [simp]: "distinct (sort_desc k xs) = distinct xs"
  by (simp add: sort_desc_def)

lemma sorted_sort_desc: "sorted_wrt (\<lambda>x y. k y \<le> k x) (sort_desc k xs)"
proof -
  have "sorted (map (\<lambda>x. - k x) (sort_desc k xs))" by (simp add: sort_desc_def)
  then show ?thesis by (simp add: sorted_map)
qed

lemma sort_desc_stable: "filter (\<lambda>y. k y = v) (sort_desc k xs) = filter (\<lambda>y. k y = v) xs"
proof -
  have "(\<lambda>y. k y = v) = (\<lambda>y. - k y = - v)" by auto
  then show ?thesis unfolding sort_desc_def by (simp only: sort_key_stable)
qed

text \<open>\<open>xs.index(x)\<close>: the first position, if any.\<close>

fun index_of :: "'a \<Rightarrow> 'a list \<Rightarrow> nat option" where
  "index_of x [] = None"
| "index_of x (y # ys) = (if x = y then Some 0 else map_option Suc (index_of x ys))"

lemma index_of_None: "index_of x xs = None \<longleftrightarrow> x \<notin> set xs"
  by (induction xs) auto

lemma index_of_Some: "index_of x xs = Some i \<Longrightarrow> i < length xs \<and> xs ! i = x"
  by (induction xs arbitrary: i) (auto split: if_splits)

lemma index_of_nth: "distinct xs \<Longrightarrow> i < length xs \<Longrightarrow> index_of (xs ! i) xs = Some i"
  by (induction xs arbitrary: i) (auto simp: nth_Cons split: nat.splits)

definition count_if :: "('a \<Rightarrow> bool) \<Rightarrow> 'a list \<Rightarrow> nat" where
  "count_if P xs = length (filter P xs)"

lemma count_if_0_iff: "count_if P xs = 0 \<longleftrightarrow> (\<forall>x \<in> set xs. \<not> P x)"
  by (simp add: count_if_def filter_empty_conv)

lemma count_if_le: "count_if P xs \<le> length xs"
  by (simp add: count_if_def)

text \<open>A for loop over a list that carries a state and may raise.\<close>

fun rfold :: "('s \<Rightarrow> 'a \<Rightarrow> 's result) \<Rightarrow> 's \<Rightarrow> 'a list \<Rightarrow> 's result" where
  "rfold f s [] = Inr s"
| "rfold f s (x # xs) = rbind (f s x) (\<lambda>s'. rfold f s' xs)"

lemma rfold_append: "rfold f s (xs @ ys) = rbind (rfold f s xs) (\<lambda>s'. rfold f s' ys)"
  by (induction xs arbitrary: s) (auto split: rbind_split)

lemma rfold_invariant:
  assumes "rfold f s xs = Inr s'" and "P s"
    and step: "\<And>t x t'. P t \<Longrightarrow> x \<in> set xs \<Longrightarrow> f t x = Inr t' \<Longrightarrow> P t'"
  shows "P s'"
  using assms
proof (induction xs arbitrary: s)
  case Nil
  then show ?case by simp
next
  case (Cons x xs)
  from Cons.prems(1) obtain t where t: "f s x = Inr t" "rfold f t xs = Inr s'"
    by (auto simp: rbind_Inr_iff)
  have "P t" by (rule Cons.prems(3)[OF Cons.prems(2) _ t(1)]) simp
  then show ?case
    using Cons.prems(3) by (intro Cons.IH[OF t(2)]) (auto intro: list.set_intros(2))
qed

end
