(* ===== verification/Schemas.thy ===== *)
theory Schemas
  imports Prelude
begin

text \<open>
  The data model of \<open>app/schemas/\<close>: one datatype per enum and one record per pydantic
  model, plus the JSON values that cross the LLM boundary. Field names carry a short prefix
  for their model. Left out of every record: freshly generated \<open>uuid4\<close> identifiers,
  timestamps, and the \<open>evidence\<close> string of a critic flag, none of which the code reads back.
\<close>

section \<open>schema_enums.py\<close>

datatype critic_severity = HARD | SOFT | LOG

datatype critic_verdict = APPROVED | APPROVED_WITH_WARNINGS | BLOCKED | ESCALATED

datatype compliance_status = PASS | FAIL | INSUFFICIENT_EVIDENCE

datatype decision_basis =
    EXPLICIT_CONFIRMATION | IMPLICIT_CONFIRMATION | PARTIAL_COMPLIANCE
  | EXPLICIT_DENIAL | NOT_ADDRESSED

text \<open>The enum values, and the lookup \<open>Enum(value)\<close>, which raises on an unknown value.\<close>

fun compliance_value :: "compliance_status \<Rightarrow> string" where
  "compliance_value PASS = ''pass''"
| "compliance_value FAIL = ''fail''"
| "compliance_value INSUFFICIENT_EVIDENCE = ''insufficient_evidence''"

fun basis_value :: "decision_basis \<Rightarrow> string" where
  "basis_value EXPLICIT_CONFIRMATION = ''explicit_confirmation''"
| "basis_value IMPLICIT_CONFIRMATION = ''implicit_confirmation''"
| "basis_value PARTIAL_COMPLIANCE = ''partial_compliance''"
| "basis_value EXPLICIT_DENIAL = ''explicit_denial''"
| "basis_value NOT_ADDRESSED = ''not_addressed''"

fun verdict_value :: "critic_verdict \<Rightarrow> string" where
  "verdict_value APPROVED = ''approved''"
| "verdict_value APPROVED_WITH_WARNINGS = ''approved_with_warnings''"
| "verdict_value BLOCKED = ''blocked''"
| "verdict_value ESCALATED = ''escalated''"

definition compliance_of :: "string \<Rightarrow> compliance_status option" where
  "compliance_of s = List.find (\<lambda>c. compliance_value c = s) [PASS, FAIL, INSUFFICIENT_EVIDENCE]"

definition basis_of :: "string \<Rightarrow> decision_basis option" where
  "basis_of s = List.find (\<lambda>b. basis_value b = s)
     [EXPLICIT_CONFIRMATION, IMPLICIT_CONFIRMATION, PARTIAL_COMPLIANCE, EXPLICIT_DENIAL, NOT_ADDRESSED]"

lemma compliance_of_value [simp]: "compliance_of (compliance_value c) = Some c"
  by (cases c) (simp_all add: compliance_of_def)

lemma compliance_of_SomeD: "compliance_of s = Some c \<Longrightarrow> s = compliance_value c"
  by (auto simp: compliance_of_def split: if_splits)

lemma basis_of_value [simp]: "basis_of (basis_value b) = Some b"
  by (cases b) (simp_all add: basis_of_def)

section \<open>JSON values\<close>

datatype json =
    JNull
  | JBool bool
  | JNum rat
  | JStr string
  | JArr "json list"
  | JObj "(string \<times> json) list"

text \<open>\<open>bool(v)\<close>.\<close>

fun truthy :: "json \<Rightarrow> bool" where
  "truthy JNull = False"
| "truthy (JBool b) = b"
| "truthy (JNum x) = (x \<noteq> 0)"
| "truthy (JStr s) = (s \<noteq> [])"
| "truthy (JArr xs) = (xs \<noteq> [])"
| "truthy (JObj kvs) = (kvs \<noteq> [])"

text \<open>\<open>v.get(k, d)\<close>: only a dict has the method.\<close>

fun jget :: "json \<Rightarrow> string \<Rightarrow> json \<Rightarrow> json result" where
  "jget (JObj kvs) k d = Inr (case map_of kvs k of None \<Rightarrow> d | Some v \<Rightarrow> v)"
| "jget _ k d = Inl (AttributeError ''object has no attribute get'')"

text \<open>\<open>v[k]\<close> with a string key.\<close>

definition jindex :: "json \<Rightarrow> string \<Rightarrow> json result" where
  "jindex item k =
     (case item of
        JObj kvs \<Rightarrow> (case map_of kvs k of None \<Rightarrow> Inl (KeyError (quoted k)) | Some v \<Rightarrow> Inr v)
      | _ \<Rightarrow> Inl (TypeError ''object is not subscriptable''))"

text \<open>\<open>for item in v\<close>.\<close>

fun as_iter :: "json \<Rightarrow> json list result" where
  "as_iter (JArr xs) = Inr xs"
| "as_iter (JObj kvs) = Inr (map (JStr \<circ> fst) kvs)"
| "as_iter (JStr s) = Inr (map (\<lambda>c. JStr [c]) s)"
| "as_iter _ = Inl (TypeError ''object is not iterable'')"

definition jset :: "string \<Rightarrow> json \<Rightarrow> (string \<times> json) list \<Rightarrow> (string \<times> json) list" where
  "jset k v kvs = AList.update k v kvs"

text \<open>\<open>float(v)\<close>. A numeric string is read in plain decimal notation, with an optional sign.\<close>

definition is_digit :: "char \<Rightarrow> bool" where
  "is_digit c \<longleftrightarrow> 48 \<le> (of_char c :: nat) \<and> (of_char c :: nat) \<le> 57"

definition digits_value :: "string \<Rightarrow> nat" where
  "digits_value s = foldl (\<lambda>n c. 10 * n + (of_char c - 48)) 0 s"

definition parse_unsigned :: "string \<Rightarrow> rat option" where
  "parse_unsigned s =
     (let ip = takeWhile is_digit s; rest = dropWhile is_digit s
      in case rest of
           [] \<Rightarrow> if ip = [] then None else Some (of_nat (digits_value ip))
         | c # fp \<Rightarrow>
             if c = CHR ''.'' \<and> list_all is_digit fp \<and> (ip \<noteq> [] \<or> fp \<noteq> [])
             then Some (of_nat (digits_value (ip @ fp)) / 10 ^ length fp) else None)"

definition parse_float :: "string \<Rightarrow> rat option" where
  "parse_float s0 =
     (case strip s0 of
        [] \<Rightarrow> None
      | c # cs \<Rightarrow> if c = CHR ''-'' then map_option uminus (parse_unsigned cs)
                 else if c = CHR ''+'' then parse_unsigned cs
                 else parse_unsigned (c # cs))"

fun to_float :: "json \<Rightarrow> rat result" where
  "to_float (JNum x) = Inr x"
| "to_float (JBool b) = Inr (if b then 1 else 0)"
| "to_float (JStr s) = (case parse_float s of
     None \<Rightarrow> Inl (ValueError ''could not convert string to float'') | Some x \<Rightarrow> Inr x)"
| "to_float _ = Inl (TypeError ''float() argument must be a string or a real number'')"

text \<open>\<open>int(x)\<close> of a float truncates towards zero.\<close>

definition trunc :: "rat \<Rightarrow> int" where
  "trunc x = (if 0 \<le> x then \<lfloor>x\<rfloor> else - \<lfloor>- x\<rfloor>)"

text \<open>pydantic validation of the field types the code uses.\<close>

fun as_str :: "json \<Rightarrow> string result" where
  "as_str (JStr s) = Inr s"
| "as_str _ = Inl (ValidationError ''Input should be a valid string'')"

fun as_str_elems :: "json list \<Rightarrow> string list result" where
  "as_str_elems [] = Inr []"
| "as_str_elems (x # xs) = rbind (as_str x) (\<lambda>s. rbind (as_str_elems xs) (\<lambda>ss. Inr (s # ss)))"

fun as_str_list :: "json \<Rightarrow> string list result" where
  "as_str_list (JArr xs) = as_str_elems xs"
| "as_str_list _ = Inl (ValidationError ''Input should be a valid list'')"

definition as_unit :: "rat \<Rightarrow> rat result" where
  "as_unit x = (if 0 \<le> x \<and> x \<le> 1 then Inr x
     else Inl (ValidationError ''Input should be between 0 and 1''))"

lemma as_unit_Inr: "as_unit x = Inr y \<longleftrightarrow> y = x \<and> 0 \<le> x \<and> x \<le> 1"
  by (auto simp: as_unit_def)

section \<open>schema_setup.py\<close>

record extraction_target =
  et_target_id :: string
  et_name :: string
  et_description :: string
  et_fact_type :: string

record mandatory_check =
  mc_check_id :: string
  mc_name :: string
  mc_description :: string
  mc_what_passes :: string
  mc_extraction_target_id :: string

record scoring_criterion =
  sc_criterion_id :: string
  sc_name :: string
  sc_weight :: rat
  sc_rubric_9_10 :: string
  sc_rubric_6_8 :: string
  sc_rubric_3_5 :: string
  sc_rubric_0_2 :: string
  sc_extraction_target_ids :: "string list"

record evaluation_setup =
  es_setup_id :: string
  es_mandatory_checks :: "mandatory_check list"
  es_scoring_criteria :: "scoring_criterion list"
  es_extraction_targets :: "extraction_target list"
  es_total_weight :: rat

text \<open>The model validators of \<open>ScoringCriterion\<close> and \<open>EvaluationSetup\<close>, in the order
  pydantic runs them: field constraints first, then the two \<open>mode="after"\<close> validators.\<close>

definition criterion_field_ok :: "scoring_criterion \<Rightarrow> bool" where
  "criterion_field_ok c \<longleftrightarrow> 0 < sc_weight c \<and> sc_weight c \<le> 1"

definition weights_sum_to_one :: "evaluation_setup \<Rightarrow> unit result" where
  "weights_sum_to_one s =
     (if es_scoring_criteria s = [] then Inr ()
      else let actual = sum_list (map sc_weight (es_scoring_criteria s))
           in if 99 / 100 \<le> actual \<and> actual \<le> 101 / 100 then Inr ()
              else Inl (ValidationError (''scoring_criteria weights must sum to 1.0 (got '' @
                     fmt_fixed 4 actual @ '')'')))"

definition every_check_has_extraction_target :: "evaluation_setup \<Rightarrow> unit result" where
  "every_check_has_extraction_target s =
     (case List.find (\<lambda>c. mc_extraction_target_id c \<notin> set (map et_target_id (es_extraction_targets s)))
        (es_mandatory_checks s) of
        None \<Rightarrow> Inr ()
      | Some c \<Rightarrow> Inl (ValidationError (''MandatoryCheck '' @ quoted (mc_check_id c) @
          '' references extraction_target_id '' @ quoted (mc_extraction_target_id c) @
          '' which is not in extraction_targets'')))"

definition make_setup :: "evaluation_setup \<Rightarrow> evaluation_setup result" where
  "make_setup s =
     (if \<not> list_all criterion_field_ok (es_scoring_criteria s) then Inl (ValidationError ''weight'')
      else if \<not> (99 / 100 \<le> es_total_weight s \<and> es_total_weight s \<le> 101 / 100)
      then Inl (ValidationError ''total_weight'')
      else rbind (weights_sum_to_one s) (\<lambda>_.
           rbind (every_check_has_extraction_target s) (\<lambda>_. Inr s)))"

lemma make_setup_Inr:
  assumes "make_setup s = Inr s'"
  shows "s' = s"
    and "c \<in> set (es_scoring_criteria s) \<Longrightarrow> 0 < sc_weight c"
    and "c \<in> set (es_scoring_criteria s) \<Longrightarrow> sc_weight c \<le> 1"
    and "es_scoring_criteria s \<noteq> [] \<Longrightarrow> 99 / 100 \<le> sum_list (map sc_weight (es_scoring_criteria s))"
    and "es_scoring_criteria s \<noteq> [] \<Longrightarrow> sum_list (map sc_weight (es_scoring_criteria s)) \<le> 101 / 100"
    and "k \<in> set (es_mandatory_checks s) \<Longrightarrow>
         mc_extraction_target_id k \<in> et_target_id ` set (es_extraction_targets s)"
  using assms
  by (auto simp: make_setup_def weights_sum_to_one_def every_check_has_extraction_target_def
      Let_def rbind_Inr_iff list_all_iff criterion_field_ok_def find_None_iff
      split: if_splits option.splits)

section \<open>schema_ingestion_retrieval.py\<close>

record injection_finding =
  if_chunk_id :: string
  if_pattern_name :: string
  if_matched_text :: string
  if_page_number :: int

record ingestion_output =
  io_doc_id :: string
  io_vendor_id :: string
  io_org_id :: string
  io_filename :: string
  io_total_chunks :: nat
  io_chunks_by_type :: "(string, nat) dict"
  io_filtered_chunks :: nat
  io_extraction_triggered :: bool
  io_quality_score :: rat
  io_content_hash :: string
  io_warnings :: "string list"
  io_status :: string
  io_injection_findings :: "injection_finding list"

record retrieved_chunk =
  rc_chunk_id :: string
  rc_text :: string
  rc_section_type :: string
  rc_final_score :: rat
  rc_is_answer_bearing :: bool

record retrieval_output =
  ro_original_query :: string
  ro_chunks :: "retrieved_chunk list"
  ro_total_candidates :: nat
  ro_confidence :: rat
  ro_empty_retrieval :: bool
  ro_reranking_degraded :: bool
  ro_warnings :: "string list"

section \<open>schema_extraction.py\<close>

datatype document_status = CURRENT | PENDING | EXPIRED | NOT_MENTIONED

fun document_status_value :: "document_status \<Rightarrow> string" where
  "document_status_value CURRENT = ''current''"
| "document_status_value PENDING = ''pending''"
| "document_status_value EXPIRED = ''expired''"
| "document_status_value NOT_MENTIONED = ''not_mentioned''"

text \<open>A date is its year, month and day.\<close>

record extracted_certification =
  xc_standard_name :: string
  xc_version :: "string option"
  xc_cert_number :: "string option"
  xc_issuing_body :: "string option"
  xc_scope :: "string option"
  xc_valid_until :: "(nat \<times> nat \<times> nat) option"
  xc_status :: document_status
  xc_confidence :: rat
  xc_grounding_quote :: string
  xc_source_chunk_id :: string

record extracted_insurance =
  xn_insurance_type :: "string option"
  xn_amount :: "rat option"
  xn_amount_gbp :: "rat option"
  xn_provider :: "string option"
  xn_confidence :: rat
  xn_grounding_quote :: string
  xn_source_chunk_id :: string

record extracted_sla =
  xs_priority_level :: "string option"
  xs_response_minutes :: "int option"
  xs_resolution_hours :: "int option"
  xs_uptime_percentage :: "rat option"
  xs_confidence :: rat
  xs_grounding_quote :: string
  xs_source_chunk_id :: string

record extracted_project =
  xp_client_name :: "string option"
  xp_client_sector :: "string option"
  xp_user_count :: "int option"
  xp_outcomes :: "string option"
  xp_reference_available :: "bool option"
  xp_confidence :: rat
  xp_grounding_quote :: string
  xp_source_chunk_id :: string

record extracted_pricing =
  xr_year :: "int option"
  xr_amount :: "rat option"
  xr_total_amount :: "rat option"
  xr_amount_gbp :: "rat option"
  xr_total_gbp :: "rat option"
  xr_includes :: "string list"
  xr_confidence :: rat
  xr_grounding_quote :: string
  xr_source_chunk_id :: string

text \<open>A generated \<open>fact_id\<close> is the empty string.\<close>

record extracted_fact =
  xf_fact_id :: string
  xf_target_id :: string
  xf_fact_type :: string
  xf_fact_name :: string
  xf_text_value :: string
  xf_numeric_value :: "rat option"
  xf_boolean_value :: "bool option"
  xf_confidence :: rat
  xf_grounding_quote :: string
  xf_source_chunk_id :: string

text \<open>The validator \<open>grounding_not_empty\<close> of three of the models, and the two that copy an amount
  to its deprecated alias and back.\<close>

definition grounding_not_empty :: "string \<Rightarrow> string result" where
  "grounding_not_empty v =
     (if v = [] \<or> length (strip v) < 5 then Inl (ValidationError ''grounding_quote required'') else Inr v)"

definition backfill :: "rat option \<Rightarrow> rat option \<Rightarrow> rat option \<times> rat option" where
  "backfill amount alias =
     (if amount = None \<and> alias \<noteq> None then (alias, alias)
      else if alias = None \<and> amount \<noteq> None then (amount, amount) else (amount, alias))"

definition backfill_amount :: "extracted_insurance \<Rightarrow> extracted_insurance" where
  "backfill_amount x =
     (let (a, g) = backfill (xn_amount x) (xn_amount_gbp x) in x\<lparr>xn_amount := a, xn_amount_gbp := g\<rparr>)"

definition backfill_amounts :: "extracted_pricing \<Rightarrow> extracted_pricing" where
  "backfill_amounts x =
     (let (a, g) = backfill (xr_amount x) (xr_amount_gbp x); (t, tg) = backfill (xr_total_amount x) (xr_total_gbp x)
      in x\<lparr>xr_amount := a, xr_amount_gbp := g, xr_total_amount := t, xr_total_gbp := tg\<rparr>)"

record extraction_output =
  xo_source_chunk_ids :: "string list"
  xo_certifications :: "extracted_certification list"
  xo_insurance :: "extracted_insurance list"
  xo_slas :: "extracted_sla list"
  xo_projects :: "extracted_project list"
  xo_pricing :: "extracted_pricing list"
  xo_extracted_facts :: "extracted_fact list"
  xo_extraction_completeness :: rat
  xo_hallucination_risk :: rat
  xo_warnings :: "string list"
  xo_retried_fact_types :: "string list"

text \<open>An item of any of the six classes, and the two fields all of them have.\<close>

datatype extracted_item =
    CertificationItem extracted_certification
  | InsuranceItem extracted_insurance
  | SLAItem extracted_sla
  | ProjectItem extracted_project
  | PricingItem extracted_pricing
  | FactItem extracted_fact

fun xi_grounding_quote :: "extracted_item \<Rightarrow> string" where
  "xi_grounding_quote (CertificationItem x) = xc_grounding_quote x"
| "xi_grounding_quote (InsuranceItem x) = xn_grounding_quote x"
| "xi_grounding_quote (SLAItem x) = xs_grounding_quote x"
| "xi_grounding_quote (ProjectItem x) = xp_grounding_quote x"
| "xi_grounding_quote (PricingItem x) = xr_grounding_quote x"
| "xi_grounding_quote (FactItem x) = xf_grounding_quote x"

fun xi_source_chunk_id :: "extracted_item \<Rightarrow> string" where
  "xi_source_chunk_id (CertificationItem x) = xc_source_chunk_id x"
| "xi_source_chunk_id (InsuranceItem x) = xn_source_chunk_id x"
| "xi_source_chunk_id (SLAItem x) = xs_source_chunk_id x"
| "xi_source_chunk_id (ProjectItem x) = xp_source_chunk_id x"
| "xi_source_chunk_id (PricingItem x) = xr_source_chunk_id x"
| "xi_source_chunk_id (FactItem x) = xf_source_chunk_id x"

section \<open>schema_evaluation.py\<close>

record vote_breakdown =
  vb_samples :: nat
  vb_tally :: "(compliance_status, nat) dict"
  vb_winner :: "compliance_status option"

record compliance_decision =
  cd_check_id :: string
  cd_vendor_id :: string
  cd_decision :: compliance_status
  cd_confidence :: rat
  cd_reasoning :: string
  cd_evidence_used :: "string list"
  cd_contradictions_found :: "string list"
  cd_decision_basis :: decision_basis
  cd_vote_breakdown :: vote_breakdown

record criterion_score =
  cs_criterion_id :: string
  cs_vendor_id :: string
  cs_raw_score :: int
  cs_weighted_contribution :: rat
  cs_confidence :: rat
  cs_rubric_band_applied :: string
  cs_evidence_used :: "string list"
  cs_score_rationale :: string
  cs_variance_estimate :: rat
  cs_insufficient_evidence :: bool

record evaluation_output =
  eo_vendor_id :: string
  eo_compliance_decisions :: "compliance_decision list"
  eo_criterion_scores :: "criterion_score list"
  eo_overall_compliance :: string
  eo_total_weighted_score :: rat
  eo_coverage :: rat
  eo_coverage_normalised_score :: rat
  eo_score_confidence :: rat
  eo_evaluation_warnings :: "string list"

text \<open>The field constraints of \<open>EvaluationOutput\<close> and its back-compatibility validator.\<close>

definition derive_normalised_at_full_coverage :: "evaluation_output \<Rightarrow> evaluation_output" where
  "derive_normalised_at_full_coverage e =
     (if 1 \<le> eo_coverage e \<and> eo_coverage_normalised_score e = 0
      then e\<lparr>eo_coverage_normalised_score := eo_total_weighted_score e\<rparr> else e)"

definition make_evaluation_output :: "evaluation_output \<Rightarrow> evaluation_output result" where
  "make_evaluation_output e =
     rbind (as_unit (eo_coverage e)) (\<lambda>_.
     rbind (as_unit (eo_score_confidence e)) (\<lambda>_.
     Inr (derive_normalised_at_full_coverage e)))"

record vendor_criterion_comparison =
  vc_criterion_id :: string
  vc_vendor_id :: string
  vc_score :: int
  vc_key_differentiator :: string
  vc_relative_position :: string
  vc_evidence_summary :: string

record criterion_comparison =
  cc_criterion_id :: string
  cc_criterion_name :: string
  cc_weight :: rat
  cc_vendors :: "vendor_criterion_comparison list"
  cc_comparison_confidence :: rat
  cc_rank_stable :: bool
  cc_distinguishing_factors :: string

record comparator_output =
  cp_rfp_id :: string
  cp_vendor_ids :: "string list"
  cp_criteria_comparisons :: "criterion_comparison list"
  cp_overall_ranking :: "string list"
  cp_ranking_confidence :: rat
  cp_rank_margins :: "(string, rat) dict"
  cp_low_coverage_vendors :: "string list"
  cp_comparison_warnings :: "string list"

section \<open>schema_decision.py\<close>

record rejection_notice =
  rn_vendor_id :: string
  rn_failed_checks :: "string list"
  rn_rejection_reasons :: "string list"
  rn_evidence_citations :: "string list"
  rn_clause_references :: "string list"

record shortlisted_vendor =
  sv_vendor_id :: string
  sv_rank :: nat
  sv_total_score :: rat
  sv_coverage :: rat
  sv_coverage_normalised_score :: rat
  sv_score_confidence :: rat
  sv_criterion_breakdown :: "criterion_score list"
  sv_recommendation :: string

record approval_routing =
  ar_approval_tier :: int
  ar_approver_role :: string
  ar_contract_value :: rat
  ar_sla_hours :: nat
  ar_escalation_reason :: "string option"

record decision_output =
  do_rfp_id :: string
  do_rejected_vendors :: "rejection_notice list"
  do_shortlisted_vendors :: "shortlisted_vendor list"
  do_approval_routing :: approval_routing
  do_decision_confidence :: rat
  do_requires_human_review :: bool
  do_review_reasons :: "string list"

record grounded_claim =
  gc_claim_text :: string
  gc_grounding_quote :: string
  gc_source_chunk_id :: string

record system_fact =
  sf_fact_text :: string
  sf_origin :: string
  sf_origin_id :: string

record claim_verification =
  cl_claim_text :: string
  cl_supported :: bool
  cl_reason :: string
  cl_confidence :: rat

record ungrounded_example =
  ue_claim_text :: string
  ue_llm_grounding_quote :: string
  ue_cited_chunk_id :: string
  ue_chunk_exists :: bool
  ue_source_excerpt :: string
  ue_diagnosis_hint :: string

record synthesis_response =
  sr_executive_summary :: string
  sr_compliance_narrative :: string
  sr_scoring_narrative :: string
  sr_recommendation_rationale :: string
  sr_grounded_claims :: "grounded_claim list"
  sr_system_facts :: "system_fact list"

record vendor_narrative =
  vn_vendor_id :: string
  vn_executive_summary :: string
  vn_compliance_narrative :: string
  vn_scoring_narrative :: string
  vn_recommendation_rationale :: string
  vn_grounded_claims :: "grounded_claim list"
  vn_ungrounded_claims_removed :: nat
  vn_system_facts :: "system_fact list"
  vn_ungrounded_examples :: "ungrounded_example list"
  vn_prose_verification :: "claim_verification list"
  vn_prose_verification_score :: rat

record explanation_output =
  ex_executive_summary :: string
  ex_vendor_narratives :: "vendor_narrative list"
  ex_methodology_note :: string
  ex_limitations :: "string list"
  ex_grounding_completeness :: rat
  ex_report_confidence :: rat

section \<open>schema_planner_critic.py\<close>

datatype task_type = Retrieve | Extract | MandatoryCheck | Scoring | Compare | Decide | Explain

text \<open>\<open>TaskItem.inputs\<close> is a dict with the keys of its task type; \<open>agent\<close> is fixed by the type.\<close>

datatype task_inputs =
    RetrieveInputs string string
  | ExtractInputs string "string list"
  | CheckInputs string "string list"
  | ScoreInputs string "string list"
  | VendorInputs "string list"

record task_item =
  ti_task_id :: string
  ti_task_type :: task_type
  ti_agent :: string
  ti_inputs :: task_inputs
  ti_depends_on :: "string list"
  ti_priority :: nat

record planner_output =
  po_vendor_ids :: "string list"
  po_tasks :: "task_item list"
  po_estimated_duration_seconds :: nat
  po_confidence :: rat
  po_warnings :: "string list"

record critic_flag =
  cf_severity :: critic_severity
  cf_agent :: string
  cf_check_name :: string
  cf_description :: string
  cf_recommendation :: string
  cf_auto_resolvable :: bool

record critic_output =
  co_evaluated_agent :: string
  co_flags :: "critic_flag list"
  co_hard_flag_count :: nat
  co_soft_flag_count :: nat
  co_overall_verdict :: critic_verdict
  co_requires_human_review :: bool

section \<open>platform.yaml settings the modelled code reads\<close>

record approval_tier =
  at_tier :: int
  at_approver_role :: string
  at_max_value :: "rat option"
  at_sla_hours :: nat

record self_consistency_cfg =
  sk_enabled :: bool
  sk_samples :: nat
  sk_confidence_min :: rat
  sk_confidence_max :: rat

record synthesis_verification_cfg =
  sy_enabled :: bool
  sy_confidence_floor :: rat
  sy_block_below :: rat
  sy_warn_below :: rat

record platform_cfg =
  pc_injection_block_threshold :: nat
  pc_approval_tiers :: "approval_tier list"
  pc_recommendation_thresholds :: "(string, rat) dict"
  pc_min_coverage_for_trust :: rat
  pc_self_consistency :: self_consistency_cfg
  pc_synthesis_verification :: synthesis_verification_cfg
  pc_retrieval_critic_max_retries :: nat
  pc_retrieval_critic_confidence_floor :: rat
  pc_generation_critic_max_retries :: nat
  pc_rerank_degraded_factor :: rat
  pc_task_duration_estimate_seconds :: nat
  pc_extraction_critic_max_retries :: nat
  pc_extraction_critic_confidence_floor :: rat

text \<open>The values of the shipped \<open>app/config/platform.yaml\<close>.\<close>

definition default_cfg :: platform_cfg where
  "default_cfg = \<lparr>
     pc_injection_block_threshold = 1,
     pc_approval_tiers =
       [\<lparr>at_tier = 1, at_approver_role = ''department_head'', at_max_value = Some 100000, at_sla_hours = 24\<rparr>,
        \<lparr>at_tier = 2, at_approver_role = ''regional_director'', at_max_value = Some 500000, at_sla_hours = 48\<rparr>,
        \<lparr>at_tier = 3, at_approver_role = ''cfo'', at_max_value = Some 1000000, at_sla_hours = 72\<rparr>,
        \<lparr>at_tier = 4, at_approver_role = ''board'', at_max_value = None, at_sla_hours = 120\<rparr>],
     pc_recommendation_thresholds =
       [(''strongly_recommended'', 8), (''recommended'', 6), (''acceptable'', 4), (''marginal'', 0)],
     pc_min_coverage_for_trust = 1 / 2,
     pc_self_consistency =
       \<lparr>sk_enabled = True, sk_samples = 3, sk_confidence_min = 1 / 2, sk_confidence_max = 3 / 4\<rparr>,
     pc_synthesis_verification =
       \<lparr>sy_enabled = True, sy_confidence_floor = 7 / 10, sy_block_below = 7 / 10, sy_warn_below = 9 / 10\<rparr>,
     pc_retrieval_critic_max_retries = 1,
     pc_retrieval_critic_confidence_floor = 6 / 10,
     pc_generation_critic_max_retries = 2,
     pc_rerank_degraded_factor = 8 / 10,
     pc_task_duration_estimate_seconds = 30,
     pc_extraction_critic_max_retries = 1,
     pc_extraction_critic_confidence_floor = 7 / 10\<rparr>"

end
