(* ===== verification/Grounding.thy ===== *)
theory Grounding
  imports Schemas
begin

text \<open>
  The grounding checks of \<open>app/agents/explanation.py\<close> that both the Explanation agent and
  the Critic use: \<open>verify_grounding\<close> (is a quote a whitespace-normalised substring of its
  chunk?) and \<open>compute_grounding\<close> (which share of the PDF claims survived?).
\<close>

definition verify_grounding :: "string \<Rightarrow> string \<Rightarrow> (string, string) dict \<Rightarrow> bool" where
  "verify_grounding grounding_quote source_chunk_id source_chunks =
     (let source = get_default source_chunks source_chunk_id []
      in if source = [] \<or> grounding_quote = [] then False
         else contains_str (ws_norm grounding_quote) (ws_norm source))"

definition claim_total :: "vendor_narrative \<Rightarrow> nat" where
  "claim_total n = length (vn_grounded_claims n) + vn_ungrounded_claims_removed n"

definition base_limitations :: "vendor_narrative \<Rightarrow> string list" where
  "base_limitations n =
     (if 0 < vn_ungrounded_claims_removed n
      then [vn_vendor_id n @ '': '' @ show_nat (vn_ungrounded_claims_removed n) @
            '' unverified claim(s) removed.''] else []) @
     (if length (vn_grounded_claims n) = 0
      then [vn_vendor_id n @ '': zero grounded claims'' @ dash @
            ''narrative has no verifiable content.''] else [])"

definition compute_grounding :: "vendor_narrative list \<Rightarrow> rat \<times> nat \<times> string list" where
  "compute_grounding vendor_narratives =
     (let claim_bearing = filter (\<lambda>n. 0 < claim_total n) vendor_narratives;
          total_claims = sum_list (map claim_total claim_bearing);
          grounded_claims = sum_list (map (\<lambda>n. length (vn_grounded_claims n)) claim_bearing);
          grounding_completeness =
            (if 0 < total_claims then of_nat grounded_claims / of_nat total_claims else 1);
          limitations =
            (if total_claims = 0
             then [''No grounded claims were produced for any vendor'' @ dash @
                   ''narratives may be empty. Check source chunks and re-run.''] else []) @
            concat (map base_limitations vendor_narratives)
      in (py_round 3 grounding_completeness, total_claims, limitations))"

section \<open>What the two functions promise\<close>

lemma verify_groundingD:
  assumes "verify_grounding q c chunks"
  shows "\<exists>source. dict_get chunks c = Some source \<and> source \<noteq> [] \<and> q \<noteq> [] \<and>
    contains_str (ws_norm q) (ws_norm source)"
  using assms by (auto simp: verify_grounding_def get_default_def Let_def split: if_splits option.splits)

lemma verify_grounding_mono:
  assumes "verify_grounding q c chunks"
    and "\<And>k v. dict_get chunks k = Some v \<Longrightarrow> dict_get chunks' k = Some v"
  shows "verify_grounding q c chunks'"
  using verify_groundingD[OF assms(1)] assms(2)
  by (auto simp: verify_grounding_def get_default_def Let_def)

lemma sum_claims_filter:
  "sum_list (map claim_total (filter (\<lambda>n. 0 < claim_total n) ns)) = sum_list (map claim_total ns)"
  by (induction ns) auto

lemma sum_grounded_filter:
  "sum_list (map (\<lambda>n. length (vn_grounded_claims n)) (filter (\<lambda>n. 0 < claim_total n) ns))
   = sum_list (map (\<lambda>n. length (vn_grounded_claims n)) ns)"
  by (induction ns) (auto simp: claim_total_def)

lemma sum_grounded_le:
  "sum_list (map (\<lambda>n. length (vn_grounded_claims n)) ns) \<le> sum_list (map claim_total ns)"
  by (induction ns) (auto simp: claim_total_def)

lemma compute_grounding_total: "fst (snd (compute_grounding ns)) = sum_list (map claim_total ns)"
  by (simp add: compute_grounding_def Let_def sum_claims_filter)

lemma compute_grounding_score:
  "fst (compute_grounding ns) =
     (if 0 < sum_list (map claim_total ns)
      then py_round 3 (of_nat (sum_list (map (\<lambda>n. length (vn_grounded_claims n)) ns)) /
                       of_nat (sum_list (map claim_total ns)))
      else 1)"
  unfolding compute_grounding_def Let_def sum_claims_filter sum_grounded_filter
  by (cases "0 < sum_list (map claim_total ns)") (simp_all only: if_True if_False fst_conv py_round_1)

lemma compute_grounding_unit: "0 \<le> fst (compute_grounding ns) \<and> fst (compute_grounding ns) \<le> 1"
proof (cases "0 < sum_list (map claim_total ns)")
  case True
  have "(of_nat (sum_list (map (\<lambda>n. length (vn_grounded_claims n)) ns)) :: rat)
        \<le> of_nat (sum_list (map claim_total ns))"
    using sum_grounded_le by (simp only: of_nat_le_iff)
  with True show ?thesis
    unfolding compute_grounding_score by (simp only: if_True) (rule py_round_unit, simp_all)
next
  case False
  then show ?thesis by (simp only: compute_grounding_score if_False) simp
qed

lemma compute_grounding_Nil: "compute_grounding [] =
  (1, 0, [''No grounded claims were produced for any vendor'' @ dash @
          ''narratives may be empty. Check source chunks and re-run.''])"
  by (simp add: compute_grounding_def Let_def)

end
