(* ===== verification/Critic.thy ===== *)
theory Critic
  imports Grounding
begin

text \<open>
  \<open>app/agents/critic.py\<close>: the guard that runs after every other agent. One definition per
  \<open>critic_after_*\<close> function, each building its list of flags in the code's order, the
  verdict \<open>_verdict\<close> over the flags, and the gate \<open>_hard_block_if\<close> of
  \<open>app/pipeline/nodes.py\<close> that turns a BLOCKED verdict into an exception. The locale
  \<open>critic_contract\<close> is what every caller relies on; it is interpreted for all eight critics.
\<close>

section \<open>Flags and verdicts\<close>

definition make_flag :: "critic_severity \<Rightarrow> string \<Rightarrow> string \<Rightarrow> string \<Rightarrow> string \<Rightarrow> critic_flag" where
  "make_flag severity agent check description recommendation =
     \<lparr>cf_severity = severity, cf_agent = agent, cf_check_name = check, cf_description = description,
      cf_recommendation = recommendation, cf_auto_resolvable = False\<rparr>"

definition escalates :: "critic_flag \<Rightarrow> bool" where
  "escalates f = contains_str ''escalate'' (lower (cf_recommendation f))"

definition verdict :: "critic_flag list \<Rightarrow> critic_verdict" where
  "verdict flags =
     (let hard = list_ex (\<lambda>f. cf_severity f = HARD) flags;
          escalated = list_ex escalates (filter (\<lambda>f. cf_severity f = HARD) flags);
          soft = list_ex (\<lambda>f. cf_severity f = SOFT) flags
      in if escalated then ESCALATED
         else if hard then BLOCKED
         else if soft then APPROVED_WITH_WARNINGS
         else APPROVED)"

definition critic_out :: "string \<Rightarrow> critic_flag list \<Rightarrow> critic_output" where
  "critic_out agent flags =
     \<lparr>co_evaluated_agent = agent, co_flags = flags,
      co_hard_flag_count = count_if (\<lambda>f. cf_severity f = HARD) flags,
      co_soft_flag_count = count_if (\<lambda>f. cf_severity f = SOFT) flags,
      co_overall_verdict = verdict flags,
      co_requires_human_review = list_ex (\<lambda>f. cf_severity f = HARD) flags\<rparr>"

section \<open>The critics\<close>

definition critic_after_planner :: "planner_output \<Rightarrow> string list \<Rightarrow> critic_output" where
  "critic_after_planner output validation_errors = critic_out ''planner_agent''
     ((if po_vendor_ids output = []
       then [make_flag HARD ''planner_agent'' ''no_vendors''
              (''Plan contains no vendor IDs'' @ dash @ ''nothing to evaluate'')
              ''Provide at least one vendor ID before running evaluation.''] else []) @
      (if po_tasks output = []
       then [make_flag HARD ''planner_agent'' ''empty_plan'' ''Plan contains no tasks''
              ''Plan generation failed. Check evaluation_setup is complete.''] else []) @
      map (\<lambda>error. make_flag HARD ''planner_agent'' ''plan_validation_error'' error
              (''Fix evaluation_setup before proceeding'' @ dash @
               ''plan does not cover all requirements.'')) validation_errors)"

definition injection_flags :: "platform_cfg \<Rightarrow> ingestion_output \<Rightarrow> critic_flag list" where
  "injection_flags cfg output =
     (let findings = io_injection_findings output;
          poisoned_chunks = remdups (map if_chunk_id findings);
          patterns_hit = sort (remdups (map if_pattern_name findings))
      in if findings \<noteq> [] \<and> pc_injection_block_threshold cfg \<le> length poisoned_chunks
         then [make_flag HARD ''ingestion_agent'' ''prompt_injection_detected''
                (''Vendor document contains text engineered to manipulate the LLM ('' @
                 show_nat (length poisoned_chunks) @ '' chunk(s); patterns: '' @
                 join '', '' patterns_hit @ '')'')
                (''Quarantine this document and require human security review before '' @
                 ''any further processing. Do NOT evaluate'' @ dash @ ''the proposal contains '' @
                 ''prompt-injection content. Confirm with the vendor before proceeding.'')]
         else [])"

definition critic_after_ingestion :: "platform_cfg \<Rightarrow> ingestion_output \<Rightarrow> critic_output" where
  "critic_after_ingestion cfg output = critic_out ''ingestion_agent''
     (injection_flags cfg output @
      (if io_quality_score output < 4 / 10
       then [make_flag HARD ''ingestion_agent'' ''quality_score_critical''
              (''Document quality score below 0.4'' @ dash @ ''document may be unreadable'')
              ''Reject document. Ask vendor to resubmit as a digital PDF.'']
       else if io_quality_score output < 65 / 100
       then [make_flag SOFT ''ingestion_agent'' ''quality_score_low''
              ''Document quality score below 0.65''
              ''Proceed with caution. Some sections may not be retrievable.'']
       else []) @
      (if get_default (io_chunks_by_type output) ''requirement_response'' 0 = 0
       then [make_flag HARD ''ingestion_agent'' ''no_requirement_sections''
              ''Zero requirement_response sections found''
              (''Document does not address any RFP requirements. '' @
               ''Do not evaluate. Contact vendor.'')] else []) @
      (if io_status output = ''duplicate''
       then [(make_flag SOFT ''ingestion_agent'' ''duplicate_document''
              ''Document already ingested with identical content''
              ''Skip re-ingestion. Use existing data.'')\<lparr>cf_auto_resolvable := True\<rparr>] else []))"

definition critic_after_retrieval :: "retrieval_output \<Rightarrow> bool \<Rightarrow> critic_output" where
  "critic_after_retrieval output is_mandatory = critic_out ''retrieval_agent''
     ((if ro_empty_retrieval output
       then [make_flag (if is_mandatory then HARD else SOFT) ''retrieval_agent'' ''empty_retrieval''
              (''Retrieval returned zero chunks'' @
               (if is_mandatory then '' for mandatory requirement'' else []))
              (''Widen search query and retry. If still empty, '' @
               ''mark as insufficient_evidence.'')] else []) @
      (if ro_reranking_degraded output
       then [make_flag SOFT ''retrieval_agent'' ''reranking_degraded''
              (''Reranker was unavailable'' @ dash @ ''retrieval fell back to vector-score order, '' @
               ''which lowers result precision (common cause: air-gapped box with no '' @
               ''model access). Results are usable but not reranked.'')
              (''Check RERANKER_PROVIDER / model availability for this deployment. '' @
               ''Set RERANKER_PROVIDER=modal (GPU, no local HF egress) or =none if '' @
               ''reranking is intentionally disabled.'')] else []) @
      (if \<not> ro_empty_retrieval output \<and> \<not> ro_reranking_degraded output \<and>
          ro_confidence output < 4 / 10
       then [make_flag SOFT ''retrieval_agent'' ''low_retrieval_confidence''
              (''Retrieval confidence '' @ fmt_fixed 2 (ro_confidence output) @ '' is below 0.4'' @ dash @
               ''vendor document may not address this criterion'')
              (''Review retrieved chunks manually. Consider broadening query or checking '' @
               ''if vendor document covers this requirement.'')] else []) @
      (if \<not> ro_empty_retrieval output
       then (if filter rc_is_answer_bearing (ro_chunks output) = []
             then [make_flag SOFT ''retrieval_agent'' ''no_answer_bearing_chunks''
                    ''Retrieved chunks do not appear to contain answer-bearing content''
                    ''Try HyDE retrieval or broaden query.''] else []) @
            (if list_all (\<lambda>c. rc_section_type c = ''background'') (ro_chunks output) \<and> is_mandatory
             then [make_flag SOFT ''retrieval_agent'' ''wrong_section_type''
                    (''All retrieved chunks are from '' @ quoted ''background'' @ '' sections'')
                    ''Add section_type filter for requirement_response.''] else [])
       else []))"

definition all_items :: "extraction_output \<Rightarrow> extracted_item list" where
  "all_items output =
     map CertificationItem (xo_certifications output) @ map InsuranceItem (xo_insurance output) @
     map SLAItem (xo_slas output) @ map ProjectItem (xo_projects output) @
     map PricingItem (xo_pricing output) @ map FactItem (xo_extracted_facts output)"

definition item_fails_grounding :: "(string, string) dict \<Rightarrow> extracted_item \<Rightarrow> bool" where
  "item_fails_grounding source_chunks item =
     (let source_text = get_default source_chunks (xi_source_chunk_id item) []
      in source_text \<noteq> [] \<and> xi_grounding_quote item \<noteq> [] \<and>
         \<not> contains_str (ws_norm (xi_grounding_quote item)) (ws_norm source_text))"

definition critic_after_extraction :: "extraction_output \<Rightarrow> (string, string) dict \<Rightarrow> critic_output" where
  "critic_after_extraction output source_chunks =
     (let items = all_items output;
          failed = filter (item_fails_grounding source_chunks) items;
          grounding_failures = length failed;
          total = length items
      in critic_out ''extraction_agent''
        (map (\<lambda>item. make_flag SOFT ''extraction_agent'' ''grounding_verification_failed''
               (''Grounding quote not found verbatim'' @ dash @ ''possible paraphrase, review manually'')
               ''Flag for human review. Facts are saved but auditability is reduced.'') failed @
         (if total \<noteq> 0 \<and> total div 2 < grounding_failures
          then [make_flag HARD ''extraction_agent'' ''high_hallucination_risk''
                 (''Majority of facts unverifiable ('' @ show_nat grounding_failures @ ''/'' @
                  show_nat total @ '')'')
                 ''Do not use extracted facts. Re-run extraction.''] else []) @
         (if xo_extraction_completeness output < 1 / 2
          then [make_flag SOFT ''extraction_agent'' ''low_extraction_completeness''
                 (''Only '' @ fmt_pct (xo_extraction_completeness output) @
                  '' of required fields extracted'')
                 ''Vendor may not have addressed all requirements.''] else [])))"

definition compliance_flags :: "compliance_decision \<Rightarrow> critic_flag list" where
  "compliance_flags d =
     (if cd_decision d = PASS \<and> cd_decision_basis d = IMPLICIT_CONFIRMATION
      then [make_flag SOFT ''evaluation_agent'' ''implicit_confirmation_on_mandatory''
             (''Check '' @ cd_check_id d @ '' passed on implicit confirmation only'')
             ''Mandatory requirements need explicit confirmation.''] else []) @
     (if cd_contradictions_found d \<noteq> []
      then let resolved = (cd_decision d = INSUFFICIENT_EVIDENCE)
           in [make_flag (if resolved then SOFT else HARD) ''evaluation_agent''
                ''contradictions_in_evidence''
                (''Check '' @ cd_check_id d @ '' has contradictory evidence'')
                (if resolved then ''Resolved to insufficient_evidence; flag for human review.''
                 else ''Cannot make reliable decision. Human review required.'')]
      else [])"

definition variance_flags :: "criterion_score \<Rightarrow> critic_flag list" where
  "variance_flags s =
     (if 2 \<le> cs_variance_estimate s
      then [make_flag SOFT ''evaluation_agent'' ''high_score_variance''
             (''Score for '' @ cs_criterion_id s @ '' has high variance (+/-'' @
              show_float (cs_variance_estimate s) @ '')'')
             ''Score may not be reliable. Note in report.''] else [])"

definition critic_after_evaluation :: "evaluation_output \<Rightarrow> critic_output" where
  "critic_after_evaluation output = critic_out ''evaluation_agent''
     (concat (map compliance_flags (eo_compliance_decisions output)) @
      concat (map variance_flags (eo_criterion_scores output)))"

definition missing_vendors :: "comparator_output \<Rightarrow> string list" where
  "missing_vendors output =
     filter (\<lambda>v. v \<notin> set (cp_overall_ranking output)) (remdups (cp_vendor_ids output))"

definition critic_after_comparator :: "comparator_output \<Rightarrow> critic_output" where
  "critic_after_comparator output =
     (let missing = missing_vendors output;
          unstable = filter (\<lambda>cc. \<not> cc_rank_stable cc) (cp_criteria_comparisons output)
      in critic_out ''comparator_agent''
        ((if cp_overall_ranking output = []
          then [make_flag HARD ''comparator_agent'' ''empty_ranking''
                 ''Comparator produced no overall ranking''
                 ''Cannot proceed to Decision Agent without a ranking.''] else []) @
         (if missing \<noteq> []
          then [make_flag HARD ''comparator_agent'' ''vendors_missing_from_ranking''
                 (show_nat (length missing) @ '' vendor(s) requested but absent from overall ranking'')
                 (''Evaluation likely failed for these vendors. '' @
                  ''Do not proceed to Decision Agent'' @ dash @
                  ''ranking is incomplete. Escalate to human review.'')] else []) @
         (if cp_ranking_confidence output < 1 / 2
          then [make_flag SOFT ''comparator_agent'' ''low_ranking_confidence''
                 (''Ranking confidence is low ('' @ fmt_fixed 2 (cp_ranking_confidence output) @ '')'')
                 (''Note in report'' @ dash @ ''ranking may not be reliable.'')] else []) @
         (if unstable \<noteq> []
          then [make_flag SOFT ''comparator_agent'' ''unstable_criterion_rankings''
                 (''Rankings unstable for '' @ show_nat (length unstable) @
                  '' criteria due to narrow margins'')
                 (''Flag in report'' @ dash @ ''score margins too close for reliable ranking.'')]
          else [])))"

definition critic_after_decision :: "decision_output \<Rightarrow> critic_output" where
  "critic_after_decision output = critic_out ''decision_agent''
     (concat (map (\<lambda>rej. if rn_evidence_citations rej = []
        then [make_flag HARD ''decision_agent'' ''rejection_without_evidence''
               (''Vendor '' @ rn_vendor_id rej @ '' rejected without evidence'')
               (''CANNOT REJECT WITHOUT EVIDENCE. Legal exposure. '' @
                ''Find evidence or change decision.'')] else []) (do_rejected_vendors output)) @
      (if do_requires_human_review output \<and> do_review_reasons output \<noteq> []
       then concat (map (\<lambda>reason. if contains_str ''insufficient evidence'' (lower reason)
              then [make_flag SOFT ''decision_agent'' ''shortlisted_vendor_unresolved_checks'' reason
                     (''Flag in report. Approver must confirm these checks before award.'')]
              else []) (do_review_reasons output)) else []) @
      (if do_shortlisted_vendors output = [] \<and> do_rejected_vendors output \<noteq> []
       then [make_flag HARD ''decision_agent'' ''all_vendors_rejected'' ''All vendors were rejected''
              (''ESCALATE. Requirements may be too restrictive. '' @
               ''Review mandatory requirements with procurement team.'')] else []))"

section \<open>The Explanation critic\<close>

definition grounding_band_flags :: "explanation_output \<Rightarrow> critic_flag list" where
  "grounding_band_flags output =
     (if ex_grounding_completeness output < 70 / 100
      then [make_flag HARD ''explanation_agent'' ''low_grounding_completeness''
             (''Only '' @ fmt_pct (ex_grounding_completeness output) @ '' of claims are grounded'')
             ''Report contains too many unverified claims. Do not send to customer.'']
      else if ex_grounding_completeness output < 90 / 100
      then [make_flag SOFT ''explanation_agent'' ''moderate_grounding''
             (''Grounding completeness '' @ fmt_pct (ex_grounding_completeness output))
             ''Report contains some unverified claims. Review before sending.'']
      else [])"

definition claim_free_flags :: "explanation_output \<Rightarrow> critic_flag list" where
  "claim_free_flags output =
     (if fst (snd (compute_grounding (ex_vendor_narratives output))) = 0
      then [make_flag SOFT ''explanation_agent'' ''claim_free_report''
             (''Report contains no PDF-grounded claims'' @ dash @ ''grounding_completeness is '' @
              ''vacuously 1.0 (nothing to ground, not 100% verified)'')
             (''Report content rests entirely on system determinations '' @
              ''(rejections/conflicts). Human review recommended before sending.'')]
      else [])"

definition narrative_flags :: "vendor_narrative \<Rightarrow> critic_flag list" where
  "narrative_flags n =
     (if length (vn_grounded_claims n) = 0 \<and> vn_ungrounded_claims_removed n = 0 \<and>
         length (vn_system_facts n) = 0
      then [make_flag HARD ''explanation_agent'' ''empty_narrative''
             (''Vendor '' @ vn_vendor_id n @ '' has zero claims'' @ dash @
              ''LLM produced no narrative content'')
             ''LLM failed to generate any claims. Check source chunks and retry.'']
      else if length (vn_grounded_claims n) = 0 \<and> 0 < vn_ungrounded_claims_removed n
      then [make_flag HARD ''explanation_agent'' ''all_claims_ungrounded''
             (''All '' @ show_nat (vn_ungrounded_claims_removed n) @ '' claims for '' @ vn_vendor_id n @
              '' failed grounding verification'' @ dash @ ''no verifiable content remains'')
             (''LLM is hallucinating. Source chunks may be insufficient. Do not publish report.'')]
      else if 3 < vn_ungrounded_claims_removed n
      then [make_flag SOFT ''explanation_agent'' ''many_claims_removed''
             (''Explanation agent removed '' @ show_nat (vn_ungrounded_claims_removed n) @
              '' ungrounded claims for '' @ vn_vendor_id n)
             ''High hallucination in explanation. Check source data quality.'']
      else [])"

definition apos_s :: string where
  "apos_s = [CHR 0x27, CHR ''s'']"

definition prose_flags :: "synthesis_verification_cfg \<Rightarrow> vendor_narrative \<Rightarrow> critic_flag list" where
  "prose_flags sv n =
     (let verifications = vn_prose_verification n;
          score = vn_prose_verification_score n;
          unsupported = map cl_claim_text (filter (\<lambda>v. \<not> cl_supported v) verifications)
      in if verifications = [] then []
         else if score < sy_block_below sv
         then [make_flag HARD ''explanation_agent'' ''unsupported_prose_claims''
                (''Only '' @ fmt_pct score @ '' of '' @ vn_vendor_id n @
                 apos_s @ '' narrative prose claims are supported by evidence'' @ dash @
                 show_nat (length unsupported) @ '' unsupported'')
                (''Narrative prose contains claims not backed by source evidence. '' @
                 ''Do not send to customer'' @ dash @ ''regenerate the narrative.'')]
         else if score < sy_warn_below sv
         then [make_flag SOFT ''explanation_agent'' ''weak_prose_support''
                (vn_vendor_id n @ apos_s @ '' narrative prose is '' @ fmt_pct score @ '' supported'' @
                 dash @ show_nat (length unsupported) @ '' claim(s) lack evidence'')
                ''Some narrative prose claims are unsupported. Review before sending.'']
         else [])"

definition claim_fails_grounding :: "(string, string) dict \<Rightarrow> grounded_claim \<Rightarrow> bool" where
  "claim_fails_grounding source_chunks claim =
     (let source = get_default source_chunks (gc_source_chunk_id claim) []
      in source \<noteq> [] \<and> gc_grounding_quote claim \<noteq> [] \<and>
         \<not> contains_str (ws_norm (gc_grounding_quote claim)) (ws_norm source))"

text \<open>The inner loop looks at the first five claims and stops at the first failure.\<close>

definition reverify_flags :: "(string, string) dict \<Rightarrow> vendor_narrative \<Rightarrow> critic_flag list" where
  "reverify_flags source_chunks n =
     (if list_ex (claim_fails_grounding source_chunks) (take 5 (vn_grounded_claims n))
      then [make_flag HARD ''explanation_agent'' ''grounding_verification_failed''
             ''Claim grounding quote not found in source''
             ''HALLUCINATION. Remove claim from report.''] else [])"

definition critic_after_explanation ::
  "platform_cfg \<Rightarrow> explanation_output \<Rightarrow> (string, string) dict \<Rightarrow> critic_output" where
  "critic_after_explanation cfg output source_chunks =
     (let sv = pc_synthesis_verification cfg
      in critic_out ''explanation_agent''
        (grounding_band_flags output @
         claim_free_flags output @
         concat (map narrative_flags (ex_vendor_narratives output)) @
         (if sy_enabled sv then concat (map (prose_flags sv) (ex_vendor_narratives output)) else []) @
         concat (map (reverify_flags source_chunks) (ex_vendor_narratives output))))"

section \<open>The pipeline gate, \<open>_hard_block_if\<close> in nodes.py\<close>

definition hard_descriptions :: "critic_output \<Rightarrow> string list" where
  "hard_descriptions critic = map cf_description (filter (\<lambda>f. cf_severity f = HARD) (co_flags critic))"

definition hard_block_if :: "critic_output \<Rightarrow> string \<Rightarrow> unit result" where
  "hard_block_if critic ctx =
     (if co_overall_verdict critic = BLOCKED
      then Inl (RuntimeError (''[CRITIC BLOCK] '' @ ctx @ '': '' @
                 join ''; '' (hard_descriptions critic)))
      else Inr ())"

end
