(* ===== verification/Critic_Laws.thy ===== *)
theory Critic_Laws
  imports Critic
begin

text \<open>
  What every caller of a critic relies on. \<open>critic_contract\<close> states that a critic's verdict,
  counts and review bit are computed from its flags; \<open>plain_critic\<close> adds that no HARD flag
  asks for escalation, so that HARD and BLOCKED coincide and the pipeline gate is exact. All
  critics meet the first; the Comparator's and the Decision's do not meet the second, which
  is what the properties about the gate show.
\<close>

section \<open>The verdict over a list of flags\<close>

lemma verdict_ESCALATED_iff:
  "verdict fs = ESCALATED \<longleftrightarrow> (\<exists>f \<in> set fs. cf_severity f = HARD \<and> escalates f)"
  by (auto simp: verdict_def Let_def list_ex_iff)

lemma verdict_BLOCKED_iff:
  "verdict fs = BLOCKED \<longleftrightarrow>
     (\<exists>f \<in> set fs. cf_severity f = HARD) \<and> (\<forall>f \<in> set fs. cf_severity f = HARD \<longrightarrow> \<not> escalates f)"
  by (auto simp: verdict_def Let_def list_ex_iff)

lemma verdict_WARNINGS_iff:
  "verdict fs = APPROVED_WITH_WARNINGS \<longleftrightarrow>
     (\<forall>f \<in> set fs. cf_severity f \<noteq> HARD) \<and> (\<exists>f \<in> set fs. cf_severity f = SOFT)"
  by (auto simp: verdict_def Let_def list_ex_iff)

lemma verdict_APPROVED_iff:
  "verdict fs = APPROVED \<longleftrightarrow> (\<forall>f \<in> set fs. cf_severity f = LOG)"
proof -
  have "cf_severity f = LOG \<longleftrightarrow> cf_severity f \<noteq> HARD \<and> cf_severity f \<noteq> SOFT" for f
    by (cases "cf_severity f") auto
  then show ?thesis by (auto simp: verdict_def Let_def list_ex_iff)
qed

lemmas verdict_iffs =
  verdict_ESCALATED_iff verdict_BLOCKED_iff verdict_WARNINGS_iff verdict_APPROVED_iff

lemma critic_out_sel [simp]:
  "co_flags (critic_out a fs) = fs"
  "co_evaluated_agent (critic_out a fs) = a"
  "co_overall_verdict (critic_out a fs) = verdict fs"
  "co_hard_flag_count (critic_out a fs) = count_if (\<lambda>f. cf_severity f = HARD) fs"
  "co_requires_human_review (critic_out a fs) = list_ex (\<lambda>f. cf_severity f = HARD) fs"
  by (simp_all add: critic_out_def)

lemma make_flag_sel [simp]:
  "cf_severity (make_flag s a c d r) = s"
  "cf_agent (make_flag s a c d r) = a"
  "cf_check_name (make_flag s a c d r) = c"
  "cf_description (make_flag s a c d r) = d"
  "cf_recommendation (make_flag s a c d r) = r"
  by (simp_all add: make_flag_def)

lemma escalates_make_flag: "escalates (make_flag s a c d r) = contains_str ''escalate'' (lower r)"
  by (simp add: escalates_def)

lemma escalates_auto_resolvable [simp]: "escalates (f\<lparr>cf_auto_resolvable := b\<rparr>) = escalates f"
  by (simp add: escalates_def)

text \<open>Evaluating the escalation test on a literal recommendation.\<close>

lemmas rec_eval = escalates_make_flag lower_def lower_char_def starts_with_def dash_def em_dash_def

section \<open>The contract of a critic\<close>

locale critic_contract =
  fixes critic :: "'x \<Rightarrow> critic_output" and agent :: string
  assumes from_flags: "critic x = critic_out agent (co_flags (critic x))"
    and own_flags: "f \<in> set (co_flags (critic x)) \<Longrightarrow> cf_agent f = agent"
begin

lemma agent_is: "co_evaluated_agent (critic x) = agent"
  by (subst from_flags) simp

lemma verdict_is: "co_overall_verdict (critic x) = verdict (co_flags (critic x))"
  by (subst from_flags) simp

lemma review_iff: "co_requires_human_review (critic x) \<longleftrightarrow>
  (\<exists>f \<in> set (co_flags (critic x)). cf_severity f = HARD)"
  by (subst from_flags) (simp add: list_ex_iff)

lemma review_iff_count: "co_requires_human_review (critic x) \<longleftrightarrow> 0 < co_hard_flag_count (critic x)"
proof -
  have "co_hard_flag_count (critic x) = count_if (\<lambda>f. cf_severity f = HARD) (co_flags (critic x))"
    by (subst from_flags) simp
  then show ?thesis by (auto simp: review_iff count_if_def length_greater_0_conv filter_empty_conv)
qed

lemma gate_raises_iff:
  "hard_block_if (critic x) ctx \<noteq> Inr () \<longleftrightarrow> co_overall_verdict (critic x) = BLOCKED"
  by (simp add: hard_block_if_def)

text \<open>The gate lets a critic through iff it raised no HARD flag or one of them escalates.\<close>

lemma gate_passes_iff:
  "hard_block_if (critic x) ctx = Inr () \<longleftrightarrow>
     (\<forall>f \<in> set (co_flags (critic x)). cf_severity f \<noteq> HARD) \<or>
     (\<exists>f \<in> set (co_flags (critic x)). cf_severity f = HARD \<and> escalates f)"
proof -
  have "hard_block_if (critic x) ctx = Inr () \<longleftrightarrow> co_overall_verdict (critic x) \<noteq> BLOCKED"
    using gate_raises_iff by blast
  then show ?thesis by (auto simp: verdict_is verdict_BLOCKED_iff)
qed

lemma blocked_needs_review:
  "co_overall_verdict (critic x) \<in> {BLOCKED, ESCALATED} \<longleftrightarrow> co_requires_human_review (critic x)"
  by (auto simp: verdict_is verdict_iffs review_iff)

end

locale plain_critic = critic_contract +
  assumes no_escalation: "f \<in> set (co_flags (critic x)) \<Longrightarrow> cf_severity f = HARD \<Longrightarrow> \<not> escalates f"
begin

lemma blocked_iff: "co_overall_verdict (critic x) = BLOCKED \<longleftrightarrow>
  (\<exists>f \<in> set (co_flags (critic x)). cf_severity f = HARD)"
  using no_escalation by (auto simp: verdict_is verdict_BLOCKED_iff)

lemma never_escalated: "co_overall_verdict (critic x) \<noteq> ESCALATED"
  using no_escalation by (auto simp: verdict_is verdict_ESCALATED_iff)

lemma gate_exact: "hard_block_if (critic x) ctx = Inr () \<longleftrightarrow> \<not> co_requires_human_review (critic x)"
  using no_escalation by (auto simp: gate_passes_iff review_iff)

end

section \<open>The critics meet their contracts\<close>

lemmas critic_defs =
  critic_after_planner_def critic_after_ingestion_def injection_flags_def critic_after_retrieval_def
  critic_after_extraction_def critic_after_evaluation_def compliance_flags_def variance_flags_def
  critic_after_comparator_def critic_after_decision_def critic_after_explanation_def
  grounding_band_flags_def claim_free_flags_def narrative_flags_def prose_flags_def reverify_flags_def

interpretation planner_critic: plain_critic "\<lambda>(output, errors). critic_after_planner output errors"
    "''planner_agent''"
  by unfold_locales (auto simp: critic_after_planner_def rec_eval split: if_splits)

interpretation ingestion_critic: plain_critic "critic_after_ingestion cfg" "''ingestion_agent''" for cfg
  by unfold_locales
    (auto simp: critic_after_ingestion_def injection_flags_def Let_def rec_eval split: if_splits)

interpretation retrieval_critic: plain_critic "\<lambda>(output, m). critic_after_retrieval output m"
    "''retrieval_agent''"
  by unfold_locales (auto simp: critic_after_retrieval_def rec_eval split: if_splits)

interpretation extraction_critic: plain_critic "\<lambda>(output, chunks). critic_after_extraction output chunks"
    "''extraction_agent''"
  by unfold_locales (auto simp: critic_after_extraction_def Let_def rec_eval split: if_splits)

interpretation evaluation_critic: plain_critic critic_after_evaluation "''evaluation_agent''"
  by unfold_locales
    (auto simp: critic_after_evaluation_def compliance_flags_def variance_flags_def Let_def rec_eval
      split: if_splits)

interpretation comparator_critic: critic_contract critic_after_comparator "''comparator_agent''"
  by unfold_locales (auto simp: critic_after_comparator_def Let_def split: if_splits)

interpretation decision_critic: critic_contract critic_after_decision "''decision_agent''"
  by unfold_locales (auto simp: critic_after_decision_def split: if_splits)

lemma explanation_flag_cases:
  assumes "f \<in> set (co_flags (critic_after_explanation cfg output chunks))"
  shows "f \<in> set (grounding_band_flags output) \<or> f \<in> set (claim_free_flags output) \<or>
    (\<exists>n \<in> set (ex_vendor_narratives output).
       f \<in> set (narrative_flags n) \<or>
       sy_enabled (pc_synthesis_verification cfg) \<and> f \<in> set (prose_flags (pc_synthesis_verification cfg) n) \<or>
       f \<in> set (reverify_flags chunks n))"
  using assms by (auto simp: critic_after_explanation_def Let_def split: if_splits)

lemma explanation_parts_agent:
  "f \<in> set (grounding_band_flags output) \<Longrightarrow> cf_agent f = ''explanation_agent''"
  "f \<in> set (claim_free_flags output) \<Longrightarrow> cf_agent f = ''explanation_agent''"
  "f \<in> set (narrative_flags n) \<Longrightarrow> cf_agent f = ''explanation_agent''"
  "f \<in> set (prose_flags sv n) \<Longrightarrow> cf_agent f = ''explanation_agent''"
  "f \<in> set (reverify_flags chunks n) \<Longrightarrow> cf_agent f = ''explanation_agent''"
  by (auto simp: grounding_band_flags_def claim_free_flags_def narrative_flags_def prose_flags_def
      reverify_flags_def Let_def split: if_splits)

lemma explanation_parts_plain:
  "f \<in> set (grounding_band_flags output) \<Longrightarrow> \<not> escalates f"
  "f \<in> set (claim_free_flags output) \<Longrightarrow> \<not> escalates f"
  "f \<in> set (narrative_flags n) \<Longrightarrow> \<not> escalates f"
  "f \<in> set (prose_flags sv n) \<Longrightarrow> \<not> escalates f"
  "f \<in> set (reverify_flags chunks n) \<Longrightarrow> \<not> escalates f"
  by (auto simp: grounding_band_flags_def claim_free_flags_def narrative_flags_def prose_flags_def
      reverify_flags_def Let_def rec_eval split: if_splits)

interpretation explanation_critic: plain_critic
    "\<lambda>(output, chunks). critic_after_explanation cfg output chunks" "''explanation_agent''" for cfg
proof (unfold_locales, goal_cases)
  case (1 x)
  show ?case by (simp add: critic_after_explanation_def Let_def split: prod.split)
next
  case (2 f x)
  then show ?case by (auto dest!: explanation_flag_cases dest: explanation_parts_agent split: prod.splits)
next
  case (3 f x)
  then show ?case by (auto dest!: explanation_flag_cases dest: explanation_parts_plain split: prod.splits)
qed

end
