(* ===== verification/Evaluation.thy ===== *)
theory Evaluation
  imports Critic_Laws
begin

text \<open>
  \<open>app/agents/evaluation.py\<close>: the Evaluation agent, which decides every mandatory check and
  scores every criterion from stored facts. The record \<open>eval_env\<close> holds what is outside the
  repository: the LLM, the fact store and the retrieval service. An LLM call is a function of the
  data its prompt is built from; its answer is \<open>Inl\<close> when the call raises, \<open>Inr None\<close> when
  \<open>json.loads\<close> rejects the text, and the JSON value otherwise. \<open>retrieval_verdict\<close> replies have
  passed pydantic's \<open>model_validate\<close>.
\<close>

section \<open>The outside world of the agent\<close>

type_synonym reply = "json option result"

record retrieval_verdict =
  rv_adequate :: bool
  rv_confidence :: rat

record org_settings =
  os_retrieval_top_k :: nat
  os_rerank_top_n :: nat

record eval_env =
  ev_check_llm :: "string \<Rightarrow> mandatory_check \<Rightarrow> extraction_target \<Rightarrow> json list \<Rightarrow> nat option \<Rightarrow> reply"
    \<comment> \<open>feedback, check, target, facts, seed (\<open>None\<close>: the temperature-0 call)\<close>
  ev_score_llm :: "string \<Rightarrow> scoring_criterion \<Rightarrow> json list \<Rightarrow> reply"
  ev_verify_llm :: "string \<Rightarrow> string \<Rightarrow> string \<Rightarrow> reply"
  ev_judge_llm :: "string \<Rightarrow> string \<Rightarrow> string list \<Rightarrow> retrieval_verdict result"
  ev_retrieve :: "string \<Rightarrow> string \<Rightarrow> nat option \<Rightarrow> string list result"
    \<comment> \<open>query, vendor, escalated top-k (\<open>None\<close>: the organisation's own settings)\<close>
  ev_org_settings :: "org_settings option"
  ev_facts :: "(string, json list) dict result"
  ev_org_id :: string

section \<open>Retrieval with a second, escalated pass\<close>

text \<open>\<open>judge_retrieval\<close> of \<open>app/validators/retrieval.py\<close> on the chunk texts.\<close>

definition judge_retrieval :: "eval_env \<Rightarrow> string \<Rightarrow> string \<Rightarrow> string list \<Rightarrow> retrieval_verdict" where
  "judge_retrieval env criterion_name what_passes chunks =
     (if chunks = [] then \<lparr>rv_adequate = False, rv_confidence = 1\<rparr>
      else (case ev_judge_llm env criterion_name
                   (if what_passes \<noteq> [] then what_passes else criterion_name)
                   (map (take 600) (take 8 chunks)) of
              Inl _ \<Rightarrow> \<lparr>rv_adequate = False, rv_confidence = 0\<rparr>
            | Inr v \<Rightarrow> v))"

record retrieval_pass =
  rp_chunks :: "string list"
  rp_verdict :: retrieval_verdict
  rp_retry_count :: nat

definition retrieve_top_k_for_check ::
  "platform_cfg \<Rightarrow> eval_env \<Rightarrow> string \<Rightarrow> string \<Rightarrow> nat \<Rightarrow> string \<Rightarrow> retrieval_pass" where
  "retrieve_top_k_for_check cfg env check_name vendor_id k what_passes =
     (let max_retries = pc_retrieval_critic_max_retries cfg;
          confidence_floor = pc_retrieval_critic_confidence_floor cfg;
          query = (if what_passes \<noteq> [] then what_passes else check_name);
          chunks = (case ev_retrieve env query vendor_id None of Inl _ \<Rightarrow> [] | Inr cs \<Rightarrow> cs);
          v = judge_retrieval env check_name what_passes chunks
      in if \<not> (rv_adequate v \<and> confidence_floor \<le> rv_confidence v) \<and> 0 < max_retries
         then let top_k = (case ev_org_settings env of None \<Rightarrow> k | Some s \<Rightarrow> os_retrieval_top_k s);
                  escalated_top_k = min 20 (top_k * 2);
                  chunks' = (case ev_retrieve env query vendor_id (Some escalated_top_k) of
                               Inl _ \<Rightarrow> chunks | Inr cs \<Rightarrow> cs)
              in \<lparr>rp_chunks = chunks', rp_verdict = judge_retrieval env check_name what_passes chunks',
                  rp_retry_count = 1\<rparr>
         else \<lparr>rp_chunks = chunks, rp_verdict = v, rp_retry_count = 0\<rparr>)"

definition get_facts_for_target :: "(string, json list) dict \<Rightarrow> extraction_target \<Rightarrow> json list" where
  "get_facts_for_target facts target =
     (let ft = et_fact_type target
      in if ft = ''certification'' then get_default facts ''certifications'' []
         else if ft = ''insurance'' then get_default facts ''insurance'' []
         else if ft = ''sla'' then get_default facts ''slas'' []
         else if ft = ''project'' then get_default facts ''projects'' []
         else if ft = ''pricing'' then get_default facts ''pricing'' []
         else if ft = ''custom''
         then filter (\<lambda>f. case f of JObj kvs \<Rightarrow> map_of kvs ''target_id'' = Some (JStr (et_target_id target))
                              | _ \<Rightarrow> False) (get_default facts ''extracted_facts'' [])
         else [])"

section \<open>Self-consistency voting\<close>

definition invalid_json_record :: json where
  "invalid_json_record = JObj
     [(''decision'', JStr ''insufficient_evidence''), (''confidence'', JNum 0),
      (''reasoning'', JStr ''LLM returned invalid JSON''), (''evidence_used'', JArr []),
      (''contradictions_found'', JArr []), (''decision_basis'', JStr ''not_addressed'')]"

definition parse_check_response :: "json option \<Rightarrow> json" where
  "parse_check_response raw = (case raw of None \<Rightarrow> invalid_json_record | Some v \<Rightarrow> v)"

definition status_of_json :: "json \<Rightarrow> compliance_status" where
  "status_of_json v = (case v of
     JStr s \<Rightarrow> (case compliance_of s of None \<Rightarrow> INSUFFICIENT_EVIDENCE | Some c \<Rightarrow> c)
   | _ \<Rightarrow> INSUFFICIENT_EVIDENCE)"

definition normalise_decision :: "json \<Rightarrow> compliance_status result" where
  "normalise_decision parsed =
     rbind (jget parsed ''decision'' (JStr ''insufficient_evidence'')) (\<lambda>v. Inr (status_of_json v))"

text \<open>\<open>float(p.get("confidence", d) or 0.0)\<close>.\<close>

definition confidence_of :: "json \<Rightarrow> json \<Rightarrow> rat result" where
  "confidence_of parsed d =
     rbind (jget parsed ''confidence'' d) (\<lambda>v. to_float (if truthy v then v else JNum 0))"

fun rmap :: "('a \<Rightarrow> 'b result) \<Rightarrow> 'a list \<Rightarrow> 'b list result" where
  "rmap f [] = Inr []"
| "rmap f (x # xs) = rbind (f x) (\<lambda>y. rbind (rmap f xs) (\<lambda>ys. Inr (y # ys)))"

fun tally_votes :: "(compliance_status, nat) dict \<Rightarrow> compliance_status list \<Rightarrow> (compliance_status, nat) dict" where
  "tally_votes tally [] = tally"
| "tally_votes tally (d # ds) = tally_votes (dict_set d (get_default tally d 0 + 1) tally) ds"

text \<open>\<open>max(items, key=...)\<close>: the first item with the greatest key.\<close>

fun max_first :: "('a \<Rightarrow> 'b::linorder) \<Rightarrow> 'a \<Rightarrow> 'a list \<Rightarrow> 'a" where
  "max_first k best [] = best"
| "max_first k best (x # xs) = max_first k (if k best < k x then x else best) xs"

definition vote_winner :: "compliance_status list \<Rightarrow> compliance_status \<times> nat" where
  "vote_winner decisions =
     (let tally = tally_votes [] decisions
      in case tally of
           [] \<Rightarrow> (INSUFFICIENT_EVIDENCE, 0)
         | kv # kvs \<Rightarrow>
             let w = max_first snd kv kvs
             in if snd w * 2 \<le> length decisions
                then (INSUFFICIENT_EVIDENCE, get_default tally INSUFFICIENT_EVIDENCE 0)
                else w)"

definition no_majority_record :: "compliance_status \<Rightarrow> (string \<times> json) list" where
  "no_majority_record winner =
     [(''decision'', JStr (compliance_value winner)),
      (''reasoning'', JStr (''No majority across self-consistency samples'' @ dash @
         ''fail-safe insufficient_evidence.'')),
      (''evidence_used'', JArr []), (''contradictions_found'', JArr []),
      (''decision_basis'', JStr ''not_addressed'')]"

fun as_dict :: "json \<Rightarrow> (string \<times> json) list result" where
  "as_dict (JObj kvs) = Inr kvs"
| "as_dict _ = Inl (TypeError ''cannot convert to dict'')"

definition representative ::
  "compliance_status \<Rightarrow> json list \<Rightarrow> compliance_status list \<Rightarrow> (string \<times> json) list result" where
  "representative winner samples decisions =
     (let matching = map fst (filter (\<lambda>pd. snd pd = winner) (zip samples decisions))
      in case matching of
           [] \<Rightarrow> Inr (no_majority_record winner)
         | _ \<Rightarrow> rbind (rmap (\<lambda>p. confidence_of p (JNum 0)) matching) (\<lambda>confs.
                case zip matching confs of
                  [] \<Rightarrow> Inl IndexError
                | pc # pcs \<Rightarrow> as_dict (fst (max_first snd pc pcs))))"

definition single_vote :: vote_breakdown where
  "single_vote = \<lparr>vb_samples = 1, vb_tally = [], vb_winner = None\<rparr>"

definition decide_check_with_voting ::
  "self_consistency_cfg \<Rightarrow> (nat option \<Rightarrow> reply) \<Rightarrow> (json \<times> vote_breakdown) result" where
  "decide_check_with_voting sc call =
     rbind (call None) (\<lambda>raw_0.
     let parsed_0 = parse_check_response raw_0 in
     rbind (confidence_of parsed_0 (JNum (1 / 2))) (\<lambda>conf_0.
     let borderline = (sk_confidence_min sc \<le> conf_0 \<and> conf_0 \<le> sk_confidence_max sc) in
     if \<not> sk_enabled sc \<or> sk_samples sc \<le> 1 \<or> \<not> borderline then Inr (parsed_0, single_vote)
     else rbind (rmap (\<lambda>i. call (Some i)) [1..<sk_samples sc]) (\<lambda>raws.
          let samples = parsed_0 # map parse_check_response raws in
          rbind (rmap normalise_decision samples) (\<lambda>decisions.
          let (winner, winning_votes) = vote_winner decisions in
          rbind (representative winner samples decisions) (\<lambda>rep.
          Inr (JObj (jset ''confidence'' (JNum (of_nat winning_votes / of_nat (length samples)))
                    (jset ''decision'' (JStr (compliance_value winner)) rep)),
               \<lparr>vb_samples = length samples, vb_tally = tally_votes [] decisions,
                vb_winner = Some winner\<rparr>))))))"

section \<open>One mandatory check\<close>

text \<open>The loop over the retrieved chunks: the truthy evidence of every chunk that satisfies.\<close>

fun verify_chunks :: "(string \<Rightarrow> reply) \<Rightarrow> string list \<Rightarrow> json list result" where
  "verify_chunks verify [] = Inr []"
| "verify_chunks verify (chunk # chunks) =
     rbind (verify chunk) (\<lambda>raw.
     let result = (case raw of
            None \<Rightarrow> JObj [(''satisfies'', JBool False), (''evidence'', JStr []), (''confidence'', JNum 0)]
          | Some v \<Rightarrow> v) in
     rbind (jget result ''satisfies'' JNull) (\<lambda>sat.
     rbind (if truthy sat then jget result ''evidence'' (JStr []) else Inr JNull) (\<lambda>ev.
     rbind (verify_chunks verify chunks) (\<lambda>rest.
     Inr (if truthy ev then ev # rest else rest)))))"

definition basis_of_json :: "json \<Rightarrow> decision_basis" where
  "basis_of_json v = (case v of
     JStr s \<Rightarrow> (case basis_of s of None \<Rightarrow> NOT_ADDRESSED | Some b \<Rightarrow> b)
   | _ \<Rightarrow> NOT_ADDRESSED)"

text \<open>The \<open>ComplianceDecision(...)\<close> constructor call, with pydantic's validation.\<close>

definition build_decision ::
  "mandatory_check \<Rightarrow> string \<Rightarrow> compliance_status \<Rightarrow> json \<Rightarrow> string list \<Rightarrow> vote_breakdown \<Rightarrow>
   compliance_decision result" where
  "build_decision check vendor_id decision parsed chunk_evidence votes =
     rbind (jget parsed ''decision_basis'' (JStr ''not_addressed'')) (\<lambda>basis_v.
     rbind (jget parsed ''evidence_used'' JNull) (\<lambda>used_v.
     rbind (if chunk_evidence \<noteq> [] then Inr chunk_evidence
            else as_str_list (if truthy used_v then used_v else JArr [])) (\<lambda>evidence.
     rbind (jget parsed ''confidence'' (JNum (1 / 2))) (\<lambda>conf_v.
     rbind (to_float conf_v) (\<lambda>conf.
     rbind (as_unit conf) (\<lambda>confidence.
     rbind (jget parsed ''reasoning'' (JStr [])) (\<lambda>reason_v.
     rbind (as_str reason_v) (\<lambda>reasoning.
     rbind (jget parsed ''contradictions_found'' (JArr [])) (\<lambda>contra_v.
     rbind (as_str_list contra_v) (\<lambda>contradictions.
     Inr \<lparr>cd_check_id = mc_check_id check, cd_vendor_id = vendor_id, cd_decision = decision,
          cd_confidence = confidence, cd_reasoning = reasoning, cd_evidence_used = evidence,
          cd_contradictions_found = contradictions, cd_decision_basis = basis_of_json basis_v,
          cd_vote_breakdown = votes\<rparr>))))))))))"

definition fallback_parsed :: "json \<Rightarrow> string list \<Rightarrow> json" where
  "fallback_parsed parsed chunk_evidence = (case parsed of
     JObj kvs \<Rightarrow> JObj (jset ''decision_basis'' (JStr ''explicit_confirmation'')
                  (jset ''reasoning'' (JStr (''Verified in source document: '' @
                          (case chunk_evidence of [] \<Rightarrow> [] | e # _ \<Rightarrow> take 120 e)))
                  (jset ''confidence'' (JNum (75 / 100)) kvs)))
   | v \<Rightarrow> v)"

definition should_fallback ::
  "string \<Rightarrow> bool \<Rightarrow> json list \<Rightarrow> compliance_status \<Rightarrow> bool \<Rightarrow> bool" where
  "should_fallback org_id contradictions relevant_facts decision extraction_was_retried \<longleftrightarrow>
     org_id \<noteq> [] \<and> \<not> contradictions \<and>
     ((relevant_facts = [] \<and> decision = INSUFFICIENT_EVIDENCE) \<or>
      (relevant_facts \<noteq> [] \<and> decision = FAIL \<and> \<not> extraction_was_retried))"

definition evaluate_mandatory_check ::
  "platform_cfg \<Rightarrow> eval_env \<Rightarrow> mandatory_check \<Rightarrow> extraction_target \<Rightarrow> json list \<Rightarrow> string \<Rightarrow>
   string list \<Rightarrow> string \<Rightarrow> compliance_decision result" where
  "evaluate_mandatory_check cfg env check target relevant_facts vendor_id retried_fact_types critic_feedback =
     rbind (decide_check_with_voting (pc_self_consistency cfg)
              (ev_check_llm env critic_feedback check target relevant_facts)) (\<lambda>(parsed, votes).
     rbind (jget parsed ''decision'' (JStr ''insufficient_evidence'')) (\<lambda>decision_v.
     rbind (jget parsed ''contradictions_found'' JNull) (\<lambda>contra_v.
     let contradictions = truthy contra_v;
         decision = (if contradictions then INSUFFICIENT_EVIDENCE else status_of_json decision_v);
         extraction_was_retried = (et_fact_type target \<in> set retried_fact_types)
     in if should_fallback (ev_org_id env) contradictions relevant_facts decision extraction_was_retried
        then let top_k = (case ev_org_settings env of None \<Rightarrow> 5 | Some s \<Rightarrow> os_retrieval_top_k s);
                 chunks = rp_chunks (retrieve_top_k_for_check cfg env (mc_name check) vendor_id
                            top_k (mc_what_passes check))
             in rbind (verify_chunks (\<lambda>text. ev_verify_llm env text (mc_name check) (mc_what_passes check)) chunks) (\<lambda>evs.
                rbind (as_str_elems evs) (\<lambda>chunk_evidence.
                if chunk_evidence \<noteq> []
                then build_decision check vendor_id PASS (fallback_parsed parsed chunk_evidence) chunk_evidence votes
                else build_decision check vendor_id decision parsed [] votes))
        else build_decision check vendor_id decision parsed [] votes)))"

section \<open>One criterion\<close>

definition unscored :: "scoring_criterion \<Rightarrow> string \<Rightarrow> criterion_score" where
  "unscored criterion vendor_id =
     \<lparr>cs_criterion_id = sc_criterion_id criterion, cs_vendor_id = vendor_id, cs_raw_score = 0,
      cs_weighted_contribution = 0, cs_confidence = 0,
      cs_rubric_band_applied = ''insufficient_evidence'', cs_evidence_used = [],
      cs_score_rationale = ''No evidence was extracted for this criterion; marked insufficient '' @
        ''rather than scored. Requires human review.'',
      cs_variance_estimate = 0, cs_insufficient_evidence = True\<rparr>"

definition invalid_score_record :: json where
  "invalid_score_record = JObj
     [(''raw_score'', JNum 0), (''confidence'', JNum 0), (''rubric_band_applied'', JStr ''0-2''),
      (''evidence_used'', JArr []), (''score_rationale'', JStr ''LLM returned invalid JSON''),
      (''variance_estimate'', JNum 3)]"

definition clamp_score :: "rat \<Rightarrow> int" where
  "clamp_score x = max 0 (min 10 (trunc x))"

definition score_criterion ::
  "eval_env \<Rightarrow> scoring_criterion \<Rightarrow> json list \<Rightarrow> string \<Rightarrow> string \<Rightarrow> criterion_score result" where
  "score_criterion env criterion relevant_facts vendor_id critic_feedback =
     (if relevant_facts = [] then Inr (unscored criterion vendor_id)
      else rbind (ev_score_llm env critic_feedback criterion relevant_facts) (\<lambda>raw.
       let parsed = (case raw of None \<Rightarrow> invalid_score_record | Some v \<Rightarrow> v) in
       rbind (jget parsed ''raw_score'' JNull) (\<lambda>raw_v.
       rbind (to_float (if truthy raw_v then raw_v else JNum 0)) (\<lambda>raw_f.
       let raw_score = clamp_score raw_f in
       rbind (jget parsed ''confidence'' (JNum (1 / 2))) (\<lambda>conf_v.
       rbind (to_float conf_v) (\<lambda>conf.
       rbind (as_unit conf) (\<lambda>confidence.
       rbind (jget parsed ''rubric_band_applied'' (JStr ''0-2'')) (\<lambda>band_v.
       rbind (as_str band_v) (\<lambda>band.
       rbind (jget parsed ''evidence_used'' JNull) (\<lambda>used_v.
       rbind (as_str_list (if truthy used_v then used_v else JArr [])) (\<lambda>evidence.
       rbind (jget parsed ''score_rationale'' (JStr [])) (\<lambda>why_v.
       rbind (as_str why_v) (\<lambda>rationale.
       rbind (jget parsed ''variance_estimate'' (JNum 1)) (\<lambda>var_v.
       rbind (to_float var_v) (\<lambda>variance.
       Inr \<lparr>cs_criterion_id = sc_criterion_id criterion, cs_vendor_id = vendor_id,
            cs_raw_score = raw_score,
            cs_weighted_contribution = py_round 4 (of_int raw_score / 10 * sc_weight criterion),
            cs_confidence = confidence, cs_rubric_band_applied = band, cs_evidence_used = evidence,
            cs_score_rationale = rationale, cs_variance_estimate = variance,
            cs_insufficient_evidence = False\<rparr>)))))))))))))))"

section \<open>The agent\<close>

definition target_by_id :: "evaluation_setup \<Rightarrow> (string, extraction_target) dict" where
  "target_by_id setup = dict_of (map (\<lambda>t. (et_target_id t, t)) (es_extraction_targets setup))"

text \<open>The first loop: decisions and warnings, a raising check being a warning.\<close>

definition check_step ::
  "platform_cfg \<Rightarrow> eval_env \<Rightarrow> evaluation_setup \<Rightarrow> (string, json list) dict \<Rightarrow> string \<Rightarrow> string list \<Rightarrow> string \<Rightarrow>
   mandatory_check \<Rightarrow> compliance_decision list \<times> string list" where
  "check_step cfg env setup facts vendor_id retried critic_feedback check =
     (case dict_get (target_by_id setup) (mc_extraction_target_id check) of
        None \<Rightarrow> ([], [''No extraction target for check '' @ mc_check_id check])
      | Some target \<Rightarrow>
          (case evaluate_mandatory_check cfg env check target (get_facts_for_target facts target)
                  vendor_id retried critic_feedback of
             Inl e \<Rightarrow> ([], [''Check '' @ mc_check_id check @ '' failed: '' @ exn_str e])
           | Inr d \<Rightarrow> ([d], [])))"

definition relevant_facts_of ::
  "evaluation_setup \<Rightarrow> (string, json list) dict \<Rightarrow> scoring_criterion \<Rightarrow> json list" where
  "relevant_facts_of setup facts criterion =
     concat (map (\<lambda>tid. case dict_get (target_by_id setup) tid of
                          None \<Rightarrow> [] | Some target \<Rightarrow> get_facts_for_target facts target)
       (sc_extraction_target_ids criterion))"

definition score_step ::
  "eval_env \<Rightarrow> evaluation_setup \<Rightarrow> (string, json list) dict \<Rightarrow> string \<Rightarrow> string \<Rightarrow> scoring_criterion \<Rightarrow>
   criterion_score list \<times> string list" where
  "score_step env setup facts vendor_id critic_feedback criterion =
     (let relevant = relevant_facts_of setup facts criterion;
          w = (if relevant = []
               then [''Criterion '' @ sc_criterion_id criterion @ '' ('' @ sc_name criterion @
                     ''): no targeted facts found'' @ dash @
                     ''marked INSUFFICIENT EVIDENCE (not scored). Requires human review.''] else [])
      in case score_criterion env criterion relevant vendor_id critic_feedback of
           Inl e \<Rightarrow> ([], w @ [''Criterion '' @ sc_criterion_id criterion @ '' failed: '' @ exn_str e])
         | Inr s \<Rightarrow> ([s], w))"

definition overall_compliance :: "compliance_decision list \<Rightarrow> string" where
  "overall_compliance ds =
     (if list_ex (\<lambda>d. cd_decision d = FAIL) ds then ''fail''
      else if list_ex (\<lambda>d. cd_decision d = INSUFFICIENT_EVIDENCE) ds then ''review_required''
      else ''pass'')"

definition total_score_of :: "criterion_score list \<Rightarrow> rat" where
  "total_score_of scores = py_round 2 (sum_list (map cs_weighted_contribution scores) * 10)"

definition avg_confidence_of :: "criterion_score list \<Rightarrow> rat" where
  "avg_confidence_of scores =
     (let scored = filter (\<lambda>s. \<not> cs_insufficient_evidence s) scores
      in if scored = [] then 0
         else py_round 3 (sum_list (map cs_confidence scored) / of_nat (length scored)))"

definition weight_by_criterion :: "evaluation_setup \<Rightarrow> (string, rat) dict" where
  "weight_by_criterion setup = dict_of (map (\<lambda>c. (sc_criterion_id c, sc_weight c)) (es_scoring_criteria setup))"

definition coverage_of :: "evaluation_setup \<Rightarrow> criterion_score list \<Rightarrow> rat" where
  "coverage_of setup scores =
     (let weights = weight_by_criterion setup;
          total_weight = sum_list (map snd weights);
          assessed_weight = sum_list (map (\<lambda>s. get_default weights (cs_criterion_id s) 0)
            (filter (\<lambda>s. \<not> cs_insufficient_evidence s) scores))
      in if total_weight \<noteq> 0 then py_round 4 (assessed_weight / total_weight) else 0)"

definition normalised_score :: "rat \<Rightarrow> rat \<Rightarrow> rat" where
  "normalised_score total_score coverage =
     (if coverage \<noteq> 0 then py_round 2 (total_score / coverage) else 0)"

definition insufficient_warning :: "criterion_score list \<Rightarrow> rat \<Rightarrow> rat \<Rightarrow> rat \<Rightarrow> string list" where
  "insufficient_warning scores coverage normalised total_score =
     (let insufficient = map cs_criterion_id (filter cs_insufficient_evidence scores)
      in if insufficient = [] then []
         else [''Insufficient evidence to score: '' @ join '', '' insufficient @ dash @
               ''flagged for human review and excluded from the confidence average. Coverage '' @
               fmt_fixed 2 coverage @ ''; ranking uses the coverage-normalised score '' @
               fmt_fixed 2 normalised @ '' (vs absolute total '' @ fmt_fixed 2 total_score @
               '') so the un-assessed criteria don'' @ [CHR 0x27] @ ''t count as genuine 0s (E3.d).''])"

definition run_evaluation_agent ::
  "platform_cfg \<Rightarrow> eval_env \<Rightarrow> string \<Rightarrow> evaluation_setup \<Rightarrow> extraction_output option \<Rightarrow> string \<Rightarrow>
   (evaluation_output \<times> critic_output) result" where
  "run_evaluation_agent cfg env vendor_id setup extraction critic_feedback =
     rbind (ev_facts env) (\<lambda>facts.
     let retried = (case extraction of None \<Rightarrow> [] | Some x \<Rightarrow> xo_retried_fact_types x);
         checks = map (check_step cfg env setup facts vendor_id retried critic_feedback)
                    (es_mandatory_checks setup);
         decisions = concat (map fst checks);
         steps = map (score_step env setup facts vendor_id critic_feedback) (es_scoring_criteria setup);
         scores = concat (map fst steps);
         total_score = total_score_of scores;
         coverage = coverage_of setup scores;
         normalised = normalised_score total_score coverage
     in rbind (make_evaluation_output
          \<lparr>eo_vendor_id = vendor_id, eo_compliance_decisions = decisions, eo_criterion_scores = scores,
           eo_overall_compliance = overall_compliance decisions, eo_total_weighted_score = total_score,
           eo_coverage = coverage, eo_coverage_normalised_score = normalised,
           eo_score_confidence = avg_confidence_of scores,
           eo_evaluation_warnings = concat (map snd checks) @ concat (map snd steps) @
             insufficient_warning scores coverage normalised total_score\<rparr>) (\<lambda>output.
        Inr (output, critic_after_evaluation output)))"

end
