(* ===== verification/Evaluation_Laws.thy ===== *)
theory Evaluation_Laws
  imports Evaluation
begin

text \<open>
  Lemmas about the Evaluation agent: the vote (tally, winner, representative), the contradiction
  override of a mandatory check, the ranges of a criterion's score, and the arithmetic of
  coverage and the coverage-normalised score.
\<close>

section \<open>Tallies and winners\<close>

lemma rmap_Inr_length: "rmap f xs = Inr ys \<Longrightarrow> length ys = length xs"
  by (induction xs arbitrary: ys) (auto simp: rbind_Inr_iff)

lemma rmap_Inr_nth: "rmap f xs = Inr ys \<Longrightarrow> i < length xs \<Longrightarrow> f (xs ! i) = Inr (ys ! i)"
  by (induction xs arbitrary: ys i) (auto simp: rbind_Inr_iff nth_Cons split: nat.split)

lemma rmap_Inr_set: "rmap f xs = Inr ys \<Longrightarrow> y \<in> set ys \<Longrightarrow> \<exists>x \<in> set xs. f x = Inr y"
  by (induction xs arbitrary: ys) (auto simp: rbind_Inr_iff)

lemma get_default_set: "get_default (dict_set k v d) k' w = (if k' = k then v else get_default d k' w)"
  by (simp add: get_default_def)

lemma tally_votes_count: "get_default (tally_votes t ds) c 0 = get_default t c 0 + count_list ds c"
  by (induction t ds rule: tally_votes.induct) (auto simp: get_default_set)

lemma tally_votes_keys: "fst ` set (tally_votes t ds) = fst ` set t \<union> set ds"
proof (induction t ds rule: tally_votes.induct)
  case (1 tally)
  then show ?case by simp
next
  case (2 tally d ds)
  then show ?case by (simp del: set_map)
qed

lemma tally_votes_distinct: "distinct (dict_keys t) \<Longrightarrow> distinct (dict_keys (tally_votes t ds))"
  by (induction t ds rule: tally_votes.induct) auto

lemma tally_votes_entry: "(c, n) \<in> set (tally_votes [] ds) \<Longrightarrow> n = count_list ds c"
proof -
  assume "(c, n) \<in> set (tally_votes [] ds)"
  moreover have "distinct (dict_keys (tally_votes [] ds))" by (rule tally_votes_distinct) simp
  ultimately have "dict_get (tally_votes [] ds) c = Some n" by simp
  then show ?thesis using tally_votes_count[of "[]" ds c] by (simp add: get_default_def)
qed

lemma tally_votes_mem: "c \<in> set ds \<Longrightarrow> (c, count_list ds c) \<in> set (tally_votes [] ds)"
proof -
  assume "c \<in> set ds"
  then have "c \<in> fst ` set (tally_votes [] ds)" by (simp add: tally_votes_keys)
  then obtain n where "(c, n) \<in> set (tally_votes [] ds)" by force
  with tally_votes_entry[OF this] show ?thesis by simp
qed

lemma max_first_in: "max_first k b xs \<in> insert b (set xs)"
proof (induction xs arbitrary: b)
  case Nil
  then show ?case by simp
next
  case (Cons a xs)
  show ?case using Cons.IH[of "if k b < k a then a else b"] by (auto split: if_splits)
qed

lemma max_first_ge: "x \<in> insert b (set xs) \<Longrightarrow> k x \<le> k (max_first k b xs)"
proof (induction xs arbitrary: b x)
  case Nil
  then show ?case by simp
next
  case (Cons a xs)
  let ?b = "if k b < k a then a else b"
  have "k b \<le> k ?b" "k a \<le> k ?b" by auto
  moreover have "k ?b \<le> k (max_first k ?b xs)" by (rule Cons.IH) simp
  moreover have "x \<in> set xs \<Longrightarrow> k x \<le> k (max_first k ?b xs)" by (rule Cons.IH) simp
  ultimately show ?case using Cons.prems by (auto intro: order_trans)
qed

lemma count_list_add: "c \<noteq> d \<Longrightarrow> count_list ds c + count_list ds d \<le> length ds"
  by (induction ds) auto

lemma majority_unique: "length ds < 2 * count_list ds c \<Longrightarrow> length ds < 2 * count_list ds d \<Longrightarrow> c = d"
  using count_list_add[of c d ds] by fastforce

text \<open>The winner is the strict majority when there is one, and \<open>INSUFFICIENT_EVIDENCE\<close> otherwise.\<close>

lemma vote_winner_cases:
  assumes "vote_winner ds = (w, n)"
  shows "n = count_list ds w"
    and "length ds < 2 * count_list ds w \<or>
         w = INSUFFICIENT_EVIDENCE \<and> (\<forall>c. 2 * count_list ds c \<le> length ds)"
proof -
  let ?t = "tally_votes [] ds"
  have nil: "?t = [] \<longleftrightarrow> ds = []"
    using tally_votes_keys[of "[]" ds] by (cases ?t) auto
  have "n = count_list ds w \<and> (length ds < 2 * count_list ds w \<or>
         w = INSUFFICIENT_EVIDENCE \<and> (\<forall>c. 2 * count_list ds c \<le> length ds))"
  proof (cases ?t)
    case Nil
    with assms nil show ?thesis by (auto simp: vote_winner_def)
  next
    case (Cons kv kvs)
    let ?w = "max_first snd kv kvs"
    have mem: "?w \<in> set ?t" using max_first_in[of snd kv kvs] Cons by simp
    then have cnt: "snd ?w = count_list ds (fst ?w)" by (simp add: tally_votes_entry)
    have top: "count_list ds c \<le> snd ?w" for c
    proof (cases "c \<in> set ds")
      case True
      then show ?thesis using tally_votes_mem[OF True] max_first_ge[of "(c, count_list ds c)" kv kvs snd] Cons by auto
    next
      case False
      then show ?thesis by (simp add: count_notin)
    qed
    show ?thesis
    proof (cases "snd ?w * 2 \<le> length ds")
      case True
      then have "w = INSUFFICIENT_EVIDENCE" "n = count_list ds w"
        using assms Cons tally_votes_count[of "[]" ds INSUFFICIENT_EVIDENCE]
        by (auto simp: vote_winner_def Let_def get_default_def)
      moreover have "2 * count_list ds c \<le> length ds" for c
        using top[of c] True by linarith
      ultimately show ?thesis by blast
    next
      case False
      then have "?w = (w, n)" using assms Cons by (simp add: vote_winner_def Let_def)
      with False cnt show ?thesis by auto
    qed
  qed
  then show "n = count_list ds w"
    and "length ds < 2 * count_list ds w \<or>
         w = INSUFFICIENT_EVIDENCE \<and> (\<forall>c. 2 * count_list ds c \<le> length ds)" by auto
qed

lemma vote_winner_majority:
  assumes "length ds < 2 * count_list ds c"
  shows "vote_winner ds = (c, count_list ds c)"
proof -
  obtain w n where wn: "vote_winner ds = (w, n)" by fastforce
  from vote_winner_cases[OF wn] assms have "w = c" "n = count_list ds w"
    using majority_unique[of ds w c] by (auto simp: not_less[symmetric])
  with wn show ?thesis by simp
qed

section \<open>The voted record\<close>

lemma rmap_all_Inr: "(\<And>x. x \<in> set xs \<Longrightarrow> \<exists>y. f x = Inr y) \<Longrightarrow> \<exists>ys. rmap f xs = Inr ys"
proof (induction xs)
  case Nil
  then show ?case by simp
next
  case (Cons x xs)
  obtain y where "f x = Inr y" using Cons.prems by auto
  moreover obtain ys where "rmap f xs = Inr ys" using Cons.IH Cons.prems by auto
  ultimately show ?case by simp
qed

lemma jget_obj_update:
  "jget (JObj (jset k v kvs)) k' d = (if k' = k then Inr v else jget (JObj kvs) k' d)"
  by (simp add: jset_def)

lemma decide_single:
  assumes "call None = Inr raw" and "confidence_of (parse_check_response raw) (JNum (1 / 2)) = Inr conf"
    and "\<not> sk_enabled sc \<or> sk_samples sc \<le> 1 \<or> conf < sk_confidence_min sc \<or> sk_confidence_max sc < conf"
  shows "decide_check_with_voting sc call = Inr (parse_check_response raw, single_vote)"
  using assms by (auto simp: decide_check_with_voting_def Let_def)

text \<open>What a voted answer says of the samples it was computed from.\<close>

lemma decide_voted:
  assumes "decide_check_with_voting sc call = Inr (parsed, votes)" and "1 < vb_samples votes"
  obtains ds w where "length ds = vb_samples votes" and "vb_samples votes = sk_samples sc"
    and "vb_tally votes = tally_votes [] ds" and "vb_winner votes = Some w"
    and "vote_winner ds = (w, count_list ds w)"
    and "jget parsed ''decision'' JNull = Inr (JStr (compliance_value w))"
    and "jget parsed ''confidence'' JNull = Inr (JNum (of_nat (count_list ds w) / of_nat (length ds)))"
proof -
  from assms obtain raw_0 raws where
    big: "1 < sk_samples sc" and
    raws: "rmap (\<lambda>i. call (Some i)) [1..<sk_samples sc] = Inr raws" and
    rest: "rbind (rmap normalise_decision (parse_check_response raw_0 # map parse_check_response raws)) (\<lambda>ds.
        rbind (representative (fst (vote_winner ds))
          (parse_check_response raw_0 # map parse_check_response raws) ds) (\<lambda>rep.
        Inr (JObj (jset ''confidence'' (JNum (of_nat (snd (vote_winner ds)) / of_nat (Suc (length raws))))
               (jset ''decision'' (JStr (compliance_value (fst (vote_winner ds)))) rep)),
             \<lparr>vb_samples = Suc (length raws), vb_tally = tally_votes [] ds,
              vb_winner = Some (fst (vote_winner ds))\<rparr>))) = Inr (parsed, votes)"
    unfolding decide_check_with_voting_def Let_def case_prod_beta
    by (auto simp: rbind_Inr_iff[of "call None"] rbind_Inr_iff[of "confidence_of a b" for a b]
        rbind_Inr_iff[of "rmap (\<lambda>i. call (Some i)) xs" for xs] single_vote_def
        simp del: rmap.simps split: if_splits)
  from rest obtain ds rep where
    ds: "rmap normalise_decision (parse_check_response raw_0 # map parse_check_response raws) = Inr ds" and
    parsed: "parsed = JObj (jset ''confidence'' (JNum (of_nat (snd (vote_winner ds)) / of_nat (Suc (length raws))))
               (jset ''decision'' (JStr (compliance_value (fst (vote_winner ds)))) rep))" and
    votes: "votes = \<lparr>vb_samples = Suc (length raws), vb_tally = tally_votes [] ds,
              vb_winner = Some (fst (vote_winner ds))\<rparr>"
    by (auto simp: rbind_Inr_iff simp del: rmap.simps)
  have len_raws: "length raws = sk_samples sc - 1" using rmap_Inr_length[OF raws] by simp
  have len: "length ds = Suc (length raws)" using rmap_Inr_length[OF ds] by simp
  have win: "vote_winner ds = (fst (vote_winner ds), count_list ds (fst (vote_winner ds)))"
    using vote_winner_cases(1)[of ds "fst (vote_winner ds)" "snd (vote_winner ds)"] by (simp add: prod_eq_iff)
  show ?thesis
  proof (rule that[of ds "fst (vote_winner ds)"])
    show "vb_samples votes = sk_samples sc" using big len_raws by (simp add: votes)
    show "jget parsed ''confidence'' JNull =
        Inr (JNum (of_nat (count_list ds (fst (vote_winner ds))) / of_nat (length ds)))"
      using win len by (metis parsed jget_obj_update snd_conv)
    show "jget parsed ''decision'' JNull = Inr (JStr (compliance_value (fst (vote_winner ds))))"
      by (simp add: parsed jget_obj_update del: jget.simps)
  qed (use len win in \<open>simp_all add: votes\<close>)
qed

section \<open>One mandatory check\<close>

lemma build_decision_Inr:
  assumes "build_decision check vid dec parsed ev votes = Inr d"
  shows "cd_decision d = dec" and "cd_check_id d = mc_check_id check" and "cd_vendor_id d = vid"
    and "0 \<le> cd_confidence d" and "cd_confidence d \<le> 1" and "cd_vote_breakdown d = votes"
    and "ev \<noteq> [] \<Longrightarrow> cd_evidence_used d = ev"
    and "\<exists>v. jget parsed ''contradictions_found'' (JArr []) = Inr v \<and>
           as_str_list v = Inr (cd_contradictions_found d)"
  using assms by (auto simp: build_decision_def rbind_Inr_iff as_unit_Inr)

lemma contradictions_truthy:
  assumes "jget p k (JArr []) = Inr v" and "as_str_list v = Inr cs" and "cs \<noteq> []"
    and "jget p k JNull = Inr v'"
  shows "truthy v'"
proof (cases p)
  case (JObj kvs)
  with assms show ?thesis
    by (cases "map_of kvs k"; cases v rule: as_str_list.cases) auto
qed (use assms in auto)

lemma contradictions_fallback:
  "jget (fallback_parsed p ev) ''contradictions_found'' d = jget p ''contradictions_found'' d"
  by (cases p) (simp_all add: fallback_parsed_def jget_obj_update[unfolded jset_def] jset_def)

text \<open>The three ways a check can end.\<close>

lemma evaluate_mandatory_check_cases:
  assumes "evaluate_mandatory_check cfg env check target facts vid retried fb = Inr d"
  obtains parsed votes dv cv where
    "decide_check_with_voting (pc_self_consistency cfg) (ev_check_llm env fb check target facts) = Inr (parsed, votes)"
    and "jget parsed ''decision'' (JStr ''insufficient_evidence'') = Inr dv"
    and "jget parsed ''contradictions_found'' JNull = Inr cv"
    and "(\<not> truthy cv \<and> (\<exists>ev. ev \<noteq> [] \<and> should_fallback (ev_org_id env) False facts (status_of_json dv)
            (et_fact_type target \<in> set retried) \<and>
            build_decision check vid PASS (fallback_parsed parsed ev) ev votes = Inr d)) \<or>
         build_decision check vid (if truthy cv then INSUFFICIENT_EVIDENCE else status_of_json dv) parsed [] votes = Inr d"
  using assms
  by (auto simp: evaluate_mandatory_check_def Let_def rbind_Inr_iff should_fallback_def split: if_splits)

lemma contradiction_override:
  assumes "evaluate_mandatory_check cfg env check target facts vid retried fb = Inr d"
    and "cd_contradictions_found d \<noteq> []"
  shows "cd_decision d = INSUFFICIENT_EVIDENCE"
proof -
  obtain parsed votes dv cv where cv: "jget parsed ''contradictions_found'' JNull = Inr cv" and
    ends: "(\<not> truthy cv \<and> (\<exists>ev. ev \<noteq> [] \<and> should_fallback (ev_org_id env) False facts (status_of_json dv)
            (et_fact_type target \<in> set retried) \<and>
            build_decision check vid PASS (fallback_parsed parsed ev) ev votes = Inr d)) \<or>
         build_decision check vid (if truthy cv then INSUFFICIENT_EVIDENCE else status_of_json dv) parsed [] votes = Inr d"
    by (rule evaluate_mandatory_check_cases[OF assms(1)]) blast
  have "truthy cv" if "build_decision check vid dec p ev votes = Inr d"
      "jget p ''contradictions_found'' (JArr []) = jget parsed ''contradictions_found'' (JArr [])" for dec p ev
    using build_decision_Inr(8)[OF that(1)] that(2) contradictions_truthy[OF _ _ assms(2) cv] by auto
  then have "truthy cv" using ends contradictions_fallback by metis
  with ends show ?thesis using build_decision_Inr(1) by auto
qed

lemma check_confidence_unit:
  assumes "evaluate_mandatory_check cfg env check target facts vid retried fb = Inr d"
  shows "0 \<le> cd_confidence d \<and> cd_confidence d \<le> 1"
  by (rule evaluate_mandatory_check_cases[OF assms]) (auto dest: build_decision_Inr)

lemma check_ids:
  assumes "evaluate_mandatory_check cfg env check target facts vid retried fb = Inr d"
  shows "cd_check_id d = mc_check_id check" and "cd_vendor_id d = vid"
  by (rule evaluate_mandatory_check_cases[OF assms]; auto dest: build_decision_Inr)+

section \<open>One criterion\<close>

lemma clamp_score_bounds: "0 \<le> clamp_score x \<and> clamp_score x \<le> 10"
  by (simp add: clamp_score_def)

lemma score_criterion_all:
  assumes "score_criterion env c facts vid fb = Inr s"
  shows "cs_criterion_id s = sc_criterion_id c \<and> cs_vendor_id s = vid \<and>
    (0 \<le> cs_raw_score s \<and> cs_raw_score s \<le> 10) \<and> (0 \<le> cs_confidence s \<and> cs_confidence s \<le> 1) \<and>
    cs_weighted_contribution s = py_round 4 (of_int (cs_raw_score s) / 10 * sc_weight c) \<and>
    cs_insufficient_evidence s = (facts = [])"
proof (cases "facts = []")
  case True
  with assms show ?thesis by (auto simp: score_criterion_def unscored_def)
next
  case False
  with assms show ?thesis
    unfolding score_criterion_def Let_def if_not_P[OF False] rbind_Inr_iff as_unit_Inr
    by (elim exE conjE) (auto simp: clamp_score_bounds as_unit_Inr simp del: jget.simps to_float.simps)
qed

lemmas score_criterion_Inr =
  score_criterion_all [THEN conjunct1]
  score_criterion_all [THEN conjunct2, THEN conjunct1]
  score_criterion_all [THEN conjunct2, THEN conjunct2, THEN conjunct1]
  score_criterion_all [THEN conjunct2, THEN conjunct2, THEN conjunct2, THEN conjunct1]
  score_criterion_all [THEN conjunct2, THEN conjunct2, THEN conjunct2, THEN conjunct2, THEN conjunct1]
  score_criterion_all [THEN conjunct2, THEN conjunct2, THEN conjunct2, THEN conjunct2, THEN conjunct2]

lemma weighted_contribution_bounds:
  assumes "score_criterion env c facts vid fb = Inr s" and "0 < sc_weight c" and "sc_weight c \<le> 1"
  shows "0 \<le> cs_weighted_contribution s \<and> cs_weighted_contribution s \<le> py_round 4 (sc_weight c)"
proof -
  note s = score_criterion_Inr[OF assms(1)]
  have r: "0 \<le> (of_int (cs_raw_score s) / 10 :: rat)" "(of_int (cs_raw_score s) / 10 :: rat) \<le> 1"
    using s(3) by simp_all
  then have "0 \<le> of_int (cs_raw_score s) / 10 * sc_weight c"
    "of_int (cs_raw_score s) / 10 * sc_weight c \<le> sc_weight c"
    using assms(2) by (simp_all add: mult_le_cancel_right2)
  then show ?thesis
    using py_round_mono[of 0 _ 4] py_round_mono[of _ "sc_weight c" 4] by (simp add: s(5))
qed

section \<open>The whole agent\<close>

lemma check_step_mem:
  assumes "d \<in> set (fst (check_step cfg env setup facts vid retried fb check))"
  shows "\<exists>t. evaluate_mandatory_check cfg env check t (get_facts_for_target facts t) vid retried fb = Inr d"
  using assms by (auto simp: check_step_def split: option.splits sum.splits)

lemma score_step_cases:
  "fst (score_step env setup facts vid fb c) =
     (case score_criterion env c (relevant_facts_of setup facts c) vid fb of Inl _ \<Rightarrow> [] | Inr s \<Rightarrow> [s])"
  by (simp add: score_step_def Let_def split: sum.split)

definition decisions_of ::
  "platform_cfg \<Rightarrow> eval_env \<Rightarrow> evaluation_setup \<Rightarrow> (string, json list) dict \<Rightarrow> string \<Rightarrow> string list \<Rightarrow> string \<Rightarrow>
   compliance_decision list" where
  "decisions_of cfg env setup facts vid retried fb =
     concat (map (fst \<circ> check_step cfg env setup facts vid retried fb) (es_mandatory_checks setup))"

definition scores_of ::
  "eval_env \<Rightarrow> evaluation_setup \<Rightarrow> (string, json list) dict \<Rightarrow> string \<Rightarrow> string \<Rightarrow> criterion_score list" where
  "scores_of env setup facts vid fb =
     concat (map (fst \<circ> score_step env setup facts vid fb) (es_scoring_criteria setup))"

lemma run_evaluation_cases:
  assumes "run_evaluation_agent cfg env vid setup extraction fb = Inr (output, critic)"
  obtains facts where "ev_facts env = Inr facts"
    and "eo_vendor_id output = vid"
    and "eo_compliance_decisions output = decisions_of cfg env setup facts vid
           (case extraction of None \<Rightarrow> [] | Some x \<Rightarrow> xo_retried_fact_types x) fb"
    and "eo_criterion_scores output = scores_of env setup facts vid fb"
    and "eo_overall_compliance output = overall_compliance (eo_compliance_decisions output)"
    and "eo_total_weighted_score output = total_score_of (eo_criterion_scores output)"
    and "eo_coverage output = coverage_of setup (eo_criterion_scores output)"
    and "0 \<le> eo_coverage output \<and> eo_coverage output \<le> 1"
    and "eo_coverage_normalised_score output =
           normalised_score (eo_total_weighted_score output) (eo_coverage output) \<or>
         1 \<le> eo_coverage output \<and> eo_coverage_normalised_score output = eo_total_weighted_score output"
    and "critic = critic_after_evaluation output"
proof -
  from assms obtain facts where f: "ev_facts env = Inr facts"
    by (auto simp: run_evaluation_agent_def rbind_Inr_iff)
  note body = assms[unfolded run_evaluation_agent_def f rbind.simps Let_def make_evaluation_output_def]
  show ?thesis
    by (rule that[OF f], insert body)
      (auto simp: rbind_Inr_iff as_unit_Inr derive_normalised_at_full_coverage_def decisions_of_def
        scores_of_def comp_def split: if_splits)
qed

lemma decision_from_check:
  assumes "d \<in> set (decisions_of cfg env setup facts vid retried fb)"
  shows "\<exists>check \<in> set (es_mandatory_checks setup). \<exists>t.
    evaluate_mandatory_check cfg env check t (get_facts_for_target facts t) vid retried fb = Inr d"
  using assms check_step_mem by (fastforce simp: decisions_of_def)

lemma score_from_criterion:
  assumes "s \<in> set (scores_of env setup facts vid fb)"
  shows "\<exists>c \<in> set (es_scoring_criteria setup).
    score_criterion env c (relevant_facts_of setup facts c) vid fb = Inr s"
  using assms by (auto simp: scores_of_def score_step_cases split: sum.splits)

lemma compliance_flags_soft:
  assumes "cd_contradictions_found d \<noteq> [] \<Longrightarrow> cd_decision d = INSUFFICIENT_EVIDENCE"
    and "f \<in> set (compliance_flags d)"
  shows "cf_severity f = SOFT"
  using assms by (auto simp: compliance_flags_def Let_def split: if_splits)

lemma evaluation_flags_soft:
  assumes "\<And>d. d \<in> set (eo_compliance_decisions output) \<Longrightarrow> cd_contradictions_found d \<noteq> [] \<Longrightarrow>
      cd_decision d = INSUFFICIENT_EVIDENCE"
    and "f \<in> set (co_flags (critic_after_evaluation output))"
  shows "cf_severity f = SOFT"
  using assms compliance_flags_soft
  by (fastforce simp: critic_after_evaluation_def variance_flags_def split: if_splits)

section \<open>Coverage\<close>

lemma weight_lookup:
  assumes "distinct (map sc_criterion_id (es_scoring_criteria setup))" "c \<in> set (es_scoring_criteria setup)"
  shows "get_default (weight_by_criterion setup) (sc_criterion_id c) 0 = sc_weight c"
proof -
  let ?kvs = "map (\<lambda>c. (sc_criterion_id c, sc_weight c)) (es_scoring_criteria setup)"
  have d: "distinct (map fst ?kvs)" using assms(1) by (simp add: comp_def)
  then have "map_of (dict_of ?kvs) (sc_criterion_id c) = Some (sc_weight c)"
    using assms(2) by (subst dict_of_distinct[OF d]) (intro map_of_is_SomeI, auto)
  then show ?thesis by (simp add: weight_by_criterion_def get_default_def)
qed

lemma total_weight:
  assumes "distinct (map sc_criterion_id (es_scoring_criteria setup))"
  shows "sum_list (map snd (weight_by_criterion setup)) = sum_list (map sc_weight (es_scoring_criteria setup))"
  using assms by (simp add: weight_by_criterion_def dict_of_distinct comp_def)

definition assessed :: "evaluation_setup \<Rightarrow> criterion_score list \<Rightarrow> rat" where
  "assessed setup scores = sum_list (map (\<lambda>s. get_default (weight_by_criterion setup) (cs_criterion_id s) 0)
     (filter (\<lambda>s. \<not> cs_insufficient_evidence s) scores))"

lemma assessed_steps:
  assumes "\<And>c. c \<in> set cs \<Longrightarrow> 0 \<le> (w (sc_criterion_id c) :: rat)"
    and "\<And>c. step c = [] \<or> (\<exists>s. step c = [s] \<and> cs_criterion_id s = sc_criterion_id c)"
  shows "0 \<le> sum_list (map (\<lambda>s. w (cs_criterion_id s)) (filter P (concat (map step cs)))) \<and>
         sum_list (map (\<lambda>s. w (cs_criterion_id s)) (filter P (concat (map step cs)))) \<le>
         sum_list (map (\<lambda>c. w (sc_criterion_id c)) cs)"
  using assms(1)
proof (induction cs)
  case Nil
  then show ?case by simp
next
  case (Cons c cs)
  have "0 \<le> w (sc_criterion_id c)" using Cons.prems by simp
  moreover have "0 \<le> sum_list (map (\<lambda>s. w (cs_criterion_id s)) (filter P (concat (map step cs)))) \<and>
         sum_list (map (\<lambda>s. w (cs_criterion_id s)) (filter P (concat (map step cs)))) \<le>
         sum_list (map (\<lambda>c. w (sc_criterion_id c)) cs)"
    by (rule Cons.IH) (simp add: Cons.prems)
  ultimately show ?case using assms(2)[of c] by auto
qed

lemma score_step_shape:
  "(fst \<circ> score_step env setup facts vid fb) c = [] \<or>
   (\<exists>s. (fst \<circ> score_step env setup facts vid fb) c = [s] \<and> cs_criterion_id s = sc_criterion_id c)"
  by (auto simp: score_step_cases dest: score_criterion_Inr(1) split: sum.split)

lemma assessed_bounds:
  assumes "make_setup setup = Inr setup" and d: "distinct (map sc_criterion_id (es_scoring_criteria setup))"
  shows "0 \<le> assessed setup (scores_of env setup facts vid fb)"
    and "assessed setup (scores_of env setup facts vid fb) \<le> sum_list (map sc_weight (es_scoring_criteria setup))"
proof -
  let ?w = "\<lambda>k. get_default (weight_by_criterion setup) k 0"
  have w: "0 \<le> ?w (sc_criterion_id c)" if "c \<in> set (es_scoring_criteria setup)" for c
    using make_setup_Inr(2)[OF assms(1) that] weight_lookup[OF d that] by simp
  have "sum_list (map (\<lambda>c. ?w (sc_criterion_id c)) (es_scoring_criteria setup)) =
      sum_list (map sc_weight (es_scoring_criteria setup))"
    using weight_lookup[OF d] by (simp cong: map_cong)
  then show "0 \<le> assessed setup (scores_of env setup facts vid fb)"
    and "assessed setup (scores_of env setup facts vid fb) \<le> sum_list (map sc_weight (es_scoring_criteria setup))"
    using assessed_steps[where w = ?w and cs = "es_scoring_criteria setup" and
        step = "fst \<circ> score_step env setup facts vid fb", OF w score_step_shape, where P = "\<lambda>s. \<not> cs_insufficient_evidence s"]
    by (simp_all add: assessed_def scores_of_def)
qed

lemma coverage_of_assessed:
  assumes "distinct (map sc_criterion_id (es_scoring_criteria setup))"
  shows "coverage_of setup scores =
    (let t = sum_list (map sc_weight (es_scoring_criteria setup))
     in if t \<noteq> 0 then py_round 4 (assessed setup scores / t) else 0)"
  by (simp add: coverage_of_def Let_def total_weight[OF assms] assessed_def)

lemma coverage_unit:
  assumes "make_setup setup = Inr setup" and "distinct (map sc_criterion_id (es_scoring_criteria setup))"
  shows "0 \<le> coverage_of setup (scores_of env setup facts vid fb) \<and>
         coverage_of setup (scores_of env setup facts vid fb) \<le> 1"
proof -
  let ?t = "sum_list (map sc_weight (es_scoring_criteria setup))"
  let ?a = "assessed setup (scores_of env setup facts vid fb)"
  have a: "0 \<le> ?a" "?a \<le> ?t" by (rule assessed_bounds[OF assms])+
  then have "0 \<le> ?a / ?t" "?a / ?t \<le> 1" by (auto simp: divide_le_eq_1)
  then show ?thesis using py_round_unit[of "?a / ?t" 4]
    by (simp add: coverage_of_assessed[OF assms(2)] Let_def)
qed

lemma sum_list_unit:
  assumes "\<And>x. x \<in> set xs \<Longrightarrow> 0 \<le> (k x :: rat) \<and> k x \<le> 1"
  shows "0 \<le> sum_list (map k xs) \<and> sum_list (map k xs) \<le> of_nat (length xs)"
  using assms by (induction xs) (auto intro: add_mono add_nonneg_nonneg)

lemma avg_confidence_unit:
  assumes "\<And>s. s \<in> set scores \<Longrightarrow> 0 \<le> cs_confidence s \<and> cs_confidence s \<le> 1"
  shows "0 \<le> avg_confidence_of scores \<and> avg_confidence_of scores \<le> 1"
proof -
  let ?xs = "filter (\<lambda>s. \<not> cs_insufficient_evidence s) scores"
  have "0 \<le> sum_list (map cs_confidence ?xs) \<and> sum_list (map cs_confidence ?xs) \<le> of_nat (length ?xs)"
    by (rule sum_list_unit) (simp add: assms)
  then have "0 \<le> sum_list (map cs_confidence ?xs) / of_nat (length ?xs)"
    "sum_list (map cs_confidence ?xs) / of_nat (length ?xs) \<le> 1"
    by (simp_all add: divide_le_eq_1)
  then show ?thesis unfolding avg_confidence_of_def Let_def
    using py_round_unit by auto
qed

section \<open>The agent returns, and its critic never blocks it\<close>

lemma run_evaluation_total:
  assumes "make_setup setup = Inr setup" and "distinct (map sc_criterion_id (es_scoring_criteria setup))"
    and "ev_facts env = Inr facts"
  shows "\<exists>output critic. run_evaluation_agent cfg env vid setup extraction fb = Inr (output, critic)"
proof -
  let ?scores = "scores_of env setup facts vid fb"
  have cov: "as_unit (coverage_of setup ?scores) = Inr (coverage_of setup ?scores)"
    using coverage_unit[OF assms(1,2)] by (simp add: as_unit_def)
  have "0 \<le> cs_confidence s \<and> cs_confidence s \<le> 1" if "s \<in> set ?scores" for s
    using score_from_criterion[OF that] score_criterion_Inr(4) by blast
  then have "0 \<le> avg_confidence_of ?scores \<and> avg_confidence_of ?scores \<le> 1" by (rule avg_confidence_unit)
  then have avg: "as_unit (avg_confidence_of ?scores) = Inr (avg_confidence_of ?scores)" by (simp add: as_unit_def)
  have sc: "concat (map fst (map (score_step env setup facts vid fb) (es_scoring_criteria setup))) = ?scores"
    by (simp add: scores_of_def)
  show ?thesis
    unfolding run_evaluation_agent_def assms(3) rbind.simps Let_def sc make_evaluation_output_def
    by (simp add: cov avg)
qed

lemma run_evaluation_contradictions:
  assumes "run_evaluation_agent cfg env vid setup extraction fb = Inr (output, critic)"
    and "d \<in> set (eo_compliance_decisions output)" and "cd_contradictions_found d \<noteq> []"
  shows "cd_decision d = INSUFFICIENT_EVIDENCE"
proof -
  obtain facts where "eo_compliance_decisions output = decisions_of cfg env setup facts vid
      (case extraction of None \<Rightarrow> [] | Some x \<Rightarrow> xo_retried_fact_types x) fb"
    by (rule run_evaluation_cases[OF assms(1)])
  then show ?thesis using assms(2,3) decision_from_check contradiction_override by metis
qed

lemma run_evaluation_not_blocked:
  assumes "run_evaluation_agent cfg env vid setup extraction fb = Inr (output, critic)"
  shows "co_overall_verdict critic \<in> {APPROVED, APPROVED_WITH_WARNINGS}"
proof -
  have c: "critic = critic_after_evaluation output" by (rule run_evaluation_cases[OF assms])
  have "cf_severity f = SOFT" if "f \<in> set (co_flags critic)" for f
    using that evaluation_flags_soft[OF run_evaluation_contradictions[OF assms]] unfolding c by blast
  then have "co_overall_verdict critic \<noteq> BLOCKED" "co_overall_verdict critic \<noteq> ESCALATED"
    unfolding c evaluation_critic.verdict_is verdict_BLOCKED_iff verdict_ESCALATED_iff by force+
  then show ?thesis by (cases "co_overall_verdict critic") simp_all
qed

section \<open>When everything is assessed\<close>

lemma full_assessment:
  assumes "make_setup setup = Inr setup" and d: "distinct (map sc_criterion_id (es_scoring_criteria setup))"
    and ids: "map cs_criterion_id scores = map sc_criterion_id (es_scoring_criteria setup)"
    and all: "\<forall>s \<in> set scores. \<not> cs_insufficient_evidence s"
    and ne: "es_scoring_criteria setup \<noteq> []"
  shows "coverage_of setup scores = 1"
proof -
  let ?w = "\<lambda>k. get_default (weight_by_criterion setup) k 0"
  let ?t = "sum_list (map sc_weight (es_scoring_criteria setup))"
  have "filter (\<lambda>s. \<not> cs_insufficient_evidence s) scores = scores" using all by (simp add: filter_id_conv)
  then have "assessed setup scores = sum_list (map ?w (map cs_criterion_id scores))"
    by (simp add: assessed_def comp_def)
  also have "\<dots> = sum_list (map (\<lambda>c. ?w (sc_criterion_id c)) (es_scoring_criteria setup))"
    by (simp add: ids comp_def)
  also have "\<dots> = ?t" using weight_lookup[OF d] by (simp cong: map_cong)
  finally have "assessed setup scores = ?t" .
  moreover have "?t \<noteq> 0" using make_setup_Inr(4)[OF assms(1) ne] by auto
  ultimately show ?thesis by (simp add: coverage_of_assessed[OF d] Let_def)
qed

lemma normalised_full: "normalised_score (total_score_of scores) 1 = total_score_of scores"
  by (simp add: normalised_score_def total_score_of_def)

lemma sum_contributions_nonneg:
  assumes "\<And>s. s \<in> set scores \<Longrightarrow> 0 \<le> cs_weighted_contribution s"
  shows "0 \<le> total_score_of scores"
proof -
  have "0 \<le> sum_list (map cs_weighted_contribution scores)"
    using assms by (intro sum_list_nonneg) auto
  then show ?thesis using py_round_mono[of 0 "sum_list (map cs_weighted_contribution scores) * 10" 2]
    by (simp add: total_score_of_def)
qed

section \<open>A check that raises is dropped\<close>

lemma raising_checks_dropped:
  assumes "\<And>c t fs sd. ev_check_llm env fb c t fs sd = Inl e"
  shows "decisions_of cfg env setup facts vid retried fb = []"
proof -
  have "evaluate_mandatory_check cfg env c t fs vid retried fb = Inl e" for c t fs
    by (simp add: evaluate_mandatory_check_def decide_check_with_voting_def assms)
  then have "fst (check_step cfg env setup facts vid retried fb c) = []" for c
    by (simp add: check_step_def split: option.split)
  then show ?thesis by (simp add: decisions_of_def concat_eq_Nil_conv)
qed

end
