(* ===== verification/Comparator.thy ===== *)
theory Comparator
  imports Evaluation_Laws
begin

text \<open>
  \<open>app/agents/comparator.py\<close>: per-criterion comparison rows and the overall ranking by
  coverage-normalised score. \<open>cmp_llm\<close> is the LLM call of \<open>_compare_criterion\<close> as a function of
  the data in its prompt. The lemmas show that the ranking is a stable descending sort of
  exactly the requested vendors that were evaluated, that margins are gaps to the vendor above,
  and that \<open>_rank_is_stable\<close>, which looks at neighbours only, decides a property of all pairs.
\<close>

section \<open>Positions and stability\<close>

definition relative_position :: "nat \<Rightarrow> nat \<Rightarrow> string" where
  "relative_position rank vendors =
     (if vendors = 1 then ''best''
      else if rank = 1 then ''best''
      else if rank = vendors then ''weakest''
      else let mid = (of_nat vendors / 2 :: rat)
           in if of_nat rank < mid then ''above_average''
              else if mid < of_nat rank then ''below_average''
              else ''average'')"

text \<open>The loop over neighbours of the sorted list.\<close>

fun margins_ok :: "rat \<Rightarrow> rat list \<Rightarrow> bool" where
  "margins_ok t (x # y # zs) = (if x - y < t then False else margins_ok t (y # zs))"
| "margins_ok t _ = True"

definition rank_is_stable :: "(string \<times> rat) list \<Rightarrow> rat \<Rightarrow> bool" where
  "rank_is_stable scores margin_threshold =
     (if length scores \<le> 1 then True
      else margins_ok margin_threshold (map snd (sort_desc snd scores)))"

definition margin_threshold :: rat where
  "margin_threshold = 5 / 100"

section \<open>One criterion\<close>

type_synonym compare_llm =
  "string \<Rightarrow> rat \<Rightarrow> string \<Rightarrow> (string, int) dict \<Rightarrow> (string, string list) dict \<Rightarrow> reply"

definition invalid_comparison_record :: json where
  "invalid_comparison_record = JObj
     [(''vendor_differentiators'', JObj []), (''distinguishing_factors'', JStr []),
      (''comparison_confidence'', JNum 0)]"

fun enumerate_from :: "nat \<Rightarrow> 'a list \<Rightarrow> (nat \<times> 'a) list" where
  "enumerate_from n [] = []"
| "enumerate_from n (x # xs) = (n, x) # enumerate_from (Suc n) xs"

definition rank_map :: "(string, int) dict \<Rightarrow> (string, nat) dict" where
  "rank_map vendor_scores =
     dict_of (map (\<lambda>(rank, vs). (fst vs, rank + 1))
       (enumerate_from 0 (sort_desc (\<lambda>vs. of_int (snd vs)) vendor_scores)))"

definition vendor_row ::
  "string \<Rightarrow> json \<Rightarrow> (string, int) dict \<Rightarrow> (string, string list) dict \<Rightarrow> string \<times> int \<Rightarrow>
   vendor_criterion_comparison result" where
  "vendor_row criterion_id differentiators vendor_scores vendor_evidences vs =
     rbind (jget differentiators (fst vs) (JStr [])) (\<lambda>diff_v.
     case dict_get (rank_map vendor_scores) (fst vs) of
       None \<Rightarrow> Inl (KeyError (fst vs))
     | Some rank \<Rightarrow>
         rbind (as_str diff_v) (\<lambda>differentiator.
         Inr \<lparr>vc_criterion_id = criterion_id, vc_vendor_id = fst vs, vc_score = snd vs,
              vc_key_differentiator = differentiator,
              vc_relative_position = relative_position rank (length vendor_scores),
              vc_evidence_summary = join ''; '' (take 2 (get_default vendor_evidences (fst vs) []))\<rparr>))"

definition compare_criterion ::
  "compare_llm \<Rightarrow> string \<Rightarrow> string \<Rightarrow> rat \<Rightarrow> string \<Rightarrow> (string, int) dict \<Rightarrow> (string, string list) dict \<Rightarrow>
   criterion_comparison result" where
  "compare_criterion llm criterion_id criterion_name weight rubric vendor_scores vendor_evidences =
     rbind (llm criterion_name weight rubric vendor_scores vendor_evidences) (\<lambda>raw.
     let parsed = (case raw of None \<Rightarrow> invalid_comparison_record | Some v \<Rightarrow> v) in
     rbind (jget parsed ''vendor_differentiators'' (JObj [])) (\<lambda>differentiators.
     rbind (rmap (vendor_row criterion_id differentiators vendor_scores vendor_evidences) vendor_scores) (\<lambda>rows.
     rbind (jget parsed ''comparison_confidence'' (JNum (7 / 10))) (\<lambda>conf_v.
     rbind (to_float conf_v) (\<lambda>confidence.
     rbind (jget parsed ''distinguishing_factors'' (JStr [])) (\<lambda>dist_v.
     rbind (as_str dist_v) (\<lambda>factors.
     Inr \<lparr>cc_criterion_id = criterion_id, cc_criterion_name = criterion_name, cc_weight = weight,
          cc_vendors = rows, cc_comparison_confidence = confidence,
          cc_rank_stable = rank_is_stable (map (\<lambda>vs. (fst vs, of_int (snd vs))) vendor_scores) margin_threshold,
          cc_distinguishing_factors = factors\<rparr>)))))))"

section \<open>The agent\<close>

type_synonym evaluations = "(string, evaluation_output) dict"

definition score_lookup :: "evaluation_output \<Rightarrow> (string, criterion_score) dict" where
  "score_lookup ev = dict_of (map (\<lambda>s. (cs_criterion_id s, s)) (eo_criterion_scores ev))"

text \<open>The inner loop: scores, evidences and warnings of one criterion over the evaluated vendors.\<close>

fun gather_scores ::
  "evaluations \<Rightarrow> string \<Rightarrow> string list \<Rightarrow>
   (string, int) dict \<times> (string, string list) dict \<times> string list \<Rightarrow>
   (string, int) dict \<times> (string, string list) dict \<times> string list" where
  "gather_scores evs cid [] acc = acc"
| "gather_scores evs cid (vid # vids) (scores, evidences, warnings) =
     (case dict_get evs vid of
        None \<Rightarrow> gather_scores evs cid vids (scores, evidences, warnings)
      | Some ev \<Rightarrow>
          (case dict_get (score_lookup ev) cid of
             Some cs \<Rightarrow>
               if cs_insufficient_evidence cs
               then gather_scores evs cid vids (scores, evidences, warnings @
                 [''Vendor '' @ vid @ '' excluded from criterion '' @ cid @ '' comparison'' @ dash @
                  ''insufficient evidence (not scored).''])
               else gather_scores evs cid vids
                 (dict_set vid (cs_raw_score cs) scores, dict_set vid (cs_evidence_used cs) evidences, warnings)
           | None \<Rightarrow> gather_scores evs cid vids
               (dict_set vid 0 scores, dict_set vid [] evidences,
                warnings @ [''No score for vendor '' @ vid @ '' on criterion '' @ cid])))"

definition criterion_step ::
  "compare_llm \<Rightarrow> string list \<Rightarrow> evaluations \<Rightarrow> scoring_criterion \<Rightarrow> criterion_comparison list \<times> string list" where
  "criterion_step llm vendor_ids evs criterion =
     (let cid = sc_criterion_id criterion;
          (scores, evidences, warnings) = gather_scores evs cid vendor_ids ([], [], [])
      in if scores = []
         then ([], warnings @ [''Criterion '' @ cid @ '': all vendors have insufficient evidence'' @ dash @
                 ''excluded from cross-vendor comparison.''])
         else (case compare_criterion llm cid (sc_name criterion) (sc_weight criterion)
                      (take 80 (sc_rubric_9_10 criterion)) scores evidences of
                 Inr comparison \<Rightarrow> ([comparison], warnings)
               | Inl e \<Rightarrow> ([], warnings @ [''Criterion '' @ cid @ '' comparison failed: '' @ exn_str e])))"

definition vendor_totals :: "string list \<Rightarrow> evaluations \<Rightarrow> (string, rat) dict" where
  "vendor_totals vendor_ids evs =
     map (\<lambda>(vid, ev). (vid, eo_coverage_normalised_score ev)) (filter (\<lambda>(vid, ev). vid \<in> set vendor_ids) evs)"

definition overall_ranking :: "string list \<Rightarrow> evaluations \<Rightarrow> string list" where
  "overall_ranking vendor_ids evs = map fst (sort_desc snd (vendor_totals vendor_ids evs))"

definition low_coverage_of :: "platform_cfg \<Rightarrow> string list \<Rightarrow> evaluations \<Rightarrow> string list" where
  "low_coverage_of cfg vendor_ids evs =
     map fst (filter (\<lambda>(vid, ev). vid \<in> set vendor_ids \<and> eo_coverage ev < pc_min_coverage_for_trust cfg) evs)"

text \<open>The loop over the ranking: the first vendor's margin is 0, every other one's the gap to
  the vendor above it.\<close>

fun margins_from :: "(string, rat) dict \<Rightarrow> string \<Rightarrow> string list \<Rightarrow> (string \<times> rat) list" where
  "margins_from totals prev [] = []"
| "margins_from totals prev (v # vs) =
     (v, py_round 4 (get_default totals prev 0 - get_default totals v 0)) # margins_from totals v vs"

definition rank_margins_of :: "(string, rat) dict \<Rightarrow> string list \<Rightarrow> (string, rat) dict" where
  "rank_margins_of totals ranking =
     dict_of (case ranking of [] \<Rightarrow> [] | v # vs \<Rightarrow> (v, 0) # margins_from totals v vs)"

definition missing_warnings :: "string list \<Rightarrow> evaluations \<Rightarrow> string list" where
  "missing_warnings vendor_ids evs =
     map (\<lambda>vid. ''Vendor '' @ vid @ '' has no evaluation output'' @ dash @ ''excluded from ranking. '' @
            ''Evaluation may have failed for this vendor.'')
       (filter (\<lambda>vid. \<not> dict_mem vid evs) vendor_ids)"

definition low_coverage_warnings :: "platform_cfg \<Rightarrow> evaluations \<Rightarrow> string list \<Rightarrow> string list" where
  "low_coverage_warnings cfg evs vids =
     map (\<lambda>vid. ''Vendor '' @ vid @ '' ranked on a coverage-normalised score but assessed on only '' @
            fmt_pct (case dict_get evs vid of None \<Rightarrow> 0 | Some ev \<Rightarrow> eo_coverage ev) @
            '' of the criterion weight (below the '' @ fmt_pct (pc_min_coverage_for_trust cfg) @
            '' trust floor)'' @ dash @ ''flagged for human review.'') vids"

definition ranking_confidence_of :: "criterion_comparison list \<Rightarrow> rat" where
  "ranking_confidence_of ccs =
     (if ccs = [] then 0
      else py_round 3 (sum_list (map cc_comparison_confidence ccs) / of_nat (length ccs)))"

definition run_comparator_agent ::
  "platform_cfg \<Rightarrow> compare_llm \<Rightarrow> string list \<Rightarrow> string \<Rightarrow> evaluation_setup \<Rightarrow> evaluations \<Rightarrow>
   comparator_output \<times> critic_output" where
  "run_comparator_agent cfg llm vendor_ids rfp_id setup evs =
     (let steps = map (criterion_step llm vendor_ids evs) (es_scoring_criteria setup);
          comparisons = concat (map fst steps);
          totals = vendor_totals vendor_ids evs;
          ranking = overall_ranking vendor_ids evs;
          low = low_coverage_of cfg vendor_ids evs;
          output = \<lparr>cp_rfp_id = rfp_id, cp_vendor_ids = vendor_ids,
            cp_criteria_comparisons = comparisons, cp_overall_ranking = ranking,
            cp_ranking_confidence = ranking_confidence_of comparisons,
            cp_rank_margins = rank_margins_of totals ranking,
            cp_low_coverage_vendors = low,
            cp_comparison_warnings = missing_warnings vendor_ids evs @ concat (map snd steps) @
              low_coverage_warnings cfg evs low\<rparr>
      in (output, critic_after_comparator output))"

section \<open>Stability decides all pairs\<close>

lemma margins_ok_sorted_wrt:
  "0 \<le> t \<Longrightarrow> margins_ok t xs \<longleftrightarrow> sorted_wrt (\<lambda>x y. t \<le> x - y) xs"
proof (induction t xs rule: margins_ok.induct)
  case (1 t x y zs)
  have "t \<le> x - z" if "t \<le> x - y" "t \<le> y - z" for z using that 1(2) by linarith
  with 1 show ?case by (auto simp: not_less)
qed simp_all

lemma sorted_wrt_symp_mset:
  assumes "mset xs = mset ys" and sym: "\<And>x y. R x y \<Longrightarrow> R y x"
  shows "sorted_wrt R xs \<Longrightarrow> sorted_wrt R ys"
  using assms(1)
proof (induction xs arbitrary: ys)
  case Nil
  then show ?case by simp
next
  case (Cons x xs)
  then have "x \<in> set ys" by (metis list.set_intros(1) mset_eq_setD)
  then obtain as bs where ys: "ys = as @ x # bs" by (meson split_list)
  with Cons.prems(2) have m: "mset xs = mset (as @ bs)" by simp
  have "sorted_wrt R (as @ bs)" using Cons.IH[OF _ m] Cons.prems(1) by simp
  moreover have "\<forall>y \<in> set (as @ bs). R x y" using Cons.prems(1) mset_eq_setD[OF m] by simp
  ultimately show ?case using sym by (auto simp: ys sorted_wrt_append)
qed

lemma sorted_wrt_symp_nth:
  assumes sym: "\<And>x y. R x y \<Longrightarrow> R y x"
  shows "sorted_wrt R xs \<longleftrightarrow> (\<forall>i < length xs. \<forall>j < length xs. i \<noteq> j \<longrightarrow> R (xs ! i) (xs ! j))"
proof
  assume "sorted_wrt R xs"
  then have less: "R (xs ! i) (xs ! j)" if "i < j" "j < length xs" for i j
    using that by (simp add: sorted_wrt_iff_nth_less)
  show "\<forall>i < length xs. \<forall>j < length xs. i \<noteq> j \<longrightarrow> R (xs ! i) (xs ! j)"
  proof (intro allI impI)
    fix i j assume "i < length xs" "j < length xs" "i \<noteq> j"
    then show "R (xs ! i) (xs ! j)" using less[of i j] less[of j i] sym by (cases "i < j") auto
  qed
qed (simp add: sorted_wrt_iff_nth_less)

lemma rank_is_stable_pairs:
  assumes "0 < t"
  shows "rank_is_stable scores t \<longleftrightarrow>
    (\<forall>i < length scores. \<forall>j < length scores. i \<noteq> j \<longrightarrow> t \<le> \<bar>snd (scores ! i) - snd (scores ! j)\<bar>)"
proof -
  let ?far = "\<lambda>x y. t \<le> \<bar>snd x - snd y\<bar>" and ?ys = "sort_desc snd scores"
  have sym: "?far y x" if "?far x y" for x y :: "string \<times> rat" using that by (simp add: abs_minus_commute)
  have "margins_ok t (map snd ?ys) \<longleftrightarrow> sorted_wrt (\<lambda>x y. t \<le> snd x - snd y) ?ys"
    using assms by (simp add: margins_ok_sorted_wrt sorted_wrt_map)
  also have "\<dots> \<longleftrightarrow> sorted_wrt ?far ?ys"
  proof
    show "sorted_wrt (\<lambda>x y. t \<le> snd x - snd y) ?ys \<Longrightarrow> sorted_wrt ?far ?ys"
      by (erule sorted_wrt_mono_rel[rotated]) linarith
    assume "sorted_wrt ?far ?ys"
    then show "sorted_wrt (\<lambda>x y. t \<le> snd x - snd y) ?ys"
      using sorted_sort_desc[of snd scores] unfolding sorted_wrt_iff_nth_less
      by (fastforce simp: abs_if split: if_splits)
  qed
  also have "\<dots> \<longleftrightarrow> sorted_wrt ?far scores"
    using sorted_wrt_symp_mset[of ?ys scores ?far] sorted_wrt_symp_mset[of scores ?ys ?far] sym by auto
  also have "\<dots> \<longleftrightarrow> (\<forall>i < length scores. \<forall>j < length scores. i \<noteq> j \<longrightarrow> ?far (scores ! i) (scores ! j))"
    by (rule sorted_wrt_symp_nth) (rule sym)
  finally show ?thesis by (auto simp: rank_is_stable_def)
qed

section \<open>The ranking\<close>

lemma overall_ranking_set:
  "set (overall_ranking vendor_ids evs) = set vendor_ids \<inter> set (dict_keys evs)"
  by (force simp: overall_ranking_def vendor_totals_def)

lemma keys_filter_distinct: "distinct (dict_keys d) \<Longrightarrow> distinct (dict_keys (filter P d))"
  by (induction d) auto

lemma vendor_totals_keys: "dict_keys (vendor_totals vendor_ids evs) = filter (\<lambda>v. v \<in> set vendor_ids) (dict_keys evs)"
  by (induction evs) (auto simp: vendor_totals_def)

lemma overall_ranking_distinct: "distinct (dict_keys evs) \<Longrightarrow> distinct (overall_ranking vendor_ids evs)"
proof -
  assume "distinct (dict_keys evs)"
  then have "distinct (dict_keys (vendor_totals vendor_ids evs))" by (simp add: vendor_totals_keys)
  moreover have "mset (overall_ranking vendor_ids evs) = mset (dict_keys (vendor_totals vendor_ids evs))"
    by (simp add: overall_ranking_def)
  ultimately show ?thesis by (metis mset_eq_imp_distinct_iff)
qed

lemma vendor_totals_mem:
  "(v, x) \<in> set (vendor_totals vendor_ids evs) \<longleftrightarrow>
   (\<exists>ev. (v, ev) \<in> set evs \<and> v \<in> set vendor_ids \<and> x = eo_coverage_normalised_score ev)"
  by (auto simp: vendor_totals_def)

lemma overall_ranking_sorted:
  assumes "distinct (dict_keys evs)"
  shows "sorted_wrt (\<lambda>v w. \<exists>ev ew. dict_get evs v = Some ev \<and> dict_get evs w = Some ew \<and>
     eo_coverage_normalised_score ew \<le> eo_coverage_normalised_score ev) (overall_ranking vendor_ids evs)"
proof -
  have "sorted_wrt (\<lambda>p q. snd q \<le> snd p) (sort_desc snd (vendor_totals vendor_ids evs))"
    by (rule sorted_sort_desc)
  then show ?thesis
    unfolding overall_ranking_def sorted_wrt_map
  proof (rule sorted_wrt_mono_rel[rotated])
    fix p q assume pq: "p \<in> set (sort_desc snd (vendor_totals vendor_ids evs))"
      "q \<in> set (sort_desc snd (vendor_totals vendor_ids evs))" "snd q \<le> snd p"
    then obtain ev ew where "(fst p, ev) \<in> set evs" "snd p = eo_coverage_normalised_score ev"
      "(fst q, ew) \<in> set evs" "snd q = eo_coverage_normalised_score ew"
      by (metis prod.collapse set_sort_desc vendor_totals_mem)
    with pq(3) show "\<exists>ev ew. dict_get evs (fst p) = Some ev \<and> dict_get evs (fst q) = Some ew \<and>
        eo_coverage_normalised_score ew \<le> eo_coverage_normalised_score ev"
      using map_of_is_SomeI[OF assms] by auto
  qed
qed

lemma run_comparator_sel:
  "cp_vendor_ids (fst (run_comparator_agent cfg llm vendor_ids rfp_id setup evs)) = vendor_ids"
  "cp_overall_ranking (fst (run_comparator_agent cfg llm vendor_ids rfp_id setup evs)) = overall_ranking vendor_ids evs"
  "cp_rfp_id (fst (run_comparator_agent cfg llm vendor_ids rfp_id setup evs)) = rfp_id"
  "cp_low_coverage_vendors (fst (run_comparator_agent cfg llm vendor_ids rfp_id setup evs)) =
     low_coverage_of cfg vendor_ids evs"
  "cp_rank_margins (fst (run_comparator_agent cfg llm vendor_ids rfp_id setup evs)) =
     rank_margins_of (vendor_totals vendor_ids evs) (overall_ranking vendor_ids evs)"
  "snd (run_comparator_agent cfg llm vendor_ids rfp_id setup evs) =
     critic_after_comparator (fst (run_comparator_agent cfg llm vendor_ids rfp_id setup evs))"
  by (simp_all add: run_comparator_agent_def Let_def)

lemma missing_vendors_run:
  "set (missing_vendors (fst (run_comparator_agent cfg llm vendor_ids rfp_id setup evs))) =
   set vendor_ids - set (dict_keys evs)"
  by (auto simp: missing_vendors_def run_comparator_sel overall_ranking_set simp del: set_map)

section \<open>What the comparator's critic says\<close>

lemma comparator_escalates:
  assumes "missing_vendors output \<noteq> []"
  shows "co_overall_verdict (critic_after_comparator output) = ESCALATED"
proof -
  let ?f = "make_flag HARD ''comparator_agent'' ''vendors_missing_from_ranking''
      (show_nat (length (missing_vendors output)) @ '' vendor(s) requested but absent from overall ranking'')
      (''Evaluation likely failed for these vendors. '' @ ''Do not proceed to Decision Agent'' @ dash @
       ''ranking is incomplete. Escalate to human review.'')"
  have "?f \<in> set (co_flags (critic_after_comparator output))"
    using assms unfolding critic_after_comparator_def Let_def critic_out_sel by (simp only: if_True simp_thms set_append) simp
  moreover have "escalates ?f" by (simp add: rec_eval char_of_eq_iff take_bit_eq_mod)
  ultimately show ?thesis unfolding comparator_critic.verdict_is verdict_ESCALATED_iff by (metis make_flag_sel(1))
qed

lemma comparator_never_blocked_if_requested:
  assumes "cp_vendor_ids output \<noteq> []"
  shows "co_overall_verdict (critic_after_comparator output) \<noteq> BLOCKED"
proof (cases "missing_vendors output = []")
  case True
  with assms have "cp_overall_ranking output \<noteq> []"
    by (auto simp: missing_vendors_def filter_empty_conv)
  with True show ?thesis
    by (auto simp: critic_after_comparator_def Let_def verdict_BLOCKED_iff split: if_splits)
next
  case False
  then show ?thesis using comparator_escalates by simp
qed

section \<open>Rows of a criterion\<close>

lemma gather_scores_keys:
  assumes "gather_scores evs cid vids (s0, e0, w0) = (s, e, w)"
  shows "v \<in> fst ` set s \<longleftrightarrow> v \<in> fst ` set s0 \<or>
    v \<in> set vids \<and> (\<exists>ev. dict_get evs v = Some ev \<and>
      (case dict_get (score_lookup ev) cid of None \<Rightarrow> True | Some c \<Rightarrow> \<not> cs_insufficient_evidence c))"
  using assms
  by (induction evs cid vids "(s0, e0, w0)" arbitrary: s0 e0 w0 rule: gather_scores.induct)
    (auto simp del: set_map split: option.splits if_splits)

end
