(* ===== verification/Decision.thy ===== *)
theory Decision
  imports Comparator
begin

text \<open>
  \<open>app/agents/decision.py\<close>: rejection, shortlist, approval tier and recommendation. The LLM
  that extracts evidence for a rejection is \<open>dec_llm\<close>, a function of the joined reasons.
\<close>

section \<open>Approval tiers\<close>

text \<open>The sort key of a tier: its limit, \<open>float("inf")\<close> when it has none.\<close>

datatype limit = Upto rat | Unlimited

fun limit_le :: "limit \<Rightarrow> limit \<Rightarrow> bool" where
  "limit_le (Upto x) (Upto y) = (x \<le> y)"
| "limit_le _ Unlimited = True"
| "limit_le Unlimited (Upto _) = False"

instantiation limit :: linorder
begin

definition less_eq_limit :: "limit \<Rightarrow> limit \<Rightarrow> bool" where
  "less_eq_limit = limit_le"

definition less_limit :: "limit \<Rightarrow> limit \<Rightarrow> bool" where
  "less_limit x y \<longleftrightarrow> limit_le x y \<and> \<not> limit_le y x"

instance
proof
  fix x y z :: limit
  show "x < y \<longleftrightarrow> x \<le> y \<and> \<not> y \<le> x" by (simp add: less_eq_limit_def less_limit_def)
  show "x \<le> x" by (cases x) (simp_all add: less_eq_limit_def)
  show "x \<le> y \<Longrightarrow> y \<le> z \<Longrightarrow> x \<le> z"
    by (cases x; cases y; cases z) (simp_all add: less_eq_limit_def)
  show "x \<le> y \<Longrightarrow> y \<le> x \<Longrightarrow> x = y" by (cases x; cases y) (simp_all add: less_eq_limit_def)
  show "x \<le> y \<or> y \<le> x" by (cases x; cases y) (auto simp: less_eq_limit_def)
qed

end

definition tier_limit :: "approval_tier \<Rightarrow> limit" where
  "tier_limit t = (case at_max_value t of None \<Rightarrow> Unlimited | Some x \<Rightarrow> Upto x)"

definition tier_covers :: "rat \<Rightarrow> approval_tier \<Rightarrow> bool" where
  "tier_covers contract_value t =
     (case at_max_value t of None \<Rightarrow> True | Some x \<Rightarrow> contract_value \<le> x)"

definition routing_for :: "rat \<Rightarrow> approval_tier \<Rightarrow> approval_routing" where
  "routing_for contract_value t =
     \<lparr>ar_approval_tier = at_tier t, ar_approver_role = at_approver_role t,
      ar_contract_value = contract_value, ar_sla_hours = at_sla_hours t, ar_escalation_reason = None\<rparr>"

definition route_to_approval_tier :: "platform_cfg \<Rightarrow> rat \<Rightarrow> approval_routing result" where
  "route_to_approval_tier cfg contract_value =
     (let tiers = sort_key tier_limit (pc_approval_tiers cfg)
      in case List.find (tier_covers contract_value) tiers of
           Some t \<Rightarrow> Inr (routing_for contract_value t)
         | None \<Rightarrow> if tiers = [] then Inl IndexError else Inr (routing_for contract_value (last tiers)))"

section \<open>Rejection\<close>

definition rejecting_decisions :: "compliance_decision list \<Rightarrow> compliance_decision list" where
  "rejecting_decisions ds =
     (let has_contradiction = list_ex (\<lambda>d. cd_contradictions_found d \<noteq> []) ds
      in filter (\<lambda>d. cd_decision d = FAIL \<or>
           (cd_decision d = INSUFFICIENT_EVIDENCE \<and> cd_contradictions_found d = [] \<and> \<not> has_contradiction)) ds)"

definition recommendation :: "platform_cfg \<Rightarrow> rat \<Rightarrow> string" where
  "recommendation cfg score =
     (case List.find (\<lambda>kv. snd kv \<le> score) (sort_desc snd (pc_recommendation_thresholds cfg)) of
        None \<Rightarrow> ''marginal'' | Some kv \<Rightarrow> fst kv)"

definition reason_of :: "compliance_decision \<Rightarrow> string" where
  "reason_of d =
     (if cd_reasoning d \<noteq> [] then cd_reasoning d
      else ''Mandatory requirement '' @ cd_check_id d @ '' not demonstrated '' @
           ''(no supporting evidence found in the proposal).'')"

text \<open>The values a \<open>for\<close> loop over a JSON value yields.\<close>

fun json_iter :: "json \<Rightarrow> json list result" where
  "json_iter (JArr xs) = Inr xs"
| "json_iter (JStr s) = Inr (map (\<lambda>c. JStr [c]) s)"
| "json_iter (JObj kvs) = Inr (map (JStr \<circ> fst) kvs)"
| "json_iter _ = Inl (TypeError ''object is not iterable'')"

definition strings_in :: "json list \<Rightarrow> string list" where
  "strings_in vs = concat (map (\<lambda>v. case v of JStr s \<Rightarrow> [s] | _ \<Rightarrow> []) vs)"

definition derived_citations :: "(string \<Rightarrow> reply) \<Rightarrow> string list \<Rightarrow> string list" where
  "derived_citations dec_llm rejection_reasons =
     (case rbind (dec_llm (join [CHR 0x0A] rejection_reasons)) (\<lambda>raw.
           case raw of
             None \<Rightarrow> Inl (ValueError ''invalid JSON'')
           | Some parsed \<Rightarrow>
               rbind (jget parsed ''evidence'' JNull) (\<lambda>v.
               rbind (json_iter (if truthy v then v else JArr [])) (\<lambda>citations.
               Inr (strings_in citations)))) of
        Inl _ \<Rightarrow> []
      | Inr cs \<Rightarrow> cs)"

definition build_rejection_notice :: "(string \<Rightarrow> reply) \<Rightarrow> string \<Rightarrow> evaluation_output \<Rightarrow> rejection_notice" where
  "build_rejection_notice dec_llm vendor_id evaluation =
     (let failed = rejecting_decisions (eo_compliance_decisions evaluation);
          failed_checks = map cd_check_id failed;
          rejection_reasons = map reason_of failed;
          citations = concat (map cd_evidence_used failed);
          evidence_citations =
            (if citations = [] \<and> failed \<noteq> []
             then let derived = derived_citations dec_llm rejection_reasons
                  in if derived = [] then take 3 rejection_reasons else derived
             else citations)
      in \<lparr>rn_vendor_id = vendor_id, rn_failed_checks = failed_checks,
          rn_rejection_reasons = rejection_reasons, rn_evidence_citations = evidence_citations,
          rn_clause_references = failed_checks\<rparr>)"

section \<open>The agent\<close>

definition is_rejected :: "evaluation_output \<Rightarrow> bool" where
  "is_rejected ev \<longleftrightarrow> rejecting_decisions (eo_compliance_decisions ev) \<noteq> []"

definition rank_key :: "string list \<Rightarrow> string \<times> evaluation_output \<Rightarrow> nat" where
  "rank_key ranked_order x = (case index_of (fst x) ranked_order of Some i \<Rightarrow> i | None \<Rightarrow> 999)"

definition review_reasons_of :: "string list \<Rightarrow> string \<Rightarrow> evaluation_output \<Rightarrow> string list" where
  "review_reasons_of low_coverage vendor_id evaluation =
     (let unresolved = map cd_check_id
            (filter (\<lambda>d. cd_decision d = INSUFFICIENT_EVIDENCE) (eo_compliance_decisions evaluation));
          insufficient_criteria = map cs_criterion_id
            (filter cs_insufficient_evidence (eo_criterion_scores evaluation))
      in (if unresolved \<noteq> []
          then [''Vendor '' @ vendor_id @ '' shortlisted but has unresolved mandatory checks '' @
                ''with insufficient evidence: '' @ show_strs unresolved @ ''. Human review recommended.'']
          else []) @
         (if insufficient_criteria \<noteq> []
          then [''Vendor '' @ vendor_id @ '' has criteria with insufficient evidence (not scored on merit): '' @
                show_strs insufficient_criteria @ ''. Coverage '' @ fmt_pct (eo_coverage evaluation) @
                ''; rank + recommendation use the coverage-normalised score '' @
                fmt_fixed 2 (eo_coverage_normalised_score evaluation) @ '' (absolute total '' @
                fmt_fixed 2 (eo_total_weighted_score evaluation) @ '')'' @ dash @ ''human review recommended.'']
          else []) @
         (if vendor_id \<in> set low_coverage
          then [''Vendor '' @ vendor_id @ '' ranked on a coverage-normalised score but assessed on only '' @
                fmt_pct (eo_coverage evaluation) @ '' of the criterion weight'' @ dash @
                ''below the trust floor. Rank is not reliable without human review.'']
          else []))"

definition recommendation_labels :: "string list" where
  "recommendation_labels = [''strongly_recommended'', ''recommended'', ''acceptable'', ''marginal'']"

definition shortlist_entry ::
  "platform_cfg \<Rightarrow> nat \<times> string \<times> evaluation_output \<Rightarrow> shortlisted_vendor result" where
  "shortlist_entry cfg = (\<lambda>(rank, vendor_id, evaluation).
     let rec = recommendation cfg (eo_coverage_normalised_score evaluation)
     in if rec \<in> set recommendation_labels
        then Inr \<lparr>sv_vendor_id = vendor_id, sv_rank = rank,
               sv_total_score = eo_total_weighted_score evaluation, sv_coverage = eo_coverage evaluation,
               sv_coverage_normalised_score = eo_coverage_normalised_score evaluation,
               sv_score_confidence = eo_score_confidence evaluation,
               sv_criterion_breakdown = eo_criterion_scores evaluation, sv_recommendation = rec\<rparr>
        else Inl (ValidationError ''recommendation''))"

definition all_rejected_reason :: string where
  "all_rejected_reason =
     ''All vendors rejected'' @ dash @ ''mandatory requirements may be too restrictive. '' @
     ''Escalate to procurement team for review.''"

definition run_decision_agent ::
  "platform_cfg \<Rightarrow> (string \<Rightarrow> reply) \<Rightarrow> evaluations \<Rightarrow> comparator_output \<Rightarrow> rat \<Rightarrow>
   (decision_output \<times> critic_output) result" where
  "run_decision_agent cfg dec_llm evs comparator contract_value =
     (let rejected = map (\<lambda>(vid, ev). build_rejection_notice dec_llm vid ev) (filter (\<lambda>(_, ev). is_rejected ev) evs);
          shortlisted_sorted = sort_key (rank_key (cp_overall_ranking comparator))
            (filter (\<lambda>(_, ev). \<not> is_rejected ev) evs);
          review_reasons = concat (map (\<lambda>(vid, ev). review_reasons_of (cp_low_coverage_vendors comparator) vid ev)
            shortlisted_sorted);
          none_left = (shortlisted_sorted = [] \<and> rejected \<noteq> [])
      in rbind (rmap (shortlist_entry cfg) (enumerate_from 1 shortlisted_sorted)) (\<lambda>shortlisted.
         rbind (route_to_approval_tier cfg contract_value) (\<lambda>routing.
         let requires_review = (none_left \<or> review_reasons \<noteq> []);
             reasons = (if none_left then review_reasons @ [all_rejected_reason] else review_reasons);
             output = \<lparr>do_rfp_id = cp_rfp_id comparator, do_rejected_vendors = rejected,
               do_shortlisted_vendors = shortlisted,
               do_approval_routing = (if none_left then routing\<lparr>ar_escalation_reason := Some (hd reasons)\<rparr> else routing),
               do_decision_confidence = cp_ranking_confidence comparator,
               do_requires_human_review = requires_review, do_review_reasons = reasons\<rparr>
         in Inr (output, critic_after_decision output))))"

section \<open>Tier and recommendation\<close>

lemma find_sorted_least:
  assumes "List.find P (sort_key k xs) = Some x"
  shows "x \<in> set xs" and "P x" and "y \<in> set xs \<Longrightarrow> P y \<Longrightarrow> k x \<le> k y"
proof -
  from assms obtain i where i: "i < length (sort_key k xs)" "P (sort_key k xs ! i)"
      "x = sort_key k xs ! i" "\<forall>j < i. \<not> P (sort_key k xs ! j)"
    by (auto simp: find_Some_iff)
  show "x \<in> set xs" using i(1,3) nth_mem set_sort by metis
  show "P x" using i by simp
  assume "y \<in> set xs" "P y"
  then obtain j where j: "j < length (sort_key k xs)" "y = sort_key k xs ! j"
    by (metis in_set_conv_nth set_sort)
  with i(4) \<open>P y\<close> have "i \<le> j" by (meson not_less)
  moreover have "sorted (map k (sort_key k xs))" by simp
  ultimately show "k x \<le> k y" using i(1,3) j sorted_nth_mono[of "map k (sort_key k xs)" i j] by simp
qed

lemma find_desc_greatest:
  assumes "List.find P (sort_desc k xs) = Some x"
  shows "x \<in> set xs" and "P x" and "y \<in> set xs \<Longrightarrow> P y \<Longrightarrow> k y \<le> k x"
  using find_sorted_least[OF assms[unfolded sort_desc_def]] by auto

lemma find_None_sorted: "List.find P (sort_key k xs) = None \<longleftrightarrow> (\<forall>x \<in> set xs. \<not> P x)"
  by (auto simp: find_None_iff)

lemma tier_covers_limit: "tier_covers v t \<longleftrightarrow> Upto v \<le> tier_limit t"
  by (simp add: tier_covers_def tier_limit_def less_eq_limit_def split: option.split)

section \<open>Rejection\<close>

lemma is_rejected_iff:
  "is_rejected ev \<longleftrightarrow>
    (\<exists>d \<in> set (eo_compliance_decisions ev). cd_decision d = FAIL) \<or>
    (\<exists>d \<in> set (eo_compliance_decisions ev). cd_decision d = INSUFFICIENT_EVIDENCE) \<and>
    (\<forall>d \<in> set (eo_compliance_decisions ev). cd_contradictions_found d = [])"
  by (auto simp: is_rejected_def rejecting_decisions_def Let_def filter_empty_conv list_ex_iff)

lemma reason_of_not_Nil [simp]: "reason_of d \<noteq> []"
  by (simp add: reason_of_def)

lemma rejection_notice_cited:
  assumes "is_rejected ev"
  shows "rn_evidence_citations (build_rejection_notice dec_llm vid ev) \<noteq> []"
    and "rn_rejection_reasons (build_rejection_notice dec_llm vid ev) \<noteq> []"
    and "\<forall>r \<in> set (rn_rejection_reasons (build_rejection_notice dec_llm vid ev)). r \<noteq> []"
    and "rn_vendor_id (build_rejection_notice dec_llm vid ev) = vid"
  using assms by (auto simp: build_rejection_notice_def is_rejected_def Let_def)

section \<open>The whole decision\<close>

lemma enumerate_from_conv: "enumerate_from n xs = zip [n..<n + length xs] xs"
  by (induction xs arbitrary: n) (simp_all add: upt_conv_Cons del: upt_Suc)

lemma shortlist_entry_Inr:
  assumes "shortlist_entry cfg (rank, vid, ev) = Inr sv"
  shows "sv_vendor_id sv = vid" and "sv_rank sv = rank"
    and "sv_recommendation sv = recommendation cfg (eo_coverage_normalised_score ev)"
    and "sv_coverage_normalised_score sv = eo_coverage_normalised_score ev"
  using assms by (auto simp: shortlist_entry_def Let_def split: if_splits)

lemma rmap_shortlist:
  "rmap (shortlist_entry cfg) (enumerate_from n xs) = Inr svs \<Longrightarrow>
   map sv_vendor_id svs = map fst xs \<and> map sv_rank svs = [n..<n + length xs] \<and>
   (\<forall>sv \<in> set svs. \<exists>ev. (sv_vendor_id sv, ev) \<in> set xs \<and>
      sv_recommendation sv = recommendation cfg (eo_coverage_normalised_score ev))"
proof (induction xs arbitrary: n svs)
  case Nil
  then show ?case by simp
next
  case (Cons x xs)
  obtain vid ev where x: "x = (vid, ev)" by fastforce
  from Cons.prems obtain sv svs' where e: "shortlist_entry cfg (n, vid, ev) = Inr sv"
      and r: "rmap (shortlist_entry cfg) (enumerate_from (Suc n) xs) = Inr svs'" and svs: "svs = sv # svs'"
    by (auto simp: x rbind_Inr_iff)
  show ?case using Cons.IH[OF r] shortlist_entry_Inr[OF e]
    by (auto simp: svs x upt_conv_Cons simp del: upt_Suc)
qed

lemma run_decision_cases:
  assumes "run_decision_agent cfg dec_llm evs comparator contract_value = Inr (output, critic)"
  obtains routing xs where
    "do_rejected_vendors output =
       map (\<lambda>(vid, ev). build_rejection_notice dec_llm vid ev) (filter (\<lambda>(_, ev). is_rejected ev) evs)"
    and "xs = sort_key (rank_key (cp_overall_ranking comparator)) (filter (\<lambda>(_, ev). \<not> is_rejected ev) evs)"
    and "rmap (shortlist_entry cfg) (enumerate_from 1 xs) = Inr (do_shortlisted_vendors output)"
    and "route_to_approval_tier cfg contract_value = Inr routing"
    and "do_review_reasons output =
       concat (map (\<lambda>(vid, ev). review_reasons_of (cp_low_coverage_vendors comparator) vid ev) xs) @
       (if xs = [] \<and> do_rejected_vendors output \<noteq> [] then [all_rejected_reason] else [])"
    and "do_requires_human_review output \<longleftrightarrow> do_review_reasons output \<noteq> []"
    and "critic = critic_after_decision output"
    and "do_approval_routing output = routing\<lparr>ar_escalation_reason :=
       (if xs = [] \<and> do_rejected_vendors output \<noteq> [] then Some (hd (do_review_reasons output))
        else ar_escalation_reason routing)\<rparr>"
  using assms by (auto simp: run_decision_agent_def Let_def rbind_Inr_iff split: if_splits)

lemma decision_partition:
  assumes "run_decision_agent cfg dec_llm evs comparator contract_value = Inr (output, critic)"
  shows "map rn_vendor_id (do_rejected_vendors output) = map fst (filter (\<lambda>(_, ev). is_rejected ev) evs)"
    and "mset (map sv_vendor_id (do_shortlisted_vendors output)) =
         mset (map fst (filter (\<lambda>(_, ev). \<not> is_rejected ev) evs))"
    and "map sv_rank (do_shortlisted_vendors output) = [1..<length (do_shortlisted_vendors output) + 1]"
proof -
  obtain xs where rej: "do_rejected_vendors output =
       map (\<lambda>(vid, ev). build_rejection_notice dec_llm vid ev) (filter (\<lambda>(_, ev). is_rejected ev) evs)"
    and xs: "xs = sort_key (rank_key (cp_overall_ranking comparator)) (filter (\<lambda>(_, ev). \<not> is_rejected ev) evs)"
    and short: "rmap (shortlist_entry cfg) (enumerate_from 1 xs) = Inr (do_shortlisted_vendors output)"
    by (rule run_decision_cases[OF assms])
  show "map rn_vendor_id (do_rejected_vendors output) = map fst (filter (\<lambda>(_, ev). is_rejected ev) evs)"
    by (auto simp: rej build_rejection_notice_def Let_def)
  note sh = rmap_shortlist[OF short]
  then show "mset (map sv_vendor_id (do_shortlisted_vendors output)) =
         mset (map fst (filter (\<lambda>(_, ev). \<not> is_rejected ev) evs))"
    by (simp add: xs)
  have "length (do_shortlisted_vendors output) = length xs" using sh by (metis length_map)
  then show "map sv_rank (do_shortlisted_vendors output) = [1..<length (do_shortlisted_vendors output) + 1]"
    using sh by simp
qed

lemma decision_cited:
  assumes "run_decision_agent cfg dec_llm evs comparator contract_value = Inr (output, critic)"
    and "rej \<in> set (do_rejected_vendors output)"
  shows "rn_evidence_citations rej \<noteq> []"
  using assms by (auto elim!: run_decision_cases simp: rejection_notice_cited)

lemma verdict_soft_then:
  assumes "\<And>f. f \<in> set soft \<Longrightarrow> cf_severity f = SOFT" and "cf_severity h = HARD" and "escalates h"
  shows "verdict (soft @ (if b then [h] else [])) =
    (if b then ESCALATED else if soft \<noteq> [] then APPROVED_WITH_WARNINGS else APPROVED)"
proof (cases b)
  case True
  with assms show ?thesis by (simp add: verdict_ESCALATED_iff)
next
  case b: False
  show ?thesis
  proof (cases soft)
    case Nil
    with b show ?thesis by (simp add: verdict_APPROVED_iff)
  next
    case (Cons f fs)
    then have "verdict soft = APPROVED_WITH_WARNINGS"
      using assms(1) unfolding verdict_WARNINGS_iff by force
    with b Cons show ?thesis by simp
  qed
qed

definition unresolved_flags :: "decision_output \<Rightarrow> critic_flag list" where
  "unresolved_flags output =
     (if do_requires_human_review output \<and> do_review_reasons output \<noteq> []
       then concat (map (\<lambda>reason. if contains_str ''insufficient evidence'' (lower reason)
              then [make_flag SOFT ''decision_agent'' ''shortlisted_vendor_unresolved_checks'' reason
                     (''Flag in report. Approver must confirm these checks before award.'')]
              else []) (do_review_reasons output)) else [])"

lemma unresolved_flags_soft: "f \<in> set (unresolved_flags output) \<Longrightarrow> cf_severity f = SOFT"
  by (auto simp: unresolved_flags_def split: if_splits)

lemma unresolved_flags_Nil: "unresolved_flags output \<noteq> [] \<longleftrightarrow> do_requires_human_review output \<and>
    (\<exists>r \<in> set (do_review_reasons output). contains_str ''insufficient evidence'' (lower r))"
  unfolding unresolved_flags_def by (cases "do_review_reasons output = []") (auto split: if_split_asm)

definition all_rejected_flag :: critic_flag where
  "all_rejected_flag = make_flag HARD ''decision_agent'' ''all_vendors_rejected'' ''All vendors were rejected''
      (''ESCALATE. Requirements may be too restrictive. '' @
       ''Review mandatory requirements with procurement team.'')"

lemma all_rejected_flag_escalates: "cf_severity all_rejected_flag = HARD" "escalates all_rejected_flag"
  by (simp_all add: all_rejected_flag_def rec_eval char_of_eq_iff take_bit_eq_mod)

text \<open>With every rejection cited, the only HARD flag the critic can raise is the escalating one.\<close>

lemma decision_critic_not_blocked:
  assumes "\<And>rej. rej \<in> set (do_rejected_vendors output) \<Longrightarrow> rn_evidence_citations rej \<noteq> []"
  shows "co_overall_verdict (critic_after_decision output) =
    (if do_shortlisted_vendors output = [] \<and> do_rejected_vendors output \<noteq> [] then ESCALATED
     else if do_requires_human_review output \<and>
       (\<exists>r \<in> set (do_review_reasons output). contains_str ''insufficient evidence'' (lower r))
     then APPROVED_WITH_WARNINGS else APPROVED)"
proof -
  have none: "concat (map (\<lambda>rej. if rn_evidence_citations rej = [] then g rej else []) (do_rejected_vendors output)) = []"
    for g :: "rejection_notice \<Rightarrow> critic_flag list"
    using assms by (auto simp: concat_eq_Nil_conv)
  have "co_flags (critic_after_decision output) = unresolved_flags output @
      (if do_shortlisted_vendors output = [] \<and> do_rejected_vendors output \<noteq> [] then [all_rejected_flag] else [])"
    unfolding critic_after_decision_def critic_out_sel none unresolved_flags_def all_rejected_flag_def
    by (simp only: append_Nil)
  then show ?thesis
    unfolding decision_critic.verdict_is unresolved_flags_Nil[symmetric]
    by (simp only:) (rule verdict_soft_then[OF unresolved_flags_soft all_rejected_flag_escalates])
qed

end
