(* ===== verification/Explanation.thy ===== *)
theory Explanation
  imports Decision
begin

text \<open>
  \<open>app/agents/explanation.py\<close>: the narrative of a vendor, its grounding filter, the second-pass
  verification of the prose, and the report. \<open>xe_llm\<close> and \<open>xe_verify\<close> are the two LLM calls, as
  functions of the data their prompts are built from; their answers have passed pydantic's
  \<open>model_validate\<close>, \<open>None\<close> being an answer it rejected. The fact context of the prompt is a
  rendering of the extraction output, so the call receives that output.
\<close>

type_synonym chunks = "(string, string) dict"

record explanation_env =
  xe_llm :: "string \<Rightarrow> string \<Rightarrow> string \<Rightarrow> string \<Rightarrow> extraction_output \<Rightarrow> chunks \<Rightarrow> synthesis_response option result"
    \<comment> \<open>feedback, vendor, decision context, compliance summary, extraction, source chunks\<close>
  xe_verify :: "vendor_narrative \<Rightarrow> chunks \<Rightarrow> claim_verification list option result"

section \<open>Verification of the prose\<close>

definition prose_of :: "vendor_narrative \<Rightarrow> string" where
  "prose_of n = strip (join [CHR 0x0A]
     [vn_executive_summary n, vn_compliance_narrative n, vn_scoring_narrative n, vn_recommendation_rationale n])"

definition trusted_support :: "synthesis_verification_cfg \<Rightarrow> claim_verification \<Rightarrow> bool" where
  "trusted_support sv v \<longleftrightarrow> cl_supported v \<and> sy_confidence_floor sv \<le> cl_confidence v"

definition verify_narrative_claims ::
  "platform_cfg \<Rightarrow> explanation_env \<Rightarrow> vendor_narrative \<Rightarrow> chunks \<Rightarrow> (claim_verification list \<times> rat) result" where
  "verify_narrative_claims cfg env narrative source_chunks =
     (let sv = pc_synthesis_verification cfg
      in if \<not> sy_enabled sv then Inr ([], 1)
         else if prose_of narrative = [] then Inr ([], 1)
         else rbind (xe_verify env narrative source_chunks) (\<lambda>reply.
              let verifications = (case reply of None \<Rightarrow> [] | Some vs \<Rightarrow> vs)
              in if verifications = [] then Inr ([], 1)
                 else Inr (verifications,
                   py_round 3 (of_nat (count_if (trusted_support sv) verifications) / of_nat (length verifications)))))"

section \<open>One narrative\<close>

definition newline :: string where
  "newline = [CHR 0x0A]"

definition build_compliance_summary :: "evaluation_output \<Rightarrow> string" where
  "build_compliance_summary ev =
     (let lines = map (\<lambda>d. cd_check_id d @ '': '' @ compliance_value (cd_decision d) @ '' (basis='' @
            basis_value (cd_decision_basis d) @ '', confidence='' @ fmt_fixed 2 (cd_confidence d) @ '')'')
            (eo_compliance_decisions ev)
      in if lines \<noteq> [] then join newline lines else ''No compliance decisions.'')"

definition find_rejection :: "decision_output \<Rightarrow> string \<Rightarrow> rejection_notice option" where
  "find_rejection dec vid = List.find (\<lambda>r. rn_vendor_id r = vid) (do_rejected_vendors dec)"

definition find_shortlisted :: "decision_output \<Rightarrow> string \<Rightarrow> shortlisted_vendor option" where
  "find_shortlisted dec vid = List.find (\<lambda>s. sv_vendor_id s = vid) (do_shortlisted_vendors dec)"

definition decision_context :: "decision_output \<Rightarrow> evaluation_output \<Rightarrow> bool \<Rightarrow> string \<Rightarrow> string" where
  "decision_context dec ev rejected vid =
     (if rejected
      then let r = find_rejection dec vid
           in ''REJECTED. Failed checks: '' @ show_strs (case r of None \<Rightarrow> [] | Some n \<Rightarrow> rn_failed_checks n) @
              ''. Reasons: '' @ show_strs (case r of None \<Rightarrow> [] | Some n \<Rightarrow> rn_rejection_reasons n)
      else let s = find_shortlisted dec vid
           in ''SHORTLISTED. Rank: '' @ (case s of None \<Rightarrow> ''?'' | Some v \<Rightarrow> show_nat (sv_rank v)) @
              ''. Score: '' @ fmt_fixed 2 (eo_total_weighted_score ev) @ ''/10. Recommendation: '' @
              (case s of None \<Rightarrow> ''?'' | Some v \<Rightarrow> sv_recommendation v))"

definition empty_synthesis :: synthesis_response where
  "empty_synthesis = \<lparr>sr_executive_summary = [], sr_compliance_narrative = [], sr_scoring_narrative = [],
     sr_recommendation_rationale = [], sr_grounded_claims = [], sr_system_facts = []\<rparr>"

definition claim_grounded :: "chunks \<Rightarrow> grounded_claim \<Rightarrow> bool" where
  "claim_grounded source_chunks c \<longleftrightarrow>
     verify_grounding (gc_grounding_quote c) (gc_source_chunk_id c) source_chunks"

definition ungrounded_example_of :: "chunks \<Rightarrow> grounded_claim \<Rightarrow> ungrounded_example" where
  "ungrounded_example_of source_chunks c =
     (let src_text = get_default source_chunks (gc_source_chunk_id c) []
      in \<lparr>ue_claim_text = gc_claim_text c, ue_llm_grounding_quote = gc_grounding_quote c,
          ue_cited_chunk_id = gc_source_chunk_id c, ue_chunk_exists = (src_text \<noteq> []),
          ue_source_excerpt = (if src_text \<noteq> [] then take 600 src_text else ''(no chunk under this id)''),
          ue_diagnosis_hint = (if src_text = [] then ''wrong_chunk_id'' else ''quote_not_in_source'')\<rparr>)"

text \<open>The loop over the LLM's claims: verified claims, count and examples of the others.\<close>

fun split_claims :: "chunks \<Rightarrow> grounded_claim list \<Rightarrow> grounded_claim list \<times> nat \<times> ungrounded_example list" where
  "split_claims source_chunks [] = ([], 0, [])"
| "split_claims source_chunks (c # cs) =
     (let (verified, n, examples) = split_claims source_chunks cs
      in if claim_grounded source_chunks c then (c # verified, n, examples)
         else (verified, Suc n, ungrounded_example_of source_chunks c # examples))"

definition conflict_facts :: "evaluation_output \<Rightarrow> system_fact list" where
  "conflict_facts ev =
     map (\<lambda>d. \<lparr>sf_fact_text = ''Conflicting evidence for '' @ quoted (cd_check_id d) @ '': '' @
              join ''; '' (cd_contradictions_found d) @ ''. Cannot confirm the requirement'' @ dash @
              ''recommend the customer follow up with the vendor.'',
              sf_origin = ''evaluation'', sf_origin_id = cd_check_id d\<rparr>)
       (filter (\<lambda>d. cd_contradictions_found d \<noteq> []) (eo_compliance_decisions ev))"

definition rejection_facts :: "decision_output \<Rightarrow> bool \<Rightarrow> string \<Rightarrow> system_fact list" where
  "rejection_facts dec rejected vid =
     (case find_rejection dec vid of
        Some r \<Rightarrow>
          if rejected
          then let joined = join ''; '' (rn_rejection_reasons r);
                   reasons = (if joined \<noteq> [] then joined else ''mandatory requirement not met'')
               in [\<lparr>sf_fact_text = ''Rejected'' @ dash @ ''failed mandatory checks: '' @
                      join ''; '' (rn_failed_checks r) @ ''. '' @ reasons @ ''.'',
                    sf_origin = ''decision'', sf_origin_id = vid\<rparr>]
          else []
      | None \<Rightarrow> [])"

definition generate_vendor_narrative ::
  "platform_cfg \<Rightarrow> explanation_env \<Rightarrow> string \<Rightarrow> bool \<Rightarrow> evaluation_output \<Rightarrow> extraction_output \<Rightarrow> chunks \<Rightarrow>
   decision_output \<Rightarrow> string \<Rightarrow> vendor_narrative result" where
  "generate_vendor_narrative cfg env vid rejected ev extraction source_chunks dec critic_feedback =
     rbind (xe_llm env critic_feedback vid (decision_context dec ev rejected vid)
              (build_compliance_summary ev) extraction source_chunks) (\<lambda>reply.
     let synthesis = (case reply of None \<Rightarrow> empty_synthesis | Some s \<Rightarrow> s);
         (verified, ungrounded_count, examples) = split_claims source_chunks (sr_grounded_claims synthesis);
         narrative = \<lparr>vn_vendor_id = vid, vn_executive_summary = sr_executive_summary synthesis,
           vn_compliance_narrative = sr_compliance_narrative synthesis,
           vn_scoring_narrative = sr_scoring_narrative synthesis,
           vn_recommendation_rationale = sr_recommendation_rationale synthesis,
           vn_grounded_claims = verified, vn_ungrounded_claims_removed = ungrounded_count,
           vn_system_facts = sr_system_facts synthesis @ conflict_facts ev @ rejection_facts dec rejected vid,
           vn_ungrounded_examples = examples, vn_prose_verification = [], vn_prose_verification_score = 1\<rparr>
     in rbind (verify_narrative_claims cfg env narrative source_chunks) (\<lambda>(prose, score).
        Inr (narrative\<lparr>vn_prose_verification := prose, vn_prose_verification_score := score\<rparr>)))"

section \<open>The report\<close>

definition METHODOLOGY_NOTE :: string where
  "METHODOLOGY_NOTE =
     ''This report was generated by an automated evaluation pipeline. '' @
     ''Every factual claim is grounded to a verbatim quote from the vendor submission. '' @
     ''Claims that could not be verified against source text were removed. '' @
     ''Human review is recommended before final procurement decisions.''"

definition build_executive_summary :: "decision_output \<Rightarrow> string" where
  "build_executive_summary dec =
     ''Evaluation complete. '' @ show_nat (length (do_shortlisted_vendors dec)) @ '' vendor(s) shortlisted, '' @
     show_nat (length (do_rejected_vendors dec)) @ '' rejected. '' @
     (case do_shortlisted_vendors dec of
        first # _ \<Rightarrow> ''Top-ranked vendor: '' @ sv_vendor_id first @ '' (score '' @
          fmt_fixed 2 (sv_coverage_normalised_score first) @ ''/10, '' @ sv_recommendation first @ '').''
      | [] \<Rightarrow> ''No vendors shortlisted.'') @
     '' Approval routed to '' @ ar_approver_role (do_approval_routing dec) @ '' (Tier '' @
     show_int (ar_approval_tier (do_approval_routing dec)) @ '').''"

definition empty_extraction :: extraction_output where
  "empty_extraction = \<lparr>xo_source_chunk_ids = [], xo_certifications = [], xo_insurance = [], xo_slas = [],
     xo_projects = [], xo_pricing = [], xo_extracted_facts = [], xo_extraction_completeness = 0,
     xo_hallucination_risk = 0, xo_warnings = [], xo_retried_fact_types = []\<rparr>"

definition vendor_chunks_of :: "chunks \<Rightarrow> extraction_output \<Rightarrow> chunks" where
  "vendor_chunks_of source_chunks extraction =
     (let own = dict_of (concat (map (\<lambda>cid. case dict_get source_chunks cid of None \<Rightarrow> [] | Some t \<Rightarrow> [(cid, t)])
        (xo_source_chunk_ids extraction)))
      in if own = [] then source_chunks else own)"

definition insufficient_limitations :: "decision_output \<Rightarrow> string list" where
  "insufficient_limitations dec =
     concat (map (\<lambda>sv. let ids = map cs_criterion_id (filter cs_insufficient_evidence (sv_criterion_breakdown sv))
        in if ids = [] then []
           else [sv_vendor_id sv @ '': insufficient evidence to score '' @ show_strs ids @ dash @
                 ''these criteria were NOT scored (not counted as 0); human review needed.''])
       (do_shortlisted_vendors dec))"

definition narrative_for ::
  "platform_cfg \<Rightarrow> explanation_env \<Rightarrow> decision_output \<Rightarrow> (string, extraction_output) dict \<Rightarrow> chunks \<Rightarrow>
   string \<times> evaluation_output \<Rightarrow> vendor_narrative result" where
  "narrative_for cfg env dec extractions source_chunks = (\<lambda>(vid, ev).
     let extraction = get_default extractions vid empty_extraction;
         rejected = list_ex (\<lambda>r. rn_vendor_id r = vid) (do_rejected_vendors dec)
     in generate_vendor_narrative cfg env vid rejected ev extraction
          (vendor_chunks_of source_chunks extraction) dec [])"

definition run_explanation_agent ::
  "platform_cfg \<Rightarrow> explanation_env \<Rightarrow> decision_output \<Rightarrow> evaluations \<Rightarrow> (string, extraction_output) dict \<Rightarrow> chunks \<Rightarrow>
   (explanation_output \<times> critic_output) result" where
  "run_explanation_agent cfg env dec evs extractions source_chunks =
     rbind (rmap (narrative_for cfg env dec extractions source_chunks) evs) (\<lambda>narratives.
     let (completeness, _, limitations) = compute_grounding narratives;
         output = \<lparr>ex_executive_summary = build_executive_summary dec, ex_vendor_narratives = narratives,
           ex_methodology_note = METHODOLOGY_NOTE,
           ex_limitations = limitations @ insufficient_limitations dec,
           ex_grounding_completeness = completeness,
           ex_report_confidence = do_decision_confidence dec\<rparr>
     in Inr (output, critic_after_explanation cfg output source_chunks))"

section \<open>What a narrative guarantees\<close>

lemma split_claims_spec:
  assumes "split_claims source_chunks cs = (verified, n, examples)"
  shows "verified = filter (claim_grounded source_chunks) cs"
    and "n = count_if (\<lambda>c. \<not> claim_grounded source_chunks c) cs"
    and "length examples = n"
    and "length verified + n = length cs"
  using assms
  by (induction cs arbitrary: verified n examples) (auto simp: Let_def count_if_def split: prod.splits if_splits)

lemma generate_narrative_cases:
  assumes "generate_vendor_narrative cfg env vid rejected ev extraction source_chunks dec fb = Inr n"
  obtains s :: synthesis_response where
    "split_claims source_chunks (sr_grounded_claims s) =
       (vn_grounded_claims n, vn_ungrounded_claims_removed n, vn_ungrounded_examples n)"
    and "vn_vendor_id n = vid"
    and "vn_system_facts n = sr_system_facts s @ conflict_facts ev @ rejection_facts dec rejected vid"
proof -
  let ?mk = "\<lambda>s prose score. let r = split_claims source_chunks (sr_grounded_claims s) in
      \<lparr>vn_vendor_id = vid, vn_executive_summary = sr_executive_summary s,
       vn_compliance_narrative = sr_compliance_narrative s, vn_scoring_narrative = sr_scoring_narrative s,
       vn_recommendation_rationale = sr_recommendation_rationale s,
       vn_grounded_claims = fst r, vn_ungrounded_claims_removed = fst (snd r),
       vn_system_facts = sr_system_facts s @ conflict_facts ev @ rejection_facts dec rejected vid,
       vn_ungrounded_examples = snd (snd r), vn_prose_verification = prose,
       vn_prose_verification_score = score\<rparr>"
  from assms obtain s :: synthesis_response and prose score where n: "n = ?mk s prose score"
    unfolding generate_vendor_narrative_def Let_def case_prod_beta rbind_Inr_iff by auto
  show ?thesis by (rule that[of s]) (simp_all add: n Let_def)
qed

lemma narrative_claims_grounded:
  assumes "generate_vendor_narrative cfg env vid rejected ev extraction source_chunks dec fb = Inr n"
    and "c \<in> set (vn_grounded_claims n)"
  shows "claim_grounded source_chunks c"
proof -
  obtain s :: synthesis_response where "split_claims source_chunks (sr_grounded_claims s) =
      (vn_grounded_claims n, vn_ungrounded_claims_removed n, vn_ungrounded_examples n)"
    by (rule generate_narrative_cases[OF assms(1)])
  from split_claims_spec(1)[OF this] assms(2) show ?thesis by simp
qed

lemma narrative_rejected_facts:
  assumes "generate_vendor_narrative cfg env vid True ev extraction source_chunks dec fb = Inr n"
    and "vid \<in> rn_vendor_id ` set (do_rejected_vendors dec)"
  shows "vn_system_facts n \<noteq> []"
proof -
  obtain r where "find_rejection dec vid = Some r"
    using assms(2) by (cases "find_rejection dec vid") (auto simp: find_rejection_def find_None_iff)
  then have "rejection_facts dec True vid \<noteq> []" by (simp add: rejection_facts_def Let_def)
  then show ?thesis by (auto intro: generate_narrative_cases[OF assms(1)])
qed

lemma conflict_facts_origin:
  "map (\<lambda>f. (sf_origin f, sf_origin_id f)) (conflict_facts ev) =
   map (\<lambda>d. (''evaluation'', cd_check_id d))
     (filter (\<lambda>d. cd_contradictions_found d \<noteq> []) (eo_compliance_decisions ev))"
  unfolding conflict_facts_def by (simp only: map_map comp_def system_fact.simps)

lemma narrative_conflict_facts:
  assumes "generate_vendor_narrative cfg env vid rejd ev extraction source_chunks dec fb = Inr n"
    and "d \<in> set (eo_compliance_decisions ev)" and "cd_contradictions_found d \<noteq> []"
  shows "\<exists>f \<in> set (vn_system_facts n). sf_origin f = ''evaluation'' \<and> sf_origin_id f = cd_check_id d"
proof -
  have "(''evaluation'', cd_check_id d) \<in> set (map (\<lambda>f. (sf_origin f, sf_origin_id f)) (conflict_facts ev))"
    unfolding conflict_facts_origin using assms(2,3) by simp
  then have "\<exists>f \<in> set (conflict_facts ev). sf_origin f = ''evaluation'' \<and> sf_origin_id f = cd_check_id d" by auto
  then show ?thesis using generate_narrative_cases[OF assms(1)] by (metis UnCI set_append)
qed

lemma verify_narrative_score:
  assumes "verify_narrative_claims cfg env n source_chunks = Inr (vs, score)"
  shows "0 \<le> score \<and> score \<le> 1"
proof -
  have frac: "0 \<le> py_round 3 (of_nat (count_if P xs) / of_nat (length xs)) \<and>
      py_round 3 (of_nat (count_if P xs) / of_nat (length xs)) \<le> 1" for P and xs :: "claim_verification list"
    using count_if_le[of P xs] by (intro py_round_unit) (auto simp: divide_le_eq_1)
  then show ?thesis
    using assms by (auto simp: verify_narrative_claims_def Let_def rbind_Inr_iff split: if_splits)
qed

lemma rbind_total: "\<exists>x. r = Inr x \<Longrightarrow> (\<And>x. \<exists>y. f x = Inr y) \<Longrightarrow> \<exists>y. rbind r f = Inr y"
  by auto

lemma verify_narrative_total:
  "(\<And>n. xe_verify env n source_chunks = Inr reply) \<Longrightarrow> \<exists>r. verify_narrative_claims cfg env n source_chunks = Inr r"
  by (simp add: verify_narrative_claims_def Let_def)

lemma generate_total:
  assumes "\<And>fb ctx summary. xe_llm env fb vid ctx summary extraction source_chunks = Inr reply"
    and "\<And>n. xe_verify env n source_chunks = Inr r"
  shows "\<exists>n. generate_vendor_narrative cfg env vid rejected ev extraction source_chunks dec fb = Inr n"
proof -
  have "\<exists>p. verify_narrative_claims cfg env n source_chunks = Inr p" for n
    by (rule verify_narrative_total) (rule assms(2))
  then show ?thesis
    unfolding generate_vendor_narrative_def assms(1) rbind.simps Let_def case_prod_beta
    by (rule rbind_total) simp_all
qed

text \<open>The generator's filter is at least as strict as the critic's second look.\<close>

lemma claim_grounded_not_reflagged:
  assumes "claim_grounded chunks c"
    and "\<And>k v. dict_get chunks k = Some v \<Longrightarrow> dict_get chunks' k = Some v"
  shows "\<not> claim_fails_grounding chunks' c"
  using verify_grounding_mono[OF assms(1)[unfolded claim_grounded_def] assms(2)]
  by (auto simp: claim_fails_grounding_def verify_grounding_def Let_def split: if_splits)

lemma dict_of_get_mem: "dict_get (dict_of kvs) k = Some v \<Longrightarrow> (k, v) \<in> set kvs"
  unfolding dict_of_def dict_get_update by (auto split: option.splits dest: map_of_SomeD)

lemma vendor_chunks_sub:
  assumes "dict_get (vendor_chunks_of source_chunks extraction) k = Some v"
  shows "dict_get source_chunks k = Some v"
proof -
  let ?kvs = "concat (map (\<lambda>cid. case dict_get source_chunks cid of None \<Rightarrow> [] | Some t \<Rightarrow> [(cid, t)])
        (xo_source_chunk_ids extraction))"
  have kvs: "dict_get source_chunks k = Some v" if "(k, v) \<in> set ?kvs"
    using that by (auto split: option.splits)
  show ?thesis
  proof (cases "dict_of ?kvs = []")
    case True
    with assms show ?thesis by (simp add: vendor_chunks_of_def)
  next
    case False
    with assms have "dict_get (dict_of ?kvs) k = Some v" by (simp add: vendor_chunks_of_def)
    then show ?thesis by (intro kvs dict_of_get_mem)
  qed
qed

lemma run_explanation_narratives:
  assumes "run_explanation_agent cfg env dec evs extractions source_chunks = Inr (output, critic)"
  shows "map vn_vendor_id (ex_vendor_narratives output) = dict_keys evs"
    and "n \<in> set (ex_vendor_narratives output) \<Longrightarrow> c \<in> set (vn_grounded_claims n) \<Longrightarrow>
         \<not> claim_fails_grounding source_chunks c"
    and "critic = critic_after_explanation cfg output source_chunks"
proof -
  from assms obtain ns where ns: "rmap (narrative_for cfg env dec extractions source_chunks) evs = Inr ns"
    and out: "ex_vendor_narratives output = ns" and crit: "critic = critic_after_explanation cfg output source_chunks"
    unfolding run_explanation_agent_def rbind_Inr_iff Let_def case_prod_beta by auto
  show "critic = critic_after_explanation cfg output source_chunks" by (rule crit)
  have id: "vn_vendor_id n = fst x" if "narrative_for cfg env dec extractions source_chunks x = Inr n" for x n
    using that by (cases x) (auto simp: narrative_for_def Let_def elim: generate_narrative_cases)
  show "map vn_vendor_id (ex_vendor_narratives output) = dict_keys evs"
  proof (rule nth_equalityI)
    show "length (map vn_vendor_id (ex_vendor_narratives output)) = length (dict_keys evs)"
      using rmap_Inr_length[OF ns] out by simp
    fix i assume "i < length (map vn_vendor_id (ex_vendor_narratives output))"
    then have i: "i < length evs" using rmap_Inr_length[OF ns] out by simp
    then show "map vn_vendor_id (ex_vendor_narratives output) ! i = dict_keys evs ! i"
      using id[OF rmap_Inr_nth[OF ns i]] rmap_Inr_length[OF ns] out by simp
  qed
  assume n: "n \<in> set (ex_vendor_narratives output)" and c: "c \<in> set (vn_grounded_claims n)"
  then obtain x where "narrative_for cfg env dec extractions source_chunks x = Inr n"
    using rmap_Inr_set[OF ns] out by blast
  then obtain vid ev rejd extraction where
    "generate_vendor_narrative cfg env vid rejd ev extraction (vendor_chunks_of source_chunks extraction) dec [] = Inr n"
    by (cases x) (auto simp: narrative_for_def Let_def)
  from narrative_claims_grounded[OF this c] vendor_chunks_sub
  show "\<not> claim_fails_grounding source_chunks c" by (rule claim_grounded_not_reflagged)
qed

end
