(* ===== verification/Planner.thy ===== *)
theory Planner
  imports Critic_Laws
begin

text \<open>
  \<open>app/agents/planner.py\<close>: the deterministic task DAG built from an evaluation setup, and
  \<open>validate_plan\<close>, the guardrail that re-reads the task ids, checks coverage and looks for
  dependency cycles by depth-first search. The lemmas show that the search terminates, that a
  reported cycle is one, and that the plans \<open>run_planner\<close> builds pass their own guardrail.
\<close>

section \<open>Building the plan\<close>

definition retrieve_id :: "string \<Rightarrow> string" where
  "retrieve_id v = ''task-retrieve-'' @ v"

definition extract_id :: "string \<Rightarrow> string" where
  "extract_id v = ''task-extract-'' @ v"

definition check_task_id :: "string \<Rightarrow> string" where
  "check_task_id c = ''task-check-'' @ c"

definition score_task_id :: "string \<Rightarrow> string" where
  "score_task_id c = ''task-score-'' @ c"

definition plan_tasks :: "string \<Rightarrow> string list \<Rightarrow> evaluation_setup \<Rightarrow> task_item list" where
  "plan_tasks rfp_id vendor_ids setup =
     (let extract_ids = map extract_id vendor_ids;
          check_ids = map (\<lambda>c. check_task_id (mc_check_id c)) (es_mandatory_checks setup);
          score_ids = map (\<lambda>c. score_task_id (sc_criterion_id c)) (es_scoring_criteria setup)
      in map (\<lambda>v. \<lparr>ti_task_id = retrieve_id v, ti_task_type = Retrieve, ti_agent = ''retrieval'',
                ti_inputs = RetrieveInputs v rfp_id, ti_depends_on = [], ti_priority = 1\<rparr>) vendor_ids @
         map (\<lambda>v. \<lparr>ti_task_id = extract_id v, ti_task_type = Extract, ti_agent = ''extraction'',
                ti_inputs = ExtractInputs v (map et_target_id (es_extraction_targets setup)),
                ti_depends_on = [retrieve_id v], ti_priority = 1\<rparr>) vendor_ids @
         map (\<lambda>c. \<lparr>ti_task_id = check_task_id (mc_check_id c), ti_task_type = MandatoryCheck,
                ti_agent = ''evaluation'', ti_inputs = CheckInputs (mc_check_id c) vendor_ids,
                ti_depends_on = extract_ids, ti_priority = 1\<rparr>) (es_mandatory_checks setup) @
         map (\<lambda>c. \<lparr>ti_task_id = score_task_id (sc_criterion_id c), ti_task_type = Scoring,
                ti_agent = ''evaluation'', ti_inputs = ScoreInputs (sc_criterion_id c) vendor_ids,
                ti_depends_on = check_ids, ti_priority = 2\<rparr>) (es_scoring_criteria setup) @
         [\<lparr>ti_task_id = ''task-compare'', ti_task_type = Compare, ti_agent = ''comparator'',
           ti_inputs = VendorInputs vendor_ids, ti_depends_on = score_ids, ti_priority = 2\<rparr>,
          \<lparr>ti_task_id = ''task-decide'', ti_task_type = Decide, ti_agent = ''decision'',
           ti_inputs = VendorInputs vendor_ids, ti_depends_on = [''task-compare''], ti_priority = 3\<rparr>,
          \<lparr>ti_task_id = ''task-explain'', ti_task_type = Explain, ti_agent = ''explanation'',
           ti_inputs = VendorInputs vendor_ids, ti_depends_on = [''task-decide''], ti_priority = 3\<rparr>])"

section \<open>The guardrail\<close>

text \<open>\<open>has_cycle(task_id, path)\<close> with the shared set \<open>visited\<close> threaded through, and its loop
  over the dependencies. Each call goes one step further down a path without repetition inside
  \<open>task_map\<close>, so the search terminates.\<close>

function has_cycle ::
    "(string, task_item) dict \<Rightarrow> string list \<Rightarrow> string list \<Rightarrow> string \<Rightarrow> bool \<times> string list"
  and has_cycle_deps ::
    "(string, task_item) dict \<Rightarrow> string list \<Rightarrow> string list \<Rightarrow> string list \<Rightarrow> bool \<times> string list"
where
  "has_cycle task_map visited path task_id =
     (if task_id \<in> set path then (True, visited)
      else if task_id \<in> set visited then (False, visited)
      else (case dict_get task_map task_id of
              None \<Rightarrow> (False, task_id # visited)
            | Some task \<Rightarrow> has_cycle_deps task_map (task_id # visited) (path @ [task_id]) (ti_depends_on task)))"
| "has_cycle_deps task_map visited path [] = (False, visited)"
| "has_cycle_deps task_map visited path (dep # deps) =
     (let r = has_cycle task_map visited path dep
      in if fst r then (True, snd r) else has_cycle_deps task_map (snd r) path deps)"
  by pat_completeness auto
termination
proof (relation "measures
    [\<lambda>x. case x of Inl (m, v, p, t) \<Rightarrow> card (fst ` set m - set p)
                | Inr (m, v, p, ds) \<Rightarrow> card (fst ` set m - set p),
     \<lambda>x. case x of Inl (m, v, p, t) \<Rightarrow> 0 | Inr (m, v, p, ds) \<Rightarrow> Suc (length ds)]", goal_cases)
  case 1
  show ?case by simp
next
  case (2 task_map visited path task_id task)
  then have "task_id \<in> fst ` set task_map - set path" by (force dest: map_of_SomeD)
  then have "card (fst ` set task_map - insert task_id (set path)) < card (fst ` set task_map - set path)"
    by (intro psubset_card_mono) auto
  then show ?case by simp
qed auto

declare has_cycle.simps [simp del]

fun first_cycle :: "(string, task_item) dict \<Rightarrow> string list \<Rightarrow> task_item list \<Rightarrow> string option" where
  "first_cycle task_map visited [] = None"
| "first_cycle task_map visited (t # ts) =
     (let r = has_cycle task_map visited [] (ti_task_id t)
      in if fst r then Some (ti_task_id t) else first_cycle task_map (snd r) ts)"

definition task_map_of :: "task_item list \<Rightarrow> (string, task_item) dict" where
  "task_map_of tasks = dict_of (map (\<lambda>t. (ti_task_id t, t)) tasks)"

definition covered_ids :: "task_type \<Rightarrow> string \<Rightarrow> task_item list \<Rightarrow> string list" where
  "covered_ids ty p tasks =
     map (\<lambda>t. drop (length p) (ti_task_id t))
       (filter (\<lambda>t. ti_task_type t = ty \<and> starts_with p (ti_task_id t)) tasks)"

definition validate_plan :: "task_item list \<Rightarrow> evaluation_setup \<Rightarrow> string list" where
  "validate_plan tasks setup =
     (let covered_checks = covered_ids MandatoryCheck ''task-check-'' tasks;
          missing_checks = filter (\<lambda>c. c \<notin> set covered_checks)
            (remdups (map mc_check_id (es_mandatory_checks setup)));
          covered_criteria = covered_ids Scoring ''task-score-'' tasks;
          missing_criteria = filter (\<lambda>c. c \<notin> set covered_criteria)
            (remdups (map sc_criterion_id (es_scoring_criteria setup)))
      in (if length tasks < 5
          then [''Plan has only '' @ show_nat (length tasks) @ '' tasks'' @ dash @ ''suspiciously low'']
          else []) @
         (if 500 < length tasks
          then [''Plan has '' @ show_nat (length tasks) @ '' tasks'' @ dash @ ''suspiciously high'']
          else []) @
         (if missing_checks \<noteq> []
          then [''Mandatory checks not covered by any task: {'' @
                join '', '' (map quoted missing_checks) @ ''}''] else []) @
         (if missing_criteria \<noteq> []
          then [''Scoring criteria not covered by any task: {'' @
                join '', '' (map quoted missing_criteria) @ ''}''] else []) @
         (case first_cycle (task_map_of tasks) [] tasks of
            None \<Rightarrow> []
          | Some tid \<Rightarrow> [''Circular dependency detected involving task '' @ tid]))"

definition run_planner ::
  "platform_cfg \<Rightarrow> string \<Rightarrow> string list \<Rightarrow> evaluation_setup \<Rightarrow> planner_output \<times> critic_output" where
  "run_planner cfg rfp_id vendor_ids setup =
     (if vendor_ids = []
      then let output = \<lparr>po_vendor_ids = [], po_tasks = [], po_estimated_duration_seconds = 0,
                         po_confidence = 0,
                         po_warnings = [''No vendor IDs provided'' @ dash @ ''plan is empty'']\<rparr>
           in (output, critic_after_planner output [''No vendor IDs provided''])
      else let tasks = plan_tasks rfp_id vendor_ids setup;
               output = \<lparr>po_vendor_ids = vendor_ids, po_tasks = tasks,
                         po_estimated_duration_seconds =
                           length tasks * pc_task_duration_estimate_seconds cfg,
                         po_confidence = 1, po_warnings = []\<rparr>
           in (output, critic_after_planner output (validate_plan tasks setup)))"

section \<open>The cycle search\<close>

text \<open>Where every dependency has a smaller rank than the task that needs it, no cycle is found.\<close>

lemma no_cycle_of_rank:
  assumes ranked: "\<And>i task d. dict_get m i = Some task \<Longrightarrow> d \<in> set (ti_depends_on task) \<Longrightarrow> rank d < (rank i :: nat)"
  shows "(\<forall>p \<in> set path. rank t < rank p) \<Longrightarrow> \<not> fst (has_cycle m visited path t)"
    and "(\<forall>p \<in> set path. \<forall>d \<in> set deps. rank d < rank p) \<Longrightarrow> \<not> fst (has_cycle_deps m visited path deps)"
  using ranked
proof (induction m visited path t and m visited path deps rule: has_cycle_has_cycle_deps.induct)
  case (1 m visited path t)
  have notin: "t \<notin> set path" using 1(2) by auto
  show ?case
  proof (cases "t \<in> set visited \<or> dict_get m t = None")
    case True
    with notin show ?thesis by (subst has_cycle.simps) auto
  next
    case False
    then obtain task where task: "dict_get m t = Some task" and v: "t \<notin> set visited" by auto
    have "\<not> fst (has_cycle_deps m (t # visited) (path @ [t]) (ti_depends_on task))"
    proof (rule 1(1)[OF notin v task])
      show "\<forall>p \<in> set (path @ [t]). \<forall>d \<in> set (ti_depends_on task). rank d < rank p"
        using 1(2) 1(3)[OF task] by (auto intro: less_trans)
    qed (rule 1(3))
    with notin v task show ?thesis by (subst has_cycle.simps) simp
  qed
next
  case (2 m visited path)
  show ?case by simp
next
  case (3 m visited path dep deps)
  have "\<not> fst (has_cycle m visited path dep)" using 3(3) by (intro 3(1)[OF _ 3(4)]) auto
  moreover from this have "\<not> fst (has_cycle_deps m (snd (has_cycle m visited path dep)) path deps)"
    using 3(3) by (intro 3(2)[OF refl _ _ 3(4)]) auto
  ultimately show ?case by (simp add: Let_def)
qed

lemma first_cycle_None:
  assumes "\<And>i task d. dict_get m i = Some task \<Longrightarrow> d \<in> set (ti_depends_on task) \<Longrightarrow> rank d < (rank i :: nat)"
  shows "first_cycle m visited ts = None"
proof -
  have "\<not> fst (has_cycle m v [] t)" for v t
    by (rule no_cycle_of_rank(1)[where rank = rank]) (auto dest: assms)
  then show ?thesis by (induction ts arbitrary: visited) (simp_all add: Let_def)
qed

text \<open>The dependency relation of a task map, and: a reported cycle is a cycle.\<close>

definition depends :: "(string, task_item) dict \<Rightarrow> (string \<times> string) set" where
  "depends m = {(i, d). \<exists>task. dict_get m i = Some task \<and> d \<in> set (ti_depends_on task)}"

lemma cycle_sound:
  shows "fst (has_cycle m visited path t) \<Longrightarrow> (\<forall>p \<in> set path. (p, t) \<in> (depends m)\<^sup>+) \<Longrightarrow>
      \<exists>x. (x, x) \<in> (depends m)\<^sup>+"
    and "fst (has_cycle_deps m visited path deps) \<Longrightarrow>
      (\<forall>p \<in> set path. \<forall>d \<in> set deps. (p, d) \<in> (depends m)\<^sup>+) \<Longrightarrow> \<exists>x. (x, x) \<in> (depends m)\<^sup>+"
proof (induction m visited path t and m visited path deps rule: has_cycle_has_cycle_deps.induct)
  case (1 m visited path t)
  show ?case
  proof (cases "t \<in> set path")
    case True
    with 1(3) show ?thesis by auto
  next
    case False
    with 1(2) obtain task where v: "t \<notin> set visited" and task: "dict_get m t = Some task"
      and deps: "fst (has_cycle_deps m (t # visited) (path @ [t]) (ti_depends_on task))"
      by (subst (asm) has_cycle.simps) (auto split: if_splits option.splits)
    have "(t, d) \<in> depends m" if "d \<in> set (ti_depends_on task)" for d
      using that task by (auto simp: depends_def)
    then have "\<forall>p \<in> set (path @ [t]). \<forall>d \<in> set (ti_depends_on task). (p, d) \<in> (depends m)\<^sup>+"
      using 1(3) by (auto intro: trancl_into_trancl)
    then show ?thesis by (rule 1(1)[OF False v task deps])
  qed
next
  case (2 m visited path)
  then show ?case by simp
next
  case (3 m visited path dep deps)
  show ?case
  proof (cases "fst (has_cycle m visited path dep)")
    case True
    then show ?thesis using 3(1)[OF True] 3(4) by auto
  next
    case False
    with 3(3) have "fst (has_cycle_deps m (snd (has_cycle m visited path dep)) path deps)"
      by (simp add: Let_def)
    then show ?thesis using 3(2)[OF refl False] 3(4) by auto
  qed
qed

lemma first_cycle_sound:
  "first_cycle m visited ts = Some t \<Longrightarrow> \<exists>x. (x, x) \<in> (depends m)\<^sup>+"
  using cycle_sound(1)[where path = "[]"]
  by (induction ts arbitrary: visited) (auto simp: Let_def split: if_splits)

section \<open>The plans that \<open>run_planner\<close> builds\<close>

lemma starts_with_append [simp]: "starts_with p (p @ s)"
  by (simp add: starts_with_def)

lemma task_map_ofD:
  assumes "dict_get (task_map_of tasks) i = Some t"
  shows "t \<in> set tasks \<and> ti_task_id t = i"
  using assms
  by (auto simp: task_map_of_def dict_of_def dict_get_update dest!: map_of_SomeD split: option.splits)

definition level :: "string \<Rightarrow> nat" where
  "level i =
     (if starts_with ''task-retrieve-'' i then 0
      else if starts_with ''task-extract-'' i then 1
      else if starts_with ''task-check-'' i then 2
      else if starts_with ''task-score-'' i then 3
      else if i = ''task-compare'' then 4
      else if i = ''task-decide'' then 5 else 6)"

lemma level_ids [simp]:
  "level (retrieve_id v) = 0" "level (extract_id v) = 1" "level (check_task_id c) = 2"
  "level (score_task_id c) = 3"
  by (simp_all add: level_def retrieve_id_def extract_id_def check_task_id_def score_task_id_def
      starts_with_def)

lemma level_consts [simp]:
  "level ''task-compare'' = 4" "level ''task-decide'' = 5" "level ''task-explain'' = 6"
  by (simp_all add: level_def starts_with_def)

lemma plan_levels:
  assumes "t \<in> set (plan_tasks r vs setup)" and "d \<in> set (ti_depends_on t)"
  shows "level d < level (ti_task_id t)"
  using assms by (auto simp: plan_tasks_def Let_def)

lemma plan_acyclic: "first_cycle (task_map_of (plan_tasks r vs setup)) visited ts = None"
proof (rule first_cycle_None[where rank = level])
  fix i task d
  assume "dict_get (task_map_of (plan_tasks r vs setup)) i = Some task" "d \<in> set (ti_depends_on task)"
  then show "level d < level i" using task_map_ofD plan_levels by blast
qed

lemma plan_covers_checks:
  "c \<in> set (es_mandatory_checks setup) \<Longrightarrow>
   mc_check_id c \<in> set (covered_ids MandatoryCheck ''task-check-'' (plan_tasks r vs setup))"
  by (auto simp: covered_ids_def plan_tasks_def Let_def check_task_id_def image_iff starts_with_def)

lemma plan_covers_criteria:
  "c \<in> set (es_scoring_criteria setup) \<Longrightarrow>
   sc_criterion_id c \<in> set (covered_ids Scoring ''task-score-'' (plan_tasks r vs setup))"
  by (auto simp: covered_ids_def plan_tasks_def Let_def score_task_id_def image_iff starts_with_def)

definition plan_size :: "string list \<Rightarrow> evaluation_setup \<Rightarrow> nat" where
  "plan_size vs setup =
     2 * length vs + length (es_mandatory_checks setup) + length (es_scoring_criteria setup) + 3"

lemma length_plan_tasks [simp]: "length (plan_tasks r vs setup) = plan_size vs setup"
  by (simp add: plan_tasks_def plan_size_def Let_def)

lemma validate_own_plan:
  assumes "vs \<noteq> []"
  shows "validate_plan (plan_tasks r vs setup) setup =
    (if 500 < plan_size vs setup
     then [''Plan has '' @ show_nat (plan_size vs setup) @ '' tasks'' @ dash @ ''suspiciously high'']
     else [])"
proof -
  have "filter (\<lambda>c. c \<notin> set (covered_ids MandatoryCheck ''task-check-'' (plan_tasks r vs setup)))
          (remdups (map mc_check_id (es_mandatory_checks setup))) = []"
    and "filter (\<lambda>c. c \<notin> set (covered_ids Scoring ''task-score-'' (plan_tasks r vs setup)))
          (remdups (map sc_criterion_id (es_scoring_criteria setup))) = []"
    using plan_covers_checks plan_covers_criteria by (auto simp: filter_empty_conv)
  moreover have "\<not> plan_size vs setup < 5"
    using assms by (cases vs) (auto simp: plan_size_def)
  ultimately show ?thesis by (simp add: validate_plan_def Let_def plan_acyclic)
qed

end
