(* ===== verification/Pipeline_State.thy ===== *)
theory Pipeline_State
  imports Schemas
begin

text \<open>
  \<open>app/pipeline/state.py\<close>: the shared state of the LangGraph run and the reducers that
  merge what parallel branches return. A node returns a list of \<open>channel_update\<close>s, one per
  key of the dict it returns; \<open>apply_update\<close> is what the graph does with one of them: the
  reducer of an \<open>Annotated\<close> channel, replacement for the others. The locale \<open>reducer\<close>
  is the contract that makes the fan-in of a parallel stage independent of the branch order.
\<close>

section \<open>Reducers\<close>

definition merge_dicts :: "('k, 'v) dict \<Rightarrow> ('k, 'v) dict \<Rightarrow> ('k, 'v) dict" where
  "merge_dicts left right = dict_update left right"

definition concat_lists :: "'a list \<Rightarrow> 'a list \<Rightarrow> 'a list" where
  "concat_lists left right = left @ right"

fun merge_critic_metrics ::
  "(string, (string, 'm) dict) dict \<Rightarrow> (string, (string, 'm) dict) dict \<Rightarrow> (string, (string, 'm) dict) dict"
where
  "merge_critic_metrics left [] = left"
| "merge_critic_metrics left ((vid, agents) # rest) =
     merge_critic_metrics (dict_set vid (dict_update (get_default left vid []) agents) left) rest"

section \<open>The contract of a reducer\<close>

locale reducer =
  fixes merge :: "'d \<Rightarrow> 'd \<Rightarrow> 'd" and empty :: 'd
    and look :: "'d \<Rightarrow> 'k \<Rightarrow> 'v option" and valid :: "'d \<Rightarrow> bool"
  assumes look_empty: "look empty k = None"
    and valid_empty: "valid empty"
    and look_merge: "valid d \<Longrightarrow> valid u \<Longrightarrow>
      look (merge d u) k = (case look u k of None \<Rightarrow> look d k | Some v \<Rightarrow> Some v)"
    and valid_merge: "valid d \<Longrightarrow> valid u \<Longrightarrow> valid (merge d u)"
begin

lemma valid_fan_in: "valid d \<Longrightarrow> list_all valid us \<Longrightarrow> valid (foldl merge d us)"
  by (induction us arbitrary: d) (auto intro: valid_merge)

lemma merge_assoc: "valid a \<Longrightarrow> valid b \<Longrightarrow> valid c \<Longrightarrow>
  look (merge (merge a b) c) k = look (merge a (merge b c)) k"
  by (simp add: look_merge valid_merge split: option.splits)

lemma look_fan_in_other:
  "valid d \<Longrightarrow> list_all valid us \<Longrightarrow> \<forall>u \<in> set us. look u k = None \<Longrightarrow>
   look (foldl merge d us) k = look d k"
  by (induction us arbitrary: d) (simp_all add: look_merge valid_merge)

text \<open>A key that some branch wrote, and on which no branch disagrees, has that value.\<close>

lemma look_fan_in_owner:
  assumes "valid d" and "list_all valid us" and "u \<in> set us" and "look u k = Some v"
    and agree: "\<forall>u' \<in> set us. look u' k = None \<or> look u' k = Some v"
  shows "look (foldl merge d us) k = Some v"
proof -
  have keep: "valid d' \<Longrightarrow> list_all valid ws \<Longrightarrow> look d' k = Some v \<Longrightarrow>
      \<forall>u' \<in> set ws. look u' k = None \<or> look u' k = Some v \<Longrightarrow> look (foldl merge d' ws) k = Some v"
    for d' ws
    by (induction ws arbitrary: d') (auto simp: look_merge valid_merge split: option.splits)
  from \<open>u \<in> set us\<close> obtain xs ys where us: "us = xs @ u # ys" by (auto dest: split_list)
  let ?d = "foldl merge d xs"
  have "valid ?d" using assms(1,2) us by (intro valid_fan_in) auto
  moreover have "valid u" using assms(2) us by simp
  ultimately have "look (merge ?d u) k = Some v" and "valid (merge ?d u)"
    using assms(4) by (simp_all add: look_merge valid_merge)
  then have "look (foldl merge (merge ?d u) ys) k = Some v"
    using assms(2) agree us by (intro keep) auto
  then show ?thesis by (simp add: us)
qed

text \<open>The fan-in does not depend on the order in which the branches finish.\<close>

lemma fan_in_order:
  assumes "valid d" and "list_all valid us" and "mset us = mset ws"
    and agree: "\<And>u w v v'. u \<in> set us \<Longrightarrow> w \<in> set us \<Longrightarrow> look u k = Some v \<Longrightarrow> look w k = Some v' \<Longrightarrow> v = v'"
  shows "look (foldl merge d us) k = look (foldl merge d ws) k"
proof -
  have sets: "set ws = set us" using assms(3) by (metis set_mset_mset)
  have ws: "list_all valid ws" using assms(2) sets by (simp add: list_all_iff)
  show ?thesis
  proof (cases "\<exists>u \<in> set us. look u k \<noteq> None")
    case True
    then obtain u v where u: "u \<in> set us" "look u k = Some v" by auto
    have "\<forall>u' \<in> set us. look u' k = None \<or> look u' k = Some v"
      using agree u by (metis not_None_eq)
    then show ?thesis
      using look_fan_in_owner[OF assms(1,2) u] look_fan_in_owner[OF assms(1) ws _ u(2)] u sets by auto
  next
    case False
    then show ?thesis
      using look_fan_in_other[OF assms(1,2)] look_fan_in_other[OF assms(1) ws] sets by auto
  qed
qed

end

interpretation dict_red: reducer merge_dicts "[]" dict_get "\<lambda>d. distinct (dict_keys d)"
  by unfold_locales (simp_all add: merge_dicts_def dict_get_update_distinct)

text \<open>The telemetry reducer is read through two keys, the vendor and the agent.\<close>

definition metric_at :: "(string, (string, 'm) dict) dict \<Rightarrow> string \<times> string \<Rightarrow> 'm option" where
  "metric_at d k = (case dict_get d (fst k) of None \<Rightarrow> None | Some m \<Rightarrow> dict_get m (snd k))"

definition metrics_ok :: "(string, (string, 'm) dict) dict \<Rightarrow> bool" where
  "metrics_ok d \<longleftrightarrow> distinct (dict_keys d) \<and> (\<forall>m \<in> set (map snd d). distinct (dict_keys m))"

lemma metrics_ok_inner: "metrics_ok d \<Longrightarrow> dict_get d v = Some m \<Longrightarrow> distinct (dict_keys m)"
  unfolding metrics_ok_def by (force dest: map_of_SomeD)

lemma snd_dict_set: "set (map snd (dict_set k v d)) \<subseteq> insert v (set (map snd d))"
  by (induction d) auto

lemma metrics_ok_set:
  "metrics_ok d \<Longrightarrow> distinct (dict_keys m) \<Longrightarrow> metrics_ok (dict_set v m d)"
  unfolding metrics_ok_def using snd_dict_set[of v m d]
  by (simp del: set_map map_map) blast

lemma get_default_ok: "metrics_ok d \<Longrightarrow> distinct (dict_keys (get_default d v []))"
  by (auto simp: get_default_def dest: metrics_ok_inner split: option.splits)

lemma metrics_ok_merge: "metrics_ok d \<Longrightarrow> metrics_ok (merge_critic_metrics d u)"
  by (induction d u rule: merge_critic_metrics.induct)
    (simp_all add: metrics_ok_set get_default_ok)

lemma metric_at_merge:
  "metrics_ok d \<Longrightarrow> metrics_ok u \<Longrightarrow>
   metric_at (merge_critic_metrics d u) k =
     (case metric_at u k of None \<Rightarrow> metric_at d k | Some v \<Rightarrow> Some v)"
proof (induction d u rule: merge_critic_metrics.induct)
  case (1 left)
  then show ?case by (simp add: metric_at_def)
next
  case (2 left vid agents rest)
  let ?l = "dict_set vid (dict_update (get_default left vid []) agents) left"
  have ok: "metrics_ok ?l" "metrics_ok rest" "distinct (dict_keys agents)" "dict_get rest vid = None"
    using "2.prems" by (simp_all add: metrics_ok_set get_default_ok) (auto simp: metrics_ok_def dict_get_None_iff)
  have "metric_at ?l k = (if fst k = vid
      then (case dict_get agents (snd k) of None \<Rightarrow> metric_at left k | Some v \<Rightarrow> Some v)
      else metric_at left k)"
    using ok(3) by (auto simp: metric_at_def dict_get_update_distinct get_default_def split: option.splits)
  moreover have "metric_at ((vid, agents) # rest) k =
      (if fst k = vid then dict_get agents (snd k) else metric_at rest k)"
    by (simp add: metric_at_def)
  moreover have "fst k = vid \<Longrightarrow> metric_at rest k = None"
    using ok(4) by (simp add: metric_at_def)
  ultimately show ?case using "2.IH"[OF ok(1,2)] by (auto split: option.splits)
qed

interpretation metrics_red: reducer merge_critic_metrics "[]" metric_at metrics_ok
proof (unfold_locales, goal_cases)
  case (1 k)
  show ?case by (simp add: metric_at_def)
next
  case 2
  show ?case by (simp add: metrics_ok_def)
next
  case (3 d u k)
  then show ?case by (rule metric_at_merge)
next
  case (4 d u)
  then show ?case by (simp add: metrics_ok_merge)
qed

section \<open>The state and its updates\<close>

record failed_vendor =
  fv_vendor_id :: string
  fv_stage :: string
  fv_error :: string

record critic_metric =
  cm_blocks :: nat
  cm_retries :: nat
  cm_retry_success :: bool
  cm_exhausted :: bool

type_synonym metrics = "(string, (string, critic_metric) dict) dict"

record pipeline_state =
  ps_rfp_id :: string
  ps_rfp_filename :: string
  ps_vendor_ids :: "string list"
  ps_contract_value :: rat
  ps_n_vendors :: nat
  ps_evaluation_setup :: evaluation_setup
  ps_vendor_file_map :: "(string, string) dict"
  ps_retrieval_output_objects :: "(string, retrieval_output) dict"
  ps_extraction_output_objects :: "(string, extraction_output) dict"
  ps_evaluation_output_objects :: "(string, evaluation_output) dict"
  ps_source_chunks :: "(string, string) dict"
  ps_vendor_narratives_accum :: "(string, vendor_narrative) dict"
  ps_failed_vendors :: "failed_vendor list"
  ps_comparator_output :: "comparator_output option"
  ps_decision_output :: "decision_output option"
  ps_explanation_output :: "explanation_output option"
  ps_explanation_retry_count :: nat
  ps_explanation_critic_feedback :: string
  ps_explanation_retry_requested :: bool
  ps_critic_metrics_accum :: metrics
  ps_blocked :: bool
  ps_blocked_agent :: string
  ps_error_message :: string

datatype channel_update =
    RetrievalObjects "(string, retrieval_output) dict"
  | ExtractionObjects "(string, extraction_output) dict"
  | EvaluationObjects "(string, evaluation_output) dict"
  | SourceChunks "(string, string) dict"
  | NarrativesAccum "(string, vendor_narrative) dict"
  | FailedVendors "failed_vendor list"
  | CriticMetrics metrics
  | ComparatorOutput comparator_output
  | DecisionOutput decision_output
  | ExplanationOutput "explanation_output option"
  | RetryCount nat
  | CriticFeedback string
  | RetryRequested bool
  | Blocked bool
  | BlockedAgent string
  | ErrorMessage string

fun apply_update :: "pipeline_state \<Rightarrow> channel_update \<Rightarrow> pipeline_state" where
  "apply_update s (RetrievalObjects d) =
     s\<lparr>ps_retrieval_output_objects := merge_dicts (ps_retrieval_output_objects s) d\<rparr>"
| "apply_update s (ExtractionObjects d) =
     s\<lparr>ps_extraction_output_objects := merge_dicts (ps_extraction_output_objects s) d\<rparr>"
| "apply_update s (EvaluationObjects d) =
     s\<lparr>ps_evaluation_output_objects := merge_dicts (ps_evaluation_output_objects s) d\<rparr>"
| "apply_update s (SourceChunks d) = s\<lparr>ps_source_chunks := merge_dicts (ps_source_chunks s) d\<rparr>"
| "apply_update s (NarrativesAccum d) =
     s\<lparr>ps_vendor_narratives_accum := merge_dicts (ps_vendor_narratives_accum s) d\<rparr>"
| "apply_update s (FailedVendors fs) =
     s\<lparr>ps_failed_vendors := concat_lists (ps_failed_vendors s) fs\<rparr>"
| "apply_update s (CriticMetrics m) =
     s\<lparr>ps_critic_metrics_accum := merge_critic_metrics (ps_critic_metrics_accum s) m\<rparr>"
| "apply_update s (ComparatorOutput c) = s\<lparr>ps_comparator_output := Some c\<rparr>"
| "apply_update s (DecisionOutput d) = s\<lparr>ps_decision_output := Some d\<rparr>"
| "apply_update s (ExplanationOutput e) = s\<lparr>ps_explanation_output := e\<rparr>"
| "apply_update s (RetryCount n) = s\<lparr>ps_explanation_retry_count := n\<rparr>"
| "apply_update s (CriticFeedback f) = s\<lparr>ps_explanation_critic_feedback := f\<rparr>"
| "apply_update s (RetryRequested b) = s\<lparr>ps_explanation_retry_requested := b\<rparr>"
| "apply_update s (Blocked b) = s\<lparr>ps_blocked := b\<rparr>"
| "apply_update s (BlockedAgent a) = s\<lparr>ps_blocked_agent := a\<rparr>"
| "apply_update s (ErrorMessage m) = s\<lparr>ps_error_message := m\<rparr>"

definition apply_updates :: "pipeline_state \<Rightarrow> channel_update list \<Rightarrow> pipeline_state" where
  "apply_updates s us = foldl apply_update s us"

lemma apply_updates_Nil [simp]: "apply_updates s [] = s"
  by (simp add: apply_updates_def)

lemma apply_updates_Cons [simp]: "apply_updates s (u # us) = apply_updates (apply_update s u) us"
  by (simp add: apply_updates_def)

lemma apply_updates_append: "apply_updates s (us @ vs) = apply_updates (apply_updates s us) vs"
  by (simp add: apply_updates_def)

end
