(* ===== verification/Critic_Retry.thy ===== *)
theory Critic_Retry
  imports Critic_Laws Pipeline_State
begin

text \<open>
  \<open>app/pipeline/critic_retry.py\<close>: the self-correcting controller around one vendor's
  generation agent. The agent is the parameter \<open>attempt_fn\<close>, a function of the attempt number
  and of the feedback, so that every real agent, deterministic or not, is an instance. The
  loop returns the state update and the messages it emitted.

  The second half states the controller abstractly: \<open>retry_outcome\<close> says which attempt
  ends the loop and how, and \<open>retry_refines\<close> shows that the loop computes exactly the rendering
  of that outcome.
\<close>

type_synonym 'o attempt = "nat \<Rightarrow> string \<Rightarrow> ('o \<times> critic_output) result"
type_synonym emission = "string \<times> string"

definition hard_descriptions_240 :: "critic_output option \<Rightarrow> string" where
  "hard_descriptions_240 critic =
     take 240 (join ''; '' (case critic of None \<Rightarrow> [] | Some c \<Rightarrow> hard_descriptions c))"

definition metric :: "string \<Rightarrow> string \<Rightarrow> nat \<Rightarrow> nat \<Rightarrow> bool \<Rightarrow> bool \<Rightarrow> metrics" where
  "metric agent vendor_id blocks retries recovered exhausted =
     [(vendor_id, [(agent, \<lparr>cm_blocks = blocks, cm_retries = retries,
        cm_retry_success = recovered, cm_exhausted = exhausted\<rparr>)])]"

definition failed_entry :: "string \<Rightarrow> string \<Rightarrow> string \<Rightarrow> failed_vendor" where
  "failed_entry vendor_id stage error =
     \<lparr>fv_vendor_id = vendor_id, fv_stage = stage, fv_error = error\<rparr>"

text \<open>The body of the loop from attempt number \<open>attempt\<close> on, with \<open>left\<close> iterations of
  \<open>range(max_retries + 1)\<close> to go.\<close>

fun retry_loop ::
  "string \<Rightarrow> string \<Rightarrow> 'o attempt \<Rightarrow> (critic_output \<Rightarrow> 'o \<Rightarrow> string) \<Rightarrow> ('o \<Rightarrow> channel_update list) \<Rightarrow>
   nat \<Rightarrow> nat \<Rightarrow> nat \<Rightarrow> string \<Rightarrow> nat \<Rightarrow> critic_output option \<Rightarrow> channel_update list \<times> emission list"
where
  "retry_loop agent vid attempt_fn build_feedback on_success max_retries 0 attempt feedback blocks lastc =
     ([FailedVendors [failed_entry vid agent
         (''critic_hard_block after '' @ show_nat blocks @ '' attempts: '' @ hard_descriptions_240 lastc)],
       CriticMetrics (metric agent vid blocks max_retries False True)],
      [(''blocked'', agent @ '' for '' @ vid @ '' could not be corrected after '' @ show_nat blocks @
        '' attempts'' @ dash @ ''flagged as failed'')])"
| "retry_loop agent vid attempt_fn build_feedback on_success max_retries (Suc left) attempt feedback blocks lastc =
     (case attempt_fn attempt feedback of
        Inl exc \<Rightarrow>
          ([FailedVendors [failed_entry vid agent (exn_str exc)],
            CriticMetrics (metric agent vid blocks blocks False True)],
           [(''blocked'', agent @ '' for '' @ vid @ '' errored: '' @ exn_str exc)])
      | Inr (output, critic) \<Rightarrow>
          if co_overall_verdict critic \<noteq> BLOCKED
          then (on_success output @ [CriticMetrics (metric agent vid blocks blocks (0 < blocks) False)],
                if 0 < blocks
                then [(''recovered'', agent @ '' for '' @ vid @ '' self-corrected after '' @
                       show_nat blocks @ '' retr'' @ (if blocks = 1 then ''y'' else ''ies''))]
                else [])
          else (let rest = retry_loop agent vid attempt_fn build_feedback on_success max_retries left
                             (Suc attempt) (build_feedback critic output) (Suc blocks) (Some critic)
                in (fst rest,
                    (if attempt < max_retries
                     then [(''retry'', agent @ '' for '' @ vid @ '' blocked (attempt '' @
                            show_nat (attempt + 1) @ '')'' @ dash @ ''retrying with critic feedback'')]
                     else []) @ snd rest)))"

definition run_with_critic_retry ::
  "string \<Rightarrow> string \<Rightarrow> 'o attempt \<Rightarrow> (critic_output \<Rightarrow> 'o \<Rightarrow> string) \<Rightarrow> ('o \<Rightarrow> channel_update list) \<Rightarrow>
   nat \<Rightarrow> channel_update list \<times> emission list" where
  "run_with_critic_retry agent vid attempt_fn build_feedback on_success max_retries =
     retry_loop agent vid attempt_fn build_feedback on_success max_retries (max_retries + 1) 0 [] 0 None"

section \<open>The abstract controller\<close>

text \<open>What attempt \<open>k\<close> returns when all attempts before it were blocked: the feedback it gets is
  built from the attempt before.\<close>

fun feedback_at :: "'o attempt \<Rightarrow> (critic_output \<Rightarrow> 'o \<Rightarrow> string) \<Rightarrow> nat \<Rightarrow> string" where
  "feedback_at attempt_fn build_feedback 0 = []"
| "feedback_at attempt_fn build_feedback (Suc k) =
     (case attempt_fn k (feedback_at attempt_fn build_feedback k) of
        Inl _ \<Rightarrow> [] | Inr (output, critic) \<Rightarrow> build_feedback critic output)"

definition attempt_result :: "'o attempt \<Rightarrow> (critic_output \<Rightarrow> 'o \<Rightarrow> string) \<Rightarrow> nat \<Rightarrow> ('o \<times> critic_output) result" where
  "attempt_result attempt_fn build_feedback k = attempt_fn k (feedback_at attempt_fn build_feedback k)"

fun blocked_result :: "('o \<times> critic_output) result \<Rightarrow> bool" where
  "blocked_result (Inl _) = False"
| "blocked_result (Inr (output, critic)) = (co_overall_verdict critic = BLOCKED)"

datatype 'o outcome = Succeeded nat 'o | Crashed nat exn | Exhausted

text \<open>The first attempt that is not blocked decides.\<close>

definition retry_outcome :: "'o attempt \<Rightarrow> (critic_output \<Rightarrow> 'o \<Rightarrow> string) \<Rightarrow> nat \<Rightarrow> 'o outcome" where
  "retry_outcome attempt_fn build_feedback max_retries =
     (case List.find (\<lambda>k. \<not> blocked_result (attempt_result attempt_fn build_feedback k)) [0..<max_retries + 1] of
        None \<Rightarrow> Exhausted
      | Some k \<Rightarrow> (case attempt_result attempt_fn build_feedback k of
                     Inl exc \<Rightarrow> Crashed k exc | Inr (output, critic) \<Rightarrow> Succeeded k output))"

fun critic_of :: "('o \<times> critic_output) result \<Rightarrow> critic_output option" where
  "critic_of (Inl _) = None"
| "critic_of (Inr (output, critic)) = Some critic"

fun render_outcome ::
  "string \<Rightarrow> string \<Rightarrow> ('o \<Rightarrow> channel_update list) \<Rightarrow> nat \<Rightarrow> critic_output option \<Rightarrow> 'o outcome \<Rightarrow> channel_update list"
where
  "render_outcome agent vid on_success max_retries lastc (Succeeded k output) =
     on_success output @ [CriticMetrics (metric agent vid k k (0 < k) False)]"
| "render_outcome agent vid on_success max_retries lastc (Crashed k exc) =
     [FailedVendors [failed_entry vid agent (exn_str exc)],
      CriticMetrics (metric agent vid k k False True)]"
| "render_outcome agent vid on_success max_retries lastc Exhausted =
     [FailedVendors [failed_entry vid agent
        (''critic_hard_block after '' @ show_nat (max_retries + 1) @ '' attempts: '' @
         hard_descriptions_240 lastc)],
      CriticMetrics (metric agent vid (max_retries + 1) max_retries False True)]"

definition last_critic :: "'o attempt \<Rightarrow> (critic_output \<Rightarrow> 'o \<Rightarrow> string) \<Rightarrow> nat \<Rightarrow> critic_output option" where
  "last_critic attempt_fn build_feedback k =
     (case k of 0 \<Rightarrow> None | Suc j \<Rightarrow> critic_of (attempt_result attempt_fn build_feedback j))"

text \<open>The loop from attempt \<open>k\<close> on renders the first unblocked attempt at or after \<open>k\<close>.\<close>

lemma retry_loop_render:
  assumes "k + left = max_retries + 1"
  shows "fst (retry_loop agent vid attempt_fn bf on_success max_retries left k
           (feedback_at attempt_fn bf k) k (last_critic attempt_fn bf k)) =
    render_outcome agent vid on_success max_retries (last_critic attempt_fn bf (max_retries + 1))
      (case List.find (\<lambda>j. \<not> blocked_result (attempt_result attempt_fn bf j)) [k..<max_retries + 1] of
        None \<Rightarrow> Exhausted
      | Some j \<Rightarrow> (case attempt_result attempt_fn bf j of
                     Inl exc \<Rightarrow> Crashed j exc | Inr (output, critic) \<Rightarrow> Succeeded j output))"
  using assms
proof (induction left arbitrary: k)
  case 0
  then show ?case by simp
next
  case (Suc left)
  then have range: "[k..<max_retries + 1] = k # [Suc k..<max_retries + 1]"
    by (simp add: upt_conv_Cons)
  show ?case
  proof (cases "attempt_result attempt_fn bf k")
    case (Inl exc)
    then show ?thesis by (subst range) (simp add: attempt_result_def)
  next
    case (Inr oc)
    obtain out critic where oc: "oc = (out, critic)" by fastforce
    show ?thesis
    proof (cases "co_overall_verdict critic = BLOCKED")
      case False
      with Inr oc show ?thesis by (subst range) (simp add: attempt_result_def)
    next
      case True
      have next_fb: "feedback_at attempt_fn bf (Suc k) = bf critic out"
        and next_last: "last_critic attempt_fn bf (Suc k) = Some critic"
        using Inr oc by (simp_all add: attempt_result_def last_critic_def)
      have IH: "fst (retry_loop agent vid attempt_fn bf on_success max_retries left (Suc k)
           (bf critic out) (Suc k) (Some critic)) =
        render_outcome agent vid on_success max_retries (last_critic attempt_fn bf (max_retries + 1))
          (case List.find (\<lambda>j. \<not> blocked_result (attempt_result attempt_fn bf j)) [Suc k..<max_retries + 1] of
            None \<Rightarrow> Exhausted
          | Some j \<Rightarrow> (case attempt_result attempt_fn bf j of
                         Inl exc \<Rightarrow> Crashed j exc | Inr (output, critic) \<Rightarrow> Succeeded j output))"
        using Suc.IH[of "Suc k"] Suc.prems by (simp only: next_fb next_last)
      have here: "attempt_fn k (feedback_at attempt_fn bf k) = Inr (out, critic)"
        using Inr oc by (simp add: attempt_result_def)
      from True Inr oc here IH show ?thesis
        by (subst range) (simp add: Let_def del: upt_Suc)
    qed
  qed
qed

lemma retry_refines:
  "fst (run_with_critic_retry agent vid attempt_fn bf on_success max_retries) =
   render_outcome agent vid on_success max_retries (last_critic attempt_fn bf (max_retries + 1))
     (retry_outcome attempt_fn bf max_retries)"
  using retry_loop_render[of 0 "max_retries + 1" max_retries agent vid attempt_fn bf on_success]
  by (simp add: run_with_critic_retry_def retry_outcome_def last_critic_def)

text \<open>How many attempts an outcome took.\<close>

fun attempts_of :: "nat \<Rightarrow> 'o outcome \<Rightarrow> nat" where
  "attempts_of max_retries (Succeeded k _) = k + 1"
| "attempts_of max_retries (Crashed k _) = k + 1"
| "attempts_of max_retries Exhausted = max_retries + 1"

lemma find_upt_Some:
  "List.find P [0..<m] = Some k \<longleftrightarrow> k < m \<and> P k \<and> (\<forall>j < k. \<not> P j)"
  by (auto simp: find_Some_iff simp del: upt_Suc)

lemma find_upt_None: "List.find P [0..<m] = None \<longleftrightarrow> (\<forall>j < m. \<not> P j)"
  by (auto simp: find_None_iff)

lemma retry_outcome_bounded: "attempts_of max_retries (retry_outcome f bf max_retries) \<le> max_retries + 1"
  by (auto simp: retry_outcome_def find_upt_Some simp del: upt_Suc split: option.splits sum.splits)

lemma retry_outcome_Some:
  assumes "k \<le> n" and "\<forall>j < k. blocked_result (attempt_result f bf j)"
    and "\<not> blocked_result (attempt_result f bf k)"
  shows "retry_outcome f bf n = (case attempt_result f bf k of
    Inl exc \<Rightarrow> Crashed k exc | Inr (output, critic) \<Rightarrow> Succeeded k output)"
proof -
  have "List.find (\<lambda>k. \<not> blocked_result (attempt_result f bf k)) [0..<n + 1] = Some k"
    using assms by (simp add: find_upt_Some del: upt_Suc)
  then show ?thesis by (simp only: retry_outcome_def option.case)
qed

lemma retry_outcome_Exhausted:
  "retry_outcome f bf n = Exhausted \<longleftrightarrow> (\<forall>j \<le> n. blocked_result (attempt_result f bf j))"
proof (cases "\<forall>j \<le> n. blocked_result (attempt_result f bf j)")
  case True
  then have "List.find (\<lambda>k. \<not> blocked_result (attempt_result f bf k)) [0..<n + 1] = None"
    by (simp add: find_upt_None less_Suc_eq_le del: upt_Suc)
  then have "retry_outcome f bf n = Exhausted" by (simp only: retry_outcome_def option.case)
  with True show ?thesis by blast
next
  case False
  define k where "k = (LEAST j. \<not> blocked_result (attempt_result f bf j))"
  from False obtain i where i: "i \<le> n" "\<not> blocked_result (attempt_result f bf i)" by auto
  have "\<not> blocked_result (attempt_result f bf k)" unfolding k_def using i(2) by (rule LeastI)
  moreover have "k \<le> n" unfolding k_def using i by (meson Least_le le_trans)
  moreover have "\<forall>j < k. blocked_result (attempt_result f bf j)" unfolding k_def using not_less_Least by blast
  ultimately have "retry_outcome f bf n \<noteq> Exhausted"
    by (subst retry_outcome_Some) (auto split: sum.splits)
  with False show ?thesis by blast
qed

text \<open>When every attempt crashes or is blocked the vendor is recorded as failed and nothing else is written.\<close>

lemma never_unblocked_fails:
  assumes "\<And>k fb output critic. attempt_fn k fb = Inr (output, critic) \<Longrightarrow> co_overall_verdict critic = BLOCKED"
  shows "\<exists>e m. fst (run_with_critic_retry agent vid attempt_fn bf on_success n) =
    [FailedVendors [failed_entry vid agent e], CriticMetrics m]"
proof (cases "retry_outcome attempt_fn bf n")
  case (Succeeded k x)
  then obtain critic where r: "attempt_result attempt_fn bf k = Inr (x, critic)" "co_overall_verdict critic \<noteq> BLOCKED"
    by (auto simp: retry_outcome_def find_upt_Some simp del: upt_Suc split: option.splits sum.splits prod.splits)
  then show ?thesis using assms by (auto simp: attempt_result_def)
qed (auto simp: retry_refines)

end
