(* ===== verification/Nodes.thy ===== *)
theory Nodes
  imports Explanation Planner Critic_Retry
begin

text \<open>
  \<open>app/pipeline/nodes.py\<close>: the node functions of the LangGraph pipeline. A node maps the state to
  the updates it returns and the effects it attempts (timeline events, audit rows, the status
  column); it is \<open>Inl\<close> when an exception escapes the node function itself. The record
  \<open>world\<close> collects what the nodes call: the agents whose own theories are not part of this model
  (ingestion, retrieval, extraction), the environments of the modelled ones, the registry prompt
  \<open>critic/retry_feedback\<close> and the fact-store query. Everything an LLM may answer differently
  on a second try is indexed by the attempt. Log lines and the \<open>log_msg\<close> texts are left out.
\<close>

section \<open>Effects\<close>

datatype effect =
    Event string string string
  | Audit string string
  | SetStatus string

definition audit_event_type :: "string \<Rightarrow> string option" where
  "audit_event_type status =
     (if status = ''running'' then Some ''agent.started''
      else if status = ''done'' then Some ''agent.completed''
      else if status = ''blocked'' then Some ''agent.blocked''
      else if status = ''recovered'' then Some ''agent.self_corrected''
      else if status = ''retry'' then Some ''agent.retry''
      else None)"

definition emit :: "string \<Rightarrow> string \<Rightarrow> string \<Rightarrow> effect list" where
  "emit agent status message =
     Event agent status message #
     (case audit_event_type status of None \<Rightarrow> [] | Some t \<Rightarrow> [Audit t agent])"

type_synonym node_result = "(channel_update list \<times> effect list) result"

record world =
  wd_ingest :: "string \<Rightarrow> critic_output list result"
  wd_facts_extracted :: "string \<Rightarrow> string \<Rightarrow> bool"
  wd_retrieve :: "string \<Rightarrow> string \<Rightarrow> bool \<Rightarrow> (retrieval_output \<times> critic_output) result"
  wd_extract :: "string \<Rightarrow> nat \<Rightarrow> retrieval_output \<Rightarrow> string \<Rightarrow> (extraction_output \<times> critic_output) result"
  wd_eval_env :: "string \<Rightarrow> nat \<Rightarrow> eval_env"
  wd_compare :: compare_llm
  wd_decide :: "string \<Rightarrow> reply"
  wd_explain :: "string \<Rightarrow> nat \<Rightarrow> explanation_env"
  wd_retry_prompt :: "string \<Rightarrow> string"

section \<open>Shared helpers\<close>

definition arrow :: string where
  "arrow = [CHR 0x20, CHR 0x10, CHR 0x20]"

definition critic_feedback :: "world \<Rightarrow> critic_output \<Rightarrow> string" where
  "critic_feedback w critic =
     wd_retry_prompt w (join newline
       (map (\<lambda>f. ''- '' @ cf_description f @ (if cf_recommendation f \<noteq> [] then arrow @ cf_recommendation f else []))
         (filter (\<lambda>f. cf_severity f = HARD) (co_flags critic))))"

definition block_update :: "string \<Rightarrow> exn \<Rightarrow> channel_update list \<times> effect list" where
  "block_update agent exc =
     ([Blocked True, BlockedAgent agent, ErrorMessage (exn_str exc)],
      emit agent ''blocked'' (exn_str exc) @ [SetStatus ''blocked'', Audit ''run.blocked'' agent])"

text \<open>\<open>try: ... except Exception as exc: return _block_update(...)\<close>; the effects of the body
  up to the exception have happened.\<close>

definition guarded :: "string \<Rightarrow> effect list \<Rightarrow> (channel_update list \<times> effect list) result \<Rightarrow> node_result" where
  "guarded agent started body = (case body of
     Inl exc \<Rightarrow> Inr (fst (block_update agent exc), started @ snd (block_update agent exc))
   | Inr (us, es) \<Rightarrow> Inr (us, started @ es))"

definition attempts_emit :: "string \<Rightarrow> (string \<times> string) list \<Rightarrow> effect list" where
  "attempts_emit agent es = concat (map (\<lambda>(status, msg). emit agent status msg) es)"

section \<open>Planner and ingestion\<close>

definition planner_node :: "platform_cfg \<Rightarrow> pipeline_state \<Rightarrow> node_result" where
  "planner_node cfg s =
     guarded ''planner'' (emit ''planner'' ''running'' ''Decomposing evaluation into task DAG'')
       (let (out, critic) = run_planner cfg (ps_rfp_id s) (ps_vendor_ids s) (ps_evaluation_setup s)
        in rbind (hard_block_if critic ''planner'') (\<lambda>_.
           Inr ([], emit ''planner'' ''done'' ''Task DAG ready'')))"

fun block_all :: "critic_output list \<Rightarrow> string \<Rightarrow> unit result" where
  "block_all [] ctx = Inr ()"
| "block_all (c # cs) ctx = rbind (hard_block_if c ctx) (\<lambda>_. block_all cs ctx)"

definition ingest_one :: "world \<Rightarrow> string \<Rightarrow> string \<Rightarrow> unit result" where
  "ingest_one w vid ctx = rbind (wd_ingest w vid) (\<lambda>critics. block_all critics ctx)"

fun ingest_vendors :: "world \<Rightarrow> (string, string) dict \<Rightarrow> unit result" where
  "ingest_vendors w [] = Inr ()"
| "ingest_vendors w ((vid, vfilename) # rest) =
     rbind (ingest_one w vid (''ingestion/'' @ vfilename @ '' (vendor='' @ vid @ '')'')) (\<lambda>_. ingest_vendors w rest)"

definition ingestion_node :: "world \<Rightarrow> pipeline_state \<Rightarrow> node_result" where
  "ingestion_node w s =
     (let files = ps_vendor_file_map s; n = show_nat (length files)
      in if files \<noteq> [] \<and> list_all (\<lambda>(vid, _). wd_facts_extracted w ''ingestion'' vid) files
         then Inr ([],
           concat (map (\<lambda>(vid, _). emit ''ingestion'' ''skipped''
             (''Facts already extracted for '' @ vid @ dash @ ''skipping ingestion'')) files) @
           emit ''ingestion'' ''done'' (''Ingestion skipped'' @ dash @ n @ '' vendors short-circuited''))
         else guarded ''ingestion'' (emit ''ingestion'' ''running'' (''Ingesting RFP + '' @ n @ '' vendor docs''))
           (rbind (ingest_one w ''rfp'' (''ingestion/'' @ ps_rfp_filename s)) (\<lambda>_.
            rbind (ingest_vendors w files) (\<lambda>_.
            Inr ([], emit ''ingestion'' ''done'' (''RFP + '' @ n @ '' vendor docs indexed''))))))"

section \<open>Retrieval\<close>

definition retrieval_start :: "pipeline_state \<Rightarrow> node_result" where
  "retrieval_start s =
     Inr ([], emit ''retrieval'' ''running'' (''Retrieving chunks for '' @ show_nat (ps_n_vendors s) @ '' vendors''))"

definition queries_of :: "evaluation_setup \<Rightarrow> string list" where
  "queries_of setup =
     (let qs = map sc_name (es_scoring_criteria setup) @ map mc_name (es_mandatory_checks setup)
      in if qs \<noteq> [] then qs else [''technical capability SLA pricing compliance certifications experience''])"

record merged_retrieval =
  mr_chunks :: "retrieved_chunk list"
  mr_degraded :: bool
  mr_warnings :: "string list"

definition merge_chunk :: "retrieved_chunk list \<Rightarrow> retrieved_chunk \<Rightarrow> retrieved_chunk list" where
  "merge_chunk merged c = (if rc_chunk_id c \<in> set (map rc_chunk_id merged) then merged else merged @ [c])"

definition merge_warning :: "string list \<Rightarrow> string \<Rightarrow> string list" where
  "merge_warning ws x = (if x \<in> set ws then ws else ws @ [x])"

definition merge_query ::
  "world \<Rightarrow> string \<Rightarrow> evaluation_setup \<Rightarrow> merged_retrieval \<Rightarrow> string \<Rightarrow> merged_retrieval result" where
  "merge_query w vid setup m query =
     rbind (wd_retrieve w vid query (query \<in> set (map mc_name (es_mandatory_checks setup)))) (\<lambda>(out, _).
     Inr \<lparr>mr_chunks = foldl merge_chunk (mr_chunks m) (ro_chunks out),
          mr_degraded = (mr_degraded m \<or> ro_reranking_degraded out),
          mr_warnings = foldl merge_warning (mr_warnings m) (ro_warnings out)\<rparr>)"

definition combined_confidence :: "platform_cfg \<Rightarrow> merged_retrieval \<Rightarrow> rat" where
  "combined_confidence cfg m =
     (let c = (if mr_chunks m \<noteq> []
               then sum_list (map rc_final_score (mr_chunks m)) / of_nat (length (mr_chunks m)) else 0)
      in if mr_degraded m then c * pc_rerank_degraded_factor cfg else c)"

definition combined_retrieval :: "platform_cfg \<Rightarrow> string list \<Rightarrow> merged_retrieval \<Rightarrow> retrieval_output result" where
  "combined_retrieval cfg queries m =
     rbind (as_unit (py_round 3 (min 1 (combined_confidence cfg m)))) (\<lambda>confidence.
     Inr \<lparr>ro_original_query = join ''; '' (take 3 queries) @ (if 3 < length queries then ''...'' else []),
          ro_chunks = mr_chunks m, ro_total_candidates = length (mr_chunks m), ro_confidence = confidence,
          ro_empty_retrieval = (length (mr_chunks m) = 0), ro_reranking_degraded = mr_degraded m,
          ro_warnings = mr_warnings m\<rparr>)"

definition retrieval_per_vendor :: "platform_cfg \<Rightarrow> world \<Rightarrow> pipeline_state \<Rightarrow> string \<Rightarrow> node_result" where
  "retrieval_per_vendor cfg w s vid =
     (let setup = ps_evaluation_setup s; queries = queries_of setup
      in case rbind (rfold (merge_query w vid setup) \<lparr>mr_chunks = [], mr_degraded = False, mr_warnings = []\<rparr> queries)
           (combined_retrieval cfg queries) of
           Inl exc \<Rightarrow> Inr ([FailedVendors [failed_entry vid ''retrieval'' (exn_str exc)]], [])
         | Inr combined \<Rightarrow>
             let critic = critic_after_retrieval combined False
             in if co_overall_verdict critic = BLOCKED
                then Inr ([FailedVendors [failed_entry vid ''retrieval''
                       (''critic_hard_block: '' @ hard_descriptions_240 (Some critic))]], [])
                else Inr ([RetrievalObjects [(vid, combined)],
                       SourceChunks (dict_of (map (\<lambda>c. (rc_chunk_id c, rc_text c)) (ro_chunks combined)))], []))"

definition retrieval_done :: "pipeline_state \<Rightarrow> node_result" where
  "retrieval_done s =
     (let n_failed = count_if (\<lambda>f. fv_stage f = ''retrieval'') (ps_failed_vendors s);
          n_ok = int (ps_n_vendors s) - int n_failed
      in Inr ([], emit ''retrieval'' ''done''
           (''Retrieved chunks for '' @ show_int n_ok @ '' of '' @ show_nat (ps_n_vendors s) @ '' vendors'' @
            (if n_failed \<noteq> 0 then '' ('' @ show_nat n_failed @ '' failed)'' else []))))"

section \<open>Extraction and evaluation under the critic's control\<close>

definition extraction_start :: "pipeline_state \<Rightarrow> node_result" where
  "extraction_start s = Inr ([], emit ''extraction'' ''running'' ''Extracting structured facts'')"

definition extraction_per_vendor :: "platform_cfg \<Rightarrow> world \<Rightarrow> pipeline_state \<Rightarrow> string \<Rightarrow> node_result" where
  "extraction_per_vendor cfg w s vid =
     (if wd_facts_extracted w ''extraction'' vid
      then Inr ([], emit ''extraction'' ''skipped'' (''Vendor '' @ vid @ dash @ ''facts already extracted, skipping''))
      else case dict_get (ps_retrieval_output_objects s) vid of
             None \<Rightarrow> Inr ([FailedVendors [failed_entry vid ''extraction''
                       ''no retrieval output available (vendor failed upstream)'']], [])
           | Some ret_out \<Rightarrow>
               let (us, es) = run_with_critic_retry ''extraction'' vid
                     (\<lambda>k feedback. wd_extract w vid k ret_out feedback)
                     (\<lambda>critic _. critic_feedback w critic)
                     (\<lambda>ext_out. [ExtractionObjects [(vid, ext_out)]])
                     (pc_generation_critic_max_retries cfg)
               in Inr (us, attempts_emit ''extraction'' es))"

definition extraction_done :: "pipeline_state \<Rightarrow> node_result" where
  "extraction_done s = Inr ([], emit ''extraction'' ''done'' ''Facts extracted and stored'')"

definition evaluation_start :: "pipeline_state \<Rightarrow> node_result" where
  "evaluation_start s = Inr ([], emit ''evaluation'' ''running'' ''Scoring vendors against criteria'')"

definition evaluation_per_vendor :: "platform_cfg \<Rightarrow> world \<Rightarrow> pipeline_state \<Rightarrow> string \<Rightarrow> node_result" where
  "evaluation_per_vendor cfg w s vid =
     (case dict_get (ps_extraction_output_objects s) vid of
        None \<Rightarrow> Inr ([FailedVendors [failed_entry vid ''evaluation''
                  ''no extraction output available (vendor failed upstream)'']], [])
      | Some ext_out \<Rightarrow>
          let (us, es) = run_with_critic_retry ''evaluation'' vid
                (\<lambda>k feedback. run_evaluation_agent cfg (wd_eval_env w vid k) vid (ps_evaluation_setup s)
                   (Some ext_out) feedback)
                (\<lambda>critic _. critic_feedback w critic)
                (\<lambda>ev_out. [EvaluationObjects [(vid, ev_out)]])
                (pc_generation_critic_max_retries cfg)
          in Inr (us, attempts_emit ''evaluation'' es))"

definition evaluation_done :: "pipeline_state \<Rightarrow> node_result" where
  "evaluation_done s = Inr ([], emit ''evaluation'' ''done''
     (''Scored '' @ show_nat (length (ps_evaluation_output_objects s)) @ '' of '' @
      show_nat (ps_n_vendors s) @ '' vendors''))"

section \<open>Comparator and decision\<close>

definition comparator_node :: "platform_cfg \<Rightarrow> world \<Rightarrow> pipeline_state \<Rightarrow> node_result" where
  "comparator_node cfg w s =
     guarded ''comparator'' (emit ''comparator'' ''running'' ''Cross-vendor ranking and stability check'')
       (let (out, critic) = run_comparator_agent cfg (wd_compare w) (ps_vendor_ids s) (ps_rfp_id s)
              (ps_evaluation_setup s) (ps_evaluation_output_objects s)
        in rbind (hard_block_if critic ''comparator'') (\<lambda>_.
           Inr ([ComparatorOutput out], emit ''comparator'' ''done'' ''Vendors ranked'')))"

text \<open>\<open>comparator_output.overall_ranking\<close> of \<open>None\<close> raises inside the \<open>try\<close>.\<close>

definition decision_node :: "platform_cfg \<Rightarrow> world \<Rightarrow> pipeline_state \<Rightarrow> node_result" where
  "decision_node cfg w s =
     guarded ''decision'' (emit ''decision'' ''running'' ''Governance routing and approval tier selection'')
       (case ps_comparator_output s of
          None \<Rightarrow> Inl (AttributeError ''NoneType object has no attribute overall_ranking'')
        | Some comparison \<Rightarrow>
            rbind (run_decision_agent cfg (wd_decide w) (ps_evaluation_output_objects s) comparison (ps_contract_value s))
              (\<lambda>(out, critic).
            rbind (hard_block_if critic ''decision'') (\<lambda>_.
            Inr ([DecisionOutput out], emit ''decision'' ''done'' ''Decision and approval tier set''))))"

section \<open>Explanation\<close>

definition explanation_start :: "pipeline_state \<Rightarrow> node_result" where
  "explanation_start s = Inr ([], emit ''explanation'' ''running'' ''Generating grounded report'')"

definition attempt_tag :: string where
  "attempt_tag = ''@attempt''"

definition accum_key :: "string \<Rightarrow> nat \<Rightarrow> string" where
  "accum_key vid attempt = vid @ attempt_tag @ show_nat attempt"

text \<open>\<open>decision_output.rejected_vendors\<close> is read outside the \<open>try\<close>: with no decision the exception
  escapes the node.\<close>

definition explanation_per_vendor :: "platform_cfg \<Rightarrow> world \<Rightarrow> pipeline_state \<Rightarrow> string \<Rightarrow> node_result" where
  "explanation_per_vendor cfg w s vid =
     (case dict_get (ps_evaluation_output_objects s) vid of
        None \<Rightarrow> Inr ([FailedVendors [failed_entry vid ''explanation''
                  ''no evaluation output available (vendor failed upstream)'']], [])
      | Some ev \<Rightarrow>
          (case ps_decision_output s of
             None \<Rightarrow> Inl (AttributeError ''NoneType object has no attribute rejected_vendors'')
           | Some dec \<Rightarrow>
               let extraction = get_default (ps_extraction_output_objects s) vid empty_extraction;
                   rejected = list_ex (\<lambda>r. rn_vendor_id r = vid) (do_rejected_vendors dec);
                   attempt = ps_explanation_retry_count s + 1
               in case generate_vendor_narrative cfg (wd_explain w vid attempt) vid rejected ev extraction
                      (vendor_chunks_of (ps_source_chunks s) extraction) dec (ps_explanation_critic_feedback s) of
                    Inl exc \<Rightarrow> Inr ([FailedVendors [failed_entry vid ''explanation'' (exn_str exc)]], [])
                  | Inr narrative \<Rightarrow> Inr ([NarrativesAccum [(accum_key vid attempt, narrative)]], [])))"

text \<open>\<open>key.split("@attempt", 1)\<close>.\<close>

fun split_tag :: "string \<Rightarrow> (string \<times> string) option" where
  "split_tag [] = None"
| "split_tag (c # cs) =
     (if starts_with attempt_tag (c # cs) then Some ([], drop (length attempt_tag) (c # cs))
      else map_option (\<lambda>(a, b). (c # a, b)) (split_tag cs))"

text \<open>\<open>int(s)\<close> on optionally signed decimal digits with surrounding space.\<close>

definition parse_digits :: "string \<Rightarrow> int option" where
  "parse_digits ds = (if ds \<noteq> [] \<and> list_all is_digit ds then Some (int (digits_value ds)) else None)"

definition parse_int :: "string \<Rightarrow> int option" where
  "parse_int s0 = (case strip s0 of
     [] \<Rightarrow> None
   | c # cs \<Rightarrow> if c = CHR ''-'' then map_option uminus (parse_digits cs)
              else if c = CHR ''+'' then parse_digits cs else parse_digits (c # cs))"

definition parse_key :: "string \<Rightarrow> string \<times> int" where
  "parse_key key = (case split_tag key of
     None \<Rightarrow> (key, 0)
   | Some (vid, marker) \<Rightarrow> (vid, case parse_int marker of None \<Rightarrow> 0 | Some n \<Rightarrow> n))"

definition latest_step ::
  "(string, int \<times> vendor_narrative) dict \<Rightarrow> string \<times> vendor_narrative \<Rightarrow> (string, int \<times> vendor_narrative) dict" where
  "latest_step latest kn =
     (let (vid, attempt) = parse_key (fst kn);
          prior = (case dict_get latest vid of None \<Rightarrow> -1 | Some (a, _) \<Rightarrow> a)
      in if prior < attempt then dict_set vid (attempt, snd kn) latest else latest)"

definition latest_per_vendor :: "(string, vendor_narrative) dict \<Rightarrow> (string, int \<times> vendor_narrative) dict" where
  "latest_per_vendor accum = foldl latest_step [] accum"

definition narratives_in_order :: "(string, int \<times> vendor_narrative) dict \<Rightarrow> vendor_narrative list" where
  "narratives_in_order latest =
     concat (map (\<lambda>v. case dict_get latest v of None \<Rightarrow> [] | Some (_, n) \<Rightarrow> [n]) (sort (dict_keys latest)))"

definition explanation_failures :: "failed_vendor list \<Rightarrow> string list" where
  "explanation_failures fs =
     map (\<lambda>f. fv_vendor_id f @ '': narrative generation failed ('' @ take 80 (fv_error f) @ '').'')
       (filter (\<lambda>f. fv_stage f = ''explanation'') fs)"

definition explanation_finalise :: "pipeline_state \<Rightarrow> node_result" where
  "explanation_finalise s =
     guarded ''explanation'' []
       (case ps_decision_output s of
          None \<Rightarrow> Inl (AttributeError ''NoneType object has no attribute rejected_vendors'')
        | Some dec \<Rightarrow>
            let narratives = narratives_in_order (latest_per_vendor (ps_vendor_narratives_accum s));
                (completeness, _, limitations) = compute_grounding narratives
            in Inr ([ExplanationOutput (Some
                 \<lparr>ex_executive_summary = build_executive_summary dec, ex_vendor_narratives = narratives,
                  ex_methodology_note = METHODOLOGY_NOTE,
                  ex_limitations = limitations @ explanation_failures (ps_failed_vendors s),
                  ex_grounding_completeness = completeness,
                  ex_report_confidence = do_decision_confidence dec\<rparr>)], []))"

section \<open>The explanation critic\<close>

definition EXPLANATION_MAX_RETRIES :: nat where
  "EXPLANATION_MAX_RETRIES = 2"

text \<open>\<open>repr\<close> of a string, for printable characters.\<close>

definition py_repr :: "string \<Rightarrow> string" where
  "py_repr t =
     (let q = (if CHR 0x27 \<in> set t \<and> CHR 0x22 \<notin> set t then CHR 0x22 else CHR 0x27)
      in q # concat (map (\<lambda>c. if c = q \<or> c = CHR 0x5C then [CHR 0x5C, c]
             else if c = CHR 0x0A then [CHR 0x5C, CHR ''n''] else if c = CHR 0x0D then [CHR 0x5C, CHR ''r'']
             else if c = CHR 0x09 then [CHR 0x5C, CHR ''t''] else [c]) t) @ [q])"

definition ungrounded_samples :: "vendor_narrative \<Rightarrow> string list" where
  "ungrounded_samples n =
     map (\<lambda>ex. ''  - vendor='' @ vn_vendor_id n @ '' ('' @ ue_diagnosis_hint ex @ ''): claim='' @
            py_repr (take 100 (ue_claim_text ex)) @ '', quote you cited='' @
            py_repr (take 120 (ue_llm_grounding_quote ex)))
       (take 2 (vn_ungrounded_examples n))"

definition prose_samples :: "vendor_narrative \<Rightarrow> string list" where
  "prose_samples n =
     map (\<lambda>v. ''  - vendor='' @ vn_vendor_id n @ '': unsupported prose claim '' @
            py_repr (take 100 (cl_claim_text v)) @ '' ('' @
            take 120 (if cl_reason v \<noteq> [] then cl_reason v else ''no supporting evidence'') @ '')'')
       (filter (\<lambda>v. \<not> cl_supported v) (vn_prose_verification n))"

definition bullet :: string where
  "bullet = [CHR 0x20, CHR 0x20, CHR 0x95, CHR 0x20]"

definition feedback_rules :: string where
  "feedback_rules =
     ''RULES:'' @ newline @
     bullet @ ''PDF-content claims (vendor proposal text) '' @ arrow @ ''grounded_claims, with verbatim quote.'' @ newline @
     bullet @ ''System metadata (decision rank, scores, MC-* check IDs) '' @ arrow @ ''system_facts, NO quote, NO chunk_id.'' @ newline @
     bullet @ ''The grounding_quote MUST be a copy-paste verbatim substring of one source chunk.'' @ newline @
     bullet @ ''Every sentence in the narrative prose must be supported by the evidence above.'' @ newline"

definition build_critic_feedback :: "explanation_output \<Rightarrow> string" where
  "build_critic_feedback report =
     (let samples = concat (map ungrounded_samples (take 3 (ex_vendor_narratives report)));
          prose = concat (map prose_samples (take 3 (ex_vendor_narratives report)))
      in join newline
        ([''PREVIOUS ATTEMPT FAILED: grounding_completeness='' @ fmt_pct (ex_grounding_completeness report) @
          '' (threshold is 70%). Fix per the guidance below'' @ dash @ ''do NOT repeat the same mistakes.''] @
         (if samples \<noteq> [] then ''Examples of claims that were rejected:'' # samples else []) @
         (if prose \<noteq> []
          then (''Narrative PROSE claims that are NOT backed by evidence'' @ dash @ ''remove '' @
                ''them or restate only what the source chunks/system facts support:'') # take 6 prose else []) @
         [feedback_rules]))"

definition explanation_critic :: "platform_cfg \<Rightarrow> pipeline_state \<Rightarrow> node_result" where
  "explanation_critic cfg s =
     (let retry_count = ps_explanation_retry_count s
      in case ps_explanation_output s of
           None \<Rightarrow> Inr ([Blocked True, BlockedAgent ''explanation'',
                     ErrorMessage ''explanation_finalise produced no output''],
                    emit ''explanation'' ''blocked'' ''No explanation output to evaluate'')
         | Some report \<Rightarrow>
             let critic = critic_after_explanation cfg report (ps_source_chunks s);
                 attempts = show_nat (retry_count + 1);
                 hard_descs = hard_descriptions_240 (Some critic);
                 blocked_msg = ''[CRITIC BLOCK after '' @ attempts @ '' attempts] '' @ hard_descs
             in if co_overall_verdict critic \<noteq> BLOCKED
                then Inr ([RetryRequested False],
                       emit ''explanation'' ''done'' (''Report ready'' @ dash @ ''every claim cited (attempt '' @ attempts @ '')''))
                else if EXPLANATION_MAX_RETRIES \<le> retry_count
                then Inr ([Blocked True, BlockedAgent ''explanation'', ErrorMessage blocked_msg, RetryRequested False],
                       emit ''explanation'' ''blocked'' blocked_msg)
                else Inr ([RetryCount (retry_count + 1), CriticFeedback (build_critic_feedback report),
                         ExplanationOutput None, RetryRequested True],
                       emit ''explanation'' ''retrying''
                         (''Critic blocked (attempt '' @ attempts @ ''); retrying with feedback'')))"

end
