(* ===== verification/Nodes_Laws.thy ===== *)
theory Nodes_Laws
  imports Nodes
begin

text \<open>
  What the nodes' updates may touch. \<open>owned v u\<close> says that the update \<open>u\<close> only writes entries of
  vendor \<open>v\<close>; \<open>view v s\<close> is everything the state holds about \<open>v\<close>. The locale \<open>vendor_stage\<close> is the
  contract of a per-vendor branch (it returns owned updates only) and proves isolation once: after
  a parallel stage the view of a vendor is what its own branch made of it, whatever the other
  branches did and in whatever order they finished. It is interpreted for the four stages.
\<close>

section \<open>Accumulator keys\<close>

lemma digit_char_digit: "n < 10 \<Longrightarrow> is_digit (digit_char n)"
  by (simp add: is_digit_def digit_char_def)

lemma show_nat_digits: "list_all is_digit (show_nat n)"
proof (induction n rule: show_nat.induct)
  case (1 n)
  then show ?case by (subst show_nat.simps) (simp add: digit_char_digit)
qed

lemma digit_not_at: "is_digit c \<Longrightarrow> c \<noteq> CHR ''@''"
  by (auto simp: is_digit_def)

lemma accum_key_inj: "accum_key v k = accum_key w l \<Longrightarrow> v = w"
proof -
  let ?p = "\<lambda>c. c \<noteq> CHR ''@''"
  have drop: "dropWhile ?p (rev (accum_key x n)) = CHR ''@'' # rev x" for x n
  proof -
    have "?p c" if "c \<in> set (rev (''attempt'' @ show_nat n))" for c
      using that show_nat_digits[of n] digit_not_at by (auto simp: list_all_iff)
    then have "dropWhile ?p (rev (''attempt'' @ show_nat n) @ CHR ''@'' # rev x) = dropWhile ?p (CHR ''@'' # rev x)"
      by (intro dropWhile_append2) blast
    then show ?thesis by (simp add: accum_key_def attempt_tag_def)
  qed
  assume "accum_key v k = accum_key w l"
  then have "CHR ''@'' # rev v = CHR ''@'' # rev w" using drop by metis
  then show "v = w" by simp
qed

lemma digits_value_show_nat: "digits_value (show_nat n) = n"
proof (induction n rule: show_nat.induct)
  case (1 n)
  have d: "of_char (digit_char m) - 48 = m" if "m < 10" for m
    using that by (simp add: digit_char_def)
  have app: "digits_value (xs @ [c]) = 10 * digits_value xs + (of_char c - 48)" for xs c
    by (simp add: digits_value_def)
  show ?case
  proof (cases "n < 10")
    case True
    then show ?thesis using d[of n] by (subst show_nat.simps) (simp add: digits_value_def)
  next
    case False
    then show ?thesis using 1 d[of "n mod 10"] by (subst show_nat.simps) (simp add: app)
  qed
qed

lemma not_space_digit: "is_digit c \<Longrightarrow> \<not> is_space c"
  by (auto simp: is_digit_def is_space_def)

lemma strip_digits: "list_all is_digit ds \<Longrightarrow> strip ds = ds"
proof -
  assume ds: "list_all is_digit ds"
  have d: "dropWhile is_space xs = xs" if "list_all is_digit xs" for xs
    using that not_space_digit by (cases xs) auto
  show ?thesis using ds by (simp add: strip_def d)
qed

lemma parse_int_show_nat: "parse_int (show_nat n) = Some (int n)"
proof (cases "show_nat n")
  case (Cons c cs)
  have "is_digit c" using show_nat_digits[of n] Cons by simp
  then have "c \<noteq> CHR ''-''" "c \<noteq> CHR ''+''" by (auto simp: is_digit_def)
  then show ?thesis
    using show_nat_digits[of n] digits_value_show_nat[of n]
    by (simp add: parse_int_def strip_digits parse_digits_def Cons)
qed simp

lemma split_tag_append:
  "\<not> contains_str attempt_tag v \<Longrightarrow> split_tag (v @ attempt_tag @ r) = Some (v, r)"
proof (induction v)
  case Nil
  show ?case by (simp add: attempt_tag_def starts_with_def)
next
  case (Cons c cs)
  have "\<not> starts_with attempt_tag ((c # cs) @ attempt_tag @ r)"
  proof
    assume a: "starts_with attempt_tag ((c # cs) @ attempt_tag @ r)"
    show False
    proof (cases "length attempt_tag \<le> length (c # cs)")
      case True
      then have "take (length attempt_tag) ((c # cs) @ attempt_tag @ r) = take (length attempt_tag) (c # cs)"
        by (subst take_append) simp
      with a have "starts_with attempt_tag (c # cs)" by (simp only: starts_with_def)
      with Cons.prems show False by simp
    next
      case False
      let ?n = "length (c # cs)"
      have "((c # cs) @ attempt_tag @ r) ! ?n = CHR ''@''"
        by (subst nth_append) (simp add: attempt_tag_def)
      moreover have "take (length attempt_tag) ((c # cs) @ attempt_tag @ r) ! ?n = attempt_tag ! ?n"
        using a by (simp only: starts_with_def)
      ultimately have "attempt_tag ! ?n = CHR ''@''" using False by (simp only: nth_take not_le)
      moreover have "?n = 1 \<or> ?n = 2 \<or> ?n = 3 \<or> ?n = 4 \<or> ?n = 5 \<or> ?n = 6 \<or> ?n = 7"
        using False length_Cons[of c cs] by (simp only: attempt_tag_def list.size) linarith
      ultimately show False by (auto simp: attempt_tag_def)
    qed
  qed
  moreover have "split_tag (cs @ attempt_tag @ r) = Some (cs, r)"
    using Cons.prems by (intro Cons.IH) simp
  ultimately show ?case by simp
qed

lemma parse_accum_key: "\<not> contains_str attempt_tag v \<Longrightarrow> parse_key (accum_key v n) = (v, int n)"
  by (simp add: parse_key_def accum_key_def split_tag_append parse_int_show_nat)

section \<open>Ownership\<close>

fun owned :: "string \<Rightarrow> channel_update \<Rightarrow> bool" where
  "owned v (RetrievalObjects d) \<longleftrightarrow> dict_keys d = [v]"
| "owned v (ExtractionObjects d) \<longleftrightarrow> dict_keys d = [v]"
| "owned v (EvaluationObjects d) \<longleftrightarrow> dict_keys d = [v]"
| "owned v (SourceChunks d) \<longleftrightarrow> distinct (dict_keys d)"
| "owned v (NarrativesAccum d) \<longleftrightarrow> (\<exists>k. dict_keys d = [accum_key v k])"
| "owned v (FailedVendors fs) \<longleftrightarrow> map fv_vendor_id fs = [v]"
| "owned v (CriticMetrics m) \<longleftrightarrow> (\<exists>a x. m = [(v, [(a, x)])])"
| "owned v _ \<longleftrightarrow> False"

record vendor_view =
  vv_retrieval :: "retrieval_output option"
  vv_extraction :: "extraction_output option"
  vv_evaluation :: "evaluation_output option"
  vv_narrative :: "nat \<Rightarrow> vendor_narrative option"
  vv_failures :: "failed_vendor list"
  vv_metric :: "string \<Rightarrow> critic_metric option"

definition view :: "string \<Rightarrow> pipeline_state \<Rightarrow> vendor_view" where
  "view v s =
     \<lparr>vv_retrieval = dict_get (ps_retrieval_output_objects s) v,
      vv_extraction = dict_get (ps_extraction_output_objects s) v,
      vv_evaluation = dict_get (ps_evaluation_output_objects s) v,
      vv_narrative = (\<lambda>k. dict_get (ps_vendor_narratives_accum s) (accum_key v k)),
      vv_failures = filter (\<lambda>f. fv_vendor_id f = v) (ps_failed_vendors s),
      vv_metric = (\<lambda>a. metric_at (ps_critic_metrics_accum s) (v, a))\<rparr>"

lemma single_key: "dict_keys d = [k] \<longleftrightarrow> (\<exists>x. d = [(k, x)])"
  by (cases d) auto

lemma single_failure: "map fv_vendor_id fs = [v] \<longleftrightarrow> (\<exists>f. fs = [f] \<and> fv_vendor_id f = v)"
  by (cases fs) auto

lemma metric_at_single:
  "metric_at (merge_critic_metrics d [(v, [(a, x)])]) k = (if k = (v, a) then Some x else metric_at d k)"
  by (cases k) (auto simp: metric_at_def get_default_def split: option.splits)

lemma get_merge_single: "dict_get (merge_dicts d [(k, x)]) k' = (if k' = k then Some x else dict_get d k')"
  by (simp add: merge_dicts_def)

lemmas single_simps = single_key single_failure metric_at_single get_merge_single concat_lists_def

lemma view_other: "owned w u \<Longrightarrow> w \<noteq> v \<Longrightarrow> view v (apply_update s u) = view v s"
  by (cases u) (auto simp: view_def single_simps fun_eq_iff simp del: merge_critic_metrics.simps dest: accum_key_inj)

lemma view_eq_iff: "view v s = view v t \<longleftrightarrow>
    dict_get (ps_retrieval_output_objects s) v = dict_get (ps_retrieval_output_objects t) v \<and>
    dict_get (ps_extraction_output_objects s) v = dict_get (ps_extraction_output_objects t) v \<and>
    dict_get (ps_evaluation_output_objects s) v = dict_get (ps_evaluation_output_objects t) v \<and>
    (\<forall>k. dict_get (ps_vendor_narratives_accum s) (accum_key v k) = dict_get (ps_vendor_narratives_accum t) (accum_key v k)) \<and>
    filter (\<lambda>f. fv_vendor_id f = v) (ps_failed_vendors s) = filter (\<lambda>f. fv_vendor_id f = v) (ps_failed_vendors t) \<and>
    (\<forall>a. metric_at (ps_critic_metrics_accum s) (v, a) = metric_at (ps_critic_metrics_accum t) (v, a))"
  by (auto simp: view_def fun_eq_iff)

lemma view_own: "owned v u \<Longrightarrow> view v s = view v t \<Longrightarrow> view v (apply_update s u) = view v (apply_update t u)"
  by (cases u) (auto simp: view_eq_iff single_simps simp del: merge_critic_metrics.simps)

text \<open>What no owned update can change.\<close>

definition same_frame :: "pipeline_state \<Rightarrow> pipeline_state \<Rightarrow> bool" where
  "same_frame s t \<longleftrightarrow>
     ps_rfp_id t = ps_rfp_id s \<and> ps_rfp_filename t = ps_rfp_filename s \<and> ps_vendor_ids t = ps_vendor_ids s \<and>
     ps_contract_value t = ps_contract_value s \<and> ps_n_vendors t = ps_n_vendors s \<and>
     ps_evaluation_setup t = ps_evaluation_setup s \<and> ps_vendor_file_map t = ps_vendor_file_map s \<and>
     ps_comparator_output t = ps_comparator_output s \<and> ps_decision_output t = ps_decision_output s \<and>
     ps_explanation_output t = ps_explanation_output s \<and>
     ps_explanation_retry_count t = ps_explanation_retry_count s \<and>
     ps_explanation_critic_feedback t = ps_explanation_critic_feedback s \<and>
     ps_explanation_retry_requested t = ps_explanation_retry_requested s \<and>
     ps_blocked t = ps_blocked s \<and> ps_blocked_agent t = ps_blocked_agent s \<and>
     ps_error_message t = ps_error_message s"

lemma same_frame_refl [simp]: "same_frame s s"
  by (simp add: same_frame_def)

lemma same_frame_trans: "same_frame s t \<Longrightarrow> same_frame t u \<Longrightarrow> same_frame s u"
  by (simp add: same_frame_def)

lemma owned_frame: "owned v u \<Longrightarrow> same_frame s (apply_update s u)"
  by (cases u) (simp_all add: same_frame_def)

lemma owned_frames: "list_all (\<lambda>u. \<exists>v. owned v u) us \<Longrightarrow> same_frame s (apply_updates s us)"
  by (induction us arbitrary: s) (auto intro: same_frame_trans owned_frame)

lemma views_other: "list_all (owned w) us \<Longrightarrow> w \<noteq> v \<Longrightarrow> view v (apply_updates s us) = view v s"
  by (induction us arbitrary: s) (auto simp: view_other)

lemma views_own:
  assumes "list_all (owned v) us" and "view v s = view v t"
  shows "view v (apply_updates s us) = view v (apply_updates t us)"
  using assms
proof (induction us arbitrary: s t)
  case Nil
  then show ?case by simp
next
  case (Cons u us)
  have "view v (apply_update s u) = view v (apply_update t u)"
    using Cons.prems by (intro view_own) simp_all
  then show ?case using Cons.prems(1) unfolding apply_updates_Cons by (intro Cons.IH) simp_all
qed

section \<open>A per-vendor stage\<close>

locale vendor_stage =
  fixes branch :: "pipeline_state \<Rightarrow> string \<Rightarrow> node_result"
  assumes branch_owned: "branch s v = Inr (us, es) \<Longrightarrow> list_all (owned v) us"
begin

text \<open>The branches all read the state \<open>s\<close> of the fan-out; their updates are applied to \<open>t\<close> in
  the order of \<open>vs\<close>.\<close>

lemma fan_in_frame:
  assumes "rmap (branch s) vs = Inr rs"
  shows "same_frame t (apply_updates t (concat (map fst rs)))"
  using assms
proof (induction vs arbitrary: rs t)
  case Nil
  then show ?case by simp
next
  case (Cons w vs)
  from Cons.prems obtain us es rs' where w: "branch s w = Inr (us, es)" "rmap (branch s) vs = Inr rs'"
    "rs = (us, es) # rs'" by (auto simp: rbind_Inr_iff)
  have "same_frame t (apply_updates t us)"
    using branch_owned[OF w(1)] by (intro owned_frames) (auto simp: list_all_iff)
  then show ?case using Cons.IH[OF w(2)] w(3) by (auto simp: apply_updates_append intro: same_frame_trans)
qed

lemma fan_in_absent:
  assumes "rmap (branch s) vs = Inr rs" and "v \<notin> set vs"
  shows "view v (apply_updates t (concat (map fst rs))) = view v t"
  using assms
proof (induction vs arbitrary: rs t)
  case Nil
  then show ?case by simp
next
  case (Cons w vs)
  from Cons.prems(1) obtain us es rs' where w: "branch s w = Inr (us, es)" "rmap (branch s) vs = Inr rs'"
    "rs = (us, es) # rs'" by (auto simp: rbind_Inr_iff)
  have "view v (apply_updates t us) = view v t"
    using branch_owned[OF w(1)] Cons.prems(2) by (intro views_other) auto
  then show ?case using Cons.IH[OF w(2)] Cons.prems(2) w(3) by (simp add: apply_updates_append)
qed

theorem isolation:
  assumes "rmap (branch s) vs = Inr rs" and "distinct vs" and "v \<in> set vs" and "branch s v = Inr (us, es)"
  shows "view v (apply_updates t (concat (map fst rs))) = view v (apply_updates t us)"
proof -
  from \<open>v \<in> set vs\<close> obtain as bs where vs: "vs = as @ v # bs" by (meson split_list)
  have split: "\<exists>r1 r2. rmap (branch s) as = Inr r1 \<and> rmap (branch s) bs = Inr r2 \<and> rs = r1 @ (us, es) # r2"
    using assms(1,4) unfolding vs
  proof (induction as arbitrary: rs)
    case Nil
    then show ?case by (auto simp: rbind_Inr_iff)
  next
    case (Cons a as)
    then obtain x rs' where x: "branch s a = Inr x" "rmap (branch s) (as @ v # bs) = Inr rs'" "rs = x # rs'"
      by (auto simp: rbind_Inr_iff)
    obtain r1 r2 where r: "rmap (branch s) as = Inr r1" "rmap (branch s) bs = Inr r2" "rs' = r1 @ (us, es) # r2"
      using Cons.IH[OF x(2) Cons.prems(2)] by blast
    have "rmap (branch s) (a # as) = Inr (x # r1)" using x(1) r(1) by simp
    moreover have "rs = (x # r1) @ (us, es) # r2" using x(3) r(3) by simp
    ultimately show ?case using r(2) by blast
  qed
  then obtain r1 r2 where r: "rmap (branch s) as = Inr r1" "rmap (branch s) bs = Inr r2" "rs = r1 @ (us, es) # r2"
    by blast
  have ab: "v \<notin> set as" "v \<notin> set bs" using assms(2) vs by auto
  have own: "list_all (owned v) us" by (rule branch_owned[OF assms(4)])
  show ?thesis
    using fan_in_absent[OF r(2) ab(2)] views_own[OF own fan_in_absent[OF r(1) ab(1)]]
    by (simp add: r(3) apply_updates_append)
qed

theorem order_free:
  assumes "rmap (branch s) vs = Inr rs" and "rmap (branch s) ws = Inr rs'" and "mset ws = mset vs" and "distinct vs"
  shows "view v (apply_updates t (concat (map fst rs))) = view v (apply_updates t (concat (map fst rs')))"
proof (cases "v \<in> set vs")
  case True
  have ws: "distinct ws" "v \<in> set ws"
    using assms(3,4) True by (metis mset_eq_imp_distinct_iff, metis mset_eq_setD)
  obtain us es where "branch s v = Inr (us, es)"
    using assms(1) True by (metis in_set_conv_nth rmap_Inr_nth surj_pair)
  then show ?thesis using isolation[OF assms(1,4) True] isolation[OF assms(2) ws] by simp
next
  case False
  then have "v \<notin> set ws" using assms(3) by (metis mset_eq_setD)
  then show ?thesis using fan_in_absent[OF assms(1) False] fan_in_absent[OF assms(2)] by simp
qed

end

section \<open>The four stages meet the contract\<close>

lemma failed_entry_vendor [simp]: "fv_vendor_id (failed_entry v stage e) = v"
  by (simp add: failed_entry_def)

lemma render_owned:
  assumes "\<And>out. list_all (owned v) (on_success out)"
  shows "list_all (owned v) (render_outcome agent v on_success m c oc)"
  using assms by (cases oc) (auto simp: metric_def)

lemma retry_owned:
  assumes "run_with_critic_retry agent v f bf on_success m = (us, es)"
    and "\<And>out. list_all (owned v) (on_success out)"
  shows "list_all (owned v) us"
  using retry_refines[of agent v f bf on_success m] render_owned[OF assms(2)] assms(1) by simp

interpretation retrieval_stage: vendor_stage "retrieval_per_vendor cfg w" for cfg w
proof
  fix s v us es
  assume "retrieval_per_vendor cfg w s v = Inr (us, es)"
  then show "list_all (owned v) us"
    unfolding retrieval_per_vendor_def Let_def by (auto split: sum.splits if_splits)
qed

interpretation extraction_stage: vendor_stage "extraction_per_vendor cfg w" for cfg w
proof
  fix s v us es
  assume "extraction_per_vendor cfg w s v = Inr (us, es)"
  then show "list_all (owned v) us"
    unfolding extraction_per_vendor_def
    by (auto split: option.splits if_splits prod.splits elim!: retry_owned)
qed

interpretation evaluation_stage: vendor_stage "evaluation_per_vendor cfg w" for cfg w
proof
  fix s v us es
  assume "evaluation_per_vendor cfg w s v = Inr (us, es)"
  then show "list_all (owned v) us"
    unfolding evaluation_per_vendor_def
    by (auto split: option.splits prod.splits elim!: retry_owned)
qed

interpretation explanation_stage: vendor_stage "explanation_per_vendor cfg w" for cfg w
proof
  fix s v us es
  assume "explanation_per_vendor cfg w s v = Inr (us, es)"
  then show "list_all (owned v) us"
    unfolding explanation_per_vendor_def Let_def by (auto split: option.splits sum.splits)
qed

end
