(* ===== verification/Graph.thy ===== *)
theory Graph
  imports Nodes_Laws
begin

text \<open>
  \<open>app/pipeline/graph.py\<close>: the wiring of the nodes. \<open>graph_step\<close> is one superstep of the compiled
  graph: a single node, or all branches of a fan-out, whose updates reach the state in an arbitrary
  order (any permutation of the vendors). \<open>run_graph\<close> is the executable run with fuel, in vendor
  order. LangGraph itself (superstep barrier, reducers, conditional edges) is library code; what is
  used of it is what the definitions below say.
\<close>

section \<open>Nodes and edges\<close>

datatype node =
    PLANNER | INGESTION
  | RETRIEVAL_START | RETRIEVAL_PER_VENDOR | RETRIEVAL_DONE
  | EXTRACTION_START | EXTRACTION_PER_VENDOR | EXTRACTION_DONE
  | EVALUATION_START | EVALUATION_PER_VENDOR | EVALUATION_DONE
  | COMPARATOR | DECISION
  | EXPLANATION_START | EXPLANATION_PER_VENDOR | EXPLANATION_FINALISE | EXPLANATION_CRITIC
  | END

definition route_after :: "pipeline_state \<Rightarrow> node \<Rightarrow> node" where
  "route_after s next = (if ps_blocked s then END else next)"

definition fan_out :: "pipeline_state \<Rightarrow> node \<Rightarrow> node" where
  "fan_out s target_node =
     (if ps_blocked s then END else if ps_vendor_ids s = [] then END else target_node)"

definition route_after_explanation_critic :: "pipeline_state \<Rightarrow> node" where
  "route_after_explanation_critic s =
     (if ps_blocked s then END
      else if ps_explanation_retry_requested s then EXPLANATION_START else END)"

text \<open>The edges \<open>build_graph\<close> adds, by source node.\<close>

fun next_node :: "node \<Rightarrow> pipeline_state \<Rightarrow> node" where
  "next_node PLANNER s = route_after s INGESTION"
| "next_node INGESTION s = route_after s RETRIEVAL_START"
| "next_node RETRIEVAL_START s = fan_out s RETRIEVAL_PER_VENDOR"
| "next_node RETRIEVAL_PER_VENDOR s = RETRIEVAL_DONE"
| "next_node RETRIEVAL_DONE s = EXTRACTION_START"
| "next_node EXTRACTION_START s = fan_out s EXTRACTION_PER_VENDOR"
| "next_node EXTRACTION_PER_VENDOR s = EXTRACTION_DONE"
| "next_node EXTRACTION_DONE s = EVALUATION_START"
| "next_node EVALUATION_START s = fan_out s EVALUATION_PER_VENDOR"
| "next_node EVALUATION_PER_VENDOR s = EVALUATION_DONE"
| "next_node EVALUATION_DONE s = COMPARATOR"
| "next_node COMPARATOR s = route_after s DECISION"
| "next_node DECISION s = route_after s EXPLANATION_START"
| "next_node EXPLANATION_START s = fan_out s EXPLANATION_PER_VENDOR"
| "next_node EXPLANATION_PER_VENDOR s = EXPLANATION_FINALISE"
| "next_node EXPLANATION_FINALISE s = EXPLANATION_CRITIC"
| "next_node EXPLANATION_CRITIC s = route_after_explanation_critic s"
| "next_node END s = END"

fun exec_node :: "platform_cfg \<Rightarrow> world \<Rightarrow> node \<Rightarrow> pipeline_state \<Rightarrow> node_result" where
  "exec_node cfg w PLANNER s = planner_node cfg s"
| "exec_node cfg w INGESTION s = ingestion_node w s"
| "exec_node cfg w RETRIEVAL_START s = retrieval_start s"
| "exec_node cfg w RETRIEVAL_DONE s = retrieval_done s"
| "exec_node cfg w EXTRACTION_START s = extraction_start s"
| "exec_node cfg w EXTRACTION_DONE s = extraction_done s"
| "exec_node cfg w EVALUATION_START s = evaluation_start s"
| "exec_node cfg w EVALUATION_DONE s = evaluation_done s"
| "exec_node cfg w COMPARATOR s = comparator_node cfg w s"
| "exec_node cfg w DECISION s = decision_node cfg w s"
| "exec_node cfg w EXPLANATION_START s = explanation_start s"
| "exec_node cfg w EXPLANATION_FINALISE s = explanation_finalise s"
| "exec_node cfg w EXPLANATION_CRITIC s = explanation_critic cfg s"
| "exec_node cfg w _ s = Inr ([], [])"

fun branch_of :: "platform_cfg \<Rightarrow> world \<Rightarrow> node \<Rightarrow> (pipeline_state \<Rightarrow> string \<Rightarrow> node_result) option" where
  "branch_of cfg w RETRIEVAL_PER_VENDOR = Some (retrieval_per_vendor cfg w)"
| "branch_of cfg w EXTRACTION_PER_VENDOR = Some (extraction_per_vendor cfg w)"
| "branch_of cfg w EVALUATION_PER_VENDOR = Some (evaluation_per_vendor cfg w)"
| "branch_of cfg w EXPLANATION_PER_VENDOR = Some (explanation_per_vendor cfg w)"
| "branch_of cfg w _ = None"

section \<open>Supersteps\<close>

type_synonym gconf = "node \<times> pipeline_state \<times> effect list"

definition fan_in :: "pipeline_state \<Rightarrow> (channel_update list \<times> effect list) list \<Rightarrow> pipeline_state" where
  "fan_in s rs = apply_updates s (concat (map fst rs))"

inductive graph_step :: "platform_cfg \<Rightarrow> world \<Rightarrow> gconf \<Rightarrow> gconf \<Rightarrow> bool" for cfg w where
  single: "n \<noteq> END \<Longrightarrow> branch_of cfg w n = None \<Longrightarrow> exec_node cfg w n s = Inr (us, es) \<Longrightarrow>
    s' = apply_updates s us \<Longrightarrow> graph_step cfg w (n, s, tr) (next_node n s', s', tr @ es)"
| parallel: "branch_of cfg w n = Some branch \<Longrightarrow> mset vs = mset (ps_vendor_ids s) \<Longrightarrow>
    rmap (branch s) vs = Inr rs \<Longrightarrow> s' = fan_in s rs \<Longrightarrow>
    graph_step cfg w (n, s, tr) (next_node n s', s', tr @ concat (map snd rs))"

inductive_cases graph_stepE: "graph_step cfg w (n, s, tr) c'"

text \<open>The executable superstep, branches in vendor order; \<open>Inl\<close> is an exception that escapes.\<close>

definition exec_step :: "platform_cfg \<Rightarrow> world \<Rightarrow> gconf \<Rightarrow> gconf result" where
  "exec_step cfg w = (\<lambda>(n, s, tr).
     case branch_of cfg w n of
       None \<Rightarrow> rbind (exec_node cfg w n s) (\<lambda>(us, es).
         let s' = apply_updates s us in Inr (next_node n s', s', tr @ es))
     | Some branch \<Rightarrow> rbind (rmap (branch s) (ps_vendor_ids s)) (\<lambda>rs.
         let s' = fan_in s rs in Inr (next_node n s', s', tr @ concat (map snd rs))))"

fun run_graph :: "platform_cfg \<Rightarrow> world \<Rightarrow> nat \<Rightarrow> gconf \<Rightarrow> gconf option result" where
  "run_graph cfg w 0 (n, s, tr) = (if n = END then Inr (Some (n, s, tr)) else Inr None)"
| "run_graph cfg w (Suc fuel) (n, s, tr) =
     (if n = END then Inr (Some (n, s, tr))
      else rbind (exec_step cfg w (n, s, tr)) (run_graph cfg w fuel))"

lemma exec_step_sound: "n \<noteq> END \<Longrightarrow> exec_step cfg w (n, s, tr) = Inr c' \<Longrightarrow> graph_step cfg w (n, s, tr) c'"
  by (auto simp: exec_step_def Let_def rbind_Inr_iff split: option.splits intro: graph_step.intros)

section \<open>The state a run starts in\<close>

text \<open>\<open>initial_state\<close> of \<open>app/api/_evaluation/pipeline.py\<close>; absent channels read as empty.\<close>

definition initial_state ::
  "string \<Rightarrow> string \<Rightarrow> string list \<Rightarrow> rat \<Rightarrow> evaluation_setup \<Rightarrow> (string, string) dict \<Rightarrow> pipeline_state" where
  "initial_state rfp_id rfp_filename vendor_ids contract_value setup files =
     \<lparr>ps_rfp_id = rfp_id, ps_rfp_filename = rfp_filename, ps_vendor_ids = vendor_ids,
      ps_contract_value = contract_value, ps_n_vendors = length vendor_ids, ps_evaluation_setup = setup,
      ps_vendor_file_map = files, ps_retrieval_output_objects = [], ps_extraction_output_objects = [],
      ps_evaluation_output_objects = [], ps_source_chunks = [], ps_vendor_narratives_accum = [],
      ps_failed_vendors = [], ps_comparator_output = None, ps_decision_output = None,
      ps_explanation_output = None, ps_explanation_retry_count = 0, ps_explanation_critic_feedback = [],
      ps_explanation_retry_requested = False, ps_critic_metrics_accum = [], ps_blocked = False,
      ps_blocked_agent = [], ps_error_message = []\<rparr>"

inductive reachable :: "platform_cfg \<Rightarrow> world \<Rightarrow> pipeline_state \<Rightarrow> gconf \<Rightarrow> bool" for cfg w s0 where
  start: "reachable cfg w s0 (PLANNER, s0, [])"
| step: "reachable cfg w s0 c \<Longrightarrow> graph_step cfg w c c' \<Longrightarrow> reachable cfg w s0 c'"

text \<open>Runs of a given number of supersteps.\<close>

fun steps :: "platform_cfg \<Rightarrow> world \<Rightarrow> nat \<Rightarrow> gconf \<Rightarrow> gconf \<Rightarrow> bool" where
  "steps cfg w 0 c c' \<longleftrightarrow> c' = c"
| "steps cfg w (Suc n) c c' \<longleftrightarrow> (\<exists>d. graph_step cfg w c d \<and> steps cfg w n d c')"

section \<open>Termination\<close>

text \<open>The supersteps a configuration has left at most: the position of the node, plus four for every
  report retry that is left.\<close>

fun position :: "node \<Rightarrow> nat" where
  "position PLANNER = 17" | "position INGESTION = 16"
| "position RETRIEVAL_START = 15" | "position RETRIEVAL_PER_VENDOR = 14" | "position RETRIEVAL_DONE = 13"
| "position EXTRACTION_START = 12" | "position EXTRACTION_PER_VENDOR = 11" | "position EXTRACTION_DONE = 10"
| "position EVALUATION_START = 9" | "position EVALUATION_PER_VENDOR = 8" | "position EVALUATION_DONE = 7"
| "position COMPARATOR = 6" | "position DECISION = 5"
| "position EXPLANATION_START = 4" | "position EXPLANATION_PER_VENDOR = 3"
| "position EXPLANATION_FINALISE = 2" | "position EXPLANATION_CRITIC = 1" | "position END = 0"

definition steps_left :: "node \<Rightarrow> nat \<Rightarrow> nat" where
  "steps_left n retries = (if n = END then 0 else position n + 4 * (EXPLANATION_MAX_RETRIES - retries))"

lemmas node_defs =
  planner_node_def ingestion_node_def retrieval_start_def retrieval_done_def extraction_start_def
  extraction_done_def evaluation_start_def evaluation_done_def comparator_node_def decision_node_def
  explanation_start_def explanation_finalise_def guarded_def block_update_def

text \<open>Only the explanation critic moves the retry counter, and it only asks for a retry together
  with an increment.\<close>

fun no_retry_update :: "channel_update \<Rightarrow> bool" where
  "no_retry_update (RetryCount _) = False"
| "no_retry_update (RetryRequested _) = False"
| "no_retry_update _ = True"

lemma no_retry_updates: "list_all no_retry_update us \<Longrightarrow>
    ps_explanation_retry_count (apply_updates s us) = ps_explanation_retry_count s"
proof (induction us arbitrary: s)
  case Nil
  then show ?case by simp
next
  case (Cons u us)
  then show ?case by (cases u) simp_all
qed

lemma single_node_updates:
  assumes "exec_node cfg w n s = Inr (us, es)" and "n \<noteq> EXPLANATION_CRITIC"
  shows "list_all no_retry_update us"
  using assms by (cases n) (auto simp: node_defs Let_def rbind_Inr_iff split: sum.splits option.splits prod.splits if_splits)

lemma branch_frame:
  assumes "branch_of cfg w n = Some branch" and "rmap (branch s) vs = Inr rs"
  shows "same_frame s (fan_in s rs)"
  using assms
  by (cases n) (auto simp: fan_in_def intro: retrieval_stage.fan_in_frame extraction_stage.fan_in_frame
      evaluation_stage.fan_in_frame explanation_stage.fan_in_frame)

lemma explanation_critic_cases:
  assumes "explanation_critic cfg s = Inr (us, es)"
  obtains "ps_explanation_output s = None" "ps_blocked (apply_updates s us)"
      "ps_explanation_retry_count (apply_updates s us) = ps_explanation_retry_count s"
  | report where "ps_explanation_output s = Some report"
      "co_overall_verdict (critic_after_explanation cfg report (ps_source_chunks s)) \<noteq> BLOCKED"
      "apply_updates s us = s\<lparr>ps_explanation_retry_requested := False\<rparr>"
  | report m where "ps_explanation_output s = Some report"
      "co_overall_verdict (critic_after_explanation cfg report (ps_source_chunks s)) = BLOCKED"
      "EXPLANATION_MAX_RETRIES \<le> ps_explanation_retry_count s"
      "apply_updates s us = s\<lparr>ps_blocked := True, ps_blocked_agent := ''explanation'', ps_error_message := m,
         ps_explanation_retry_requested := False\<rparr>"
  | report where "ps_explanation_output s = Some report"
      "co_overall_verdict (critic_after_explanation cfg report (ps_source_chunks s)) = BLOCKED"
      "ps_explanation_retry_count s < EXPLANATION_MAX_RETRIES"
      "ps_explanation_retry_count (apply_updates s us) = ps_explanation_retry_count s + 1"
      "ps_explanation_retry_requested (apply_updates s us)"
      "apply_updates s us = s\<lparr>ps_explanation_retry_count := ps_explanation_retry_count s + 1,
         ps_explanation_critic_feedback := build_critic_feedback report, ps_explanation_output := None,
         ps_explanation_retry_requested := True\<rparr>"
proof (cases "ps_explanation_output s")
  case None
  with assms have "us = [Blocked True, BlockedAgent ''explanation'',
      ErrorMessage ''explanation_finalise produced no output'']"
    by (simp add: explanation_critic_def Let_def)
  with None show ?thesis by (intro that(1)) simp_all
next
  case (Some report)
  note out = assms[unfolded explanation_critic_def Let_def Some option.case]
  show ?thesis
  proof (cases "co_overall_verdict (critic_after_explanation cfg report (ps_source_chunks s)) = BLOCKED")
    case False
    with out have "us = [RetryRequested False]" by simp
    with Some False show ?thesis by (intro that(2)) simp_all
  next
    case blocked: True
    show ?thesis
    proof (cases "EXPLANATION_MAX_RETRIES \<le> ps_explanation_retry_count s")
      case True
      with out blocked obtain m where "us = [Blocked True, BlockedAgent ''explanation'', ErrorMessage m, RetryRequested False]"
        by auto
      with Some blocked True show ?thesis by (intro that(3)) simp_all
    next
      case False
      with out blocked have "us = [RetryCount (ps_explanation_retry_count s + 1),
          CriticFeedback (build_critic_feedback report), ExplanationOutput None, RetryRequested True]"
        by simp
      with Some blocked False show ?thesis by (intro that(4)) simp_all
    qed
  qed
qed

lemma step_decreases:
  assumes "graph_step cfg w (n, s, tr) (n', s', tr')" and "ps_explanation_retry_count s \<le> EXPLANATION_MAX_RETRIES"
  shows "steps_left n' (ps_explanation_retry_count s') < steps_left n (ps_explanation_retry_count s) \<and>
    ps_explanation_retry_count s' \<le> EXPLANATION_MAX_RETRIES"
  using assms(1)
proof (cases rule: graph_step.cases)
  case (single us es)
  show ?thesis
  proof (cases "n = EXPLANATION_CRITIC")
    case True
    with single have "explanation_critic cfg s = Inr (us, es)" by simp
    then show ?thesis
      using True single assms(2)
      by (cases rule: explanation_critic_cases)
        (auto simp: route_after_explanation_critic_def steps_left_def split: if_splits)
  next
    case False
    then have "ps_explanation_retry_count s' = ps_explanation_retry_count s"
      using single single_node_updates no_retry_updates by metis
    then show ?thesis using single False assms(2)
      by (cases n) (auto simp: steps_left_def route_after_def fan_out_def split: if_splits)
  qed
next
  case (parallel branch vs rs)
  then have "ps_explanation_retry_count s' = ps_explanation_retry_count s"
    using branch_frame by (fastforce simp: same_frame_def)
  then show ?thesis using parallel assms(2) by (cases n) (auto simp: steps_left_def)
qed

lemma steps_bounded:
  assumes "steps cfg w k (n, s, tr) (n', s', tr')" and "ps_explanation_retry_count s \<le> EXPLANATION_MAX_RETRIES"
  shows "k + steps_left n' (ps_explanation_retry_count s') \<le> steps_left n (ps_explanation_retry_count s) \<and>
    ps_explanation_retry_count s' \<le> EXPLANATION_MAX_RETRIES"
  using assms
proof (induction k arbitrary: n s tr)
  case 0
  then show ?case by simp
next
  case (Suc k)
  then obtain n1 s1 tr1 where step: "graph_step cfg w (n, s, tr) (n1, s1, tr1)"
    and rest: "steps cfg w k (n1, s1, tr1) (n', s', tr')" by (metis prod_cases3 steps.simps(2))
  from step_decreases[OF step Suc.prems(2)] Suc.IH[OF rest] show ?case by linarith
qed

end
