(* ===== verification/Graph_Laws.thy ===== *)
theory Graph_Laws
  imports Graph
begin

text \<open>
  Invariants of the reachable configurations of the graph, by rule induction: the inputs never
  change, a node runs only when what it reads is there, no exception escapes a node, every vendor
  is accounted for once the evaluation stage has joined, and the configurations in which the graph
  ends.
\<close>

section \<open>What every update keeps\<close>

definition inputs_of where
  "inputs_of s = (ps_rfp_id s, ps_rfp_filename s, ps_vendor_ids s, ps_contract_value s, ps_n_vendors s,
     ps_evaluation_setup s, ps_vendor_file_map s)"

lemma inputs_update [simp]: "inputs_of (apply_update s u) = inputs_of s"
  by (cases u) (simp_all add: inputs_of_def)

lemma inputs_updates [simp]: "inputs_of (apply_updates s us) = inputs_of s"
  by (induction us arbitrary: s) simp_all

lemma vendor_ids_updates [simp]: "ps_vendor_ids (apply_updates s us) = ps_vendor_ids s"
  using inputs_updates[of s us] by (simp add: inputs_of_def)

definition accounted :: "string \<Rightarrow> pipeline_state \<Rightarrow> bool" where
  "accounted v s \<longleftrightarrow> v \<in> fst ` set (ps_evaluation_output_objects s) \<or> v \<in> fv_vendor_id ` set (ps_failed_vendors s)"

lemma accounted_update: "accounted v s \<Longrightarrow> accounted v (apply_update s u)"
  by (cases u) (auto simp: accounted_def merge_dicts_def concat_lists_def image_Un simp del: set_map)

lemma accounted_updates: "accounted v s \<Longrightarrow> accounted v (apply_updates s us)"
  by (induction us arbitrary: s) (auto intro: accounted_update)

text \<open>An update that brings \<open>v\<close> into account.\<close>

fun accounts_for :: "string \<Rightarrow> channel_update \<Rightarrow> bool" where
  "accounts_for v (EvaluationObjects d) = (v \<in> fst ` set d)"
| "accounts_for v (FailedVendors fs) = (v \<in> fv_vendor_id ` set fs)"
| "accounts_for v _ = False"

lemma accounts_for_update: "accounts_for v u \<Longrightarrow> accounted v (apply_update s u)"
  by (cases u) (auto simp: accounted_def merge_dicts_def concat_lists_def image_Un simp del: set_map)

lemma accounts_for_updates: "list_ex (accounts_for v) us \<Longrightarrow> accounted v (apply_updates s us)"
proof (induction us arbitrary: s)
  case Nil
  then show ?case by simp
next
  case (Cons u us)
  then show ?case by (auto intro: accounted_updates accounts_for_update)
qed

section \<open>Single nodes\<close>

fun is_block :: "channel_update list \<Rightarrow> bool" where
  "is_block [Blocked True, BlockedAgent _, ErrorMessage _] = True"
| "is_block _ = False"

lemma is_block_blocked: "is_block us \<Longrightarrow> ps_blocked (apply_updates s us)"
  by (cases us rule: is_block.cases) auto

lemma is_block_keeps:
  assumes "is_block us"
  shows "ps_decision_output (apply_updates s us) = ps_decision_output s"
    and "ps_evaluation_output_objects (apply_updates s us) = ps_evaluation_output_objects s"
    and "ps_explanation_retry_count (apply_updates s us) = ps_explanation_retry_count s"
  using assms by (cases us rule: is_block.cases; simp)+

lemma guarded_Inr:
  "guarded agent started body = Inr (us, es) \<Longrightarrow> is_block us \<or> (\<exists>es'. body = Inr (us, es'))"
  by (auto simp: guarded_def block_update_def split: sum.splits)

lemma guarded_total: "\<exists>us es. guarded agent started body = Inr (us, es)"
  by (auto simp: guarded_def split: sum.split)

lemma planner_blocks_empty:
  assumes "ps_vendor_ids s = []" and "planner_node cfg s = Inr (us, es)"
  shows "is_block us"
proof -
  obtain out where rp: "run_planner cfg (ps_rfp_id s) [] (ps_evaluation_setup s) =
      (out, critic_after_planner out [''No vendor IDs provided''])"
    by (simp add: run_planner_def Let_def)
  let ?c = "critic_after_planner out [''No vendor IDs provided'']"
  have "co_requires_human_review ?c"
    by (simp add: critic_after_planner_def)
  then have "hard_block_if ?c ''planner'' \<noteq> Inr ()"
    using planner_critic.gate_exact[of "(out, [''No vendor IDs provided''])" "''planner''"] by simp
  then obtain e where "hard_block_if ?c ''planner'' = Inl e"
    by (cases "hard_block_if ?c ''planner''") auto
  with assms(2) show ?thesis by (auto simp: planner_node_def assms(1) rp guarded_def block_update_def)
qed

lemma planner_updates: "planner_node cfg s = Inr (us, es) \<Longrightarrow> is_block us \<or> us = []"
  unfolding planner_node_def by (drule guarded_Inr) (auto simp: rbind_Inr_iff split: prod.splits)

lemma ingestion_updates: "ingestion_node w s = Inr (us, es) \<Longrightarrow> is_block us \<or> us = []"
  unfolding ingestion_node_def Let_def
  by (cases "ps_vendor_file_map s \<noteq> [] \<and> list_all (\<lambda>(vid, _). wd_facts_extracted w ''ingestion'' vid) (ps_vendor_file_map s)")
    (auto simp: rbind_Inr_iff dest!: guarded_Inr simp del: list_all_iff)

lemma comparator_updates:
  "comparator_node cfg w s = Inr (us, es) \<Longrightarrow> is_block us \<or> (\<exists>out. us = [ComparatorOutput out])"
  unfolding comparator_node_def by (drule guarded_Inr) (auto simp: rbind_Inr_iff split: prod.splits)

lemma decision_updates:
  assumes "decision_node cfg w s = Inr (us, es)" and "ps_comparator_output s = Some comparison"
  shows "is_block us \<or> (\<exists>out critic. us = [DecisionOutput out] \<and>
     run_decision_agent cfg (wd_decide w) (ps_evaluation_output_objects s) comparison (ps_contract_value s) = Inr (out, critic))"
  using assms unfolding decision_node_def
  by (auto simp: rbind_Inr_iff dest!: guarded_Inr split: prod.splits)

lemma finalise_updates:
  assumes "explanation_finalise s = Inr (us, es)" and "ps_decision_output s \<noteq> None"
  shows "\<exists>report. us = [ExplanationOutput (Some report)]"
  using assms unfolding explanation_finalise_def guarded_def Let_def by (auto split: prod.splits)

lemma exec_node_total: "\<exists>us es. exec_node cfg w n s = Inr (us, es)"
proof (cases n)
  case INGESTION
  then show ?thesis using guarded_total by (auto simp: ingestion_node_def Let_def)
next
  case EXPLANATION_CRITIC
  then show ?thesis by (auto simp: explanation_critic_def Let_def split: option.split)
qed (simp_all add: planner_node_def comparator_node_def decision_node_def explanation_finalise_def
    guarded_total retrieval_start_def retrieval_done_def extraction_start_def extraction_done_def
    evaluation_start_def evaluation_done_def explanation_start_def Let_def)

section \<open>Branches\<close>

lemma evaluation_branch_accounts:
  assumes "evaluation_per_vendor cfg w s v = Inr (us, es)"
  shows "list_ex (accounts_for v) us"
proof (cases "dict_get (ps_extraction_output_objects s) v")
  case None
  with assms show ?thesis by (auto simp: evaluation_per_vendor_def)
next
  case (Some ext)
  let ?f = "\<lambda>k fb. run_evaluation_agent cfg (wd_eval_env w v k) v (ps_evaluation_setup s) (Some ext) fb"
  let ?bf = "\<lambda>critic (_ :: evaluation_output). critic_feedback w critic"
  let ?on = "\<lambda>ev. [EvaluationObjects [(v, ev)]]"
  have "us = fst (run_with_critic_retry ''evaluation'' v ?f ?bf ?on (pc_generation_critic_max_retries cfg))"
    using assms Some by (auto simp: evaluation_per_vendor_def split: prod.splits)
  then show ?thesis unfolding retry_refines
    by (cases "retry_outcome ?f ?bf (pc_generation_critic_max_retries cfg)") simp_all
qed

lemma branch_total:
  assumes "branch_of cfg w n = Some branch" and "n = EXPLANATION_PER_VENDOR \<Longrightarrow> ps_decision_output s \<noteq> None"
  shows "\<exists>us es. branch s v = Inr (us, es)"
  using assms
proof (cases n)
  case RETRIEVAL_PER_VENDOR
  with assms show ?thesis by (auto simp: retrieval_per_vendor_def Let_def split: sum.split)
next
  case EXTRACTION_PER_VENDOR
  with assms show ?thesis by (auto simp: extraction_per_vendor_def split: option.split prod.split)
next
  case EVALUATION_PER_VENDOR
  with assms show ?thesis by (auto simp: evaluation_per_vendor_def split: option.split prod.split)
next
  case EXPLANATION_PER_VENDOR
  with assms show ?thesis by (auto simp: explanation_per_vendor_def Let_def split: option.split sum.split)
qed simp_all

lemma branches_total:
  assumes "branch_of cfg w n = Some branch" and "n = EXPLANATION_PER_VENDOR \<Longrightarrow> ps_decision_output s \<noteq> None"
  shows "\<exists>rs. rmap (branch s) vs = Inr rs"
  by (rule rmap_all_Inr) (metis branch_total[OF assms])

lemma fan_in_accounts:
  assumes "rmap (evaluation_per_vendor cfg w s) vs = Inr rs" and "v \<in> set vs"
  shows "accounted v (fan_in t rs)"
proof -
  obtain i where i: "i < length vs" "vs ! i = v" using assms(2) by (auto simp: in_set_conv_nth)
  have len: "length rs = length vs" by (rule rmap_Inr_length[OF assms(1)])
  obtain us es where r: "rs ! i = (us, es)" by fastforce
  then have "evaluation_per_vendor cfg w s v = Inr (us, es)" using rmap_Inr_nth[OF assms(1) i(1)] i(2) by simp
  then have "list_ex (accounts_for v) us" by (rule evaluation_branch_accounts)
  moreover have "(us, es) \<in> set rs" using r i(1) len by (metis nth_mem)
  ultimately have "list_ex (accounts_for v) (concat (map fst rs))"
    by (force simp: list_ex_iff)
  then show ?thesis unfolding fan_in_def by (rule accounts_for_updates)
qed

text \<open>The explanation branches leave the evaluations alone.\<close>

fun keeps_evaluations :: "channel_update \<Rightarrow> bool" where
  "keeps_evaluations (EvaluationObjects d) = False"
| "keeps_evaluations _ = True"

lemma keeps_evaluations_updates:
  "list_all keeps_evaluations us \<Longrightarrow>
   ps_evaluation_output_objects (apply_updates s us) = ps_evaluation_output_objects s"
proof (induction us arbitrary: s)
  case Nil
  then show ?case by simp
next
  case (Cons u us)
  then show ?case by (cases u) simp_all
qed

lemma explanation_branch_keeps:
  assumes "explanation_per_vendor cfg w s v = Inr (us, es)"
  shows "list_all keeps_evaluations us"
  using assms by (auto simp: explanation_per_vendor_def Let_def split: option.splits sum.splits)

lemma explanation_fan_in_keeps:
  assumes "rmap (explanation_per_vendor cfg w s) vs = Inr rs"
  shows "ps_evaluation_output_objects (fan_in t rs) = ps_evaluation_output_objects t"
proof -
  have "list_all keeps_evaluations (concat (map fst rs))"
    using rmap_Inr_set[OF assms] explanation_branch_keeps by (fastforce simp: list_all_iff)
  then show ?thesis unfolding fan_in_def by (rule keeps_evaluations_updates)
qed

section \<open>The invariant\<close>

definition settles :: "pipeline_state \<Rightarrow> decision_output \<Rightarrow> bool" where
  "settles s dec \<longleftrightarrow>
     sv_vendor_id ` set (do_shortlisted_vendors dec) \<union> rn_vendor_id ` set (do_rejected_vendors dec) =
       fst ` set (ps_evaluation_output_objects s) \<and>
     (\<forall>rej \<in> set (do_rejected_vendors dec). rn_evidence_citations rej \<noteq> [])"

definition reporting :: "node \<Rightarrow> bool" where
  "reporting n \<longleftrightarrow> n \<in> {EXPLANATION_START, EXPLANATION_PER_VENDOR, EXPLANATION_FINALISE, EXPLANATION_CRITIC}"

definition joined :: "node \<Rightarrow> bool" where
  "joined n \<longleftrightarrow> reporting n \<or> n \<in> {EVALUATION_DONE, COMPARATOR, DECISION}"

definition delivered :: "platform_cfg \<Rightarrow> pipeline_state \<Rightarrow> bool" where
  "delivered cfg s \<longleftrightarrow> ps_decision_output s \<noteq> None \<and>
     (\<exists>report. ps_explanation_output s = Some report \<and>
        co_overall_verdict (critic_after_explanation cfg report (ps_source_chunks s)) \<noteq> BLOCKED)"

definition graph_inv :: "platform_cfg \<Rightarrow> pipeline_state \<Rightarrow> node \<Rightarrow> pipeline_state \<Rightarrow> bool" where
  "graph_inv cfg s0 n s \<longleftrightarrow>
     inputs_of s = inputs_of s0 \<and>
     ps_explanation_retry_count s \<le> EXPLANATION_MAX_RETRIES \<and>
     (n \<noteq> END \<longrightarrow> \<not> ps_blocked s) \<and>
     (n \<noteq> PLANNER \<and> n \<noteq> END \<longrightarrow> ps_vendor_ids s \<noteq> []) \<and>
     (n = DECISION \<longrightarrow> ps_comparator_output s \<noteq> None) \<and>
     (reporting n \<longrightarrow> ps_decision_output s \<noteq> None) \<and>
     (ps_decision_output s \<noteq> None \<longrightarrow> reporting n \<or> n = END) \<and>
     (\<forall>dec. ps_decision_output s = Some dec \<longrightarrow> settles s dec) \<and>
     (n = EXPLANATION_CRITIC \<longrightarrow> ps_explanation_output s \<noteq> None) \<and>
     (joined n \<or> (n = END \<and> \<not> ps_blocked s) \<longrightarrow> (\<forall>v \<in> set (ps_vendor_ids s). accounted v s)) \<and>
     (n = END \<longrightarrow> ps_blocked s \<or> delivered cfg s)"

lemma decision_settles:
  assumes "run_decision_agent cfg dec_llm (ps_evaluation_output_objects s) comparison cv = Inr (out, critic)"
  shows "settles s out"
proof -
  let ?evs = "ps_evaluation_output_objects s"
  have "set (map sv_vendor_id (do_shortlisted_vendors out)) = set (map fst (filter (\<lambda>(_, ev). \<not> is_rejected ev) ?evs))"
    using decision_partition(2)[OF assms] by (metis mset_eq_setD)
  moreover have "set (map rn_vendor_id (do_rejected_vendors out)) = set (map fst (filter (\<lambda>(_, ev). is_rejected ev) ?evs))"
    using decision_partition(1)[OF assms] by simp
  ultimately show ?thesis
    using decision_cited[OF assms] unfolding settles_def by force
qed

lemma reporting_simps [simp]:
  "\<not> reporting PLANNER" "\<not> reporting INGESTION" "\<not> reporting RETRIEVAL_START" "\<not> reporting RETRIEVAL_PER_VENDOR"
  "\<not> reporting RETRIEVAL_DONE" "\<not> reporting EXTRACTION_START" "\<not> reporting EXTRACTION_PER_VENDOR"
  "\<not> reporting EXTRACTION_DONE" "\<not> reporting EVALUATION_START" "\<not> reporting EVALUATION_PER_VENDOR"
  "\<not> reporting EVALUATION_DONE" "\<not> reporting COMPARATOR" "\<not> reporting DECISION" "\<not> reporting END"
  "reporting EXPLANATION_START" "reporting EXPLANATION_PER_VENDOR" "reporting EXPLANATION_FINALISE"
  "reporting EXPLANATION_CRITIC"
  by (simp_all add: reporting_def)

lemma joined_simps [simp]:
  "\<not> joined PLANNER" "\<not> joined INGESTION" "\<not> joined RETRIEVAL_START" "\<not> joined RETRIEVAL_PER_VENDOR"
  "\<not> joined RETRIEVAL_DONE" "\<not> joined EXTRACTION_START" "\<not> joined EXTRACTION_PER_VENDOR"
  "\<not> joined EXTRACTION_DONE" "\<not> joined EVALUATION_START" "\<not> joined EVALUATION_PER_VENDOR" "\<not> joined END"
  "joined EVALUATION_DONE" "joined COMPARATOR" "joined DECISION"
  "joined EXPLANATION_START" "joined EXPLANATION_PER_VENDOR" "joined EXPLANATION_FINALISE"
  "joined EXPLANATION_CRITIC"
  by (simp_all add: joined_def)

section \<open>Preservation\<close>

lemma frame_keeps:
  assumes "same_frame s t"
  shows "inputs_of t = inputs_of s" and "ps_blocked t = ps_blocked s"
    and "ps_comparator_output t = ps_comparator_output s" and "ps_decision_output t = ps_decision_output s"
    and "ps_vendor_ids t = ps_vendor_ids s"
    and "ps_explanation_retry_count t = ps_explanation_retry_count s"
  using assms by (simp_all add: same_frame_def inputs_of_def)

lemma inv_move:
  assumes "graph_inv cfg s0 n s" and "n \<noteq> END" and "n' \<notin> {DECISION, EXPLANATION_CRITIC, END, PLANNER}"
    and "reporting n' = reporting n" and "joined n' \<Longrightarrow> joined n"
    and "n = PLANNER \<Longrightarrow> ps_vendor_ids s \<noteq> []"
  shows "graph_inv cfg s0 n' s"
  using assms by (simp add: graph_inv_def) blast

lemma inv_block:
  assumes "graph_inv cfg s0 n s" and "is_block us" and "n \<noteq> END"
  shows "graph_inv cfg s0 END (apply_updates s us)"
  using assms is_block_blocked[OF assms(2), of s] is_block_keeps[OF assms(2), of s]
  by (auto simp: graph_inv_def settles_def)

lemma inv_single:
  assumes "graph_inv cfg s0 n s" and "n \<noteq> END" and "branch_of cfg w n = None"
    and "exec_node cfg w n s = Inr (us, es)"
  shows "graph_inv cfg s0 (next_node n (apply_updates s us)) (apply_updates s us)"
proof -
  have unblocked: "\<not> ps_blocked s" using assms(1,2) by (simp add: graph_inv_def)
  have vids: "ps_vendor_ids s \<noteq> []" if "n \<noteq> PLANNER" using assms(1,2) that by (simp add: graph_inv_def)
  show ?thesis
  proof (cases n)
    case PLANNER
    show ?thesis
    proof (cases "is_block us")
      case True
      then show ?thesis using inv_block[OF assms(1) True assms(2)] is_block_blocked[OF True, of s]
        by (simp add: PLANNER route_after_def)
    next
      case False
      then have "us = []" "ps_vendor_ids s \<noteq> []"
        using assms(4) planner_updates planner_blocks_empty by (auto simp: PLANNER)
      then show ?thesis using inv_move[OF assms(1,2), of INGESTION] unblocked by (simp add: PLANNER route_after_def)
    qed
  next
    case INGESTION
    then have "is_block us \<or> us = []" using assms(4) ingestion_updates by simp
    then show ?thesis
      using inv_block[OF assms(1) _ assms(2)] is_block_blocked[of us s] inv_move[OF assms(1,2), of RETRIEVAL_START] unblocked
      by (auto simp: INGESTION route_after_def)
  next
    case COMPARATOR
    then consider "is_block us" | out where "us = [ComparatorOutput out]"
      using assms(4) comparator_updates by fastforce
    then show ?thesis
    proof cases
      case 1
      then show ?thesis using inv_block[OF assms(1) 1 assms(2)] is_block_blocked[OF 1, of s]
        by (simp add: COMPARATOR route_after_def)
    next
      case 2
      then show ?thesis using assms(1) unblocked
        by (auto simp: COMPARATOR route_after_def graph_inv_def inputs_of_def settles_def accounted_def)
    qed
  next
    case DECISION
    then obtain comparison where c: "ps_comparator_output s = Some comparison"
      using assms(1) by (auto simp: graph_inv_def)
    have "decision_node cfg w s = Inr (us, es)" using assms(4) DECISION by simp
    from decision_updates[OF this c] show ?thesis
    proof
      assume "is_block us"
      then show ?thesis using inv_block[OF assms(1) _ assms(2)] is_block_blocked[of us s]
        by (simp add: DECISION route_after_def)
    next
      assume "\<exists>out critic. us = [DecisionOutput out] \<and> run_decision_agent cfg (wd_decide w)
        (ps_evaluation_output_objects s) comparison (ps_contract_value s) = Inr (out, critic)"
      then obtain out critic where us: "us = [DecisionOutput out]" and run: "run_decision_agent cfg (wd_decide w)
        (ps_evaluation_output_objects s) comparison (ps_contract_value s) = Inr (out, critic)" by blast
      from decision_settles[OF run] have "settles (s\<lparr>ps_decision_output := Some out\<rparr>) out"
        by (simp add: settles_def)
      then show ?thesis using assms(1) unblocked us
        by (auto simp: DECISION route_after_def graph_inv_def inputs_of_def accounted_def)
    qed
  next
    case EXPLANATION_FINALISE
    have "explanation_finalise s = Inr (us, es)" using assms(4) EXPLANATION_FINALISE by simp
    moreover have "ps_decision_output s \<noteq> None" using assms(1) by (simp add: EXPLANATION_FINALISE graph_inv_def)
    ultimately obtain report where "us = [ExplanationOutput (Some report)]" using finalise_updates by blast
    then show ?thesis using assms(1) unblocked
      by (auto simp: EXPLANATION_FINALISE graph_inv_def inputs_of_def settles_def accounted_def)
  next
    case EXPLANATION_CRITIC
    then have "explanation_critic cfg s = Inr (us, es)" using assms(4) by simp
    then show ?thesis
    proof (cases rule: explanation_critic_cases)
      case 1
      then show ?thesis using assms(1) EXPLANATION_CRITIC by (simp add: graph_inv_def)
    next
      case (2 report)
      then show ?thesis using assms(1) unblocked
        by (auto simp: EXPLANATION_CRITIC route_after_explanation_critic_def graph_inv_def inputs_of_def
            settles_def accounted_def delivered_def)
    next
      case (3 report m)
      then show ?thesis using assms(1)
        by (simp add: EXPLANATION_CRITIC route_after_explanation_critic_def graph_inv_def inputs_of_def settles_def)
    next
      case (4 report)
      then show ?thesis using assms(1) unblocked
        by (auto simp: EXPLANATION_CRITIC route_after_explanation_critic_def graph_inv_def inputs_of_def
            settles_def accounted_def)
    qed
  qed (use assms unblocked vids inv_move[OF assms(1,2), of "next_node n s"] in
      \<open>simp_all add: fan_out_def retrieval_start_def retrieval_done_def extraction_start_def
      extraction_done_def evaluation_start_def evaluation_done_def explanation_start_def Let_def\<close>)
qed

lemma inv_parallel:
  assumes "graph_inv cfg s0 n s" and "branch_of cfg w n = Some branch"
    and "mset vs = mset (ps_vendor_ids s)" and "rmap (branch s) vs = Inr rs"
  shows "graph_inv cfg s0 (next_node n (fan_in s rs)) (fan_in s rs)"
proof -
  note keep = frame_keeps[OF branch_frame[OF assms(2,4)]]
  have n: "n \<noteq> END" "n \<noteq> PLANNER" using assms(2) by auto
  show ?thesis
  proof (cases n)
    case EVALUATION_PER_VENDOR
    then have "rmap (evaluation_per_vendor cfg w s) vs = Inr rs" using assms(2,4) by simp
    then have "\<forall>v \<in> set (ps_vendor_ids s). accounted v (fan_in s rs)"
      using fan_in_accounts assms(3) by (metis mset_eq_setD)
    then show ?thesis using assms(1) keep by (simp add: EVALUATION_PER_VENDOR graph_inv_def)
  next
    case EXPLANATION_PER_VENDOR
    then have "rmap (explanation_per_vendor cfg w s) vs = Inr rs" using assms(2,4) by simp
    then have "settles (fan_in s rs) dec = settles s dec" for dec
      using explanation_fan_in_keeps by (simp add: settles_def)
    moreover have "accounted v s \<Longrightarrow> accounted v (fan_in s rs)" for v
      unfolding fan_in_def by (rule accounted_updates)
    ultimately show ?thesis using assms(1) keep by (simp add: EXPLANATION_PER_VENDOR graph_inv_def)
  qed (use assms n keep in \<open>auto simp: graph_inv_def\<close>)
qed

lemma inv_step:
  assumes "graph_step cfg w (n, s, tr) (n', s', tr')" and "graph_inv cfg s0 n s"
  shows "graph_inv cfg s0 n' s'"
  using assms(1)
proof (cases rule: graph_step.cases)
  case (single us es)
  then show ?thesis using inv_single[OF assms(2)] by simp
next
  case (parallel branch vs rs)
  then show ?thesis using inv_parallel[OF assms(2)] by simp
qed

definition fresh_start :: "pipeline_state \<Rightarrow> bool" where
  "fresh_start s0 \<longleftrightarrow> \<not> ps_blocked s0 \<and> ps_explanation_retry_count s0 = 0 \<and> ps_decision_output s0 = None"

lemma fresh_initial [simp]: "fresh_start (initial_state rfp_id file vendor_ids value setup files)"
  by (simp add: fresh_start_def initial_state_def)

lemma inv_start: "fresh_start s0 \<Longrightarrow> graph_inv cfg s0 PLANNER s0"
  by (simp add: fresh_start_def graph_inv_def)

lemma inv_reachable:
  assumes "reachable cfg w s0 (n, s, tr)" and "fresh_start s0"
  shows "graph_inv cfg s0 n s"
  using assms(1)
proof (induction "(n, s, tr)" arbitrary: n s tr rule: reachable.induct)
  case start
  then show ?case using inv_start[OF assms(2)] by simp
next
  case (step c)
  obtain n1 s1 tr1 where c: "c = (n1, s1, tr1)" by (rule prod_cases3)
  show ?case by (rule inv_step[OF step(3)[unfolded c] step(2)[OF c]])
qed

lemma branch_isolation:
  assumes "branch_of cfg w n = Some branch" and "rmap (branch s) vs = Inr rs" and "distinct vs"
    and "v \<in> set vs" and "branch s v = Inr (us, es)"
  shows "view v (fan_in s rs) = view v (apply_updates s us)"
proof (cases n)
  case RETRIEVAL_PER_VENDOR
  then have b: "branch = retrieval_per_vendor cfg w" using assms(1) by simp
  show ?thesis unfolding fan_in_def
    by (rule retrieval_stage.isolation[OF assms(2)[unfolded b] assms(3,4) assms(5)[unfolded b]])
next
  case EXTRACTION_PER_VENDOR
  then have b: "branch = extraction_per_vendor cfg w" using assms(1) by simp
  show ?thesis unfolding fan_in_def
    by (rule extraction_stage.isolation[OF assms(2)[unfolded b] assms(3,4) assms(5)[unfolded b]])
next
  case EVALUATION_PER_VENDOR
  then have b: "branch = evaluation_per_vendor cfg w" using assms(1) by simp
  show ?thesis unfolding fan_in_def
    by (rule evaluation_stage.isolation[OF assms(2)[unfolded b] assms(3,4) assms(5)[unfolded b]])
next
  case EXPLANATION_PER_VENDOR
  then have b: "branch = explanation_per_vendor cfg w" using assms(1) by simp
  show ?thesis unfolding fan_in_def
    by (rule explanation_stage.isolation[OF assms(2)[unfolded b] assms(3,4) assms(5)[unfolded b]])
qed (use assms(1) in simp_all)

section \<open>Progress and delivery\<close>

lemma inv_progress:
  assumes "graph_inv cfg s0 n s" and "n \<noteq> END"
  shows "\<exists>c'. exec_step cfg w (n, s, tr) = Inr c'"
proof (cases "branch_of cfg w n")
  case None
  obtain us es where "exec_node cfg w n s = Inr (us, es)" using exec_node_total by blast
  with None show ?thesis by (simp add: exec_step_def Let_def)
next
  case (Some branch)
  have "n = EXPLANATION_PER_VENDOR \<Longrightarrow> ps_decision_output s \<noteq> None" using assms(1) by (simp add: graph_inv_def)
  from branches_total[OF Some this] obtain rs where "rmap (branch s) (ps_vendor_ids s) = Inr rs" by blast
  with Some show ?thesis by (simp add: exec_step_def Let_def)
qed

lemma run_graph_ends:
  assumes "graph_inv cfg s0 n s" and "steps_left n (ps_explanation_retry_count s) \<le> fuel"
  shows "\<exists>s' tr'. run_graph cfg w fuel (n, s, tr) = Inr (Some (END, s', tr')) \<and> graph_inv cfg s0 END s'"
  using assms
proof (induction fuel arbitrary: n s tr)
  case 0
  then show ?case by (cases n) (auto simp: steps_left_def)
next
  case (Suc fuel)
  show ?case
  proof (cases "n = END")
    case True
    with Suc.prems show ?thesis by auto
  next
    case False
    obtain n' s' tr' where ex: "exec_step cfg w (n, s, tr) = Inr (n', s', tr')"
      using inv_progress[OF Suc.prems(1) False] by (metis prod_cases3)
    have step: "graph_step cfg w (n, s, tr) (n', s', tr')" by (rule exec_step_sound[OF False ex])
    have "ps_explanation_retry_count s \<le> EXPLANATION_MAX_RETRIES" using Suc.prems(1) by (simp add: graph_inv_def)
    from step_decreases[OF step this] Suc.prems(2)
    have "steps_left n' (ps_explanation_retry_count s') \<le> fuel" by linarith
    from Suc.IH[OF inv_step[OF step Suc.prems(1)] this] False ex show ?thesis by simp
  qed
qed

lemma steps_reachable:
  assumes "steps cfg w k c c'" and "reachable cfg w s0 c"
  shows "reachable cfg w s0 c'"
  using assms
proof (induction k arbitrary: c)
  case 0
  then show ?case by simp
next
  case (Suc k)
  then obtain d where "graph_step cfg w c d" "steps cfg w k d c'" unfolding steps.simps(2) by blast
  then show ?case using Suc.IH[of d] reachable.step[OF Suc.prems(2)] by blast
qed

end
