(* ===== verification/Demo.thy ===== *)
theory Demo
  imports Graph_Laws
begin

text \<open>
  Concrete inputs for the witnesses: a setup with one mandatory check and one criterion, an LLM
  whose answers are fixed JSON values, and a world in which retrieval fails. Nothing here models
  code.
\<close>

definition demo_target :: extraction_target where
  "demo_target = \<lparr>et_target_id = ''T'', et_name = ''ISO'', et_description = [], et_fact_type = ''certification''\<rparr>"

definition demo_check :: mandatory_check where
  "demo_check = \<lparr>mc_check_id = ''C'', mc_name = ''ISO'', mc_description = [], mc_what_passes = [],
     mc_extraction_target_id = ''T''\<rparr>"

definition demo_criterion :: scoring_criterion where
  "demo_criterion = \<lparr>sc_criterion_id = ''S'', sc_name = ''Security'', sc_weight = 1, sc_rubric_9_10 = [],
     sc_rubric_6_8 = [], sc_rubric_3_5 = [], sc_rubric_0_2 = [], sc_extraction_target_ids = [''T'']\<rparr>"

definition demo_setup :: evaluation_setup where
  "demo_setup = \<lparr>es_setup_id = ''E'', es_mandatory_checks = [demo_check],
     es_scoring_criteria = [demo_criterion], es_extraction_targets = [demo_target], es_total_weight = 1\<rparr>"

definition demo_facts :: "(string, json list) dict" where
  "demo_facts = [(''certifications'', [JObj [(''standard_name'', JStr ''ISO 27001'')]])]"

definition conflict_reply :: json where
  "conflict_reply = JObj [(''decision'', JStr ''pass''), (''confidence'', JNum 1),
     (''contradictions_found'', JArr [JStr ''a vs b''])]"

definition score_reply :: json where
  "score_reply = JObj [(''raw_score'', JNum 12), (''confidence'', JNum 1)]"

definition demo_env :: "json \<Rightarrow> eval_env" where
  "demo_env check_reply =
     \<lparr>ev_check_llm = (\<lambda>_ _ _ _ _. Inr (Some check_reply)), ev_score_llm = (\<lambda>_ _ _. Inr (Some score_reply)),
      ev_verify_llm = (\<lambda>_ _ _. Inr None), ev_judge_llm = (\<lambda>_ _ _. Inl IndexError),
      ev_retrieve = (\<lambda>_ _ _. Inr []), ev_org_settings = None, ev_facts = Inr demo_facts, ev_org_id = []\<rparr>"

definition raising_env :: eval_env where
  "raising_env = (demo_env JNull)\<lparr>ev_check_llm := (\<lambda>_ _ _ _ _. Inl (ExternalError ''timeout''))\<rparr>"

definition demo_world :: world where
  "demo_world =
     \<lparr>wd_ingest = (\<lambda>_. Inr []), wd_facts_extracted = (\<lambda>_ _. False),
      wd_retrieve = (\<lambda>_ _ _. Inl (ExternalError ''down'')), wd_extract = (\<lambda>_ _ _ _. Inl (ExternalError ''down'')),
      wd_eval_env = (\<lambda>_ _. raising_env), wd_compare = (\<lambda>_ _ _ _ _. Inr None), wd_decide = (\<lambda>_. Inr None),
      wd_explain = (\<lambda>_ _. \<lparr>xe_llm = (\<lambda>_ _ _ _ _ _. Inr None), xe_verify = (\<lambda>_ _. Inr None)\<rparr>),
      wd_retry_prompt = (\<lambda>t. t)\<rparr>"

definition demo_state :: pipeline_state where
  "demo_state = initial_state ''R'' ''rfp.pdf'' [''a'', ''b''] 250000 demo_setup []"

definition demo_decision :: "compliance_status \<Rightarrow> string list \<Rightarrow> compliance_decision" where
  "demo_decision status conflicts =
     \<lparr>cd_check_id = ''C'', cd_vendor_id = ''a'', cd_decision = status, cd_confidence = 1, cd_reasoning = [],
      cd_evidence_used = [], cd_contradictions_found = conflicts, cd_decision_basis = NOT_ADDRESSED,
      cd_vote_breakdown = single_vote\<rparr>"

definition demo_evaluation :: "string \<Rightarrow> compliance_decision list \<Rightarrow> rat \<Rightarrow> evaluation_output" where
  "demo_evaluation vid ds score =
     \<lparr>eo_vendor_id = vid, eo_compliance_decisions = ds, eo_criterion_scores = [],
      eo_overall_compliance = overall_compliance ds, eo_total_weighted_score = score, eo_coverage = 1,
      eo_coverage_normalised_score = score, eo_score_confidence = 1, eo_evaluation_warnings = []\<rparr>"

definition demo_evaluations :: evaluations where
  "demo_evaluations =
     [(''a'', demo_evaluation ''a'' [demo_decision PASS []] 5),
      (''b'', demo_evaluation ''b'' [demo_decision FAIL []] 7)]"

definition demo_comparison :: comparator_output where
  "demo_comparison =
     \<lparr>cp_rfp_id = ''R'', cp_vendor_ids = [''a'', ''b''], cp_criteria_comparisons = [],
      cp_overall_ranking = [''b'', ''a''], cp_ranking_confidence = 1, cp_rank_margins = [],
      cp_low_coverage_vendors = [], cp_comparison_warnings = []\<rparr>"

definition demo_claim :: grounded_claim where
  "demo_claim = \<lparr>gc_claim_text = ''x'', gc_grounding_quote = ''b  c'', gc_source_chunk_id = ''k''\<rparr>"

definition demo_chunks :: chunks where
  "demo_chunks = [(''k'', ''a b c d'')]"

definition demo_synthesis :: synthesis_response where
  "demo_synthesis = \<lparr>sr_executive_summary = [], sr_compliance_narrative = [], sr_scoring_narrative = [],
     sr_recommendation_rationale = [], sr_grounded_claims = [demo_claim, demo_claim\<lparr>gc_source_chunk_id := ''z''\<rparr>],
     sr_system_facts = []\<rparr>"

definition demo_explain :: explanation_env where
  "demo_explain = \<lparr>xe_llm = (\<lambda>_ _ _ _ _ _. Inr (Some demo_synthesis)), xe_verify = (\<lambda>_ _. Inr None)\<rparr>"

definition demo_rejection :: rejection_notice where
  "demo_rejection = \<lparr>rn_vendor_id = ''b'', rn_failed_checks = [''C''], rn_rejection_reasons = [''no''],
     rn_evidence_citations = [''q''], rn_clause_references = [''C'']\<rparr>"

definition demo_dec :: decision_output where
  "demo_dec = \<lparr>do_rfp_id = ''R'', do_rejected_vendors = [demo_rejection], do_shortlisted_vendors = [],
     do_approval_routing = \<lparr>ar_approval_tier = 1, ar_approver_role = [], ar_contract_value = 1, ar_sla_hours = 24,
       ar_escalation_reason = None\<rparr>,
     do_decision_confidence = 1, do_requires_human_review = True, do_review_reasons = []\<rparr>"

lemma demo_explain_returns:
  "xe_llm demo_explain fb vid ctx summary extraction chunks = Inr (Some demo_synthesis)"
  "xe_verify demo_explain n chunks = Inr None"
  by (simp_all add: demo_explain_def)

lemma demo_setup_ok: "make_setup demo_setup = Inr demo_setup"
  by code_simp

lemma demo_setup_distinct: "distinct (map sc_criterion_id (es_scoring_criteria demo_setup))"
  by code_simp

lemma demo_evaluations_distinct: "distinct (dict_keys demo_evaluations)"
  by code_simp

end
