(* ===== verification/Fact_Extraction.thy ===== *)
theory Fact_Extraction
  imports Critic
begin

text \<open>
  The extraction agent: \<open>app/agents/extraction.py\<close> with \<open>parsing.py\<close>, \<open>scoring.py\<close>,
  \<open>retry_loop.py\<close> and \<open>_focused_schema\<close> of \<open>app/agents/_extraction\<close>, and the judge of
  \<open>app/validators/extraction.py\<close>. Parameters, the fields of \<open>extraction_env\<close>: the replies of the
  model (\<open>None\<close>: not JSON), pydantic's coercions of numbers and booleans, and the writing of the
  facts. A prompt is represented by the data it is rendered from. Of ISO dates the calendar forms are
  read, not the week forms.
\<close>

section \<open>Fields the judge sees\<close>

record fact_fields =
  ff_fact_type :: string
  ff_fact_value :: string
  ff_provider_or_issuer :: string
  ff_key_identifier :: string

record retry_request =
  rq_criterion_name :: string
  rq_what_passes :: string
  rq_wrong_summary :: string
  rq_missing_summary :: string
  rq_target_desc :: string
  rq_response_key :: string
  rq_schema :: string

record extraction_env =
  xe_float :: "json \<Rightarrow> rat result"
  xe_int :: "json \<Rightarrow> int result"
  xe_bool :: "json \<Rightarrow> bool result"
  xe_extract :: "string \<Rightarrow> string \<Rightarrow> extraction_target list \<Rightarrow> json option result"
    \<comment> \<open>feedback block, context, targets\<close>
  xe_retry :: "retry_request \<Rightarrow> string \<Rightarrow> json option result"
    \<comment> \<open>request, context\<close>
  xe_judge :: "nat \<Rightarrow> string \<Rightarrow> string \<Rightarrow> fact_fields \<Rightarrow> string \<Rightarrow> json option result"
    \<comment> \<open>0 before and 1 after a retry, criterion, what passes, fields, quote\<close>
  xe_save :: "extraction_output \<Rightarrow> string \<Rightarrow> unit result"

definition nonempty_str :: "string option \<Rightarrow> string \<Rightarrow> string" where
  "nonempty_str v d = (case v of None \<Rightarrow> d | Some s \<Rightarrow> if s = [] then d else s)"

text \<open>\<open>str(x or "")\<close> of an optional number, and \<open>str(date)\<close>.\<close>

definition str_int :: "int option \<Rightarrow> string" where
  "str_int v = (case v of None \<Rightarrow> [] | Some i \<Rightarrow> if i = 0 then [] else show_int i)"

definition str_date :: "nat \<times> nat \<times> nat \<Rightarrow> string" where
  "str_date d = (case d of (y, m, dd) \<Rightarrow>
     pad_left 4 (show_nat y) @ ''-'' @ pad_left 2 (show_nat m) @ ''-'' @ pad_left 2 (show_nat dd))"

definition float_or :: "rat option \<Rightarrow> string \<Rightarrow> string" where
  "float_or v d = (case v of None \<Rightarrow> d | Some x \<Rightarrow> if x = 0 then d else show_float x)"

fun fact_fields_for_critic :: "extracted_item \<Rightarrow> fact_fields" where
  "fact_fields_for_critic (InsuranceItem x) =
     \<lparr>ff_fact_type = nonempty_str (xn_insurance_type x) ''unknown'',
      ff_fact_value = (case xn_amount_gbp x of None \<Rightarrow> [] | Some a \<Rightarrow> show_float a),
      ff_provider_or_issuer = nonempty_str (xn_provider x) [], ff_key_identifier = []\<rparr>"
| "fact_fields_for_critic (CertificationItem x) =
     \<lparr>ff_fact_type = (if xc_standard_name x = [] then ''certification'' else xc_standard_name x),
      ff_fact_value = nonempty_str (xc_cert_number x) [],
      ff_provider_or_issuer = nonempty_str (xc_issuing_body x) [],
      ff_key_identifier = (case xc_valid_until x of None \<Rightarrow> [] | Some d \<Rightarrow> str_date d)\<rparr>"
| "fact_fields_for_critic (SLAItem x) =
     \<lparr>ff_fact_type = nonempty_str (xs_priority_level x) ''SLA'',
      ff_fact_value = float_or (xs_uptime_percentage x) (str_int (xs_response_minutes x)),
      ff_provider_or_issuer = [], ff_key_identifier = str_int (xs_resolution_hours x)\<rparr>"
| "fact_fields_for_critic (ProjectItem x) =
     \<lparr>ff_fact_type = ''project'', ff_fact_value = take 200 (nonempty_str (xp_outcomes x) []),
      ff_provider_or_issuer = nonempty_str (xp_client_name x) [], ff_key_identifier = str_int (xp_user_count x)\<rparr>"
| "fact_fields_for_critic (PricingItem x) =
     \<lparr>ff_fact_type = ''pricing'', ff_fact_value = float_or (xr_total_gbp x) (float_or (xr_amount_gbp x) []),
      ff_provider_or_issuer = [], ff_key_identifier = str_int (xr_year x)\<rparr>"
| "fact_fields_for_critic (FactItem _) =
     \<lparr>ff_fact_type = ''unknown'', ff_fact_value = [], ff_provider_or_issuer = [], ff_key_identifier = []\<rparr>"

section \<open>Parsing\<close>

text \<open>\<open>date.fromisoformat\<close>.\<close>

definition leap :: "nat \<Rightarrow> bool" where
  "leap y \<longleftrightarrow> y mod 4 = 0 \<and> (y mod 100 \<noteq> 0 \<or> y mod 400 = 0)"

definition days_in_month :: "nat \<Rightarrow> nat \<Rightarrow> nat" where
  "days_in_month y m = (if m = 2 then if leap y then 29 else 28 else if m \<in> {4, 6, 9, 11} then 30 else 31)"

definition make_date :: "nat \<Rightarrow> nat \<Rightarrow> nat \<Rightarrow> (nat \<times> nat \<times> nat) option" where
  "make_date y m d =
     (if 1 \<le> y \<and> 1 \<le> m \<and> m \<le> 12 \<and> 1 \<le> d \<and> d \<le> days_in_month y m then Some (y, m, d) else None)"

definition iso_digits :: "string \<Rightarrow> (nat \<times> nat \<times> nat) option" where
  "iso_digits s =
     (if length s = 8 \<and> list_all is_digit s
      then make_date (digits_value (take 4 s)) (digits_value (take 2 (drop 4 s))) (digits_value (drop 6 s))
      else None)"

definition fromisoformat :: "string \<Rightarrow> (nat \<times> nat \<times> nat) option" where
  "fromisoformat s =
     (if length s = 10 \<and> s ! 4 = CHR ''-'' \<and> s ! 7 = CHR ''-''
      then iso_digits (take 4 s @ take 2 (drop 5 s) @ drop 8 s) else iso_digits s)"

definition parse_date :: "json \<Rightarrow> (nat \<times> nat \<times> nat) option" where
  "parse_date v = (case v of JStr s \<Rightarrow> if s = [] then None else fromisoformat s | _ \<Rightarrow> None)"

text \<open>An \<open>Optional\<close> field with its default, a required one, and the two fields of every item.\<close>

definition opt_field :: "(json \<Rightarrow> 'a result) \<Rightarrow> json \<Rightarrow> string \<Rightarrow> 'a option result" where
  "opt_field conv item k =
     rbind (jget item k JNull) (\<lambda>v. case v of JNull \<Rightarrow> Inr None | _ \<Rightarrow> rbind (conv v) (\<lambda>x. Inr (Some x)))"

definition str_field :: "json \<Rightarrow> string \<Rightarrow> string \<Rightarrow> string result" where
  "str_field item k d = rbind (jget item k (JStr d)) as_str"

definition confidence_field :: "json \<Rightarrow> rat result" where
  "confidence_field item = rbind (jget item ''confidence'' (JNum (1 / 2))) (\<lambda>v. rbind (to_float v) as_unit)"

definition document_status_of :: "json \<Rightarrow> document_status" where
  "document_status_of v =
     (case List.find (\<lambda>d. v = JStr (document_status_value d)) [CURRENT, PENDING, EXPIRED, NOT_MENTIONED] of
        None \<Rightarrow> NOT_MENTIONED | Some d \<Rightarrow> d)"

definition parse_certification :: "json \<Rightarrow> extracted_certification result" where
  "parse_certification item =
     rbind (jget item ''status'' (JStr ''not_mentioned'')) (\<lambda>status.
     rbind (jindex item ''standard_name'') (\<lambda>name_v.
     rbind (jget item ''valid_until'' JNull) (\<lambda>until.
     rbind (confidence_field item) (\<lambda>conf.
     rbind (as_str name_v) (\<lambda>name.
     rbind (opt_field as_str item ''version'') (\<lambda>version.
     rbind (opt_field as_str item ''cert_number'') (\<lambda>cert_number.
     rbind (opt_field as_str item ''issuing_body'') (\<lambda>issuing_body.
     rbind (opt_field as_str item ''scope'') (\<lambda>scope.
     rbind (rbind (str_field item ''grounding_quote'' []) grounding_not_empty) (\<lambda>quote.
     rbind (str_field item ''source_chunk_id'' []) (\<lambda>chunk_id.
     Inr \<lparr>xc_standard_name = name, xc_version = version, xc_cert_number = cert_number,
          xc_issuing_body = issuing_body, xc_scope = scope, xc_valid_until = parse_date until,
          xc_status = document_status_of status, xc_confidence = conf, xc_grounding_quote = quote,
          xc_source_chunk_id = chunk_id\<rparr>)))))))))))"

definition parse_one_insurance :: "extraction_env \<Rightarrow> json \<Rightarrow> extracted_insurance result" where
  "parse_one_insurance env item =
     rbind (opt_field as_str item ''insurance_type'') (\<lambda>insurance_type.
     rbind (opt_field (xe_float env) item ''amount_gbp'') (\<lambda>amount_gbp.
     rbind (opt_field as_str item ''provider'') (\<lambda>provider.
     rbind (confidence_field item) (\<lambda>conf.
     rbind (rbind (str_field item ''grounding_quote'' []) grounding_not_empty) (\<lambda>quote.
     rbind (str_field item ''source_chunk_id'' []) (\<lambda>chunk_id.
     Inr (backfill_amount \<lparr>xn_insurance_type = insurance_type, xn_amount = None, xn_amount_gbp = amount_gbp,
          xn_provider = provider, xn_confidence = conf, xn_grounding_quote = quote,
          xn_source_chunk_id = chunk_id\<rparr>)))))))"

definition parse_sla :: "extraction_env \<Rightarrow> json \<Rightarrow> extracted_sla result" where
  "parse_sla env item =
     rbind (opt_field as_str item ''priority_level'') (\<lambda>priority_level.
     rbind (opt_field (xe_int env) item ''response_minutes'') (\<lambda>response_minutes.
     rbind (opt_field (xe_int env) item ''resolution_hours'') (\<lambda>resolution_hours.
     rbind (opt_field (xe_float env) item ''uptime_percentage'') (\<lambda>uptime.
     rbind (confidence_field item) (\<lambda>conf.
     rbind (str_field item ''grounding_quote'' []) (\<lambda>quote.
     rbind (str_field item ''source_chunk_id'' []) (\<lambda>chunk_id.
     Inr \<lparr>xs_priority_level = priority_level, xs_response_minutes = response_minutes,
          xs_resolution_hours = resolution_hours, xs_uptime_percentage = uptime, xs_confidence = conf,
          xs_grounding_quote = quote, xs_source_chunk_id = chunk_id\<rparr>)))))))"

definition parse_project :: "extraction_env \<Rightarrow> json \<Rightarrow> extracted_project result" where
  "parse_project env item =
     rbind (opt_field as_str item ''client_name'') (\<lambda>client_name.
     rbind (opt_field as_str item ''client_sector'') (\<lambda>client_sector.
     rbind (opt_field (xe_int env) item ''user_count'') (\<lambda>user_count.
     rbind (opt_field as_str item ''outcomes'') (\<lambda>outcomes.
     rbind (opt_field (xe_bool env) item ''reference_available'') (\<lambda>reference_available.
     rbind (confidence_field item) (\<lambda>conf.
     rbind (str_field item ''grounding_quote'' []) (\<lambda>quote.
     rbind (str_field item ''source_chunk_id'' []) (\<lambda>chunk_id.
     Inr \<lparr>xp_client_name = client_name, xp_client_sector = client_sector, xp_user_count = user_count,
          xp_outcomes = outcomes, xp_reference_available = reference_available, xp_confidence = conf,
          xp_grounding_quote = quote, xp_source_chunk_id = chunk_id\<rparr>))))))))"

definition parse_one_pricing :: "extraction_env \<Rightarrow> json \<Rightarrow> extracted_pricing result" where
  "parse_one_pricing env item =
     rbind (opt_field (xe_int env) item ''year'') (\<lambda>year.
     rbind (opt_field (xe_float env) item ''amount_gbp'') (\<lambda>amount_gbp.
     rbind (opt_field (xe_float env) item ''total_gbp'') (\<lambda>total_gbp.
     rbind (rbind (jget item ''includes'' (JArr [])) as_str_list) (\<lambda>includes.
     rbind (confidence_field item) (\<lambda>conf.
     rbind (str_field item ''grounding_quote'' []) (\<lambda>quote.
     rbind (str_field item ''source_chunk_id'' []) (\<lambda>chunk_id.
     Inr (backfill_amounts \<lparr>xr_year = year, xr_amount = None, xr_total_amount = None, xr_amount_gbp = amount_gbp,
          xr_total_gbp = total_gbp, xr_includes = includes, xr_confidence = conf,
          xr_grounding_quote = quote, xr_source_chunk_id = chunk_id\<rparr>))))))))"

definition parse_extracted_fact :: "extraction_env \<Rightarrow> json \<Rightarrow> extracted_fact result" where
  "parse_extracted_fact env item =
     rbind (jget item ''fact_id'' (JStr [])) (\<lambda>fact_id_v.
     rbind (rbind (jindex item ''target_id'') as_str) (\<lambda>target_id.
     rbind (str_field item ''fact_type'' ''custom'') (\<lambda>fact_type.
     rbind (rbind (jget item ''target_id'' (JStr [])) (\<lambda>d. rbind (jget item ''fact_name'' d) as_str)) (\<lambda>fact_name.
     rbind (str_field item ''text_value'' []) (\<lambda>text_value.
     rbind (opt_field (xe_float env) item ''numeric_value'') (\<lambda>numeric_value.
     rbind (opt_field (xe_bool env) item ''boolean_value'') (\<lambda>boolean_value.
     rbind (confidence_field item) (\<lambda>conf.
     rbind (as_str fact_id_v) (\<lambda>fact_id.
     rbind (rbind (str_field item ''grounding_quote'' []) grounding_not_empty) (\<lambda>quote.
     rbind (str_field item ''source_chunk_id'' []) (\<lambda>chunk_id.
     Inr \<lparr>xf_fact_id = fact_id, xf_target_id = target_id, xf_fact_type = fact_type, xf_fact_name = fact_name,
          xf_text_value = text_value, xf_numeric_value = numeric_value, xf_boolean_value = boolean_value,
          xf_confidence = conf, xf_grounding_quote = quote, xf_source_chunk_id = chunk_id\<rparr>)))))))))))"

text \<open>The loop all six parsers share: a malformed item is skipped with a warning.\<close>

fun parse_each :: "(json \<Rightarrow> 'a result) \<Rightarrow> string \<Rightarrow> json list \<Rightarrow> 'a list \<times> string list" where
  "parse_each parse1 kind [] = ([], [])"
| "parse_each parse1 kind (item # items) =
     (let (xs, ws) = parse_each parse1 kind items
      in case parse1 item of
           Inl e \<Rightarrow> (xs, (''Skipped malformed '' @ kind @ '': '' @ exn_str e) # ws)
         | Inr x \<Rightarrow> (x # xs, ws))"

definition parse_list :: "(json \<Rightarrow> 'a result) \<Rightarrow> string \<Rightarrow> json \<Rightarrow> ('a list \<times> string list) result" where
  "parse_list parse1 kind v = rbind (as_iter v) (\<lambda>items. Inr (parse_each parse1 kind items))"

definition parse_certifications :: "json \<Rightarrow> (extracted_certification list \<times> string list) result" where
  "parse_certifications = parse_list parse_certification ''certification''"

definition parse_insurance :: "extraction_env \<Rightarrow> json \<Rightarrow> (extracted_insurance list \<times> string list) result" where
  "parse_insurance env = parse_list (parse_one_insurance env) ''insurance''"

definition parse_slas :: "extraction_env \<Rightarrow> json \<Rightarrow> (extracted_sla list \<times> string list) result" where
  "parse_slas env = parse_list (parse_sla env) ''SLA''"

definition parse_projects :: "extraction_env \<Rightarrow> json \<Rightarrow> (extracted_project list \<times> string list) result" where
  "parse_projects env = parse_list (parse_project env) ''project''"

definition parse_pricing :: "extraction_env \<Rightarrow> json \<Rightarrow> (extracted_pricing list \<times> string list) result" where
  "parse_pricing env = parse_list (parse_one_pricing env) ''pricing''"

definition parse_extracted_facts :: "extraction_env \<Rightarrow> json \<Rightarrow> (extracted_fact list \<times> string list) result" where
  "parse_extracted_facts env = parse_list (parse_extracted_fact env) ''extracted_fact''"

end
