(* ===== verification/Fact_Retry.thy ===== *)
theory Fact_Retry
  imports Fact_Extraction
begin

text \<open>
  Scoring, the extraction critic's retry loop and the agent itself: \<open>scoring.py\<close>,
  \<open>retry_loop.py\<close>, \<open>app/validators/extraction.py\<close> and \<open>run_extraction_agent\<close>. The audit rows and the
  retry requests the loop emits are kept in its state. The text of a judge's failure names the
  exception's message, not its type.
\<close>

section \<open>State\<close>

record verdict_row =
  vr_fact_type :: string
  vr_criterion_name :: string
  vr_adequate :: bool
  vr_confidence :: rat
  vr_retry_count :: nat

record facts_state =
  fs_certifications :: "extracted_certification list"
  fs_insurance :: "extracted_insurance list"
  fs_slas :: "extracted_sla list"
  fs_projects :: "extracted_project list"
  fs_pricing :: "extracted_pricing list"
  fs_extracted_facts :: "extracted_fact list"
  fs_retried_fact_types :: "string list"
  fs_warnings :: "string list"
  fs_audit :: "verdict_row list"
  fs_requests :: "retry_request list"

section \<open>Scoring\<close>

definition standard_types :: "string list" where
  "standard_types = [''insurance'', ''certification'', ''sla'', ''project'', ''pricing'']"

definition facts_of :: "string \<Rightarrow> facts_state \<Rightarrow> extracted_item list" where
  "facts_of fact_type st =
     (if fact_type = ''insurance'' then map InsuranceItem (fs_insurance st)
      else if fact_type = ''certification'' then map CertificationItem (fs_certifications st)
      else if fact_type = ''sla'' then map SLAItem (fs_slas st)
      else if fact_type = ''project'' then map ProjectItem (fs_projects st)
      else if fact_type = ''pricing'' then map PricingItem (fs_pricing st) else [])"

definition all_facts :: "facts_state \<Rightarrow> extracted_item list" where
  "all_facts st =
     map CertificationItem (fs_certifications st) @ map InsuranceItem (fs_insurance st) @ map SLAItem (fs_slas st) @
     map ProjectItem (fs_projects st) @ map PricingItem (fs_pricing st) @ map FactItem (fs_extracted_facts st)"

text \<open>What the score counts: each active standard type once, and each custom target.\<close>

definition scored_points :: "facts_state \<Rightarrow> extraction_target list \<Rightarrow> bool list" where
  "scored_points st targets =
     map (\<lambda>t. facts_of t st \<noteq> []) (filter (\<lambda>t. t \<in> set (map et_fact_type targets)) standard_types) @
     map (\<lambda>t. et_target_id t \<in> set (map xf_target_id (fs_extracted_facts st)))
       (filter (\<lambda>t. et_fact_type t = ''custom'') targets)"

definition extraction_completeness :: "facts_state \<Rightarrow> extraction_target list \<Rightarrow> rat" where
  "extraction_completeness st targets =
     (let points = scored_points st targets; score = count_if id points; total = length points
      in if 0 < total then py_round 3 (of_nat score / of_nat total) else 1)"

definition quote_found :: "string \<Rightarrow> string \<Rightarrow> bool" where
  "quote_found quote source \<longleftrightarrow> quote \<noteq> [] \<and> source \<noteq> [] \<and> contains_str (ws_norm quote) (ws_norm source)"

definition hallucination_risk :: "extracted_item list \<Rightarrow> (string, string) dict \<Rightarrow> rat" where
  "hallucination_risk items source_chunks =
     (if items = [] then 0
      else py_round 3 (of_nat (count_if (\<lambda>i. \<not> quote_found (xi_grounding_quote i)
             (get_default source_chunks (xi_source_chunk_id i) [])) items) / of_nat (length items)))"

section \<open>The judge\<close>

record extraction_verdict =
  xv_adequate :: bool
  xv_confidence :: rat
  xv_missing :: string
  xv_should_retry :: bool

definition verdict_bool :: "extraction_env \<Rightarrow> json \<Rightarrow> string \<Rightarrow> bool option \<Rightarrow> bool result" where
  "verdict_bool env data k d =
     (case data of
        JObj kvs \<Rightarrow> (case map_of kvs k of
            Some v \<Rightarrow> xe_bool env v
          | None \<Rightarrow> (case d of None \<Rightarrow> Inl (ValidationError ''Field required'') | Some b \<Rightarrow> Inr b))
      | _ \<Rightarrow> Inl (ValidationError ''Input should be a valid dictionary''))"

definition validate_verdict :: "extraction_env \<Rightarrow> json \<Rightarrow> extraction_verdict result" where
  "validate_verdict env data =
     rbind (verdict_bool env data ''adequate'' None) (\<lambda>adequate.
     rbind (jindex data ''confidence'') (\<lambda>conf_v.
     rbind (xe_float env conf_v) (\<lambda>conf_f.
     rbind (as_unit conf_f) (\<lambda>conf.
     rbind (str_field data ''missing'' []) (\<lambda>missing.
     rbind (verdict_bool env data ''should_retry'' (Some False)) (\<lambda>should_retry.
     Inr \<lparr>xv_adequate = adequate, xv_confidence = conf, xv_missing = missing, xv_should_retry = should_retry\<rparr>))))))"

definition judge_failed :: "string \<Rightarrow> extraction_verdict" where
  "judge_failed msg =
     \<lparr>xv_adequate = True, xv_confidence = 0, xv_missing = ''critic error: '' @ msg, xv_should_retry = False\<rparr>"

definition judge_extraction ::
  "extraction_env \<Rightarrow> nat \<Rightarrow> string \<Rightarrow> string \<Rightarrow> fact_fields \<Rightarrow> string \<Rightarrow> extraction_verdict" where
  "judge_extraction env k criterion_name what_passes ff quote =
     (if quote = []
      then \<lparr>xv_adequate = False, xv_confidence = 1, xv_missing = ''no grounding quote provided'', xv_should_retry = False\<rparr>
      else case xe_judge env k criterion_name (if what_passes = [] then criterion_name else what_passes) ff
             (take 1500 quote) of
          Inl e \<Rightarrow> judge_failed (exn_str e)
        | Inr None \<Rightarrow> judge_failed ''invalid JSON''
        | Inr (Some data) \<Rightarrow> (case validate_verdict env data of Inl e \<Rightarrow> judge_failed (exn_str e) | Inr v \<Rightarrow> v))"

definition custom_fields :: "extracted_fact \<Rightarrow> fact_fields" where
  "custom_fields x =
     \<lparr>ff_fact_type = xf_fact_type x, ff_fact_value = take 300 (xf_text_value x), ff_provider_or_issuer = [],
      ff_key_identifier =
        (case xf_numeric_value x of Some n \<Rightarrow> show_float n
         | None \<Rightarrow> (case xf_boolean_value x of Some b \<Rightarrow> if b then ''True'' else ''False'' | None \<Rightarrow> []))\<rparr>"

fun judge_fields :: "extracted_item \<Rightarrow> fact_fields" where
  "judge_fields (FactItem x) = custom_fields x"
| "judge_fields item = fact_fields_for_critic item"

fun wrong_value :: "extracted_item \<Rightarrow> string" where
  "wrong_value (FactItem x) = take 80 (xf_text_value x)"
| "wrong_value item =
     strip (ff_fact_type (fact_fields_for_critic item) @ '' '' @ ff_fact_value (fact_fields_for_critic item))"

definition judge_items ::
  "extraction_env \<Rightarrow> nat \<Rightarrow> string \<Rightarrow> string \<Rightarrow> extracted_item list \<Rightarrow> (extracted_item \<times> extraction_verdict) list" where
  "judge_items env k criterion_name what_passes items =
     map (\<lambda>i. (i, judge_extraction env k criterion_name what_passes (judge_fields i) (xi_grounding_quote i))) items"

definition audit_rows ::
  "nat \<Rightarrow> string \<Rightarrow> string \<Rightarrow> (extracted_item \<times> extraction_verdict) list \<Rightarrow> verdict_row list" where
  "audit_rows k fact_type criterion_name vs =
     map (\<lambda>(_, v). \<lparr>vr_fact_type = fact_type, vr_criterion_name = criterion_name, vr_adequate = xv_adequate v,
       vr_confidence = xv_confidence v, vr_retry_count = k\<rparr>) vs"

definition high_fails ::
  "rat \<Rightarrow> (extracted_item \<times> extraction_verdict) list \<Rightarrow> (extracted_item \<times> extraction_verdict) list" where
  "high_fails floor_c vs = filter (\<lambda>(_, v). floor_c \<le> xv_confidence v \<and> \<not> xv_adequate v) vs"

definition high_passes :: "rat \<Rightarrow> (extracted_item \<times> extraction_verdict) list \<Rightarrow> nat" where
  "high_passes floor_c vs = count_if (\<lambda>(_, v). floor_c \<le> xv_confidence v \<and> xv_adequate v) vs"

section \<open>One retry\<close>

definition response_key_of :: "string \<Rightarrow> string" where
  "response_key_of fact_type =
     (if fact_type = ''insurance'' then ''insurance'' else if fact_type = ''certification'' then ''certifications''
      else if fact_type = ''sla'' then ''slas'' else if fact_type = ''project'' then ''projects''
      else if fact_type = ''pricing'' then ''pricing'' else [])"

text \<open>What a parser gives the loop: the items to judge, the assignment to the state, the warnings.\<close>

type_synonym parsed_facts = "extracted_item list \<times> (facts_state \<Rightarrow> facts_state) \<times> string list"

definition parse_into :: "extraction_env \<Rightarrow> string \<Rightarrow> json \<Rightarrow> parsed_facts result" where
  "parse_into env fact_type raw =
     (if fact_type = ''insurance''
      then rbind (parse_insurance env raw) (\<lambda>(xs, ws). Inr (map InsuranceItem xs, (\<lambda>st. st\<lparr>fs_insurance := xs\<rparr>), ws))
      else if fact_type = ''certification''
      then rbind (parse_certifications raw) (\<lambda>(xs, ws). Inr (map CertificationItem xs, (\<lambda>st. st\<lparr>fs_certifications := xs\<rparr>), ws))
      else if fact_type = ''sla''
      then rbind (parse_slas env raw) (\<lambda>(xs, ws). Inr (map SLAItem xs, (\<lambda>st. st\<lparr>fs_slas := xs\<rparr>), ws))
      else if fact_type = ''project''
      then rbind (parse_projects env raw) (\<lambda>(xs, ws). Inr (map ProjectItem xs, (\<lambda>st. st\<lparr>fs_projects := xs\<rparr>), ws))
      else rbind (parse_pricing env raw) (\<lambda>(xs, ws). Inr (map PricingItem xs, (\<lambda>st. st\<lparr>fs_pricing := xs\<rparr>), ws)))"

fun keep_target :: "string \<Rightarrow> json list \<Rightarrow> json list result" where
  "keep_target target_id [] = Inr []"
| "keep_target target_id (f # fs) =
     rbind (jget f ''target_id'' JNull) (\<lambda>t.
     rbind (keep_target target_id fs) (\<lambda>rest. Inr (if t = JStr target_id then f # rest else rest)))"

definition parse_target :: "extraction_env \<Rightarrow> string \<Rightarrow> json \<Rightarrow> parsed_facts result" where
  "parse_target env target_id raw =
     rbind (as_iter raw) (\<lambda>fs.
     rbind (keep_target target_id fs) (\<lambda>kept.
     rbind (parse_extracted_facts env (JArr kept)) (\<lambda>(xs, ws).
     Inr (map FactItem xs,
          (\<lambda>st. st\<lparr>fs_extracted_facts := filter (\<lambda>f. xf_target_id f \<noteq> target_id) (fs_extracted_facts st) @ xs\<rparr>), ws))))"

definition warn :: "string \<Rightarrow> facts_state \<Rightarrow> facts_state" where
  "warn w st = st\<lparr>fs_warnings := fs_warnings st @ [w]\<rparr>"

text \<open>The \<open>try\<close> of a retry, the same in the three loops: ask, parse, judge the new facts once, let
  them replace the old ones. \<open>failed\<close> and \<open>weak\<close> are the two warnings.\<close>

definition retry_facts ::
  "platform_cfg \<Rightarrow> extraction_env \<Rightarrow> string \<Rightarrow> retry_request \<Rightarrow> (json \<Rightarrow> parsed_facts result) \<Rightarrow> string \<Rightarrow>
   string \<Rightarrow> string \<Rightarrow> facts_state \<Rightarrow> facts_state" where
  "retry_facts cfg env context req parse fact_type failed weak st0 =
     (let st = st0\<lparr>fs_requests := fs_requests st0 @ [req]\<rparr>
      in case rbind (xe_retry env req context) (\<lambda>reply. case reply of
              None \<Rightarrow> Inl (ValueError ''invalid JSON'')
            | Some j \<Rightarrow> rbind (jget j (rq_response_key req) (JArr [])) parse) of
          Inl e \<Rightarrow> warn (''extraction_critic retry failed for '' @ failed @ '': '' @ exn_str e) st
        | Inr (items, assign, ws) \<Rightarrow>
            let vs = judge_items env 1 (rq_criterion_name req) (rq_what_passes req) items;
                st' = assign (st\<lparr>fs_warnings := fs_warnings st @ ws,
                               fs_audit := fs_audit st @ audit_rows 1 fact_type (rq_criterion_name req) vs\<rparr>)
            in if high_fails (pc_extraction_critic_confidence_floor cfg) vs \<noteq> []
               then warn (''extraction_critic: retry for '' @ weak @ '' still inadequate'') st' else st')"

definition retry_request_for ::
  "string \<Rightarrow> string \<Rightarrow> string list \<Rightarrow> string list \<Rightarrow> string \<Rightarrow> string \<Rightarrow> string \<Rightarrow> retry_request" where
  "retry_request_for criterion_name what_passes fails wrong target_desc response_key schema =
     \<lparr>rq_criterion_name = criterion_name, rq_what_passes = what_passes, rq_wrong_summary = join ''; '' (take 3 wrong),
      rq_missing_summary = hd fails, rq_target_desc = target_desc, rq_response_key = response_key, rq_schema = schema\<rparr>"

definition focused_schema :: "string \<Rightarrow> string \<Rightarrow> string" where
  "focused_schema fact_type target_id =
     (if fact_type = ''custom'' then
       ''{\"extracted_facts\": [{\"fact_id\": \"<uuid>\", \"target_id\": \"'' @ target_id @
       ''\", \"fact_type\": \"custom\", \"fact_name\": \"...\", \"text_value\": \"...\", \"numeric_valu'' @
       ''e\": <number or null>, \"boolean_value\": <bool or null>, \"confidence\": <0.0-1.0>, '' @
       ''\"grounding_quote\": \"<exact verbatim sentence>\", \"source_chunk_id\": \"<chunk_id>\"}'' @
       ''}]}}''
      else
      if fact_type = ''insurance'' then
       ''{\"insurance\": [{\"insurance_type\": \"...\", \"amount_gbp\": <number or null>, \"provid'' @
       ''er\": \"...\", \"confidence\": <0.0-1.0>, \"grounding_quote\": \"<exact verbatim sentenc'' @
       ''e>\", \"source_chunk_id\": \"...\"}]}''
      else if fact_type = ''certification'' then
       ''{\"certifications\": [{\"standard_name\": \"...\", \"version\": \"...\", \"cert_number\": \".'' @
       ''..\", \"issuing_body\": \"...\", \"scope\": \"...\", \"valid_until\": \"<YYYY-MM-DD or null>'' @
       ''\", \"status\": \"<current|pending|expired|not_mentioned>\", \"confidence\": <0.0-1.0>,'' @
       '' \"grounding_quote\": \"<exact verbatim sentence>\", \"source_chunk_id\": \"...\"}]}''
      else if fact_type = ''sla'' then
       ''{\"slas\": [{\"priority_level\": \"...\", \"response_minutes\": <int or null>, \"resoluti'' @
       ''on_hours\": <int or null>, \"uptime_percentage\": <float or null>, \"confidence\": <0'' @
       ''.0-1.0>, \"grounding_quote\": \"<exact verbatim text>\", \"source_chunk_id\": \"...\"}]}''
      else if fact_type = ''project'' then
       ''{\"projects\": [{\"client_name\": \"...\", \"client_sector\": \"...\", \"user_count\": <int '' @
       ''or null>, \"outcomes\": \"...\", \"reference_available\": <bool or null>, \"confidence\"'' @
       '': <0.0-1.0>, \"grounding_quote\": \"<exact verbatim sentence>\", \"source_chunk_id\": '' @
       ''\"...\"}]}''
      else if fact_type = ''pricing'' then
       ''{\"pricing\": [{\"year\": <int or null>, \"amount_gbp\": <number or null>, \"total_gbp\"'' @
       '': <number or null>, \"includes\": [], \"confidence\": <0.0-1.0>, \"grounding_quote\": '' @
       ''\"<exact verbatim sentence>\", \"source_chunk_id\": \"...\"}]}''
      else ''{}'')"

section \<open>The three loops\<close>

definition targets_by_id :: "evaluation_setup \<Rightarrow> (string, extraction_target) dict" where
  "targets_by_id setup = dict_of (map (\<lambda>t. (et_target_id t, t)) (es_extraction_targets setup))"

definition checks_of_type :: "evaluation_setup \<Rightarrow> string \<Rightarrow> mandatory_check list" where
  "checks_of_type setup fact_type =
     filter (\<lambda>c. case dict_get (targets_by_id setup) (mc_extraction_target_id c) of
        None \<Rightarrow> False | Some t \<Rightarrow> et_fact_type t = fact_type) (es_mandatory_checks setup)"

definition wants_retry :: "platform_cfg \<Rightarrow> 'a list \<Rightarrow> nat \<Rightarrow> bool" where
  "wants_retry cfg fails passes \<longleftrightarrow> fails \<noteq> [] \<and> passes = 0 \<and> 0 < pc_extraction_critic_max_retries cfg"

definition mark_retried :: "string \<Rightarrow> facts_state \<Rightarrow> facts_state" where
  "mark_retried key st = st\<lparr>fs_retried_fact_types := fs_retried_fact_types st @ [key]\<rparr>"

definition log_verdicts :: "verdict_row list \<Rightarrow> facts_state \<Rightarrow> facts_state" where
  "log_verdicts rows st = st\<lparr>fs_audit := fs_audit st @ rows\<rparr>"

definition retry_standard ::
  "platform_cfg \<Rightarrow> extraction_env \<Rightarrow> string \<Rightarrow> evaluation_setup \<Rightarrow> facts_state \<Rightarrow> string \<Rightarrow> facts_state" where
  "retry_standard cfg env context setup st fact_type =
     (case checks_of_type setup fact_type of
        [] \<Rightarrow> st
      | c # _ \<Rightarrow>
          let items = facts_of fact_type st;
              floor_c = pc_extraction_critic_confidence_floor cfg;
              vs = judge_items env 0 (mc_name c) (mc_what_passes c) items;
              bad = high_fails floor_c vs;
              fails = (if items = [] then [''No '' @ fact_type @ '' facts found in initial extraction'']
                       else map (xv_missing \<circ> snd) bad);
              wrong = (if items = [] then [''(empty)''] else map (wrong_value \<circ> fst) bad);
              st1 = log_verdicts (audit_rows 0 fact_type (mc_name c) vs) st
          in if wants_retry cfg fails (high_passes floor_c vs) \<and> fact_type \<notin> set (fs_retried_fact_types st)
             then retry_facts cfg env context
                    (retry_request_for (mc_name c) (mc_what_passes c) fails wrong [] (response_key_of fact_type)
                       (focused_schema fact_type []))
                    (parse_into env fact_type) fact_type fact_type (fact_type @ ''/'' @ mc_name c)
                    (mark_retried fact_type st1)
             else st1)"

definition facts_for_target :: "string \<Rightarrow> facts_state \<Rightarrow> extracted_item list" where
  "facts_for_target target_id st =
     map FactItem (filter (\<lambda>f. xf_target_id f = target_id) (fs_extracted_facts st))"

definition retry_custom ::
  "platform_cfg \<Rightarrow> extraction_env \<Rightarrow> string \<Rightarrow> evaluation_setup \<Rightarrow> facts_state \<Rightarrow> mandatory_check \<Rightarrow> facts_state" where
  "retry_custom cfg env context setup st c =
     (case dict_get (targets_by_id setup) (mc_extraction_target_id c) of
        None \<Rightarrow> st
      | Some t \<Rightarrow>
          if et_fact_type t \<noteq> ''custom'' then st
          else let key = ''custom:'' @ et_target_id t; items = facts_for_target (et_target_id t) st
               in if key \<in> set (fs_retried_fact_types st) then st
                  else if items = [] then st
                  else let floor_c = pc_extraction_critic_confidence_floor cfg;
                           vs = judge_items env 0 (mc_name c) (mc_what_passes c) items;
                           bad = high_fails floor_c vs;
                           st1 = log_verdicts (audit_rows 0 ''custom'' (mc_name c) vs) st
                       in if wants_retry cfg bad (high_passes floor_c vs)
                          then retry_facts cfg env context
                                 (retry_request_for (mc_name c) (mc_what_passes c) (map (xv_missing \<circ> snd) bad)
                                    (map (wrong_value \<circ> fst) bad)
                                    (''  Target: '' @ et_name t @ '' - '' @ et_description t @ [CHR 0x0A]) ''extracted_facts''
                                    (focused_schema ''custom'' (et_target_id t)))
                                 (parse_target env (et_target_id t)) ''custom'' (''custom/'' @ mc_name c)
                                 (''custom/'' @ mc_name c) (mark_retried key st1)
                          else st1)"

definition scoring_key :: "string \<Rightarrow> string \<Rightarrow> string" where
  "scoring_key criterion_id target_id = ''scoring:'' @ criterion_id @ '':'' @ target_id"

definition retry_scoring ::
  "platform_cfg \<Rightarrow> extraction_env \<Rightarrow> string \<Rightarrow> evaluation_setup \<Rightarrow> facts_state \<Rightarrow> scoring_criterion \<times> string \<Rightarrow> facts_state"
where
  "retry_scoring cfg env context setup st ct =
     (let (crit, target_id) = ct
      in case dict_get (targets_by_id setup) target_id of
           None \<Rightarrow> st
         | Some t \<Rightarrow>
             let key = scoring_key (sc_criterion_id crit) target_id;
                 is_custom = (et_fact_type t = ''custom'');
                 items = (if is_custom then facts_for_target target_id st else facts_of (et_fact_type t) st)
             in if key \<in> set (fs_retried_fact_types st) then st
                else if items = [] then st
                else let floor_c = pc_extraction_critic_confidence_floor cfg;
                         vs = judge_items env 0 (sc_name crit) (sc_rubric_9_10 crit) items;
                         bad = high_fails floor_c vs;
                         st1 = log_verdicts (audit_rows 0 (et_fact_type t) (sc_name crit) vs) st;
                         st2 = mark_retried key st1
                     in if \<not> wants_retry cfg bad (high_passes floor_c vs) then st1
                        else if \<not> is_custom \<and> response_key_of (et_fact_type t) = [] then st2
                        else retry_facts cfg env context
                               (retry_request_for (sc_name crit) (sc_rubric_9_10 crit) (map (xv_missing \<circ> snd) bad)
                                  (map (wrong_value \<circ> fst) bad)
                                  (if is_custom then ''  Target: '' @ et_name t @ dash @ et_description t @ [CHR 0x0A] else [])
                                  (if is_custom then ''extracted_facts'' else response_key_of (et_fact_type t))
                                  (focused_schema (et_fact_type t) (if is_custom then target_id else [])))
                               (if is_custom then parse_target env target_id else parse_into env (et_fact_type t))
                               (et_fact_type t) (''scoring/'' @ sc_name crit)
                               (''scoring/'' @ sc_name crit @ ''/'' @ et_fact_type t) st2)"

definition scoring_pairs :: "evaluation_setup \<Rightarrow> (scoring_criterion \<times> string) list" where
  "scoring_pairs setup =
     concat (map (\<lambda>c. map (Pair c) (sc_extraction_target_ids c)) (es_scoring_criteria setup))"

definition run_extraction_critic_retries ::
  "platform_cfg \<Rightarrow> extraction_env \<Rightarrow> string \<Rightarrow> evaluation_setup \<Rightarrow> facts_state \<Rightarrow> facts_state" where
  "run_extraction_critic_retries cfg env context setup st =
     (let st1 = foldl (retry_standard cfg env context setup) st standard_types;
          st2 = foldl (retry_custom cfg env context setup) st1 (es_mandatory_checks setup)
      in foldl (retry_scoring cfg env context setup) st2 (scoring_pairs setup))"

section \<open>The agent\<close>

definition relevant_chunks :: "retrieval_output \<Rightarrow> retrieved_chunk list" where
  "relevant_chunks ro =
     (let kept = filter (\<lambda>c. rc_section_type c \<noteq> ''boilerplate'') (ro_chunks ro)
      in if kept = [] then ro_chunks ro else kept)"

definition source_chunks_of :: "retrieval_output \<Rightarrow> (string, string) dict" where
  "source_chunks_of ro = dict_of (map (\<lambda>c. (rc_chunk_id c, rc_text c)) (relevant_chunks ro))"

definition chunk_context :: "retrieval_output \<Rightarrow> string" where
  "chunk_context ro =
     join ([CHR 0x0A, CHR 0x0A] @ ''---'' @ [CHR 0x0A, CHR 0x0A])
       (map (\<lambda>c. ''['' @ rc_chunk_id c @ ''] ['' @ rc_section_type c @ '']'' @ [CHR 0x0A] @ rc_text c) (relevant_chunks ro))"

definition feedback_block :: "string \<Rightarrow> string" where
  "feedback_block fb =
     (if fb = [] then []
      else let bar = replicate 40 (CHR ''='') @ [CHR 0x0A] in bar @ fb @ [CHR 0x0A] @ bar @ [CHR 0x0A])"

text \<open>\<open>parse(raw.get(key, []))\<close>, with the warnings of the parsers in the order they run.\<close>

definition parse_section ::
  "(json \<Rightarrow> ('a list \<times> string list) result) \<Rightarrow> json \<Rightarrow> string \<Rightarrow> ('a list \<times> string list) result" where
  "parse_section parse raw k = rbind (jget raw k (JArr [])) parse"

definition initial_facts :: "extraction_env \<Rightarrow> json \<Rightarrow> string list \<Rightarrow> facts_state result" where
  "initial_facts env raw warnings =
     rbind (parse_section parse_certifications raw ''certifications'') (\<lambda>(certs, w1).
     rbind (parse_section (parse_insurance env) raw ''insurance'') (\<lambda>(ins, w2).
     rbind (parse_section (parse_slas env) raw ''slas'') (\<lambda>(slas, w3).
     rbind (parse_section (parse_projects env) raw ''projects'') (\<lambda>(projects, w4).
     rbind (parse_section (parse_pricing env) raw ''pricing'') (\<lambda>(pricing, w5).
     rbind (parse_section (parse_extracted_facts env) raw ''extracted_facts'') (\<lambda>(facts, w6).
     Inr \<lparr>fs_certifications = certs, fs_insurance = ins, fs_slas = slas, fs_projects = projects, fs_pricing = pricing,
          fs_extracted_facts = facts, fs_retried_fact_types = [],
          fs_warnings = warnings @ w1 @ w2 @ w3 @ w4 @ w5 @ w6, fs_audit = [], fs_requests = []\<rparr>))))))"

definition extraction_of :: "facts_state \<Rightarrow> extraction_target list \<Rightarrow> (string, string) dict \<Rightarrow> extraction_output" where
  "extraction_of st targets source_chunks =
     \<lparr>xo_source_chunk_ids = dict_keys source_chunks, xo_certifications = fs_certifications st,
      xo_insurance = fs_insurance st, xo_slas = fs_slas st, xo_projects = fs_projects st, xo_pricing = fs_pricing st,
      xo_extracted_facts = fs_extracted_facts st, xo_extraction_completeness = extraction_completeness st targets,
      xo_hallucination_risk = hallucination_risk (all_facts st) source_chunks, xo_warnings = fs_warnings st,
      xo_retried_fact_types = fs_retried_fact_types st\<rparr>"

definition make_extraction_output :: "extraction_output \<Rightarrow> extraction_output result" where
  "make_extraction_output x =
     rbind (as_unit (xo_extraction_completeness x)) (\<lambda>_. rbind (as_unit (xo_hallucination_risk x)) (\<lambda>_. Inr x))"

definition save_failed_flag :: "exn \<Rightarrow> critic_flag" where
  "save_failed_flag e =
     make_flag HARD ''extraction_agent'' ''fact_store_save_failed''
       (''Extracted facts could not be persisted to PostgreSQL: '' @ exn_str e)
       (''Do not evaluate'' @ dash @ ''facts were not saved. Investigate the DB write and re-run extraction.'')"

definition save_unless_blocked :: "extraction_env \<Rightarrow> string \<Rightarrow> extraction_output \<Rightarrow> critic_output \<Rightarrow> critic_output" where
  "save_unless_blocked env doc_id out critic =
     (if co_overall_verdict critic = BLOCKED then critic
      else case xe_save env out doc_id of
          Inr _ \<Rightarrow> critic
        | Inl e \<Rightarrow>
            let new_flags = co_flags critic @ [save_failed_flag e]
            in critic\<lparr>co_flags := new_flags, co_hard_flag_count := co_hard_flag_count critic + 1,
                 co_overall_verdict := verdict new_flags, co_requires_human_review := True\<rparr>)"

definition run_extraction_agent ::
  "platform_cfg \<Rightarrow> extraction_env \<Rightarrow> retrieval_output \<Rightarrow> string \<Rightarrow> string \<Rightarrow> evaluation_setup \<Rightarrow> string \<Rightarrow>
   (extraction_output \<times> critic_output) result" where
  "run_extraction_agent cfg env ro org_id doc_id setup critic_feedback =
     (let source_chunks = source_chunks_of ro; context = chunk_context ro; targets = es_extraction_targets setup
      in if strip context = []
         then let out = \<lparr>xo_source_chunk_ids = [], xo_certifications = [], xo_insurance = [], xo_slas = [], xo_projects = [],
                    xo_pricing = [], xo_extracted_facts = [], xo_extraction_completeness = 0, xo_hallucination_risk = 0,
                    xo_warnings = [''No chunks in retrieval output'' @ dash @ ''nothing to extract''],
                    xo_retried_fact_types = []\<rparr>
              in Inr (out, critic_after_extraction out source_chunks)
         else rbind (xe_extract env (feedback_block critic_feedback) context targets) (\<lambda>reply.
              rbind (case reply of None \<Rightarrow> initial_facts env (JObj []) [''LLM returned invalid JSON'']
                                 | Some raw \<Rightarrow> initial_facts env raw []) (\<lambda>st.
              let st' = (if org_id = [] then st else run_extraction_critic_retries cfg env context setup st)
              in rbind (make_extraction_output (extraction_of st' targets source_chunks)) (\<lambda>out.
                 Inr (out, save_unless_blocked env doc_id out (critic_after_extraction out source_chunks))))))"

end
