(* ===== verification/Fact_Laws.thy ===== *)
theory Fact_Laws
  imports Fact_Retry Critic_Laws
begin

text \<open>
  The extraction agent: its output always validates, its three retry loops share one contract (a key
  is marked before its only request to the model), and a verdict other than BLOCKED means the facts
  were written.
\<close>

section \<open>The output\<close>

lemma count_if_fraction: "0 \<le> py_round 3 (of_nat (count_if P xs) / of_nat (length xs)) \<and>
    py_round 3 (of_nat (count_if P xs) / of_nat (length xs)) \<le> 1"
  using count_if_le[of P xs] by (intro py_round_unit) (auto simp: divide_le_eq_1)

lemma completeness_unit: "0 \<le> extraction_completeness st ts \<and> extraction_completeness st ts \<le> 1"
  using count_if_fraction[of id "scored_points st ts"] by (simp add: extraction_completeness_def Let_def)

lemma risk_unit: "0 \<le> hallucination_risk items chunks \<and> hallucination_risk items chunks \<le> 1"
  using count_if_fraction[of _ items] by (simp add: hallucination_risk_def)

lemma make_extraction_output_of [simp]:
  "make_extraction_output (extraction_of st ts chunks) = Inr (extraction_of st ts chunks)"
  using completeness_unit risk_unit
  by (simp add: make_extraction_output_def extraction_of_def as_unit_def)

section \<open>Saving\<close>

lemma save_failed_blocks:
  assumes "xe_save env out doc_id = Inl e"
  shows "co_overall_verdict (save_unless_blocked env doc_id out (critic_after_extraction out chunks)) = BLOCKED"
proof (cases "co_overall_verdict (critic_after_extraction out chunks) = BLOCKED")
  case False
  have "\<not> escalates (save_failed_flag e)" by (simp add: save_failed_flag_def rec_eval)
  moreover have "cf_severity (save_failed_flag e) = HARD" by (simp add: save_failed_flag_def)
  moreover have "\<not> escalates f" if "f \<in> set (co_flags (critic_after_extraction out chunks))" "cf_severity f = HARD" for f
    using extraction_critic.no_escalation[of f "(out, chunks)"] that by simp
  ultimately show ?thesis
    using False assms by (auto simp: save_unless_blocked_def Let_def verdict_BLOCKED_iff)
qed (simp add: save_unless_blocked_def)

lemma strip_context: "ro_chunks ro \<noteq> [] \<Longrightarrow> strip (chunk_context ro) \<noteq> []"
proof -
  assume "ro_chunks ro \<noteq> []"
  then have "relevant_chunks ro \<noteq> []" by (auto simp: relevant_chunks_def Let_def)
  then obtain c cs where "relevant_chunks ro = c # cs" by (cases "relevant_chunks ro") auto
  then obtain rest where "chunk_context ro = CHR ''['' # rest"
    by (cases cs) (auto simp: chunk_context_def)
  then show ?thesis by (simp add: strip_def is_space_def dropWhile_eq_Nil_conv)
qed

lemma agent_saves:
  assumes "run_extraction_agent cfg env ro org_id doc_id setup fb = Inr (out, critic)"
    and "ro_chunks ro \<noteq> []" and "co_overall_verdict critic \<noteq> BLOCKED"
  shows "xe_save env out doc_id = Inr ()"
proof -
  have "critic = save_unless_blocked env doc_id out (critic_after_extraction out (source_chunks_of ro))"
    using assms(1) strip_context[OF assms(2)]
    by (auto simp: run_extraction_agent_def Let_def rbind_Inr_iff split: option.splits)
  then show ?thesis using save_failed_blocks assms(3) by (cases "xe_save env out doc_id") auto
qed

section \<open>The contract of a retry loop\<close>

definition untouched :: "facts_state \<Rightarrow> facts_state \<Rightarrow> bool" where
  "untouched st st' \<longleftrightarrow> fs_retried_fact_types st' = fs_retried_fact_types st \<and> fs_requests st' = fs_requests st"

definition asked :: "string \<Rightarrow> facts_state \<Rightarrow> facts_state \<Rightarrow> bool" where
  "asked k st st' \<longleftrightarrow> k \<notin> set (fs_retried_fact_types st) \<and>
     fs_retried_fact_types st' = fs_retried_fact_types st @ [k] \<and> (\<exists>r. fs_requests st' = fs_requests st @ [r])"

definition balanced :: "facts_state \<Rightarrow> bool" where
  "balanced st \<longleftrightarrow> distinct (fs_retried_fact_types st) \<and> length (fs_requests st) = length (fs_retried_fact_types st)"

locale keyed_retry =
  fixes run :: "facts_state \<Rightarrow> 'a \<Rightarrow> facts_state" and key :: "'a \<Rightarrow> string"
  assumes once: "untouched st (run st a) \<or> asked (key a) st (run st a)"
begin

lemma step_balanced: "balanced st \<Longrightarrow> balanced (run st a)"
  using once[of st a] by (auto simp: balanced_def untouched_def asked_def)

lemma fold_balanced: "balanced st \<Longrightarrow> balanced (foldl run st as)"
  by (induction as arbitrary: st) (simp_all add: step_balanced)

lemma fold_keys: "set (fs_retried_fact_types (foldl run st as)) \<subseteq> set (fs_retried_fact_types st) \<union> key ` set as"
proof (induction as arbitrary: st)
  case (Cons a as)
  have "set (fs_retried_fact_types (run st a)) \<subseteq> insert (key a) (set (fs_retried_fact_types st))"
    using once[of st a] by (auto simp: untouched_def asked_def)
  with Cons[of "run st a"] show ?case by auto
qed simp

end

text \<open>A parser's assignment changes neither the keys nor the requests.\<close>

definition assigns_facts :: "(json \<Rightarrow> parsed_facts result) \<Rightarrow> bool" where
  "assigns_facts parse \<longleftrightarrow> (\<forall>raw items assign ws st. parse raw = Inr (items, assign, ws) \<longrightarrow> untouched st (assign st))"

lemma assigns_rbind:
  "(\<And>xs st. untouched st (g xs st)) \<Longrightarrow> assigns_facts (\<lambda>raw. rbind (p raw) (\<lambda>(xs, ws). Inr (f xs, g xs, ws)))"
  by (auto simp: assigns_facts_def rbind_Inr_iff)

lemma assigns_if: "assigns_facts A \<Longrightarrow> assigns_facts B \<Longrightarrow> assigns_facts (\<lambda>raw. if c then A raw else B raw)"
  by (simp add: assigns_facts_def)

lemma parse_into_assigns: "assigns_facts (parse_into env ft)"
  unfolding parse_into_def[abs_def] by (intro assigns_if assigns_rbind) (simp_all add: untouched_def)

lemma parse_target_assigns: "assigns_facts (parse_target env tid)"
  unfolding assigns_facts_def by (auto simp: parse_target_def untouched_def rbind_Inr_iff)

lemma warn_sel [simp]: "fs_retried_fact_types (warn w st) = fs_retried_fact_types st" "fs_requests (warn w st) = fs_requests st"
  by (simp_all add: warn_def)

lemma retry_facts_asks:
  assumes "assigns_facts parse"
  shows "fs_retried_fact_types (retry_facts cfg env ctxt req parse ft a b st) = fs_retried_fact_types st \<and>
    fs_requests (retry_facts cfg env ctxt req parse ft a b st) = fs_requests st @ [req]"
proof -
  have keep: "untouched s (assign s)" if "rbind (xe_retry env req ctxt) (\<lambda>reply. case reply of
              None \<Rightarrow> Inl (ValueError ''invalid JSON'')
            | Some j \<Rightarrow> rbind (jget j (rq_response_key req) (JArr [])) parse) = Inr (items, assign, ws)"
    for items assign ws s
    using that assms unfolding assigns_facts_def by (auto simp: rbind_Inr_iff split: option.splits) blast
  then show ?thesis
    unfolding retry_facts_def Let_def by (auto simp: untouched_def split: sum.split)
qed

lemma mark_log_sel [simp]:
  "fs_retried_fact_types (mark_retried k st) = fs_retried_fact_types st @ [k]"
  "fs_requests (mark_retried k st) = fs_requests st"
  "fs_retried_fact_types (log_verdicts rows st) = fs_retried_fact_types st"
  "fs_requests (log_verdicts rows st) = fs_requests st"
  by (simp_all add: mark_retried_def log_verdicts_def)

interpretation standard_loop: keyed_retry "retry_standard cfg env ctxt stp" "\<lambda>ft. ft" for cfg env ctxt stp
  by unfold_locales
    (auto simp: retry_standard_def Let_def untouched_def asked_def retry_facts_asks[OF parse_into_assigns] split: list.split)

definition custom_key :: "evaluation_setup \<Rightarrow> mandatory_check \<Rightarrow> string" where
  "custom_key setup c = (case dict_get (targets_by_id setup) (mc_extraction_target_id c) of
     None \<Rightarrow> [] | Some t \<Rightarrow> ''custom:'' @ et_target_id t)"

interpretation custom_loop: keyed_retry "retry_custom cfg env ctxt stp" "custom_key stp" for cfg env ctxt stp
  by unfold_locales
    (auto simp: retry_custom_def Let_def untouched_def asked_def custom_key_def retry_facts_asks[OF parse_target_assigns]
      split: option.split)

lemma facts_of_standard: "facts_of ft st \<noteq> [] \<Longrightarrow> response_key_of ft \<noteq> []"
  by (auto simp: facts_of_def response_key_of_def split: if_splits)

interpretation scoring_loop: keyed_retry "retry_scoring cfg env ctxt stp"
    "\<lambda>(c, t). scoring_key (sc_criterion_id c) t" for cfg env ctxt stp
proof (unfold_locales, goal_cases)
  case (1 st a)
  obtain crit tid where a: "a = (crit, tid)" by fastforce
  let ?run = "retry_scoring cfg env ctxt stp st (crit, tid)"
  have "untouched st ?run \<or> asked (scoring_key (sc_criterion_id crit) tid) st ?run"
  proof (cases "dict_get (targets_by_id stp) tid")
    case None
    then show ?thesis by (simp add: retry_scoring_def untouched_def)
  next
    case (Some t)
    let ?ft = "et_fact_type t"
    let ?items = "if ?ft = ''custom'' then facts_for_target tid st else facts_of ?ft st"
    have key: "?items \<noteq> [] \<Longrightarrow> ?ft \<noteq> ''custom'' \<Longrightarrow> response_key_of ?ft \<noteq> []"
      using facts_of_standard by simp
    show ?thesis
      unfolding retry_scoring_def Let_def prod.case Some option.case
      using key
      by (simp add: untouched_def asked_def retry_facts_asks[OF parse_into_assigns] retry_facts_asks[OF parse_target_assigns])
  qed
  then show ?case by (simp add: a)
qed

lemma retries_balanced: "balanced st \<Longrightarrow> balanced (run_extraction_critic_retries cfg env ctxt setup st)"
  by (simp add: run_extraction_critic_retries_def Let_def standard_loop.fold_balanced custom_loop.fold_balanced
      scoring_loop.fold_balanced)

lemma retries_keys:
  "set (fs_retried_fact_types (run_extraction_critic_retries cfg env ctxt setup st)) \<subseteq>
     set (fs_retried_fact_types st) \<union> set standard_types \<union> custom_key setup ` set (es_mandatory_checks setup) \<union>
     (\<lambda>(c, t). scoring_key (sc_criterion_id c) t) ` set (scoring_pairs setup)"
  unfolding run_extraction_critic_retries_def Let_def
  using standard_loop.fold_keys[of cfg env ctxt "setup" st standard_types]
    custom_loop.fold_keys[of cfg env ctxt "setup" "foldl (retry_standard cfg env ctxt setup) st standard_types" "es_mandatory_checks setup"]
    scoring_loop.fold_keys[of cfg env ctxt "setup" "foldl (retry_custom cfg env ctxt setup)
      (foldl (retry_standard cfg env ctxt setup) st standard_types) (es_mandatory_checks setup)" "scoring_pairs setup"]
  by auto

lemma retries_bounded:
  assumes "fs_retried_fact_types st = []" and "fs_requests st = []"
  shows "length (fs_requests (run_extraction_critic_retries cfg env ctxt setup st)) \<le>
    5 + length (es_mandatory_checks setup) + length (scoring_pairs setup)"
proof -
  let ?s = "run_extraction_critic_retries cfg env ctxt setup st"
  let ?k = "\<lambda>(c, t). scoring_key (sc_criterion_id c) t"
  let ?A = "set standard_types" and ?B = "custom_key setup ` set (es_mandatory_checks setup)"
    and ?C = "?k ` set (scoring_pairs setup)"
  have b: "balanced ?s" by (rule retries_balanced) (simp add: balanced_def assms)
  have "length (fs_requests ?s) = card (set (fs_retried_fact_types ?s))"
    using b by (simp add: balanced_def distinct_card)
  also have "... \<le> card (?A \<union> ?B \<union> ?C)"
    using retries_keys[of cfg env ctxt "setup" st] assms(1) by (intro card_mono) auto
  also have "... \<le> card ?A + card ?B + card ?C"
    using card_Un_le[of "?A \<union> ?B" ?C] card_Un_le[of ?A ?B] by linarith
  also have "card ?A = 5" by (simp add: standard_types_def)
  also have "5 + card ?B + card ?C \<le> 5 + length (es_mandatory_checks setup) + length (scoring_pairs setup)"
    using card_image_le[of "set (es_mandatory_checks setup)" "custom_key setup"]
      card_image_le[of "set (scoring_pairs setup)" ?k]
      card_length[of "es_mandatory_checks setup"] card_length[of "scoring_pairs setup"] by simp
  finally show ?thesis .
qed

section \<open>A retry that answers nothing\<close>

lemma empty_reply_erases:
  assumes "ft \<in> set standard_types" and "xe_retry env req ctxt = Inr (Some (JObj kvs))"
    and "map_of kvs (rq_response_key req) \<in> {None, Some (JArr [])}"
  shows "facts_of ft (retry_facts cfg env ctxt req (parse_into env ft) ft a b st) = [] \<and>
    fs_warnings (retry_facts cfg env ctxt req (parse_into env ft) ft a b st) = fs_warnings st"
proof -
  have "jget (JObj kvs) (rq_response_key req) (JArr []) = Inr (JArr [])" using assms(3) by auto
  then show ?thesis using assms(1,2)
    by (auto simp: standard_types_def retry_facts_def parse_into_def parse_insurance_def parse_certifications_def
        parse_slas_def parse_projects_def parse_pricing_def parse_list_def facts_of_def judge_items_def high_fails_def)
qed

end
