(* ===== verification/Demo_Facts.thy ===== *)
theory Demo_Facts
  imports Demo Fact_Laws
begin

text \<open>Concrete inputs of the extraction agent for the witnesses. Nothing here models code.\<close>

definition demo_retrieval :: retrieval_output where
  "demo_retrieval = \<lparr>ro_original_query = ''q'',
     ro_chunks = [\<lparr>rc_chunk_id = ''c1'', rc_text = ''ISO 27001 certified'', rc_section_type = ''requirement_response'',
       rc_final_score = 1, rc_is_answer_bearing = True\<rparr>],
     ro_total_candidates = 1, ro_confidence = 1, ro_empty_retrieval = False, ro_reranking_degraded = False, ro_warnings = []\<rparr>"

definition demo_certification :: json where
  "demo_certification = JObj [(''standard_name'', JStr ''ISO 27001''), (''confidence'', JNum 1),
     (''grounding_quote'', JStr ''ISO 27001 certified''), (''source_chunk_id'', JStr ''c1'')]"

text \<open>The model extracts one certification, the judge finds it inadequate, the retry answers \<open>{}\<close>.\<close>

definition demo_extraction_env :: "unit result \<Rightarrow> extraction_env" where
  "demo_extraction_env saved =
     \<lparr>xe_float = to_float, xe_int = (\<lambda>_. Inl (ValidationError ''int'')),
      xe_bool = (\<lambda>v. case v of JBool b \<Rightarrow> Inr b | _ \<Rightarrow> Inl (ValidationError ''bool'')),
      xe_extract = (\<lambda>_ _ _. Inr (Some (JObj [(''certifications'', JArr [demo_certification])]))),
      xe_retry = (\<lambda>_ _. Inr (Some (JObj []))),
      xe_judge = (\<lambda>_ _ _ _ _. Inr (Some (JObj [(''adequate'', JBool False), (''confidence'', JNum 1),
        (''missing'', JStr ''expiry date'')]))),
      xe_save = (\<lambda>_ _. saved)\<rparr>"

definition demo_extraction_world :: world where
  "demo_extraction_world = demo_world\<lparr>wd_extract := (\<lambda>vid k ro fb.
     run_extraction_agent default_cfg (demo_extraction_env (Inl (ExternalError ''down''))) ro ''org'' ''doc'' demo_setup fb)\<rparr>"

definition demo_facts_state :: facts_state where
  "demo_facts_state = \<lparr>fs_certifications = [\<lparr>xc_standard_name = ''ISO 27001'', xc_version = None, xc_cert_number = None,
       xc_issuing_body = None, xc_scope = None, xc_valid_until = None, xc_status = NOT_MENTIONED, xc_confidence = 1,
       xc_grounding_quote = ''ISO 27001 certified'', xc_source_chunk_id = ''c1''\<rparr>],
     fs_insurance = [], fs_slas = [], fs_projects = [], fs_pricing = [], fs_extracted_facts = [],
     fs_retried_fact_types = [], fs_warnings = [], fs_audit = [], fs_requests = []\<rparr>"

definition demo_retry :: retry_request where
  "demo_retry = retry_request_for ''ISO'' [] [''expiry date''] [''ISO 27001''] [] ''certifications''
     (focused_schema ''certification'' [])"

definition demo_retrieved :: pipeline_state where
  "demo_retrieved = demo_state\<lparr>ps_retrieval_output_objects := [(''a'', demo_retrieval)]\<rparr>"

end
