(* ===== verification/Jobs.thy ===== *)
theory Jobs
  imports Prelude
begin

text \<open>
  The tables of the background ingestion (\<open>rfps\<close>, \<open>ingestion_jobs\<close>, \<open>event_log\<close>,
  \<open>invited_vendors\<close>), the statements of \<open>app/db/fact_store.py\<close>, \<open>app/jobs\<close> and
  \<open>app/pipeline/ingestion_graph.py\<close> that change them, and the per-job state machine
  \<open>process_job\<close>. A definition on \<open>tables\<close> is one database transaction, so it is atomic; the clock
  is an argument, identifiers drawn by the database are consecutive numbers, and writes do not fail.
  The injected ingestion and extraction runners, the setup lookup and the file system are the
  parameters of \<open>job_env\<close> and may raise.
\<close>

section \<open>Statuses\<close>

datatype submission_status = RfpOpen | RfpClosed | RfpProcessing | RfpFactsReady | RfpEvaluated

datatype autonomy_mode = Manual | AutoToEvaluate | AutoToReport

datatype job_status =
    JobReceived | JobSuperseded | JobQueued | JobProcessing | JobFactsReady | JobFailed
  | JobDuplicate | JobNeedsAttribution | JobRejectedLate

fun submission_status_value :: "submission_status \<Rightarrow> string" where
  "submission_status_value RfpOpen = ''open''"
| "submission_status_value RfpClosed = ''closed''"
| "submission_status_value RfpProcessing = ''processing''"
| "submission_status_value RfpFactsReady = ''facts_ready''"
| "submission_status_value RfpEvaluated = ''evaluated''"

fun autonomy_mode_value :: "autonomy_mode \<Rightarrow> string" where
  "autonomy_mode_value Manual = ''manual''"
| "autonomy_mode_value AutoToEvaluate = ''auto_to_evaluate''"
| "autonomy_mode_value AutoToReport = ''auto_to_report''"

fun job_status_value :: "job_status \<Rightarrow> string" where
  "job_status_value JobReceived = ''received''"
| "job_status_value JobSuperseded = ''superseded''"
| "job_status_value JobQueued = ''queued''"
| "job_status_value JobProcessing = ''processing''"
| "job_status_value JobFactsReady = ''facts_ready''"
| "job_status_value JobFailed = ''failed''"
| "job_status_value JobDuplicate = ''duplicate''"
| "job_status_value JobNeedsAttribution = ''needs_attribution''"
| "job_status_value JobRejectedLate = ''rejected_late''"

text \<open>The lifecycle the domain model declares: \<open>_ALLOWED_TRANSITIONS\<close> and \<open>can_transition\<close>.\<close>

fun allowed_transitions :: "submission_status \<Rightarrow> submission_status list" where
  "allowed_transitions RfpOpen = [RfpClosed]"
| "allowed_transitions RfpClosed = [RfpProcessing]"
| "allowed_transitions RfpProcessing = [RfpFactsReady]"
| "allowed_transitions RfpFactsReady = [RfpEvaluated]"
| "allowed_transitions RfpEvaluated = []"

definition can_transition :: "submission_status \<Rightarrow> submission_status \<Rightarrow> bool" where
  "can_transition current target \<longleftrightarrow> target \<in> set (allowed_transitions current)"

section \<open>Tables\<close>

record rfp_row =
  rf_id :: string
  rf_org :: string
  rf_status :: submission_status
  rf_deadline :: "int option"
  rf_autonomy :: autonomy_mode

record job =
  jb_id :: nat
  jb_org :: string
  jb_rfp :: string
  jb_vendor :: string
  jb_content_hash :: string
  jb_filename :: string
  jb_source_uri :: string
  jb_status :: job_status
  jb_doc_id :: "string option"
  jb_error :: "string option"
  jb_superseded_by :: "nat option"

record lifecycle_event =
  le_type :: string
  le_org :: string
  le_rfp :: string
  le_payload :: "(string \<times> string) list"

record tables =
  tb_rfps :: "rfp_row list"
  tb_jobs :: "job list"
  tb_events :: "lifecycle_event list"
  tb_invited :: "(string \<times> string) list"
  tb_next :: nat

text \<open>\<open>UPDATE ... SET ... WHERE ...\<close>.\<close>

definition update_where :: "('a \<Rightarrow> bool) \<Rightarrow> ('a \<Rightarrow> 'a) \<Rightarrow> 'a list \<Rightarrow> 'a list" where
  "update_where P f xs = map (\<lambda>x. if P x then f x else x) xs"

definition update_jobs :: "(job \<Rightarrow> bool) \<Rightarrow> (job \<Rightarrow> job) \<Rightarrow> tables \<Rightarrow> tables" where
  "update_jobs P f t = t\<lparr>tb_jobs := update_where P f (tb_jobs t)\<rparr>"

definition update_rfps :: "(rfp_row \<Rightarrow> bool) \<Rightarrow> (rfp_row \<Rightarrow> rfp_row) \<Rightarrow> tables \<Rightarrow> tables" where
  "update_rfps P f t = t\<lparr>tb_rfps := update_where P f (tb_rfps t)\<rparr>"

section \<open>Fact-store statements of the watcher\<close>

definition get_rfp_lifecycle :: "string \<Rightarrow> tables \<Rightarrow> rfp_row option" where
  "get_rfp_lifecycle rfp_id t = List.find (\<lambda>r. rf_id r = rfp_id) (tb_rfps t)"

definition is_invited_vendor :: "string \<Rightarrow> string \<Rightarrow> tables \<Rightarrow> bool" where
  "is_invited_vendor rfp_id vendor_id t \<longleftrightarrow> (rfp_id, vendor_id) \<in> set (tb_invited t)"

definition same_submission :: "string \<Rightarrow> string \<Rightarrow> string \<Rightarrow> job \<Rightarrow> bool" where
  "same_submission rfp_id vendor_id content_hash j \<longleftrightarrow>
     jb_rfp j = rfp_id \<and> jb_vendor j = vendor_id \<and> jb_content_hash j = content_hash"

definition new_job ::
  "nat \<Rightarrow> string \<Rightarrow> string \<Rightarrow> string \<Rightarrow> string \<Rightarrow> string \<Rightarrow> string \<Rightarrow> job_status \<Rightarrow> job" where
  "new_job jid org_id rfp_id vendor_id content_hash filename source_uri status =
     \<lparr>jb_id = jid, jb_org = org_id, jb_rfp = rfp_id, jb_vendor = vendor_id, jb_content_hash = content_hash,
      jb_filename = filename, jb_source_uri = source_uri, jb_status = status, jb_doc_id = None,
      jb_error = None, jb_superseded_by = None\<rparr>"

text \<open>\<open>INSERT ... ON CONFLICT (rfp_id, vendor_id, content_hash) DO NOTHING RETURNING job_id\<close>.\<close>

definition enqueue_ingestion_job ::
  "string \<Rightarrow> string \<Rightarrow> string \<Rightarrow> string \<Rightarrow> string \<Rightarrow> string \<Rightarrow> job_status \<Rightarrow> tables \<Rightarrow> tables \<times> nat option" where
  "enqueue_ingestion_job org_id rfp_id vendor_id content_hash filename source_uri status t =
     (if list_ex (same_submission rfp_id vendor_id content_hash) (tb_jobs t) then (t, None)
      else (t\<lparr>tb_jobs := tb_jobs t @
                [new_job (tb_next t) org_id rfp_id vendor_id content_hash filename source_uri status],
              tb_next := tb_next t + 1\<rparr>, Some (tb_next t)))"

definition prior_received :: "string \<Rightarrow> string \<Rightarrow> nat \<Rightarrow> job \<Rightarrow> bool" where
  "prior_received rfp_id vendor_id new_job_id j \<longleftrightarrow>
     jb_rfp j = rfp_id \<and> jb_vendor j = vendor_id \<and> jb_status j = JobReceived \<and> jb_id j \<noteq> new_job_id"

definition supersede_prior_received :: "string \<Rightarrow> string \<Rightarrow> nat \<Rightarrow> tables \<Rightarrow> tables \<times> nat" where
  "supersede_prior_received rfp_id vendor_id new_job_id t =
     (update_jobs (prior_received rfp_id vendor_id new_job_id)
        (\<lambda>j. j\<lparr>jb_status := JobSuperseded, jb_superseded_by := Some new_job_id\<rparr>) t,
      count_if (prior_received rfp_id vendor_id new_job_id) (tb_jobs t))"

definition invite_vendor :: "string \<Rightarrow> string \<Rightarrow> tables \<Rightarrow> tables" where
  "invite_vendor rfp_id vendor_id t =
     (if is_invited_vendor rfp_id vendor_id t then t
      else t\<lparr>tb_invited := tb_invited t @ [(rfp_id, vendor_id)]\<rparr>)"

definition emit_event :: "string \<Rightarrow> string \<Rightarrow> string \<Rightarrow> (string \<times> string) list \<Rightarrow> tables \<Rightarrow> tables" where
  "emit_event event_type org_id rfp_id payload t =
     t\<lparr>tb_events := tb_events t @
       [\<lparr>le_type = event_type, le_org = org_id, le_rfp = rfp_id, le_payload = payload\<rparr>]\<rparr>"

section \<open>The per-job state machine\<close>

record job_env =
  je_setup_of :: "string \<Rightarrow> string option result"
  je_read_source :: "string \<Rightarrow> string option result"
  je_ingest :: "job \<Rightarrow> string \<Rightarrow> string \<Rightarrow> string \<Rightarrow> string result"
    \<comment> \<open>job, content, filename, setup id; the document id\<close>
  je_extract :: "job \<Rightarrow> string \<Rightarrow> string \<Rightarrow> nat result"
    \<comment> \<open>job, document id, setup id; the number of facts\<close>

record job_result =
  jr_job_id :: nat
  jr_status :: string
  jr_facts_written :: nat
  jr_error :: "string option"

definition is_queued :: "nat \<Rightarrow> job \<Rightarrow> bool" where
  "is_queued jid j \<longleftrightarrow> jb_id j = jid \<and> jb_status j = JobQueued"

definition claim_for_processing :: "nat \<Rightarrow> tables \<Rightarrow> tables \<times> job option" where
  "claim_for_processing jid t =
     (case List.find (is_queued jid) (tb_jobs t) of
        None \<Rightarrow> (t, None)
      | Some j \<Rightarrow> (update_jobs (is_queued jid) (\<lambda>j. j\<lparr>jb_status := JobProcessing\<rparr>) t, Some j))"

definition mark_facts_ready :: "nat \<Rightarrow> string \<Rightarrow> tables \<Rightarrow> tables" where
  "mark_facts_ready jid doc_id t =
     update_jobs (\<lambda>j. jb_id j = jid) (\<lambda>j. j\<lparr>jb_status := JobFactsReady, jb_doc_id := Some doc_id\<rparr>) t"

definition mark_failed :: "nat \<Rightarrow> string \<Rightarrow> tables \<Rightarrow> tables" where
  "mark_failed jid reason t =
     update_jobs (\<lambda>j. jb_id j = jid) (\<lambda>j. j\<lparr>jb_status := JobFailed, jb_error := Some (take 1000 reason)\<rparr>) t"

text \<open>\<open>Path(source_uri).name\<close>: the last component that is neither empty nor a dot.\<close>

fun path_parts :: "string \<Rightarrow> string \<Rightarrow> string list" where
  "path_parts acc [] = [rev acc]"
| "path_parts acc (c # cs) = (if c = CHR ''/'' then rev acc # path_parts [] cs else path_parts (c # acc) cs)"

definition path_name :: "string \<Rightarrow> string" where
  "path_name p = (case rev (filter (\<lambda>q. q \<noteq> [] \<and> q \<noteq> ''.'') (path_parts [] p)) of [] \<Rightarrow> [] | q # _ \<Rightarrow> q)"

text \<open>The body of the \<open>try\<close> of \<open>process_job\<close>: \<open>Inl\<close> is the reason the job fails with, from an
  early return or from the caught exception, \<open>Inr\<close> the document and the number of facts.\<close>

definition job_outcome :: "job_env \<Rightarrow> job \<Rightarrow> string + (string \<times> nat)" where
  "job_outcome env j =
     (case je_setup_of env (jb_rfp j) of
        Inl e \<Rightarrow> Inl (exn_str e)
      | Inr None \<Rightarrow> Inl ''no evaluation_setup for this rfp_id''
      | Inr (Some setup_id) \<Rightarrow>
          (case je_read_source env (jb_source_uri j) of
             Inl e \<Rightarrow> Inl (exn_str e)
           | Inr None \<Rightarrow> Inl (''file missing: '' @ jb_source_uri j)
           | Inr (Some content) \<Rightarrow>
               (case je_ingest env j content
                       (if jb_filename j \<noteq> [] then jb_filename j else path_name (jb_source_uri j)) setup_id of
                  Inl e \<Rightarrow> Inl (exn_str e)
                | Inr doc_id \<Rightarrow>
                    (case je_extract env j doc_id setup_id of
                       Inl e \<Rightarrow> Inl (exn_str e)
                     | Inr facts_written \<Rightarrow> Inr (doc_id, facts_written)))))"

definition settle_job :: "nat \<Rightarrow> string + (string \<times> nat) \<Rightarrow> tables \<Rightarrow> tables" where
  "settle_job jid outcome t =
     (case outcome of Inl reason \<Rightarrow> mark_failed jid reason t | Inr (doc_id, _) \<Rightarrow> mark_facts_ready jid doc_id t)"

definition result_of :: "nat \<Rightarrow> string + (string \<times> nat) \<Rightarrow> job_result" where
  "result_of jid outcome = (case outcome of
     Inl reason \<Rightarrow> \<lparr>jr_job_id = jid, jr_status = ''failed'', jr_facts_written = 0, jr_error = Some reason\<rparr>
   | Inr (_, n) \<Rightarrow> \<lparr>jr_job_id = jid, jr_status = ''facts_ready'', jr_facts_written = n, jr_error = None\<rparr>)"

definition process_job :: "job_env \<Rightarrow> nat \<Rightarrow> tables \<Rightarrow> tables \<times> job_result" where
  "process_job env jid t =
     (case claim_for_processing jid t of
        (t', None) \<Rightarrow>
          (t', \<lparr>jr_job_id = jid, jr_status = ''failed'', jr_facts_written = 0,
                jr_error = Some ''job_id not found or not queued''\<rparr>)
      | (t', Some j) \<Rightarrow> (settle_job jid (job_outcome env j) t', result_of jid (job_outcome env j)))"

section \<open>Administration of the queue\<close>

text \<open>\<open>assign_attribution\<close>, after authentication and the syntax check of the vendor id, as one
  transaction and without creating the drop folder: \<open>Inl\<close> carries the detail of the HTTP error. The
  update can collide with the vendor's earlier submission of the same file.\<close>

definition needs_assignment :: "nat \<Rightarrow> job \<Rightarrow> bool" where
  "needs_assignment jid j \<longleftrightarrow> jb_id j = jid \<and> jb_status j = JobNeedsAttribution"

definition assign_attribution ::
  "string \<Rightarrow> nat \<Rightarrow> string \<Rightarrow> bool \<Rightarrow> tables \<Rightarrow> tables \<times> job_status result" where
  "assign_attribution user_org jid vendor_id invite_if_missing t =
     (case List.find (\<lambda>j. jb_id j = jid) (tb_jobs t) of
        None \<Rightarrow> (t, Inl (ExternalError ''Job not found''))
      | Some j \<Rightarrow>
          if jb_org j \<noteq> user_org then (t, Inl (ExternalError ''Job not found''))
          else if jb_status j \<noteq> JobNeedsAttribution
          then (t, Inl (ExternalError (''Job is '' @ job_status_value (jb_status j) @ ''; only needs_attribution can be assigned.'')))
          else (case get_rfp_lifecycle (jb_rfp j) t of
             None \<Rightarrow> (t, Inl (ExternalError ''RFP no longer exists''))
           | Some r \<Rightarrow>
               if \<not> is_invited_vendor (jb_rfp j) vendor_id t \<and> \<not> invite_if_missing
               then (t, Inl (ExternalError (''vendor_id '' @ quoted vendor_id @ '' is not invited.'')))
               else let t' = invite_vendor (jb_rfp j) vendor_id t;
                        new_status = (if rf_status r = RfpOpen then JobReceived else JobQueued)
                    in if vendor_id \<noteq> jb_vendor j \<and>
                          list_ex (same_submission (jb_rfp j) vendor_id (jb_content_hash j)) (tb_jobs t)
                       then (t', Inl (ExternalError ''uq_ingestion_jobs_rfp_vendor_hash''))
                       else (update_jobs (needs_assignment jid)
                              (\<lambda>j. j\<lparr>jb_vendor := vendor_id, jb_status := new_status, jb_error := None\<rparr>) t',
                             Inr new_status)))"

definition late_for :: "nat \<Rightarrow> string \<Rightarrow> job \<Rightarrow> bool" where
  "late_for jid user_org j \<longleftrightarrow> jb_id j = jid \<and> jb_status j = JobRejectedLate \<and> jb_org j = user_org"

definition accept_late_addendum :: "string \<Rightarrow> nat \<Rightarrow> tables \<Rightarrow> tables result" where
  "accept_late_addendum user_org jid t =
     (if list_ex (late_for jid user_org) (tb_jobs t)
      then Inr (update_jobs (late_for jid user_org) (\<lambda>j. j\<lparr>jb_status := JobQueued, jb_error := None\<rparr>) t)
      else Inl (ExternalError ''Job not found, wrong org, or not in rejected_late state.''))"

end
