(* ===== verification/Scheduler.thy ===== *)
theory Scheduler
  imports Jobs
begin

text \<open>
  \<open>app/jobs/deadline_processor.py\<close>, one tick of the scheduler, and the entry point of
  \<open>app/jobs/ingestion_watcher.py\<close>, \<open>handle_dropped_file\<close>; with what a tick does to the jobs and to
  the RFPs. The jobs of a tick run one after the other here; they touch disjoint rows, and
  \<open>Lifecycle\<close> interleaves them.
\<close>

section \<open>The deadline processor\<close>

record tick_report =
  tr_rfps_closed :: nat
  tr_rfps_queued_for_processing :: nat
  tr_rfps_facts_ready :: nat
  tr_jobs_processed :: nat
  tr_jobs_failed :: nat
  tr_events_emitted :: nat

definition expired :: "int \<Rightarrow> rfp_row \<Rightarrow> bool" where
  "expired now r \<longleftrightarrow> rf_status r = RfpOpen \<and> (case rf_deadline r of None \<Rightarrow> False | Some d \<Rightarrow> d < now) \<and>
     rf_autonomy r \<noteq> Manual"

definition close_expired_rfps :: "int \<Rightarrow> tables \<Rightarrow> tables \<times> nat" where
  "close_expired_rfps now t =
     (update_rfps (expired now) (\<lambda>r. r\<lparr>rf_status := RfpClosed\<rparr>) t, count_if (expired now) (tb_rfps t))"

definition queue_rfp :: "tables \<Rightarrow> rfp_row \<Rightarrow> tables" where
  "queue_rfp t row =
     update_rfps (\<lambda>r. rf_id r = rf_id row \<and> rf_status r = RfpClosed) (\<lambda>r. r\<lparr>rf_status := RfpProcessing\<rparr>)
       (update_jobs (\<lambda>j. jb_rfp j = rf_id row \<and> jb_status j = JobReceived) (\<lambda>j. j\<lparr>jb_status := JobQueued\<rparr>) t)"

definition closed_rfps :: "tables \<Rightarrow> rfp_row list" where
  "closed_rfps t = filter (\<lambda>r. rf_status r = RfpClosed \<and> rf_autonomy r \<noteq> Manual) (tb_rfps t)"

definition queue_received_jobs :: "tables \<Rightarrow> tables \<times> nat" where
  "queue_received_jobs t = (foldl queue_rfp t (closed_rfps t), length (closed_rfps t))"

definition list_queued_jobs :: "tables \<Rightarrow> nat list" where
  "list_queued_jobs t = map jb_id (filter (\<lambda>j. jb_status j = JobQueued) (tb_jobs t))"

fun process_jobs :: "job_env \<Rightarrow> nat list \<Rightarrow> tables \<Rightarrow> tables \<times> job_result list" where
  "process_jobs env [] t = (t, [])"
| "process_jobs env (jid # jids) t =
     (let (t1, r) = process_job env jid t; (t2, rs) = process_jobs env jids t1 in (t2, r # rs))"

definition process_jobs_in_parallel :: "job_env \<Rightarrow> nat list \<Rightarrow> tables \<Rightarrow> tables \<times> nat \<times> nat" where
  "process_jobs_in_parallel env jids t =
     (let (t', rs) = process_jobs env jids t
      in (t', count_if (\<lambda>r. jr_status r = ''facts_ready'') rs, count_if (\<lambda>r. jr_status r = ''failed'') rs))"

definition open_jobs :: "string \<Rightarrow> tables \<Rightarrow> nat" where
  "open_jobs rfp_id t =
     count_if (\<lambda>j. jb_rfp j = rfp_id \<and> jb_status j \<in> {JobReceived, JobQueued, JobProcessing}) (tb_jobs t)"

definition ready_jobs :: "string \<Rightarrow> tables \<Rightarrow> nat" where
  "ready_jobs rfp_id t = count_if (\<lambda>j. jb_rfp j = rfp_id \<and> jb_status j = JobFactsReady) (tb_jobs t)"

definition being_processed :: "string \<Rightarrow> rfp_row \<Rightarrow> bool" where
  "being_processed rfp_id r \<longleftrightarrow> rf_id r = rfp_id \<and> rf_status r = RfpProcessing"

definition flip_rfp :: "tables \<times> rfp_row list \<Rightarrow> rfp_row \<Rightarrow> tables \<times> rfp_row list" where
  "flip_rfp acc r =
     (let (t, winners) = acc
      in if 0 < open_jobs (rf_id r) t then acc
         else if ready_jobs (rf_id r) t = 0 then acc
         else (update_rfps (being_processed (rf_id r)) (\<lambda>r. r\<lparr>rf_status := RfpFactsReady\<rparr>) t,
               if 0 < count_if (being_processed (rf_id r)) (tb_rfps t) then winners @ [r] else winners))"

definition flip_completed_rfps :: "tables \<Rightarrow> tables \<times> rfp_row list" where
  "flip_completed_rfps t = foldl flip_rfp (t, []) (filter (\<lambda>r. rf_status r = RfpProcessing) (tb_rfps t))"

definition announce :: "tables \<Rightarrow> rfp_row \<Rightarrow> tables" where
  "announce t r =
     (if rf_autonomy r = AutoToReport
      then emit_event ''rfp.evaluation_failed'' (rf_org r) (rf_id r) [(''reason'', ''Phase 7 PDF not yet implemented'')] t
      else emit_event ''rfp.facts_ready'' (rf_org r) (rf_id r) [(''autonomy_mode'', autonomy_mode_value (rf_autonomy r))] t)"

definition finalize_completed_rfps :: "tables \<Rightarrow> tables \<times> nat \<times> nat" where
  "finalize_completed_rfps t =
     (let (t', winners) = flip_completed_rfps t in (foldl announce t' winners, length winners, length winners))"

definition tick :: "job_env \<Rightarrow> int \<Rightarrow> tables \<Rightarrow> tables \<times> tick_report" where
  "tick env now t =
     (let (t1, closed) = close_expired_rfps now t;
          (t2, queued_rfps) = queue_received_jobs t1;
          queued = list_queued_jobs t2;
          (t3, processed, failed) = (if queued \<noteq> [] then process_jobs_in_parallel env queued t2 else (t2, 0, 0));
          (t4, facts_ready, events) = finalize_completed_rfps t3
      in (t4, \<lparr>tr_rfps_closed = closed, tr_rfps_queued_for_processing = queued_rfps, tr_rfps_facts_ready = facts_ready,
               tr_jobs_processed = processed, tr_jobs_failed = failed, tr_events_emitted = events\<rparr>))"

section \<open>The watcher\<close>

record drop_result =
  dr_status :: string
  dr_job_id :: "nat option"
  dr_rfp_id :: "string option"
  dr_vendor_id :: "string option"
  dr_reason :: string

text \<open>A dropped file: the parts of its path below the drops root (\<open>None\<close>: outside), its hash, name and URI.\<close>

record dropped_file =
  df_parts :: "string list option"
  df_hash :: string
  df_name :: string
  df_uri :: string

definition parse_drop_path :: "string list option \<Rightarrow> string option \<times> string option" where
  "parse_drop_path parts = (case parts of
     Some [rfp_id, _] \<Rightarrow> (Some rfp_id, None)
   | Some (rfp_id # vendor_id # _ # _) \<Rightarrow> (Some rfp_id, Some vendor_id)
   | _ \<Rightarrow> (None, None))"

definition unknown_vendor :: string where
  "unknown_vendor = ''_unknown_''"

definition enqueue_terminal ::
  "dropped_file \<Rightarrow> string \<Rightarrow> string \<Rightarrow> string \<Rightarrow> job_status \<Rightarrow> string \<Rightarrow> tables \<Rightarrow> tables \<times> drop_result" where
  "enqueue_terminal f rfp_id vendor_id org_id status reason t =
     (let (t', jid) = enqueue_ingestion_job org_id rfp_id vendor_id (df_hash f) (df_name f) (df_uri f) status t
      in (t', \<lparr>dr_status = job_status_value status, dr_job_id = jid, dr_rfp_id = Some rfp_id,
               dr_vendor_id = (if vendor_id \<noteq> unknown_vendor then Some vendor_id else None), dr_reason = reason\<rparr>))"

definition ingest_received :: "dropped_file \<Rightarrow> string \<Rightarrow> string \<Rightarrow> string \<Rightarrow> tables \<Rightarrow> tables \<times> drop_result" where
  "ingest_received f rfp_id vendor_id org_id t =
     (case enqueue_ingestion_job org_id rfp_id vendor_id (df_hash f) (df_name f) (df_uri f) JobReceived t of
        (t', None) \<Rightarrow> (t', \<lparr>dr_status = ''duplicate'', dr_job_id = None, dr_rfp_id = Some rfp_id,
          dr_vendor_id = Some vendor_id, dr_reason = ''identical content_hash already received''\<rparr>)
      | (t', Some jid) \<Rightarrow>
          let (t'', superseded) = supersede_prior_received rfp_id vendor_id jid t'
          in (t'', \<lparr>dr_status = ''received'', dr_job_id = Some jid, dr_rfp_id = Some rfp_id,
                    dr_vendor_id = Some vendor_id,
                    dr_reason = (if superseded = 0 then ''received''
                      else ''received (superseded '' @ show_nat superseded @ '' prior)'')\<rparr>))"

definition or_unknown :: "string option \<Rightarrow> string" where
  "or_unknown vendor_id = (case vendor_id of None \<Rightarrow> unknown_vendor | Some v \<Rightarrow> if v = [] then unknown_vendor else v)"

definition handle_dropped_file :: "int \<Rightarrow> dropped_file \<Rightarrow> tables \<Rightarrow> tables \<times> drop_result" where
  "handle_dropped_file now f t =
     (case parse_drop_path (df_parts f) of
        (None, _) \<Rightarrow> (t, \<lparr>dr_status = ''ignored'', dr_job_id = None, dr_rfp_id = None, dr_vendor_id = None,
                          dr_reason = ''path outside drops_root''\<rparr>)
      | (Some rfp_id, vendor_id) \<Rightarrow>
          (case get_rfp_lifecycle rfp_id t of
             None \<Rightarrow> (t, \<lparr>dr_status = ''needs_attribution'', dr_job_id = None, dr_rfp_id = Some rfp_id,
                          dr_vendor_id = vendor_id, dr_reason = ''rfp_id has no rfps row''\<rparr>)
           | Some r \<Rightarrow>
               if rf_status r \<noteq> RfpOpen
               then enqueue_terminal f rfp_id (or_unknown vendor_id) (rf_org r) JobRejectedLate
                      (''submission_status='' @ submission_status_value (rf_status r)) t
               else if (case rf_deadline r of None \<Rightarrow> False | Some d \<Rightarrow> d < now)
               then enqueue_terminal f rfp_id (or_unknown vendor_id) (rf_org r) JobRejectedLate ''past deadline'' t
               else (case vendor_id of
                  Some v \<Rightarrow>
                    if \<not> is_invited_vendor rfp_id v t
                    then enqueue_terminal f rfp_id v (rf_org r) JobNeedsAttribution ''vendor_id not in invited_vendors'' t
                    else ingest_received f rfp_id v (rf_org r) t
                | None \<Rightarrow> enqueue_terminal f rfp_id unknown_vendor (rf_org r) JobNeedsAttribution
                    ''file dropped at rfp_id root; requires LLM attribution'' t)))"

end
