(* ===== verification/Scheduler_Laws.thy ===== *)
theory Scheduler_Laws
  imports Scheduler
begin

text \<open>
  The contract every transaction on the ingestion tables keeps, and its interpretation on each of
  them: the tables stay well formed, no row disappears, an RFP moves along \<open>can_transition\<close> by at
  most one step, a job along \<open>job_step\<close>, and the event log only grows. Then what a whole tick does.
\<close>

section \<open>Well-formed tables\<close>

definition submission_of :: "job \<Rightarrow> string \<times> string \<times> string" where
  "submission_of j = (jb_rfp j, jb_vendor j, jb_content_hash j)"

definition wf_tables :: "tables \<Rightarrow> bool" where
  "wf_tables t \<longleftrightarrow> distinct (map rf_id (tb_rfps t)) \<and> distinct (map jb_id (tb_jobs t)) \<and>
     distinct (map submission_of (tb_jobs t)) \<and> (\<forall>j \<in> set (tb_jobs t). jb_id j < tb_next t)"

lemma map_update_where:
  assumes "\<And>x. P x \<Longrightarrow> h (f x) = h x"
  shows "map h (update_where P f xs) = map h xs"
  using assms by (simp add: update_where_def)

lemma set_update_where: "set (update_where P f xs) = (\<lambda>x. if P x then f x else x) ` set xs"
  by (simp add: update_where_def)

lemma update_where_id: "(\<And>x. x \<in> set xs \<Longrightarrow> \<not> P x) \<Longrightarrow> update_where P f xs = xs"
  by (simp add: update_where_def map_idI)

lemma update_jobs_sel [simp]:
  "tb_rfps (update_jobs P f t) = tb_rfps t" "tb_events (update_jobs P f t) = tb_events t"
  "tb_next (update_jobs P f t) = tb_next t" "tb_invited (update_jobs P f t) = tb_invited t"
  "tb_jobs (update_jobs P f t) = update_where P f (tb_jobs t)"
  by (simp_all add: update_jobs_def)

lemma update_rfps_sel [simp]:
  "tb_jobs (update_rfps P f t) = tb_jobs t" "tb_events (update_rfps P f t) = tb_events t"
  "tb_next (update_rfps P f t) = tb_next t" "tb_invited (update_rfps P f t) = tb_invited t"
  "tb_rfps (update_rfps P f t) = update_where P f (tb_rfps t)"
  by (simp_all add: update_rfps_def)

lemma same_submission_iff: "same_submission r v h j \<longleftrightarrow> submission_of j = (r, v, h)"
  by (auto simp: same_submission_def submission_of_def)

section \<open>How rows move\<close>

inductive job_step :: "job_status \<Rightarrow> job_status \<Rightarrow> bool" where
  supersede: "job_step JobReceived JobSuperseded"
| queue: "job_step JobReceived JobQueued"
| claim: "job_step JobQueued JobProcessing"
| finish: "job_step JobProcessing JobFactsReady"
| fail: "job_step JobProcessing JobFailed"
| assign_open: "job_step JobNeedsAttribution JobReceived"
| assign_late: "job_step JobNeedsAttribution JobQueued"
| accept_late: "job_step JobRejectedLate JobQueued"

code_pred job_step .

inductive_simps job_step_from [simp]:
  "job_step JobReceived s" "job_step JobQueued s" "job_step JobProcessing s" "job_step JobFactsReady s"
  "job_step JobFailed s" "job_step JobSuperseded s" "job_step JobDuplicate s"
  "job_step JobNeedsAttribution s" "job_step JobRejectedLate s"

definition job_evolves :: "job \<Rightarrow> job \<Rightarrow> bool" where
  "job_evolves j j' \<longleftrightarrow> jb_id j' = jb_id j \<and> jb_rfp j' = jb_rfp j \<and> jb_content_hash j' = jb_content_hash j \<and>
     (jb_status j' = jb_status j \<or> job_step (jb_status j) (jb_status j'))"

definition rfp_evolves :: "rfp_row \<Rightarrow> rfp_row \<Rightarrow> bool" where
  "rfp_evolves r r' \<longleftrightarrow> rf_id r' = rf_id r \<and> rf_org r' = rf_org r \<and> rf_deadline r' = rf_deadline r \<and>
     rf_autonomy r' = rf_autonomy r \<and>
     (rf_status r' = rf_status r \<or> can_transition (rf_status r) (rf_status r') \<and> rf_autonomy r \<noteq> Manual)"

definition evolves :: "tables \<Rightarrow> tables \<Rightarrow> bool" where
  "evolves t t' \<longleftrightarrow> list_all2 rfp_evolves (tb_rfps t) (tb_rfps t') \<and>
     list_all2 job_evolves (tb_jobs t) (take (length (tb_jobs t)) (tb_jobs t')) \<and>
     (\<exists>es. tb_events t' = tb_events t @ es)"

lemma rfp_evolves_refl [simp]: "rfp_evolves r r" and job_evolves_refl [simp]: "job_evolves j j"
  by (simp_all add: rfp_evolves_def job_evolves_def)

lemma evolves_rfps_refl [simp]: "list_all2 rfp_evolves rs rs"
  and evolves_jobs_refl [simp]: "list_all2 job_evolves js js"
  by (simp_all add: list_all2_refl)

lemma evolves_refl [simp]: "evolves t t"
  by (simp add: evolves_def)

lemma length_update_where [simp]: "length (update_where P f xs) = length xs"
  by (simp add: update_where_def)

lemma list_all2_update_where:
  assumes "\<And>x. R x x" and "\<And>x. x \<in> set xs \<Longrightarrow> P x \<Longrightarrow> R x (f x)"
  shows "list_all2 R xs (update_where P f xs)"
  using assms by (auto simp: update_where_def list_all2_map2 list_all2_same)

lemma evolves_update_jobs:
  assumes "\<And>j. j \<in> set (tb_jobs t) \<Longrightarrow> P j \<Longrightarrow> job_evolves j (f j)"
  shows "evolves t (update_jobs P f t)"
  unfolding evolves_def
  using list_all2_update_where[of job_evolves "tb_jobs t" P f, OF job_evolves_refl assms] by simp

lemma evolves_update_rfps:
  assumes "\<And>r. r \<in> set (tb_rfps t) \<Longrightarrow> P r \<Longrightarrow> rfp_evolves r (f r)"
  shows "evolves t (update_rfps P f t)"
  unfolding evolves_def
  using list_all2_update_where[of rfp_evolves "tb_rfps t" P f, OF rfp_evolves_refl assms] by simp

text \<open>A transaction with argument \<open>a\<close>, run in a state where \<open>guard a\<close> holds.\<close>

locale table_op =
  fixes guard :: "'a \<Rightarrow> tables \<Rightarrow> bool" and run :: "'a \<Rightarrow> tables \<Rightarrow> tables"
  assumes moves: "wf_tables t \<Longrightarrow> guard a t \<Longrightarrow> evolves t (run a t)"
    and keeps_wf: "wf_tables t \<Longrightarrow> guard a t \<Longrightarrow> wf_tables (run a t)"
begin

lemma rfp_of:
  assumes "wf_tables t" and "guard a t" and "r' \<in> set (tb_rfps (run a t))"
  shows "\<exists>r \<in> set (tb_rfps t). rfp_evolves r r'"
proof -
  have "list_all2 rfp_evolves (tb_rfps t) (tb_rfps (run a t))" using moves[OF assms(1,2)] by (simp add: evolves_def)
  then show ?thesis using assms(3) by (metis list_all2_conv_all_nth in_set_conv_nth)
qed

lemma job_to:
  assumes "wf_tables t" and "guard a t" and "j \<in> set (tb_jobs t)"
  shows "\<exists>j' \<in> set (tb_jobs (run a t)). job_evolves j j'"
proof -
  have "list_all2 job_evolves (tb_jobs t) (take (length (tb_jobs t)) (tb_jobs (run a t)))"
    using moves[OF assms(1,2)] by (simp add: evolves_def)
  then show ?thesis using assms(3) by (metis in_set_conv_nth in_set_takeD list_all2_conv_all_nth)
qed

lemma ready_stays:
  assumes "wf_tables t" and "guard a t" and "j \<in> set (tb_jobs t)" and "jb_status j = JobFactsReady"
  shows "\<exists>j' \<in> set (tb_jobs (run a t)). jb_id j' = jb_id j \<and> jb_rfp j' = jb_rfp j \<and> jb_status j' = JobFactsReady"
  using job_to[OF assms(1-3)] assms(4) by (auto simp: job_evolves_def)

end

section \<open>The transactions keep the contract\<close>

lemma wf_update_rfps: "wf_tables t \<Longrightarrow> (\<And>r. P r \<Longrightarrow> rf_id (f r) = rf_id r) \<Longrightarrow> wf_tables (update_rfps P f t)"
  by (simp add: wf_tables_def map_update_where)

lemma wf_update_jobs:
  assumes "wf_tables t" and "\<And>j. P j \<Longrightarrow> jb_id (f j) = jb_id j" and "\<And>j. P j \<Longrightarrow> submission_of (f j) = submission_of j"
  shows "wf_tables (update_jobs P f t)"
  using assms by (auto simp: wf_tables_def map_update_where set_update_where)

interpretation close_op: table_op "\<lambda>_ _. True" "\<lambda>now t. fst (close_expired_rfps now t)"
  by unfold_locales
    (auto simp: close_expired_rfps_def expired_def rfp_evolves_def can_transition_def
      intro!: evolves_update_rfps wf_update_rfps)

lemma map_snoc_distinct: "distinct (map f (xs @ [x])) \<longleftrightarrow> distinct (map f xs) \<and> f x \<notin> f ` set xs"
  by simp

interpretation enqueue_op: table_op "\<lambda>_ _. True"
  "\<lambda>(org, rfp, vendor, hash, name, uri, status) t. fst (enqueue_ingestion_job org rfp vendor hash name uri status t)"
proof (unfold_locales; clarify)
  fix t org rfp vendor hash name uri status
  assume wf: "wf_tables t"
  let ?t = "fst (enqueue_ingestion_job org rfp vendor hash name uri status t)"
  show "evolves t ?t" by (auto simp: enqueue_ingestion_job_def evolves_def)
  show "wf_tables ?t"
    using wf
    by (auto simp: enqueue_ingestion_job_def wf_tables_def new_job_def submission_of_def list_ex_iff same_submission_def
        less_Suc_eq)
qed

interpretation supersede_op: table_op "\<lambda>_ _. True"
  "\<lambda>(rfp, vendor, jid) t. fst (supersede_prior_received rfp vendor jid t)"
  by unfold_locales
    (auto simp: supersede_prior_received_def prior_received_def job_evolves_def submission_of_def
      intro!: evolves_update_jobs wf_update_jobs)

interpretation claim_op: table_op "\<lambda>_ _. True" "\<lambda>jid t. fst (claim_for_processing jid t)"
  by unfold_locales
    (auto simp: claim_for_processing_def is_queued_def job_evolves_def submission_of_def
      intro!: evolves_update_jobs wf_update_jobs split: option.split)

text \<open>A job is settled only by the worker that claimed it.\<close>

definition claimed :: "nat \<Rightarrow> tables \<Rightarrow> bool" where
  "claimed jid t \<longleftrightarrow> (\<exists>j \<in> set (tb_jobs t). jb_id j = jid \<and> jb_status j = JobProcessing)"

lemma wf_job_unique:
  "wf_tables t \<Longrightarrow> i \<in> set (tb_jobs t) \<Longrightarrow> j \<in> set (tb_jobs t) \<Longrightarrow> jb_id i = jb_id j \<Longrightarrow> i = j"
  by (auto simp: wf_tables_def distinct_map inj_on_def)

lemma wf_rfp_unique:
  "wf_tables t \<Longrightarrow> q \<in> set (tb_rfps t) \<Longrightarrow> r \<in> set (tb_rfps t) \<Longrightarrow> rf_id q = rf_id r \<Longrightarrow> q = r"
  by (auto simp: wf_tables_def distinct_map inj_on_def)

interpretation settle_op: table_op "\<lambda>(jid, _). claimed jid" "\<lambda>(jid, outcome). settle_job jid outcome"
proof (unfold_locales; clarify)
  fix t jid outcome
  assume wf: "wf_tables t" and c: "claimed jid t"
  have p: "jb_status j = JobProcessing" if "j \<in> set (tb_jobs t)" "jb_id j = jid" for j
    using c wf_job_unique[OF wf that(1)] that(2) by (metis claimed_def)
  show "evolves t (settle_job jid outcome t)"
    using p by (auto simp: settle_job_def mark_failed_def mark_facts_ready_def job_evolves_def
        intro!: evolves_update_jobs split: sum.split)
  show "wf_tables (settle_job jid outcome t)"
    using wf by (auto simp: settle_job_def mark_failed_def mark_facts_ready_def submission_of_def
        intro!: wf_update_jobs split: sum.split)
qed

interpretation emit_op: table_op "\<lambda>_ _. True" "\<lambda>r t. announce t r"
  by unfold_locales (auto simp: announce_def emit_event_def evolves_def wf_tables_def)

interpretation accept_op: table_op "\<lambda>_ _. True"
  "\<lambda>(org, jid) t. case accept_late_addendum org jid t of Inl _ \<Rightarrow> t | Inr t' \<Rightarrow> t'"
  by unfold_locales
    (auto simp: accept_late_addendum_def late_for_def job_evolves_def submission_of_def
      intro!: evolves_update_jobs wf_update_jobs)


section \<open>The loops as single updates\<close>

lemma queue_rfps_once:
  "foldl queue_rfp t rows =
     update_rfps (\<lambda>r. rf_id r \<in> rf_id ` set rows \<and> rf_status r = RfpClosed) (\<lambda>r. r\<lparr>rf_status := RfpProcessing\<rparr>)
       (update_jobs (\<lambda>j. jb_rfp j \<in> rf_id ` set rows \<and> jb_status j = JobReceived) (\<lambda>j. j\<lparr>jb_status := JobQueued\<rparr>) t)"
proof (induction rows arbitrary: t)
  case Nil
  then show ?case by (simp add: update_rfps_def update_jobs_def update_where_def)
next
  case (Cons row rows)
  show ?case unfolding foldl_Cons Cons.IH
    by (auto simp: queue_rfp_def update_rfps_def update_jobs_def update_where_def)
qed

definition complete :: "tables \<Rightarrow> rfp_row \<Rightarrow> bool" where
  "complete t r \<longleftrightarrow> rf_status r = RfpProcessing \<and> open_jobs (rf_id r) t = 0 \<and> ready_jobs (rf_id r) t \<noteq> 0"

lemma jobs_counts_update [simp]:
  "open_jobs i (update_rfps P f t) = open_jobs i t" "ready_jobs i (update_rfps P f t) = ready_jobs i t"
  by (simp_all add: open_jobs_def ready_jobs_def)

lemma flip_rfps_once:
  assumes "distinct (map rf_id rows)" and "\<And>r. r \<in> set rows \<Longrightarrow> r \<in> set (tb_rfps t) \<and> rf_status r = RfpProcessing"
  shows "foldl flip_rfp (t, ws) rows =
    (update_rfps (\<lambda>r. rf_id r \<in> rf_id ` set (filter (complete t) rows) \<and> rf_status r = RfpProcessing)
       (\<lambda>r. r\<lparr>rf_status := RfpFactsReady\<rparr>) t, ws @ filter (complete t) rows)"
  using assms
proof (induction rows arbitrary: t ws)
  case Nil
  then show ?case by (simp add: update_rfps_def update_where_def)
next
  case (Cons row rows)
  have row: "row \<in> set (tb_rfps t)" "rf_status row = RfpProcessing" using Cons.prems(2) by auto
  show ?case
  proof (cases "complete t row")
    case False
    then have "flip_rfp (t, ws) row = (t, ws)" using row by (auto simp: flip_rfp_def complete_def)
    with False Cons show ?thesis by simp
  next
    case True
    let ?t = "update_rfps (being_processed (rf_id row)) (\<lambda>r. r\<lparr>rf_status := RfpFactsReady\<rparr>) t"
    have "0 < count_if (being_processed (rf_id row)) (tb_rfps t)"
      using row count_if_0_iff[of "being_processed (rf_id row)" "tb_rfps t"] by (auto simp: being_processed_def)
    then have step: "flip_rfp (t, ws) row = (?t, ws @ [row])"
      using True by (simp add: flip_rfp_def complete_def)
    have compl: "complete ?t = complete t" by (simp add: complete_def fun_eq_iff)
    have "r \<in> set (tb_rfps ?t) \<and> rf_status r = RfpProcessing" if "r \<in> set rows" for r
    proof -
      have "rf_id r \<noteq> rf_id row" using Cons.prems(1) that by simp (metis imageI)
      with Cons.prems(2)[of r] that show ?thesis
        by (auto simp: set_update_where being_processed_def image_iff intro!: bexI[of _ r])
    qed
    from Cons.IH[OF _ this, of "ws @ [row]"] Cons.prems(1) show ?thesis
      unfolding foldl_Cons step compl
      using True by (auto simp: update_rfps_def update_where_def being_processed_def)
  qed
qed

lemma flip_completed_once:
  assumes "wf_tables t"
  shows "flip_completed_rfps t =
    (update_rfps (complete t) (\<lambda>r. r\<lparr>rf_status := RfpFactsReady\<rparr>) t, filter (complete t) (tb_rfps t))"
proof -
  let ?rows = "filter (\<lambda>r. rf_status r = RfpProcessing) (tb_rfps t)"
  have d: "distinct (map rf_id ?rows)" using assms by (simp add: wf_tables_def distinct_map_filter)
  have f: "filter (complete t) ?rows = filter (complete t) (tb_rfps t)"
    by (induction "tb_rfps t") (auto simp: complete_def intro!: filter_cong)
  have "foldl flip_rfp (t, []) ?rows =
    (update_rfps (\<lambda>r. rf_id r \<in> rf_id ` set (filter (complete t) ?rows) \<and> rf_status r = RfpProcessing)
       (\<lambda>r. r\<lparr>rf_status := RfpFactsReady\<rparr>) t, [] @ filter (complete t) ?rows)"
    by (rule flip_rfps_once[OF d]) auto
  moreover have "rf_id r \<in> rf_id ` set (filter (complete t) (tb_rfps t)) \<and> rf_status r = RfpProcessing \<longleftrightarrow> complete t r"
    if "r \<in> set (tb_rfps t)" for r
    using that wf_rfp_unique[OF assms that] by (auto simp: complete_def image_iff)
  ultimately show ?thesis
    unfolding flip_completed_rfps_def f by (auto simp: update_rfps_def update_where_def)
qed

interpretation queue_op: table_op "\<lambda>_ _. True" "\<lambda>_ t. fst (queue_received_jobs t)"
proof (unfold_locales, goal_cases)
  case (1 t a)
  let ?ids = "rf_id ` set (closed_rfps t)"
  let ?t = "update_jobs (\<lambda>j. jb_rfp j \<in> ?ids \<and> jb_status j = JobReceived) (\<lambda>j. j\<lparr>jb_status := JobQueued\<rparr>) t"
  have auto_mode: "rf_autonomy r \<noteq> Manual" if "r \<in> set (tb_rfps t)" "rf_id r \<in> ?ids" for r
    using that wf_rfp_unique[OF 1(1)] by (auto simp: closed_rfps_def)
  have "evolves t ?t" by (rule evolves_update_jobs) (auto simp: job_evolves_def)
  moreover have "list_all2 rfp_evolves (tb_rfps t)
      (update_where (\<lambda>r. rf_id r \<in> ?ids \<and> rf_status r = RfpClosed) (\<lambda>r. r\<lparr>rf_status := RfpProcessing\<rparr>) (tb_rfps t))"
    by (rule list_all2_update_where) (auto simp: rfp_evolves_def can_transition_def auto_mode)
  ultimately show ?case by (simp add: queue_received_jobs_def queue_rfps_once evolves_def)
next
  case (2 t a)
  then show ?case
    by (auto simp: queue_received_jobs_def queue_rfps_once submission_of_def intro!: wf_update_rfps wf_update_jobs)
qed

text \<open>Only RFPs the scheduler may touch are ever in progress.\<close>

definition automatic :: "tables \<Rightarrow> bool" where
  "automatic t \<longleftrightarrow> (\<forall>r \<in> set (tb_rfps t). rf_autonomy r = Manual \<longrightarrow> rf_status r = RfpOpen)"

interpretation flip_op: table_op "\<lambda>_. automatic" "\<lambda>_ t. fst (flip_completed_rfps t)"
  by unfold_locales
    (auto simp: flip_completed_once complete_def rfp_evolves_def can_transition_def automatic_def
      intro!: evolves_update_rfps wf_update_rfps)

lemma evolves_invite: "evolves t t' \<Longrightarrow> evolves t (invite_vendor r v t')"
  by (simp add: invite_vendor_def evolves_def)

lemma invite_sel [simp]:
  "tb_jobs (invite_vendor r v t) = tb_jobs t" "tb_rfps (invite_vendor r v t) = tb_rfps t"
  "tb_events (invite_vendor r v t) = tb_events t" "tb_next (invite_vendor r v t) = tb_next t"
  by (simp_all add: invite_vendor_def)

lemma wf_invite [simp]: "wf_tables (invite_vendor r v t) \<longleftrightarrow> wf_tables t"
  by (simp add: wf_tables_def)

text \<open>What \<open>assign_attribution\<close> can leave behind.\<close>

lemma assign_cases:
  obtains "fst (assign_attribution org jid v iv t) = t"
  | j :: job where "fst (assign_attribution org jid v iv t) = invite_vendor (jb_rfp j) v t"
  | j :: job and st where "List.find (\<lambda>j. jb_id j = jid) (tb_jobs t) = Some j" "st \<in> {JobReceived, JobQueued}"
      "v = jb_vendor j \<or> \<not> list_ex (same_submission (jb_rfp j) v (jb_content_hash j)) (tb_jobs t)"
      "fst (assign_attribution org jid v iv t) = update_jobs (needs_assignment jid)
         (\<lambda>j. j\<lparr>jb_vendor := v, jb_status := st, jb_error := None\<rparr>) (invite_vendor (jb_rfp j) v t)"
proof (cases "List.find (\<lambda>j. jb_id j = jid) (tb_jobs t)")
  case None
  then show ?thesis using that(1) by (simp add: assign_attribution_def)
next
  case (Some j)
  show ?thesis
  proof (cases "jb_org j \<noteq> org \<or> jb_status j \<noteq> JobNeedsAttribution \<or> get_rfp_lifecycle (jb_rfp j) t = None \<or>
      (\<not> is_invited_vendor (jb_rfp j) v t \<and> \<not> iv)")
    case True
    then show ?thesis using that(1) Some by (auto simp: assign_attribution_def split: option.splits)
  next
    case False
    then obtain r where r: "get_rfp_lifecycle (jb_rfp j) t = Some r" by auto
    let ?st = "if rf_status r = RfpOpen then JobReceived else JobQueued"
    note run = assign_attribution_def Let_def
    show ?thesis
    proof (cases "v \<noteq> jb_vendor j \<and> list_ex (same_submission (jb_rfp j) v (jb_content_hash j)) (tb_jobs t)")
      case True
      then have "fst (assign_attribution org jid v iv t) = invite_vendor (jb_rfp j) v t"
        using False Some r unfolding run by auto
      then show ?thesis by (rule that(2))
    next
      case fresh: False
      then have "fst (assign_attribution org jid v iv t) = update_jobs (needs_assignment jid)
         (\<lambda>j. j\<lparr>jb_vendor := v, jb_status := ?st, jb_error := None\<rparr>) (invite_vendor (jb_rfp j) v t)"
        using False Some r unfolding run by auto
      from that(3)[OF Some _ _ this] fresh show ?thesis by auto
    qed
  qed
qed

lemma update_unique:
  assumes d: "distinct (map h xs)" and one: "\<And>x y. x \<in> set xs \<Longrightarrow> y \<in> set xs \<Longrightarrow> P x \<Longrightarrow> P y \<Longrightarrow> x = y"
    and new: "\<And>x y. x \<in> set xs \<Longrightarrow> y \<in> set xs \<Longrightarrow> P x \<Longrightarrow> \<not> P y \<Longrightarrow> h (f x) \<noteq> h y"
  shows "distinct (map h (update_where P f xs))"
proof -
  have "distinct xs" "inj_on h (set xs)" using d by (simp_all add: distinct_map)
  have "inj_on (\<lambda>x. h (if P x then f x else x)) (set xs)"
  proof (rule inj_onI)
    fix x y assume xy: "x \<in> set xs" "y \<in> set xs" "h (if P x then f x else x) = h (if P y then f y else y)"
    show "x = y"
      using xy one[OF xy(1,2)] new[OF xy(1,2)] new[OF xy(2,1)] inj_onD[OF \<open>inj_on h (set xs)\<close> _ xy(1,2)]
      by (cases "P x"; cases "P y") auto
  qed
  with \<open>distinct xs\<close> show ?thesis by (simp add: update_where_def distinct_map comp_def)
qed

interpretation assign_op: table_op "\<lambda>_ _. True"
  "\<lambda>(org, jid, vendor, invite) t. fst (assign_attribution org jid vendor invite t)"
proof (unfold_locales; clarify)
  fix t org jid v iv
  assume wf: "wf_tables t"
  let ?t = "fst (assign_attribution org jid v iv t)"
  show "evolves t ?t"
  proof (cases rule: assign_cases[of org jid v iv t])
    case (3 j st)
    then have "evolves (invite_vendor (jb_rfp j) v t) ?t"
      by (auto simp: needs_assignment_def job_evolves_def intro!: evolves_update_jobs)
    then show ?thesis by (simp add: evolves_def)
  qed (auto simp: evolves_invite)
  show "wf_tables ?t"
  proof (cases rule: assign_cases[of org jid v iv t])
    case (3 j st)
    let ?f = "\<lambda>j. j\<lparr>jb_vendor := v, jb_status := st, jb_error := None\<rparr>"
    have j: "j \<in> set (tb_jobs t)" "jb_id j = jid" using 3(1) by (auto simp: find_Some_iff)
    have one: "x = j" if "x \<in> set (tb_jobs t)" "needs_assignment jid x" for x
      using that j wf_job_unique[OF wf] by (simp add: needs_assignment_def)
    have "distinct (map submission_of (update_where (needs_assignment jid) ?f (tb_jobs t)))"
    proof (rule update_unique)
      show "distinct (map submission_of (tb_jobs t))" using wf by (simp add: wf_tables_def)
    next
      fix x y assume "x \<in> set (tb_jobs t)" "y \<in> set (tb_jobs t)" "needs_assignment jid x" "\<not> needs_assignment jid y"
      moreover from this have "submission_of y \<noteq> submission_of j"
        using wf one by (metis distinct_map inj_onD wf_tables_def)
      ultimately show "submission_of (?f x) \<noteq> submission_of y"
        using 3(3) one by (auto simp: list_ex_iff same_submission_def submission_of_def)
    qed (metis one)
    then show ?thesis using wf 3(4)
      by (auto simp: wf_tables_def map_update_where set_update_where needs_assignment_def)
  qed (auto simp: wf)
qed

end
