(* ===== verification/Lifecycle.thy ===== *)
theory Lifecycle
  imports Scheduler_Laws
begin

text \<open>
  The ingestion lifecycle with everything that runs at once: overlapping ticks, workers on claimed
  jobs, watchers between reading an RFP and inserting its job, administrators, and crashes. A step
  is one transaction or the death of one activity. What an activity has read and not yet acted on
  is part of the state.
\<close>

section \<open>Steps\<close>

record life =
  lf_tables :: tables
  lf_running :: "nat list"
    \<comment> \<open>jobs a live worker has claimed\<close>
  lf_inserting :: "(string \<times> string \<times> string \<times> string \<times> string \<times> string) list"
    \<comment> \<open>org, rfp, vendor, hash, filename, uri of files that passed the watcher's checks\<close>
  lf_superseding :: "(string \<times> string \<times> nat) list"
    \<comment> \<open>rfp, vendor, job of inserted files whose predecessors are not superseded yet\<close>
  lf_announcing :: "rfp_row list"
    \<comment> \<open>RFPs flipped by a tick that has not emitted their events yet\<close>

definition accepts :: "int \<Rightarrow> string \<Rightarrow> string \<Rightarrow> tables \<Rightarrow> rfp_row option" where
  "accepts now rfp_id vendor_id t =
     (case get_rfp_lifecycle rfp_id t of
        None \<Rightarrow> None
      | Some r \<Rightarrow>
          if rf_status r \<noteq> RfpOpen then None
          else if (case rf_deadline r of None \<Rightarrow> False | Some d \<Rightarrow> d < now) then None
          else if \<not> is_invited_vendor rfp_id vendor_id t then None else Some r)"

inductive life_step :: "life \<Rightarrow> life \<Rightarrow> bool" where
  close: "life_step s (s\<lparr>lf_tables := fst (close_expired_rfps now (lf_tables s))\<rparr>)"
| queue: "life_step s (s\<lparr>lf_tables := fst (queue_received_jobs (lf_tables s))\<rparr>)"
| claim: "claim_for_processing jid (lf_tables s) = (t', Some j) \<Longrightarrow>
    life_step s (s\<lparr>lf_tables := t', lf_running := jid # lf_running s\<rparr>)"
| settle: "jid \<in> set (lf_running s) \<Longrightarrow>
    life_step s (s\<lparr>lf_tables := settle_job jid outcome (lf_tables s), lf_running := remove1 jid (lf_running s)\<rparr>)"
| flip: "flip_completed_rfps (lf_tables s) = (t', winners) \<Longrightarrow>
    life_step s (s\<lparr>lf_tables := t', lf_announcing := lf_announcing s @ winners\<rparr>)"
| announce: "r \<in> set (lf_announcing s) \<Longrightarrow>
    life_step s (s\<lparr>lf_tables := announce (lf_tables s) r, lf_announcing := remove1 r (lf_announcing s)\<rparr>)"
| accept: "accepts now rfp_id vendor_id (lf_tables s) = Some r \<Longrightarrow>
    life_step s (s\<lparr>lf_inserting := (rf_org r, rfp_id, vendor_id, hash, filename, uri) # lf_inserting s\<rparr>)"
| insert: "(org_id, rfp_id, vendor_id, hash, filename, uri) \<in> set (lf_inserting s) \<Longrightarrow>
    enqueue_ingestion_job org_id rfp_id vendor_id hash filename uri JobReceived (lf_tables s) = (t', jid) \<Longrightarrow>
    life_step s (s\<lparr>lf_tables := t',
      lf_inserting := remove1 (org_id, rfp_id, vendor_id, hash, filename, uri) (lf_inserting s),
      lf_superseding := (case jid of None \<Rightarrow> lf_superseding s | Some i \<Rightarrow> (rfp_id, vendor_id, i) # lf_superseding s)\<rparr>)"
| supersede: "(rfp_id, vendor_id, jid) \<in> set (lf_superseding s) \<Longrightarrow>
    life_step s (s\<lparr>lf_tables := fst (supersede_prior_received rfp_id vendor_id jid (lf_tables s)),
      lf_superseding := remove1 (rfp_id, vendor_id, jid) (lf_superseding s)\<rparr>)"
| refuse: "status \<in> {JobRejectedLate, JobNeedsAttribution} \<Longrightarrow>
    life_step s (s\<lparr>lf_tables := fst (enqueue_ingestion_job org_id rfp_id vendor_id hash filename uri status (lf_tables s))\<rparr>)"
| assign: "life_step s (s\<lparr>lf_tables := fst (assign_attribution org_id jid vendor_id invite (lf_tables s))\<rparr>)"
| accept_late: "accept_late_addendum org_id jid (lf_tables s) = Inr t' \<Longrightarrow> life_step s (s\<lparr>lf_tables := t'\<rparr>)"
| worker_dies: "life_step s (s\<lparr>lf_running := remove1 jid (lf_running s)\<rparr>)"
| tick_dies: "life_step s (s\<lparr>lf_announcing := remove1 r (lf_announcing s)\<rparr>)"
| watcher_dies: "life_step s (s\<lparr>lf_inserting := remove1 f (lf_inserting s), lf_superseding := remove1 p (lf_superseding s)\<rparr>)"

inductive life_reachable :: "life \<Rightarrow> life \<Rightarrow> bool" for s0 where
  start: "life_reachable s0 s0"
| step: "life_reachable s0 s \<Longrightarrow> life_step s s' \<Longrightarrow> life_reachable s0 s'"

definition quiet :: "tables \<Rightarrow> life" where
  "quiet t = \<lparr>lf_tables = t, lf_running = [], lf_inserting = [], lf_superseding = [], lf_announcing = []\<rparr>"

section \<open>Every step is a legal move\<close>

definition running_ok :: "life \<Rightarrow> bool" where
  "running_ok s \<longleftrightarrow> wf_tables (lf_tables s) \<and> automatic (lf_tables s) \<and> distinct (lf_running s) \<and>
     (\<forall>jid \<in> set (lf_running s). claimed jid (lf_tables s))"

lemma evolves_automatic: "evolves t t' \<Longrightarrow> automatic t \<Longrightarrow> automatic t'"
proof (unfold automatic_def, intro ballI impI)
  assume ev: "evolves t t'" and a: "\<forall>r \<in> set (tb_rfps t). rf_autonomy r = Manual \<longrightarrow> rf_status r = RfpOpen"
  fix r' assume r': "r' \<in> set (tb_rfps t')" "rf_autonomy r' = Manual"
  obtain r where "r \<in> set (tb_rfps t)" "rfp_evolves r r'"
    using ev r'(1) unfolding evolves_def by (metis in_set_conv_nth list_all2_conv_all_nth)
  then show "rf_status r' = RfpOpen" using a r'(2) by (auto simp: rfp_evolves_def)
qed

text \<open>No transaction but settling a job takes a claim away.\<close>

lemma claimed_update_jobs:
  "claimed i t \<Longrightarrow> (\<And>j. P j \<Longrightarrow> jb_status j \<noteq> JobProcessing) \<Longrightarrow> claimed i (update_jobs P f t)"
  by (auto simp: claimed_def set_update_where intro!: image_eqI bexI)

lemma claimed_settle: "claimed i t \<Longrightarrow> i \<noteq> jid \<Longrightarrow> claimed i (settle_job jid outcome t)"
  by (auto simp: settle_job_def mark_failed_def mark_facts_ready_def claimed_def set_update_where image_iff
      split: sum.split)

lemma announce_sel [simp]: "tb_jobs (announce t r) = tb_jobs t" "tb_rfps (announce t r) = tb_rfps t"
  by (simp_all add: announce_def emit_event_def)

lemma claimed_sel [simp]:
  "claimed i (update_rfps P g t) = claimed i t" "claimed i (announce t r) = claimed i t"
  "claimed i (invite_vendor v w t) = claimed i t"
  by (simp_all add: claimed_def)

lemma claimed_enqueue: "claimed i t \<Longrightarrow> claimed i (fst (enqueue_ingestion_job org r v h fn uri st t))"
  by (auto simp: enqueue_ingestion_job_def claimed_def)

lemma claim_Some:
  assumes "claim_for_processing jid t = (t', Some j)"
  shows "j \<in> set (tb_jobs t)" "is_queued jid j" "t' = update_jobs (is_queued jid) (\<lambda>j. j\<lparr>jb_status := JobProcessing\<rparr>) t"
  using assms by (auto simp: claim_for_processing_def find_Some_iff split: option.splits)


lemma claimed_close: "claimed i t \<Longrightarrow> claimed i (fst (close_expired_rfps now t))"
  and claimed_queue: "claimed i t \<Longrightarrow> claimed i (fst (queue_received_jobs t))"
  and claimed_flip: "claimed i t \<Longrightarrow> wf_tables t \<Longrightarrow> claimed i (fst (flip_completed_rfps t))"
  and claimed_supersede: "claimed i t \<Longrightarrow> claimed i (fst (supersede_prior_received r v jid t))"
  and claimed_announce: "claimed i t \<Longrightarrow> claimed i (announce t row)"
  by (auto simp: close_expired_rfps_def queue_received_jobs_def queue_rfps_once flip_completed_once
      supersede_prior_received_def prior_received_def intro!: claimed_update_jobs)

lemma claimed_assign: "claimed i t \<Longrightarrow> claimed i (fst (assign_attribution org jid v iv t))"
  by (cases rule: assign_cases[of org jid v iv t])
    (auto simp: needs_assignment_def intro!: claimed_update_jobs)

lemma claimed_accept: "claimed i t \<Longrightarrow> accept_late_addendum org jid t = Inr t' \<Longrightarrow> claimed i t'"
  by (auto simp: accept_late_addendum_def late_for_def intro!: claimed_update_jobs split: if_splits)

lemma claimed_claim:
  assumes "claim_for_processing jid t = (t', Some j)"
  shows "claimed jid t'" and "claimed i t \<Longrightarrow> claimed i t'"
proof -
  show "claimed jid t'"
    using claim_Some[OF assms]
    by (auto simp: claimed_def set_update_where is_queued_def intro!: image_eqI[where x = j] bexI[where x = "j\<lparr>jb_status := JobProcessing\<rparr>"])
  show "claimed i t'" if "claimed i t"
    using that claim_Some(3)[OF assms] by (auto intro!: claimed_update_jobs simp: is_queued_def)
qed

lemmas claimed_keeps =
  claimed_close claimed_queue claimed_flip claimed_supersede claimed_announce claimed_assign claimed_enqueue

text \<open>The step of the relation as a transaction of \<open>Scheduler_Laws\<close>.\<close>

lemma accept_late_moves:
  "wf_tables t \<Longrightarrow> accept_late_addendum org jid t = Inr t' \<Longrightarrow> evolves t t' \<and> wf_tables t'"
  using accept_op.moves[of t "(org, jid)"] accept_op.keeps_wf[of t "(org, jid)"] by simp

lemma claim_moves:
  "wf_tables t \<Longrightarrow> claim_for_processing jid t = (t', x) \<Longrightarrow> evolves t t' \<and> wf_tables t'"
  using claim_op.moves[of t jid] claim_op.keeps_wf[of t jid] by simp

lemma enqueue_moves:
  "wf_tables t \<Longrightarrow> enqueue_ingestion_job org r v h fn uri st t = (t', x) \<Longrightarrow> evolves t t' \<and> wf_tables t'"
  using enqueue_op.moves[of t "(org, r, v, h, fn, uri, st)"] enqueue_op.keeps_wf[of t "(org, r, v, h, fn, uri, st)"]
  by simp

lemma flip_moves:
  "wf_tables t \<Longrightarrow> automatic t \<Longrightarrow> flip_completed_rfps t = (t', x) \<Longrightarrow> evolves t t' \<and> wf_tables t'"
  using flip_op.moves[of t] flip_op.keeps_wf[of t] by simp

theorem life_step_moves:
  assumes "life_step s s'" and ok: "running_ok s"
  shows "evolves (lf_tables s) (lf_tables s') \<and> running_ok s'"
proof -
  let ?t = "lf_tables s"
  have wf: "wf_tables ?t" and am: "automatic ?t" and d: "distinct (lf_running s)"
    and c: "\<And>i. i \<in> set (lf_running s) \<Longrightarrow> claimed i ?t"
    using ok by (simp_all add: running_ok_def)
  have same: "evolves ?t (lf_tables s') \<and> running_ok s'"
    if "evolves ?t t' \<and> wf_tables t'" "lf_tables s' = t'" "distinct (lf_running s')"
      "\<And>i. i \<in> set (lf_running s') \<Longrightarrow> claimed i t'" for t'
    using that evolves_automatic[of ?t t'] am by (simp add: running_ok_def)
  from assms(1) show ?thesis
  proof cases
    case (claim jid t' j)
    have "jid \<notin> set (lf_running s)"
    proof
      assume "jid \<in> set (lf_running s)"
      from c[OF this] obtain i where "i \<in> set (tb_jobs ?t)" "jb_id i = jid" "jb_status i = JobProcessing"
        by (auto simp: claimed_def)
      moreover have "j \<in> set (tb_jobs ?t)" "jb_id j = jid" "jb_status j = JobQueued"
        using claim_Some[OF claim(2)] by (simp_all add: is_queued_def)
      ultimately show False using wf_job_unique[OF wf, of i j] by simp
    qed
    then show ?thesis using claim_moves[OF wf claim(2)] claimed_claim[OF claim(2)] c d claim(1)
      by (intro same[of t']) auto
  next
    case (settle jid outcome)
    have "evolves ?t (settle_job jid outcome ?t) \<and> wf_tables (settle_job jid outcome ?t)"
      using settle_op.moves[of ?t "(jid, outcome)"] settle_op.keeps_wf[of ?t "(jid, outcome)"] wf c[OF settle(2)] by simp
    then show ?thesis using c d settle by (intro same) (auto intro: claimed_settle)
  next
    case (flip t' winners)
    then show ?thesis using flip_moves[OF wf am flip(2)] claimed_flip[OF c wf] d by (intro same[of t']) auto
  next
    case (insert org_id rfp_id vendor_id hash filename uri t' jid)
    then show ?thesis using enqueue_moves[OF wf insert(3)] d
        claimed_enqueue[OF c, of _ org_id rfp_id vendor_id hash filename uri JobReceived]
      by (intro same[of t']) auto
  next
    case (accept_late org_id jid t')
    then show ?thesis using accept_late_moves[OF wf accept_late(2)] claimed_accept[OF c accept_late(2)] d
      by (intro same[of t']) auto
  next
    case (refuse status org_id rfp_id vendor_id hash filename uri)
    then show ?thesis
      using enqueue_moves[OF wf, of org_id rfp_id vendor_id hash filename uri status] claimed_enqueue[OF c] d
      by (intro same) (auto simp: prod_eq_iff)
  next
    case (supersede rfp_id vendor_id jid)
    then show ?thesis
      using supersede_op.moves[OF wf, of "(rfp_id, vendor_id, jid)"] supersede_op.keeps_wf[OF wf, of "(rfp_id, vendor_id, jid)"]
        claimed_supersede[OF c] d by (intro same) auto
  next
    case (assign org_id jid vendor_id invite)
    then show ?thesis
      using assign_op.moves[OF wf, of "(org_id, jid, vendor_id, invite)"] assign_op.keeps_wf[OF wf, of "(org_id, jid, vendor_id, invite)"]
        claimed_assign[OF c] d by (intro same) auto
  next
    case (close now)
    then show ?thesis using close_op.moves[OF wf, of now] close_op.keeps_wf[OF wf, of now] claimed_close[OF c] d
      by (intro same) auto
  next
    case queue
    then show ?thesis using queue_op.moves[OF wf] queue_op.keeps_wf[OF wf] claimed_queue[OF c] d by (intro same) auto
  next
    case (announce r)
    then show ?thesis using emit_op.moves[OF wf, of r] emit_op.keeps_wf[OF wf, of r] claimed_announce[OF c] d
      by (intro same) auto
  next
    case (accept now rfp_id vendor_id r hash filename uri)
    then show ?thesis using wf c d by (intro same[of ?t]) auto
  next
    case (worker_dies jid)
    then show ?thesis using wf c d by (intro same[of ?t]) (auto dest: set_remove1_subset[THEN subsetD])
  next
    case (tick_dies r)
    then show ?thesis using wf c d by (intro same[of ?t]) auto
  next
    case (watcher_dies f p)
    then show ?thesis using wf c d by (intro same[of ?t]) auto
  qed
qed

section \<open>Announcements\<close>

definition events_of :: "string \<Rightarrow> tables \<Rightarrow> nat" where
  "events_of i t = count_if (\<lambda>e. le_rfp e = i) (tb_events t)"

definition heard :: "string \<Rightarrow> life \<Rightarrow> nat" where
  "heard i s = events_of i (lf_tables s) + count_if (\<lambda>r. rf_id r = i) (lf_announcing s)"

definition facts_delivered :: "string \<Rightarrow> tables \<Rightarrow> bool" where
  "facts_delivered i t \<longleftrightarrow> (\<exists>r \<in> set (tb_rfps t). rf_id r = i \<and> rf_status r \<in> {RfpFactsReady, RfpEvaluated}) \<and>
     (\<exists>j \<in> set (tb_jobs t). jb_rfp j = i \<and> jb_status j = JobFactsReady)"

lemma facts_delivered_evolves:
  assumes "evolves t t'" and "facts_delivered i t"
  shows "facts_delivered i t'"
proof -
  obtain r j where r: "r \<in> set (tb_rfps t)" "rf_id r = i" "rf_status r \<in> {RfpFactsReady, RfpEvaluated}"
    and j: "j \<in> set (tb_jobs t)" "jb_rfp j = i" "jb_status j = JobFactsReady"
    using assms(2) by (auto simp: facts_delivered_def)
  obtain r' where "r' \<in> set (tb_rfps t')" "rfp_evolves r r'"
    using assms(1) r(1) unfolding evolves_def by (metis in_set_conv_nth list_all2_conv_all_nth)
  moreover obtain j' where "j' \<in> set (tb_jobs t')" "job_evolves j j'"
    using assms(1) j(1) unfolding evolves_def by (metis in_set_conv_nth in_set_takeD list_all2_conv_all_nth)
  ultimately show ?thesis
    using r j unfolding facts_delivered_def
    by (intro conjI bexI[of _ r'] bexI[of _ j']) (auto simp: rfp_evolves_def job_evolves_def can_transition_def)
qed

lemma events_sel [simp]:
  "tb_events (fst (close_expired_rfps now t)) = tb_events t"
  "tb_events (fst (queue_received_jobs t)) = tb_events t"
  "tb_events (settle_job jid outcome t) = tb_events t"
  "tb_events (fst (supersede_prior_received r v jid t)) = tb_events t"
  "tb_events (fst (enqueue_ingestion_job org r v h fn uri st t)) = tb_events t"
  by (auto simp: close_expired_rfps_def queue_received_jobs_def queue_rfps_once settle_job_def mark_failed_def
      mark_facts_ready_def supersede_prior_received_def enqueue_ingestion_job_def split: sum.split)

lemma events_assign [simp]: "tb_events (fst (assign_attribution org jid v iv t)) = tb_events t"
  by (cases rule: assign_cases[of org jid v iv t]) simp_all

lemma events_announce: "events_of i (announce t r) = events_of i t + (if rf_id r = i then 1 else 0)"
  by (simp add: events_of_def announce_def emit_event_def count_if_def)

lemma count_if_remove1: "x \<in> set xs \<Longrightarrow> count_if P xs = count_if P (remove1 x xs) + (if P x then 1 else 0)"
  by (induction xs) (auto simp: count_if_def)

lemma count_if_remove1_le: "count_if P (remove1 x xs) \<le> count_if P xs"
  by (induction xs) (auto simp: count_if_def)

lemma ready_jobs_0_iff:
  "ready_jobs i t = 0 \<longleftrightarrow> (\<forall>j \<in> set (tb_jobs t). jb_rfp j = i \<longrightarrow> jb_status j \<noteq> JobFactsReady)"
  by (simp add: ready_jobs_def count_if_0_iff)

text \<open>Only a flip adds to what is announced about an RFP, and it flips each RFP once.\<close>

lemma life_step_heard:
  assumes "life_step s s'" and "running_ok s"
  shows "heard i s' \<le> heard i s \<or>
    heard i s' = heard i s + 1 \<and> \<not> facts_delivered i (lf_tables s) \<and> facts_delivered i (lf_tables s')"
  using assms(1)
proof cases
  case (flip t' winners)
  let ?t = "lf_tables s"
  have wf: "wf_tables ?t" using assms(2) by (simp add: running_ok_def)
  have t': "t' = update_rfps (complete ?t) (\<lambda>r. r\<lparr>rf_status := RfpFactsReady\<rparr>) ?t"
    and w: "winners = filter (complete ?t) (tb_rfps ?t)"
    using flip(2) flip_completed_once[OF wf] by simp_all
  have h: "heard i s' = heard i s + count_if (\<lambda>r. rf_id r = i) winners"
    by (simp add: heard_def flip(1) t' events_of_def count_if_def)
  show ?thesis
  proof (cases "\<exists>r \<in> set winners. rf_id r = i")
    case False
    then have "count_if (\<lambda>r. rf_id r = i) winners = 0" by (simp add: count_if_0_iff)
    with h show ?thesis by simp
  next
    case True
    then obtain r where r: "r \<in> set (tb_rfps ?t)" "complete ?t r" "rf_id r = i" using w by auto
    have d: "distinct winners" using wf w by (simp add: wf_tables_def distinct_map)
    have "set (filter (\<lambda>r. rf_id r = i) winners) = {r}"
      using r wf_rfp_unique[OF wf] by (auto simp: w)
    then have "count_if (\<lambda>r. rf_id r = i) winners = 1"
      using d by (metis card.empty card_insert_disjoint count_if_def distinct_card distinct_filter empty_iff finite.emptyI One_nat_def)
    moreover have "\<not> facts_delivered i ?t"
      using r wf_rfp_unique[OF wf] by (fastforce simp: facts_delivered_def complete_def)
    moreover have "facts_delivered i t'"
      using r ready_jobs_0_iff[of i ?t] unfolding facts_delivered_def t'
      by (auto simp: set_update_where complete_def intro!: bexI[of _ "r\<lparr>rf_status := RfpFactsReady\<rparr>"] image_eqI[of _ _ r])
    ultimately show ?thesis using h flip(1) by simp
  qed
next
  case (claim jid t' j)
  then show ?thesis using claim_Some(3)[OF claim(2)] by (simp add: heard_def events_of_def)
next
  case (announce r)
  then show ?thesis
    using count_if_remove1[OF announce(2), of "\<lambda>r. rf_id r = i"] by (simp add: heard_def events_announce)
next
  case (insert org_id rfp_id vendor_id hash filename uri t' jid)
  have "tb_events t' = tb_events (lf_tables s)"
    using arg_cong[OF insert(3), of "\<lambda>p. tb_events (fst p)"] by simp
  with insert(1) show ?thesis by (simp add: heard_def events_of_def)
next
  case (accept_late org_id jid t')
  then show ?thesis by (auto simp: heard_def events_of_def accept_late_addendum_def split: if_splits)
next
  case (tick_dies r)
  then show ?thesis using count_if_remove1_le[of _ r "lf_announcing s"] by (simp add: heard_def)
qed (simp_all add: heard_def events_of_def)

lemma life_reachable_ok:
  assumes "life_reachable s0 s" and "running_ok s0" and "heard i s0 = 0"
  shows "running_ok s \<and> heard i s \<le> 1 \<and> (0 < heard i s \<longrightarrow> facts_delivered i (lf_tables s))"
  using assms(1)
proof induction
  case start
  show ?case using assms(2,3) by simp
next
  case (step s s')
  then show ?case
    using life_step_heard[OF step(2), of i] life_step_moves[OF step(2)] facts_delivered_evolves[of "lf_tables s" "lf_tables s'" i]
    by fastforce
qed

lemma quiet_ok: "wf_tables t \<Longrightarrow> automatic t \<Longrightarrow> running_ok (quiet t)"
  by (simp add: quiet_def running_ok_def)


section \<open>A submission that slips past the deadline\<close>

text \<open>An RFP in progress that has a received job, with no file of the same vendor under way that
  could supersede it: what a watcher leaves that checked the RFP before it was closed and inserted
  its job after the jobs were queued.\<close>

definition waiting :: "string \<Rightarrow> nat \<Rightarrow> string \<Rightarrow> tables \<Rightarrow> bool" where
  "waiting i jid v t \<longleftrightarrow>
     (\<exists>r \<in> set (tb_rfps t). rf_id r = i \<and> rf_status r = RfpProcessing) \<and>
     (\<exists>j \<in> set (tb_jobs t). jb_id j = jid \<and> jb_rfp j = i \<and> jb_vendor j = v \<and> jb_status j = JobReceived)"

definition stranded :: "string \<Rightarrow> nat \<Rightarrow> string \<Rightarrow> life \<Rightarrow> bool" where
  "stranded i jid v s \<longleftrightarrow> waiting i jid v (lf_tables s) \<and>
     (\<forall>(_, r, w, _) \<in> set (lf_inserting s). (r, w) \<noteq> (i, v)) \<and>
     (\<forall>(r, w, k) \<in> set (lf_superseding s). (r, w) = (i, v) \<longrightarrow> k = jid)"

lemma update_where_keeps: "x \<in> set xs \<Longrightarrow> \<not> P x \<Longrightarrow> x \<in> set (update_where P f xs)"
  by (auto simp: set_update_where image_iff intro!: bexI[of _ x])

lemma waiting_update_jobs:
  assumes "waiting i jid v t"
    and "\<And>j. j \<in> set (tb_jobs t) \<Longrightarrow> P j \<Longrightarrow> jb_rfp j = i \<Longrightarrow> jb_vendor j = v \<Longrightarrow> jb_status j = JobReceived \<Longrightarrow> jb_id j \<noteq> jid"
  shows "waiting i jid v (update_jobs P f t)"
proof -
  obtain j where "j \<in> set (tb_jobs t)" "jb_id j = jid" "jb_rfp j = i" "jb_vendor j = v" "jb_status j = JobReceived"
    using assms(1) by (auto simp: waiting_def)
  moreover from this have "j \<in> set (update_where P f (tb_jobs t))" using assms(2) by (intro update_where_keeps) auto
  ultimately show ?thesis using assms(1) by (auto simp: waiting_def)
qed

lemma waiting_update_rfps:
  assumes "waiting i jid v t"
    and "\<And>r. r \<in> set (tb_rfps t) \<Longrightarrow> P r \<Longrightarrow> rf_status r = RfpProcessing \<Longrightarrow> rf_id r \<noteq> i"
  shows "waiting i jid v (update_rfps P f t)"
proof -
  obtain r where "r \<in> set (tb_rfps t)" "rf_id r = i" "rf_status r = RfpProcessing"
    using assms(1) by (auto simp: waiting_def)
  moreover from this have "r \<in> set (update_where P f (tb_rfps t))" using assms(2) by (intro update_where_keeps) auto
  ultimately show ?thesis using assms(1) by (auto simp: waiting_def)
qed

lemma waiting_sel [simp]:
  "waiting i jid v (announce t r) = waiting i jid v t" "waiting i jid v (invite_vendor a b t) = waiting i jid v t"
  by (simp_all add: waiting_def)

lemma waiting_rfp: "wf_tables t \<Longrightarrow> waiting i jid v t \<Longrightarrow> r \<in> set (tb_rfps t) \<Longrightarrow> rf_id r = i \<Longrightarrow> rf_status r = RfpProcessing"
  unfolding waiting_def by (metis wf_rfp_unique)

lemma waiting_job: "wf_tables t \<Longrightarrow> waiting i jid v t \<Longrightarrow> j \<in> set (tb_jobs t) \<Longrightarrow> jb_id j = jid \<Longrightarrow> jb_status j = JobReceived"
  unfolding waiting_def by (metis wf_job_unique)

lemma waiting_close: "waiting i jid v t \<Longrightarrow> waiting i jid v (fst (close_expired_rfps now t))"
  by (auto simp: close_expired_rfps_def expired_def intro!: waiting_update_rfps)

lemma waiting_queue:
  assumes "wf_tables t" and "waiting i jid v t"
  shows "waiting i jid v (fst (queue_received_jobs t))"
proof -
  have "i \<notin> rf_id ` set (closed_rfps t)"
    using waiting_rfp[OF assms] by (auto simp: closed_rfps_def)
  then show ?thesis using assms(2)
    by (auto simp: queue_received_jobs_def queue_rfps_once intro!: waiting_update_rfps waiting_update_jobs)
qed

lemma waiting_flip:
  assumes "wf_tables t" and "waiting i jid v t"
  shows "waiting i jid v (fst (flip_completed_rfps t))"
proof -
  have "open_jobs i t \<noteq> 0" using assms(2) by (auto simp: waiting_def open_jobs_def count_if_0_iff)
  then show ?thesis using assms by (auto simp: flip_completed_once complete_def intro!: waiting_update_rfps)
qed

lemma waiting_settle:
  assumes "wf_tables t" and "claimed k t" and "waiting i jid v t"
  shows "waiting i jid v (settle_job k outcome t)"
proof -
  have "k \<noteq> jid" using assms(2) waiting_job[OF assms(1,3)] by (auto simp: claimed_def)
  then show ?thesis using assms(3)
    by (auto simp: settle_job_def mark_failed_def mark_facts_ready_def intro!: waiting_update_jobs split: sum.split)
qed

lemma waiting_enqueue: "waiting i jid v t \<Longrightarrow> waiting i jid v (fst (enqueue_ingestion_job org r w h fn uri st t))"
  by (auto simp: enqueue_ingestion_job_def waiting_def)

lemma waiting_supersede:
  "waiting i jid v t \<Longrightarrow> (r, w) = (i, v) \<longrightarrow> k = jid \<Longrightarrow> waiting i jid v (fst (supersede_prior_received r w k t))"
  by (auto simp: supersede_prior_received_def prior_received_def intro!: waiting_update_jobs)

lemma waiting_claim: "waiting i jid v t \<Longrightarrow> claim_for_processing k t = (t', x) \<Longrightarrow> waiting i jid v t'"
  by (auto simp: claim_for_processing_def is_queued_def intro!: waiting_update_jobs split: option.splits)

lemma waiting_accept_late: "waiting i jid v t \<Longrightarrow> accept_late_addendum org k t = Inr t' \<Longrightarrow> waiting i jid v t'"
  by (auto simp: accept_late_addendum_def late_for_def intro!: waiting_update_jobs split: if_splits)

lemma waiting_assign: "waiting i jid v t \<Longrightarrow> waiting i jid v (fst (assign_attribution org k w iv t))"
  by (cases rule: assign_cases[of org k w iv t])
    (auto simp: needs_assignment_def intro!: waiting_update_jobs)

lemma waiting_not_accepted:
  assumes "wf_tables t" and "waiting i jid v t"
  shows "accepts now i w t = None"
proof (cases "get_rfp_lifecycle i t")
  case (Some r)
  then have "r \<in> set (tb_rfps t)" "rf_id r = i" by (auto simp: get_rfp_lifecycle_def find_Some_iff)
  with Some show ?thesis using waiting_rfp[OF assms, of r] by (simp add: accepts_def)
qed (simp add: accepts_def)

lemma stranded_step:
  assumes "life_step s s'" and ok: "running_ok s" and st: "stranded i jid v s"
  shows "stranded i jid v s'"
proof -
  have wf: "wf_tables (lf_tables s)" using ok by (simp add: running_ok_def)
  have w: "waiting i jid v (lf_tables s)" using st by (simp add: stranded_def)
  from assms(1) show ?thesis
  proof cases
    case (close now)
    then show ?thesis using st by (simp add: stranded_def waiting_close)
  next
    case queue
    then show ?thesis using st wf by (simp add: stranded_def waiting_queue)
  next
    case (claim k t' j)
    then show ?thesis using st waiting_claim[OF w claim(2)] by (simp add: stranded_def)
  next
    case (settle k outcome)
    then show ?thesis using st ok wf waiting_settle[OF wf _ w] by (simp add: stranded_def running_ok_def)
  next
    case (flip t' winners)
    then show ?thesis using st waiting_flip[OF wf w] by (simp add: stranded_def)
  next
    case (announce r)
    then show ?thesis using st by (simp add: stranded_def)
  next
    case (accept now r u row h fn uri)
    then have "r \<noteq> i" using waiting_not_accepted[OF wf w] by auto
    with accept(1) st show ?thesis by (simp add: stranded_def)
  next
    case (insert org r u h fn uri t' k)
    have "(r, u) \<noteq> (i, v)" using st insert(2) by (auto simp: stranded_def)
    moreover have "waiting i jid v t'" using waiting_enqueue[OF w, of org r u h fn uri JobReceived] insert(3) by simp
    ultimately show ?thesis using st insert(1)
      by (auto simp: stranded_def dest: notin_set_remove1 set_remove1_subset[THEN subsetD] split: option.splits)
  next
    case (supersede r u k)
    have "waiting i jid v (lf_tables s')"
      using supersede st w by (auto simp: stranded_def intro!: waiting_supersede)
    then show ?thesis using st supersede(1)
      by (auto simp: stranded_def dest: set_remove1_subset[THEN subsetD])
  next
    case (refuse status org r u h fn uri)
    then show ?thesis using st waiting_enqueue[OF w] by (simp add: stranded_def)
  next
    case (assign org k u iv)
    then show ?thesis using st waiting_assign[OF w] by (simp add: stranded_def)
  next
    case (accept_late org k t')
    then show ?thesis using st waiting_accept_late[OF w accept_late(2)] by (simp add: stranded_def)
  next
    case (watcher_dies f p)
    then show ?thesis using st by (auto simp: stranded_def dest: set_remove1_subset[THEN subsetD])
  qed (use st in \<open>simp_all add: stranded_def\<close>)
qed

lemma stranded_forever:
  assumes "life_reachable s0 s" and "running_ok s0" and "stranded i jid v s0"
  shows "running_ok s \<and> stranded i jid v s"
  using assms(1)
proof induction
  case start
  show ?case using assms by simp
next
  case (step s s')
  then show ?case using stranded_step life_step_moves by blast
qed

end
