(* ===== verification/Tick_Laws.thy ===== *)
theory Tick_Laws
  imports Scheduler_Laws
begin

text \<open>
  What a whole tick of the deadline processor and a whole run of the watcher do: the jobs of a tick
  settle independently of their order, an expired RFP is closed, its jobs are processed and it is
  flipped exactly when some job succeeded, and a received file is its vendor's only received job.
\<close>

section \<open>Processing jobs\<close>

definition settled :: "job_env \<Rightarrow> job \<Rightarrow> job" where
  "settled env j = (case job_outcome env j of
     Inl reason \<Rightarrow> j\<lparr>jb_status := JobFailed, jb_error := Some (take 1000 reason)\<rparr>
   | Inr (doc_id, _) \<Rightarrow> j\<lparr>jb_status := JobFactsReady, jb_doc_id := Some doc_id\<rparr>)"

lemma settled_sel [simp]:
  "jb_id (settled env j) = jb_id j" "jb_rfp (settled env j) = jb_rfp j"
  "submission_of (settled env j) = submission_of j"
  by (simp_all add: settled_def submission_of_def split: sum.split)

lemma settled_status:
  "jb_status (settled env j) = (case job_outcome env j of Inl _ \<Rightarrow> JobFailed | Inr _ \<Rightarrow> JobFactsReady)"
  by (simp add: settled_def split: sum.split)

lemma settled_done [simp]: "jb_status (settled env j) \<notin> {JobReceived, JobQueued, JobProcessing}"
  by (simp add: settled_status split: sum.split)

lemma update_jobs_twice:
  assumes "\<And>j. j \<in> set (tb_jobs t) \<Longrightarrow>
    (if Q (if P j then f j else j) then g (if P j then f j else j) else (if P j then f j else j)) = (if R j then h j else j)"
  shows "update_jobs Q g (update_jobs P f t) = update_jobs R h t"
  using assms by (simp add: update_jobs_def update_where_def cong: map_cong)

lemma process_job_once:
  assumes "wf_tables t"
  shows "fst (process_job env jid t) = update_jobs (is_queued jid) (settled env) t"
proof (cases "List.find (is_queued jid) (tb_jobs t)")
  case None
  then have "update_where (is_queued jid) (settled env) (tb_jobs t) = tb_jobs t"
    by (intro update_where_id) (auto simp: find_None_iff)
  with None show ?thesis by (simp add: process_job_def claim_for_processing_def update_jobs_def)
next
  case (Some j)
  then have j: "j \<in> set (tb_jobs t)" "is_queued jid j" by (auto simp: find_Some_iff)
  have uniq: "x = j" if "x \<in> set (tb_jobs t)" "jb_id x = jid" for x
    using that j wf_job_unique[OF assms] by (simp add: is_queued_def)
  have "fst (process_job env jid t) =
      settle_job jid (job_outcome env j) (update_jobs (is_queued jid) (\<lambda>j. j\<lparr>jb_status := JobProcessing\<rparr>) t)"
    using Some by (simp add: process_job_def claim_for_processing_def)
  also have "... = update_jobs (is_queued jid) (settled env) t"
  proof (cases "job_outcome env j")
    case (Inl reason)
    have "settled env x = x\<lparr>jb_status := JobFailed, jb_error := Some (take 1000 reason)\<rparr> \<and> jb_status x = JobQueued"
      if "x \<in> set (tb_jobs t)" "jb_id x = jid" for x
      using uniq[OF that] Inl j by (simp add: settled_def is_queued_def)
    then show ?thesis unfolding settle_job_def mark_failed_def Inl sum.case
      by (intro update_jobs_twice) (use j in \<open>auto simp: is_queued_def\<close>)
  next
    case (Inr p)
    have "settled env x = x\<lparr>jb_status := JobFactsReady, jb_doc_id := Some (fst p)\<rparr> \<and> jb_status x = JobQueued"
      if "x \<in> set (tb_jobs t)" "jb_id x = jid" for x
      using uniq[OF that] Inr j by (simp add: settled_def split_def is_queued_def)
    then show ?thesis unfolding settle_job_def mark_facts_ready_def Inr sum.case prod.case_eq_if
      by (intro update_jobs_twice) (use j in \<open>auto simp: is_queued_def\<close>)
  qed
  finally show ?thesis .
qed

lemma wf_update_settled: "wf_tables t \<Longrightarrow> wf_tables (update_jobs P (settled env) t)"
  by (rule wf_update_jobs) simp_all

lemma process_jobs_once:
  "wf_tables t \<Longrightarrow> fst (process_jobs env jids t) =
     update_jobs (\<lambda>j. jb_id j \<in> set jids \<and> jb_status j = JobQueued) (settled env) t"
proof (induction jids arbitrary: t)
  case Nil
  then show ?case by (simp add: update_jobs_def update_where_def)
next
  case (Cons jid jids)
  have step: "fst (process_jobs env (jid # jids) t) = fst (process_jobs env jids (fst (process_job env jid t)))"
    by (simp add: split_def Let_def)
  show ?case
    unfolding step process_job_once[OF Cons.prems] Cons.IH[OF wf_update_settled[OF Cons.prems]]
    by (rule update_jobs_twice) (auto simp: is_queued_def settled_status split: sum.splits)
qed


lemma list_queued_ids: "set (list_queued_jobs t) = {jb_id j | j. j \<in> set (tb_jobs t) \<and> jb_status j = JobQueued}"
  by (auto simp: list_queued_jobs_def)

section \<open>A whole tick\<close>

text \<open>What the tick does to an RFP and to a job, row by row.\<close>

definition after_queue :: "int \<Rightarrow> tables \<Rightarrow> job \<Rightarrow> job" where
  "after_queue now t j =
     (if jb_status j = JobReceived \<and>
         (\<exists>r \<in> set (tb_rfps t). rf_id r = jb_rfp j \<and> rf_autonomy r \<noteq> Manual \<and> (rf_status r = RfpClosed \<or> expired now r))
      then j\<lparr>jb_status := JobQueued\<rparr> else j)"

definition after_tick :: "job_env \<Rightarrow> int \<Rightarrow> tables \<Rightarrow> job \<Rightarrow> job" where
  "after_tick env now t j =
     (let j' = after_queue now t j in if jb_status j' = JobQueued then settled env j' else j')"

definition queue_due :: "int \<Rightarrow> tables \<Rightarrow> tables" where
  "queue_due now t = fst (queue_received_jobs (fst (close_expired_rfps now t)))"

definition after_close :: "int \<Rightarrow> rfp_row \<Rightarrow> rfp_row" where
  "after_close now r =
     (if rf_autonomy r \<noteq> Manual \<and> (rf_status r = RfpClosed \<or> expired now r) then r\<lparr>rf_status := RfpProcessing\<rparr> else r)"

lemma closed_after_close:
  "set (closed_rfps (fst (close_expired_rfps now t))) =
     (\<lambda>r. r\<lparr>rf_status := RfpClosed\<rparr>) ` {r \<in> set (tb_rfps t). rf_autonomy r \<noteq> Manual \<and> (rf_status r = RfpClosed \<or> expired now r)}"
    (is "?L = ?R")
proof
  show "?L \<subseteq> ?R"
  proof
    fix q assume "q \<in> ?L"
    then obtain r where "r \<in> set (tb_rfps t)" "q = (if expired now r then r\<lparr>rf_status := RfpClosed\<rparr> else r)"
      "rf_status q = RfpClosed" "rf_autonomy q \<noteq> Manual"
      by (auto simp: closed_rfps_def close_expired_rfps_def set_update_where)
    then show "q \<in> ?R" by (intro image_eqI[where x = r]) (auto split: if_splits)
  qed
  show "?R \<subseteq> ?L"
  proof clarify
    fix r assume r: "r \<in> set (tb_rfps t)" "rf_autonomy r \<noteq> Manual" "rf_status r = RfpClosed \<or> expired now r"
    have "r\<lparr>rf_status := RfpClosed\<rparr> = (if expired now r then r\<lparr>rf_status := RfpClosed\<rparr> else r)"
      using r(3) by (cases r) auto
    also have "... \<in> set (tb_rfps (fst (close_expired_rfps now t)))"
      using r(1) by (auto simp: close_expired_rfps_def set_update_where)
    finally show "r\<lparr>rf_status := RfpClosed\<rparr> \<in> ?L" using r(2) by (simp add: closed_rfps_def)
  qed
qed

lemma queue_due_jobs: "tb_jobs (queue_due now t) = map (after_queue now t) (tb_jobs t)"
  unfolding queue_due_def queue_received_jobs_def fst_conv queue_rfps_once closed_after_close
  by (auto simp: close_expired_rfps_def update_where_def after_queue_def image_iff intro!: map_cong)

lemma queue_due_rfps: "wf_tables t \<Longrightarrow> tb_rfps (queue_due now t) = map (after_close now) (tb_rfps t)"
  unfolding queue_due_def queue_received_jobs_def fst_conv queue_rfps_once closed_after_close
  by (auto simp: close_expired_rfps_def update_where_def after_close_def image_iff expired_def
      dest: wf_rfp_unique intro!: map_cong)

lemma queue_due_wf: "wf_tables t \<Longrightarrow> wf_tables (queue_due now t)"
  using queue_op.keeps_wf close_op.keeps_wf by (simp add: queue_due_def)

definition processed :: "job_env \<Rightarrow> int \<Rightarrow> tables \<Rightarrow> tables" where
  "processed env now t = update_jobs (\<lambda>j. jb_status j = JobQueued) (settled env) (queue_due now t)"

lemma announce_all [simp]:
  "tb_jobs (foldl announce t rs) = tb_jobs t" "tb_rfps (foldl announce t rs) = tb_rfps t"
  by (induction rs arbitrary: t) (simp_all add: announce_def emit_event_def)

lemma tick_tables:
  assumes "wf_tables t"
  shows "fst (tick env now t) =
    foldl announce (update_rfps (complete (processed env now t)) (\<lambda>r. r\<lparr>rf_status := RfpFactsReady\<rparr>) (processed env now t))
      (filter (complete (processed env now t)) (tb_rfps (processed env now t)))"
proof -
  let ?t2 = "queue_due now t"
  have p: "fst (process_jobs env (list_queued_jobs ?t2) ?t2) = processed env now t"
    unfolding process_jobs_once[OF queue_due_wf[OF assms]] processed_def list_queued_ids
    by (auto simp: update_jobs_def update_where_def intro!: map_cong)
  obtain x where "(if list_queued_jobs ?t2 \<noteq> [] then process_jobs_in_parallel env (list_queued_jobs ?t2) ?t2 else (?t2, 0, 0)) =
      (processed env now t, x)"
    using p by (cases "list_queued_jobs ?t2 = []") (auto simp: process_jobs_in_parallel_def split_def Let_def)
  moreover have "wf_tables (processed env now t)"
    unfolding processed_def by (rule wf_update_settled[OF queue_due_wf[OF assms]])
  ultimately show ?thesis
    unfolding tick_def queue_due_def by (simp add: Let_def split_def finalize_completed_rfps_def flip_completed_once del: if_not_P)
qed

lemma tick_jobs: "wf_tables t \<Longrightarrow> tb_jobs (fst (tick env now t)) = map (after_tick env now t) (tb_jobs t)"
  by (simp add: tick_tables processed_def queue_due_jobs update_where_def after_tick_def Let_def)

definition after_flip :: "tables \<Rightarrow> rfp_row \<Rightarrow> rfp_row" where
  "after_flip t r = (if complete t r then r\<lparr>rf_status := RfpFactsReady\<rparr> else r)"

lemma tick_rfps:
  "wf_tables t \<Longrightarrow> tb_rfps (fst (tick env now t)) =
     map (\<lambda>r. after_flip (processed env now t) (after_close now r)) (tb_rfps t)"
  by (simp add: tick_tables update_where_def after_flip_def)
    (simp add: processed_def queue_due_rfps)

lemma processed_jobs: "tb_jobs (processed env now t) = map (after_tick env now t) (tb_jobs t)"
  by (simp add: processed_def queue_due_jobs update_where_def after_tick_def Let_def)

lemma after_rfp_sel [simp]: "rf_id (after_flip t r) = rf_id r" "rf_id (after_close now r) = rf_id r"
  by (simp_all add: after_flip_def after_close_def)

text \<open>Whether a job has facts once the tick has run what was waiting.\<close>

definition succeeds :: "job_env \<Rightarrow> job \<Rightarrow> bool" where
  "succeeds env j = (case job_outcome env (j\<lparr>jb_status := JobQueued\<rparr>) of Inl _ \<Rightarrow> False | Inr _ \<Rightarrow> True)"

definition status_after :: "job_env \<Rightarrow> job \<Rightarrow> job_status" where
  "status_after env j =
     (if jb_status j \<in> {JobReceived, JobQueued} then if succeeds env j then JobFactsReady else JobFailed
      else jb_status j)"

lemma after_tick_sel [simp]: "jb_id (after_tick env now t j) = jb_id j" "jb_rfp (after_tick env now t j) = jb_rfp j"
  by (simp_all add: after_tick_def Let_def after_queue_def)

lemma after_tick_status:
  assumes "r \<in> set (tb_rfps t)" and "expired now r" and "jb_rfp j = rf_id r"
  shows "jb_status (after_tick env now t j) = status_after env j"
proof (cases "jb_status j = JobReceived")
  case True
  have "after_queue now t j = j\<lparr>jb_status := JobQueued\<rparr>"
    using assms True by (auto simp: after_queue_def expired_def intro!: bexI[of _ r])
  with True show ?thesis
    by (simp add: after_tick_def status_after_def succeeds_def settled_status split: sum.split)
next
  case False
  then have "after_queue now t j = j" by (simp add: after_queue_def)
  moreover have "job_outcome env (j\<lparr>jb_status := JobQueued\<rparr>) = job_outcome env j" if "jb_status j = JobQueued"
  proof -
    have "j\<lparr>jb_status := JobQueued\<rparr> = j" using that by (cases j) simp
    then show ?thesis by simp
  qed
  ultimately show ?thesis
    using False
    by (cases "jb_status j = JobQueued")
      (auto simp: after_tick_def status_after_def succeeds_def settled_status split: sum.splits)
qed

lemma complete_after_processing:
  assumes "r \<in> set (tb_rfps t)" and "expired now r"
    and "\<And>j. j \<in> set (tb_jobs t) \<Longrightarrow> jb_rfp j = rf_id r \<Longrightarrow> jb_status j \<noteq> JobProcessing"
  shows "complete (processed env now t) (after_close now r) \<longleftrightarrow>
    (\<exists>j \<in> set (tb_jobs t). jb_rfp j = rf_id r \<and> status_after env j = JobFactsReady)"
proof -
  have st: "jb_status (after_tick env now t j) = status_after env j" if "jb_rfp j = rf_id r" for j
    using after_tick_status[OF assms(1,2) that] .
  have "status_after env j \<notin> {JobReceived, JobQueued, JobProcessing}" if "j \<in> set (tb_jobs t)" "jb_rfp j = rf_id r" for j
    using assms(3)[OF that] by (auto simp: status_after_def)
  then have "open_jobs (rf_id r) (processed env now t) = 0"
    by (auto simp: open_jobs_def count_if_0_iff processed_jobs st)
  moreover have "ready_jobs (rf_id r) (processed env now t) \<noteq> 0 \<longleftrightarrow>
      (\<exists>j \<in> set (tb_jobs t). jb_rfp j = rf_id r \<and> status_after env j = JobFactsReady)"
    by (auto simp: ready_jobs_def count_if_0_iff processed_jobs st)
  ultimately show ?thesis using assms(2) by (simp add: complete_def after_close_def expired_def)
qed

section \<open>A received file\<close>

lemma enqueue_fresh:
  assumes "enqueue_ingestion_job org rfp v h fn uri st t = (t', Some jid)"
  shows "jid = tb_next t" "t' = t\<lparr>tb_jobs := tb_jobs t @ [new_job jid org rfp v h fn uri st], tb_next := tb_next t + 1\<rparr>"
  using assms by (auto simp: enqueue_ingestion_job_def split: if_splits)

lemma ingest_received_only:
  assumes "wf_tables t" and "ingest_received f rfp v org t = (t', d)" and "dr_status d = ''received''"
  shows "dr_job_id d = Some (tb_next t) \<and>
    filter (\<lambda>j. jb_rfp j = rfp \<and> jb_vendor j = v \<and> jb_status j = JobReceived) (tb_jobs t') =
      [new_job (tb_next t) org rfp v (df_hash f) (df_name f) (df_uri f) JobReceived]"
proof -
  obtain t1 x where x: "enqueue_ingestion_job org rfp v (df_hash f) (df_name f) (df_uri f) JobReceived t = (t1, x)"
    by (cases "enqueue_ingestion_job org rfp v (df_hash f) (df_name f) (df_uri f) JobReceived t")
  obtain jid where "x = Some jid" using assms(2,3) by (cases x) (auto simp: ingest_received_def x)
  note e = x[unfolded this]
  have t': "t' = fst (supersede_prior_received rfp v jid t1)" and d: "dr_job_id d = Some jid"
    using assms(2) by (auto simp: ingest_received_def e split_def Let_def)
  let ?j = "new_job jid org rfp v (df_hash f) (df_name f) (df_uri f) JobReceived"
  let ?P = "prior_received rfp v jid"
  let ?f = "\<lambda>j. j\<lparr>jb_status := JobSuperseded, jb_superseded_by := Some jid\<rparr>"
  note jid = enqueue_fresh[OF e]
  have old: "jb_id j \<noteq> jid" if "j \<in> set (tb_jobs t)" for j using assms(1) that jid(1) by (auto simp: wf_tables_def)
  have "tb_jobs t' = update_where ?P ?f (tb_jobs t) @ [?j]"
    by (simp add: t' jid(2) supersede_prior_received_def update_where_def prior_received_def new_job_def)
  moreover have "filter (\<lambda>j. jb_rfp j = rfp \<and> jb_vendor j = v \<and> jb_status j = JobReceived) (update_where ?P ?f (tb_jobs t)) = []"
  proof -
    have "\<not> (jb_rfp q = rfp \<and> jb_vendor q = v \<and> jb_status q = JobReceived)" if q: "q \<in> set (update_where ?P ?f (tb_jobs t))" for q
    proof -
      obtain j where "j \<in> set (tb_jobs t)" "q = (if ?P j then ?f j else j)" using q by (auto simp: set_update_where)
      then show ?thesis using old[of j] by (cases "?P j") (auto simp: prior_received_def)
    qed
    then show ?thesis by (simp add: filter_empty_conv)
  qed
  ultimately show ?thesis using d jid(1) by (simp add: new_job_def)
qed


lemma drop_received_path:
  assumes "handle_dropped_file now f t = (t', d)" and "dr_status d = ''received''"
  shows "\<exists>rfp v r. parse_drop_path (df_parts f) = (Some rfp, Some v) \<and> get_rfp_lifecycle rfp t = Some r \<and>
    rf_status r = RfpOpen \<and> (\<forall>dl. rf_deadline r = Some dl \<longrightarrow> now \<le> dl) \<and> is_invited_vendor rfp v t \<and>
    ingest_received f rfp v (rf_org r) t = (t', d)"
proof -
  have terminal: "dr_status (snd (enqueue_terminal f rfp v org st reason t)) = job_status_value st" for rfp v org st reason
    by (simp add: enqueue_terminal_def split_def Let_def)
  obtain rfp ov where p: "parse_drop_path (df_parts f) = (Some rfp, ov)"
    using assms by (cases "parse_drop_path (df_parts f)"; cases "fst (parse_drop_path (df_parts f))")
      (auto simp: handle_dropped_file_def)
  obtain r where r: "get_rfp_lifecycle rfp t = Some r"
    using assms by (cases "get_rfp_lifecycle rfp t") (auto simp: handle_dropped_file_def p)
  let ?past = "case rf_deadline r of None \<Rightarrow> False | Some dl \<Rightarrow> dl < now"
  note run = assms(1)[unfolded handle_dropped_file_def p prod.case option.case r]
  have st: "rf_status r = RfpOpen"
  proof (rule ccontr)
    assume "rf_status r \<noteq> RfpOpen"
    with run terminal[of rfp "or_unknown ov" "rf_org r" JobRejectedLate] assms(2) show False by (auto simp: prod_eq_iff)
  qed
  have past: "\<not> ?past"
  proof
    assume "?past"
    with run st terminal[of rfp "or_unknown ov" "rf_org r" JobRejectedLate] assms(2) show False by (auto simp: prod_eq_iff)
  qed
  obtain v where v: "ov = Some v"
    using run st past terminal[of rfp unknown_vendor "rf_org r" JobNeedsAttribution] assms(2)
    by (cases ov) (auto simp: prod_eq_iff)
  have "is_invited_vendor rfp v t"
  proof (rule ccontr)
    assume "\<not> is_invited_vendor rfp v t"
    with run st past v terminal[of rfp v "rf_org r" JobNeedsAttribution] assms(2) show False by (auto simp: prod_eq_iff)
  qed
  with run st past v p r show ?thesis by (auto split: option.splits)
qed

lemma only_rfp:
  assumes "wf_tables t" and "r \<in> set (tb_rfps t)"
  shows "filter (\<lambda>q. rf_id q = rf_id r) (tb_rfps t) = [r]"
proof -
  have "distinct (map rf_id xs) \<Longrightarrow> r \<in> set xs \<Longrightarrow> filter (\<lambda>q. rf_id q = rf_id r) xs = [r]" for xs
  proof (induction xs)
    case (Cons x xs)
    then show ?case by (cases "x = r") (auto simp: filter_empty_conv image_iff)
  qed simp
  then show ?thesis using assms by (simp add: wf_tables_def)
qed

end
