(* ===== verification/Demo_Jobs.thy ===== *)
theory Demo_Jobs
  imports Lifecycle Tick_Laws
begin

text \<open>Concrete tables of the background ingestion for the witnesses. Nothing here models code.\<close>

definition demo_rfp :: rfp_row where
  "demo_rfp = \<lparr>rf_id = ''R'', rf_org = ''O'', rf_status = RfpOpen, rf_deadline = Some 10, rf_autonomy = AutoToEvaluate\<rparr>"

definition demo_job :: job where
  "demo_job = new_job 0 ''O'' ''R'' ''a'' ''h'' ''f.pdf'' ''/f.pdf'' JobReceived"

definition demo_tables :: tables where
  "demo_tables = \<lparr>tb_rfps = [demo_rfp], tb_jobs = [demo_job], tb_events = [],
     tb_invited = [(''R'', ''a''), (''R'', ''b'')], tb_next = 1\<rparr>"

definition demo_job_env :: job_env where
  "demo_job_env = \<lparr>je_setup_of = (\<lambda>_. Inr (Some ''S'')), je_read_source = (\<lambda>_. Inr (Some ''text'')),
     je_ingest = (\<lambda>_ _ _ _. Inr ''D''), je_extract = (\<lambda>_ _ _. Inr 3)\<rparr>"

definition demo_drop :: dropped_file where
  "demo_drop = \<lparr>df_parts = Some [''R'', ''a'', ''g.pdf''], df_hash = ''h2'', df_name = ''g.pdf'', df_uri = ''/g.pdf''\<rparr>"

lemma demo_tables_ok: "wf_tables demo_tables" "automatic demo_tables" "events_of i demo_tables = 0"
  by (simp_all add: demo_tables_def demo_rfp_def demo_job_def wf_tables_def automatic_def new_job_def events_of_def count_if_def)

text \<open>The deadline passes, the received job is queued.\<close>

definition demo_queued :: tables where
  "demo_queued = fst (queue_received_jobs (fst (close_expired_rfps 20 demo_tables)))"

lemma demo_queued_reached:
  "life_reachable (quiet demo_tables) ((quiet demo_tables)\<lparr>lf_tables := demo_queued\<rparr>)"
proof -
  let ?s0 = "quiet demo_tables"
  have "life_step ?s0 (?s0\<lparr>lf_tables := fst (close_expired_rfps 20 demo_tables)\<rparr>)"
    using life_step.close[of ?s0 20] by (simp add: quiet_def)
  moreover have "life_step (?s0\<lparr>lf_tables := fst (close_expired_rfps 20 demo_tables)\<rparr>) (?s0\<lparr>lf_tables := demo_queued\<rparr>)"
    using life_step.queue[of "?s0\<lparr>lf_tables := fst (close_expired_rfps 20 demo_tables)\<rparr>"] by (simp add: demo_queued_def)
  ultimately show ?thesis by (meson life_reachable.intros)
qed

text \<open>A worker claims it and finishes it, the tick flips the RFP and announces it.\<close>

definition demo_claimed :: tables where
  "demo_claimed = fst (claim_for_processing 0 demo_queued)"

definition demo_settled :: tables where
  "demo_settled = settle_job 0 (Inr (''D'', 3)) demo_claimed"

definition demo_ready :: rfp_row where
  "demo_ready = demo_rfp\<lparr>rf_status := RfpProcessing\<rparr>"

definition demo_flipped :: tables where
  "demo_flipped = fst (flip_completed_rfps demo_settled)"

definition demo_announced :: life where
  "demo_announced = (quiet demo_tables)\<lparr>lf_tables := announce demo_flipped demo_ready\<rparr>"

lemma demo_announced_reached: "life_reachable (quiet demo_tables) demo_announced"
proof -
  let ?s = "(quiet demo_tables)\<lparr>lf_tables := demo_queued\<rparr>"
  let ?c = "?s\<lparr>lf_tables := demo_claimed, lf_running := [0]\<rparr>"
  let ?d = "?s\<lparr>lf_tables := demo_settled\<rparr>"
  let ?f = "?s\<lparr>lf_tables := demo_flipped, lf_announcing := [demo_ready]\<rparr>"
  have "claim_for_processing 0 demo_queued = (demo_claimed, Some (demo_job\<lparr>jb_status := JobQueued\<rparr>))" by code_simp
  then have 1: "life_step ?s ?c" using life_step.claim[of 0 ?s] by (simp add: quiet_def)
  have 2: "life_step ?c ?d" using life_step.settle[of 0 ?c "Inr (''D'', 3)"] by (simp add: quiet_def demo_settled_def)
  have "flip_completed_rfps demo_settled = (demo_flipped, [demo_ready])" by code_simp
  then have 3: "life_step ?d ?f" using life_step.flip[of ?d] by (simp add: quiet_def)
  have 4: "life_step ?f demo_announced"
    using life_step.announce[of demo_ready ?f] by (simp add: quiet_def demo_announced_def)
  show ?thesis using demo_queued_reached 1 2 3 4 by (meson life_reachable.step)
qed

text \<open>Another vendor's file is checked before the deadline and inserted after the jobs are queued.\<close>

definition demo_stranded :: life where
  "demo_stranded = \<lparr>lf_tables = fst (enqueue_ingestion_job ''O'' ''R'' ''b'' ''h3'' ''g.pdf'' ''/g.pdf'' JobReceived demo_queued),
     lf_running = [], lf_inserting = [], lf_superseding = [(''R'', ''b'', 1)], lf_announcing = []\<rparr>"

lemma demo_stranded_reached: "life_reachable (quiet demo_tables) demo_stranded"
proof -
  let ?s0 = "quiet demo_tables"
  let ?f = "(''O'', ''R'', ''b'', ''h3'', ''g.pdf'', ''/g.pdf'')"
  let ?a = "?s0\<lparr>lf_inserting := [?f]\<rparr>"
  let ?c = "?a\<lparr>lf_tables := fst (close_expired_rfps 20 demo_tables)\<rparr>"
  let ?q = "?a\<lparr>lf_tables := demo_queued\<rparr>"
  have "accepts 0 ''R'' ''b'' demo_tables = Some demo_rfp" by code_simp
  then have 1: "life_step ?s0 ?a"
    using life_step.accept[of 0 "''R''" "''b''" ?s0 demo_rfp "''h3''" "''g.pdf''" "''/g.pdf''"]
    by (simp add: quiet_def demo_rfp_def)
  have 2: "life_step ?a ?c" using life_step.close[of ?a 20] by (simp add: quiet_def)
  have 3: "life_step ?c ?q" using life_step.queue[of ?c] by (simp add: demo_queued_def)
  have "enqueue_ingestion_job ''O'' ''R'' ''b'' ''h3'' ''g.pdf'' ''/g.pdf'' JobReceived demo_queued = (lf_tables demo_stranded, Some 1)"
    by code_simp
  then have 4: "life_step ?q demo_stranded"
    using life_step.insert[of "''O''" "''R''" "''b''" "''h3''" "''g.pdf''" "''/g.pdf''" ?q "lf_tables demo_stranded" "Some 1"]
    by (simp add: quiet_def demo_stranded_def)
  show ?thesis using 1 2 3 4 by (meson life_reachable.intros)
qed

end
