(* ===== verification/Criteria.thy ===== *)
theory Criteria
  imports Evaluation Fact_Extraction
begin

text \<open>
  \<open>app/domain/criteria.py\<close>: the merge of the organisation's, the department's, the user's and the
  RFP's criteria into one evaluation setup, the filling of gaps by the model, and the setup that
  \<open>start_evaluation\<close> of \<open>app/api/evaluation_routes.py\<close> builds from them. Templates are database rows;
  the user's sheet and the RFP's criteria are JSON. Parameters: the first eight hexadecimal digits of
  SHA-256, the parser of JSON text and the model's replies. The euro sign has the code 128.
\<close>

section \<open>Normalised names\<close>

text \<open>\<open>re.sub(r"\([^)]*\)", "", s)\<close>.\<close>

lemma length_tl_dropWhile: "length (tl (dropWhile P cs)) \<le> length cs"
  using length_dropWhile_le[of P cs] by simp

function drop_parens :: "string \<Rightarrow> string" where
  "drop_parens [] = []"
| "drop_parens (c # cs) =
     (if c = CHR ''('' \<and> CHR '')'' \<in> set cs then drop_parens (tl (dropWhile (\<lambda>d. d \<noteq> CHR '')'') cs))
      else c # drop_parens cs)"
  by pat_completeness auto
termination
  by (relation "measure length") (auto simp del: length_tl simp: less_Suc_eq_le length_tl_dropWhile)

fun replace_amp :: "string \<Rightarrow> string" where
  "replace_amp [] = []"
| "replace_amp (c # cs) = (if c = CHR ''&'' then ''and'' @ replace_amp cs else c # replace_amp cs)"

text \<open>The match of \<open>>=?\s*[pound, euro, dollar]?\s*\d+[mk]?\<close> after its first character: what is left.\<close>

definition opt_char :: "char set \<Rightarrow> string \<Rightarrow> string" where
  "opt_char A s = (case s of [] \<Rightarrow> [] | c # cs \<Rightarrow> if c \<in> A then cs else s)"

definition threshold_rest :: "string \<Rightarrow> string option" where
  "threshold_rest s =
     (let s1 = dropWhile is_space (opt_char {CHR ''=''} s);
          s2 = dropWhile is_space (opt_char {CHR 0xA3, CHR 0x80, CHR ''$''} s1)
      in if s2 \<noteq> [] \<and> is_digit (hd s2) then Some (opt_char {CHR ''m'', CHR ''k''} (dropWhile is_digit s2)) else None)"

lemma opt_char_length: "length (opt_char A s) \<le> length s"
  by (cases s) (simp_all add: opt_char_def)

lemma threshold_rest_length: "threshold_rest s = Some r \<Longrightarrow> length r \<le> length s"
  unfolding threshold_rest_def Let_def
  by (auto split: if_splits intro!: order_trans[OF opt_char_length] order_trans[OF length_dropWhile_le])

function drop_thresholds :: "string \<Rightarrow> string" where
  "drop_thresholds [] = []"
| "drop_thresholds (c # cs) =
     (case (if c = CHR ''>'' then threshold_rest cs else None) of
        Some rest \<Rightarrow> drop_thresholds rest
      | None \<Rightarrow> c # drop_thresholds cs)"
  by pat_completeness auto
termination
  by (relation "measure length") (auto dest: threshold_rest_length split: if_splits)

definition noise_suffixes :: "string list" where
  "noise_suffixes = ['' certification'', '' compliance'', '' requirement'', '' requirements'', '' check'',
     '' verification'', '' policy'', '' standard'', '' standards'', '' insurance'', '' cover'', '' coverage'']"

definition ends_with :: "string \<Rightarrow> string \<Rightarrow> bool" where
  "ends_with p s \<longleftrightarrow> length p \<le> length s \<and> drop (length s - length p) s = p"

definition drop_suffix :: "string \<Rightarrow> string \<Rightarrow> string" where
  "drop_suffix n suffix = (if ends_with suffix n then strip (take (length n - length suffix) n) else n)"

definition plain_char :: "char \<Rightarrow> char" where
  "plain_char c =
     (if (97 \<le> (of_char c :: nat) \<and> (of_char c :: nat) \<le> 122) \<or> is_digit c \<or> is_space c then c else CHR 0x20)"

definition normalize_name :: "string \<Rightarrow> string" where
  "normalize_name name =
     (let n = strip (lower name);
          n = strip (drop_parens n);
          n = strip (drop_thresholds (replace_amp n));
          n = foldl drop_suffix n noise_suffixes
      in ws_norm (map plain_char n))"

section \<open>Sources and merged criteria\<close>

record template =
  tp_template_id :: string
  tp_check_type :: string
  tp_name :: string
  tp_description :: json
  tp_what_passes :: json
  tp_default_weight :: json
  tp_rubric :: json
  tp_is_locked :: bool

record merged_check =
  kc_check_id :: string
  kc_name :: string
  kc_description :: json
  kc_what_passes :: json
  kc_extraction_target_id :: string
  kc_source :: string
  kc_is_locked :: bool
  kc_page_reference :: json

record merged_score =
  ks_criterion_id :: string
  ks_name :: string
  ks_weight :: rat
  ks_rubric_9_10 :: json
  ks_rubric_6_8 :: json
  ks_rubric_3_5 :: json
  ks_rubric_0_2 :: json
  ks_extraction_target_ids :: "string list"
  ks_source :: string
  ks_is_locked :: bool
  ks_page_reference :: json
  ks_score_guide_source :: "string option"

record merged_target =
  kt_target_id :: string
  kt_name :: string
  kt_description :: json
  kt_is_mandatory :: bool
  kt_feeds_id :: string
  kt_source :: string

record merge_state =
  ms_checks :: "merged_check list"
  ms_scores :: "merged_score list"
  ms_mandatory_names :: "string list"
  ms_scoring_names :: "string list"

record merged =
  mg_mandatory_checks :: "merged_check list"
  mg_scoring_criteria :: "merged_score list"
  mg_extraction_targets :: "merged_target list"
  mg_total_weight :: "rat option"
  mg_source :: string

section \<open>The four sources\<close>

definition upper :: "string \<Rightarrow> string" where
  "upper s = map (\<lambda>c. if 97 \<le> (of_char c :: nat) \<and> (of_char c :: nat) \<le> 122 then char_of ((of_char c :: nat) - 32) else c) s"

definition template_check :: "string \<Rightarrow> template \<Rightarrow> merged_check" where
  "template_check origin c =
     (let tid = upper (take 8 (tp_template_id c))
      in \<lparr>kc_check_id = ''MC-'' @ origin @ ''-'' @ tid, kc_name = tp_name c, kc_description = tp_description c,
          kc_what_passes = tp_what_passes c, kc_extraction_target_id = ''ET-'' @ origin @ ''-'' @ tid,
          kc_source = lower origin, kc_is_locked = tp_is_locked c, kc_page_reference = JNull\<rparr>)"

definition template_score :: "string \<Rightarrow> template \<Rightarrow> merged_score result" where
  "template_score origin c =
     (let tid = upper (take 8 (tp_template_id c))
      in rbind (to_float (tp_default_weight c)) (\<lambda>weight.
         rbind (jget (tp_rubric c) ''9_10'' (JStr [])) (\<lambda>r910.
         rbind (jget (tp_rubric c) ''6_8'' (JStr [])) (\<lambda>r68.
         rbind (jget (tp_rubric c) ''3_5'' (JStr [])) (\<lambda>r35.
         rbind (jget (tp_rubric c) ''0_2'' (JStr [])) (\<lambda>r02.
         Inr \<lparr>ks_criterion_id = ''SC-'' @ origin @ ''-'' @ tid, ks_name = tp_name c, ks_weight = weight,
              ks_rubric_9_10 = r910, ks_rubric_6_8 = r68, ks_rubric_3_5 = r35, ks_rubric_0_2 = r02,
              ks_extraction_target_ids = [], ks_source = lower origin, ks_is_locked = tp_is_locked c,
              ks_page_reference = JNull, ks_score_guide_source = None\<rparr>))))))"

definition add_check :: "merged_check \<Rightarrow> merge_state \<Rightarrow> merge_state" where
  "add_check k st = st\<lparr>ms_checks := ms_checks st @ [k],
     ms_mandatory_names := ms_mandatory_names st @ [normalize_name (kc_name k)]\<rparr>"

definition add_score :: "merged_score \<Rightarrow> merge_state \<Rightarrow> merge_state" where
  "add_score k st = st\<lparr>ms_scores := ms_scores st @ [k],
     ms_scoring_names := ms_scoring_names st @ [normalize_name (ks_name k)]\<rparr>"

definition merge_org :: "merge_state \<Rightarrow> template \<Rightarrow> merge_state result" where
  "merge_org st c =
     (if tp_check_type c = ''mandatory'' then Inr (add_check (template_check ''ORG'' c) st)
      else if tp_check_type c = ''scoring'' then rbind (template_score ''ORG'' c) (\<lambda>k. Inr (add_score k st))
      else Inr st)"

definition merge_dept :: "merge_state \<Rightarrow> template \<Rightarrow> merge_state result" where
  "merge_dept st c =
     (if tp_check_type c = ''mandatory''
      then Inr (if normalize_name (tp_name c) \<in> set (ms_mandatory_names st) then st
                else add_check (template_check ''DEPT'' c) st)
      else if tp_check_type c = ''scoring''
      then if normalize_name (tp_name c) \<in> set (ms_scoring_names st) then Inr st
           else rbind (template_score ''DEPT'' c) (\<lambda>k. Inr (add_score k st))
      else Inr st)"

fun as_name :: "json \<Rightarrow> string result" where
  "as_name (JStr s) = Inr s"
| "as_name _ = Inl (AttributeError ''object has no attribute lower'')"

text \<open>\<open>_stable_id\<close> of an origin, a kind and a name; \<open>digest\<close> gives eight upper-case digits.\<close>

definition stable_id :: "(string \<Rightarrow> string) \<Rightarrow> string list \<Rightarrow> string" where
  "stable_id digest parts = digest (join ''|'' parts)"

definition merge_json_check :: "(string \<Rightarrow> string) \<Rightarrow> string \<Rightarrow> merge_state \<Rightarrow> json \<Rightarrow> merge_state result" where
  "merge_json_check digest origin st c =
     rbind (rbind (jindex c ''name'') as_name) (\<lambda>name.
     let name_key = normalize_name name
     in if name_key \<in> set (ms_mandatory_names st) then Inr st
        else let sid = stable_id digest [lower origin, ''mc'', name_key]
             in rbind (jget c ''description'' (JStr [])) (\<lambda>description.
                rbind (jget c ''what_passes'' (JStr [])) (\<lambda>what_passes.
                rbind (if origin = ''RFP'' then jget c ''page_reference'' (JStr []) else Inr JNull) (\<lambda>page.
                Inr (add_check \<lparr>kc_check_id = ''MC-'' @ origin @ ''-'' @ sid, kc_name = name, kc_description = description,
                       kc_what_passes = what_passes, kc_extraction_target_id = ''ET-'' @ origin @ ''-'' @ sid,
                       kc_source = lower origin, kc_is_locked = False, kc_page_reference = page\<rparr> st)))))"

definition merge_json_score :: "(string \<Rightarrow> string) \<Rightarrow> string \<Rightarrow> merge_state \<Rightarrow> json \<Rightarrow> merge_state result" where
  "merge_json_score digest origin st c =
     rbind (rbind (jindex c ''name'') as_name) (\<lambda>name.
     let name_key = normalize_name name
     in if name_key \<in> set (ms_scoring_names st) then Inr st
        else let sid = stable_id digest [lower origin, ''sc'', name_key]
             in rbind (rbind (jget c ''weight'' (JNum 0)) to_float) (\<lambda>weight.
                rbind (jget c ''rubric_9_10'' (JStr [])) (\<lambda>r910.
                rbind (jget c ''rubric_6_8'' (JStr [])) (\<lambda>r68.
                rbind (jget c ''rubric_3_5'' (JStr [])) (\<lambda>r35.
                rbind (jget c ''rubric_0_2'' (JStr [])) (\<lambda>r02.
                rbind (if origin = ''RFP'' then jget c ''page_reference'' (JStr []) else Inr JNull) (\<lambda>page.
                Inr (add_score \<lparr>ks_criterion_id = ''SC-'' @ origin @ ''-'' @ sid, ks_name = name, ks_weight = weight,
                       ks_rubric_9_10 = r910, ks_rubric_6_8 = r68, ks_rubric_3_5 = r35, ks_rubric_0_2 = r02,
                       ks_extraction_target_ids = [], ks_source = lower origin, ks_is_locked = False,
                       ks_page_reference = page, ks_score_guide_source = None\<rparr> st))))))))"

definition items_of :: "json \<Rightarrow> string \<Rightarrow> json list result" where
  "items_of criteria k = rbind (jget criteria k (JArr [])) as_iter"

definition merge_sources ::
  "(string \<Rightarrow> string) \<Rightarrow> template list \<Rightarrow> template list \<Rightarrow> json \<Rightarrow> json \<Rightarrow> merge_state result" where
  "merge_sources digest org dept user rfp =
     rbind (rfold merge_org \<lparr>ms_checks = [], ms_scores = [], ms_mandatory_names = [], ms_scoring_names = []\<rparr> org) (\<lambda>s1.
     rbind (rfold merge_dept s1 dept) (\<lambda>s2.
     rbind (items_of user ''mandatory_checks'') (\<lambda>um.
     rbind (rfold (merge_json_check digest ''USER'') s2 um) (\<lambda>s3.
     rbind (items_of user ''scoring_criteria'') (\<lambda>us.
     rbind (rfold (merge_json_score digest ''USER'') s3 us) (\<lambda>s4.
     rbind (items_of rfp ''mandatory_checks'') (\<lambda>rm.
     rbind (rfold (merge_json_check digest ''RFP'') s4 rm) (\<lambda>s5.
     rbind (items_of rfp ''scoring_criteria'') (\<lambda>rs.
     rfold (merge_json_score digest ''RFP'') s5 rs)))))))))"

section \<open>Score guides, weights, targets\<close>

definition rubric_of :: "merged_score \<Rightarrow> json list" where
  "rubric_of k = [ks_rubric_9_10 k, ks_rubric_6_8 k, ks_rubric_3_5 k, ks_rubric_0_2 k]"

definition has_guide :: "merged_score \<Rightarrow> bool" where
  "has_guide k \<longleftrightarrow> list_ex truthy (rubric_of k)"

text \<open>A blank band is copied from the RFP's criterion of the same name; \<open>get\<close> of a missing band is None.\<close>

definition fill_band :: "json \<Rightarrow> json \<Rightarrow> json" where
  "fill_band band rfp_band = (if \<not> truthy band \<and> truthy rfp_band then rfp_band else band)"

definition json_at :: "json \<Rightarrow> string \<Rightarrow> json" where
  "json_at j k = (case jget j k JNull of Inl _ \<Rightarrow> JNull | Inr v \<Rightarrow> v)"

definition enrich :: "(string, json) dict \<Rightarrow> merged_score \<Rightarrow> merged_score" where
  "enrich rfp_by_name k =
     (case dict_get rfp_by_name (normalize_name (ks_name k)) of
        None \<Rightarrow> k
      | Some c \<Rightarrow>
          let k' = k\<lparr>ks_rubric_9_10 := fill_band (ks_rubric_9_10 k) (json_at c ''rubric_9_10''),
                     ks_rubric_6_8 := fill_band (ks_rubric_6_8 k) (json_at c ''rubric_6_8''),
                     ks_rubric_3_5 := fill_band (ks_rubric_3_5 k) (json_at c ''rubric_3_5''),
                     ks_rubric_0_2 := fill_band (ks_rubric_0_2 k) (json_at c ''rubric_0_2'')\<rparr>
          in if rubric_of k' = rubric_of k then k else k'\<lparr>ks_score_guide_source := Some ''rfp''\<rparr>)"

fun named_items :: "json list \<Rightarrow> (string \<times> json) list result" where
  "named_items [] = Inr []"
| "named_items (c # cs) =
     rbind (rbind (jindex c ''name'') as_name) (\<lambda>n. rbind (named_items cs) (\<lambda>rest. Inr ((normalize_name n, c) # rest)))"

definition total_of :: "merged_score list \<Rightarrow> rat" where
  "total_of ks = sum_list (map ks_weight ks)"

definition normalise_weights :: "merged_score list \<Rightarrow> merged_score list" where
  "normalise_weights ks =
     (let total = total_of ks
      in if total = 0 then map (\<lambda>k. k\<lparr>ks_weight := py_round 3 (1 / of_nat (length ks))\<rparr>) ks
         else if 1 / 100 < \<bar>total - 1\<bar> then map (\<lambda>k. k\<lparr>ks_weight := py_round 3 (ks_weight k / total)\<rparr>) ks
         else ks)"

definition score_target_id :: "merged_score \<Rightarrow> string" where
  "score_target_id k = ''ET-SC-'' @ drop (length (ks_criterion_id k) - 8) (ks_criterion_id k)"

definition check_target :: "merged_check \<Rightarrow> merged_target" where
  "check_target k = \<lparr>kt_target_id = kc_extraction_target_id k, kt_name = kc_name k, kt_description = kc_what_passes k,
     kt_is_mandatory = True, kt_feeds_id = kc_check_id k, kt_source = kc_source k\<rparr>"

definition score_target :: "merged_score \<Rightarrow> merged_target" where
  "score_target k = \<lparr>kt_target_id = score_target_id k, kt_name = ks_name k,
     kt_description = JStr (''Find evidence for: '' @ ks_name k), kt_is_mandatory = False,
     kt_feeds_id = ks_criterion_id k, kt_source = ks_source k\<rparr>"

definition build_targets :: "merged_check list \<Rightarrow> merged_score list \<Rightarrow> merged_target list" where
  "build_targets checks scores = map check_target checks @ map score_target scores"

definition merge_criteria ::
  "(string \<Rightarrow> string) \<Rightarrow> template list \<Rightarrow> template list \<Rightarrow> json \<Rightarrow> json \<Rightarrow> merged result" where
  "merge_criteria digest org dept rfp user =
     rbind (merge_sources digest org dept user rfp) (\<lambda>st.
     rbind (rbind (items_of rfp ''scoring_criteria'') named_items) (\<lambda>named.
     let checks = ms_checks st; scores = map (enrich (dict_of named)) (ms_scores st)
     in if scores = []
        then Inr \<lparr>mg_mandatory_checks = checks, mg_scoring_criteria = [],
                  mg_extraction_targets = build_targets checks [], mg_total_weight = None, mg_source = ''merged_empty''\<rparr>
        else let weighted = normalise_weights scores
             in Inr \<lparr>mg_mandatory_checks = checks,
                     mg_scoring_criteria = map (\<lambda>k. k\<lparr>ks_extraction_target_ids := [score_target_id k]\<rparr>) weighted,
                     mg_extraction_targets = build_targets checks weighted,
                     mg_total_weight = Some (py_round 3 (total_of weighted)), mg_source = ''merged''\<rparr>))"

section \<open>Filling the gaps\<close>

text \<open>The reply of the model between the first two code fences, without the language tag.\<close>

fun split_fence :: "string \<Rightarrow> string \<Rightarrow> string list" where
  "split_fence acc [] = [rev acc]"
| "split_fence acc [a] = [rev (a # acc)]"
| "split_fence acc [a, b] = [rev (b # a # acc)]"
| "split_fence acc (a # b # c # cs) =
     (if a = CHR 0x60 \<and> b = CHR 0x60 \<and> c = CHR 0x60 then rev acc # split_fence [] cs
      else split_fence (a # acc) (b # c # cs))"

definition unfence :: "string \<Rightarrow> string" where
  "unfence response =
     (let clean = strip response; parts = split_fence [] clean
      in strip (if 1 < length parts
                then let p = parts ! 1 in if starts_with ''json'' p then drop 4 p else p
                else clean))"

record gap_env =
  gp_loads :: "string \<Rightarrow> json result"
  gp_guides :: "string list \<Rightarrow> string result"
    \<comment> \<open>reply to the names of the criteria without a guide\<close>
  gp_checks :: "string result"

record gaps_report =
  gr_has_gaps :: bool
  gr_score_guides_generated :: "string list"
  gr_mandatory_checks_suggested :: "string list"

definition reply_items :: "gap_env \<Rightarrow> string result \<Rightarrow> json list result" where
  "reply_items env reply = rbind (rbind reply (\<lambda>r. gp_loads env (unfence r))) as_iter"

text \<open>Applying the generated guides: a match replaces all four bands.\<close>

definition apply_guide :: "(string, json) dict \<Rightarrow> merged_score \<Rightarrow> merged_score" where
  "apply_guide by_name k =
     (case dict_get by_name (normalize_name (ks_name k)) of
        None \<Rightarrow> k
      | Some g \<Rightarrow> k\<lparr>ks_rubric_9_10 := (case jget g ''rubric_9_10'' (JStr []) of Inl _ \<Rightarrow> JStr [] | Inr v \<Rightarrow> v),
                   ks_rubric_6_8 := (case jget g ''rubric_6_8'' (JStr []) of Inl _ \<Rightarrow> JStr [] | Inr v \<Rightarrow> v),
                   ks_rubric_3_5 := (case jget g ''rubric_3_5'' (JStr []) of Inl _ \<Rightarrow> JStr [] | Inr v \<Rightarrow> v),
                   ks_rubric_0_2 := (case jget g ''rubric_0_2'' (JStr []) of Inl _ \<Rightarrow> JStr [] | Inr v \<Rightarrow> v),
                   ks_score_guide_source := Some ''generated''\<rparr>)"

definition fill_guides :: "gap_env \<Rightarrow> merged_score list \<Rightarrow> merged_score list \<times> string list" where
  "fill_guides env scoring =
     (let lacking = filter (\<lambda>k. \<not> has_guide k) scoring
      in if lacking = [] then (scoring, [])
         else case rbind (reply_items env (gp_guides env (map ks_name lacking))) named_items of
             Inl _ \<Rightarrow> (scoring, [])
           | Inr named \<Rightarrow>
               let by_name = dict_of named
               in (map (apply_guide by_name) scoring,
                   map ks_name (filter (\<lambda>k. dict_mem (normalize_name (ks_name k)) by_name) scoring)))"

text \<open>One suggested check; what was appended before an exception stays.\<close>

definition suggested_check :: "(string \<Rightarrow> string) \<Rightarrow> json \<Rightarrow> (merged_check \<times> merged_target) result" where
  "suggested_check digest s =
     rbind (rbind (jget s ''name'' (JStr [])) as_name) (\<lambda>name.
     rbind (jget s ''description'' (JStr [])) (\<lambda>description.
     rbind (jget s ''what_passes'' (JStr [])) (\<lambda>what_passes.
     rbind (jget s ''what_passes'' description) (\<lambda>target_desc.
     let sid = stable_id digest [''gen'', ''mc'', normalize_name name]
     in Inr (\<lparr>kc_check_id = ''MC-GEN-'' @ sid, kc_name = name, kc_description = description,
              kc_what_passes = what_passes, kc_extraction_target_id = ''ET-GEN-'' @ sid, kc_source = ''generated'',
              kc_is_locked = False, kc_page_reference = JNull\<rparr>,
             \<lparr>kt_target_id = ''ET-GEN-'' @ sid, kt_name = name, kt_description = target_desc, kt_is_mandatory = True,
              kt_feeds_id = ''MC-GEN-'' @ sid, kt_source = ''generated''\<rparr>)))))"

fun suggested_checks :: "(string \<Rightarrow> string) \<Rightarrow> json list \<Rightarrow> (merged_check \<times> merged_target) list" where
  "suggested_checks digest [] = []"
| "suggested_checks digest (s # ss) =
     (case suggested_check digest s of Inl _ \<Rightarrow> [] | Inr k \<Rightarrow> k # suggested_checks digest ss)"

definition detect_and_fill_gaps :: "(string \<Rightarrow> string) \<Rightarrow> gap_env \<Rightarrow> merged \<Rightarrow> merged \<times> gaps_report" where
  "detect_and_fill_gaps digest env m =
     (let (scoring, guided) = fill_guides env (mg_scoring_criteria m);
          suggested = (if mg_mandatory_checks m \<noteq> [] then []
             else case reply_items env (gp_checks env) of Inl _ \<Rightarrow> [] | Inr items \<Rightarrow> suggested_checks digest items)
      in (m\<lparr>mg_scoring_criteria := scoring, mg_mandatory_checks := mg_mandatory_checks m @ map fst suggested,
            mg_extraction_targets := mg_extraction_targets m @ map snd suggested\<rparr>,
          \<lparr>gr_has_gaps = (\<not> list_all has_guide (mg_scoring_criteria m) \<or> mg_mandatory_checks m = []),
           gr_score_guides_generated = guided, gr_mandatory_checks_suggested = map (kc_name \<circ> fst) suggested\<rparr>))"

section \<open>The setup of a new run\<close>

fun opt_str :: "json \<Rightarrow> string option result" where
  "opt_str JNull = Inr None"
| "opt_str v = rbind (as_str v) (\<lambda>s. Inr (Some s))"

definition setup_check :: "merged_check \<Rightarrow> mandatory_check result" where
  "setup_check k =
     rbind (as_str (kc_description k)) (\<lambda>description.
     rbind (as_str (kc_what_passes k)) (\<lambda>what_passes.
     rbind (opt_str (kc_page_reference k)) (\<lambda>_.
     Inr \<lparr>mc_check_id = kc_check_id k, mc_name = kc_name k, mc_description = description,
          mc_what_passes = what_passes, mc_extraction_target_id = kc_extraction_target_id k\<rparr>)))"

definition setup_score :: "merged_score \<Rightarrow> scoring_criterion result" where
  "setup_score k =
     rbind (as_str (ks_rubric_9_10 k)) (\<lambda>r910. rbind (as_str (ks_rubric_6_8 k)) (\<lambda>r68.
     rbind (as_str (ks_rubric_3_5 k)) (\<lambda>r35. rbind (as_str (ks_rubric_0_2 k)) (\<lambda>r02.
     rbind (opt_str (ks_page_reference k)) (\<lambda>_.
     Inr \<lparr>sc_criterion_id = ks_criterion_id k, sc_name = ks_name k, sc_weight = ks_weight k,
          sc_rubric_9_10 = r910, sc_rubric_6_8 = r68, sc_rubric_3_5 = r35, sc_rubric_0_2 = r02,
          sc_extraction_target_ids = ks_extraction_target_ids k\<rparr>)))))"

definition setup_target :: "merged_target \<Rightarrow> extraction_target result" where
  "setup_target t =
     rbind (as_str (kt_description t)) (\<lambda>description.
     Inr \<lparr>et_target_id = kt_target_id t, et_name = kt_name t, et_description = description, et_fact_type = ''custom''\<rparr>)"

definition default_checks :: "mandatory_check list" where
  "default_checks = [\<lparr>mc_check_id = ''chk-default-001'', mc_name = ''Legal entity registration'',
     mc_description = ''Vendor must be a registered legal entity.'', mc_what_passes = ''Registration number provided.'',
     mc_extraction_target_id = ''ext-legal-default''\<rparr>]"

definition default_scores :: "scoring_criterion list" where
  "default_scores =
     [\<lparr>sc_criterion_id = ''crit-default-tech'', sc_name = ''Technical capability'', sc_weight = 1 / 2,
       sc_rubric_9_10 = ''Fully meets requirements.'', sc_rubric_6_8 = ''Meets most requirements.'',
       sc_rubric_3_5 = ''Partially meets requirements.'', sc_rubric_0_2 = ''Does not meet requirements.'',
       sc_extraction_target_ids = [''ext-sla-default'']\<rparr>,
      \<lparr>sc_criterion_id = ''crit-default-commercial'', sc_name = ''Commercial value'', sc_weight = 1 / 2,
       sc_rubric_9_10 = ''Best value, transparent pricing.'', sc_rubric_6_8 = ''Competitive pricing.'',
       sc_rubric_3_5 = ''Above-market pricing.'', sc_rubric_0_2 = ''Pricing absent.'',
       sc_extraction_target_ids = [''ext-pricing-default'']\<rparr>]"

definition default_targets :: "extraction_target list" where
  "default_targets = [\<lparr>et_target_id = ''ext-legal-default'', et_name = ''Legal registration'',
     et_description = ''Company registration number.'', et_fact_type = ''certification''\<rparr>]"

definition or_default :: "'a list \<Rightarrow> 'a list \<Rightarrow> 'a list" where
  "or_default xs d = (if xs = [] then d else xs)"

definition setup_of_merged :: "string \<Rightarrow> merged \<Rightarrow> evaluation_setup result" where
  "setup_of_merged setup_id m =
     rbind (rmap setup_check (mg_mandatory_checks m)) (\<lambda>checks.
     rbind (rmap setup_score (mg_scoring_criteria m)) (\<lambda>scores.
     rbind (rmap setup_target (mg_extraction_targets m)) (\<lambda>targets.
     let scores' = or_default scores default_scores
     in make_setup \<lparr>es_setup_id = setup_id, es_mandatory_checks = or_default checks default_checks,
          es_scoring_criteria = scores', es_extraction_targets = or_default targets default_targets,
          es_total_weight = py_round 3 (sum_list (map sc_weight scores'))\<rparr>)))"

definition start_setup ::
  "(string \<Rightarrow> string) \<Rightarrow> gap_env \<Rightarrow> string \<Rightarrow> template list \<Rightarrow> template list \<Rightarrow> json \<Rightarrow> json \<Rightarrow>
   (evaluation_setup \<times> gaps_report) result" where
  "start_setup digest env setup_id org dept rfp user =
     rbind (merge_criteria digest org dept rfp user) (\<lambda>m0.
     let (m, report) = detect_and_fill_gaps digest env m0
     in rbind (setup_of_merged setup_id m) (\<lambda>s. Inr (s, report)))"

end
