(* ===== verification/Criteria_Laws.thy ===== *)
theory Criteria_Laws
  imports Criteria Evaluation_Laws
begin

text \<open>
  The merge keeps names unique and the organisation's criteria first; normalised weights sum to one up
  to rounding; which merged criteria make a valid setup and which are refused.
\<close>

section \<open>Names\<close>

definition names_tracked :: "merge_state \<Rightarrow> bool" where
  "names_tracked st \<longleftrightarrow> ms_mandatory_names st = map (normalize_name \<circ> kc_name) (ms_checks st) \<and>
     ms_scoring_names st = map (normalize_name \<circ> ks_name) (ms_scores st)"

text \<open>What a later source may do: append criteria under new names.\<close>

definition extends :: "merge_state \<Rightarrow> merge_state \<Rightarrow> bool" where
  "extends st st' \<longleftrightarrow> (names_tracked st \<longrightarrow> names_tracked st') \<and>
     (distinct (ms_mandatory_names st) \<longrightarrow> distinct (ms_mandatory_names st')) \<and>
     (distinct (ms_scoring_names st) \<longrightarrow> distinct (ms_scoring_names st')) \<and>
     (\<exists>ks. ms_checks st' = ms_checks st @ ks) \<and> (\<exists>ks. ms_scores st' = ms_scores st @ ks)"

lemma extends_refl [simp]: "extends st st"
  by (simp add: extends_def)

lemma extends_trans: "extends s t \<Longrightarrow> extends t u \<Longrightarrow> extends s u"
  by (auto simp: extends_def)

lemma extends_add_check: "normalize_name (kc_name k) \<notin> set (ms_mandatory_names st) \<Longrightarrow> extends st (add_check k st)"
  by (auto simp: extends_def add_check_def names_tracked_def)

lemma extends_add_score: "normalize_name (ks_name k) \<notin> set (ms_scoring_names st) \<Longrightarrow> extends st (add_score k st)"
  by (auto simp: extends_def add_score_def names_tracked_def)

locale merge_source =
  fixes add :: "merge_state \<Rightarrow> 'a \<Rightarrow> merge_state result"
  assumes add_extends: "add st c = Inr st' \<Longrightarrow> extends st st'"
begin

lemma fold_extends: "rfold add st cs = Inr st' \<Longrightarrow> extends st st'"
  by (induction cs arbitrary: st) (auto simp: rbind_Inr_iff dest: add_extends intro: extends_trans)

end

lemma template_check_name [simp]: "kc_name (template_check origin c) = tp_name c"
  by (simp add: template_check_def Let_def)

lemma template_score_name: "template_score origin c = Inr k \<Longrightarrow> ks_name k = tp_name c"
  by (auto simp: template_score_def Let_def rbind_Inr_iff)

interpretation dept_source: merge_source merge_dept
  by unfold_locales
    (auto simp: merge_dept_def rbind_Inr_iff template_score_name intro!: extends_add_check extends_add_score split: if_splits)

interpretation json_checks: merge_source "merge_json_check digest origin" for digest origin
proof (unfold_locales, goal_cases)
  case (1 st c st')
  then obtain name where n: "rbind (jindex c ''name'') as_name = Inr name"
    by (auto simp: merge_json_check_def rbind_Inr_iff)
  then show ?case using 1
    by (cases "normalize_name name \<in> set (ms_mandatory_names st)")
      (auto simp: merge_json_check_def Let_def rbind_Inr_iff intro!: extends_add_check)
qed

interpretation json_scores: merge_source "merge_json_score digest origin" for digest origin
proof (unfold_locales, goal_cases)
  case (1 st c st')
  then obtain name where n: "rbind (jindex c ''name'') as_name = Inr name"
    by (auto simp: merge_json_score_def rbind_Inr_iff)
  then show ?case using 1
    by (cases "normalize_name name \<in> set (ms_scoring_names st)")
      (auto simp: merge_json_score_def Let_def rbind_Inr_iff intro!: extends_add_score)
qed

definition org_checks :: "template list \<Rightarrow> merged_check list" where
  "org_checks org = map (template_check ''ORG'') (filter (\<lambda>c. tp_check_type c = ''mandatory'') org)"

definition scoring_of :: "template list \<Rightarrow> template list" where
  "scoring_of org = filter (\<lambda>c. tp_check_type c = ''scoring'') org"

lemma fold_org:
  assumes "rfold merge_org st org = Inr st'"
  shows "ms_checks st' = ms_checks st @ org_checks org \<and>
    map ks_name (ms_scores st') = map ks_name (ms_scores st) @ map tp_name (scoring_of org) \<and>
    (names_tracked st \<longrightarrow> names_tracked st')"
  using assms
proof (induction org arbitrary: st)
  case (Cons c org)
  then obtain s1 where s1: "merge_org st c = Inr s1" "rfold merge_org s1 org = Inr st'"
    by (auto simp: rbind_Inr_iff)
  consider "tp_check_type c = ''mandatory''" | "tp_check_type c = ''scoring''"
    | "tp_check_type c \<noteq> ''mandatory''" "tp_check_type c \<noteq> ''scoring''" by blast
  then show ?case
  proof cases
    case 1
    with s1(1) have "s1 = add_check (template_check ''ORG'' c) st" by (simp add: merge_org_def)
    with Cons.IH[OF s1(2)] 1 show ?thesis
      by (auto simp: org_checks_def scoring_of_def add_check_def names_tracked_def)
  next
    case 2
    with s1(1) obtain k where "s1 = add_score k st" "ks_name k = tp_name c"
      by (auto simp: merge_org_def rbind_Inr_iff template_score_name)
    with Cons.IH[OF s1(2)] 2 show ?thesis
      by (auto simp: org_checks_def scoring_of_def add_score_def names_tracked_def)
  next
    case 3
    with s1(1) have "s1 = st" by (simp add: merge_org_def)
    with Cons.IH[OF s1(2)] 3 show ?thesis by (simp add: org_checks_def scoring_of_def)
  qed
qed (simp add: org_checks_def scoring_of_def)

lemma merge_sources_names:
  assumes "merge_sources digest org dept user rfp = Inr st"
    and "distinct (map (normalize_name \<circ> kc_name) (org_checks org))"
    and "distinct (map (normalize_name \<circ> tp_name) (scoring_of org))"
  shows "distinct (map (normalize_name \<circ> kc_name) (ms_checks st)) \<and> distinct (map (normalize_name \<circ> ks_name) (ms_scores st)) \<and>
    (\<exists>ks. ms_checks st = org_checks org @ ks) \<and> (\<exists>ns. map ks_name (ms_scores st) = map tp_name (scoring_of org) @ ns)"
proof -
  let ?s0 = "\<lparr>ms_checks = [], ms_scores = [], ms_mandatory_names = [], ms_scoring_names = []\<rparr>"
  obtain s1 s2 s3 s4 s5 um us rm rs where s1: "rfold merge_org ?s0 org = Inr s1"
    and "rfold merge_dept s1 dept = Inr s2" "rfold (merge_json_check digest ''USER'') s2 um = Inr s3"
      "rfold (merge_json_score digest ''USER'') s3 us = Inr s4" "rfold (merge_json_check digest ''RFP'') s4 rm = Inr s5"
      "rfold (merge_json_score digest ''RFP'') s5 rs = Inr st"
    using assms(1) unfolding merge_sources_def by (auto simp: rbind_Inr_iff)
  then have e: "extends s1 st"
    by (meson dept_source.fold_extends json_checks.fold_extends json_scores.fold_extends extends_trans)
  have o: "ms_checks s1 = org_checks org" "map ks_name (ms_scores s1) = map tp_name (scoring_of org)" "names_tracked s1"
    using fold_org[OF s1] by (simp_all add: names_tracked_def)
  have "map (normalize_name \<circ> ks_name) (ms_scores s1) = map (normalize_name \<circ> tp_name) (scoring_of org)"
    using arg_cong[OF o(2), of "map normalize_name"] by simp
  with o assms(2,3) have "distinct (ms_mandatory_names s1)" "distinct (ms_scoring_names s1)"
    by (simp_all add: names_tracked_def)
  with e o show ?thesis by (auto simp: extends_def names_tracked_def)
qed

lemma enrich_sel [simp]: "ks_name (enrich d k) = ks_name k" "ks_criterion_id (enrich d k) = ks_criterion_id k"
    "ks_weight (enrich d k) = ks_weight k"
  by (simp_all add: enrich_def Let_def split: option.split)

lemma normalise_names [simp]:
  "map ks_name (normalise_weights ks) = map ks_name ks" "length (normalise_weights ks) = length ks"
  by (simp_all add: normalise_weights_def Let_def)

lemma merge_criteria_cases:
  assumes "merge_criteria digest org dept rfp user = Inr m"
  obtains st scores where "merge_sources digest org dept user rfp = Inr st" "mg_mandatory_checks m = ms_checks st"
    "map ks_name scores = map ks_name (ms_scores st)" "map ks_weight scores = map ks_weight (ms_scores st)"
    "mg_scoring_criteria m = map (\<lambda>k. k\<lparr>ks_extraction_target_ids := [score_target_id k]\<rparr>) (normalise_weights scores)"
    "mg_extraction_targets m = build_targets (ms_checks st) (normalise_weights scores)"
proof -
  obtain st named where s: "merge_sources digest org dept user rfp = Inr st" and
    m: "m = (let checks = ms_checks st; scores = map (enrich (dict_of named)) (ms_scores st)
     in if scores = []
        then \<lparr>mg_mandatory_checks = checks, mg_scoring_criteria = [],
                  mg_extraction_targets = build_targets checks [], mg_total_weight = None, mg_source = ''merged_empty''\<rparr>
        else let weighted = normalise_weights scores
             in \<lparr>mg_mandatory_checks = checks,
                     mg_scoring_criteria = map (\<lambda>k. k\<lparr>ks_extraction_target_ids := [score_target_id k]\<rparr>) weighted,
                     mg_extraction_targets = build_targets checks weighted,
                     mg_total_weight = Some (py_round 3 (total_of weighted)), mg_source = ''merged''\<rparr>)"
    using assms by (auto simp: merge_criteria_def rbind_Inr_iff Let_def split: if_splits)
  show ?thesis
    by (rule that[OF s, of "map (enrich (dict_of named)) (ms_scores st)"])
      (auto simp: m Let_def normalise_weights_def)
qed

section \<open>Weights\<close>

lemma sum_rounded: "\<bar>sum_list (map (\<lambda>k. py_round 3 (f k)) ks) - sum_list (map f ks)\<bar> \<le> of_nat (length ks) / 2000"
proof (induction ks)
  case (Cons k ks)
  have "\<bar>py_round 3 (f k) - f k\<bar> \<le> 1 / 2000" using py_round_error[of 3 "f k"] by simp
  with Cons show ?case unfolding abs_le_iff by (auto simp: add_divide_distrib)
qed simp

lemma sum_divided: "sum_list (map (\<lambda>k. f k / c) ks) = sum_list (map f ks) / (c::rat)"
  by (induction ks) (simp_all add: add_divide_distrib)

lemma normalised_sum:
  assumes "ks \<noteq> []"
  shows "\<bar>total_of (normalise_weights ks) - 1\<bar> \<le> max (1 / 100) (of_nat (length ks) / 2000)"
proof -
  consider "total_of ks = 0" | "total_of ks \<noteq> 0" "1 / 100 < \<bar>total_of ks - 1\<bar>" | "\<bar>total_of ks - 1\<bar> \<le> 1 / 100"
    by fastforce
  then show ?thesis
  proof cases
    case 1
    have "sum_list (map (\<lambda>k. 1 / of_nat (length ks)) ks) = (1::rat)" using assms by (simp add: sum_list_triv)
    with sum_rounded[of "\<lambda>_. 1 / of_nat (length ks)" ks] 1 show ?thesis
      by (simp add: normalise_weights_def total_of_def comp_def le_max_iff_disj)
  next
    case 2
    have "sum_list (map (\<lambda>k. ks_weight k / total_of ks) ks) = 1"
      using 2(1) by (simp add: sum_divided total_of_def)
    with sum_rounded[of "\<lambda>k. ks_weight k / total_of ks" ks] 2 show ?thesis
      by (simp add: normalise_weights_def total_of_def comp_def le_max_iff_disj)
  next
    case 3
    then show ?thesis by (auto simp: normalise_weights_def Let_def le_max_iff_disj)
  qed
qed

lemma normalised_sum_20:
  "ks \<noteq> [] \<Longrightarrow> length ks \<le> 20 \<Longrightarrow> \<bar>total_of (normalise_weights ks) - 1\<bar> \<le> 1 / 100"
  using normalised_sum[of ks] by (simp add: max_def split: if_splits)

lemma even_weights_23:
  assumes "length ks = 23" and "total_of ks = 0"
  shows "total_of (normalise_weights ks) = 989 / 1000"
proof -
  have "py_round 3 (1 / 23) = 43 / 1000" by code_simp
  then show ?thesis using assms by (simp add: normalise_weights_def total_of_def comp_def sum_list_triv)
qed

lemma merge_criteria_shape:
  assumes "merge_criteria digest org dept rfp user = Inr m"
  shows "\<exists>st scores. merge_sources digest org dept user rfp = Inr st \<and> mg_mandatory_checks m = ms_checks st \<and>
    map ks_name scores = map ks_name (ms_scores st) \<and> map ks_weight scores = map ks_weight (ms_scores st) \<and>
    mg_scoring_criteria m = map (\<lambda>k. k\<lparr>ks_extraction_target_ids := [score_target_id k]\<rparr>) (normalise_weights scores) \<and>
    mg_extraction_targets m = build_targets (ms_checks st) (normalise_weights scores)"
  by (rule merge_criteria_cases[OF assms]) (intro exI conjI; assumption)

lemma merge_criteria_returns:
  "merge_sources digest org dept user rfp = Inr st \<Longrightarrow>
   rbind (items_of rfp ''scoring_criteria'') named_items = Inr named \<Longrightarrow>
   \<exists>m. merge_criteria digest org dept rfp user = Inr m"
  by (simp add: merge_criteria_def Let_def)

section \<open>The setup\<close>

lemma rmap_map:
  assumes "rmap f xs = Inr ys" and "\<And>x y. f x = Inr y \<Longrightarrow> g y = h x"
  shows "map g ys = map h xs"
  using assms(1) by (induction xs arbitrary: ys) (auto simp: rbind_Inr_iff assms(2))

lemma setup_check_sel: "setup_check k = Inr c \<Longrightarrow> mc_extraction_target_id c = kc_extraction_target_id k"
  and setup_score_sel: "setup_score q = Inr r \<Longrightarrow> sc_weight r = ks_weight q"
  and setup_target_sel: "setup_target t = Inr u \<Longrightarrow> et_target_id u = kt_target_id t"
  by (auto simp: setup_check_def setup_score_def setup_target_def rbind_Inr_iff)

lemma round_unit_band: "\<bar>x - 1\<bar> \<le> 1 / 100 \<Longrightarrow> 99 / 100 \<le> py_round 3 x \<and> py_round 3 x \<le> 101 / 100"
proof -
  assume "\<bar>x - 1\<bar> \<le> 1 / 100"
  then have "99 / 100 \<le> x" "x \<le> 101 / 100" by linarith+
  moreover have "py_round 3 (99 / 100) = 99 / 100" "py_round 3 (101 / 100) = 101 / 100" by code_simp+
  ultimately show ?thesis using py_round_mono[of "99 / 100" x 3] py_round_mono[of x "101 / 100" 3] by simp
qed

lemma weights_of_merged:
  assumes "rmap setup_score (map (\<lambda>k. k\<lparr>ks_extraction_target_ids := [score_target_id k]\<rparr>) ks) = Inr ss"
  shows "map sc_weight ss = map ks_weight ks"
  using rmap_map[OF assms, of sc_weight ks_weight] setup_score_sel by (simp add: comp_def)

lemma target_ids [simp]:
  "kt_target_id (check_target k) = kc_extraction_target_id k" "kt_target_id (score_target q) = score_target_id q"
  by (simp_all add: check_target_def score_target_def)

lemma merged_targets:
  assumes "rmap setup_check checks = Inr cs" and "rmap setup_target (build_targets checks ks) = Inr ts"
  shows "mc_extraction_target_id ` set cs \<subseteq> et_target_id ` set ts"
proof -
  have "map mc_extraction_target_id cs = map kc_extraction_target_id checks"
    by (rule rmap_map[OF assms(1)]) (rule setup_check_sel)
  moreover have "map et_target_id ts = map kt_target_id (build_targets checks ks)"
    by (rule rmap_map[OF assms(2)]) (rule setup_target_sel)
  ultimately show ?thesis
    by (auto simp: build_targets_def comp_def simp flip: set_map)
qed

lemma targets_validate:
  assumes "rmap setup_check checks = Inr cs"
  shows "\<exists>ts. rmap setup_target (build_targets checks ks) = Inr ts"
proof -
  have "\<exists>x. as_str (kc_what_passes c) = Inr x" if "c \<in> set checks" for c
    using assms that by (induction checks arbitrary: cs) (auto simp: rbind_Inr_iff setup_check_def)
  then show ?thesis
    by (intro rmap_all_Inr) (auto simp: build_targets_def setup_target_def check_target_def score_target_def rbind_Inr_iff)
qed

lemma merged_valid:
  assumes m: "merge_criteria digest org dept rfp user = Inr m"
    and "mg_mandatory_checks m \<noteq> []" and "mg_scoring_criteria m \<noteq> []" and "length (mg_scoring_criteria m) \<le> 20"
    and w: "\<forall>k \<in> set (mg_scoring_criteria m). 0 < ks_weight k \<and> ks_weight k \<le> 1"
    and cs: "rmap setup_check (mg_mandatory_checks m) = Inr cs" and ss: "rmap setup_score (mg_scoring_criteria m) = Inr ss"
  shows "\<exists>s. setup_of_merged setup_id m = Inr s \<and> es_mandatory_checks s = cs \<and> es_scoring_criteria s = ss"
proof -
  obtain st :: merge_state and scores where st: "mg_mandatory_checks m = ms_checks st"
    and sc: "mg_scoring_criteria m = map (\<lambda>k. k\<lparr>ks_extraction_target_ids := [score_target_id k]\<rparr>) (normalise_weights scores)"
    and tg: "mg_extraction_targets m = build_targets (ms_checks st) (normalise_weights scores)"
    using merge_criteria_shape[OF m] by blast
  have sw: "map sc_weight ss = map ks_weight (normalise_weights scores)" using weights_of_merged ss sc by simp
  obtain ts where ts: "rmap setup_target (mg_extraction_targets m) = Inr ts" using targets_validate cs st tg by metis
  have tgt: "mc_extraction_target_id ` set cs \<subseteq> et_target_id ` set ts" using merged_targets cs ts st tg by metis
  have ne: "cs \<noteq> []" "ss \<noteq> []" "ts \<noteq> []"
  proof -
    have tl: "length ts = length (ms_checks st) + length scores" using rmap_Inr_length[OF ts] by (simp add: tg build_targets_def)
    show "cs \<noteq> []" using rmap_Inr_length[OF cs] assms(2) by (metis length_0_conv)
    show "ss \<noteq> []" using rmap_Inr_length[OF ss] assms(3) by (metis length_0_conv)
    show "ts \<noteq> []" using tl assms(2) st by (metis add_is_0 length_0_conv)
  qed
  have total: "\<bar>sum_list (map sc_weight ss) - 1\<bar> \<le> 1 / 100"
  proof -
    have "length (mg_scoring_criteria m) = length scores" by (simp add: sc)
    then have "scores \<noteq> []" "length scores \<le> 20" using assms(3,4) by (metis length_0_conv)+
    from normalised_sum_20[OF this] show ?thesis by (simp add: sw total_of_def)
  qed
  have "list_all criterion_field_ok ss"
  proof -
    have "\<forall>x \<in> set (map sc_weight ss). 0 < x \<and> x \<le> 1" using w sc by (auto simp: sw)
    then show ?thesis by (simp add: list_all_iff criterion_field_ok_def)
  qed
  moreover have "List.find (\<lambda>c. mc_extraction_target_id c \<notin> set (map et_target_id ts)) cs = None"
    using tgt by (auto simp: find_None_iff)
  moreover have "99 / 100 \<le> sum_list (map sc_weight ss)" "sum_list (map sc_weight ss) \<le> 101 / 100"
    using total by linarith+
  ultimately show ?thesis
    using round_unit_band[OF total] ne
    by (simp add: setup_of_merged_def cs ss ts or_default_def make_setup_def weights_sum_to_one_def Let_def
        every_check_has_extraction_target_def abs_le_iff)
qed

lemma even_weights_refused:
  assumes "rmap setup_score (mg_scoring_criteria m) = Inr ss"
    and "mg_scoring_criteria m = map (\<lambda>k. k\<lparr>ks_extraction_target_ids := [score_target_id k]\<rparr>) (normalise_weights ks)"
    and "length ks = 23" and "total_of ks = 0"
  shows "\<exists>e. setup_of_merged setup_id m = Inl e"
proof (rule ccontr)
  assume "\<nexists>e. setup_of_merged setup_id m = Inl e"
  then obtain s where "setup_of_merged setup_id m = Inr s" by (cases "setup_of_merged setup_id m") auto
  then obtain s' where ok: "make_setup s' = Inr s" "es_scoring_criteria s' = or_default ss default_scores"
    using assms(1) by (auto simp: setup_of_merged_def rbind_Inr_iff Let_def)
  have "map sc_weight ss = map ks_weight (normalise_weights ks)" using weights_of_merged assms(1,2) by simp
  with even_weights_23[OF assms(3,4)] have sum: "sum_list (map sc_weight ss) = 989 / 1000" by (simp add: total_of_def)
  then have "ss \<noteq> []" by auto
  with make_setup_Inr(4)[OF ok(1)] ok(2) sum show False by (simp add: or_default_def)
qed

lemma default_check_refused:
  assumes "mg_mandatory_checks m = []" and "mg_extraction_targets m = map score_target ks" and "ks \<noteq> []"
  shows "\<exists>e. setup_of_merged setup_id m = Inl e"
proof (rule ccontr)
  assume "\<nexists>e. setup_of_merged setup_id m = Inl e"
  then obtain s where "setup_of_merged setup_id m = Inr s" by (cases "setup_of_merged setup_id m") auto
  then obtain s' ts where ok: "make_setup s' = Inr s" "es_mandatory_checks s' = default_checks"
      "es_extraction_targets s' = or_default ts default_targets" "rmap setup_target (map score_target ks) = Inr ts"
    using assms by (auto simp: setup_of_merged_def rbind_Inr_iff Let_def or_default_def)
  have ids: "map et_target_id ts = map kt_target_id (map score_target ks)"
    by (rule rmap_map[OF ok(4)]) (rule setup_target_sel)
  have "ts \<noteq> []" using rmap_Inr_length[OF ok(4)] assms(3) by auto
  then have "''ext-legal-default'' \<in> et_target_id ` set ts"
    using make_setup_Inr(6)[OF ok(1)] ok(2,3) by (simp add: default_checks_def or_default_def)
  then have "''ext-legal-default'' \<in> set (map et_target_id ts)" by simp
  then show False unfolding ids by (auto simp: score_target_id_def)
qed

lemma even_merge_refused:
  assumes "merge_criteria digest org dept rfp user = Inr m" and "length (mg_scoring_criteria m) = 23"
    and "merge_sources digest org dept user rfp = Inr st" and "\<forall>k \<in> set (ms_scores st). ks_weight k = 0"
  shows "\<exists>e. setup_of_merged setup_id m = Inl e"
proof (cases "rmap setup_score (mg_scoring_criteria m)")
  case (Inl e)
  then show ?thesis by (cases "rmap setup_check (mg_mandatory_checks m)") (auto simp: setup_of_merged_def)
next
  case (Inr ss)
  obtain st' scores where st: "merge_sources digest org dept user rfp = Inr st'"
    and w: "map ks_weight scores = map ks_weight (ms_scores st')"
    and sc: "mg_scoring_criteria m = map (\<lambda>k. k\<lparr>ks_extraction_target_ids := [score_target_id k]\<rparr>) (normalise_weights scores)"
    using merge_criteria_shape[OF assms(1)] by blast
  have "total_of scores = sum_list (map (\<lambda>_. 0) (ms_scores st'))"
    unfolding total_of_def w using st assms(3,4) by (intro arg_cong[of _ _ sum_list] map_cong) auto
  moreover have "length scores = 23" using assms(2) by (simp add: sc)
  ultimately show ?thesis using even_weights_refused[OF Inr sc] by simp
qed

lemma empty_checks_refused:
  assumes "start_setup digest env setup_id org dept rfp user = Inr (s, report)"
    and "gr_mandatory_checks_suggested report = []"
    and "merge_criteria digest org dept rfp user = Inr m" and "mg_mandatory_checks m = []"
  shows "mg_scoring_criteria m = []"
proof (rule ccontr)
  assume ne: "mg_scoring_criteria m \<noteq> []"
  obtain st :: merge_state and scores where "mg_mandatory_checks m = ms_checks st"
    and sc: "mg_scoring_criteria m = map (\<lambda>k. k\<lparr>ks_extraction_target_ids := [score_target_id k]\<rparr>) (normalise_weights scores)"
    and tg: "mg_extraction_targets m = build_targets (ms_checks st) (normalise_weights scores)"
    using merge_criteria_shape[OF assms(3)] by blast
  then have tgts: "mg_extraction_targets m = map score_target (normalise_weights scores)" "normalise_weights scores \<noteq> []"
    using assms(4) ne by (simp_all add: build_targets_def)
  obtain m' where m': "detect_and_fill_gaps digest env m = (m', report)" "setup_of_merged setup_id m' = Inr s"
    using assms(1,3) by (auto simp: start_setup_def rbind_Inr_iff split: prod.splits)
  then have "mg_mandatory_checks m' = []" "mg_extraction_targets m' = map score_target (normalise_weights scores)"
    using assms(2,4) tgts(1) by (auto simp: detect_and_fill_gaps_def Let_def split: prod.splits)
  from default_check_refused[OF this tgts(2), of setup_id] m'(2) show False by auto
qed

end
