(* ===== verification/Demo_Criteria.thy ===== *)
theory Demo_Criteria
  imports Criteria_Laws
begin

text \<open>Concrete criteria of the four sources for the witnesses. Nothing here models code.\<close>

definition demo_rubric :: json where
  "demo_rubric = JObj [(''9_10'', JStr ''x''), (''6_8'', JStr ''x''), (''3_5'', JStr ''x''), (''0_2'', JStr ''x'')]"

definition demo_template :: "string \<Rightarrow> string \<Rightarrow> rat \<Rightarrow> template" where
  "demo_template kind name weight = \<lparr>tp_template_id = name, tp_check_type = kind, tp_name = name,
     tp_description = JStr [], tp_what_passes = JStr ''present'', tp_default_weight = JNum weight,
     tp_rubric = demo_rubric, tp_is_locked = False\<rparr>"

definition demo_org :: "template list" where
  "demo_org = [demo_template ''mandatory'' ''ISO'' 0, demo_template ''scoring'' ''Price'' 2,
     demo_template ''scoring'' ''Team'' 1]"

text \<open>The department repeats the organisation's check with noise words, the RFP repeats a criterion.\<close>

definition demo_dept :: "template list" where
  "demo_dept = [demo_template ''mandatory'' ''iso (v2) certification'' 0, demo_template ''scoring'' ''Speed'' 1]"

definition demo_rfp_criteria :: json where
  "demo_rfp_criteria = JObj [(''mandatory_checks'', JArr []),
     (''scoring_criteria'', JArr [JObj [(''name'', JStr ''PRICE''), (''weight'', JNum 9)]])]"

definition demo_merged :: "merged result" where
  "demo_merged = merge_criteria (\<lambda>s. s) demo_org demo_dept demo_rfp_criteria (JObj [])"

lemma demo_names [simp]:
  "normalize_name ''ISO'' = ''iso''" "normalize_name ''iso (v2) certification'' = ''iso''"
  "normalize_name ''Price'' = ''price''" "normalize_name ''PRICE'' = ''price''"
  "normalize_name ''Team'' = ''team''" "normalize_name ''Speed'' = ''speed''"
  by code_simp+

lemma demo_sources:
  "\<exists>st. merge_sources (\<lambda>s. s) demo_org demo_dept (JObj []) demo_rfp_criteria = Inr st \<and>
     map kc_name (ms_checks st) = [''ISO''] \<and> map ks_name (ms_scores st) = [''Price'', ''Team'', ''Speed''] \<and>
     map ks_weight (ms_scores st) = [2, 1, 1]"
  by (simp add: merge_sources_def demo_org_def demo_dept_def demo_rfp_criteria_def demo_template_def demo_rubric_def
      merge_org_def merge_dept_def template_check_def template_score_def add_check_def add_score_def Let_def
      items_of_def merge_json_score_def get_default_def jindex_def)

lemma demo_named: "\<exists>named. rbind (items_of demo_rfp_criteria ''scoring_criteria'') named_items = Inr named"
  by (simp add: demo_rfp_criteria_def items_of_def get_default_def jindex_def)

lemma demo_merged_valid:
  "\<exists>m. demo_merged = Inr m \<and> map kc_name (mg_mandatory_checks m) = [''ISO''] \<and>
     map ks_name (mg_scoring_criteria m) = [''Price'', ''Team'', ''Speed''] \<and>
     map ks_weight (mg_scoring_criteria m) = [1 / 2, 1 / 4, 1 / 4]"
proof -
  have r: "py_round 3 (1 / 2) = 1 / 2" "py_round 3 (1 / 4) = 1 / 4" by code_simp+
  obtain st where st: "merge_sources (\<lambda>s. s) demo_org demo_dept (JObj []) demo_rfp_criteria = Inr st"
      "map kc_name (ms_checks st) = [''ISO'']" "map ks_name (ms_scores st) = [''Price'', ''Team'', ''Speed'']"
      "map ks_weight (ms_scores st) = [2, 1, 1]"
    using demo_sources by (elim exE conjE) (rule that)
  obtain named where n: "rbind (items_of demo_rfp_criteria ''scoring_criteria'') named_items = Inr named"
    using demo_named by blast
  obtain m where m: "demo_merged = Inr m" 
    using merge_criteria_returns[OF st(1) n] by (auto simp: demo_merged_def)
  obtain st' scores where s: "st' = st" "mg_mandatory_checks m = ms_checks st'" "map ks_name scores = map ks_name (ms_scores st')"
      "map ks_weight scores = map ks_weight (ms_scores st')"
      "mg_scoring_criteria m = map (\<lambda>k. k\<lparr>ks_extraction_target_ids := [score_target_id k]\<rparr>) (normalise_weights scores)"
    using merge_criteria_shape[OF m[unfolded demo_merged_def]] st(1) by auto
  have "total_of scores = 4" using s st by (simp add: total_of_def)
  then have "map ks_weight (normalise_weights scores) = map (\<lambda>w. py_round 3 (w / 4)) (map ks_weight scores)"
    by (simp add: normalise_weights_def)
  also have "map ks_weight scores = [2, 1, 1]" using s st by simp
  finally have w: "map ks_weight (normalise_weights scores) = [1 / 2, 1 / 4, 1 / 4]" by (simp add: r)
  have "map ks_name (mg_scoring_criteria m) = map ks_name scores"
    "map ks_weight (mg_scoring_criteria m) = map ks_weight (normalise_weights scores)"
    unfolding s(5) by (simp_all add: comp_def)
  with m s st w show ?thesis by (intro exI[of _ m]) simp
qed

text \<open>One check and one criterion; the second set lacks the check.\<close>

definition demo_small :: "template list" where
  "demo_small = [demo_template ''mandatory'' ''ISO'' 0, demo_template ''scoring'' ''Price'' 1]"

lemma demo_small_merged:
  "\<exists>m cs ss. merge_criteria (\<lambda>s. s) demo_small [] (JObj []) (JObj []) = Inr m \<and> mg_mandatory_checks m \<noteq> [] \<and>
     mg_scoring_criteria m \<noteq> [] \<and> length (mg_scoring_criteria m) \<le> 20 \<and>
     (\<forall>k \<in> set (mg_scoring_criteria m). 0 < ks_weight k \<and> ks_weight k \<le> 1) \<and>
     rmap setup_check (mg_mandatory_checks m) = Inr cs \<and> rmap setup_score (mg_scoring_criteria m) = Inr ss \<and>
     map mc_name cs = [''ISO''] \<and> map sc_weight ss = [1]"
  by (simp add: merge_criteria_def merge_sources_def demo_small_def demo_template_def demo_rubric_def merge_org_def
      template_check_def template_score_def add_check_def add_score_def Let_def items_of_def get_default_def jindex_def
      setup_check_def setup_score_def normalise_weights_def total_of_def enrich_def dict_of_def)

definition demo_unchecked :: "template list" where
  "demo_unchecked = [demo_template ''scoring'' ''Price'' 1]"

definition demo_gap_env :: gap_env where
  "demo_gap_env = \<lparr>gp_loads = (\<lambda>_. Inl (ValueError ''no JSON'')), gp_guides = (\<lambda>_. Inl (ValueError ''down'')),
     gp_checks = Inl (ValueError ''down'')\<rparr>"

lemma demo_unchecked_merged:
  "\<exists>m. merge_criteria (\<lambda>s. s) demo_unchecked [] (JObj []) (JObj []) = Inr m \<and> mg_mandatory_checks m = [] \<and>
     mg_scoring_criteria m \<noteq> []"
  by (simp add: merge_criteria_def merge_sources_def demo_unchecked_def demo_template_def demo_rubric_def merge_org_def
      template_check_def template_score_def add_check_def add_score_def Let_def items_of_def get_default_def jindex_def
      normalise_weights_def total_of_def enrich_def dict_of_def)

end
