(* ===== verification/Limiter.thy ===== *)
theory Limiter
  imports Prelude
begin

text \<open>
  \<open>RateLimiter\<close> of \<open>app/infra/rate_limiter.py\<close>: a sliding window of time stamps. The lock is held over
  the whole of \<open>acquire\<close>, its sleep included, so acquisitions happen one after the other; the clock is
  read when the lock is taken, after the sleep and when the stamp is appended.
\<close>

section \<open>The limiter\<close>

record limiter =
  lm_rpm :: nat
  lm_timestamps :: "rat list"

definition window :: rat where
  "window = 60"

definition new_limiter :: "nat option \<Rightarrow> nat \<Rightarrow> limiter" where
  "new_limiter requests_per_minute setting =
     \<lparr>lm_rpm = (case requests_per_minute of None \<Rightarrow> setting | Some n \<Rightarrow> if n = 0 then setting else n), lm_timestamps = []\<rparr>"

record readings =
  rd_now :: rat
  rd_woken :: rat
  rd_stamp :: rat

definition expire :: "rat \<Rightarrow> rat list \<Rightarrow> rat list" where
  "expire now ts = dropWhile (\<lambda>t. window \<le> now - t) ts"

text \<open>The seconds slept and the limiter afterwards; a limiter of zero requests has no oldest stamp.\<close>

definition acquire :: "readings \<Rightarrow> limiter \<Rightarrow> (rat \<times> limiter) result" where
  "acquire r l =
     (let ts = expire (rd_now r) (lm_timestamps l)
      in if lm_rpm l \<le> length ts
         then case ts of
             [] \<Rightarrow> Inl IndexError
           | oldest # _ \<Rightarrow>
               Inr (window - (rd_now r - oldest) + 1 / 10,
                    l\<lparr>lm_timestamps := expire (rd_woken r) ts @ [rd_stamp r]\<rparr>)
         else Inr (0, l\<lparr>lm_timestamps := ts @ [rd_stamp r]\<rparr>))"

section \<open>Runs\<close>

text \<open>The clock does not run backwards, and a sleep takes at least the time asked for.\<close>

definition clock_ok :: "rat list \<Rightarrow> limiter \<Rightarrow> readings \<Rightarrow> bool" where
  "clock_ok stamps l r \<longleftrightarrow> (\<forall>t \<in> set stamps. t \<le> rd_now r) \<and> rd_woken r \<le> rd_stamp r \<and>
     (case acquire r l of Inl _ \<Rightarrow> True | Inr (slept, _) \<Rightarrow> rd_now r + slept \<le> rd_woken r)"

inductive limiter_reaches :: "limiter \<Rightarrow> rat list \<Rightarrow> limiter \<Rightarrow> bool" for l0 where
  start: "limiter_reaches l0 [] l0"
| acquired: "limiter_reaches l0 stamps l \<Longrightarrow> clock_ok stamps l r \<Longrightarrow> acquire r l = Inr (slept, l') \<Longrightarrow>
    limiter_reaches l0 (stamps @ [rd_stamp r]) l'"

section \<open>The window\<close>

lemma expire_drop:
  obtains j where "expire now ts = drop j ts" "j \<le> length ts" "\<And>i. i < j \<Longrightarrow> ts ! i + window \<le> now"
proof
  let ?w = "takeWhile (\<lambda>t. window \<le> now - t) ts"
  show "expire now ts = drop (length ?w) ts" by (simp add: expire_def dropWhile_eq_drop)
  show "length ?w \<le> length ts" by (rule length_takeWhile_le)
  fix i assume "i < length ?w"
  then have "?w ! i = ts ! i" "?w ! i \<in> set ?w" by (rule takeWhile_nth) (rule nth_mem, fact)
  then show "ts ! i + window \<le> now" by (auto dest: set_takeWhileD)
qed

lemma expire_length: "length (expire now ts) \<le> length ts"
  by (simp add: expire_def length_dropWhile_le)

lemma expire_oldest: "oldest + window \<le> now \<Longrightarrow> length (expire now (oldest # ts)) \<le> length ts"
  by (simp add: expire_def length_dropWhile_le)

definition spaced :: "nat \<Rightarrow> rat list \<Rightarrow> bool" where
  "spaced n stamps \<longleftrightarrow> (\<forall>i. i + n < length stamps \<longrightarrow> stamps ! i + window \<le> stamps ! (i + n))"

text \<open>The stamps kept are the latest ones; those dropped are a window older than the clock.\<close>

definition limiter_inv :: "nat \<Rightarrow> rat list \<Rightarrow> limiter \<Rightarrow> bool" where
  "limiter_inv n stamps l \<longleftrightarrow> sorted stamps \<and> spaced n stamps \<and> lm_rpm l = n \<and> length (lm_timestamps l) \<le> n \<and>
     (\<exists>k \<le> length stamps. lm_timestamps l = drop k stamps \<and> (\<forall>i < k. stamps ! i + window \<le> last stamps))"

lemma acquire_kept:
  assumes "acquire r l = Inr (slept, l')" and "length (lm_timestamps l) \<le> lm_rpm l" and "0 < lm_rpm l"
    and "rd_now r + slept \<le> rd_woken r"
  obtains j where "lm_timestamps l' = drop j (lm_timestamps l) @ [rd_stamp r]" "j \<le> length (lm_timestamps l)"
    "length (drop j (lm_timestamps l)) < lm_rpm l" "\<And>i. i < j \<Longrightarrow> lm_timestamps l ! i + window \<le> rd_woken r"
    "lm_rpm l' = lm_rpm l"
proof -
  let ?ts = "lm_timestamps l"
  obtain j where j: "expire (rd_now r) ?ts = drop j ?ts" "j \<le> length ?ts" "\<And>i. i < j \<Longrightarrow> ?ts ! i + window \<le> rd_now r"
    by (rule expire_drop) blast
  show thesis
  proof (cases "lm_rpm l \<le> length (expire (rd_now r) ?ts)")
    case False
    then have "slept = 0" "l' = l\<lparr>lm_timestamps := drop j ?ts @ [rd_stamp r]\<rparr>" using assms(1) j(1) by (auto simp: acquire_def)
    with False j assms(4) show thesis by (intro that[of j]) (auto intro: order_trans)
  next
    case True
    with assms(1,3) obtain oldest rest where o: "drop j ?ts = oldest # rest" "slept = window - (rd_now r - oldest) + 1 / 10"
        "l' = l\<lparr>lm_timestamps := expire (rd_woken r) (drop j ?ts) @ [rd_stamp r]\<rparr>"
      by (auto simp: acquire_def j(1) Let_def split: list.splits)
    obtain k where k: "expire (rd_woken r) (drop j ?ts) = drop k (drop j ?ts)" "k \<le> length (drop j ?ts)"
        "\<And>i. i < k \<Longrightarrow> drop j ?ts ! i + window \<le> rd_woken r"
      by (rule expire_drop) blast
    have full: "j = 0" using True j assms(2) by auto
    have "oldest + window \<le> rd_woken r" using o(2) assms(4) by simp
    then have "length (drop k (drop j ?ts)) < lm_rpm l"
      using expire_oldest[of oldest "rd_woken r" rest] o(1) k(1) assms(2) full by simp
    with k o full show thesis by (intro that[of k]) simp_all
  qed
qed

lemma sorted_snoc: "sorted xs \<Longrightarrow> \<forall>x \<in> set xs. x \<le> y \<Longrightarrow> sorted (xs @ [y])"
  by (simp add: sorted_append)

lemma limiter_inv_acquired:
  assumes inv: "limiter_inv n stamps l" and "0 < n" and ok: "clock_ok stamps l r" and a: "acquire r l = Inr (slept, l')"
  shows "limiter_inv n (stamps @ [rd_stamp r]) l'"
proof -
  from inv obtain k where k: "k \<le> length stamps" "lm_timestamps l = drop k stamps" "\<forall>i < k. stamps ! i + window \<le> last stamps"
    and s: "sorted stamps" "spaced n stamps" "lm_rpm l = n" "length (lm_timestamps l) \<le> n"
    by (auto simp: limiter_inv_def)
  have clock: "\<forall>t \<in> set stamps. t \<le> rd_now r" "rd_now r + slept \<le> rd_woken r" "rd_woken r \<le> rd_stamp r"
    using ok by (simp_all add: clock_ok_def a)
  have "0 \<le> slept"
  proof (cases "lm_rpm l \<le> length (expire (rd_now r) (lm_timestamps l))")
    case True
    then obtain oldest rest where e: "expire (rd_now r) (lm_timestamps l) = oldest # rest" using \<open>0 < n\<close> s(3)
      by (cases "expire (rd_now r) (lm_timestamps l)") auto
    then have "\<not> window \<le> rd_now r - oldest" unfolding expire_def by (metis hd_dropWhile list.distinct(1) list.sel(1))
    then show ?thesis using a True e by (auto simp: acquire_def)
  qed (use a in \<open>auto simp: acquire_def\<close>)
  with clock have late: "\<forall>t \<in> set stamps. t \<le> rd_stamp r" by (meson add_increasing2 order_trans order_refl)
  obtain j where j: "lm_timestamps l' = drop j (lm_timestamps l) @ [rd_stamp r]" "j \<le> length (lm_timestamps l)"
    "length (drop j (lm_timestamps l)) < lm_rpm l" "\<And>i. i < j \<Longrightarrow> lm_timestamps l ! i + window \<le> rd_woken r"
    "lm_rpm l' = lm_rpm l"
    using acquire_kept[OF a] s \<open>0 < n\<close> clock(2) by metis
  have old: "stamps ! i + window \<le> rd_stamp r" if "i < k + j" for i
  proof (cases "i < k")
    case True
    then have "last stamps \<le> rd_stamp r" using late k(1) by (cases stamps) auto
    with k(3) True show ?thesis by (meson order_trans)
  next
    case False
    then have "lm_timestamps l ! (i - k) = stamps ! i" using k(1,2) by simp
    moreover have "i - k < j" using that False by simp
    ultimately show ?thesis using j(4)[of "i - k"] clock(3) by simp
  qed
  have "spaced n (stamps @ [rd_stamp r])"
    unfolding spaced_def
  proof (intro allI impI)
    fix i assume i: "i + n < length (stamps @ [rd_stamp r])"
    show "(stamps @ [rd_stamp r]) ! i + window \<le> (stamps @ [rd_stamp r]) ! (i + n)"
    proof (cases "i + n < length stamps")
      case True
      then show ?thesis using s(2) by (simp add: spaced_def nth_append)
    next
      case False
      with i have e: "i + n = length stamps" by simp
      then have "i < k + j" using j(3) k(1,2) s(3) \<open>0 < n\<close> by simp
      with old[of i] e \<open>0 < n\<close> show ?thesis by (simp add: nth_append)
    qed
  qed
  moreover have "lm_timestamps l' = drop (k + j) (stamps @ [rd_stamp r])" "k + j \<le> length (stamps @ [rd_stamp r])"
    using j(1,2) k(1,2) by (simp_all add: add.commute)
  moreover have "\<forall>i < k + j. (stamps @ [rd_stamp r]) ! i + window \<le> last (stamps @ [rd_stamp r])"
    using old j(2) k(1,2) by (auto simp: nth_append)
  moreover have "length (lm_timestamps l') \<le> n" using j(1,3) s(3) by simp
  ultimately show ?thesis
    using sorted_snoc[OF s(1) late] j(5) s(3) unfolding limiter_inv_def by blast
qed

lemma limiter_reaches_inv:
  assumes "limiter_reaches l0 stamps l" and "lm_timestamps l0 = []" and "0 < lm_rpm l0"
  shows "limiter_inv (lm_rpm l0) stamps l"
  using assms(1)
proof (induction rule: limiter_reaches.induct)
  case start
  then show ?case using assms(2) by (simp add: limiter_inv_def spaced_def)
next
  case (acquired stamps l r slept l')
  then show ?case using limiter_inv_acquired assms(3) by blast
qed

lemma spaced_window:
  assumes "sorted stamps" and "spaced n stamps"
  shows "length (filter (\<lambda>s. t \<le> s \<and> s < t + window) stamps) \<le> n"
proof -
  let ?J = "{i. i < length stamps \<and> t \<le> stamps ! i \<and> stamps ! i < t + window}"
  have fin: "finite ?J" by simp
  have "card ?J \<le> n"
  proof (cases "?J = {}")
    case False
    define m where "m = Min ?J"
    have m: "m \<in> ?J" "\<And>j. j \<in> ?J \<Longrightarrow> m \<le> j"
      unfolding m_def using Min_in[OF fin False] Min_le[OF fin] by blast+
    have "j < m + n" if "j \<in> ?J" for j
    proof (rule ccontr)
      assume "\<not> j < m + n"
      then have "stamps ! (m + n) \<le> stamps ! j" "stamps ! m + window \<le> stamps ! (m + n)"
        using that assms by (simp_all add: sorted_nth_mono spaced_def)
      with m(1) that show False by auto
    qed
    with m(2) have "?J \<subseteq> {m..<m + n}" by auto
    then have "card ?J \<le> card {m..<m + n}" by (rule card_mono[rotated]) simp
    then show ?thesis by simp
  next
    case True
    show ?thesis unfolding True by simp
  qed
  then show ?thesis by (simp add: length_filter_conv_card)
qed

lemma acquire_returns:
  assumes "0 < lm_rpm l"
  shows "\<exists>slept l'. acquire r l = Inr (slept, l')"
  using assms by (auto simp: acquire_def Let_def split: list.split)

end
