(* ===== verification/Cost.thy ===== *)
theory Cost
  imports Prelude
begin

text \<open>
  \<open>app/infra/cost_tracker.py\<close>: the price of a call, the accumulator of a run, its summary, and the
  registry that \<open>record_llm_call\<close> and \<open>record_cache_event\<close> write to. The two context variables are
  fields of the state.
\<close>

section \<open>Prices\<close>

definition pricing :: "(string \<times> rat \<times> rat) list" where
  "pricing =
     [(''gpt-4o-mini'', 15 / 100, 60 / 100), (''gpt-4o'', 250 / 100, 10), (''gpt-4-turbo'', 10, 30), (''gpt-4'', 30, 60),
      (''gpt-3.5'', 50 / 100, 150 / 100), (''o1-mini'', 3, 12), (''o1'', 15, 60), (''o3-mini'', 110 / 100, 440 / 100),
      (''claude-haiku'', 25 / 100, 125 / 100), (''claude-3-5-haiku'', 80 / 100, 4), (''claude-sonnet'', 3, 15),
      (''claude-3-5-sonnet'', 3, 15), (''claude-opus'', 15, 75), (''llama-3'', 59 / 100, 79 / 100),
      (''llama-3.1'', 59 / 100, 79 / 100), (''qwen'', 0, 0), (''mistral'', 2, 6), (''ollama'', 0, 0)]"

definition default_rates :: "rat \<times> rat" where
  "default_rates = (5, 15)"

definition rates_of :: "string \<Rightarrow> rat \<times> rat" where
  "rates_of model =
     (case List.find (\<lambda>kv. contains_str (fst kv) (lower model)) pricing of
        None \<Rightarrow> default_rates | Some (_, rates) \<Rightarrow> rates)"

definition estimate_cost :: "string \<Rightarrow> int \<Rightarrow> int \<Rightarrow> rat" where
  "estimate_cost model prompt_tokens completion_tokens =
     (let (input_rate, output_rate) = rates_of model
      in (of_int prompt_tokens * input_rate + of_int completion_tokens * output_rate) / 1000000)"

section \<open>The accumulator of a run\<close>

record llm_usage =
  lu_agent :: string
  lu_model :: string
  lu_prompt_tokens :: int
  lu_completion_tokens :: int
  lu_latency_ms :: int
  lu_cost_usd :: rat

record run_cost =
  rc_run_id :: string
  rc_calls :: "llm_usage list"
  rc_cache_hits :: nat
  rc_cache_misses :: nat
  rc_cache_savings_usd :: rat

definition total_prompt_tokens :: "run_cost \<Rightarrow> int" where
  "total_prompt_tokens acc = sum_list (map lu_prompt_tokens (rc_calls acc))"

definition total_completion_tokens :: "run_cost \<Rightarrow> int" where
  "total_completion_tokens acc = sum_list (map lu_completion_tokens (rc_calls acc))"

definition total_tokens :: "run_cost \<Rightarrow> int" where
  "total_tokens acc = total_prompt_tokens acc + total_completion_tokens acc"

definition total_cost_usd :: "run_cost \<Rightarrow> rat" where
  "total_cost_usd acc = sum_list (map lu_cost_usd (rc_calls acc))"

definition total_latency_ms :: "run_cost \<Rightarrow> int" where
  "total_latency_ms acc = sum_list (map lu_latency_ms (rc_calls acc))"

definition cache_hit_rate :: "run_cost \<Rightarrow> rat" where
  "cache_hit_rate acc =
     (let total = rc_cache_hits acc + rc_cache_misses acc
      in if total = 0 then 0 else of_nat (rc_cache_hits acc) / of_nat total)"

record agent_cost =
  ag_calls :: nat
  ag_tokens :: int
  ag_cost_usd :: rat
  ag_latency_ms :: int

definition add_usage :: "(string, agent_cost) dict \<Rightarrow> llm_usage \<Rightarrow> (string, agent_cost) dict" where
  "add_usage by_agent c =
     (let a = get_default by_agent (lu_agent c) \<lparr>ag_calls = 0, ag_tokens = 0, ag_cost_usd = 0, ag_latency_ms = 0\<rparr>
      in dict_set (lu_agent c)
           \<lparr>ag_calls = ag_calls a + 1, ag_tokens = ag_tokens a + lu_prompt_tokens c + lu_completion_tokens c,
            ag_cost_usd = ag_cost_usd a + lu_cost_usd c, ag_latency_ms = ag_latency_ms a + lu_latency_ms c\<rparr> by_agent)"

definition usage_by_agent :: "llm_usage list \<Rightarrow> (string, agent_cost) dict" where
  "usage_by_agent calls = foldl add_usage [] calls"

record cost_summary =
  sm_run_id :: string
  sm_total_calls :: nat
  sm_total_tokens :: int
  sm_total_prompt_tokens :: int
  sm_total_completion_tokens :: int
  sm_total_cost_usd :: rat
  sm_total_latency_ms :: int
  sm_cache_hits :: nat
  sm_cache_misses :: nat
  sm_cache_hit_rate :: rat
  sm_cache_savings_usd :: rat
  sm_by_agent :: "(string, agent_cost) dict"

definition cost_summary_of :: "run_cost \<Rightarrow> cost_summary" where
  "cost_summary_of acc =
     \<lparr>sm_run_id = rc_run_id acc, sm_total_calls = length (rc_calls acc), sm_total_tokens = total_tokens acc,
      sm_total_prompt_tokens = total_prompt_tokens acc, sm_total_completion_tokens = total_completion_tokens acc,
      sm_total_cost_usd = py_round 6 (total_cost_usd acc), sm_total_latency_ms = total_latency_ms acc,
      sm_cache_hits = rc_cache_hits acc, sm_cache_misses = rc_cache_misses acc,
      sm_cache_hit_rate = py_round 4 (cache_hit_rate acc), sm_cache_savings_usd = py_round 6 (rc_cache_savings_usd acc),
      sm_by_agent = map (\<lambda>(k, v). (k, v\<lparr>ag_cost_usd := py_round 6 (ag_cost_usd v)\<rparr>)) (usage_by_agent (rc_calls acc))\<rparr>"

section \<open>The registry\<close>

record costs =
  ct_accumulators :: "(string, run_cost) dict"
  ct_run_id :: "string option"
  ct_agent :: string

definition new_run_cost :: "string \<Rightarrow> run_cost" where
  "new_run_cost run_id =
     \<lparr>rc_run_id = run_id, rc_calls = [], rc_cache_hits = 0, rc_cache_misses = 0, rc_cache_savings_usd = 0\<rparr>"

text \<open>Entering \<open>set_run_context\<close>, and leaving it with the variables it found.\<close>

definition enter_run :: "string \<Rightarrow> string \<Rightarrow> costs \<Rightarrow> costs" where
  "enter_run run_id agent s =
     s\<lparr>ct_run_id := Some run_id, ct_agent := agent,
       ct_accumulators := (if dict_mem run_id (ct_accumulators s) then ct_accumulators s
                           else dict_set run_id (new_run_cost run_id) (ct_accumulators s))\<rparr>"

definition leave_run :: "costs \<Rightarrow> costs \<Rightarrow> costs" where
  "leave_run before s = s\<lparr>ct_run_id := ct_run_id before, ct_agent := ct_agent before\<rparr>"

definition mark_agent :: "string \<Rightarrow> costs \<Rightarrow> costs" where
  "mark_agent agent s = s\<lparr>ct_agent := agent\<rparr>"

definition active_run :: "costs \<Rightarrow> (string \<times> run_cost) option" where
  "active_run s =
     (case ct_run_id s of None \<Rightarrow> None
      | Some run_id \<Rightarrow> (case dict_get (ct_accumulators s) run_id of None \<Rightarrow> None | Some acc \<Rightarrow> Some (run_id, acc)))"

definition record_llm_call :: "string \<Rightarrow> int \<Rightarrow> int \<Rightarrow> int \<Rightarrow> costs \<Rightarrow> costs" where
  "record_llm_call model prompt_tokens completion_tokens latency_ms s =
     (case active_run s of None \<Rightarrow> s
      | Some (run_id, acc) \<Rightarrow>
          let c = \<lparr>lu_agent = ct_agent s, lu_model = model, lu_prompt_tokens = prompt_tokens,
                   lu_completion_tokens = completion_tokens, lu_latency_ms = latency_ms,
                   lu_cost_usd = estimate_cost model prompt_tokens completion_tokens\<rparr>
          in s\<lparr>ct_accumulators := dict_set run_id (acc\<lparr>rc_calls := rc_calls acc @ [c]\<rparr>) (ct_accumulators s)\<rparr>)"

definition record_cache_event :: "bool \<Rightarrow> string \<Rightarrow> int option \<Rightarrow> int option \<Rightarrow> costs \<Rightarrow> costs" where
  "record_cache_event hit model prompt_tokens completion_tokens s =
     (case active_run s of None \<Rightarrow> s
      | Some (run_id, acc) \<Rightarrow>
          let saved = (case (prompt_tokens, completion_tokens) of (Some p, Some c) \<Rightarrow> estimate_cost model p c | _ \<Rightarrow> 0);
              acc' = (if hit then acc\<lparr>rc_cache_hits := rc_cache_hits acc + 1,
                                      rc_cache_savings_usd := rc_cache_savings_usd acc + saved\<rparr>
                      else acc\<lparr>rc_cache_misses := rc_cache_misses acc + 1\<rparr>)
          in s\<lparr>ct_accumulators := dict_set run_id acc' (ct_accumulators s)\<rparr>)"

definition get_run_cost :: "string \<Rightarrow> costs \<Rightarrow> run_cost option" where
  "get_run_cost run_id s = dict_get (ct_accumulators s) run_id"

definition clear_run_cost :: "string \<Rightarrow> costs \<Rightarrow> costs" where
  "clear_run_cost run_id s = s\<lparr>ct_accumulators := filter (\<lambda>kv. fst kv \<noteq> run_id) (ct_accumulators s)\<rparr>"

section \<open>What the agents' shares add up to\<close>

lemma dict_set_sum:
  fixes f :: "'v \<Rightarrow> 'n::ab_group_add"
  assumes "distinct (map fst d)"
  shows "sum_list (map (f \<circ> snd) (dict_set k v d)) =
    sum_list (map (f \<circ> snd) d) + f v - (case dict_get d k of None \<Rightarrow> 0 | Some w \<Rightarrow> f w)"
  using assms
proof (induction d)
  case (Cons kv d)
  then show ?case by (cases kv) (auto simp: map_of_eq_None_iff split: option.splits)
qed simp

lemma usage_by_agent_simps [simp]:
  "usage_by_agent [] = []" "usage_by_agent (cs @ [c]) = add_usage (usage_by_agent cs) c"
  by (simp_all add: usage_by_agent_def)

lemma usage_by_agent_distinct: "distinct (map fst (usage_by_agent cs))"
  by (induction cs rule: rev_induct) (simp_all add: add_usage_def Let_def)

lemma agent_shares:
  "sum_list (map (int \<circ> ag_calls \<circ> snd) (usage_by_agent cs)) = int (length cs)"
  "sum_list (map (ag_tokens \<circ> snd) (usage_by_agent cs)) =
     sum_list (map lu_prompt_tokens cs) + sum_list (map lu_completion_tokens cs)"
  "sum_list (map (ag_cost_usd \<circ> snd) (usage_by_agent cs)) = sum_list (map lu_cost_usd cs)"
  "sum_list (map (ag_latency_ms \<circ> snd) (usage_by_agent cs)) = sum_list (map lu_latency_ms cs)"
  by (induction cs rule: rev_induct)
    (simp_all add: add_usage_def Let_def dict_set_sum[OF usage_by_agent_distinct] get_default_def split: option.split)

end
