(* ===== verification/Llm.thy ===== *)
theory Llm
  imports Limiter Cost Schemas
begin

text \<open>
  \<open>call_llm\<close> of \<open>app/providers/llm.py\<close> with the response cache of \<open>app/providers/llm_cache.py\<close> and
  \<open>call_with_backoff\<close> of \<open>app/infra/rate_limiter.py\<close>. Parameters: the providers' replies, the readings of
  the clock, the digests of the keys, the classes of the provider's exceptions and tenacity's \<open>retry\<close>,
  whose documented behaviour is \<open>retry_law\<close>. The cache table has the primary key and the NOT NULL
  column of \<open>schema.sql\<close>; a database that does not answer makes every statement raise.
\<close>

section \<open>Messages, arguments, settings\<close>

record chat_message =
  cm_role :: string
  cm_content :: string

record llm_args =
  la_messages :: "chat_message list"
  la_temperature :: rat
  la_max_tokens :: nat
  la_response_format :: json
  la_seed :: "nat option"
  la_use_cache :: bool
  la_cache_bust :: "string option"

record llm_settings =
  lt_llm_provider :: string
  lt_openai_model :: string
  lt_anthropic_model :: string
  lt_openrouter_model :: string
  lt_ollama_model :: string
  lt_azure_deployment :: string
  lt_modal_model :: string
  lt_modal_endpoint :: string
  lt_openai_api_key :: string
  lt_anthropic_api_key :: string
  lt_openrouter_api_key :: string
  lt_openrouter_base_url :: string
  lt_ollama_base_url :: string
  lt_azure_api_key :: string
  lt_azure_endpoint :: string
  lt_azure_api_version :: string
  lt_ssl_verify :: bool
  lt_rate_metrics_enabled :: bool
  lt_cache_enabled_env :: string
  lt_cache_disabled :: bool

definition provider_of :: "llm_settings \<Rightarrow> string" where
  "provider_of cfg = lower (lt_llm_provider cfg)"

definition get_model_name :: "llm_settings \<Rightarrow> string" where
  "get_model_name cfg =
     get_default
       [(''openai'', lt_openai_model cfg), (''anthropic'', lt_anthropic_model cfg), (''openrouter'', lt_openrouter_model cfg),
        (''ollama'', lt_ollama_model cfg), (''azure'', lt_azure_deployment cfg), (''modal'', lt_modal_model cfg)]
       (provider_of cfg) (lt_openai_model cfg)"

text \<open>The clients, with the arguments of their constructors.\<close>

record http_client =
  hc_verify :: bool
  hc_timeout :: "nat option"
  hc_follow_redirects :: bool

datatype llm_client =
    AsyncOpenAI string "string option" "http_client option"
    \<comment> \<open>api_key, base_url, http_client\<close>
  | AsyncAnthropic string "http_client option"
  | AsyncAzureOpenAI string string string "http_client option"
    \<comment> \<open>api_key, azure_endpoint, api_version, http_client\<close>

definition http_client_of :: "llm_settings \<Rightarrow> http_client option" where
  "http_client_of cfg =
     (if lt_ssl_verify cfg then None else Some \<lparr>hc_verify = False, hc_timeout = None, hc_follow_redirects = False\<rparr>)"

definition rstrip_slash :: "string \<Rightarrow> string" where
  "rstrip_slash s = rev (dropWhile (\<lambda>c. c = CHR ''/'') (rev s))"

definition get_llm_client :: "llm_settings \<Rightarrow> llm_client result" where
  "get_llm_client cfg =
     (let provider = provider_of cfg; http = http_client_of cfg
      in if provider = ''openai'' then Inr (AsyncOpenAI (lt_openai_api_key cfg) None http)
         else if provider = ''anthropic'' then Inr (AsyncAnthropic (lt_anthropic_api_key cfg) http)
         else if provider = ''openrouter''
         then Inr (AsyncOpenAI (lt_openrouter_api_key cfg) (Some (lt_openrouter_base_url cfg)) http)
         else if provider = ''ollama'' then Inr (AsyncOpenAI ''ollama'' (Some (lt_ollama_base_url cfg @ ''/v1'')) http)
         else if provider = ''modal''
         then if lt_modal_endpoint cfg = []
              then Inl (ValueError ''MODAL_LLM_ENDPOINT is not set. Deploy first: modal deploy app_modal.py --env rag then copy the printed URL into .env'')
              else Inr (AsyncOpenAI ''modal'' (Some (rstrip_slash (lt_modal_endpoint cfg) @ ''/v1''))
                     (Some \<lparr>hc_verify = lt_ssl_verify cfg, hc_timeout = Some 600, hc_follow_redirects = True\<rparr>))
         else if provider = ''azure''
         then Inr (AsyncAzureOpenAI (lt_azure_api_key cfg) (lt_azure_endpoint cfg) (lt_azure_api_version cfg) http)
         else Inl (ValueError (''Unknown LLM_PROVIDER: '' @ [CHR 0x27] @ provider @ [CHR 0x27] @
                ''. Valid options: openai, anthropic, openrouter, ollama, azure, modal'')))"

text \<open>\<open>int(hex[:8], 16)\<close> of the digest of the joined parts.\<close>

definition hex_digit :: "char \<Rightarrow> nat" where
  "hex_digit c = (if is_digit c then of_char c - 48 else of_char c - 87)"

definition hex_value :: "string \<Rightarrow> nat" where
  "hex_value s = foldl (\<lambda>n c. 16 * n + hex_digit c) 0 s"

definition stable_seed :: "(string \<Rightarrow> string) \<Rightarrow> string list \<Rightarrow> nat" where
  "stable_seed sha256 parts = hex_value (take 8 (sha256 (join ''|'' parts)))"

section \<open>The cache\<close>

record cache_payload =
  cy_provider :: string
  cy_model :: string
  cy_temperature :: rat
  cy_seed :: nat
  cy_response_format :: json
  cy_messages :: "chat_message list"
  cy_cache_bust :: "string option"

record cached_response =
  cr_response :: string
  cr_provider :: string
  cr_model :: string
  cr_prompt_tokens :: "int option"
  cr_completion_tokens :: "int option"

type_synonym cache = "(string, cached_response) dict"

definition cache_enabled :: "llm_settings \<Rightarrow> bool" where
  "cache_enabled cfg \<longleftrightarrow> \<not> lt_cache_disabled cfg \<and> lower (lt_cache_enabled_env cfg) \<in> {''1'', ''true'', ''yes'', ''on''}"

definition build_cache_key :: "(string \<Rightarrow> string) \<Rightarrow> (cache_payload \<Rightarrow> string) \<Rightarrow> cache_payload \<Rightarrow> string" where
  "build_cache_key sha256 dumps payload = sha256 (dumps payload)"

definition cache_lookup :: "string \<Rightarrow> cache \<Rightarrow> cached_response option" where
  "cache_lookup key table = dict_get table key"

text \<open>\<open>INSERT ... ON CONFLICT DO NOTHING\<close> into a column that is NOT NULL.\<close>

definition cache_store ::
  "string \<Rightarrow> string \<Rightarrow> string \<Rightarrow> string option \<Rightarrow> int option \<Rightarrow> int option \<Rightarrow> cache \<Rightarrow> (bool \<times> cache) result" where
  "cache_store key provider model response pt ct table =
     (case response of
        None \<Rightarrow> Inl (ExternalError ''NotNullViolation'')
      | Some text \<Rightarrow>
          Inr (if dict_mem key table then (False, table)
               else (True, dict_set key \<lparr>cr_response = text, cr_provider = provider, cr_model = model,
                                         cr_prompt_tokens = pt, cr_completion_tokens = ct\<rparr> table)))"

section \<open>Requests and replies\<close>

datatype provider_request =
    MessagesCreate string nat rat string "chat_message list"
    \<comment> \<open>model, max_tokens, temperature, system, messages\<close>
  | ChatCreate string "chat_message list" rat nat "json option" "nat option"
    \<comment> \<open>model, messages, temperature, max_tokens, response_format, seed\<close>

record provider_reply =
  rp_choices :: "string option list"
  rp_usage :: "(int \<times> int) option"
  rp_latency_ms :: int

type_synonym llm_text = "string option \<times> int option \<times> int option"

record llm_state =
  ls_limiter :: limiter
  ls_slots :: nat
  ls_requests :: "provider_request list"
  ls_metrics :: "nat \<times> nat"
  ls_costs :: costs
  ls_cache :: cache

record llm_env =
  le_sha256 :: "string \<Rightarrow> string"
  le_dumps_messages :: "chat_message list \<Rightarrow> string"
  le_dumps_payload :: "cache_payload \<Rightarrow> string"
  le_readings :: "nat \<Rightarrow> readings"
    \<comment> \<open>the clock at the n-th acquisition\<close>
  le_reply :: "nat \<Rightarrow> provider_request \<Rightarrow> provider_reply result"
    \<comment> \<open>the reply to the n-th request\<close>
  le_retryable :: "exn \<Rightarrow> bool"
  le_rate_limited :: "exn \<Rightarrow> bool"
  le_database :: "unit result"
  le_retry :: "nat \<Rightarrow> (exn \<Rightarrow> bool) \<Rightarrow> (llm_state \<Rightarrow> llm_state \<times> llm_text result) \<Rightarrow> llm_state \<Rightarrow> llm_state \<times> llm_text result"

text \<open>\<open>stop_after_attempt(n)\<close>, \<open>retry_if_exception_type(p)\<close>, \<open>reraise=True\<close>.\<close>

definition retry_law ::
  "(nat \<Rightarrow> (exn \<Rightarrow> bool) \<Rightarrow> ('s \<Rightarrow> 's \<times> 'a result) \<Rightarrow> 's \<Rightarrow> 's \<times> 'a result) \<Rightarrow> bool" where
  "retry_law retry \<longleftrightarrow>
     (\<forall>n p f s. retry (Suc n) p f s =
        (case f s of
           (s', Inr x) \<Rightarrow> (s', Inr x)
         | (s', Inl e) \<Rightarrow> if p e \<and> 0 < n then retry n p f s' else (s', Inl e)))"

section \<open>Backoff\<close>

definition acquire_slot :: "llm_env \<Rightarrow> llm_state \<Rightarrow> llm_state \<times> unit result" where
  "acquire_slot env s =
     (case acquire (le_readings env (ls_slots s)) (ls_limiter s) of
        Inl e \<Rightarrow> (s, Inl e)
      | Inr (_, l) \<Rightarrow> (s\<lparr>ls_limiter := l, ls_slots := Suc (ls_slots s)\<rparr>, Inr ()))"

definition record_rate_metric :: "llm_settings \<Rightarrow> nat \<Rightarrow> nat \<Rightarrow> llm_state \<Rightarrow> llm_state" where
  "record_rate_metric cfg calls errors s =
     (if lt_rate_metrics_enabled cfg
      then s\<lparr>ls_metrics := (fst (ls_metrics s) + calls, snd (ls_metrics s) + errors)\<rparr> else s)"

definition backoff_attempt ::
  "llm_env \<Rightarrow> llm_settings \<Rightarrow> (llm_state \<Rightarrow> llm_state \<times> llm_text result) \<Rightarrow> llm_state \<Rightarrow> llm_state \<times> llm_text result" where
  "backoff_attempt env cfg fn s =
     (case fn (record_rate_metric cfg 1 0 s) of
        (s', Inl e) \<Rightarrow> (if le_rate_limited env e then record_rate_metric cfg 0 1 s' else s', Inl e)
      | (s', Inr x) \<Rightarrow> (s', Inr x))"

definition call_with_backoff ::
  "llm_env \<Rightarrow> llm_settings \<Rightarrow> nat \<Rightarrow> (llm_state \<Rightarrow> llm_state \<times> llm_text result) \<Rightarrow> llm_state \<Rightarrow> llm_state \<times> llm_text result" where
  "call_with_backoff env cfg max_attempts fn s =
     (case acquire_slot env s of
        (s', Inl e) \<Rightarrow> (s', Inl e)
      | (s', Inr _) \<Rightarrow> le_retry env max_attempts (le_retryable env) (backoff_attempt env cfg fn) s')"

section \<open>One request\<close>

definition send_request :: "llm_env \<Rightarrow> provider_request \<Rightarrow> llm_state \<Rightarrow> llm_state \<times> provider_reply result" where
  "send_request env req s = (s\<lparr>ls_requests := ls_requests s @ [req]\<rparr>, le_reply env (length (ls_requests s)) req)"

definition note_usage :: "string \<Rightarrow> provider_reply \<Rightarrow> llm_state \<Rightarrow> llm_state" where
  "note_usage model reply s =
     (case rp_usage reply of None \<Rightarrow> s
      | Some (pt, ct) \<Rightarrow> s\<lparr>ls_costs := record_llm_call model pt ct (rp_latency_ms reply) (ls_costs s)\<rparr>)"

definition first_choice :: "provider_reply \<Rightarrow> string option result" where
  "first_choice reply = (case rp_choices reply of [] \<Rightarrow> Inl IndexError | c # _ \<Rightarrow> Inr c)"

definition or_str :: "string option \<Rightarrow> string \<Rightarrow> string" where
  "or_str x d = (case x of None \<Rightarrow> d | Some s \<Rightarrow> if s = [] then d else s)"

definition anthropic_request :: "string \<Rightarrow> llm_args \<Rightarrow> provider_request" where
  "anthropic_request model args =
     (let system_msg = map_option cm_content (List.find (\<lambda>m. cm_role m = ''system'') (la_messages args));
          user_msgs = filter (\<lambda>m. cm_role m \<noteq> ''system'') (la_messages args)
      in MessagesCreate model (la_max_tokens args) (la_temperature args)
           (or_str system_msg ''You are a helpful assistant.'') user_msgs)"

definition anthropic_call :: "llm_env \<Rightarrow> string \<Rightarrow> llm_args \<Rightarrow> llm_state \<Rightarrow> llm_state \<times> llm_text result" where
  "anthropic_call env model args s =
     (case send_request env (anthropic_request model args) s of
        (s', Inl e) \<Rightarrow> (s', Inl e)
      | (s', Inr reply) \<Rightarrow>
          (case rp_usage reply of
             None \<Rightarrow> (s', Inl (AttributeError ''input_tokens''))
           | Some (pt, ct) \<Rightarrow>
               (note_usage model reply s', rbind (first_choice reply) (\<lambda>text. Inr (text, Some pt, Some ct)))))"

definition chat_request :: "string \<Rightarrow> string \<Rightarrow> llm_args \<Rightarrow> nat \<Rightarrow> provider_request" where
  "chat_request provider model args seed =
     ChatCreate model (la_messages args) (la_temperature args) (la_max_tokens args)
       (if truthy (la_response_format args) \<and> (provider = ''azure'' \<or> provider \<noteq> ''modal'')
        then Some (la_response_format args) else None)
       (if provider = ''azure'' \<or> provider \<noteq> ''ollama'' then Some seed else None)"

definition chat_call :: "llm_env \<Rightarrow> string \<Rightarrow> string \<Rightarrow> llm_args \<Rightarrow> nat \<Rightarrow> llm_state \<Rightarrow> llm_state \<times> llm_text result" where
  "chat_call env provider model args seed s =
     (case send_request env (chat_request provider model args seed) s of
        (s', Inl e) \<Rightarrow> (s', Inl e)
      | (s', Inr reply) \<Rightarrow>
          (note_usage model reply s',
           rbind (first_choice reply) (\<lambda>text. Inr (text, map_option fst (rp_usage reply), map_option snd (rp_usage reply)))))"

section \<open>The call\<close>

definition seed_of :: "llm_env \<Rightarrow> llm_args \<Rightarrow> nat" where
  "seed_of env args =
     (case la_seed args of Some n \<Rightarrow> n | None \<Rightarrow> stable_seed (le_sha256 env) [le_dumps_messages env (la_messages args)])"

definition cache_key :: "llm_env \<Rightarrow> llm_settings \<Rightarrow> llm_args \<Rightarrow> string" where
  "cache_key env cfg args =
     build_cache_key (le_sha256 env) (le_dumps_payload env)
       \<lparr>cy_provider = provider_of cfg, cy_model = get_model_name cfg, cy_temperature = la_temperature args,
        cy_seed = seed_of env args, cy_response_format = la_response_format args, cy_messages = la_messages args,
        cy_cache_bust = la_cache_bust args\<rparr>"

definition finalize :: "llm_env \<Rightarrow> llm_settings \<Rightarrow> bool \<Rightarrow> llm_args \<Rightarrow> llm_text \<Rightarrow> llm_state \<Rightarrow> llm_state \<times> string option result" where
  "finalize env cfg cache_active args reply s =
     (let (text, pt, ct) = reply
      in if cache_active
         then case rbind (le_database env) (\<lambda>_.
                cache_store (cache_key env cfg args) (provider_of cfg) (get_model_name cfg) text pt ct (ls_cache s)) of
             Inl e \<Rightarrow> (s, Inl e)
           | Inr (_, table) \<Rightarrow> (s\<lparr>ls_cache := table\<rparr>, Inr text)
         else (s, Inr text))"

definition provider_call :: "llm_env \<Rightarrow> llm_settings \<Rightarrow> llm_args \<Rightarrow> llm_state \<Rightarrow> llm_state \<times> llm_text result" where
  "provider_call env cfg args =
     (if provider_of cfg = ''anthropic'' then anthropic_call env (get_model_name cfg) args
      else chat_call env (provider_of cfg) (get_model_name cfg) args (seed_of env args))"

definition dispatch :: "llm_env \<Rightarrow> llm_settings \<Rightarrow> bool \<Rightarrow> llm_args \<Rightarrow> llm_state \<Rightarrow> llm_state \<times> string option result" where
  "dispatch env cfg cache_active args s =
     (case get_llm_client cfg of
        Inl e \<Rightarrow> (s, Inl e)
      | Inr _ \<Rightarrow>
          (case call_with_backoff env cfg 5 (provider_call env cfg args) s of
             (s', Inl e) \<Rightarrow> (s', Inl e)
           | (s', Inr reply) \<Rightarrow> finalize env cfg cache_active args reply s'))"

definition call_llm :: "llm_env \<Rightarrow> llm_settings \<Rightarrow> llm_args \<Rightarrow> llm_state \<Rightarrow> llm_state \<times> string option result" where
  "call_llm env cfg args s =
     (if la_use_cache args \<and> cache_enabled cfg
      then case rbind (le_database env) (\<lambda>_. Inr (cache_lookup (cache_key env cfg args) (ls_cache s))) of
          Inl e \<Rightarrow> (s, Inl e)
        | Inr (Some hit) \<Rightarrow>
            (s\<lparr>ls_costs := record_cache_event True (cr_model hit) (cr_prompt_tokens hit) (cr_completion_tokens hit) (ls_costs s)\<rparr>,
             Inr (Some (cr_response hit)))
        | Inr None \<Rightarrow>
            dispatch env cfg True args
              (s\<lparr>ls_costs := record_cache_event False (get_model_name cfg) None None (ls_costs s)\<rparr>)
      else dispatch env cfg False args s)"

end
