(* ===== verification/Llm_Laws.thy ===== *)
theory Llm_Laws
  imports Llm
begin

text \<open>
  What \<open>retry_law\<close> makes of an operation, the requests and slots of one call, and the cache: an entry is
  never replaced, so a cached reply answers the same call for ever.
\<close>

section \<open>Seeds\<close>

lemma hex_value_snoc [simp]: "hex_value [] = 0" "hex_value (s @ [c]) = 16 * hex_value s + hex_digit c"
  by (simp_all add: hex_value_def)

lemma hex_value_bound: "\<forall>c \<in> set s. hex_digit c < 16 \<Longrightarrow> hex_value s < 16 ^ length s"
proof (induction s rule: rev_induct)
  case (snoc c s)
  then have "hex_value s + 1 \<le> 16 ^ length s" "hex_digit c \<le> 15" by fastforce+
  moreover from this(1) have "16 * (hex_value s + 1) \<le> 16 * 16 ^ length s" by (rule mult_le_mono2)
  ultimately show ?case by simp
qed simp

text \<open>The seed fits the 32 bits the providers take.\<close>

lemma stable_seed_bound:
  assumes "\<forall>c \<in> set (sha256 (join ''|'' parts)). hex_digit c < 16"
  shows "stable_seed sha256 parts < 2 ^ 32"
proof -
  let ?h = "take 8 (sha256 (join ''|'' parts))"
  have "hex_value ?h < 16 ^ length ?h" using assms by (intro hex_value_bound) (auto dest: in_set_takeD)
  also have "(16::nat) ^ length ?h \<le> 16 ^ 8" by (intro power_increasing) simp_all
  finally show ?thesis by (simp add: stable_seed_def)
qed

section \<open>Retries\<close>

text \<open>The state after \<open>k\<close> runs of an operation.\<close>

primrec after :: "nat \<Rightarrow> ('s \<Rightarrow> 's \<times> 'b) \<Rightarrow> 's \<Rightarrow> 's" where
  "after 0 f s = s"
| "after (Suc k) f s = fst (f (after k f s))"

lemma after_Suc_left: "after (Suc k) f s = after k f (fst (f s))"
  by (induction k) simp_all

lemma retry_steps:
  assumes law: "retry_law retry"
  shows "\<exists>k \<le> n. retry (Suc n) p f s = f (after k f s) \<and>
    (\<forall>j < k. \<exists>e. snd (f (after j f s)) = Inl e \<and> p e)"
proof (induction n arbitrary: s)
  case 0
  have "retry (Suc 0) p f s = f s"
    using law unfolding retry_law_def by (auto split: prod.split sum.split)
  then show ?case by (intro exI[of _ 0]) simp
next
  case (Suc n)
  have unfold: "retry (Suc (Suc n)) p f s =
      (case f s of (s', Inr x) \<Rightarrow> (s', Inr x) | (s', Inl e) \<Rightarrow> if p e \<and> 0 < Suc n then retry (Suc n) p f s' else (s', Inl e))"
    using law unfolding retry_law_def by blast
  show ?case
  proof (cases "\<exists>e. snd (f s) = Inl e \<and> p e")
    case True
    then obtain s' e where e: "f s = (s', Inl e)" "p e" by (cases "f s") auto
    then have r: "retry (Suc (Suc n)) p f s = retry (Suc n) p f (fst (f s))"
      by (simp add: unfold e)
    obtain k where k: "k \<le> n" "retry (Suc n) p f (fst (f s)) = f (after k f (fst (f s)))"
        "\<forall>j < k. \<exists>e. snd (f (after j f (fst (f s)))) = Inl e \<and> p e"
      using Suc.IH[of "fst (f s)"] by blast
    have step: "after (Suc j) f s = after j f (fst (f s))" for j by (rule after_Suc_left)
    have "\<exists>e. snd (f (after j f s)) = Inl e \<and> p e" if "j < Suc k" for j
      using that True k(3) step by (cases j) auto
    with k r step show ?thesis by (intro exI[of _ "Suc k"]) (simp del: after.simps)
  next
    case False
    then have "retry (Suc (Suc n)) p f s = f s"
      using unfold by (auto split: prod.splits sum.splits)
    then show ?thesis by (intro exI[of _ 0]) simp
  qed
qed

section \<open>One backoff_attempt\<close>

definition request_of :: "llm_env \<Rightarrow> llm_settings \<Rightarrow> llm_args \<Rightarrow> provider_request" where
  "request_of env cfg args =
     (if provider_of cfg = ''anthropic'' then anthropic_request (get_model_name cfg) args
      else chat_request (provider_of cfg) (get_model_name cfg) args (seed_of env args))"

lemma note_usage_sel [simp]:
  "ls_requests (note_usage model reply s) = ls_requests s" "ls_slots (note_usage model reply s) = ls_slots s"
  "ls_limiter (note_usage model reply s) = ls_limiter s" "ls_cache (note_usage model reply s) = ls_cache s"
  by (simp_all add: note_usage_def split: option.split prod.split)

lemma record_rate_metric_sel [simp]:
  "ls_requests (record_rate_metric cfg m n s) = ls_requests s" "ls_slots (record_rate_metric cfg m n s) = ls_slots s"
  "ls_limiter (record_rate_metric cfg m n s) = ls_limiter s" "ls_cache (record_rate_metric cfg m n s) = ls_cache s"
  by (simp_all add: record_rate_metric_def)

lemma provider_call_sel:
  "ls_requests (fst (provider_call env cfg args s)) = ls_requests s @ [request_of env cfg args]"
  "ls_slots (fst (provider_call env cfg args s)) = ls_slots s"
  "ls_limiter (fst (provider_call env cfg args s)) = ls_limiter s"
  "ls_cache (fst (provider_call env cfg args s)) = ls_cache s"
  by (auto simp: provider_call_def request_of_def anthropic_call_def chat_call_def send_request_def
      split: sum.split option.split prod.split)

lemma attempt_fst:
  "\<exists>m n. fst (backoff_attempt env cfg fn s) = record_rate_metric cfg m n (fst (fn (record_rate_metric cfg 1 0 s)))"
proof -
  have "fst (backoff_attempt env cfg fn s) = record_rate_metric cfg 0 0 (fst (fn (record_rate_metric cfg 1 0 s))) \<or>
      fst (backoff_attempt env cfg fn s) = record_rate_metric cfg 0 1 (fst (fn (record_rate_metric cfg 1 0 s)))"
    by (auto simp: backoff_attempt_def record_rate_metric_def split: prod.split sum.split)
  then show ?thesis by blast
qed

definition quiet_step :: "provider_request list \<Rightarrow> llm_state \<Rightarrow> llm_state \<Rightarrow> bool" where
  "quiet_step reqs s s' \<longleftrightarrow> ls_requests s' = ls_requests s @ reqs \<and> ls_slots s' = ls_slots s \<and>
     ls_limiter s' = ls_limiter s \<and> ls_cache s' = ls_cache s"

lemma attempt_quiet: "quiet_step [request_of env cfg args] s (fst (backoff_attempt env cfg (provider_call env cfg args) s))"
  using attempt_fst[of env cfg "provider_call env cfg args" s] by (auto simp: quiet_step_def provider_call_sel)

lemma attempts_quiet:
  "quiet_step (replicate k (request_of env cfg args)) s (after k (backoff_attempt env cfg (provider_call env cfg args)) s)"
proof (induction k)
  case (Suc k)
  let ?s = "after k (backoff_attempt env cfg (provider_call env cfg args)) s"
  from Suc attempt_quiet[of env cfg args ?s] show ?case
    by (simp add: quiet_step_def flip: replicate_append_same)
qed (simp add: quiet_step_def)

lemma acquire_slot_sel:
  "ls_requests (fst (acquire_slot env s)) = ls_requests s" "ls_cache (fst (acquire_slot env s)) = ls_cache s"
  "ls_slots (fst (acquire_slot env s)) \<le> Suc (ls_slots s)"
  by (auto simp: acquire_slot_def split: sum.split)

lemma backoff_effect:
  assumes "retry_law (le_retry env)"
  shows "\<exists>k \<le> 5. ls_requests (fst (call_with_backoff env cfg 5 (provider_call env cfg args) s)) =
      ls_requests s @ replicate k (request_of env cfg args) \<and>
    ls_cache (fst (call_with_backoff env cfg 5 (provider_call env cfg args) s)) = ls_cache s \<and>
    ls_slots (fst (call_with_backoff env cfg 5 (provider_call env cfg args) s)) \<le> Suc (ls_slots s)"
proof (cases "acquire_slot env s")
  case (Pair s1 r)
  show ?thesis
  proof (cases r)
    case (Inl e)
    with Pair acquire_slot_sel[of env s] show ?thesis by (intro exI[of _ 0]) (simp add: call_with_backoff_def)
  next
    case (Inr u)
    let ?f = "backoff_attempt env cfg (provider_call env cfg args)"
    obtain k where k: "k \<le> 4" "le_retry env (Suc 4) (le_retryable env) ?f s1 = ?f (after k ?f s1)"
      using retry_steps[OF assms, of 4 "le_retryable env" ?f s1] by blast
    have "fst (call_with_backoff env cfg 5 (provider_call env cfg args) s) = after (Suc k) ?f s1"
      using k(2) by (simp add: call_with_backoff_def Pair Inr eval_nat_numeral)
    with attempts_quiet[of "Suc k" env cfg args s1] k(1) acquire_slot_sel[of env s] Pair show ?thesis
      by (intro exI[of _ "Suc k"]) (simp add: quiet_step_def)
  qed
qed

section \<open>One call\<close>

lemma finalize_sel:
  "ls_requests (fst (finalize env cfg b args reply s)) = ls_requests s"
  "ls_slots (fst (finalize env cfg b args reply s)) = ls_slots s"
  by (auto simp: finalize_def Let_def split: prod.split sum.split)

lemma dispatch_effect:
  assumes "retry_law (le_retry env)"
  shows "\<exists>k \<le> 5. ls_requests (fst (dispatch env cfg b args s)) = ls_requests s @ replicate k (request_of env cfg args) \<and>
    ls_slots (fst (dispatch env cfg b args s)) \<le> Suc (ls_slots s)"
  using backoff_effect[OF assms, of cfg args s]
  by (cases "get_llm_client cfg"; cases "call_with_backoff env cfg 5 (provider_call env cfg args) s")
    (auto simp: dispatch_def finalize_sel split: sum.split intro: exI[of _ 0])

lemma call_effect:
  assumes "retry_law (le_retry env)"
  shows "\<exists>k \<le> 5. ls_requests (fst (call_llm env cfg args s)) = ls_requests s @ replicate k (request_of env cfg args) \<and>
    ls_slots (fst (call_llm env cfg args s)) \<le> Suc (ls_slots s)"
proof -
  have d: "\<exists>k \<le> 5. ls_requests (fst (dispatch env cfg b args t)) = ls_requests s @ replicate k (request_of env cfg args) \<and>
      ls_slots (fst (dispatch env cfg b args t)) \<le> Suc (ls_slots s)"
    if "ls_requests t = ls_requests s" "ls_slots t = ls_slots s" for b t
    using dispatch_effect[OF assms, of cfg b args t] that by simp
  show ?thesis
  proof (cases "la_use_cache args \<and> cache_enabled cfg")
    case True
    consider e where "le_database env = Inl e"
      | hit where "le_database env = Inr ()" "cache_lookup (cache_key env cfg args) (ls_cache s) = Some hit"
      | "le_database env = Inr ()" "cache_lookup (cache_key env cfg args) (ls_cache s) = None"
      by (cases "le_database env"; cases "cache_lookup (cache_key env cfg args) (ls_cache s)") auto
    then show ?thesis
    proof cases
      case 3
      with True d show ?thesis by (simp add: call_llm_def)
    qed (use True in \<open>auto simp: call_llm_def intro: exI[of _ 0]\<close>)
  next
    case False
    then have "call_llm env cfg args s = dispatch env cfg False args s" by (auto simp: call_llm_def)
    with d show ?thesis by simp
  qed
qed

section \<open>The cache\<close>

definition keeps :: "cache \<Rightarrow> cache \<Rightarrow> bool" where
  "keeps c c' \<longleftrightarrow> (\<forall>k v. dict_get c k = Some v \<longrightarrow> dict_get c' k = Some v)"

lemma keeps_refl [simp]: "keeps c c" and keeps_trans: "keeps a b \<Longrightarrow> keeps b c \<Longrightarrow> keeps a c"
  by (auto simp: keeps_def)

lemma store_keeps: "cache_store key provider model response pt ct table = Inr (b, table') \<Longrightarrow> keeps table table'"
proof -
  assume "cache_store key provider model response pt ct table = Inr (b, table')"
  then have "table' = table \<or> (dict_get table key = None \<and> (\<exists>v. table' = dict_set key v table))"
    by (auto simp: cache_store_def map_of_eq_None_iff split: option.splits if_splits)
  then show "keeps table table'" by (auto simp: keeps_def)
qed

lemma finalize_keeps: "keeps (ls_cache s) (ls_cache (fst (finalize env cfg b args reply s)))"
proof (cases "le_database env")
  case (Inr u)
  then show ?thesis
    by (cases "cache_store (cache_key env cfg args) (provider_of cfg) (get_model_name cfg) (fst reply) (fst (snd reply))
        (snd (snd reply)) (ls_cache s)")
      (auto simp: finalize_def Let_def split_def dest: store_keeps)
qed (simp add: finalize_def split_def)

lemma dispatch_keeps:
  assumes "retry_law (le_retry env)"
  shows "keeps (ls_cache s) (ls_cache (fst (dispatch env cfg b args s)))"
proof -
  obtain s' r where b: "call_with_backoff env cfg 5 (provider_call env cfg args) s = (s', r)" by fastforce
  then have "ls_cache s' = ls_cache s" using backoff_effect[OF assms, of cfg args s] by auto
  with finalize_keeps[of s' env cfg b args] show ?thesis
    by (simp add: dispatch_def b split: sum.split)
qed

lemma call_keeps:
  assumes "retry_law (le_retry env)"
  shows "keeps (ls_cache s) (ls_cache (fst (call_llm env cfg args s)))"
  using dispatch_keeps[OF assms, of s cfg] dispatch_keeps[OF assms, of "s\<lparr>ls_costs := c\<rparr>" cfg for c]
  by (cases "le_database env"; cases "cache_lookup (cache_key env cfg args) (ls_cache s)") (auto simp: call_llm_def)

definition llm_run :: "llm_env \<Rightarrow> llm_settings \<Rightarrow> llm_args list \<Rightarrow> llm_state \<Rightarrow> llm_state" where
  "llm_run env cfg calls s = foldl (\<lambda>s args. fst (call_llm env cfg args s)) s calls"

lemma run_keeps:
  assumes "retry_law (le_retry env)"
  shows "keeps (ls_cache s) (ls_cache (llm_run env cfg calls s))"
  by (induction calls arbitrary: s) (auto simp: llm_run_def intro: keeps_trans call_keeps[OF assms])

definition answered_by :: "llm_env \<Rightarrow> llm_settings \<Rightarrow> llm_args \<Rightarrow> string option \<Rightarrow> llm_state \<Rightarrow> bool" where
  "answered_by env cfg args t s \<longleftrightarrow> le_database env = Inr () \<and>
     (\<exists>hit. cache_lookup (cache_key env cfg args) (ls_cache s) = Some hit \<and> t = Some (cr_response hit))"

lemma finalize_stores:
  assumes "finalize env cfg True args reply s = (s', Inr t)" and "cache_lookup (cache_key env cfg args) (ls_cache s) = None"
  shows "answered_by env cfg args t s'"
  using assms
  by (cases "le_database env"; cases "fst reply")
    (auto simp: finalize_def Let_def split_def answered_by_def cache_lookup_def cache_store_def map_of_eq_None_iff)

lemma call_stores:
  assumes law: "retry_law (le_retry env)" and c: "call_llm env cfg args s = (s', Inr t)"
    and on: "la_use_cache args" "cache_enabled cfg"
  shows "answered_by env cfg args t s'"
proof (cases "le_database env")
  case (Inl e)
  with c on show ?thesis by (simp add: call_llm_def)
next
  case (Inr u)
  show ?thesis
  proof (cases "cache_lookup (cache_key env cfg args) (ls_cache s)")
    case (Some hit)
    with c on Inr show ?thesis by (auto simp: call_llm_def answered_by_def)
  next
    case None
    let ?s = "s\<lparr>ls_costs := record_cache_event False (get_model_name cfg) None None (ls_costs s)\<rparr>"
    from c on Inr None have d: "dispatch env cfg True args ?s = (s', Inr t)" by (simp add: call_llm_def)
    then obtain s1 reply where b: "call_with_backoff env cfg 5 (provider_call env cfg args) ?s = (s1, Inr reply)"
        and f: "finalize env cfg True args reply s1 = (s', Inr t)"
      by (auto simp: dispatch_def split: sum.splits prod.splits)
    have "ls_cache s1 = ls_cache s" using backoff_effect[OF law, of cfg args ?s] by (auto simp: b)
    with finalize_stores[OF f] None show ?thesis by simp
  qed
qed

lemma answered_call:
  assumes "answered_by env cfg args t s" and "la_use_cache args" "cache_enabled cfg"
  shows "\<exists>s'. call_llm env cfg args s = (s', Inr t) \<and> quiet_step [] s s'"
  using assms by (auto simp: answered_by_def call_llm_def quiet_step_def)

lemma cache_key_max_tokens [simp]: "cache_key env cfg (args\<lparr>la_max_tokens := n\<rparr>) = cache_key env cfg args"
  by (simp add: cache_key_def seed_of_def cong: option.case_cong)

lemma cached_reply:
  assumes law: "retry_law (le_retry env)" and c: "call_llm env cfg args s = (s', Inr t)"
    and on: "la_use_cache args" "cache_enabled cfg"
  shows "\<exists>s''. call_llm env cfg (args\<lparr>la_max_tokens := n\<rparr>) (llm_run env cfg calls s') = (s'', Inr t) \<and>
    quiet_step [] (llm_run env cfg calls s') s''"
proof -
  have "answered_by env cfg args t s'" by (rule call_stores[OF assms])
  moreover have "keeps (ls_cache s') (ls_cache (llm_run env cfg calls s'))" by (rule run_keeps[OF law])
  ultimately have "answered_by env cfg (args\<lparr>la_max_tokens := n\<rparr>) t (llm_run env cfg calls s')"
    by (auto simp: answered_by_def cache_lookup_def keeps_def)
  from answered_call[OF this] on show ?thesis by simp
qed

section \<open>An outage\<close>

lemma outage_attempts:
  assumes "retry_law (le_retry env)" and down: "\<And>n. \<exists>e. le_reply env n (request_of env cfg args) = Inl e \<and> le_retryable env e"
    and "0 < lm_rpm (ls_limiter s)"
  shows "\<exists>s' e. call_with_backoff env cfg 5 (provider_call env cfg args) s = (s', Inl e) \<and>
    ls_requests s' = ls_requests s @ replicate 5 (request_of env cfg args) \<and> ls_slots s' = Suc (ls_slots s)"
proof -
  let ?f = "backoff_attempt env cfg (provider_call env cfg args)"
  have fails: "\<exists>e. snd (?f t) = Inl e \<and> le_retryable env e" for t
    using down[of "length (ls_requests t)"]
    by (auto simp: backoff_attempt_def provider_call_def request_of_def anthropic_call_def chat_call_def send_request_def split: prod.split)
  have retry: "le_retry env (Suc n) (le_retryable env) ?f t = ?f (after n ?f t)" for n t
  proof (induction n arbitrary: t)
    case 0
    obtain t' e where "?f t = (t', Inl e)" using fails[of t] by (cases "?f t") auto
    then show ?case using assms(1)[unfolded retry_law_def, rule_format, of 0 "le_retryable env" ?f t] by simp
  next
    case (Suc n)
    obtain t' e where t: "?f t = (t', Inl e)" "le_retryable env e" using fails[of t] by (cases "?f t") auto
    have "le_retry env (Suc (Suc n)) (le_retryable env) ?f t = le_retry env (Suc n) (le_retryable env) ?f t'"
      using assms(1)[unfolded retry_law_def, rule_format, of "Suc n" "le_retryable env" ?f t] t by simp
    with Suc.IH[of t'] t show ?case by (simp add: after_Suc_left del: after.simps)
  qed
  obtain slept l where a: "acquire (le_readings env (ls_slots s)) (ls_limiter s) = Inr (slept, l)"
    using acquire_returns[OF assms(3)] by blast
  let ?s = "s\<lparr>ls_limiter := l, ls_slots := Suc (ls_slots s)\<rparr>"
  have "call_with_backoff env cfg 5 (provider_call env cfg args) s = ?f (after 4 ?f ?s)"
    using retry[of 4 ?s] by (simp add: call_with_backoff_def acquire_slot_def a eval_nat_numeral)
  moreover have "quiet_step (replicate 5 (request_of env cfg args)) ?s (after 5 ?f ?s)" by (rule attempts_quiet)
  moreover have "after 5 ?f ?s = fst (?f (after 4 ?f ?s))" by (simp add: eval_nat_numeral)
  ultimately show ?thesis
    using fails[of "after 4 ?f ?s"] by (cases "?f (after 4 ?f ?s)") (auto simp: quiet_step_def)
qed

end
