(* ===== verification/Demo_Llm.thy ===== *)
theory Demo_Llm
  imports Llm_Laws
begin

text \<open>A concrete provider, clock and retry for the witnesses. Nothing here models code.\<close>

fun tries :: "nat \<Rightarrow> (exn \<Rightarrow> bool) \<Rightarrow> ('s \<Rightarrow> 's \<times> 'a result) \<Rightarrow> 's \<Rightarrow> 's \<times> 'a result" where
  "tries 0 p f s = f s"
| "tries (Suc n) p f s =
     (case f s of (s', Inr x) \<Rightarrow> (s', Inr x) | (s', Inl e) \<Rightarrow> if p e \<and> 0 < n then tries n p f s' else (s', Inl e))"

lemma tries_law: "retry_law tries"
  by (simp add: retry_law_def)

definition demo_llm_cfg :: llm_settings where
  "demo_llm_cfg = \<lparr>lt_llm_provider = ''openai'', lt_openai_model = ''gpt-4o'', lt_anthropic_model = ''claude'',
     lt_openrouter_model = ''gpt'', lt_ollama_model = ''qwen'', lt_azure_deployment = ''d'', lt_modal_model = ''qwen'',
     lt_modal_endpoint = [], lt_openai_api_key = [], lt_anthropic_api_key = [], lt_openrouter_api_key = [],
     lt_openrouter_base_url = [], lt_ollama_base_url = [], lt_azure_api_key = [], lt_azure_endpoint = [],
     lt_azure_api_version = [], lt_ssl_verify = True, lt_rate_metrics_enabled = False, lt_cache_enabled_env = ''true'', lt_cache_disabled = False\<rparr>"

definition demo_llm_env :: llm_env where
  "demo_llm_env = \<lparr>le_sha256 = (\<lambda>_. ''ab''), le_dumps_messages = (\<lambda>_. ''m''), le_dumps_payload = (\<lambda>_. ''p''),
     le_readings = (\<lambda>n. \<lparr>rd_now = of_nat n, rd_woken = of_nat n, rd_stamp = of_nat n\<rparr>),
     le_reply = (\<lambda>n _. if n = 0 then Inl (ExternalError ''APITimeoutError'')
                       else Inr \<lparr>rp_choices = [Some ''text''], rp_usage = Some (10, 2), rp_latency_ms = 5\<rparr>),
     le_retryable = (\<lambda>_. True), le_rate_limited = (\<lambda>_. False), le_database = Inr (), le_retry = tries\<rparr>"

definition demo_llm_args :: llm_args where
  "demo_llm_args = \<lparr>la_messages = [\<lparr>cm_role = ''user'', cm_content = ''hello''\<rparr>], la_temperature = 0, la_max_tokens = 100,
     la_response_format = JNull, la_seed = None, la_use_cache = True, la_cache_bust = None\<rparr>"

definition demo_llm_state :: llm_state where
  "demo_llm_state = \<lparr>ls_limiter = new_limiter None 50, ls_slots = 0, ls_requests = [], ls_metrics = (0, 0),
     ls_costs = \<lparr>ct_accumulators = [], ct_run_id = None, ct_agent = ''unknown''\<rparr>, ls_cache = []\<rparr>"

lemma demo_llm_law [simp]: "retry_law (le_retry demo_llm_env)"
  by (simp add: demo_llm_env_def tries_law)

lemma demo_llm_on [simp]: "la_use_cache demo_llm_args" "cache_enabled demo_llm_cfg"
  by (simp add: demo_llm_args_def) code_simp

text \<open>The first request times out, the second is answered.\<close>

lemma demo_llm_call:
  "\<exists>s. call_llm demo_llm_env demo_llm_cfg demo_llm_args demo_llm_state = (s, Inr (Some ''text'')) \<and>
     length (ls_requests s) = 2"
proof -
  have p: "provider_of demo_llm_cfg = ''openai''" by code_simp
  show ?thesis
    by (simp add: call_llm_def dispatch_def get_llm_client_def p call_with_backoff_def acquire_slot_def acquire_def expire_def
        demo_llm_env_def demo_llm_state_def new_limiter_def backoff_attempt_def provider_call_def chat_call_def send_request_def
        note_usage_def record_rate_metric_def first_choice_def finalize_def cache_store_def cache_lookup_def
        record_llm_call_def record_cache_event_def active_run_def eval_nat_numeral Let_def)
       (simp add: demo_llm_cfg_def demo_llm_args_def cache_enabled_def)?
qed

text \<open>One request a minute: the second waits.\<close>

definition demo_limiter :: limiter where
  "demo_limiter = new_limiter (Some 1) 50"

lemma demo_limiter_reaches: "limiter_reaches demo_limiter [0, 601 / 10] \<lparr>lm_rpm = 1, lm_timestamps = [601 / 10]\<rparr>"
proof -
  have "limiter_reaches demo_limiter ([] @ [rd_stamp \<lparr>rd_now = 0, rd_woken = 0, rd_stamp = 0\<rparr>]) \<lparr>lm_rpm = 1, lm_timestamps = [0]\<rparr>"
    by (rule limiter_reaches.acquired[OF limiter_reaches.start, of _ _ 0])
      (simp_all add: clock_ok_def demo_limiter_def new_limiter_def acquire_def expire_def)
  then have "limiter_reaches demo_limiter [0] \<lparr>lm_rpm = 1, lm_timestamps = [0]\<rparr>" by simp
  then have "limiter_reaches demo_limiter ([0] @ [rd_stamp \<lparr>rd_now = 1, rd_woken = 601 / 10, rd_stamp = 601 / 10\<rparr>])
      \<lparr>lm_rpm = 1, lm_timestamps = [601 / 10]\<rparr>"
    by (rule limiter_reaches.acquired[where slept = "591 / 10"])
      (simp_all add: clock_ok_def acquire_def expire_def window_def)
  then show ?thesis by simp
qed

end
