(* ===== verification/Text_Tools.thy ===== *)
theory Text_Tools
  imports Schemas
begin

text \<open>Python's string methods that the documents and routes need beyond those of \<open>Prelude\<close>.\<close>

section \<open>Splitting\<close>

text \<open>\<open>s.split()\<close>: the maximal runs of non-space characters.\<close>

function py_split :: "string \<Rightarrow> string list" where
  "py_split s =
     (case dropWhile is_space s of
        [] \<Rightarrow> []
      | c # cs \<Rightarrow> takeWhile (\<lambda>x. \<not> is_space x) (c # cs) # py_split (dropWhile (\<lambda>x. \<not> is_space x) (c # cs)))"
  by pat_completeness auto
termination
proof (relation "measure length")
  fix s c cs
  assume s: "dropWhile is_space s = c # cs"
  then have "\<not> is_space c" by (metis hd_dropWhile list.distinct(1) list.sel(1))
  then have "length (dropWhile (\<lambda>x. \<not> is_space x) (c # cs)) \<le> length cs" by (simp add: length_dropWhile_le)
  also have "length cs < length s" using length_dropWhile_le[of is_space s] by (simp add: s)
  finally show "(dropWhile (\<lambda>x. \<not> is_space x) (c # cs), s) \<in> measure length" by simp
qed simp

declare py_split.simps [simp del]

lemma py_split_words: "w \<in> set (py_split s) \<Longrightarrow> w \<noteq> [] \<and> (\<forall>c \<in> set w. \<not> is_space c)"
proof (induction s rule: py_split.induct)
  case (1 s)
  show ?case
  proof (cases "dropWhile is_space s")
    case Nil
    then have "py_split s = []" by (subst py_split.simps) (simp only: Nil list.case)
    with 1(2) show ?thesis by simp
  next
    case (Cons c cs)
    then have "\<not> is_space c" by (metis hd_dropWhile list.distinct(1) list.sel(1))
    then have first: "takeWhile (\<lambda>x. \<not> is_space x) (c # cs) \<noteq> []" by simp
    have "py_split s = takeWhile (\<lambda>x. \<not> is_space x) (c # cs) # py_split (dropWhile (\<lambda>x. \<not> is_space x) (c # cs))"
      by (subst py_split.simps) (simp only: Cons list.case)
    with 1(2) consider (here) "w = takeWhile (\<lambda>x. \<not> is_space x) (c # cs)"
      | (later) "w \<in> set (py_split (dropWhile (\<lambda>x. \<not> is_space x) (c # cs)))" by (metis set_ConsD)
    then show ?thesis
    proof cases
      case here
      have "\<forall>x \<in> set (takeWhile (\<lambda>x. \<not> is_space x) (c # cs)). \<not> is_space x" by (blast dest: set_takeWhileD)
      with first show ?thesis unfolding here by blast
    next
      case later
      then show ?thesis by (rule 1(1)[OF Cons])
    qed
  qed
qed

text \<open>\<open>s.split(c)\<close> for one character: one more piece than occurrences.\<close>

fun split_char :: "char \<Rightarrow> string \<Rightarrow> string list" where
  "split_char c [] = [[]]"
| "split_char c (x # xs) = (if x = c then [] # split_char c xs
     else case split_char c xs of [] \<Rightarrow> [[x]] | p # ps \<Rightarrow> (x # p) # ps)"

lemma split_char_not_Nil [simp]: "split_char c s \<noteq> []"
  by (induction s) (auto split: list.split)

lemma length_split_char: "length (split_char c s) = Suc (count_list s c)"
  by (induction s) (auto split: list.splits)

text \<open>\<open>s.rsplit(c, 1)[-1]\<close>.\<close>

definition after_last :: "char \<Rightarrow> string \<Rightarrow> string" where
  "after_last c s = last (split_char c s)"

definition ends_str :: "string \<Rightarrow> string \<Rightarrow> bool" where
  "ends_str p s \<longleftrightarrow> length p \<le> length s \<and> drop (length s - length p) s = p"

definition dedup :: "'a list \<Rightarrow> 'a list" where
  "dedup xs = foldl (\<lambda>acc x. if x \<in> set acc then acc else acc @ [x]) [] xs"

lemma dedup_snoc [simp]: "dedup [] = []" "dedup (xs @ [x]) = (if x \<in> set (dedup xs) then dedup xs else dedup xs @ [x])"
  by (simp_all add: dedup_def)

lemma dedup_set [simp]: "set (dedup xs) = set xs" and dedup_distinct [simp]: "distinct (dedup xs)"
  by (induction xs rule: rev_induct) auto

end
