(* ===== verification/Vectors.thy ===== *)
theory Vectors
  imports Text_Tools
begin

text \<open>
  \<open>app/retrieval/qdrant.py\<close>: one collection of points per organisation, the search with its mandatory
  tenant filter, and the deletions. The state is the content of the collections: a point's payload is
  a JSON object, an upsert replaces the point of the same id, a deletion removes the points that match
  all conditions. How Qdrant ranks is a parameter, of which \<open>query_law\<close> says only that a result is a
  point of the collection that passed the filter of the query (of a prefetch, for a fusion query).
\<close>

section \<open>Points and collections\<close>

record point =
  pt_id :: string
  pt_dense :: "rat list"
  pt_sparse :: "(nat \<times> rat) list"
  pt_payload :: "(string \<times> json) list"

type_synonym collections = "(string, point list) dict"

definition replace_dash :: "string \<Rightarrow> string" where
  "replace_dash s = map (\<lambda>c. if c = CHR ''-'' then CHR ''_'' else c) s"

definition org_collection_name :: "string \<Rightarrow> string \<Rightarrow> string" where
  "org_collection_name prefix org_id = lower (replace_dash (prefix @ ''_'' @ org_id))"

definition rfp_collection_name :: "string \<Rightarrow> string \<Rightarrow> string \<Rightarrow> string" where
  "rfp_collection_name prefix org_id rfp_id = lower (replace_dash (prefix @ ''_'' @ org_id @ ''_rfp_'' @ rfp_id))"

definition create_collection :: "string \<Rightarrow> collections \<Rightarrow> collections" where
  "create_collection name cs = (if dict_mem name cs then cs else dict_set name [] cs)"

section \<open>Conditions\<close>

text \<open>\<open>FieldCondition(key, match=MatchValue(value))\<close>; a filter lists the conditions that must hold.\<close>

type_synonym field_condition = "string \<times> string"

definition meets :: "field_condition list \<Rightarrow> point \<Rightarrow> bool" where
  "meets must p \<longleftrightarrow> list_all (\<lambda>(key, v). map_of (pt_payload p) key = Some (JStr v)) must"

definition tenant_must :: "string \<Rightarrow> string \<Rightarrow> field_condition list" where
  "tenant_must org_id vendor_id = [(''org_id'', org_id), (''vendor_id'', vendor_id)]"

definition with_section :: "string option \<Rightarrow> field_condition list \<Rightarrow> field_condition list" where
  "with_section section_type_filter must =
     (case section_type_filter of None \<Rightarrow> must
      | Some t \<Rightarrow> if t = [] then must else must @ [(''section_type'', t)])"

section \<open>Upsert and search\<close>

definition put_point :: "point \<Rightarrow> point list \<Rightarrow> point list" where
  "put_point p ps =
     (if list_ex (\<lambda>q. pt_id q = pt_id p) ps then map (\<lambda>q. if pt_id q = pt_id p then p else q) ps else ps @ [p])"

definition upsert_chunk ::
  "string \<Rightarrow> string \<Rightarrow> rat list \<Rightarrow> (nat \<times> rat) list \<Rightarrow> (string \<times> json) list \<Rightarrow> collections \<Rightarrow> collections result" where
  "upsert_chunk name chunk_id dense sparse payload cs =
     (case dict_get cs name of
        None \<Rightarrow> Inl (ExternalError ''collection not found'')
      | Some ps \<Rightarrow>
          Inr (dict_set name
            (put_point \<lparr>pt_id = chunk_id, pt_dense = dense, pt_sparse = sparse,
                        pt_payload = dict_set ''chunk_id'' (JStr chunk_id) payload\<rparr> ps) cs))"

datatype branch = DensePrefetch "rat list" nat "field_condition list" | SparsePrefetch "(nat \<times> rat) list" nat "field_condition list"

datatype vector_query = DenseQuery "rat list" "field_condition list" nat | FusionQuery "branch list" nat

fun branch_filter :: "branch \<Rightarrow> field_condition list" where
  "branch_filter (DensePrefetch _ _ must) = must"
| "branch_filter (SparsePrefetch _ _ must) = must"

fun passes :: "vector_query \<Rightarrow> point \<Rightarrow> bool" where
  "passes (DenseQuery _ must _) p = meets must p"
| "passes (FusionQuery branches _) p = list_ex (\<lambda>b. meets (branch_filter b) p) branches"

fun query_limit :: "vector_query \<Rightarrow> nat" where
  "query_limit (DenseQuery _ _ n) = n"
| "query_limit (FusionQuery _ n) = n"

type_synonym ranking = "vector_query \<Rightarrow> point list \<Rightarrow> (point \<times> rat) list"

definition query_law :: "ranking \<Rightarrow> bool" where
  "query_law rank \<longleftrightarrow>
     (\<forall>q ps. length (rank q ps) \<le> query_limit q \<and> (\<forall>(p, _) \<in> set (rank q ps). p \<in> set ps \<and> passes q p))"

record hit =
  ht_chunk_id :: json
  ht_text :: json
  ht_score :: rat
  ht_payload :: "(string \<times> json) list"

definition hit_of :: "point \<times> rat \<Rightarrow> hit" where
  "hit_of r =
     \<lparr>ht_chunk_id = get_default (pt_payload (fst r)) ''chunk_id'' JNull,
      ht_text = get_default (pt_payload (fst r)) ''text'' (JStr []), ht_score = snd r, ht_payload = pt_payload (fst r)\<rparr>"

definition query_points :: "ranking \<Rightarrow> string \<Rightarrow> vector_query \<Rightarrow> collections \<Rightarrow> hit list result" where
  "query_points rank name q cs =
     (case dict_get cs name of
        None \<Rightarrow> Inl (ExternalError ''collection not found'')
      | Some ps \<Rightarrow> Inr (map hit_of (rank q ps)))"

definition search_dense ::
  "ranking \<Rightarrow> string \<Rightarrow> rat list \<Rightarrow> string \<Rightarrow> string \<Rightarrow> nat \<Rightarrow> string option \<Rightarrow> collections \<Rightarrow> hit list result" where
  "search_dense rank name query_vector org_id vendor_id limit section_type_filter cs =
     query_points rank name (DenseQuery query_vector (with_section section_type_filter (tenant_must org_id vendor_id)) limit) cs"

text \<open>The query's own embeddings are arguments: the dense one given or computed, the sparse one computed.\<close>

definition search_hybrid ::
  "ranking \<Rightarrow> string \<Rightarrow> rat list \<Rightarrow> (nat \<times> rat) list \<Rightarrow> string \<Rightarrow> string \<Rightarrow> nat \<Rightarrow> string option \<Rightarrow> collections \<Rightarrow> hit list result" where
  "search_hybrid rank name dense_vec sparse org_id vendor_id limit section_type_filter cs =
     (let qfilter = with_section section_type_filter (tenant_must org_id vendor_id)
      in query_points rank name
           (FusionQuery (DensePrefetch dense_vec (limit * 2) qfilter #
              (if sparse \<noteq> [] then [SparsePrefetch sparse (limit * 2) qfilter] else [])) limit) cs)"

section \<open>Deletion\<close>

definition delete_points :: "field_condition list \<Rightarrow> point list \<Rightarrow> point list" where
  "delete_points must ps = filter (\<lambda>p. \<not> meets must p) ps"

definition delete_vendor_data :: "string \<Rightarrow> string \<Rightarrow> string \<Rightarrow> collections \<Rightarrow> nat \<times> collections" where
  "delete_vendor_data prefix org_id vendor_id cs =
     (let name = org_collection_name prefix org_id
      in case dict_get cs name of
           None \<Rightarrow> (0, cs)
         | Some ps \<Rightarrow> (length (filter (meets (tenant_must org_id vendor_id)) ps),
                       dict_set name (delete_points (tenant_must org_id vendor_id) ps) cs))"

definition drop_collection :: "string \<Rightarrow> collections \<Rightarrow> collections" where
  "drop_collection name cs = filter (\<lambda>kv. fst kv \<noteq> name) cs"

definition delete_by_filter_and_maybe_drop ::
  "string \<Rightarrow> string \<Rightarrow> field_condition list \<Rightarrow> collections \<Rightarrow> (nat \<times> bool) \<times> collections" where
  "delete_by_filter_and_maybe_drop prefix org_id must cs =
     (let name = org_collection_name prefix org_id
      in case dict_get cs name of
           None \<Rightarrow> ((0, False), cs)
         | Some ps \<Rightarrow>
             let rest = delete_points must ps; matched = length (filter (meets must) ps)
             in if rest = [] then ((matched, True), drop_collection name cs)
                else ((matched, False), dict_set name rest cs))"

definition delete_setup_data :: "string \<Rightarrow> string \<Rightarrow> string \<Rightarrow> collections \<Rightarrow> (nat \<times> bool) \<times> collections" where
  "delete_setup_data prefix org_id setup_id cs =
     delete_by_filter_and_maybe_drop prefix org_id [(''org_id'', org_id), (''setup_id'', setup_id)] cs"

definition delete_org_data :: "string \<Rightarrow> string \<Rightarrow> collections \<Rightarrow> (nat \<times> bool) \<times> collections" where
  "delete_org_data prefix org_id cs = delete_by_filter_and_maybe_drop prefix org_id [(''org_id'', org_id)] cs"

section \<open>What the operations keep\<close>

definition points_of :: "string \<Rightarrow> collections \<Rightarrow> point list" where
  "points_of name cs = get_default cs name []"

text \<open>Ids are unique within a collection.\<close>

definition wf_collections :: "collections \<Rightarrow> bool" where
  "wf_collections cs \<longleftrightarrow> distinct (dict_keys cs) \<and> (\<forall>name. distinct (map pt_id (points_of name cs)))"

lemma points_of_set [simp]: "points_of n (dict_set name ps cs) = (if n = name then ps else points_of n cs)"
  by (simp add: points_of_def get_default_def)

lemma points_of_drop [simp]: "points_of n (drop_collection name cs) = (if n = name then [] else points_of n cs)"
  by (induction cs) (auto simp: points_of_def get_default_def drop_collection_def)

lemma points_of_create [simp]: "points_of n (create_collection name cs) = points_of n cs"
  by (cases "dict_get cs name") (auto simp: create_collection_def points_of_def get_default_def dest: map_of_SomeD split: option.split intro: rev_image_eqI)

lemma put_point_ids:
  "map pt_id (put_point p ps) = (if pt_id p \<in> set (map pt_id ps) then map pt_id ps else map pt_id ps @ [pt_id p])"
  by (auto simp: put_point_def list_ex_iff image_iff intro!: map_cong) metis+

lemma put_point_distinct: "distinct (map pt_id ps) \<Longrightarrow> distinct (map pt_id (put_point p ps))"
  by (auto simp: put_point_ids)

lemma put_point_set: "set (put_point p ps) = insert p {q \<in> set ps. pt_id q \<noteq> pt_id p}"
  by (auto simp: put_point_def list_ex_iff)

lemma delete_points_distinct: "distinct (map pt_id ps) \<Longrightarrow> distinct (map pt_id (delete_points must ps))"
  unfolding delete_points_def by (rule distinct_map_filter)

lemma upsert_points:
  "upsert_chunk name cid dense sparse payload cs = Inr cs' \<Longrightarrow>
   points_of n cs' = (if n = name then put_point \<lparr>pt_id = cid, pt_dense = dense, pt_sparse = sparse,
     pt_payload = dict_set ''chunk_id'' (JStr cid) payload\<rparr> (points_of name cs) else points_of n cs)"
  by (auto simp: upsert_chunk_def points_of_def get_default_def split: option.splits)

lemma wf_upsert:
  assumes "upsert_chunk name cid dense sparse payload cs = Inr cs'" and "wf_collections cs"
  shows "wf_collections cs'"
proof -
  have "distinct (dict_keys cs')"
    using assms by (auto simp: upsert_chunk_def wf_collections_def split: option.splits)
  then show ?thesis
    using assms(2) by (simp add: wf_collections_def upsert_points[OF assms(1)] put_point_distinct)
qed

lemma wf_create: "wf_collections cs \<Longrightarrow> wf_collections (create_collection name cs)"
  by (simp add: wf_collections_def) (simp add: create_collection_def)

section \<open>Isolation\<close>

lemma meets_tenant:
  "meets (with_section t (tenant_must org_id vendor_id)) p \<Longrightarrow>
   map_of (pt_payload p) ''org_id'' = Some (JStr org_id) \<and> map_of (pt_payload p) ''vendor_id'' = Some (JStr vendor_id)"
  by (auto simp: with_section_def tenant_must_def meets_def split: option.splits if_splits)

definition belongs :: "string \<Rightarrow> string \<Rightarrow> hit \<Rightarrow> bool" where
  "belongs org_id vendor_id h \<longleftrightarrow>
     map_of (ht_payload h) ''org_id'' = Some (JStr org_id) \<and> map_of (ht_payload h) ''vendor_id'' = Some (JStr vendor_id)"

lemma query_points_passes:
  assumes "query_law rank" and "query_points rank name q cs = Inr hits"
    and "\<And>p. passes q p \<Longrightarrow> meets (with_section t (tenant_must org_id vendor_id)) p"
  shows "list_all (belongs org_id vendor_id) hits \<and> length hits \<le> query_limit q"
proof -
  obtain ps where h: "hits = map hit_of (rank q ps)"
    using assms(2) by (auto simp: query_points_def split: option.splits)
  have "passes q (fst r)" if "r \<in> set (rank q ps)" for r
    using assms(1) that by (cases r) (fastforce simp: query_law_def)
  with assms(3) have "belongs org_id vendor_id (hit_of r)" if "r \<in> set (rank q ps)" for r
    using meets_tenant[of t org_id vendor_id "fst r"] that by (simp add: belongs_def hit_of_def)
  then show ?thesis using assms(1) by (simp add: h list_all_iff query_law_def)
qed

lemma search_dense_isolated:
  assumes "query_law rank" and "search_dense rank name v org_id vendor_id n t cs = Inr hits"
  shows "list_all (belongs org_id vendor_id) hits \<and> length hits \<le> n"
  using query_points_passes[OF assms(1) assms(2)[unfolded search_dense_def], of t org_id vendor_id] by simp

lemma search_hybrid_isolated:
  assumes "query_law rank" and "search_hybrid rank name v sp org_id vendor_id n t cs = Inr hits"
  shows "list_all (belongs org_id vendor_id) hits \<and> length hits \<le> n"
  using query_points_passes[OF assms(1) assms(2)[unfolded search_hybrid_def Let_def], of t org_id vendor_id]
  by (cases "sp = []") auto

section \<open>What is deleted\<close>

lemma delete_filtered_points:
  "points_of n (snd (delete_by_filter_and_maybe_drop prefix org_id must cs)) =
    (if n = org_collection_name prefix org_id then delete_points must (points_of n cs) else points_of n cs)"
  by (auto simp: delete_by_filter_and_maybe_drop_def Let_def delete_points_def split: option.split)
    (auto simp: points_of_def get_default_def)

lemma wf_delete_filtered:
  assumes "wf_collections cs"
  shows "wf_collections (snd (delete_by_filter_and_maybe_drop prefix org_id must cs))"
proof -
  have "distinct (dict_keys (snd (delete_by_filter_and_maybe_drop prefix org_id must cs)))"
    using assms by (auto simp: wf_collections_def delete_by_filter_and_maybe_drop_def Let_def drop_collection_def
        distinct_map_filter split: option.split)
  then show ?thesis
    using assms by (simp add: wf_collections_def delete_filtered_points delete_points_distinct)
qed

lemma delete_filtered_count:
  "fst (fst (delete_by_filter_and_maybe_drop prefix org_id must cs)) =
    length (filter (meets must) (points_of (org_collection_name prefix org_id) cs))"
  by (auto simp: delete_by_filter_and_maybe_drop_def Let_def points_of_def get_default_def split: option.split)

text \<open>A point upserted twice carries the second payload, so it falls with the second setup.\<close>

lemma restamped_point:
  assumes "upsert_chunk name cid d1 s1 payload1 cs = Inr cs1" and "upsert_chunk name cid d2 s2 payload2 cs1 = Inr cs2"
    and "name = org_collection_name prefix org_id"
    and "map_of payload2 ''org_id'' = Some (JStr org_id)" and "map_of payload2 ''setup_id'' = Some (JStr setup2)"
  shows "cid \<notin> set (map pt_id (points_of name (snd (delete_setup_data prefix org_id setup2 cs2))))"
proof -
  obtain ps where ps: "dict_get cs1 name = Some ps" using assms(2) by (auto simp: upsert_chunk_def split: option.splits)
  let ?p = "\<lparr>pt_id = cid, pt_dense = d2, pt_sparse = s2, pt_payload = dict_set ''chunk_id'' (JStr cid) payload2\<rparr>"
  have p: "points_of name cs2 = put_point ?p ps" using assms(2) ps by (auto simp: upsert_chunk_def)
  have "meets [(''org_id'', org_id), (''setup_id'', setup2)] ?p" using assms(4,5) by (simp add: meets_def)
  then show ?thesis
    by (auto simp: delete_setup_data_def delete_filtered_points assms(3)[symmetric] p delete_points_def put_point_set)
qed

end
