(* ===== verification/Retrieve.thy ===== *)
theory Retrieve
  imports Vectors Evaluation
begin

text \<open>
  \<open>app/agents/retrieval.py\<close> and \<open>app/providers/reranker.py\<close>. Parameters: the model's rewriting of the
  query and its hypothetical document, the embeddings, Qdrant's ranking, the rerankers' scores, fresh
  identifiers. The audit row of a retrieval never raises and is left out, like the strategy label.
\<close>

section \<open>Reranking\<close>

record candidate =
  ca_text :: json
  ca_score :: rat
  ca_payload :: "(string \<times> json) list"
  ca_rerank_score :: rat

record retrieval_cfg =
  rg_collection_prefix :: string
  rg_reranker_provider :: string
  rg_max_chunk_chars :: nat

record retrieval_env =
  re_rewrite :: "string \<Rightarrow> string result"
  re_hyde :: "string \<Rightarrow> string result"
  re_embed :: "string \<Rightarrow> rat list result"
  re_sparse :: "string \<Rightarrow> (nat \<times> rat) list"
  re_rank :: ranking
  re_scores :: "string \<Rightarrow> string \<Rightarrow> string list \<Rightarrow> rat list result"
    \<comment> \<open>provider, query, documents: one score per document\<close>
  re_indexed :: "string \<Rightarrow> string \<Rightarrow> string list \<Rightarrow> nat \<Rightarrow> (nat \<times> rat) list result"
    \<comment> \<open>provider, query, documents, top_n: index and score\<close>
  re_uuid :: "nat \<Rightarrow> string"

fun slice_text :: "nat \<Rightarrow> json \<Rightarrow> string result" where
  "slice_text n (JStr s) = Inr (take n s)"
| "slice_text n _ = Inl (TypeError ''object is not subscriptable'')"

definition documents_of :: "retrieval_cfg \<Rightarrow> candidate list \<Rightarrow> string list result" where
  "documents_of g candidates = rmap (slice_text (rg_max_chunk_chars g) \<circ> ca_text) candidates"

definition top_reranked :: "nat \<Rightarrow> candidate list \<Rightarrow> candidate list" where
  "top_reranked top_n candidates = take top_n (sort_desc ca_rerank_score candidates)"

text \<open>\<open>bge\<close> and \<open>modal\<close>: a score too many is an \<open>IndexError\<close>, one too few a \<open>KeyError\<close> of the sort.\<close>

definition rerank_scored ::
  "retrieval_cfg \<Rightarrow> retrieval_env \<Rightarrow> string \<Rightarrow> string \<Rightarrow> candidate list \<Rightarrow> nat \<Rightarrow> candidate list result" where
  "rerank_scored g env provider query candidates top_n =
     rbind (documents_of g candidates) (\<lambda>docs.
     rbind (re_scores env provider query docs) (\<lambda>scores.
     if length candidates < length scores then Inl IndexError
     else if length scores < length candidates then Inl (KeyError ''rerank_score'')
     else Inr (top_reranked top_n (map2 (\<lambda>c x. c\<lparr>ca_rerank_score := x\<rparr>) candidates scores))))"

text \<open>\<open>cohere\<close> and \<open>colbert\<close> answer with indices into the candidates.\<close>

definition rerank_indexed ::
  "retrieval_cfg \<Rightarrow> retrieval_env \<Rightarrow> string \<Rightarrow> string \<Rightarrow> candidate list \<Rightarrow> nat \<Rightarrow> candidate list result" where
  "rerank_indexed g env provider query candidates top_n =
     rbind (documents_of g candidates) (\<lambda>docs.
     rbind (re_indexed env provider query docs top_n) (\<lambda>results.
     rmap (\<lambda>(i, x). if i < length candidates then Inr ((candidates ! i)\<lparr>ca_rerank_score := x\<rparr>) else Inl IndexError)
       results))"

definition rerank_none :: "candidate list \<Rightarrow> nat \<Rightarrow> candidate list" where
  "rerank_none candidates top_n = top_reranked top_n (map (\<lambda>c. c\<lparr>ca_rerank_score := ca_score c\<rparr>) candidates)"

definition degraded_warning :: "string \<Rightarrow> string \<Rightarrow> string list" where
  "degraded_warning provider detail =
     (if provider \<noteq> ''none''
      then [''Reranking degraded: provider '' @ quoted provider @ '' '' @ detail @
            ''; results fell back to vector-score order.''] else [])"

definition rerank ::
  "retrieval_cfg \<Rightarrow> retrieval_env \<Rightarrow> string \<Rightarrow> candidate list \<Rightarrow> nat \<Rightarrow> string option \<Rightarrow> candidate list \<times> string list" where
  "rerank g env query candidates top_n chosen =
     (if candidates = [] then ([], [])
      else
        let provider = lower (case chosen of None \<Rightarrow> rg_reranker_provider g
                              | Some p \<Rightarrow> if p = [] then rg_reranker_provider g else p);
            answer = (if provider = ''cohere'' \<or> provider = ''colbert'' then rerank_indexed g env provider query candidates top_n
                      else rerank_scored g env provider query candidates top_n)
        in if provider \<in> {''cohere'', ''bge'', ''modal'', ''colbert''}
           then case answer of
               Inr reranked \<Rightarrow> (reranked, [])
             | Inl e \<Rightarrow> (rerank_none candidates top_n,
                          degraded_warning provider (''is unavailable ('' @ exn_str e @ '')''))
           else (rerank_none candidates top_n,
                 if provider = ''none'' then [] else degraded_warning provider ''is not a recognised reranker''))"

section \<open>The agent\<close>

definition answer_words :: "string \<Rightarrow> string set" where
  "answer_words s = lower ` {w \<in> set (py_split s). 4 < length w}"

definition is_answer_bearing :: "string \<Rightarrow> string \<Rightarrow> bool" where
  "is_answer_bearing query text \<longleftrightarrow> 2 \<le> card (answer_words query \<inter> answer_words text)"

text \<open>Best first, second-best last.\<close>

fun lost_in_middle :: "'a list \<Rightarrow> 'a list" where
  "lost_in_middle (best # second # m # middle) = best # (m # middle) @ [second]"
| "lost_in_middle xs = xs"

record search_settings =
  ss_use_hyde :: bool
  ss_use_query_rewriting :: bool
  ss_retrieval_top_k :: nat
  ss_rerank_top_n :: nat
  ss_use_hybrid_search :: bool
  ss_reranker_provider :: string

record retrieval_args =
  ra_query :: string
  ra_vendor_id :: string
  ra_org_id :: string
  ra_use_hyde :: bool
  ra_use_rewriting :: bool
  ra_n_candidates :: nat
  ra_n_final :: nat
  ra_is_mandatory_check :: bool
  ra_section_type_filter :: "string option"

definition default_retrieval_args :: "string \<Rightarrow> string \<Rightarrow> string \<Rightarrow> bool \<Rightarrow> retrieval_args" where
  "default_retrieval_args query vendor_id org_id is_mandatory_check =
     \<lparr>ra_query = query, ra_vendor_id = vendor_id, ra_org_id = org_id, ra_use_hyde = False, ra_use_rewriting = True,
      ra_n_candidates = 20, ra_n_final = 5, ra_is_mandatory_check = is_mandatory_check, ra_section_type_filter = None\<rparr>"

definition with_settings :: "search_settings option \<Rightarrow> retrieval_args \<Rightarrow> retrieval_args \<times> bool" where
  "with_settings org_settings a =
     (case org_settings of None \<Rightarrow> (a, False)
      | Some os \<Rightarrow> (a\<lparr>ra_use_hyde := ss_use_hyde os, ra_use_rewriting := ss_use_query_rewriting os,
                     ra_n_candidates := ss_retrieval_top_k os, ra_n_final := ss_rerank_top_n os\<rparr>, ss_use_hybrid_search os))"

text \<open>\<open>result.strip() or query\<close>.\<close>

definition rewrite_query :: "retrieval_env \<Rightarrow> string \<Rightarrow> string result" where
  "rewrite_query env query =
     rbind (re_rewrite env query) (\<lambda>r. Inr (if strip r = [] then query else strip r))"

definition generate_hyde_document :: "retrieval_env \<Rightarrow> string \<Rightarrow> string result" where
  "generate_hyde_document env query = rbind (re_hyde env query) (\<lambda>r. Inr (strip r))"

definition query_vector :: "retrieval_env \<Rightarrow> retrieval_args \<Rightarrow> rat list result" where
  "query_vector env a =
     (if ra_use_hyde a then rbind (generate_hyde_document env (ra_query a)) (re_embed env)
      else if ra_use_rewriting a then rbind (rewrite_query env (ra_query a)) (re_embed env)
      else re_embed env (ra_query a))"

definition raw_results ::
  "retrieval_cfg \<Rightarrow> retrieval_env \<Rightarrow> retrieval_args \<Rightarrow> bool \<Rightarrow> rat list \<Rightarrow> collections \<Rightarrow> hit list result" where
  "raw_results g env a hybrid v cs =
     (let name = org_collection_name (rg_collection_prefix g) (ra_org_id a)
      in if hybrid
         then search_hybrid (re_rank env) name v (re_sparse env (ra_query a)) (ra_org_id a) (ra_vendor_id a)
                (ra_n_candidates a) (ra_section_type_filter a) cs
         else search_dense (re_rank env) name v (ra_org_id a) (ra_vendor_id a) (ra_n_candidates a)
                (ra_section_type_filter a) cs)"

definition candidate_of :: "hit \<Rightarrow> candidate" where
  "candidate_of h = \<lparr>ca_text = ht_text h, ca_score = ht_score h, ca_payload = ht_payload h, ca_rerank_score = 0\<rparr>"

fun split_text :: "json \<Rightarrow> string result" where
  "split_text (JStr s) = Inr s"
| "split_text _ = Inl (AttributeError ''object has no attribute split'')"

text \<open>An integer field of a validated record: an integral number, a boolean, or digits.\<close>

fun int_like :: "json \<Rightarrow> bool" where
  "int_like (JNum x) \<longleftrightarrow> of_int \<lfloor>x\<rfloor> = x"
| "int_like (JBool b) \<longleftrightarrow> True"
| "int_like (JStr s) \<longleftrightarrow> strip s \<noteq> [] \<and> list_all is_digit (strip s)"
| "int_like _ \<longleftrightarrow> False"

definition as_int_like :: "json \<Rightarrow> unit result" where
  "as_int_like v = (if int_like v then Inr () else Inl (ValidationError ''Input should be a valid integer''))"

definition chunk_of :: "retrieval_env \<Rightarrow> string \<Rightarrow> nat \<times> candidate \<Rightarrow> retrieved_chunk result" where
  "chunk_of env query ic =
     (let (i, c) = ic; p = ca_payload c; field = (\<lambda>k d. as_str (get_default p k (JStr d)))
      in rbind (split_text (ca_text c)) (\<lambda>words.
         rbind (field ''chunk_id'' (re_uuid env i)) (\<lambda>chunk_id.
         rbind (field ''chunk_id'' []) (\<lambda>_.
         rbind (as_str (ca_text c)) (\<lambda>text.
         rbind (field ''section_id'' []) (\<lambda>_.
         rbind (field ''section_title'' []) (\<lambda>_.
         rbind (field ''section_type'' ''background'') (\<lambda>section_type.
         rbind (field ''filename'' []) (\<lambda>_.
         rbind (as_int_like (get_default p ''page_number'' (JNum 1))) (\<lambda>_.
         Inr \<lparr>rc_chunk_id = chunk_id, rc_text = text, rc_section_type = section_type,
              rc_final_score = ca_rerank_score c, rc_is_answer_bearing = is_answer_bearing query words\<rparr>))))))))))"

definition average_score :: "retrieved_chunk list \<Rightarrow> rat" where
  "average_score chunks = (if chunks = [] then 0 else sum_list (map rc_final_score chunks) / of_nat (length chunks))"

definition empty_output :: "string \<Rightarrow> retrieval_output" where
  "empty_output query =
     \<lparr>ro_original_query = query, ro_chunks = [], ro_total_candidates = 0, ro_confidence = 0, ro_empty_retrieval = True,
      ro_reranking_degraded = False, ro_warnings = [''No chunks found in collection'']\<rparr>"

definition make_output :: "platform_cfg \<Rightarrow> string \<Rightarrow> nat \<Rightarrow> string list \<Rightarrow> retrieved_chunk list \<Rightarrow> retrieval_output result" where
  "make_output cfg query n_raw warnings chunks =
     (let degraded = (warnings \<noteq> []); confidence = min 1 (average_score chunks)
      in rbind (as_unit (py_round 3 (if degraded then confidence * pc_rerank_degraded_factor cfg else confidence)))
           (\<lambda>confidence.
         Inr \<lparr>ro_original_query = query, ro_chunks = chunks, ro_total_candidates = n_raw, ro_confidence = confidence,
              ro_empty_retrieval = (length chunks = 0), ro_reranking_degraded = degraded, ro_warnings = warnings\<rparr>))"

definition run_retrieval_agent ::
  "platform_cfg \<Rightarrow> retrieval_cfg \<Rightarrow> retrieval_env \<Rightarrow> collections \<Rightarrow> search_settings option \<Rightarrow> retrieval_args \<Rightarrow>
   (retrieval_output \<times> critic_output) result" where
  "run_retrieval_agent cfg g env cs org_settings args =
     (let (a, hybrid) = with_settings org_settings args; query = ra_query a
      in rbind (query_vector env a) (\<lambda>v.
         rbind (raw_results g env a hybrid v cs) (\<lambda>raw.
         if raw = [] then Inr (empty_output query, critic_after_retrieval (empty_output query) (ra_is_mandatory_check a))
         else
           let (reranked, warnings) = rerank g env query (map candidate_of raw) (ra_n_final a)
                 (map_option ss_reranker_provider org_settings)
           in rbind (rmap (chunk_of env query) (enumerate 0 (lost_in_middle reranked))) (\<lambda>chunks.
              rbind (make_output cfg query (length raw) warnings chunks) (\<lambda>out.
              Inr (out, critic_after_retrieval out (ra_is_mandatory_check a)))))))"

end
