(* ===== verification/Retrieve_Laws.thy ===== *)
theory Retrieve_Laws
  imports Retrieve Evaluation_Laws Critic_Laws Nodes
begin

text \<open>
  Where a retrieved chunk comes from: through the reranker, the reordering and the merge of a vendor's
  queries each chunk keeps the text of a point of that organisation and vendor. A reranker that fails
  is reported.
\<close>

section \<open>Reranking keeps the candidates\<close>

definition same_source :: "candidate \<Rightarrow> candidate \<Rightarrow> bool" where
  "same_source c d \<longleftrightarrow> ca_text c = ca_text d \<and> ca_payload c = ca_payload d"

definition drawn_from :: "candidate list \<Rightarrow> candidate list \<Rightarrow> bool" where
  "drawn_from cs ds \<longleftrightarrow> (\<forall>c \<in> set cs. \<exists>d \<in> set ds. same_source c d)"

lemma drawn_top: "drawn_from cs ds \<Longrightarrow> drawn_from (top_reranked n cs) ds"
  by (auto simp: drawn_from_def top_reranked_def dest: in_set_takeD)

lemma drawn_rescored: "(\<And>c. c \<in> set cs \<Longrightarrow> \<exists>d \<in> set ds. \<exists>x. c = d\<lparr>ca_rerank_score := x\<rparr>) \<Longrightarrow> drawn_from cs ds"
  by (fastforce simp: drawn_from_def same_source_def)

lemma rerank_none_drawn: "drawn_from (rerank_none cs n) cs"
  unfolding rerank_none_def by (intro drawn_top drawn_rescored) auto

lemma rerank_scored_drawn: "rerank_scored g env p q cs n = Inr ds \<Longrightarrow> drawn_from ds cs"
proof -
  assume "rerank_scored g env p q cs n = Inr ds"
  then obtain xs where "ds = top_reranked n (map2 (\<lambda>c x. c\<lparr>ca_rerank_score := x\<rparr>) cs xs)"
    by (auto simp: rerank_scored_def rbind_Inr_iff split: if_splits)
  moreover have "drawn_from (map2 (\<lambda>c x. c\<lparr>ca_rerank_score := x\<rparr>) cs xs) cs"
    by (rule drawn_rescored) (auto dest: set_zip_leftD)
  ultimately show "drawn_from ds cs" by (simp add: drawn_top)
qed

lemma rerank_indexed_drawn:
  assumes "rerank_indexed g env p q cs n = Inr ds"
  shows "drawn_from ds cs"
proof (rule drawn_rescored)
  fix c assume "c \<in> set ds"
  with assms obtain i x where "(if i < length cs then Inr ((cs ! i)\<lparr>ca_rerank_score := x\<rparr>) else Inl IndexError) = Inr c"
    by (auto simp: rerank_indexed_def rbind_Inr_iff dest!: rmap_Inr_set)
  then show "\<exists>d \<in> set cs. \<exists>x. c = d\<lparr>ca_rerank_score := x\<rparr>" by (auto split: if_splits)
qed

lemma rerank_drawn: "drawn_from (fst (rerank g env q cs n chosen)) cs"
proof -
  have "drawn_from [] []" by (simp add: drawn_from_def)
  then show ?thesis
    by (auto simp: rerank_def Let_def rerank_none_drawn split: sum.split dest: rerank_scored_drawn rerank_indexed_drawn)
qed

lemma mset_lost_in_middle [simp]: "mset (lost_in_middle xs) = mset xs"
  by (cases xs rule: lost_in_middle.cases) simp_all

lemma set_lost_in_middle [simp]: "set (lost_in_middle xs) = set xs"
  by (rule mset_eq_setD) simp

section \<open>Provenance\<close>

definition from_point :: "string \<Rightarrow> string \<Rightarrow> point list \<Rightarrow> retrieved_chunk \<Rightarrow> bool" where
  "from_point org_id vendor_id ps c \<longleftrightarrow>
     (\<exists>p \<in> set ps. dict_get (pt_payload p) ''org_id'' = Some (JStr org_id) \<and>
        dict_get (pt_payload p) ''vendor_id'' = Some (JStr vendor_id) \<and> get_default (pt_payload p) ''text'' (JStr []) = JStr (rc_text c))"

definition hit_in :: "string \<Rightarrow> string \<Rightarrow> point list \<Rightarrow> hit \<Rightarrow> bool" where
  "hit_in org_id vendor_id ps h \<longleftrightarrow>
     (\<exists>p \<in> set ps. meets (tenant_must org_id vendor_id) p \<and> ht_text h = get_default (pt_payload p) ''text'' (JStr []))"

lemma meets_section: "meets (with_section t must) p \<Longrightarrow> meets must p"
  by (auto simp: with_section_def meets_def split: option.splits if_splits)

lemma query_points_in:
  assumes "query_law rank" and "query_points rank name q cs = Inr hits"
    and "\<And>p. passes q p \<Longrightarrow> meets (with_section t (tenant_must org_id vendor_id)) p"
  shows "list_all (hit_in org_id vendor_id (points_of name cs)) hits"
proof -
  obtain ps where ps: "dict_get cs name = Some ps" and h: "hits = map hit_of (rank q ps)"
    using assms(2) by (auto simp: query_points_def split: option.splits)
  have "hit_in org_id vendor_id ps (hit_of r)" if "r \<in> set (rank q ps)" for r
  proof -
    have "fst r \<in> set ps" "passes q (fst r)" using assms(1) that by (cases r, fastforce simp: query_law_def)+
    then show ?thesis using assms(3) meets_section unfolding hit_in_def by (intro bexI[of _ "fst r"]) (auto simp: hit_of_def)
  qed
  then show ?thesis by (simp add: h list_all_iff points_of_def get_default_def ps)
qed

lemma raw_query:
  "\<exists>q. raw_results g env a hybrid v cs =
       query_points (re_rank env) (org_collection_name (rg_collection_prefix g) (ra_org_id a)) q cs \<and>
     (\<forall>p. passes q p \<longrightarrow> meets (with_section (ra_section_type_filter a) (tenant_must (ra_org_id a) (ra_vendor_id a))) p)"
proof (cases hybrid)
  case True
  show ?thesis
    unfolding raw_results_def search_hybrid_def Let_def using True
    by (auto simp: list_ex_iff split: if_splits intro!: exI[of _ "FusionQuery _ _"])
next
  case False
  then show ?thesis by (auto simp: raw_results_def search_dense_def intro!: exI[of _ "DenseQuery _ _ _"])
qed

lemma raw_results_in:
  assumes "query_law (re_rank env)" and "raw_results g env a hybrid v cs = Inr raw"
  shows "list_all (hit_in (ra_org_id a) (ra_vendor_id a)
    (points_of (org_collection_name (rg_collection_prefix g) (ra_org_id a)) cs)) raw"
  using raw_query[of g env a hybrid v cs] query_points_in[OF assms(1)] assms(2) by metis

lemma chunk_of_text: "chunk_of env query ic = Inr c \<Longrightarrow> ca_text (snd ic) = JStr (rc_text c)"
proof -
  have s: "as_str v = Inr s \<longleftrightarrow> v = JStr s" for v s by (cases v) auto
  show "chunk_of env query ic = Inr c \<Longrightarrow> ca_text (snd ic) = JStr (rc_text c)"
    by (cases ic) (auto simp: chunk_of_def Let_def rbind_Inr_iff s)
qed

lemma with_settings_sel:
  "ra_org_id (fst (with_settings os a)) = ra_org_id a" "ra_vendor_id (fst (with_settings os a)) = ra_vendor_id a"
  "ra_query (fst (with_settings os a)) = ra_query a"
  by (simp_all add: with_settings_def split: option.split)

lemma run_retrieval_cases:
  assumes "run_retrieval_agent cfg g env cs os args = Inr (out, critic)"
  obtains (empty) a hybrid where "with_settings os args = (a, hybrid)" "out = empty_output (ra_query args)"
  | (found) a hybrid v raw chunks where "with_settings os args = (a, hybrid)"
      "raw_results g env a hybrid v cs = Inr raw" "raw \<noteq> []"
      "rmap (chunk_of env (ra_query args)) (enumerate 0 (lost_in_middle
         (fst (rerank g env (ra_query args) (map candidate_of raw) (ra_n_final a) (map_option ss_reranker_provider os))))) = Inr chunks"
      "make_output cfg (ra_query args) (length raw)
         (snd (rerank g env (ra_query args) (map candidate_of raw) (ra_n_final a) (map_option ss_reranker_provider os))) chunks =
       Inr out"
proof -
  obtain a hybrid where a: "with_settings os args = (a, hybrid)" by fastforce
  then have q: "ra_query a = ra_query args" using with_settings_sel(3)[of os args] by simp
  obtain v raw where raw: "raw_results g env a hybrid v cs = Inr raw"
    and rest: "(if raw = [] then Inr (empty_output (ra_query a), critic_after_retrieval (empty_output (ra_query a)) (ra_is_mandatory_check a))
      else let (reranked, warnings) = rerank g env (ra_query a) (map candidate_of raw) (ra_n_final a) (map_option ss_reranker_provider os)
           in rbind (rmap (chunk_of env (ra_query a)) (enumerate 0 (lost_in_middle reranked))) (\<lambda>chunks.
              rbind (make_output cfg (ra_query a) (length raw) warnings chunks) (\<lambda>out.
              Inr (out, critic_after_retrieval out (ra_is_mandatory_check a))))) = Inr (out, critic)"
    using assms by (auto simp: run_retrieval_agent_def a Let_def rbind_Inr_iff)
  show thesis
  proof (cases "raw = []")
    case True
    with rest q show thesis by (intro empty[OF a]) simp
  next
    case False
    with rest found[OF a raw] q show thesis by (auto simp: split_def rbind_Inr_iff Let_def)
  qed
qed

lemma run_retrieval_chunks:
  assumes "query_law (re_rank env)" and "run_retrieval_agent cfg g env cs os args = Inr (out, critic)"
  shows "list_all (from_point (ra_org_id args) (ra_vendor_id args)
    (points_of (org_collection_name (rg_collection_prefix g) (ra_org_id args)) cs)) (ro_chunks out)"
  using assms(2)
proof (cases rule: run_retrieval_cases)
  case empty
  then show ?thesis by (simp add: empty_output_def)
next
  case (found a hybrid v raw chunks)
  let ?ps = "points_of (org_collection_name (rg_collection_prefix g) (ra_org_id args)) cs"
  let ?r = "fst (rerank g env (ra_query args) (map candidate_of raw) (ra_n_final a) (map_option ss_reranker_provider os))"
  have sel: "ra_org_id a = ra_org_id args" "ra_vendor_id a = ra_vendor_id args"
    using with_settings_sel[of os args] found(1) by simp_all
  have hits: "list_all (hit_in (ra_org_id args) (ra_vendor_id args) ?ps) raw"
    using raw_results_in[OF assms(1) found(2)] by (simp add: sel)
  have "from_point (ra_org_id args) (ra_vendor_id args) ?ps c" if c: "c \<in> set chunks" for c
  proof -
    obtain ic where ic: "ic \<in> set (enumerate 0 (lost_in_middle ?r))" "chunk_of env (ra_query args) ic = Inr c"
      using rmap_Inr_set[OF found(4) c] by blast
    have "map snd (enumerate 0 (lost_in_middle ?r)) = lost_in_middle ?r" by simp
    then have "snd ic \<in> set (lost_in_middle ?r)" using ic(1) by (metis image_eqI list.set_map)
    then have "snd ic \<in> set ?r" by simp
    then obtain d where d: "d \<in> set (map candidate_of raw)" "same_source (snd ic) d"
      using rerank_drawn unfolding drawn_from_def by blast
    then obtain h where h: "h \<in> set raw" "ca_text (snd ic) = ht_text h" by (auto simp: same_source_def candidate_of_def)
    obtain p where p: "p \<in> set ?ps" "meets (tenant_must (ra_org_id args) (ra_vendor_id args)) p"
        "ht_text h = get_default (pt_payload p) ''text'' (JStr [])"
      using hits h(1) unfolding list_all_iff hit_in_def by blast
    then have "get_default (pt_payload p) ''text'' (JStr []) = JStr (rc_text c)" using h(2) chunk_of_text[OF ic(2)] by simp
    with p(1,2) show ?thesis unfolding from_point_def by (auto simp: meets_def tenant_must_def)
  qed
  moreover have "ro_chunks out = chunks" using found(5) by (auto simp: make_output_def Let_def rbind_Inr_iff)
  ultimately show ?thesis by (simp add: list_all_iff)
qed

section \<open>A vendor's stage\<close>

lemma merge_chunks_set: "set (foldl merge_chunk m cs) \<subseteq> set m \<union> set cs"
proof (induction cs arbitrary: m)
  case (Cons c cs)
  have "set (merge_chunk m c) \<subseteq> insert c (set m)" by (auto simp: merge_chunk_def)
  with Cons[of "merge_chunk m c"] show ?case by auto
qed simp

lemma merge_query_chunks:
  "merge_query w vid setup m0 q = Inr m1 \<Longrightarrow> \<exists>b out critic. wd_retrieve w vid q b = Inr (out, critic) \<and>
     mr_chunks m1 = foldl merge_chunk (mr_chunks m0) (ro_chunks out)"
  by (fastforce simp: merge_query_def rbind_Inr_iff)

lemma stage_chunks:
  assumes "\<And>query m out critic. wd_retrieve w vid query m = Inr (out, critic) \<Longrightarrow> list_all P (ro_chunks out)"
    and "rfold (merge_query w vid setup) m0 queries = Inr m" and "list_all P (mr_chunks m0)"
  shows "list_all P (mr_chunks m)"
proof (rule rfold_invariant[where P = "\<lambda>m. list_all P (mr_chunks m)", OF assms(2,3)])
  fix m0 q m1
  assume p: "list_all P (mr_chunks m0)" and m1: "merge_query w vid setup m0 q = Inr m1"
  then obtain b out critic where "wd_retrieve w vid q b = Inr (out, critic)"
      "mr_chunks m1 = foldl merge_chunk (mr_chunks m0) (ro_chunks out)"
    using merge_query_chunks by blast
  then show "list_all P (mr_chunks m1)"
    using assms(1) p merge_chunks_set[of "mr_chunks m0" "ro_chunks out"] by (fastforce simp: list_all_iff)
qed

lemma retrieval_stage_chunks:
  assumes "\<And>query m out critic. wd_retrieve w vid query m = Inr (out, critic) \<Longrightarrow> list_all P (ro_chunks out)"
    and "retrieval_per_vendor cfg w s vid = Inr (us, es)" and "RetrievalObjects [(v, out)] \<in> set us"
  shows "v = vid \<and> list_all P (ro_chunks out)"
proof -
  let ?queries = "queries_of (ps_evaluation_setup s)"
  let ?fold = "rfold (merge_query w vid (ps_evaluation_setup s)) \<lparr>mr_chunks = [], mr_degraded = False, mr_warnings = []\<rparr> ?queries"
  from assms(2,3) have c: "rbind ?fold (combined_retrieval cfg ?queries) = Inr out" "v = vid"
    by (auto simp: retrieval_per_vendor_def Let_def split: sum.splits if_splits)
  then obtain m where m: "?fold = Inr m" "ro_chunks out = mr_chunks m"
    by (auto simp: rbind_Inr_iff combined_retrieval_def)
  show ?thesis using stage_chunks[OF assms(1) m(1)] m(2) c(2) by simp
qed

section \<open>A failing reranker\<close>

lemma rerank_failure:
  assumes "candidates \<noteq> []" and "lower provider \<in> {''bge'', ''modal''}"
    and "\<And>docs. \<exists>e. re_scores env (lower provider) query docs = Inl e"
  shows "fst (rerank g env query candidates n (Some provider)) = rerank_none candidates n \<and>
    snd (rerank g env query candidates n (Some provider)) \<noteq> []"
proof -
  have "provider \<noteq> []" using assms(2) by (auto simp: lower_def)
  moreover have "\<exists>e. rerank_scored g env (lower provider) query candidates n = Inl e"
    using assms(3) by (cases "documents_of g candidates") (auto simp: rerank_scored_def, metis rbind.simps(1))
  ultimately show ?thesis using assms(1,2) by (auto simp: rerank_def Let_def degraded_warning_def)
qed

lemma make_output_sel:
  "make_output cfg query n warnings chunks = Inr out \<Longrightarrow> ro_reranking_degraded out \<longleftrightarrow> warnings \<noteq> []"
  "make_output cfg query n warnings chunks = Inr out \<Longrightarrow> ro_chunks out = chunks"
  "make_output cfg query n warnings chunks = Inr out \<Longrightarrow> 0 \<le> ro_confidence out \<and> ro_confidence out \<le> 1"
  by (auto simp: make_output_def Let_def rbind_Inr_iff as_unit_Inr)

lemma degraded_not_approved: "ro_reranking_degraded out \<Longrightarrow> co_overall_verdict (critic_after_retrieval out m) \<noteq> APPROVED"
  by (auto simp: critic_after_retrieval_def verdict_APPROVED_iff)

text \<open>Chunks are found but their average score is below zero: the confidence fails its validation.\<close>

lemma negative_average_raises:
  assumes "average_score chunks < - 1 / 1000" and "warnings = []"
  shows "\<exists>e. make_output cfg query n warnings chunks = Inl e"
proof -
  have "py_round 3 (average_score chunks) \<le> py_round 3 (- 1 / 1000)" using assms(1) by (intro py_round_mono) simp
  moreover have "py_round 3 (- 1 / 1000) < 0" by code_simp
  ultimately have "py_round 3 (average_score chunks) < 0" by linarith
  then show ?thesis using assms by (simp add: make_output_def Let_def as_unit_def min_def)
qed

end
