(* ===== verification/Ingest.thy ===== *)
theory Ingest
  imports Vectors Critic
begin

text \<open>
  The ingestion agent (\<open>app/agents/ingestion.py\<close>) with the chunk pipeline (\<open>app/retrieval/pipeline.py\<close>), the
  document validators (\<open>app/validators/ingestion.py\<close>) and the injection scanner
  (\<open>app/validators/injection.py\<close>). The state is the content of the vector store: what was upserted before an
  exception stays. Parameters, in \<open>ingest_env\<close>: the PDF and DOCX readers, the decoding of bytes, the node
  parsers, the hashes, the embeddings, regular expression search, ZIP archives and UUIDs. A byte string
  is a list of 8-bit characters.
\<close>

section \<open>Parameters\<close>

record doc_node =
  nd_content :: string
  nd_section_title :: "string option"
  nd_section_id :: "string option"
  nd_page_label :: "int option"
  nd_window :: "string option"

record injection_pattern =
  ip_name :: string
  ip_regex :: string

record ingest_cfg =
  ic_chunk_size_tokens :: nat
  ic_injection_enabled :: bool
  ic_patterns :: "injection_pattern list"
  ic_collection_prefix :: string

record ingest_env =
  ie_pdf_pages :: "string \<Rightarrow> string option list result"
  ie_docx_paragraphs :: "string \<Rightarrow> string list result"
  ie_decode :: "string \<Rightarrow> string"
  ie_leaf_nodes :: "nat list \<Rightarrow> string \<Rightarrow> doc_node list"
  ie_sentence_nodes :: "string \<Rightarrow> doc_node list"
  ie_md5 :: "string \<Rightarrow> string"
  ie_sha256 :: "string \<Rightarrow> string"
  ie_uuid_of_hex :: "string \<Rightarrow> string"
  ie_sparse :: "string \<Rightarrow> (nat \<times> rat) list"
  ie_embed_batch :: "string list \<Rightarrow> rat list list result"
  ie_search :: "string \<Rightarrow> string \<Rightarrow> string option"
  ie_zip_names :: "string \<Rightarrow> string list result"
  ie_zip_read :: "string \<Rightarrow> string \<Rightarrow> string result"
  ie_uuid4 :: "nat \<Rightarrow> string"
  ie_supported_repr :: string

section \<open>app/validators\<close>

definition compute_content_hash :: "ingest_env \<Rightarrow> string \<Rightarrow> string" where
  "compute_content_hash env content = ie_sha256 env content"

definition validate_extracted_text :: "string \<Rightarrow> string \<Rightarrow> bool \<times> string" where
  "validate_extracted_text t filename =
     (if t = [] \<or> length (strip t) < 100
      then (False, filename @ '': Only '' @ show_nat (length t) @ '' characters extracted. '' @
              ''This is likely a scanned PDF with no extractable text. '' @
              ''Please provide a digital PDF or use OCR to convert first.'')
      else let ws = py_split t
      in if ws = [] then (False, filename @ '': No readable words found.'')
      else let avg = rat_of_nat (length t) / rat_of_nat (length ws)
      in if 15 < avg
         then (False, filename @ '': Average word length '' @ fmt_fixed 1 avg @ '' '' @
                ''suggests garbled encoding. Check PDF character encoding.'')
      else let uniq = length (remdups (map lower (filter (\<lambda>w. 3 < length w) ws)))
      in if uniq < 5
         then (False, filename @ '': Very low vocabulary diversity '' @ ''('' @ show_nat uniq @
                '' unique words). Document may be '' @ ''mostly images or symbols.'')
      else (True, ''ok''))"

definition supported_extensions :: "string list" where
  "supported_extensions = [''.pdf'', ''.docx'', ''.txt'', ''.doc'']"

definition extension :: "string \<Rightarrow> string" where
  "extension f = (if contains_str ''.'' f then ''.'' @ lower (after_last (CHR ''.'') f) else [])"

definition validate_zip_contents :: "string \<Rightarrow> string list \<Rightarrow> bool \<times> string list \<times> string" where
  "validate_zip_contents supported_repr file_list =
     (let accepted = filter (\<lambda>f. extension f \<in> set supported_extensions) file_list;
          rejected = filter (\<lambda>f. extension f \<notin> set supported_extensions) file_list
      in if accepted = []
         then (False, [], ''ZIP contains no supported document files. '' @ ''Found: '' @ show_strs file_list @ ''. '' @
                 ''Supported: '' @ supported_repr)
         else (True, accepted,
           if rejected \<noteq> []
           then ''Skipped unsupported files: '' @ show_strs rejected @ ''. '' @ ''Processing: '' @ show_strs accepted
           else []))"

definition max_match_chars :: nat where
  "max_match_chars = 160"

definition scan_text :: "(string \<Rightarrow> string \<Rightarrow> string option) \<Rightarrow> injection_pattern list \<Rightarrow> string \<Rightarrow> (string \<times> string) list" where
  "scan_text search patterns t =
     (if t = [] then []
      else List.map_filter (\<lambda>pat. map_option (\<lambda>m. (ip_name pat, strip (take max_match_chars m)))
             (search (ip_regex pat) t)) patterns)"

section \<open>Chunks\<close>

record doc_chunk =
  dc_chunk_id :: string
  dc_text :: string
  dc_dense :: "rat list option"
  dc_sparse :: "(nat \<times> rat) list"
  dc_section_id :: string
  dc_section_title :: string
  dc_section_type :: string
  dc_priority :: nat
  dc_page_number :: int
  dc_filename :: string
  dc_vendor_id :: string
  dc_org_id :: string
  dc_window :: string

definition scan_chunks :: "(string \<Rightarrow> string \<Rightarrow> string option) \<Rightarrow> injection_pattern list \<Rightarrow> doc_chunk list \<Rightarrow> injection_finding list" where
  "scan_chunks search patterns chunks =
     concat (map (\<lambda>c. map (\<lambda>(pattern_name, snippet).
         \<lparr>if_chunk_id = dc_chunk_id c, if_pattern_name = pattern_name, if_matched_text = snippet,
          if_page_number = dc_page_number c\<rparr>)
       (scan_text search patterns (dc_text c))) chunks)"

section \<open>app/retrieval/pipeline.py\<close>

definition boilerplate_markers :: "string list" where
  "boilerplate_markers = [''terms and conditions'', ''legal notice'', ''disclaimer'', ''copyright'',
     ''all rights reserved'', ''confidentiality'', ''this document is confidential'']"

definition background_markers :: "string list" where
  "background_markers = [''company history'', ''about us'', ''our story'', ''founded in'', ''team bios'',
     ''management team'', ''our offices'']"

definition evidence_markers :: "string list" where
  "evidence_markers = [''certificate'', ''certification'', ''insurance'', ''sla'', ''service level'', ''case study'',
     ''project reference'', ''client testimonial'', ''award'']"

definition long_words :: "string \<Rightarrow> string list" where
  "long_words s = filter (\<lambda>w. 3 < length w) (py_split (lower s))"

definition setup_keywords :: "evaluation_setup \<Rightarrow> string list" where
  "setup_keywords setup = remdups
     (concat (map (\<lambda>c. long_words (mc_name c @ '' '' @ mc_description c)) (es_mandatory_checks setup)) @
      concat (map (\<lambda>c. long_words (sc_name c)) (es_scoring_criteria setup)) @
      concat (map (\<lambda>t. long_words (et_name t @ '' '' @ et_description t)) (es_extraction_targets setup)))"

definition classify_section :: "string \<Rightarrow> string \<Rightarrow> evaluation_setup \<Rightarrow> string" where
  "classify_section section_text section_title setup =
     (let title_lower = lower section_title; text_lower = lower section_text
      in if list_ex (\<lambda>m. contains_str m text_lower) boilerplate_markers then ''boilerplate''
         else if list_ex (\<lambda>m. contains_str m text_lower) background_markers then ''background''
         else if list_ex (\<lambda>kw. contains_str kw title_lower \<or> contains_str kw text_lower) (setup_keywords setup)
         then ''requirement_response''
         else if list_ex (\<lambda>m. contains_str m title_lower \<or> contains_str m text_lower) evidence_markers
         then ''supporting_evidence''
         else ''background'')"

definition detect_section_title :: "string \<Rightarrow> string" where
  "detect_section_title t =
     (let first_line = strip (hd (split_char (CHR 0x0A) (strip t)))
      in if length first_line < 100 \<and> first_line \<noteq> [] then first_line else ''General'')"

text \<open>The class \<open>\w\<close>, on ASCII.\<close>

definition is_word_char :: "char \<Rightarrow> bool" where
  "is_word_char c \<longleftrightarrow> is_digit c \<or> c = CHR ''_'' \<or>
     97 \<le> (of_char (lower_char c) :: nat) \<and> (of_char (lower_char c) :: nat) \<le> 122"

definition generate_section_id :: "string \<Rightarrow> string" where
  "generate_section_id title =
     (let ws = take 3 (py_split (filter (\<lambda>c. is_word_char c \<or> is_space c) (lower title)))
      in if ws \<noteq> [] then join ''-'' ws else ''general'')"

definition priority_map :: "(string, nat) dict" where
  "priority_map = [(''requirement_response'', 1), (''supporting_evidence'', 2), (''background'', 3), (''boilerplate'', 4)]"

definition extract_text :: "ingest_env \<Rightarrow> string \<Rightarrow> string \<Rightarrow> string result" where
  "extract_text env content filename =
     (if ends_str ''.pdf'' (lower filename)
      then rbind (ie_pdf_pages env content) (\<lambda>pages.
           Inr (join [CHR 0x0A, CHR 0x0A] (map (\<lambda>p. case p of None \<Rightarrow> [] | Some s \<Rightarrow> s) pages)))
      else if ends_str ''.docx'' (lower filename)
      then rbind (ie_docx_paragraphs env content) (\<lambda>ps. Inr (join [CHR 0x0A, CHR 0x0A] (filter (\<lambda>p. p \<noteq> []) ps)))
      else Inr (ie_decode env content))"

definition chunk_id_of :: "ingest_env \<Rightarrow> string \<Rightarrow> string \<Rightarrow> string \<Rightarrow> string" where
  "chunk_id_of env org_id vendor_id text_hash =
     ie_uuid_of_hex env (take 32 (ie_sha256 env (org_id @ '':'' @ vendor_id @ '':'' @ text_hash)))"

definition chunk_of_node ::
  "ingest_env \<Rightarrow> string \<Rightarrow> string \<Rightarrow> string \<Rightarrow> evaluation_setup \<Rightarrow> doc_node \<Rightarrow> string \<Rightarrow> doc_chunk" where
  "chunk_of_node env filename vendor_id org_id setup n t =
     (let section_title = (case nd_section_title n of Some s \<Rightarrow> s | None \<Rightarrow> detect_section_title t);
          section_type = classify_section t section_title setup
      in \<lparr>dc_chunk_id = chunk_id_of env org_id vendor_id (ie_md5 env t), dc_text = t, dc_dense = None,
          dc_sparse = ie_sparse env t,
          dc_section_id = (case nd_section_id n of Some s \<Rightarrow> s | None \<Rightarrow> generate_section_id section_title),
          dc_section_title = section_title, dc_section_type = section_type,
          dc_priority = get_default priority_map section_type 3,
          dc_page_number = (case nd_page_label n of Some p \<Rightarrow> p | None \<Rightarrow> 1),
          dc_filename = filename, dc_vendor_id = vendor_id, dc_org_id = org_id,
          dc_window = (case nd_window n of Some s \<Rightarrow> s | None \<Rightarrow> [])\<rparr>)"

text \<open>The loop over the nodes, with the hashes seen so far.\<close>

fun collect_chunks ::
  "ingest_env \<Rightarrow> string \<Rightarrow> string \<Rightarrow> string \<Rightarrow> evaluation_setup \<Rightarrow> string list \<Rightarrow> doc_node list \<Rightarrow> doc_chunk list" where
  "collect_chunks env filename vendor_id org_id setup seen [] = []"
| "collect_chunks env filename vendor_id org_id setup seen (n # ns) =
     (let t = strip (nd_content n); text_hash = ie_md5 env t
      in if length t < 80 then collect_chunks env filename vendor_id org_id setup seen ns
         else if text_hash \<in> set seen then collect_chunks env filename vendor_id org_id setup seen ns
         else chunk_of_node env filename vendor_id org_id setup n t #
              collect_chunks env filename vendor_id org_id setup (text_hash # seen) ns)"

text \<open>\<open>for chunk, vec in zip(chunks, dense_vectors)\<close>: a chunk beyond the vectors keeps \<open>None\<close>.\<close>

fun fill_dense :: "doc_chunk list \<Rightarrow> rat list list \<Rightarrow> doc_chunk list" where
  "fill_dense (c # cs) (v # vs) = c\<lparr>dc_dense := Some v\<rparr> # fill_dense cs vs"
| "fill_dense cs vs = cs"

definition document_nodes :: "ingest_cfg \<Rightarrow> ingest_env \<Rightarrow> string \<Rightarrow> doc_node list" where
  "document_nodes g env raw_text =
     (let csize = ic_chunk_size_tokens g
      in ie_leaf_nodes env [csize * 4, csize, csize div 4] raw_text @ ie_sentence_nodes env raw_text)"

definition process_document ::
  "ingest_cfg \<Rightarrow> ingest_env \<Rightarrow> string \<Rightarrow> string \<Rightarrow> string \<Rightarrow> string \<Rightarrow> evaluation_setup \<Rightarrow> doc_chunk list result" where
  "process_document g env content filename vendor_id org_id setup =
     rbind (extract_text env content filename) (\<lambda>raw_text.
     if raw_text = [] \<or> length (strip raw_text) < 100 then Inr []
     else let chunks = collect_chunks env filename vendor_id org_id setup [] (document_nodes g env raw_text)
          in rbind (ie_embed_batch env (map dc_text chunks)) (\<lambda>vectors. Inr (fill_dense chunks vectors)))"

section \<open>app/agents/ingestion.py\<close>

record ingest_args =
  ia_vendor_id :: string
  ia_org_id :: string
  ia_rfp_id :: string
  ia_setup :: evaluation_setup
  ia_trusted_source :: bool

definition failed_ingestion :: "ingest_env \<Rightarrow> ingest_args \<Rightarrow> string \<Rightarrow> string \<Rightarrow> string \<Rightarrow> string \<Rightarrow> ingestion_output" where
  "failed_ingestion env a doc_id filename content warning =
     \<lparr>io_doc_id = doc_id, io_vendor_id = ia_vendor_id a, io_org_id = ia_org_id a, io_filename = filename,
      io_total_chunks = 0, io_chunks_by_type = [], io_filtered_chunks = 0, io_extraction_triggered = False,
      io_quality_score = 0, io_content_hash = compute_content_hash env content, io_warnings = [warning],
      io_status = ''failed'', io_injection_findings = []\<rparr>"

definition tally :: "string list \<Rightarrow> (string, nat) dict" where
  "tally types = foldl (\<lambda>d t. dict_set t (get_default d t 0 + 1) d) [] types"

definition quality_of :: "nat \<Rightarrow> nat \<Rightarrow> bool \<Rightarrow> rat" where
  "quality_of n_chunks req_resp is_valid =
     min 1 (4 / 10 * min 1 (of_nat n_chunks / 20) + 4 / 10 * min 1 (of_nat req_resp / 5) +
            2 / 10 * (if is_valid then 1 else 3 / 10))"

definition chunk_payload :: "ingest_args \<Rightarrow> string \<Rightarrow> string \<Rightarrow> doc_chunk \<Rightarrow> (string \<times> json) list" where
  "chunk_payload a filename doc_id c =
     [(''chunk_id'', JStr (dc_chunk_id c)), (''text'', JStr (dc_text c)), (''section_id'', JStr (dc_section_id c)),
      (''section_title'', JStr (dc_section_title c)), (''section_type'', JStr (dc_section_type c)),
      (''priority'', JNum (of_nat (dc_priority c))), (''page_number'', JNum (of_int (dc_page_number c))),
      (''filename'', JStr filename), (''vendor_id'', JStr (ia_vendor_id a)), (''org_id'', JStr (ia_org_id a)),
      (''rfp_id'', JStr (ia_rfp_id a)), (''doc_id'', JStr doc_id), (''setup_id'', JStr (es_setup_id (ia_setup a)))]"

text \<open>A chunk without its dense vector does not make a \<open>PointStruct\<close>.\<close>

fun upsert_chunks ::
  "ingest_args \<Rightarrow> string \<Rightarrow> string \<Rightarrow> string \<Rightarrow> doc_chunk list \<Rightarrow> collections \<Rightarrow> unit result \<times> collections" where
  "upsert_chunks a name filename doc_id [] cs = (Inr (), cs)"
| "upsert_chunks a name filename doc_id (c # rest) cs =
     (case dc_dense c of
        None \<Rightarrow> (Inl (ValidationError ''PointStruct.vector''), cs)
      | Some v \<Rightarrow>
          (case upsert_chunk name (dc_chunk_id c) v (dc_sparse c) (chunk_payload a filename doc_id c) cs of
             Inl e \<Rightarrow> (Inl e, cs)
           | Inr cs' \<Rightarrow> upsert_chunks a name filename doc_id rest cs'))"

definition chunk_findings :: "ingest_cfg \<Rightarrow> ingest_env \<Rightarrow> ingest_args \<Rightarrow> doc_chunk list \<Rightarrow> injection_finding list" where
  "chunk_findings g env a chunks =
     (if \<not> ia_trusted_source a \<and> ic_injection_enabled g \<and> ic_patterns g \<noteq> []
      then scan_chunks (ie_search env) (ic_patterns g) chunks else [])"

definition single_output ::
  "ingest_cfg \<Rightarrow> ingest_env \<Rightarrow> ingest_args \<Rightarrow> string \<Rightarrow> string \<Rightarrow> string \<Rightarrow> doc_chunk list \<Rightarrow> ingestion_output" where
  "single_output g env a doc_id filename content chunks =
     (let (is_valid, reason) = validate_extracted_text (join '' '' (map dc_text (take 5 chunks))) filename;
          chunks_by_type = tally (map dc_section_type chunks);
          req_resp = get_default chunks_by_type ''requirement_response'' 0;
          n_chunks = length chunks
      in \<lparr>io_doc_id = doc_id, io_vendor_id = ia_vendor_id a, io_org_id = ia_org_id a, io_filename = filename,
          io_total_chunks = n_chunks, io_chunks_by_type = chunks_by_type, io_filtered_chunks = 0,
          io_extraction_triggered = 0 < req_resp, io_quality_score = quality_of n_chunks req_resp is_valid,
          io_content_hash = compute_content_hash env content,
          io_warnings = (if is_valid then [] else [reason]), io_status = ''success'',
          io_injection_findings = chunk_findings g env a chunks\<rparr>)"

type_synonym ingested = "(ingestion_output \<times> critic_output list) result \<times> collections"

definition ingest_single_file ::
  "platform_cfg \<Rightarrow> ingest_cfg \<Rightarrow> ingest_env \<Rightarrow> ingest_args \<Rightarrow> string \<Rightarrow> string \<Rightarrow> string \<Rightarrow> collections \<Rightarrow> ingested" where
  "ingest_single_file cfg g env a doc_id content filename cs =
     (case process_document g env content filename (ia_vendor_id a) (ia_org_id a) (ia_setup a) of
        Inl e \<Rightarrow> (Inl e, cs)
      | Inr chunks \<Rightarrow>
          if chunks = []
          then let out = failed_ingestion env a doc_id filename content ''No usable chunks produced from document''
               in (Inr (out, [critic_after_ingestion cfg out]), cs)
          else let out = single_output g env a doc_id filename content chunks;
                   coll_name = org_collection_name (ic_collection_prefix g) (ia_org_id a)
               in (case upsert_chunks a coll_name filename doc_id chunks (create_collection coll_name cs) of
                     (Inl e, cs') \<Rightarrow> (Inl e, cs')
                   | (Inr _, cs') \<Rightarrow> (Inr (out, [critic_after_ingestion cfg out]), cs')))"

text \<open>The loop over the accepted files of an archive; the \<open>i\<close>-th document id goes to the \<open>i\<close>-th file.\<close>

fun ingest_files ::
  "platform_cfg \<Rightarrow> ingest_cfg \<Rightarrow> ingest_env \<Rightarrow> ingest_args \<Rightarrow> string \<Rightarrow> nat \<Rightarrow> string list \<Rightarrow> collections \<Rightarrow>
     (ingestion_output list \<times> critic_output list) result \<times> collections" where
  "ingest_files cfg g env a content i [] cs = (Inr ([], []), cs)"
| "ingest_files cfg g env a content i (fname # rest) cs =
     (case ie_zip_read env content fname of
        Inl e \<Rightarrow> (Inl e, cs)
      | Inr file_bytes \<Rightarrow>
          (case ingest_single_file cfg g env a (ie_uuid4 env i) file_bytes fname cs of
             (Inl e, cs') \<Rightarrow> (Inl e, cs')
           | (Inr (out, critics), cs') \<Rightarrow>
               (case ingest_files cfg g env a content (Suc i) rest cs' of
                  (Inl e, cs'') \<Rightarrow> (Inl e, cs'')
                | (Inr (outs, later), cs'') \<Rightarrow> (Inr (out # outs, critics @ later), cs''))))"

definition merge_types :: "(string, nat) dict \<Rightarrow> (string, nat) dict \<Rightarrow> (string, nat) dict" where
  "merge_types merged types = foldl (\<lambda>d (k, v). dict_set k (get_default d k 0 + v) d) merged types"

definition zip_summary :: "ingest_env \<Rightarrow> ingest_args \<Rightarrow> string \<Rightarrow> string \<Rightarrow> string \<Rightarrow> ingestion_output list \<Rightarrow> ingestion_output" where
  "zip_summary env a zip_filename content warning outs =
     (let total_chunks = sum_list (map io_total_chunks outs)
      in \<lparr>io_doc_id = ie_uuid4 env (length outs), io_vendor_id = ia_vendor_id a, io_org_id = ia_org_id a,
          io_filename = zip_filename, io_total_chunks = total_chunks,
          io_chunks_by_type = foldl merge_types [] (map io_chunks_by_type outs),
          io_filtered_chunks = sum_list (map io_filtered_chunks outs),
          io_extraction_triggered = list_ex io_extraction_triggered outs,
          io_quality_score = (if outs \<noteq> [] then sum_list (map io_quality_score outs) / of_nat (length outs) else 0),
          io_content_hash = compute_content_hash env content,
          io_warnings = (if warning \<noteq> [] then [warning] else []),
          io_status = (if 0 < total_chunks then ''success'' else ''partial''),
          io_injection_findings = concat (map io_injection_findings outs)\<rparr>)"

definition zip_members :: "string list \<Rightarrow> string list" where
  "zip_members names = filter (\<lambda>f. \<not> starts_with ''__MACOSX'' f \<and> \<not> ends_str ''/'' f) names"

fun is_bad_zip :: "exn \<Rightarrow> bool" where
  "is_bad_zip (BadZipFile _) = True"
| "is_bad_zip _ = False"

text \<open>\<open>except zipfile.BadZipFile\<close> around the whole body of \<open>_ingest_zip\<close>.\<close>

definition caught_bad_zip :: "ingest_env \<Rightarrow> ingest_args \<Rightarrow> string \<Rightarrow> string \<Rightarrow> ingested \<Rightarrow> ingested" where
  "caught_bad_zip env a content zip_filename r = (case r of
     (Inl e, cs) \<Rightarrow>
       (if is_bad_zip e
        then Inr (failed_ingestion env a (ie_uuid4 env 0) zip_filename content (''Invalid ZIP file'' @ dash @ ''cannot unpack''), [])
        else Inl e, cs)
   | (Inr v, cs) \<Rightarrow> (Inr v, cs))"

definition ingest_zip ::
  "platform_cfg \<Rightarrow> ingest_cfg \<Rightarrow> ingest_env \<Rightarrow> ingest_args \<Rightarrow> string \<Rightarrow> string \<Rightarrow> collections \<Rightarrow> ingested" where
  "ingest_zip cfg g env a content zip_filename cs = caught_bad_zip env a content zip_filename
     (case ie_zip_names env content of
        Inl e \<Rightarrow> (Inl e, cs)
      | Inr names \<Rightarrow>
          let (is_valid, accepted, warning) = validate_zip_contents (ie_supported_repr env) (zip_members names)
          in if \<not> is_valid
             then (Inr (failed_ingestion env a (ie_uuid4 env 0) zip_filename content (''ZIP invalid: '' @ warning), []), cs)
             else (case ingest_files cfg g env a content 0 accepted cs of
                     (Inl e, cs') \<Rightarrow> (Inl e, cs')
                   | (Inr (outs, critics), cs') \<Rightarrow> (Inr (zip_summary env a zip_filename content warning outs, critics), cs')))"

definition run_ingestion_agent ::
  "platform_cfg \<Rightarrow> ingest_cfg \<Rightarrow> ingest_env \<Rightarrow> ingest_args \<Rightarrow> string \<Rightarrow> string \<Rightarrow> collections \<Rightarrow> ingested" where
  "run_ingestion_agent cfg g env a content filename cs =
     (if ends_str ''.zip'' (lower filename) then ingest_zip cfg g env a content filename cs
      else ingest_single_file cfg g env a (ie_uuid4 env 0) content filename cs)"

end
