(* ===== verification/Ingest_Laws.thy ===== *)
theory Ingest_Laws
  imports Ingest Critic_Laws Nodes
begin

text \<open>
  What the ingestion guarantees. A document with enough chunks that match an injection pattern gets a
  BLOCKED critic, and the pipeline's gate raises on it (\<open>injected_file_blocks\<close>, \<open>injected_archive_blocks\<close>). The
  ids of a document's chunks depend on the organisation, the vendor and the text alone
  (\<open>process_document_ids\<close>), so a second ingestion replaces the points of the first
  (\<open>upsert_chunks_ids\<close>, \<open>upsert_chunks_stamped\<close>).
\<close>

section \<open>Injection\<close>

definition poisoned :: "ingest_cfg \<Rightarrow> ingest_env \<Rightarrow> doc_chunk \<Rightarrow> bool" where
  "poisoned g env c \<longleftrightarrow> dc_text c \<noteq> [] \<and> list_ex (\<lambda>p. ie_search env (ip_regex p) (dc_text c) \<noteq> None) (ic_patterns g)"

lemma scan_text_Nil_iff:
  "scan_text search patterns t = [] \<longleftrightarrow> t = [] \<or> list_all (\<lambda>p. search (ip_regex p) t = None) patterns"
  by (induction patterns) (auto simp: scan_text_def map_filter_simps split: option.splits)

lemma scan_chunks_ids:
  "if_chunk_id ` set (scan_chunks (ie_search env) (ic_patterns g) chunks) =
   dc_chunk_id ` {c \<in> set chunks. poisoned g env c}"
proof (induction chunks)
  case Nil
  then show ?case by (simp add: scan_chunks_def)
next
  case (Cons c cs)
  let ?hits = "scan_text (ie_search env) (ic_patterns g) (dc_text c)"
  have "poisoned g env c \<longleftrightarrow> ?hits \<noteq> []"
    by (auto simp: poisoned_def scan_text_Nil_iff list_ex_iff list_all_iff)
  moreover have "if_chunk_id ` set (map (\<lambda>(n, s). \<lparr>if_chunk_id = dc_chunk_id c, if_pattern_name = n, if_matched_text = s,
      if_page_number = dc_page_number c\<rparr>) ?hits) = (if ?hits = [] then {} else {dc_chunk_id c})"
    by (cases ?hits) (auto simp: split_def)
  moreover have "{x \<in> set (c # cs). poisoned g env x} =
      (if poisoned g env c then insert c {x \<in> set cs. poisoned g env x} else {x \<in> set cs. poisoned g env x})" by auto
  ultimately show ?case using Cons by (simp add: scan_chunks_def image_Un)
qed

definition injected :: "platform_cfg \<Rightarrow> ingest_cfg \<Rightarrow> ingest_env \<Rightarrow> ingest_args \<Rightarrow> string \<Rightarrow> string \<Rightarrow> bool" where
  "injected cfg g env a content filename \<longleftrightarrow>
     \<not> ia_trusted_source a \<and> ic_injection_enabled g \<and>
     (case process_document g env content filename (ia_vendor_id a) (ia_org_id a) (ia_setup a) of
        Inl _ \<Rightarrow> False
      | Inr chunks \<Rightarrow>
          list_ex (poisoned g env) chunks \<and>
          pc_injection_block_threshold cfg \<le> length (remdups (map dc_chunk_id (filter (poisoned g env) chunks))))"

definition blocks :: "critic_output list \<Rightarrow> bool" where
  "blocks critics \<longleftrightarrow> list_ex (\<lambda>c. co_overall_verdict c = BLOCKED) critics"

lemma blocks_append [simp]: "blocks (xs @ ys) \<longleftrightarrow> blocks xs \<or> blocks ys"
  by (simp add: blocks_def)

lemma block_all_raises: "blocks critics \<longleftrightarrow> (\<exists>e. block_all critics ctx = Inl e)"
  by (induction critics) (auto simp: blocks_def hard_block_if_def)

lemma findings_block:
  assumes "io_injection_findings out \<noteq> []"
    and "pc_injection_block_threshold cfg \<le> length (remdups (map if_chunk_id (io_injection_findings out)))"
  shows "co_overall_verdict (critic_after_ingestion cfg out) = BLOCKED"
proof -
  have "\<exists>f \<in> set (injection_flags cfg out). cf_severity f = HARD"
    using assms by (simp add: injection_flags_def Let_def make_flag_def)
  then show ?thesis unfolding ingestion_critic.blocked_iff by (auto simp: critic_after_ingestion_def critic_out_def)
qed

lemma single_output_findings [simp]:
  "io_injection_findings (single_output g env a doc_id filename content chunks) = chunk_findings g env a chunks"
  by (simp add: single_output_def split_def Let_def)

lemma single_output_status [simp]: "io_status (single_output g env a doc_id filename content chunks) = ''success''"
  by (simp add: single_output_def split_def Let_def)

lemma injected_file_blocks:
  assumes "injected cfg g env a content filename"
    and "ingest_single_file cfg g env a doc_id content filename cs = (Inr (out, critics), cs')"
  shows "blocks critics \<and> io_status out = ''success''"
proof -
  obtain chunks where chunks: "process_document g env content filename (ia_vendor_id a) (ia_org_id a) (ia_setup a) = Inr chunks"
      and some: "list_ex (poisoned g env) chunks"
      and many: "pc_injection_block_threshold cfg \<le> length (remdups (map dc_chunk_id (filter (poisoned g env) chunks)))"
      and on: "\<not> ia_trusted_source a" "ic_injection_enabled g"
    using assms(1) by (auto simp: injected_def split: sum.splits)
  then have out: "out = single_output g env a doc_id filename content chunks" "critics = [critic_after_ingestion cfg out]"
    using assms(2) by (auto simp: ingest_single_file_def Let_def split: prod.splits sum.splits if_splits)
  have "ic_patterns g \<noteq> []" using some by (auto simp: list_ex_iff poisoned_def)
  then have f: "io_injection_findings out = scan_chunks (ie_search env) (ic_patterns g) chunks"
    using on by (simp add: out(1) chunk_findings_def)
  have ids: "set (map if_chunk_id (io_injection_findings out)) = set (map dc_chunk_id (filter (poisoned g env) chunks))"
    by (simp add: f scan_chunks_ids)
  then have "io_injection_findings out \<noteq> []" using some by (auto simp: list_ex_iff)
  moreover have "pc_injection_block_threshold cfg \<le> length (remdups (map if_chunk_id (io_injection_findings out)))"
    using many ids by (simp add: length_remdups_card_conv)
  ultimately show ?thesis using findings_block[of out cfg] by (simp add: out blocks_def)
qed

text \<open>The loop over an archive keeps every critic.\<close>

lemma injected_archive_blocks:
  assumes "ingest_files cfg g env a content i accepted cs = (Inr (outs, critics), cs')"
    and "fname \<in> set accepted" "ie_zip_read env content fname = Inr file_bytes" "injected cfg g env a file_bytes fname"
  shows "blocks critics"
  using assms(1,2)
proof (induction accepted arbitrary: i cs outs critics)
  case (Cons f rest)
  from Cons.prems(1) obtain b out1 critics1 cs1 outs2 critics2 where
      b: "ie_zip_read env content f = Inr b" and one: "ingest_single_file cfg g env a (ie_uuid4 env i) b f cs = (Inr (out1, critics1), cs1)"
      and rest: "ingest_files cfg g env a content (Suc i) rest cs1 = (Inr (outs2, critics2), cs')" "critics = critics1 @ critics2"
    by (auto split: sum.splits prod.splits)
  show ?case
  proof (cases "f = fname")
    case True
    then show ?thesis using injected_file_blocks[OF assms(4)] one b assms(3) rest(2) by auto
  next
    case False
    then show ?thesis using Cons.IH[OF rest(1)] Cons.prems(2) rest(2) by auto
  qed
qed simp

text \<open>The documents of a submission: the file itself, or the accepted members of an archive.\<close>

definition submission_files :: "ingest_env \<Rightarrow> string \<Rightarrow> string \<Rightarrow> (string \<times> string result) list" where
  "submission_files env content filename =
     (if ends_str ''.zip'' (lower filename)
      then (case ie_zip_names env content of
              Inl _ \<Rightarrow> []
            | Inr names \<Rightarrow> map (\<lambda>f. (f, ie_zip_read env content f))
                (fst (snd (validate_zip_contents (ie_supported_repr env) (zip_members names)))))
      else [(filename, Inr content)])"

lemma failed_ingestion_status [simp]: "io_status (failed_ingestion env a d f c w) = ''failed''"
  by (simp add: failed_ingestion_def)

lemma caught_bad_zip_Inr:
  assumes "caught_bad_zip env a content filename r = (Inr (out, critics), cs')"
  shows "r = (Inr (out, critics), cs') \<or> io_status out = ''failed'' \<and> critics = [] \<and> (\<exists>e. r = (Inl e, cs') \<and> is_bad_zip e)"
  using assms by (auto simp: caught_bad_zip_def split: prod.splits sum.splits if_splits)

lemma injected_submission_blocks:
  assumes "run_ingestion_agent cfg g env a content filename cs = (Inr (out, critics), cs')"
    and "(f, Inr file_bytes) \<in> set (submission_files env content filename)"
    and "injected cfg g env a file_bytes f" and "io_status out \<noteq> ''failed''"
  shows "blocks critics"
proof (cases "ends_str ''.zip'' (lower filename)")
  case False
  then show ?thesis using assms injected_file_blocks by (auto simp: run_ingestion_agent_def submission_files_def)
next
  case True
  then have run: "ingest_zip cfg g env a content filename cs = (Inr (out, critics), cs')"
    using assms(1) by (simp add: run_ingestion_agent_def)
  obtain names where names: "ie_zip_names env content = Inr names"
    using assms(2) True by (cases "ie_zip_names env content") (auto simp: submission_files_def)
  obtain ok accepted warning where v: "validate_zip_contents (ie_supported_repr env) (zip_members names) = (ok, accepted, warning)"
    by (metis prod_cases3)
  have f: "f \<in> set accepted" "ie_zip_read env content f = Inr file_bytes"
    using assms(2) True by (auto simp: submission_files_def names v)
  have r: "(if \<not> ok then (Inr (failed_ingestion env a (ie_uuid4 env 0) filename content (''ZIP invalid: '' @ warning), []), cs)
      else (case ingest_files cfg g env a content 0 accepted cs of
              (Inl e, cs') \<Rightarrow> (Inl e, cs')
            | (Inr (outs, critics), cs') \<Rightarrow> (Inr (zip_summary env a filename content warning outs, critics), cs'))) =
      (Inr (out, critics), cs')"
    using caught_bad_zip_Inr[OF run[unfolded ingest_zip_def]] assms(4) by (auto simp: names v)
  then obtain outs where "ingest_files cfg g env a content 0 accepted cs = (Inr (outs, critics), cs')"
    using assms(4) by (auto split: if_splits prod.splits sum.splits)
  then show ?thesis using injected_archive_blocks f assms(3) by blast
qed

section \<open>The gate of the ingestion node\<close>

lemma ingest_vendors_blocked:
  assumes "(vid, filename) \<in> set files" and "\<And>ctx. \<exists>e. ingest_one w vid ctx = Inl e"
  shows "\<exists>e. ingest_vendors w files = Inl e"
  using assms(1)
proof (induction files)
  case (Cons f rest)
  obtain v n where f: "f = (v, n)" by fastforce
  show ?case
  proof (cases "(vid, filename) = f")
    case True
    with assms(2) f show ?thesis by (metis Pair_inject ingest_vendors.simps(2) rbind.simps(1))
  next
    case False
    then have "\<exists>e. ingest_vendors w rest = Inl e" using Cons by auto
    then show ?thesis using f by (cases "ingest_one w v (''ingestion/'' @ n @ '' (vendor='' @ v @ '')'')") auto
  qed
qed simp

lemma ingestion_node_blocked:
  assumes "(vid, filename) \<in> set (ps_vendor_file_map s)" and "\<not> wd_facts_extracted w ''ingestion'' vid"
    and "\<And>ctx. \<exists>e. ingest_one w vid ctx = Inl e"
  shows "\<exists>us es. ingestion_node w s = Inr (us, es) \<and> Blocked True \<in> set us"
proof -
  have "\<not> list_all (\<lambda>(vid, _). wd_facts_extracted w ''ingestion'' vid) (ps_vendor_file_map s)"
    using assms(1,2) by (auto simp: list_all_iff)
  moreover obtain e where "ingest_vendors w (ps_vendor_file_map s) = Inl e"
    using ingest_vendors_blocked[OF assms(1,3)] by blast
  ultimately show ?thesis
    by (cases "ingest_one w ''rfp'' (''ingestion/'' @ ps_rfp_filename s)")
      (auto simp: ingestion_node_def Let_def guarded_def block_update_def)
qed

section \<open>A damaged member of an archive\<close>

text \<open>The exception of a later member discards the critics of the members before it; what these put
  into the vector store stays.\<close>

lemma damaged_member:
  assumes "ie_zip_names env content = Inr names"
    and "validate_zip_contents (ie_supported_repr env) (zip_members names) = (True, fname # broken # rest, warning)"
    and "ie_zip_read env content fname = Inr file_bytes"
    and "ingest_single_file cfg g env a (ie_uuid4 env 0) file_bytes fname cs = (Inr (out1, critics1), cs1)"
    and "ie_zip_read env content broken = Inl (BadZipFile m)"
  shows "\<exists>out. ingest_zip cfg g env a content zip_filename cs = (Inr (out, []), cs1) \<and> io_status out = ''failed''"
  using assms by (simp add: ingest_zip_def caught_bad_zip_def)

lemma damaged_docx:
  assumes "ie_zip_names env content = Inr names"
    and "validate_zip_contents (ie_supported_repr env) (zip_members names) = (True, fname # broken # rest, warning)"
    and "ie_zip_read env content fname = Inr file_bytes" "ie_zip_read env content broken = Inr b2"
    and "ingest_single_file cfg g env a (ie_uuid4 env 0) file_bytes fname cs = (Inr (out1, critics1), cs1)"
    and "ends_str ''.docx'' (lower broken)" "\<not> ends_str ''.pdf'' (lower broken)" "ie_docx_paragraphs env b2 = Inl (BadZipFile m)"
  shows "\<exists>out. ingest_zip cfg g env a content zip_filename cs = (Inr (out, []), cs1) \<and> io_status out = ''failed''"
proof -
  have "process_document g env b2 broken (ia_vendor_id a) (ia_org_id a) (ia_setup a) = Inl (BadZipFile m)"
    using assms(6-8) by (simp add: process_document_def extract_text_def)
  then show ?thesis
    using assms(1-5) by (simp add: ingest_zip_def caught_bad_zip_def ingest_single_file_def[of _ _ _ _ _ _ broken])
qed

text \<open>A member without usable text stops the pipeline, whatever the others hold.\<close>

lemma failed_ingestion_blocked:
  "co_overall_verdict (critic_after_ingestion cfg (failed_ingestion env a d f c w)) = BLOCKED"
proof -
  have "\<exists>fl \<in> set (co_flags (critic_after_ingestion cfg (failed_ingestion env a d f c w))). cf_severity fl = HARD"
    by (simp add: critic_after_ingestion_def critic_out_def failed_ingestion_def make_flag_def)
  then show ?thesis unfolding ingestion_critic.blocked_iff .
qed

section \<open>The chunks of a document\<close>

lemma collect_chunks_fresh:
  "c \<in> set (collect_chunks env f v r st seen ns) \<Longrightarrow>
     ie_md5 env (dc_text c) \<notin> set seen \<and> 80 \<le> length (dc_text c) \<and>
     dc_chunk_id c = chunk_id_of env r v (ie_md5 env (dc_text c))"
  by (induction env f v r st seen ns rule: collect_chunks.induct)
    (auto simp: Let_def chunk_of_node_def split: if_splits)

lemma collect_chunks_distinct:
  "distinct (map (\<lambda>c. ie_md5 env (dc_text c)) (collect_chunks env f v r st seen ns))"
  by (induction env f v r st seen ns rule: collect_chunks.induct)
    (auto simp: Let_def chunk_of_node_def dest: collect_chunks_fresh)

lemma collect_chunks_texts:
  "map dc_text (collect_chunks env f1 v1 r1 setup1 seen ns) = map dc_text (collect_chunks env f2 v2 r2 setup2 seen ns)"
  by (induction ns arbitrary: seen) (auto simp: Let_def chunk_of_node_def)

lemma collect_chunks_ids:
  "map dc_chunk_id (collect_chunks env f1 v r setup1 seen ns) = map dc_chunk_id (collect_chunks env f2 v r setup2 seen ns)"
  by (induction ns arbitrary: seen) (auto simp: Let_def chunk_of_node_def)

lemma fill_dense_keeps [simp]:
  "map dc_chunk_id (fill_dense cs vs) = map dc_chunk_id cs" "map dc_text (fill_dense cs vs) = map dc_text cs"
  by (induction cs vs rule: fill_dense.induct) auto

lemma process_document_ids:
  assumes "process_document g env content filename v r setup1 = Inr chunks1"
    and "process_document g env content filename v r setup2 = Inr chunks2"
  shows "map dc_chunk_id chunks1 = map dc_chunk_id chunks2"
proof -
  obtain raw where raw: "extract_text env content filename = Inr raw" using assms(1) by (auto simp: process_document_def rbind_Inr_iff)
  show ?thesis
  proof (cases "raw = [] \<or> length (strip raw) < 100")
    case True
    then show ?thesis using assms by (auto simp: process_document_def raw)
  next
    case False
    let ?collect = "\<lambda>st. collect_chunks env filename v r st [] (document_nodes g env raw)"
    obtain vs1 vs2 where "chunks1 = fill_dense (?collect setup1) vs1" "chunks2 = fill_dense (?collect setup2) vs2"
      using assms False by (auto simp: process_document_def raw Let_def rbind_Inr_iff)
    then show ?thesis using collect_chunks_ids[of env filename v r setup1 "[]" "document_nodes g env raw" filename setup2] by simp
  qed
qed

section \<open>Upserting the chunks\<close>

lemma upsert_chunks_ids:
  assumes "upsert_chunks a name filename doc_id chunks cs = (Inr (), cs')"
  shows "set (map pt_id (points_of name cs')) = set (map pt_id (points_of name cs)) \<union> set (map dc_chunk_id chunks)"
  using assms
proof (induction chunks arbitrary: cs)
  case (Cons c rest)
  then obtain v cs1 where one: "upsert_chunk name (dc_chunk_id c) v (dc_sparse c) (chunk_payload a filename doc_id c) cs = Inr cs1"
      and rest: "upsert_chunks a name filename doc_id rest cs1 = (Inr (), cs')"
    by (auto split: option.splits sum.splits)
  have "set (map pt_id (points_of name cs1)) = insert (dc_chunk_id c) (set (map pt_id (points_of name cs)))"
    by (auto simp: upsert_points[OF one] put_point_ids)
  then show ?case using Cons.IH[OF rest] by simp
qed simp

lemma put_known_ids: "pt_id p \<in> set (map pt_id ps) \<Longrightarrow> map pt_id (put_point p ps) = map pt_id ps"
  by (simp add: put_point_ids)

lemma upsert_known_chunks:
  assumes "upsert_chunks a name filename doc_id chunks cs = (Inr (), cs')"
    and "set (map dc_chunk_id chunks) \<subseteq> set (map pt_id (points_of name cs))"
  shows "map pt_id (points_of name cs') = map pt_id (points_of name cs)"
  using assms
proof (induction chunks arbitrary: cs)
  case (Cons c rest)
  then obtain v cs1 where one: "upsert_chunk name (dc_chunk_id c) v (dc_sparse c) (chunk_payload a filename doc_id c) cs = Inr cs1"
      and rest: "upsert_chunks a name filename doc_id rest cs1 = (Inr (), cs')"
    by (auto split: option.splits sum.splits)
  have "map pt_id (points_of name cs1) = map pt_id (points_of name cs)"
    using Cons.prems(2) by (simp add: upsert_points[OF one] put_known_ids)
  then show ?case using Cons.IH[OF rest] Cons.prems(2) by (metis (no_types, lifting) list.map(2) set_subset_Cons subset_trans)
qed simp

text \<open>A point carries the payload of the last upsert of its id.\<close>

definition stamped :: "ingest_args \<Rightarrow> point \<Rightarrow> bool" where
  "stamped a p \<longleftrightarrow> meets [(''org_id'', ia_org_id a), (''setup_id'', es_setup_id (ia_setup a))] p"

lemma upsert_chunks_stamped:
  assumes "upsert_chunks a name filename doc_id chunks cs = (Inr (), cs')"
    and "p \<in> set (points_of name cs')" and "pt_id p \<in> set (map dc_chunk_id chunks) \<or> stamped a p \<or> p \<notin> set (points_of name cs)"
  shows "stamped a p"
  using assms
proof (induction chunks arbitrary: cs)
  case Nil
  then show ?case by auto
next
  case (Cons c rest)
  from Cons.prems(1) obtain v cs1 where one: "upsert_chunk name (dc_chunk_id c) v (dc_sparse c) (chunk_payload a filename doc_id c) cs = Inr cs1"
      and rest: "upsert_chunks a name filename doc_id rest cs1 = (Inr (), cs')"
    by (auto split: option.splits sum.splits)
  let ?new = "\<lparr>pt_id = dc_chunk_id c, pt_dense = v, pt_sparse = dc_sparse c,
     pt_payload = dict_set ''chunk_id'' (JStr (dc_chunk_id c)) (chunk_payload a filename doc_id c)\<rparr>"
  have new: "stamped a ?new" by (simp add: stamped_def meets_def chunk_payload_def)
  have pts: "set (points_of name cs1) = insert ?new {q \<in> set (points_of name cs). pt_id q \<noteq> dc_chunk_id c}"
    by (simp add: upsert_points[OF one] put_point_set)
  have "pt_id p \<in> set (map dc_chunk_id rest) \<or> stamped a p \<or> p \<notin> set (points_of name cs1)"
    using Cons.prems(3) new by (auto simp: pts)
  then show ?case by (rule Cons.IH[OF rest Cons.prems(2)])
qed

section \<open>Ingesting a document again\<close>

lemma ingest_single_Inr:
  assumes "ingest_single_file cfg g env a doc_id content filename cs = (Inr (out, critics), cs')"
    and "process_document g env content filename (ia_vendor_id a) (ia_org_id a) (ia_setup a) = Inr chunks"
  shows "chunks = [] \<and> cs' = cs \<or> chunks \<noteq> [] \<and>
    upsert_chunks a (org_collection_name (ic_collection_prefix g) (ia_org_id a)) filename doc_id chunks
      (create_collection (org_collection_name (ic_collection_prefix g) (ia_org_id a)) cs) = (Inr (), cs')"
  using assms by (auto simp: ingest_single_file_def Let_def split: if_splits prod.splits sum.splits)

lemma ingested_twice:
  assumes r1: "ingest_single_file cfg g env a1 d1 content filename cs = (Inr (out1, critics1), cs1)"
    and r2: "ingest_single_file cfg g env a2 d2 content filename cs1 = (Inr (out2, critics2), cs2)"
    and same: "ia_org_id a2 = ia_org_id a1" "ia_vendor_id a2 = ia_vendor_id a1"
    and doc: "process_document g env content filename (ia_vendor_id a1) (ia_org_id a1) (ia_setup a1) = Inr chunks"
  defines "name \<equiv> org_collection_name (ic_collection_prefix g) (ia_org_id a1)"
  shows "map pt_id (points_of name cs2) = map pt_id (points_of name cs1)"
    and "set (map dc_chunk_id chunks) \<subseteq> set (map pt_id (points_of name cs1))"
    and "set (map dc_chunk_id chunks) \<inter>
      set (map pt_id (points_of name (snd (delete_setup_data (ic_collection_prefix g) (ia_org_id a1) (es_setup_id (ia_setup a2)) cs2)))) = {}"
proof -
  obtain chunks2 where doc2: "process_document g env content filename (ia_vendor_id a2) (ia_org_id a2) (ia_setup a2) = Inr chunks2"
    using r2 by (auto simp: ingest_single_file_def split: sum.splits)
  have ids: "map dc_chunk_id chunks2 = map dc_chunk_id chunks"
    using process_document_ids[OF doc2[unfolded same] doc] .
  note u1 = ingest_single_Inr[OF r1 doc, folded name_def]
  note u2 = ingest_single_Inr[OF r2 doc2, unfolded same, folded name_def]
  show sub: "set (map dc_chunk_id chunks) \<subseteq> set (map pt_id (points_of name cs1))"
    using u1 upsert_chunks_ids[of a1 name filename d1 chunks "create_collection name cs" cs1] by auto
  then show "map pt_id (points_of name cs2) = map pt_id (points_of name cs1)"
    using u2 upsert_known_chunks[of a2 name filename d2 chunks2 "create_collection name cs1" cs2] ids
    by (auto simp del: set_map)
  have "stamped a2 p" if p: "p \<in> set (points_of name cs2)" "c \<in> set chunks" "pt_id p = dc_chunk_id c" for p c
  proof -
    have "pt_id p \<in> set (map dc_chunk_id chunks2)" unfolding ids using p by simp
    moreover from this have "chunks2 \<noteq> []" by auto
    ultimately show ?thesis
      using u2 upsert_chunks_stamped[of a2 name filename d2 chunks2 "create_collection name cs1" cs2 p] p(1) by blast
  qed
  then show "set (map dc_chunk_id chunks) \<inter>
      set (map pt_id (points_of name (snd (delete_setup_data (ic_collection_prefix g) (ia_org_id a1) (es_setup_id (ia_setup a2)) cs2)))) = {}"
    by (force simp: delete_setup_data_def delete_filtered_points name_def[symmetric] delete_points_def stamped_def same)
qed

section \<open>Quality\<close>

lemma quality_bounds: "0 \<le> quality_of n k ok \<and> quality_of n k ok \<le> 1"
  by (auto simp: quality_of_def)

lemma single_output_quality: "0 \<le> io_quality_score (single_output g env a d f c chunks) \<and> io_quality_score (single_output g env a d f c chunks) \<le> 1"
  using quality_bounds by (simp add: single_output_def split_def Let_def)

lemma zip_quality:
  assumes "\<And>out. out \<in> set outs \<Longrightarrow> 0 \<le> io_quality_score out \<and> io_quality_score out \<le> 1"
  shows "0 \<le> io_quality_score (zip_summary env a f c w outs) \<and> io_quality_score (zip_summary env a f c w outs) \<le> 1"
proof -
  have "0 \<le> sum_list (map io_quality_score outs) \<and> sum_list (map io_quality_score outs) \<le> of_nat (length outs)"
    using assms by (induction outs) (auto simp: add_mono add_nonneg_nonneg)
  then show ?thesis by (auto simp: zip_summary_def Let_def divide_le_eq_1)
qed

end
