(* ===== verification/Production.thy ===== *)
theory Production
  imports Ingest Tick_Laws
begin

text \<open>
  The agents the background jobs run in production, \<open>real_agents\<close> of \<open>app/pipeline/ingestion_graph.py\<close>: the
  ingestion agent, whose critic is dropped, and a retrieval followed by an extraction. The keyword call of the
  retrieval agent is checked against the signature in \<open>app/agents/retrieval.py\<close>; it never binds, so
  every job of a production tick fails (\<open>production_job_fails\<close>). Parameters: the stored setups, what the
  vector store holds when a job is ingested, and whatever would follow the call.
\<close>

section \<open>Keyword calls\<close>

definition missing_message :: "string \<Rightarrow> string list \<Rightarrow> string" where
  "missing_message fname missing =
     fname @ ''() missing '' @ show_nat (length missing) @ '' required positional argument'' @
     (if length missing = 1 then [] else ''s'') @ '': '' @
     (if length missing \<le> 2 then join '' and '' (map quoted missing)
      else join '', '' (map quoted (butlast missing)) @ '', and '' @ quoted (last missing))"

text \<open>Python binds a call with keyword arguments only: unknown names raise before missing ones.\<close>

definition bind_kwargs :: "string \<Rightarrow> string list \<Rightarrow> string list \<Rightarrow> string list \<Rightarrow> unit result" where
  "bind_kwargs fname required optional kwargs =
     (case List.find (\<lambda>k. k \<notin> set required \<and> k \<notin> set optional) kwargs of
        Some k \<Rightarrow> Inl (TypeError (fname @ ''() got an unexpected keyword argument '' @ quoted k))
      | None \<Rightarrow>
          let missing = filter (\<lambda>p. p \<notin> set kwargs) required
          in if missing = [] then Inr () else Inl (TypeError (missing_message fname missing)))"

lemma bind_kwargs_ok_iff:
  "bind_kwargs fname required optional kwargs = Inr () \<longleftrightarrow>
     set kwargs \<subseteq> set required \<union> set optional \<and> set required \<subseteq> set kwargs"
  by (auto simp: bind_kwargs_def Let_def find_None_iff find_Some_iff filter_empty_conv split: option.splits)
    (meson UnE nth_mem subsetD)

definition retrieval_required :: "string list" where
  "retrieval_required = [''query'', ''vendor_id'', ''org_id'', ''rfp_id'']"

definition retrieval_optional :: "string list" where
  "retrieval_optional = [''use_hyde'', ''use_rewriting'', ''n_candidates'', ''n_final'', ''is_mandatory_check'',
     ''section_type_filter'', ''org_settings'', ''run_id'', ''criterion_id'']"

section \<open>real_agents\<close>

record production =
  pr_setups :: "string \<Rightarrow> string \<Rightarrow> evaluation_setup result"
  pr_stores :: "job \<Rightarrow> collections"
  pr_after :: "job \<Rightarrow> string \<Rightarrow> string \<Rightarrow> evaluation_setup \<Rightarrow> nat result"

definition real_ingest ::
  "platform_cfg \<Rightarrow> ingest_cfg \<Rightarrow> ingest_env \<Rightarrow> production \<Rightarrow> job \<Rightarrow> string \<Rightarrow> string \<Rightarrow> string \<Rightarrow> string result" where
  "real_ingest cfg g env p j content filename setup_id =
     rbind (pr_setups p setup_id (jb_org j)) (\<lambda>setup.
     rbind (fst (run_ingestion_agent cfg g env
       \<lparr>ia_vendor_id = jb_vendor j, ia_org_id = jb_org j, ia_rfp_id = jb_rfp j, ia_setup = setup, ia_trusted_source = False\<rparr>
       content filename (pr_stores p j))) (\<lambda>(ingestion_out, _). Inr (io_doc_id ingestion_out)))"

definition real_extract :: "production \<Rightarrow> job \<Rightarrow> string \<Rightarrow> string \<Rightarrow> nat result" where
  "real_extract p j doc_id setup_id =
     rbind (pr_setups p setup_id (jb_org j)) (\<lambda>setup.
     rbind (bind_kwargs ''run_retrieval_agent'' retrieval_required retrieval_optional
       [''doc_id'', ''vendor_id'', ''org_id'', ''rfp_id'', ''evaluation_setup'']) (\<lambda>_.
     pr_after p j doc_id setup_id setup))"

definition real_agents :: "platform_cfg \<Rightarrow> ingest_cfg \<Rightarrow> ingest_env \<Rightarrow> production \<Rightarrow> job_env \<Rightarrow> job_env" where
  "real_agents cfg g env p base = base\<lparr>je_ingest := real_ingest cfg g env p, je_extract := real_extract p\<rparr>"

section \<open>Every job fails\<close>

lemma retrieval_call_raises:
  "bind_kwargs ''run_retrieval_agent'' retrieval_required retrieval_optional
     [''doc_id'', ''vendor_id'', ''org_id'', ''rfp_id'', ''evaluation_setup''] =
   Inl (TypeError (''run_retrieval_agent() got an unexpected keyword argument '' @ quoted ''doc_id''))"
  by (simp add: bind_kwargs_def retrieval_required_def retrieval_optional_def)

lemma real_extract_raises: "\<exists>e. real_extract p j doc_id setup_id = Inl e"
  by (cases "pr_setups p setup_id (jb_org j)") (simp_all add: real_extract_def retrieval_call_raises)

lemma production_job_fails: "\<exists>reason. job_outcome (real_agents cfg g env p base) j = Inl reason"
proof -
  have no: "real_extract p j d s \<noteq> Inr n" for d s n by (metis real_extract_raises sum.distinct(1))
  have "je_extract (real_agents cfg g env p base) = real_extract p" by (simp add: real_agents_def)
  then show ?thesis
    by (cases "job_outcome (real_agents cfg g env p base) j")
      (auto simp: job_outcome_def no split: sum.splits option.splits)
qed

lemma production_status:
  "status_after (real_agents cfg g env p base) j = (if jb_status j \<in> {JobReceived, JobQueued} then JobFailed else jb_status j)"
proof -
  have "\<not> succeeds (real_agents cfg g env p base) j"
    using production_job_fails[of cfg g env p base "j\<lparr>jb_status := JobQueued\<rparr>"] by (auto simp: succeeds_def)
  then show ?thesis by (simp add: status_after_def)
qed

lemma settled_production: "jb_status (settled (real_agents cfg g env p base) j) = JobFailed"
  using production_job_fails[of cfg g env p base j] by (auto simp: settled_status)

lemma production_ready:
  "jb_status (after_tick (real_agents cfg g env p base) now t j) = JobFactsReady \<longleftrightarrow> jb_status j = JobFactsReady"
  by (auto simp: after_tick_def Let_def settled_production after_queue_def)

lemma production_row:
  assumes "wf_tables t" and "r \<in> set (tb_rfps t)" and "expired now r"
    and "\<forall>j \<in> set (tb_jobs t). jb_rfp j = rf_id r \<longrightarrow> jb_status j \<notin> {JobProcessing, JobFactsReady}"
  shows "map rf_status (filter (\<lambda>q. rf_id q = rf_id r) (tb_rfps (fst (tick (real_agents cfg g env p base) now t)))) =
    [RfpProcessing]"
proof -
  let ?env = "real_agents cfg g env p base"
  have "filter (\<lambda>q. rf_id q = rf_id r) (tb_rfps t) = [r]" by (rule only_rfp[OF assms(1,2)])
  moreover have "\<not> complete (processed ?env now t) (after_close now r)"
    using complete_after_processing[OF assms(2,3), of ?env] assms(4) by (auto simp: production_status)
  ultimately show ?thesis
    using assms(3)
    by (simp add: tick_rfps[OF assms(1)] filter_map comp_def) (simp add: after_flip_def after_close_def expired_def)
qed

end
