(* ===== verification/Demo_Store.thy ===== *)
theory Demo_Store
  imports Demo Retrieve_Laws Ingest_Laws Production Demo_Jobs
begin

text \<open>
  Concrete inputs for the witnesses about the vector store, ingestion and the production agents: one
  vendor document of a hundred and twenty letters that matches the only injection pattern, an archive of
  that document and a damaged one, and a store with two vendors' points. Nothing here models code.
\<close>

definition demo_text :: string where
  "demo_text = replicate 120 (CHR ''x'')"

definition demo_icfg :: ingest_cfg where
  "demo_icfg = \<lparr>ic_chunk_size_tokens = 512, ic_injection_enabled = True,
     ic_patterns = [\<lparr>ip_name = ''role'', ip_regex = ''x''\<rparr>], ic_collection_prefix = ''c''\<rparr>"

definition demo_ienv :: ingest_env where
  "demo_ienv =
     \<lparr>ie_pdf_pages = (\<lambda>_. Inl (ExternalError ''PdfReadError'')),
      ie_docx_paragraphs = (\<lambda>_. Inl (BadZipFile ''File is not a zip file'')), ie_decode = (\<lambda>b. b),
      ie_leaf_nodes = (\<lambda>_ t. [\<lparr>nd_content = t, nd_section_title = None, nd_section_id = None, nd_page_label = None, nd_window = None\<rparr>]),
      ie_sentence_nodes = (\<lambda>_. []), ie_md5 = (\<lambda>s. s), ie_sha256 = (\<lambda>s. s), ie_uuid_of_hex = (\<lambda>s. s),
      ie_sparse = (\<lambda>_. [(0, 1)]), ie_embed_batch = (\<lambda>ts. Inr (map (\<lambda>_. [1]) ts)),
      ie_search = (\<lambda>_ _. Some ''x''), ie_zip_names = (\<lambda>_. Inr [''a.txt'', ''b.docx'']),
      ie_zip_read = (\<lambda>_ f. Inr (if f = ''a.txt'' then demo_text else [])), ie_uuid4 = (\<lambda>i. ''D''), ie_supported_repr = []\<rparr>"

definition demo_iargs :: ingest_args where
  "demo_iargs = \<lparr>ia_vendor_id = ''a'', ia_org_id = ''O'', ia_rfp_id = ''R'', ia_setup = demo_setup, ia_trusted_source = False\<rparr>"

lemma demo_strip: "strip demo_text = demo_text"
  by (simp add: demo_text_def strip_def is_space_def)

lemma demo_length: "length demo_text = 120" "demo_text \<noteq> []"
  by (simp_all add: demo_text_def)

lemma demo_document:
  assumes "\<not> ends_str ''.pdf'' (lower filename)" "\<not> ends_str ''.docx'' (lower filename)"
  shows "process_document demo_icfg demo_ienv demo_text filename v r st =
    Inr [(chunk_of_node demo_ienv filename v r st \<lparr>nd_content = demo_text, nd_section_title = None, nd_section_id = None,
       nd_page_label = None, nd_window = None\<rparr> demo_text)\<lparr>dc_dense := Some [1]\<rparr>]"
  using assms
  by (simp add: process_document_def extract_text_def demo_ienv_def demo_strip demo_length document_nodes_def Let_def)

lemma demo_file_names: "\<not> ends_str ''.pdf'' (lower ''a.txt'')" "\<not> ends_str ''.docx'' (lower ''a.txt'')" "\<not> ends_str ''.zip'' (lower ''a.txt'')"
  "ends_str ''.docx'' (lower ''b.docx'')" "ends_str ''.zip'' (lower ''a.zip'')"
  by code_simp+

lemma demo_injected: "injected default_cfg demo_icfg demo_ienv demo_iargs demo_text ''a.txt''"
  by (simp add: injected_def demo_document[OF demo_file_names(1,2)] poisoned_def chunk_of_node_def Let_def demo_length)
    (simp add: demo_iargs_def demo_icfg_def demo_ienv_def default_cfg_def)

definition demo_indexed :: collections where
  "demo_indexed = snd (ingest_single_file default_cfg demo_icfg demo_ienv demo_iargs ''D'' demo_text ''a.txt'' [])"

lemma demo_ingested_into:
  "\<exists>out critics. ingest_single_file default_cfg demo_icfg demo_ienv a d demo_text ''a.txt'' cs =
     (Inr (out, critics), snd (ingest_single_file default_cfg demo_icfg demo_ienv a d demo_text ''a.txt'' cs))"
proof -
  let ?name = "org_collection_name (ic_collection_prefix demo_icfg) (ia_org_id a)"
  have "dict_get (create_collection ?name cs) ?name \<noteq> None"
    by (cases "?name \<in> fst ` set cs") (simp_all add: create_collection_def map_of_eq_None_iff)
  then obtain ps where "dict_get (create_collection ?name cs) ?name = Some ps" by blast
  then show ?thesis by (simp add: ingest_single_file_def demo_document[OF demo_file_names(1,2)] Let_def upsert_chunk_def)
qed

lemmas demo_ingested = demo_ingested_into[where cs = "[]" and a = demo_iargs]

text \<open>The same document under another setup.\<close>

definition demo_reindexed :: collections where
  "demo_reindexed = snd (ingest_single_file default_cfg demo_icfg demo_ienv (demo_iargs\<lparr>ia_setup := demo_setup\<lparr>es_setup_id := ''F''\<rparr>\<rparr>)
     ''D2'' demo_text ''a.txt'' demo_indexed)"

lemma demo_ingested_again:
  "\<exists>out critics. ingest_single_file default_cfg demo_icfg demo_ienv (demo_iargs\<lparr>ia_setup := demo_setup\<lparr>es_setup_id := ''F''\<rparr>\<rparr>)
     ''D2'' demo_text ''a.txt'' demo_indexed = (Inr (out, critics), demo_reindexed)"
  unfolding demo_reindexed_def by (rule demo_ingested_into)

section \<open>Retrieval\<close>

definition demo_point :: "string \<Rightarrow> string \<Rightarrow> point" where
  "demo_point vid t = \<lparr>pt_id = t, pt_dense = [1], pt_sparse = [],
     pt_payload = [(''chunk_id'', JStr t), (''text'', JStr t), (''org_id'', JStr ''O''), (''vendor_id'', JStr vid)]\<rparr>"

definition demo_rank :: ranking where
  "demo_rank q ps = map (\<lambda>p. (p, 1)) (take (query_limit q) (filter (passes q) ps))"

definition demo_points :: collections where
  "demo_points = [(''c_o'', [demo_point ''a'' ''A'', demo_point ''b'' ''B''])]"

definition demo_rcfg :: retrieval_cfg where
  "demo_rcfg = \<lparr>rg_collection_prefix = ''c'', rg_reranker_provider = ''none'', rg_max_chunk_chars = 512\<rparr>"

definition demo_renv :: retrieval_env where
  "demo_renv = \<lparr>re_rewrite = Inr, re_hyde = Inr, re_embed = (\<lambda>_. Inr [1]), re_sparse = (\<lambda>_. []), re_rank = demo_rank,
     re_scores = (\<lambda>_ _ _. Inl IndexError), re_indexed = (\<lambda>_ _ _ _. Inl IndexError), re_uuid = (\<lambda>_. ''U'')\<rparr>"

definition demo_retrieval_world :: world where
  "demo_retrieval_world = demo_world\<lparr>wd_retrieve := (\<lambda>vid q m.
     run_retrieval_agent default_cfg demo_rcfg demo_renv demo_points None (default_retrieval_args q vid ''O'' m))\<rparr>"

lemma demo_query_law: "query_law (re_rank demo_renv)"
  by (auto simp: query_law_def demo_renv_def demo_rank_def dest: in_set_takeD)

definition demo_found :: retrieval_output where
  "demo_found = \<lparr>ro_original_query = ''Security; ISO'',
     ro_chunks = [\<lparr>rc_chunk_id = ''A'', rc_text = ''A'', rc_section_type = ''background'', rc_final_score = 1, rc_is_answer_bearing = False\<rparr>],
     ro_total_candidates = 1, ro_confidence = 1, ro_empty_retrieval = False, ro_reranking_degraded = False, ro_warnings = []\<rparr>"

lemma demo_retrieved:
  "retrieval_per_vendor default_cfg demo_retrieval_world demo_state ''a'' =
     Inr ([RetrievalObjects [(''a'', demo_found)], SourceChunks [(''A'', ''A'')]], [])"
  by code_simp

end
