(* ===== verification/Auth.thy ===== *)
theory Auth
  imports Schemas
begin

text \<open>
  Authentication: \<open>app/auth/jwt.py\<close>, \<open>app/auth/sessions.py\<close>, \<open>app/auth/tokens.py\<close>,
  \<open>app/auth/dependencies.py\<close> and the endpoints of \<open>app/api/auth_routes.py\<close>, over the tables of
  \<open>app/db/schema.sql\<close> that they use. An exception inside a \<open>with db.begin()\<close> block leaves the tables as they
  were. Times are seconds. Random values (ids, salts, plaintext tokens) are arguments; password hashing,
  SHA-256 and the JWT codec are parameters (\<open>auth_env\<close>).
\<close>

section \<open>Tables\<close>

record user_row =
  us_user_id :: string
  us_email :: string
  us_hashed_pw :: string
  us_org_id :: string
  us_role :: string
  us_dept_id :: "string option"
  us_is_active :: bool

record session_row =
  se_jti :: string
  se_user_id :: string
  se_org_id :: string
  se_expires_at :: int
  se_revoked_at :: "int option"
  se_revoked_reason :: "string option"

record onetime_row =
  ot_token_hash :: string
  ot_purpose :: string
  ot_email :: string
  ot_org_id :: "string option"
  ot_role :: "string option"
  ot_dept_id :: "string option"
  ot_user_id :: "string option"
  ot_expires_at :: int
  ot_used_at :: "int option"

record auth_db =
  ad_orgs :: "(string \<times> string \<times> string) list"
  ad_users :: "user_row list"
  ad_modules :: "string list"
  ad_billing :: "string list"
  ad_sessions :: "session_row list"
  ad_tokens :: "onetime_row list"

datatype failure = Http nat string | Raised exn

type_synonym 'a response = "failure + 'a"

fun fbind :: "'a response \<Rightarrow> ('a \<Rightarrow> 'b response) \<Rightarrow> 'b response" where
  "fbind (Inl e) f = Inl e"
| "fbind (Inr x) f = f x"

lemma fbind_Inr_iff: "fbind r f = Inr y \<longleftrightarrow> (\<exists>x. r = Inr x \<and> f x = Inr y)"
  by (cases r) auto

section \<open>Parameters\<close>

record claims =
  cl_sub :: "string option"
  cl_org_id :: "string option"
  cl_role :: "string option"
  cl_jti :: "string option"
  cl_dept_id :: "string option"
  cl_exp :: int

record auth_env =
  ae_hashpw :: "string \<Rightarrow> string \<Rightarrow> string"  \<comment> \<open>password bytes, salt\<close>
  ae_checkpw :: "string \<Rightarrow> string \<Rightarrow> bool result"
  ae_sha256 :: "string \<Rightarrow> string"
  ae_encode :: "claims \<Rightarrow> string"
  ae_decode :: "int \<Rightarrow> string \<Rightarrow> claims result"  \<comment> \<open>the time, the token\<close>
  ae_valid_roles_repr :: string

record auth_settings =
  as_jwt_expiry_minutes :: int
  as_environment :: string
  as_dev_user_email :: string
  as_dev_user_password :: string
  as_dev_user_role :: string
  as_dev_org_id :: string

section \<open>app/auth/jwt.py\<close>

definition valid_roles :: "string list" where
  "valid_roles = [''platform_admin'', ''company_admin'', ''department_admin'', ''department_user'', ''auditor'']"

record token_data =
  td_email :: string
  td_org_id :: string
  td_role :: string
  td_dept_id :: "string option"
  td_jti :: "string option"

record access_token =
  tk_access_token :: string
  tk_expires_in :: int
  tk_org_id :: string
  tk_role :: string
  tk_jti :: string

definition bcrypt_bytes :: "string \<Rightarrow> string" where
  "bcrypt_bytes password = take 72 password"

definition hash_password :: "auth_env \<Rightarrow> string \<Rightarrow> string \<Rightarrow> string" where
  "hash_password env salt password = ae_hashpw env (bcrypt_bytes password) salt"

fun fails_closed :: "exn \<Rightarrow> bool" where
  "fails_closed (ValueError _) = True"
| "fails_closed (TypeError _) = True"
| "fails_closed _ = False"

definition verify_password :: "auth_env \<Rightarrow> string \<Rightarrow> string \<Rightarrow> bool response" where
  "verify_password env plain_password hashed_password =
     (case ae_checkpw env (bcrypt_bytes plain_password) hashed_password of
        Inr b \<Rightarrow> Inr b
      | Inl e \<Rightarrow> if fails_closed e then Inr False else Inl (Raised e))"

definition create_access_token ::
  "auth_env \<Rightarrow> auth_settings \<Rightarrow> int \<Rightarrow> string \<Rightarrow> string \<Rightarrow> string \<Rightarrow> string \<Rightarrow> string option \<Rightarrow> access_token response" where
  "create_access_token env st now jti email org_id role dept_id =
     (if role \<notin> set valid_roles
      then Inl (Raised (ValueError (''Invalid role: '' @ role @ ''. Must be one of '' @ ae_valid_roles_repr env)))
      else Inr \<lparr>tk_access_token = ae_encode env
                  \<lparr>cl_sub = Some email, cl_org_id = Some org_id, cl_role = Some role, cl_jti = Some jti,
                   cl_dept_id = (case dept_id of None \<Rightarrow> None | Some d \<Rightarrow> if d = [] then None else Some d),
                   cl_exp = now + as_jwt_expiry_minutes st * 60\<rparr>,
                tk_expires_in = as_jwt_expiry_minutes st * 60, tk_org_id = org_id, tk_role = role, tk_jti = jti\<rparr>)"

definition missing_claim :: "string option \<Rightarrow> bool" where
  "missing_claim c \<longleftrightarrow> c = None \<or> c = Some []"

text \<open>\<open>Inl\<close> is the \<open>TokenError\<close>.\<close>

definition decode_token :: "auth_env \<Rightarrow> int \<Rightarrow> string \<Rightarrow> string + token_data" where
  "decode_token env now token =
     (case ae_decode env now token of
        Inl e \<Rightarrow> Inl (exn_str e)
      | Inr p \<Rightarrow>
          if missing_claim (cl_sub p) \<or> missing_claim (cl_org_id p) \<or> missing_claim (cl_role p)
          then Inl ''Missing required fields in token''
          else if the (cl_role p) \<notin> set valid_roles then Inl (''Invalid role in token: '' @ the (cl_role p))
          else Inr \<lparr>td_email = the (cl_sub p), td_org_id = the (cl_org_id p), td_role = the (cl_role p),
                    td_dept_id = cl_dept_id p, td_jti = cl_jti p\<rparr>)"

definition require_role :: "string list \<Rightarrow> token_data \<Rightarrow> token_data response" where
  "require_role allowed_roles td =
     (if td_role td \<notin> set allowed_roles
      then Inl (Http 403 (''Role '' @ quoted (td_role td) @ '' is not permitted. Required: '' @ show_strs allowed_roles))
      else Inr td)"

section \<open>app/auth/sessions.py\<close>

definition update_sessions :: "(session_row \<Rightarrow> bool) \<Rightarrow> (session_row \<Rightarrow> session_row) \<Rightarrow> auth_db \<Rightarrow> auth_db" where
  "update_sessions P f db = db\<lparr>ad_sessions := map (\<lambda>s. if P s then f s else s) (ad_sessions db)\<rparr>"

text \<open>\<open>ON CONFLICT (jti) DO NOTHING\<close>.\<close>

definition issue_session :: "string \<Rightarrow> string \<Rightarrow> string \<Rightarrow> int \<Rightarrow> auth_db \<Rightarrow> auth_db" where
  "issue_session jti user_id org_id expires_at db =
     (if list_ex (\<lambda>s. se_jti s = jti) (ad_sessions db) then db
      else db\<lparr>ad_sessions := ad_sessions db @
        [\<lparr>se_jti = jti, se_user_id = user_id, se_org_id = org_id, se_expires_at = expires_at,
          se_revoked_at = None, se_revoked_reason = None\<rparr>]\<rparr>)"

definition live_session :: "int \<Rightarrow> string \<Rightarrow> session_row \<Rightarrow> bool" where
  "live_session now jti s \<longleftrightarrow> se_jti s = jti \<and> se_revoked_at s = None \<and> now < se_expires_at s"

definition session_is_active :: "int \<Rightarrow> string \<Rightarrow> auth_db \<Rightarrow> bool" where
  "session_is_active now jti db \<longleftrightarrow> jti \<noteq> [] \<and> list_ex (live_session now jti) (ad_sessions db)"

definition revoke :: "int \<Rightarrow> string \<Rightarrow> session_row \<Rightarrow> session_row" where
  "revoke now reason s = s\<lparr>se_revoked_at := Some now, se_revoked_reason := Some reason\<rparr>"

definition revoke_session :: "int \<Rightarrow> string \<Rightarrow> string \<Rightarrow> auth_db \<Rightarrow> auth_db" where
  "revoke_session now jti reason db =
     update_sessions (\<lambda>s. se_jti s = jti \<and> se_revoked_at s = None) (revoke now reason) db"

definition revoke_user_sessions :: "int \<Rightarrow> string \<Rightarrow> string \<Rightarrow> auth_db \<Rightarrow> auth_db \<times> nat" where
  "revoke_user_sessions now user_id reason db =
     (update_sessions (\<lambda>s. se_user_id s = user_id \<and> se_revoked_at s = None) (revoke now reason) db,
      count_if (\<lambda>s. se_user_id s = user_id \<and> se_revoked_at s = None) (ad_sessions db))"

definition purge_expired_sessions :: "int \<Rightarrow> auth_db \<Rightarrow> auth_db \<times> nat" where
  "purge_expired_sessions now db =
     (db\<lparr>ad_sessions := filter (\<lambda>s. \<not> se_expires_at s < now) (ad_sessions db)\<rparr>,
      count_if (\<lambda>s. se_expires_at s < now) (ad_sessions db))"

section \<open>app/auth/tokens.py\<close>

definition invite_ttl_hours :: int where
  "invite_ttl_hours = 72"

definition reset_ttl_hours :: int where
  "reset_ttl_hours = 1"

definition nullif_empty :: "string option \<Rightarrow> string option" where
  "nullif_empty x = (case x of None \<Rightarrow> None | Some s \<Rightarrow> if s = [] then None else Some s)"

text \<open>The earlier live tokens of the purpose and email are spent, then the new one is stored under its
  hash, which is the primary key.\<close>

definition supersede_tokens :: "int \<Rightarrow> string \<Rightarrow> string \<Rightarrow> auth_db \<Rightarrow> auth_db" where
  "supersede_tokens now purpose email db =
     db\<lparr>ad_tokens := map (\<lambda>t. if ot_purpose t = purpose \<and> ot_email t = email \<and> ot_used_at t = None
                              then t\<lparr>ot_used_at := Some now\<rparr> else t) (ad_tokens db)\<rparr>"

definition create_onetime_token ::
  "auth_env \<Rightarrow> int \<Rightarrow> string \<Rightarrow> string \<Rightarrow> string \<Rightarrow> string option \<Rightarrow> string option \<Rightarrow> string option \<Rightarrow> string option \<Rightarrow>
     int option \<Rightarrow> auth_db \<Rightarrow> auth_db response" where
  "create_onetime_token env now plaintext purpose email org_id role dept_id user_id ttl_hours db =
     (if purpose \<notin> {''invite'', ''password_reset''} then Inl (Raised (ValueError (''Unknown token purpose: '' @ purpose)))
      else let ttl = (case ttl_hours of Some h \<Rightarrow> h | None \<Rightarrow> if purpose = ''invite'' then invite_ttl_hours else reset_ttl_hours);
               token_hash = ae_sha256 env plaintext
           in if list_ex (\<lambda>t. ot_token_hash t = token_hash) (ad_tokens db)
              then Inl (Raised (ExternalError ''auth_onetime_tokens_pkey''))
              else let db' = supersede_tokens now purpose email db
                   in Inr (db'\<lparr>ad_tokens := ad_tokens db' @
                     [\<lparr>ot_token_hash = token_hash, ot_purpose = purpose, ot_email = email,
                       ot_org_id = nullif_empty org_id, ot_role = role, ot_dept_id = nullif_empty dept_id,
                       ot_user_id = nullif_empty user_id, ot_expires_at = now + ttl * 3600, ot_used_at = None\<rparr>]\<rparr>))"

definition redeemable :: "int \<Rightarrow> string \<Rightarrow> string \<Rightarrow> onetime_row \<Rightarrow> bool" where
  "redeemable now token_hash purpose t \<longleftrightarrow>
     ot_token_hash t = token_hash \<and> ot_purpose t = purpose \<and> ot_used_at t = None \<and> now < ot_expires_at t"

definition consume_token :: "auth_env \<Rightarrow> int \<Rightarrow> string \<Rightarrow> string \<Rightarrow> auth_db \<Rightarrow> onetime_row option \<times> auth_db" where
  "consume_token env now plaintext purpose db =
     (if plaintext = [] then (None, db)
      else let P = redeemable now (ae_sha256 env plaintext) purpose
           in (List.find P (ad_tokens db),
               db\<lparr>ad_tokens := map (\<lambda>t. if P t then t\<lparr>ot_used_at := Some now\<rparr> else t) (ad_tokens db)\<rparr>))"

section \<open>app/auth/dependencies.py\<close>

text \<open>\<open>db\<close> is \<open>None\<close> when the lookup raises.\<close>

definition token_not_revoked :: "int \<Rightarrow> token_data \<Rightarrow> auth_db option \<Rightarrow> bool" where
  "token_not_revoked now td db =
     (if td_jti td = None \<or> td_jti td = Some [] then True
      else (case db of None \<Rightarrow> False | Some d \<Rightarrow> session_is_active now (the (td_jti td)) d))"

record request =
  rq_cookie :: "string option"
  rq_bearer :: "string option"

definition request_token :: "request \<Rightarrow> string option" where
  "request_token rq =
     (case rq_cookie rq of
        Some c \<Rightarrow> if c \<noteq> [] then Some c else rq_bearer rq
      | None \<Rightarrow> rq_bearer rq)"

definition get_current_user :: "auth_env \<Rightarrow> int \<Rightarrow> request \<Rightarrow> auth_db option \<Rightarrow> token_data response" where
  "get_current_user env now rq db =
     (case request_token rq of
        None \<Rightarrow> Inl (Http 401 ''Invalid or expired token'')
      | Some token \<Rightarrow>
          (case decode_token env now token of
             Inl _ \<Rightarrow> Inl (Http 401 ''Invalid or expired token'')
           | Inr td \<Rightarrow> if token_not_revoked now td db then Inr td else Inl (Http 401 ''Invalid or expired token'')))"

text \<open>Here an empty cookie is not skipped.\<close>

definition get_current_user_optional :: "auth_env \<Rightarrow> int \<Rightarrow> request \<Rightarrow> auth_db option \<Rightarrow> token_data option" where
  "get_current_user_optional env now rq db =
     (case (case rq_cookie rq of Some c \<Rightarrow> Some c | None \<Rightarrow> rq_bearer rq) of
        None \<Rightarrow> None
      | Some token \<Rightarrow>
          (case decode_token env now token of
             Inl _ \<Rightarrow> None
           | Inr td \<Rightarrow> if token_not_revoked now td db then Some td else None))"

end
