(* ===== verification/Auth_Routes.thy ===== *)
theory Auth_Routes
  imports Auth
begin

text \<open>
  The endpoints of \<open>app/api/auth_routes.py\<close>. Each returns its response and the tables after it. \<open>login\<close> and the
  endpoints that register a session are more than one transaction; the transactions are definitions of
  their own, so that they can be interleaved. The cookie the response sets holds the returned access token.
\<close>

section \<open>Helpers\<close>

definition is_production :: "auth_settings \<Rightarrow> bool" where
  "is_production st \<longleftrightarrow> lower (as_environment st) \<in> {''production'', ''prod'', ''staging'', ''stage''}"

definition validate_password :: "string \<Rightarrow> unit response" where
  "validate_password password =
     (if length password < 8 then Inl (Http 422 ''Password must be at least 8 characters'') else Inr ())"

definition register_session ::
  "auth_settings \<Rightarrow> int \<Rightarrow> access_token \<Rightarrow> string \<Rightarrow> string \<Rightarrow> auth_db \<Rightarrow> auth_db" where
  "register_session st now token user_id org_id db =
     issue_session (tk_jti token) user_id org_id (now + as_jwt_expiry_minutes st * 60) db"

definition get_user_by_email :: "string \<Rightarrow> auth_db \<Rightarrow> user_row option" where
  "get_user_by_email email db = List.find (\<lambda>u. us_email u = email) (ad_users db)"

definition email_taken :: "string \<Rightarrow> auth_db \<Rightarrow> bool" where
  "email_taken email db \<longleftrightarrow> list_ex (\<lambda>u. us_email u = email) (ad_users db)"

text \<open>\<open>INSERT INTO users\<close> under the table's constraints.\<close>

definition insert_user :: "user_row \<Rightarrow> auth_db \<Rightarrow> auth_db response" where
  "insert_user u db =
     (if us_role u \<notin> set valid_roles then Inl (Raised (ExternalError ''users_role_check''))
      else if email_taken (us_email u) db then Inl (Raised (ExternalError ''users_email_key''))
      else Inr (db\<lparr>ad_users := ad_users db @ [u]\<rparr>))"

definition on_conflict_nothing :: "string \<Rightarrow> string list \<Rightarrow> string list" where
  "on_conflict_nothing x xs = (if x \<in> set xs then xs else xs @ [x])"

definition add_modules :: "string \<Rightarrow> auth_db \<Rightarrow> auth_db" where
  "add_modules org_id db =
     db\<lparr>ad_modules := on_conflict_nothing org_id (ad_modules db),
        ad_billing := on_conflict_nothing org_id (ad_billing db)\<rparr>"

section \<open>signup\<close>

record fresh =
  fr_org_id :: string
  fr_user_id :: string
  fr_jti :: string
  fr_salt :: string
  fr_token :: string

record signup_request =
  sq_org_name :: string
  sq_industry :: string
  sq_email :: string
  sq_password :: string

definition signup_txn :: "auth_env \<Rightarrow> fresh \<Rightarrow> signup_request \<Rightarrow> auth_db \<Rightarrow> auth_db response" where
  "signup_txn env fr req db =
     (if email_taken (sq_email req) db then Inl (Http 409 ''An account with that email already exists'')
      else fbind (insert_user
             \<lparr>us_user_id = fr_user_id fr, us_email = sq_email req,
              us_hashed_pw = hash_password env (fr_salt fr) (sq_password req), us_org_id = fr_org_id fr,
              us_role = ''company_admin'', us_dept_id = None, us_is_active = True\<rparr>
             (db\<lparr>ad_orgs := ad_orgs db @ [(fr_org_id fr, sq_org_name req, sq_industry req)]\<rparr>))
           (\<lambda>db'. Inr (add_modules (fr_org_id fr) db')))"

definition signup ::
  "auth_env \<Rightarrow> auth_settings \<Rightarrow> int \<Rightarrow> fresh \<Rightarrow> signup_request \<Rightarrow> auth_db \<Rightarrow> access_token response \<times> auth_db" where
  "signup env st now fr req db =
     (case fbind (validate_password (sq_password req)) (\<lambda>_. signup_txn env fr req db) of
        Inl e \<Rightarrow> (Inl e, db)
      | Inr db' \<Rightarrow>
          (case create_access_token env st now (fr_jti fr) (sq_email req) (fr_org_id fr) ''company_admin'' None of
             Inl e \<Rightarrow> (Inl e, db')
           | Inr token \<Rightarrow> (Inr token, register_session st now token (fr_user_id fr) (fr_org_id fr) db')))"

section \<open>login\<close>

record login_request =
  lq_email :: string
  lq_password :: string

definition ensure_dev_user :: "auth_env \<Rightarrow> auth_settings \<Rightarrow> fresh \<Rightarrow> auth_db \<Rightarrow> auth_db response" where
  "ensure_dev_user env st fr db =
     (let org_id = as_dev_org_id st;
          db1 = (if list_ex (\<lambda>r. fst r = org_id) (ad_orgs db) then db
                 else db\<lparr>ad_orgs := ad_orgs db @ [(org_id, ''Dev Organisation'', ''Technology'')]\<rparr>);
          u = \<lparr>us_user_id = fr_user_id fr, us_email = as_dev_user_email st,
               us_hashed_pw = hash_password env (fr_salt fr) (as_dev_user_password st), us_org_id = org_id,
               us_role = as_dev_user_role st, us_dept_id = None, us_is_active = True\<rparr>
      in if us_role u \<notin> set valid_roles then Inl (Raised (ExternalError ''users_role_check''))
         else Inr (add_modules org_id (if email_taken (us_email u) db1 then db1 else db1\<lparr>ad_users := ad_users db1 @ [u]\<rparr>)))"

text \<open>The reading part: the account the credentials open.\<close>

definition login_check ::
  "auth_env \<Rightarrow> auth_settings \<Rightarrow> fresh \<Rightarrow> login_request \<Rightarrow> auth_db \<Rightarrow> user_row response \<times> auth_db" where
  "login_check env st fr req db =
     (let verified = (\<lambda>u. fbind (verify_password env (lq_password req) (us_hashed_pw u)) (\<lambda>ok.
            if \<not> ok then Inl (Http 401 ''Invalid credentials'')
            else if \<not> us_is_active u then Inl (Http 403 ''Account is inactive'') else Inr u))
      in case get_user_by_email (lq_email req) db of
           Some u \<Rightarrow> (verified u, db)
         | None \<Rightarrow>
             if lq_email req \<noteq> as_dev_user_email st then (Inl (Http 401 ''Invalid credentials''), db)
             else (case verify_password env (lq_password req) (hash_password env (fr_salt fr) (as_dev_user_password st)) of
                     Inl e \<Rightarrow> (Inl e, db)
                   | Inr False \<Rightarrow> (Inl (Http 401 ''Invalid credentials''), db)
                   | Inr True \<Rightarrow>
                       (case ensure_dev_user env st fr db of
                          Inl e \<Rightarrow> (Inl e, db)
                        | Inr db' \<Rightarrow>
                            (case get_user_by_email (lq_email req) db' of
                               None \<Rightarrow> (Inl (Http 401 ''Invalid credentials''), db')
                             | Some u \<Rightarrow> (verified u, db')))))"

definition login_issue ::
  "auth_env \<Rightarrow> auth_settings \<Rightarrow> int \<Rightarrow> fresh \<Rightarrow> user_row \<Rightarrow> auth_db \<Rightarrow> access_token response \<times> auth_db" where
  "login_issue env st now fr u db =
     (case create_access_token env st now (fr_jti fr) (us_email u) (us_org_id u) (us_role u) (us_dept_id u) of
        Inl e \<Rightarrow> (Inl e, db)
      | Inr token \<Rightarrow> (Inr token, register_session st now token (us_user_id u) (us_org_id u) db))"

definition login ::
  "auth_env \<Rightarrow> auth_settings \<Rightarrow> int \<Rightarrow> fresh \<Rightarrow> login_request \<Rightarrow> auth_db \<Rightarrow> access_token response \<times> auth_db" where
  "login env st now fr req db =
     (case login_check env st fr req db of
        (Inl e, db') \<Rightarrow> (Inl e, db')
      | (Inr u, db') \<Rightarrow> login_issue env st now fr u db')"

section \<open>logout, verify, me\<close>

definition logout :: "auth_env \<Rightarrow> int \<Rightarrow> request \<Rightarrow> auth_db \<Rightarrow> unit response \<times> auth_db" where
  "logout env now rq db =
     (case get_current_user env now rq (Some db) of
        Inl e \<Rightarrow> (Inl e, db)
      | Inr td \<Rightarrow>
          (Inr (), if td_jti td = None \<or> td_jti td = Some [] then db
                   else revoke_session now (the (td_jti td)) ''logout'' db))"

definition verify_token :: "auth_env \<Rightarrow> int \<Rightarrow> request \<Rightarrow> auth_db \<Rightarrow> (string \<times> string \<times> string) response" where
  "verify_token env now rq db =
     fbind (get_current_user env now rq (Some db)) (\<lambda>td. Inr (td_email td, td_org_id td, td_role td))"

definition get_me :: "auth_env \<Rightarrow> int \<Rightarrow> request \<Rightarrow> auth_db \<Rightarrow> user_row response" where
  "get_me env now rq db =
     fbind (get_current_user env now rq (Some db)) (\<lambda>td.
     case get_user_by_email (td_email td) db of None \<Rightarrow> Inl (Http 404 ''User not found'') | Some u \<Rightarrow> Inr u)"

section \<open>Invites\<close>

record invite_request =
  iq_email :: string
  iq_role :: string
  iq_dept_id :: "string option"

definition invite_user ::
  "auth_env \<Rightarrow> int \<Rightarrow> fresh \<Rightarrow> token_data \<Rightarrow> invite_request \<Rightarrow> auth_db \<Rightarrow> string response \<times> auth_db" where
  "invite_user env now fr td req db =
     (if td_role td \<notin> {''platform_admin'', ''company_admin'', ''department_admin''}
      then (Inl (Http 403 ''Insufficient role''), db)
      else if td_role td = ''department_admin'' \<and> iq_role req \<noteq> ''department_user''
      then (Inl (Http 403 ''Cannot assign that role''), db)
      else if email_taken (iq_email req) db then (Inl (Http 409 ''A user with that email already exists''), db)
      else (case create_onetime_token env now (fr_token fr) ''invite'' (iq_email req) (Some (td_org_id td))
                   (Some (iq_role req)) (iq_dept_id req) None None db of
              Inl e \<Rightarrow> (Inl e, db)
            | Inr db' \<Rightarrow> (Inr (fr_token fr), db')))"

record accept_request =
  aq_token :: string
  aq_password :: string

definition role_or_default :: "string option \<Rightarrow> string" where
  "role_or_default r = (case r of None \<Rightarrow> ''department_user'' | Some s \<Rightarrow> if s = [] then ''department_user'' else s)"

definition accept_txn ::
  "auth_env \<Rightarrow> int \<Rightarrow> fresh \<Rightarrow> accept_request \<Rightarrow> auth_db \<Rightarrow> (onetime_row \<times> auth_db) response" where
  "accept_txn env now fr req db =
     (case consume_token env now (aq_token req) ''invite'' db of
        (None, _) \<Rightarrow> Inl (Http 400 ''Invalid or expired invite token'')
      | (Some payload, db') \<Rightarrow>
          if email_taken (ot_email payload) db' then Inl (Http 409 ''A user with that email already exists'')
          else (case ot_org_id payload of
              None \<Rightarrow> Inl (Raised (ExternalError ''users_org_id_not_null''))
            | Some org_id \<Rightarrow>
                fbind (insert_user
                  \<lparr>us_user_id = fr_user_id fr, us_email = ot_email payload,
                   us_hashed_pw = hash_password env (fr_salt fr) (aq_password req), us_org_id = org_id,
                   us_role = role_or_default (ot_role payload), us_dept_id = nullif_empty (ot_dept_id payload),
                   us_is_active = True\<rparr> db') (\<lambda>db''. Inr (payload, db''))))"

definition accept_invite ::
  "auth_env \<Rightarrow> auth_settings \<Rightarrow> int \<Rightarrow> fresh \<Rightarrow> accept_request \<Rightarrow> auth_db \<Rightarrow> access_token response \<times> auth_db" where
  "accept_invite env st now fr req db =
     (case fbind (validate_password (aq_password req)) (\<lambda>_. accept_txn env now fr req db) of
        Inl e \<Rightarrow> (Inl e, db)
      | Inr (payload, db') \<Rightarrow>
          (case create_access_token env st now (fr_jti fr) (ot_email payload) (the (ot_org_id payload))
                  (role_or_default (ot_role payload)) (ot_dept_id payload) of
             Inl e \<Rightarrow> (Inl e, db')
           | Inr token \<Rightarrow> (Inr token, register_session st now token (fr_user_id fr) (the (ot_org_id payload)) db')))"

section \<open>Password reset\<close>

text \<open>The token is part of the response outside production only.\<close>

definition request_password_reset ::
  "auth_env \<Rightarrow> auth_settings \<Rightarrow> int \<Rightarrow> fresh \<Rightarrow> string \<Rightarrow> auth_db \<Rightarrow> string option response \<times> auth_db" where
  "request_password_reset env st now fr email db =
     (case get_user_by_email email db of
        None \<Rightarrow> (Inr None, db)
      | Some u \<Rightarrow>
          (case create_onetime_token env now (fr_token fr) ''password_reset'' (us_email u) (Some (us_org_id u)) None None
                  (Some (us_user_id u)) None db of
             Inl e \<Rightarrow> (Inl e, db)
           | Inr db' \<Rightarrow> (Inr (if is_production st then None else Some (fr_token fr)), db')))"

definition set_password :: "string option \<Rightarrow> string \<Rightarrow> auth_db \<Rightarrow> auth_db" where
  "set_password user_id pw db =
     db\<lparr>ad_users := map (\<lambda>u. if Some (us_user_id u) = user_id then u\<lparr>us_hashed_pw := pw\<rparr> else u) (ad_users db)\<rparr>"

definition confirm_password_reset ::
  "auth_env \<Rightarrow> int \<Rightarrow> fresh \<Rightarrow> accept_request \<Rightarrow> auth_db \<Rightarrow> unit response \<times> auth_db" where
  "confirm_password_reset env now fr req db =
     (case fbind (validate_password (aq_password req)) (\<lambda>_.
             case consume_token env now (aq_token req) ''password_reset'' db of
               (None, _) \<Rightarrow> Inl (Http 400 ''Invalid or expired reset token'')
             | (Some payload, db') \<Rightarrow>
                 let db'' = set_password (ot_user_id payload) (hash_password env (fr_salt fr) (aq_password req)) db'
                 in Inr (case ot_user_id payload of
                      None \<Rightarrow> db''
                    | Some uid \<Rightarrow> fst (revoke_user_sessions now uid ''password_reset'' db''))) of
        Inl e \<Rightarrow> (Inl e, db)
      | Inr db' \<Rightarrow> (Inr (), db'))"

end
