(* ===== verification/Auth_Laws.thy ===== *)
theory Auth_Laws
  imports Auth_Routes
begin

text \<open>
  The identity tables under any interleaving of the transactions of the endpoints: a spent one-time token
  stays spent, and a session that was revoked, or was never issued, stays dead until its id is issued
  again. The contract \<open>identity_op\<close> states both for one transaction; the transactions of the endpoints
  are instances of it, and its interpretation on \<open>run_op\<close> carries the properties of whole traces.
\<close>

section \<open>The contract of a transaction\<close>

text \<open>The primary keys.\<close>

definition keys_ok :: "auth_db \<Rightarrow> bool" where
  "keys_ok db \<longleftrightarrow> distinct (map ot_token_hash (ad_tokens db)) \<and> distinct (map se_jti (ad_sessions db))"

definition spent :: "string \<Rightarrow> auth_db \<Rightarrow> bool" where
  "spent h db \<longleftrightarrow> list_ex (\<lambda>t. ot_token_hash t = h \<and> ot_used_at t \<noteq> None) (ad_tokens db)"

definition dead :: "string \<Rightarrow> auth_db \<Rightarrow> bool" where
  "dead jti db \<longleftrightarrow> list_all (\<lambda>s. se_jti s = jti \<longrightarrow> se_revoked_at s \<noteq> None) (ad_sessions db)"

lemma dead_not_active: "dead jti db \<Longrightarrow> \<not> session_is_active now jti db"
  by (auto simp: dead_def session_is_active_def live_session_def list_all_iff list_ex_iff)

lemma spent_not_redeemable:
  assumes "keys_ok db" and "spent h db" and "t \<in> set (ad_tokens db)"
  shows "\<not> redeemable now h purpose t"
proof
  assume r: "redeemable now h purpose t"
  obtain t' where t': "t' \<in> set (ad_tokens db)" "ot_token_hash t' = h" "ot_used_at t' \<noteq> None"
    using assms(2) by (auto simp: spent_def list_ex_iff)
  have "t' = t"
    using assms(1,3) t'(1,2) r by (auto simp: keys_ok_def redeemable_def distinct_map dest: inj_onD)
  then show False using r t'(3) by (simp add: redeemable_def)
qed

locale identity_op =
  fixes f :: "auth_db \<Rightarrow> auth_db" and issues :: "string set"
  assumes keys_kept: "keys_ok db \<Longrightarrow> keys_ok (f db)"
    and spent_kept: "spent h db \<Longrightarrow> spent h (f db)"
    and dead_kept: "dead jti db \<Longrightarrow> jti \<notin> issues \<Longrightarrow> dead jti (f db)"
begin

lemma commit: "(\<And>db. g db = db \<or> g db = f db) \<Longrightarrow> identity_op g issues"
  by unfold_locales (metis keys_kept, metis spent_kept, metis dead_kept)

lemma still_spent: "keys_ok db \<Longrightarrow> spent h db \<Longrightarrow> t \<in> set (ad_tokens (f db)) \<Longrightarrow> \<not> redeemable now h purpose t"
  using spent_not_redeemable keys_kept spent_kept by blast

lemma still_dead: "dead jti db \<Longrightarrow> jti \<notin> issues \<Longrightarrow> \<not> session_is_active now jti (f db)"
  using dead_not_active dead_kept by blast

end

section \<open>The primitives\<close>

lemma identity_op_other:
  assumes "\<And>db. ad_tokens (f db) = ad_tokens db" and "\<And>db. ad_sessions (f db) = ad_sessions db"
  shows "identity_op f I"
  by unfold_locales (auto simp: keys_ok_def spent_def dead_def assms)

lemma identity_op_comp: "identity_op f I \<Longrightarrow> identity_op g I \<Longrightarrow> identity_op (\<lambda>db. g (f db)) I"
  by (simp add: identity_op_def)

lemma revoke_sel [simp]:
  "se_jti (revoke now reason s) = se_jti s" "se_user_id (revoke now reason s) = se_user_id s"
  "se_revoked_at (revoke now reason s) = Some now"
  by (simp_all add: revoke_def)

lemma revoked_keys [simp]: "map se_jti (map (\<lambda>s. if P s then revoke now reason s else s) ss) = map se_jti ss"
  by (induction ss) (auto simp: revoke_def)

lemma identity_op_revoke: "identity_op (update_sessions P (revoke now reason)) I"
  by unfold_locales
    (simp_all add: update_sessions_def keys_ok_def spent_def del: map_map, auto simp: dead_def list_all_iff revoke_def)

lemma identity_op_issue: "identity_op (issue_session jti u org expires) {jti}"
  by unfold_locales (auto simp: issue_session_def keys_ok_def spent_def dead_def list_ex_iff)

lemma identity_op_purge: "identity_op (\<lambda>db. fst (purge_expired_sessions now db)) I"
  by unfold_locales (auto simp: purge_expired_sessions_def keys_ok_def spent_def dead_def list_all_iff intro: distinct_map_filter)

text \<open>Stamping tokens as used, and adding a token under an unused hash.\<close>

lemma stamped_hashes: "map ot_token_hash (map (\<lambda>t. if P t then t\<lparr>ot_used_at := Some now\<rparr> else t) ts) = map ot_token_hash ts"
  by (induction ts) auto

lemma stamped_spent:
  "list_ex (\<lambda>t. ot_token_hash t = h \<and> ot_used_at t \<noteq> None) ts \<Longrightarrow>
   list_ex (\<lambda>t. ot_token_hash t = h \<and> ot_used_at t \<noteq> None) (map (\<lambda>t. if P t then t\<lparr>ot_used_at := Some now\<rparr> else t) ts)"
  by (induction ts) auto

lemma identity_op_stamp:
  "identity_op (\<lambda>db. db\<lparr>ad_tokens := map (\<lambda>t. if P t then t\<lparr>ot_used_at := Some now\<rparr> else t) (ad_tokens db)\<rparr>) I"
proof unfold_locales
  fix db assume "keys_ok db"
  then show "keys_ok (db\<lparr>ad_tokens := map (\<lambda>t. if P t then t\<lparr>ot_used_at := Some now\<rparr> else t) (ad_tokens db)\<rparr>)"
    by (simp add: keys_ok_def stamped_hashes del: map_map)
next
  fix db h assume "spent h db"
  then show "spent h (db\<lparr>ad_tokens := map (\<lambda>t. if P t then t\<lparr>ot_used_at := Some now\<rparr> else t) (ad_tokens db)\<rparr>)"
    using stamped_spent by (simp add: spent_def)
qed (simp add: dead_def)

lemma identity_op_consume: "identity_op (\<lambda>db. snd (consume_token env now plaintext purpose db)) I"
  by (rule identity_op.commit[OF identity_op_stamp[of "redeemable now (ae_sha256 env plaintext) purpose" now]])
    (auto simp: consume_token_def Let_def)

definition committed :: "(auth_db \<Rightarrow> auth_db response) \<Rightarrow> auth_db \<Rightarrow> auth_db" where
  "committed txn db = (case txn db of Inl _ \<Rightarrow> db | Inr db' \<Rightarrow> db')"

lemma superseded_hashes:
  "map ot_token_hash (ad_tokens (supersede_tokens now purpose email db)) = map ot_token_hash (ad_tokens db)"
  by (simp add: supersede_tokens_def stamped_hashes del: map_map)

lemma superseded_set [simp]:
  "ot_token_hash ` set (ad_tokens (supersede_tokens now purpose email db)) = ot_token_hash ` set (ad_tokens db)"
  using arg_cong[OF superseded_hashes, of set] by simp

lemma superseded_sessions [simp]: "ad_sessions (supersede_tokens now purpose email db) = ad_sessions db"
  by (simp add: supersede_tokens_def)

lemma create_cases:
  assumes "create_onetime_token env now plaintext purpose email org role dept uid ttl db = Inr db'"
  obtains t where "ad_tokens db' = ad_tokens (supersede_tokens now purpose email db) @ [t]"
    "ot_token_hash t = ae_sha256 env plaintext" "ae_sha256 env plaintext \<notin> ot_token_hash ` set (ad_tokens db)"
    "ad_sessions db' = ad_sessions db" "ad_users db' = ad_users db"
  using assms by (fastforce simp: create_onetime_token_def Let_def list_ex_iff supersede_tokens_def split: if_splits)

lemma identity_op_create:
  "identity_op (committed (create_onetime_token env now plaintext purpose email org role dept uid ttl)) I"
proof -
  let ?f = "\<lambda>db. supersede_tokens now purpose email db"
  have s: "identity_op ?f I"
    unfolding supersede_tokens_def by (rule identity_op_stamp)
  note keeps = identity_op.keys_kept[OF s] identity_op.spent_kept[OF s] identity_op.dead_kept[OF s]
  show ?thesis
  proof unfold_locales
    fix db assume ok: "keys_ok db"
    show "keys_ok (committed (create_onetime_token env now plaintext purpose email org role dept uid ttl) db)"
    proof (cases "create_onetime_token env now plaintext purpose email org role dept uid ttl db")
      case (Inr db')
      then obtain t where "ad_tokens db' = ad_tokens (?f db) @ [t]" "ot_token_hash t \<notin> ot_token_hash ` set (ad_tokens (?f db))"
          "ad_sessions db' = ad_sessions (?f db)"
        by (elim create_cases) auto
      then show ?thesis using keeps(1)[OF ok] Inr by (simp add: committed_def keys_ok_def)
    qed (use ok in \<open>simp add: committed_def\<close>)
  next
    fix db k assume sp: "spent k db"
    show "spent k (committed (create_onetime_token env now plaintext purpose email org role dept uid ttl) db)"
      using keeps(2)[OF sp] sp by (auto simp: committed_def spent_def split: sum.split elim!: create_cases)
  next
    fix db j assume "dead j db"
    then show "dead j (committed (create_onetime_token env now plaintext purpose email org role dept uid ttl) db)"
      by (auto simp: committed_def dead_def split: sum.split elim!: create_cases)
  qed
qed

section \<open>The transactions of the endpoints\<close>

datatype auth_op =
    OpSignup fresh signup_request
  | OpDevUser fresh
  | OpIssue string string string int
  | OpLogout request
  | OpInvite fresh token_data invite_request
  | OpAccept fresh accept_request
  | OpRequestReset fresh string
  | OpConfirmReset fresh accept_request
  | OpRevokeUser string string
  | OpPurge

fun run_op :: "auth_env \<Rightarrow> auth_settings \<Rightarrow> int \<Rightarrow> auth_op \<Rightarrow> auth_db \<Rightarrow> auth_db" where
  "run_op env st now (OpSignup fr req) db = committed (signup_txn env fr req) db"
| "run_op env st now (OpDevUser fr) db = committed (ensure_dev_user env st fr) db"
| "run_op env st now (OpIssue jti uid org expires) db = issue_session jti uid org expires db"
| "run_op env st now (OpLogout rq) db = snd (logout env now rq db)"
| "run_op env st now (OpInvite fr td req) db = snd (invite_user env now fr td req db)"
| "run_op env st now (OpAccept fr req) db = committed (\<lambda>db. fbind (accept_txn env now fr req db) (\<lambda>r. Inr (snd r))) db"
| "run_op env st now (OpRequestReset fr email) db = snd (request_password_reset env st now fr email db)"
| "run_op env st now (OpConfirmReset fr req) db = snd (confirm_password_reset env now fr req db)"
| "run_op env st now (OpRevokeUser uid reason) db = fst (revoke_user_sessions now uid reason db)"
| "run_op env st now OpPurge db = fst (purge_expired_sessions now db)"

fun issued :: "auth_op \<Rightarrow> string set" where
  "issued (OpIssue jti _ _ _) = {jti}"
| "issued _ = {}"

lemma insert_user_sel:
  "insert_user u db = Inr db' \<Longrightarrow> ad_tokens db' = ad_tokens db \<and> ad_sessions db' = ad_sessions db"
  by (auto simp: insert_user_def split: if_splits)

lemma signup_other:
  "ad_tokens (committed (signup_txn env fr req) db) = ad_tokens db"
  "ad_sessions (committed (signup_txn env fr req) db) = ad_sessions db"
  by (auto simp: committed_def signup_txn_def add_modules_def fbind_Inr_iff dest!: insert_user_sel split: sum.split)

lemma ensure_dev_other:
  "ad_tokens (committed (ensure_dev_user env st fr) db) = ad_tokens db"
  "ad_sessions (committed (ensure_dev_user env st fr) db) = ad_sessions db"
  by (auto simp: committed_def ensure_dev_user_def Let_def add_modules_def)

lemma accept_txn_sel:
  assumes "accept_txn env now fr req db = Inr (payload, db')"
  shows "ad_tokens db' = ad_tokens (snd (consume_token env now (aq_token req) ''invite'' db))"
    and "ad_sessions db' = ad_sessions db"
    and "fst (consume_token env now (aq_token req) ''invite'' db) = Some payload"
  using assms
  by (auto simp: accept_txn_def fbind_Inr_iff consume_token_def Let_def dest!: insert_user_sel
      split: if_splits option.splits prod.splits)

lemma identity_op_accept:
  "identity_op (committed (\<lambda>db. fbind (accept_txn env now fr req db) (\<lambda>r. Inr (snd r)))) I"
proof -
  have c: "identity_op (\<lambda>db. snd (consume_token env now (aq_token req) ''invite'' db)) I" by (rule identity_op_consume)
  have sel: "ad_tokens (committed (\<lambda>db. fbind (accept_txn env now fr req db) (\<lambda>r. Inr (snd r))) db) = ad_tokens db \<or>
      ad_tokens (committed (\<lambda>db. fbind (accept_txn env now fr req db) (\<lambda>r. Inr (snd r))) db) =
        ad_tokens (snd (consume_token env now (aq_token req) ''invite'' db))"
    "ad_sessions (committed (\<lambda>db. fbind (accept_txn env now fr req db) (\<lambda>r. Inr (snd r))) db) = ad_sessions db" for db
    by (cases "accept_txn env now fr req db"; force simp: committed_def dest: accept_txn_sel)+
  show ?thesis
  proof unfold_locales
    fix db assume "keys_ok db"
    then show "keys_ok (committed (\<lambda>db. fbind (accept_txn env now fr req db) (\<lambda>r. Inr (snd r))) db)"
      using sel(1)[of db] identity_op.keys_kept[OF c, of db] sel(2)[of db] by (auto simp: keys_ok_def)
  next
    fix h db assume "spent h db"
    then show "spent h (committed (\<lambda>db. fbind (accept_txn env now fr req db) (\<lambda>r. Inr (snd r))) db)"
      using sel(1)[of db] identity_op.spent_kept[OF c, of h db] by (auto simp: spent_def)
  qed (simp add: dead_def sel(2))
qed

lemma confirm_cases:
  assumes "confirm_password_reset env now fr req db = (Inr (), db')"
  obtains payload where "fst (consume_token env now (aq_token req) ''password_reset'' db) = Some payload"
    "db' = (let db'' = set_password (ot_user_id payload) (hash_password env (fr_salt fr) (aq_password req))
                         (snd (consume_token env now (aq_token req) ''password_reset'' db))
            in case ot_user_id payload of None \<Rightarrow> db'' | Some uid \<Rightarrow> fst (revoke_user_sessions now uid ''password_reset'' db''))"
  using assms
  by (auto simp: confirm_password_reset_def validate_password_def Let_def split: if_splits option.splits prod.splits sum.splits)

lemma confirm_fails: "confirm_password_reset env now fr req db = (Inl e, db') \<Longrightarrow> db' = db"
  by (auto simp: confirm_password_reset_def split: sum.splits)

lemma identity_op_revoke_user: "identity_op (\<lambda>db. fst (revoke_user_sessions now uid reason db)) I"
  unfolding revoke_user_sessions_def fst_conv by (rule identity_op_revoke)

lemma identity_op_set_password: "identity_op (set_password uid pw) I"
  by (rule identity_op_other) (simp_all add: set_password_def)

lemma identity_op_confirm: "identity_op (\<lambda>db. snd (confirm_password_reset env now fr req db)) I"
proof -
  let ?f = "\<lambda>pw uid db. (case uid of None \<Rightarrow> set_password uid pw (snd (consume_token env now (aq_token req) ''password_reset'' db))
    | Some u \<Rightarrow> fst (revoke_user_sessions now u ''password_reset'' (set_password uid pw (snd (consume_token env now (aq_token req) ''password_reset'' db)))))"
  have op: "identity_op (?f pw uid) I" for pw uid
    using identity_op_comp[OF identity_op_consume identity_op_set_password]
      identity_op_comp[OF identity_op_comp[OF identity_op_consume identity_op_set_password] identity_op_revoke_user]
    by (cases uid) simp_all
  have "\<exists>pw uid. snd (confirm_password_reset env now fr req db) = db \<or> snd (confirm_password_reset env now fr req db) = ?f pw uid db" for db
  proof (cases "confirm_password_reset env now fr req db")
    case (Pair r db')
    show ?thesis
    proof (cases r)
      case (Inl e)
      then show ?thesis using confirm_fails Pair by auto
    next
      case (Inr u)
      then have "confirm_password_reset env now fr req db = (Inr (), db')" using Pair by simp
      then obtain payload :: onetime_row where p: "db' = ?f (hash_password env (fr_salt fr) (aq_password req)) (ot_user_id payload) db"
        by (rule confirm_cases) (simp add: Let_def)
      show ?thesis unfolding Pair snd_conv by (intro exI disjI2) (rule p)
    qed
  qed
  then show ?thesis
    by unfold_locales
      (metis identity_op.keys_kept[OF op], metis identity_op.spent_kept[OF op], metis identity_op.dead_kept[OF op])
qed

lemma identity_op_logout: "identity_op (\<lambda>db. snd (logout env now rq db)) I"
proof -
  have "\<exists>jti. snd (logout env now rq db) = db \<or> snd (logout env now rq db) = revoke_session now jti ''logout'' db" for db
    by (auto simp: logout_def split: sum.split)
  moreover have "identity_op (revoke_session now jti ''logout'') I" for jti
    unfolding revoke_session_def by (rule identity_op_revoke)
  ultimately show ?thesis
    by unfold_locales (metis identity_op.keys_kept, metis identity_op.spent_kept, metis identity_op.dead_kept)
qed

lemma identity_op_invite: "identity_op (\<lambda>db. snd (invite_user env now fr td req db)) I"
  by (rule identity_op.commit[OF identity_op_create[of env now "fr_token fr" "''invite''" "iq_email req" "Some (td_org_id td)"
        "Some (iq_role req)" "iq_dept_id req" None None]])
    (auto simp: invite_user_def committed_def split: sum.split)

lemma identity_op_request: "identity_op (\<lambda>db. snd (request_password_reset env st now fr email db)) I"
proof -
  have "\<exists>u :: user_row. snd (request_password_reset env st now fr email db) = db \<or> snd (request_password_reset env st now fr email db) =
      committed (create_onetime_token env now (fr_token fr) ''password_reset'' (us_email u) (Some (us_org_id u)) None None
        (Some (us_user_id u)) None) db" for db
  proof (cases "get_user_by_email email db")
    case (Some u)
    then show ?thesis
      by (intro exI[of _ u]) (simp add: request_password_reset_def committed_def split: sum.split)
  qed (simp add: request_password_reset_def)
  then show ?thesis
    by unfold_locales
      (metis identity_op.keys_kept[OF identity_op_create], metis identity_op.spent_kept[OF identity_op_create],
       metis identity_op.dead_kept[OF identity_op_create])
qed

lemma run_op_fun:
  "run_op env st now (OpSignup fr req) = committed (signup_txn env fr req)"
  "run_op env st now (OpDevUser fr) = committed (ensure_dev_user env st fr)"
  "run_op env st now (OpIssue jti uid org expires) = issue_session jti uid org expires"
  "run_op env st now (OpLogout rq) = (\<lambda>db. snd (logout env now rq db))"
  "run_op env st now (OpInvite fr td ireq) = (\<lambda>db. snd (invite_user env now fr td ireq db))"
  "run_op env st now (OpAccept fr areq) = committed (\<lambda>db. fbind (accept_txn env now fr areq db) (\<lambda>r. Inr (snd r)))"
  "run_op env st now (OpRequestReset fr email) = (\<lambda>db. snd (request_password_reset env st now fr email db))"
  "run_op env st now (OpConfirmReset fr areq) = (\<lambda>db. snd (confirm_password_reset env now fr areq db))"
  "run_op env st now (OpRevokeUser uid reason) = (\<lambda>db. fst (revoke_user_sessions now uid reason db))"
  "run_op env st now OpPurge = (\<lambda>db. fst (purge_expired_sessions now db))"
  by (rule ext, simp)+

interpretation txn: identity_op "run_op env st now op" "issued op" for env st now op
  by (cases op) (simp_all add: run_op_fun identity_op_other signup_other ensure_dev_other identity_op_issue identity_op_logout
      identity_op_invite identity_op_accept identity_op_request identity_op_confirm identity_op_revoke_user identity_op_purge)

section \<open>Traces\<close>

fun run_ops :: "auth_env \<Rightarrow> auth_settings \<Rightarrow> (int \<times> auth_op) list \<Rightarrow> auth_db \<Rightarrow> auth_db" where
  "run_ops env st [] db = db"
| "run_ops env st ((now, op) # ops) db = run_ops env st ops (run_op env st now op db)"

lemma run_ops_kept:
  "keys_ok db \<Longrightarrow> keys_ok (run_ops env st ops db)"
  "spent h db \<Longrightarrow> spent h (run_ops env st ops db)"
  "dead jti db \<Longrightarrow> jti \<notin> (\<Union>(_, op) \<in> set ops. issued op) \<Longrightarrow> dead jti (run_ops env st ops db)"
  by (induction env st ops db rule: run_ops.induct) (auto simp: txn.keys_kept txn.spent_kept txn.dead_kept)

text \<open>The transactions that redeem the token of a hash.\<close>

fun redeems :: "auth_env \<Rightarrow> string \<Rightarrow> int \<Rightarrow> auth_op \<Rightarrow> auth_db \<Rightarrow> bool" where
  "redeems env h now (OpAccept fr req) db \<longleftrightarrow>
     ae_sha256 env (aq_token req) = h \<and> (case accept_txn env now fr req db of Inl _ \<Rightarrow> False | Inr _ \<Rightarrow> True)"
| "redeems env h now (OpConfirmReset fr req) db \<longleftrightarrow>
     ae_sha256 env (aq_token req) = h \<and> (case fst (confirm_password_reset env now fr req db) of Inl _ \<Rightarrow> False | Inr _ \<Rightarrow> True)"
| "redeems env h now _ db \<longleftrightarrow> False"

fun redemptions :: "auth_env \<Rightarrow> auth_settings \<Rightarrow> string \<Rightarrow> (int \<times> auth_op) list \<Rightarrow> auth_db \<Rightarrow> nat" where
  "redemptions env st h [] db = 0"
| "redemptions env st h ((now, op) # ops) db =
     (if redeems env h now op db then 1 else 0) + redemptions env st h ops (run_op env st now op db)"

lemma consumed:
  assumes "fst (consume_token env now plaintext purpose db) = Some t"
  shows "t \<in> set (ad_tokens db)" "redeemable now (ae_sha256 env plaintext) purpose t"
    "spent (ae_sha256 env plaintext) (snd (consume_token env now plaintext purpose db))"
proof -
  show t: "t \<in> set (ad_tokens db)" "redeemable now (ae_sha256 env plaintext) purpose t"
    using assms by (auto simp: consume_token_def Let_def find_Some_iff split: if_splits)
  let ?P = "redeemable now (ae_sha256 env plaintext) purpose"
  have "t\<lparr>ot_used_at := Some now\<rparr> \<in> set (map (\<lambda>t. if ?P t then t\<lparr>ot_used_at := Some now\<rparr> else t) (ad_tokens db))"
    using t by (auto intro!: image_eqI[of _ _ t] simp del: map_map)
  moreover have "ad_tokens (snd (consume_token env now plaintext purpose db)) =
      map (\<lambda>t. if ?P t then t\<lparr>ot_used_at := Some now\<rparr> else t) (ad_tokens db)"
    using assms by (auto simp: consume_token_def Let_def)
  moreover have "ot_token_hash t = ae_sha256 env plaintext" using t(2) by (simp add: redeemable_def)
  ultimately show "spent (ae_sha256 env plaintext) (snd (consume_token env now plaintext purpose db))"
    unfolding spent_def list_ex_iff by (intro bexI[of _ "t\<lparr>ot_used_at := Some now\<rparr>"]) auto
qed

lemma redeem_step:
  assumes "redeems env h now op db"
  shows "\<exists>t \<in> set (ad_tokens db). \<exists>purpose. redeemable now h purpose t" and "spent h (run_op env st now op db)"
proof -
  show "\<exists>t \<in> set (ad_tokens db). \<exists>purpose. redeemable now h purpose t"
  proof (cases op)
    case (OpAccept fr req)
    then obtain payload db' where a: "accept_txn env now fr req db = Inr (payload, db')" "ae_sha256 env (aq_token req) = h"
      using assms by (auto split: sum.splits)
    then show ?thesis using consumed(1,2)[OF accept_txn_sel(3)[OF a(1)]] by blast
  next
    case (OpConfirmReset fr req)
    then obtain db' where c: "confirm_password_reset env now fr req db = (Inr (), db')" "ae_sha256 env (aq_token req) = h"
      using assms by (cases "confirm_password_reset env now fr req db") (auto split: sum.splits)
    from c(1) show ?thesis by (rule confirm_cases) (use consumed(1,2) c(2) in blast)
  qed (use assms in auto)
  show "spent h (run_op env st now op db)"
  proof (cases op)
    case (OpAccept fr req)
    then obtain payload db' where a: "accept_txn env now fr req db = Inr (payload, db')" "ae_sha256 env (aq_token req) = h"
      using assms by (auto split: sum.splits)
    then show ?thesis
      using consumed(3)[OF accept_txn_sel(3)[OF a(1)]] accept_txn_sel(1)[OF a(1)] by (simp add: OpAccept committed_def spent_def)
  next
    case (OpConfirmReset fr req)
    then obtain db' where c: "confirm_password_reset env now fr req db = (Inr (), db')" "ae_sha256 env (aq_token req) = h"
      using assms by (cases "confirm_password_reset env now fr req db") (auto split: sum.splits)
    from c(1) show ?thesis
    proof (rule confirm_cases)
      fix payload
      assume p: "fst (consume_token env now (aq_token req) ''password_reset'' db) = Some payload"
        and db': "db' = (let db'' = set_password (ot_user_id payload) (hash_password env (fr_salt fr) (aq_password req))
                         (snd (consume_token env now (aq_token req) ''password_reset'' db))
            in case ot_user_id payload of None \<Rightarrow> db'' | Some uid \<Rightarrow> fst (revoke_user_sessions now uid ''password_reset'' db''))"
      have "ad_tokens db' = ad_tokens (snd (consume_token env now (aq_token req) ''password_reset'' db))"
        by (simp add: db' Let_def set_password_def revoke_user_sessions_def update_sessions_def split: option.split)
      then show ?thesis using consumed(3)[OF p] c by (simp add: OpConfirmReset spent_def)
    qed
  qed (use assms in auto)
qed

lemma spent_no_redemption:
  assumes "keys_ok db" and "spent h db"
  shows "redemptions env st h ops db = 0"
  using assms
proof (induction env st h ops db rule: redemptions.induct)
  case (2 env st h now op ops db)
  then have "\<not> redeems env h now op db" using redeem_step(1) spent_not_redeemable by blast
  then show ?case using 2 by (simp add: txn.keys_kept txn.spent_kept)
qed simp

lemma redeemed_at_most_once: "keys_ok db \<Longrightarrow> redemptions env st h ops db \<le> 1"
proof (induction env st h ops db rule: redemptions.induct)
  case (2 env st h now op ops db)
  then show ?case
    using spent_no_redemption[OF txn.keys_kept[OF 2(2)] redeem_step(2)] by (auto simp: txn.keys_kept)
qed simp

section \<open>Rejected requests\<close>

text \<open>At any time a token has at most one reading.\<close>

definition jwt_stable :: "auth_env \<Rightarrow> bool" where
  "jwt_stable env \<longleftrightarrow> (\<forall>t1 t2 token p1 p2. ae_decode env t1 token = Inr p1 \<longrightarrow> ae_decode env t2 token = Inr p2 \<longrightarrow> p1 = p2)"

lemma decoded_once:
  assumes "jwt_stable env" and "decode_token env t1 token = Inr td1" "decode_token env t2 token = Inr td2"
  shows "td2 = td1"
proof -
  obtain p1 p2 where p: "ae_decode env t1 token = Inr p1" "ae_decode env t2 token = Inr p2"
    using assms(2,3) by (auto simp: decode_token_def split: sum.splits)
  then have "p1 = p2" using assms(1) unfolding jwt_stable_def by blast
  then show ?thesis using assms(2,3) p by (simp add: decode_token_def split: if_splits)
qed

text \<open>Once the session of an accepted request is dead the request is rejected, also when the lookup raises.\<close>

lemma dead_session_rejected:
  assumes "jwt_stable env" and "get_current_user env t1 rq (Some db) = Inr td" "td_jti td = Some jti" "jti \<noteq> []"
    and "dead jti db'" and "request_token rq' = request_token rq" and "odb = Some db' \<or> odb = None"
  shows "get_current_user env t2 rq' odb = Inl (Http 401 ''Invalid or expired token'')"
proof -
  obtain token where t: "request_token rq = Some token" "decode_token env t1 token = Inr td"
    using assms(2) by (auto simp: get_current_user_def split: option.splits sum.splits if_splits)
  show ?thesis
  proof (cases "decode_token env t2 token")
    case (Inr td2)
    then have "td_jti td2 = Some jti" using decoded_once[OF assms(1) t(2)] assms(3) by simp
    then show ?thesis using assms(4-7) t(1) Inr dead_not_active by (auto simp: get_current_user_def token_not_revoked_def)
  qed (use assms(6) t(1) in \<open>simp add: get_current_user_def\<close>)
qed

lemma dead_rejected:
  assumes "dead jti db" and "decode_token env now token = Inr td" "request_token rq = Some token"
    and "td_jti td = Some jti" "jti \<noteq> []"
  shows "get_current_user env now rq (Some db) = Inl (Http 401 ''Invalid or expired token'')"
  using assms dead_not_active by (simp add: get_current_user_def token_not_revoked_def)

lemma revoked_all:
  "(\<And>s. s \<in> set ss \<Longrightarrow> se_jti s = jti \<Longrightarrow> P s) \<Longrightarrow>
   list_all (\<lambda>s. se_jti s = jti \<longrightarrow> se_revoked_at s \<noteq> None)
     (map (\<lambda>s. if P s \<and> se_revoked_at s = None then revoke now reason s else s) ss)"
  by (induction ss) auto

lemma revoked_dead: "dead jti (revoke_session now jti reason db)"
  using revoked_all[of "ad_sessions db" jti "\<lambda>s. se_jti s = jti"]
  by (simp add: revoke_session_def update_sessions_def dead_def)

lemma logged_out:
  assumes "logout env now rq db = (Inr (), db')" and "get_current_user env now rq (Some db) = Inr td"
    and "td_jti td = Some jti" "jti \<noteq> []"
  shows "dead jti db'"
proof -
  have "db' = revoke_session now jti ''logout'' db" using assms by (simp add: logout_def)
  then show ?thesis using revoked_dead by simp
qed

lemma reset_user_sessions:
  assumes "confirm_password_reset env now fr req db = (Inr (), db')"
    and "fst (consume_token env now (aq_token req) ''password_reset'' db) = Some payload" "ot_user_id payload = Some uid"
    and "keys_ok db" and "s \<in> set (ad_sessions db)" "se_user_id s = uid"
  shows "dead (se_jti s) db'"
proof -
  have db': "ad_sessions db' = map (\<lambda>s. if se_user_id s = uid \<and> se_revoked_at s = None then revoke now ''password_reset'' s else s) (ad_sessions db)"
    using assms(1)
  proof (rule confirm_cases)
    fix p
    assume p: "fst (consume_token env now (aq_token req) ''password_reset'' db) = Some p"
      and db': "db' = (let db'' = set_password (ot_user_id p) (hash_password env (fr_salt fr) (aq_password req))
                         (snd (consume_token env now (aq_token req) ''password_reset'' db))
            in case ot_user_id p of None \<Rightarrow> db'' | Some uid \<Rightarrow> fst (revoke_user_sessions now uid ''password_reset'' db''))"
    have "ot_user_id p = Some uid" using p assms(2,3) by simp
    then show ?thesis by (simp add: db' revoke_user_sessions_def update_sessions_def set_password_def consume_token_def Let_def)
  qed
  have "se_user_id q = uid" if "q \<in> set (ad_sessions db)" "se_jti q = se_jti s" for q
  proof -
    have "inj_on se_jti (set (ad_sessions db))" using assms(4) by (simp add: keys_ok_def distinct_map)
    then have "q = s" using that assms(5) by (meson inj_onD)
    then show ?thesis using assms(6) by simp
  qed
  then show ?thesis unfolding dead_def db' by (intro revoked_all)
qed

section \<open>Issued tokens\<close>

text \<open>A JWT decodes to its claims until it expires.\<close>

definition jwt_law :: "auth_env \<Rightarrow> bool" where
  "jwt_law env \<longleftrightarrow> (\<forall>now p. now < cl_exp p \<longrightarrow> ae_decode env now (ae_encode env p) = Inr p)"

definition bearer :: "string \<Rightarrow> request" where
  "bearer token = \<lparr>rq_cookie = None, rq_bearer = Some token\<rparr>"

lemma issued_accepted:
  assumes "jwt_law env" and "login_issue env st now fr u db = (Inr token, db')"
    and "list_all (\<lambda>s. se_jti s \<noteq> fr_jti fr) (ad_sessions db)" "fr_jti fr \<noteq> []" "us_email u \<noteq> []" "us_org_id u \<noteq> []"
    and "now' < now + as_jwt_expiry_minutes st * 60"
  shows "get_current_user env now' (bearer (tk_access_token token)) (Some db') =
    Inr \<lparr>td_email = us_email u, td_org_id = us_org_id u, td_role = us_role u, td_dept_id = nullif_empty (us_dept_id u),
         td_jti = Some (fr_jti fr)\<rparr>"
proof -
  let ?p = "\<lparr>cl_sub = Some (us_email u), cl_org_id = Some (us_org_id u), cl_role = Some (us_role u), cl_jti = Some (fr_jti fr),
    cl_dept_id = nullif_empty (us_dept_id u), cl_exp = now + as_jwt_expiry_minutes st * 60\<rparr>"
  have role: "us_role u \<in> set valid_roles" and tok: "tk_access_token token = ae_encode env ?p"
    and db': "db' = issue_session (fr_jti fr) (us_user_id u) (us_org_id u) (now + as_jwt_expiry_minutes st * 60) db"
    using assms(2) by (auto simp: login_issue_def create_access_token_def register_session_def nullif_empty_def split: if_splits)
  have dec: "ae_decode env now' (tk_access_token token) = Inr ?p"
    unfolding tok using assms(1,7) by (simp add: jwt_law_def)
  have "us_role u \<noteq> []" using role by (auto simp: valid_roles_def)
  moreover have "session_is_active now' (fr_jti fr) db'"
    using assms(3,4,7) by (auto simp: db' issue_session_def session_is_active_def live_session_def list_all_iff list_ex_iff)
  ultimately show ?thesis
    using role assms(4-6) by (simp add: get_current_user_def bearer_def request_token_def decode_token_def dec missing_claim_def
        token_not_revoked_def)
qed

text \<open>The account a successful check of the credentials returns.\<close>

lemma ensured_dev_user:
  assumes "ensure_dev_user env st fr db = Inr db'"
  shows "ad_sessions db' = ad_sessions db" "u \<in> set (ad_users db') \<Longrightarrow> u \<in> set (ad_users db) \<or> us_org_id u = as_dev_org_id st"
  using assms by (auto simp: ensure_dev_user_def add_modules_def Let_def split: if_splits)

lemma login_check_user:
  assumes "login_check env st fr req db = (Inr u, db')"
  shows "get_user_by_email (lq_email req) db' = Some u" "us_email u = lq_email req" "us_is_active u"
    "verify_password env (lq_password req) (us_hashed_pw u) = Inr True" "ad_sessions db' = ad_sessions db"
    "u \<in> set (ad_users db) \<or> us_org_id u = as_dev_org_id st"
proof -
  have g: "get_user_by_email (lq_email req) db' = Some u \<and> us_is_active u \<and>
      verify_password env (lq_password req) (us_hashed_pw u) = Inr True \<and>
      (db' = db \<or> ensure_dev_user env st fr db = Inr db')"
    using assms by (auto simp: login_check_def Let_def fbind_Inr_iff split: option.splits if_splits sum.splits bool.splits)
  then have u: "u \<in> set (ad_users db')" "us_email u = lq_email req" by (auto simp: get_user_by_email_def find_Some_iff)
  show "get_user_by_email (lq_email req) db' = Some u" "us_email u = lq_email req" "us_is_active u"
    "verify_password env (lq_password req) (us_hashed_pw u) = Inr True" using g u by auto
  show "ad_sessions db' = ad_sessions db" "u \<in> set (ad_users db) \<or> us_org_id u = as_dev_org_id st"
    using g u(1) ensured_dev_user(1)[of env st fr db db'] ensured_dev_user(2)[of env st fr db db' u] by blast+
qed

lemma login_issue_users: "login_issue env st now fr u db = (Inr token, db') \<Longrightarrow> ad_users db' = ad_users db"
  by (auto simp: login_issue_def register_session_def issue_session_def split: sum.splits)

section \<open>Invites\<close>

lemma invite_ok_iff:
  "(\<exists>t db'. invite_user env now fr td req db = (Inr t, db')) \<longleftrightarrow>
     (td_role td \<in> {''platform_admin'', ''company_admin''} \<or> td_role td = ''department_admin'' \<and> iq_role req = ''department_user'') \<and>
     \<not> email_taken (iq_email req) db \<and> ae_sha256 env (fr_token fr) \<notin> ot_token_hash ` set (ad_tokens db)"
  by (auto simp: invite_user_def create_onetime_token_def Let_def list_ex_iff intro: rev_image_eqI)

lemma invite_supersedes:
  assumes "invite_user env now fr td req db = (Inr t, db')"
    and "ae_sha256 env plaintext \<noteq> ae_sha256 env (fr_token fr)"
    and "\<And>r. r \<in> set (ad_tokens db) \<Longrightarrow> ot_token_hash r = ae_sha256 env plaintext \<Longrightarrow> ot_email r = iq_email req"
  shows "fst (consume_token env now' plaintext ''invite'' db') = None"
proof -
  have db': "create_onetime_token env now (fr_token fr) ''invite'' (iq_email req) (Some (td_org_id td))
      (Some (iq_role req)) (iq_dept_id req) None None db = Inr db'"
    using assms(1) by (auto simp: invite_user_def split: if_splits sum.splits)
  then obtain n where n: "ad_tokens db' = ad_tokens (supersede_tokens now ''invite'' (iq_email req) db) @ [n]"
      "ot_token_hash n = ae_sha256 env (fr_token fr)"
    by (rule create_cases)
  have "\<not> redeemable now' (ae_sha256 env plaintext) ''invite'' r" if "r \<in> set (ad_tokens db')" for r
  proof
    assume r: "redeemable now' (ae_sha256 env plaintext) ''invite'' r"
    then have "r \<in> set (ad_tokens (supersede_tokens now ''invite'' (iq_email req) db))"
      using that n assms(2) by (auto simp: redeemable_def)
    then obtain q where q: "q \<in> set (ad_tokens db)"
        "r = (if ot_purpose q = ''invite'' \<and> ot_email q = iq_email req \<and> ot_used_at q = None then q\<lparr>ot_used_at := Some now\<rparr> else q)"
      by (auto simp: supersede_tokens_def)
    have "ot_token_hash q = ae_sha256 env plaintext" "ot_purpose q = ''invite''" "ot_used_at r = None"
      using r q(2) by (auto simp: redeemable_def split: if_splits)
    then show False using q assms(3)[of q] by (auto split: if_splits)
  qed
  then have "List.find (redeemable now' (ae_sha256 env plaintext) ''invite'') (ad_tokens db') = None"
    by (simp add: find_None_iff)
  then show ?thesis by (simp add: consume_token_def Let_def)
qed

lemma accept_bad_role:
  assumes "fst (consume_token env now (aq_token req) ''invite'' db) = Some payload"
    and "role_or_default (ot_role payload) \<notin> set valid_roles"
  shows "\<exists>e. accept_txn env now fr req db = Inl e"
  using assms by (cases "consume_token env now (aq_token req) ''invite'' db") (auto simp: accept_txn_def insert_user_def split: option.split)

end
