(* ===== verification/Access.thy ===== *)
theory Access
  imports Auth
begin

text \<open>
  Who may see a run: \<open>app/domain/visibility.py\<close> with the SQL function \<open>runs_visible_to\<close> it calls
  (\<open>app/db/schema.sql\<close>, line 787), and the guards of \<open>app/auth/rbac.py\<close>. The state is the five tables these
  read; the mutators of visibility.py change three of them.
\<close>

section \<open>Tables\<close>

record run_row =
  rr_run_id :: string
  rr_org_id :: string
  rr_created_by_email :: "string option"
  rr_creator_dept_id :: "string option"
  rr_created_at :: int

record dept_row =
  dr_user_id :: string
  dr_department_id :: string
  dr_role_in_dept :: string

record collaborator_row =
  cb_run_id :: string
  cb_user_id :: string
  cb_role :: string
  cb_added_by :: string

record approval_row =
  ap_run_id :: string
  ap_approver_user_id :: string
  ap_approver_role :: string
  ap_status :: string

record access_db =
  xd_users :: "user_row list"
  xd_runs :: "run_row list"
  xd_depts :: "dept_row list"
  xd_collaborators :: "collaborator_row list"
  xd_approvals :: "approval_row list"

section \<open>The SQL function runs_visible_to\<close>

definition in_department :: "access_db \<Rightarrow> string \<Rightarrow> run_row \<Rightarrow> bool" where
  "in_department db user_id r \<longleftrightarrow>
     list_ex (\<lambda>d. dr_user_id d = user_id \<and> rr_creator_dept_id r = Some (dr_department_id d)) (xd_depts db)"

definition is_collaborator :: "access_db \<Rightarrow> string \<Rightarrow> run_row \<Rightarrow> bool" where
  "is_collaborator db user_id r \<longleftrightarrow> list_ex (\<lambda>c. cb_run_id c = rr_run_id r \<and> cb_user_id c = user_id) (xd_collaborators db)"

definition is_approver :: "access_db \<Rightarrow> string \<Rightarrow> run_row \<Rightarrow> bool" where
  "is_approver db user_id r \<longleftrightarrow> list_ex (\<lambda>a. ap_run_id a = rr_run_id r \<and> ap_approver_user_id a = user_id) (xd_approvals db)"

definition runs_visible_to :: "access_db \<Rightarrow> string \<Rightarrow> string \<Rightarrow> string \<Rightarrow> string \<Rightarrow> run_row list" where
  "runs_visible_to db user_id email role org_id =
     filter (\<lambda>r. rr_org_id r = org_id \<and>
       (role \<in> {''platform_admin'', ''company_admin''} \<or> rr_created_by_email r = Some email \<or>
        in_department db user_id r \<or> is_collaborator db user_id r \<or> is_approver db user_id r)) (xd_runs db)"

section \<open>app/domain/visibility.py\<close>

definition visibility_wide_roles :: "string list" where
  "visibility_wide_roles = [''platform_admin'', ''company_admin'']"

definition lookup_user_id :: "access_db \<Rightarrow> string \<Rightarrow> string \<Rightarrow> string option" where
  "lookup_user_id db email org_id =
     map_option us_user_id (List.find (\<lambda>u. us_email u = email \<and> us_org_id u = org_id) (xd_users db))"

definition nil_uuid :: string where
  "nil_uuid = ''00000000-0000-0000-0000-000000000000''"

definition caller_id :: "access_db \<Rightarrow> token_data \<Rightarrow> string" where
  "caller_id db user =
     (case lookup_user_id db (td_email user) (td_org_id user) of None \<Rightarrow> nil_uuid | Some u \<Rightarrow> if u = [] then nil_uuid else u)"

definition visible_set :: "access_db \<Rightarrow> token_data \<Rightarrow> run_row list" where
  "visible_set db user = runs_visible_to db (caller_id db user) (td_email user) (td_role user) (td_org_id user)"

definition pending_approver :: "access_db \<Rightarrow> string \<Rightarrow> run_row \<Rightarrow> bool" where
  "pending_approver db user_id r \<longleftrightarrow>
     list_ex (\<lambda>a. ap_run_id a = rr_run_id r \<and> ap_approver_user_id a = user_id \<and> ap_status a = ''pending'') (xd_approvals db)"

definition in_scope :: "access_db \<Rightarrow> token_data \<Rightarrow> string \<Rightarrow> run_row \<Rightarrow> bool" where
  "in_scope db user scope r =
     (if scope = ''mine'' then rr_created_by_email r = Some (td_email user)
      else if scope = ''department'' then in_department db (caller_id db user) r
      else if scope = ''approvals'' then pending_approver db (caller_id db user) r
      else if scope = ''shared'' then is_collaborator db (caller_id db user) r
      else True)"

text \<open>\<open>ORDER BY created_at DESC LIMIT :limit\<close>; equal times keep the order of the table.\<close>

definition visible_runs :: "access_db \<Rightarrow> token_data \<Rightarrow> string \<Rightarrow> nat \<Rightarrow> run_row list" where
  "visible_runs db user scope limit =
     (if scope = ''all'' \<and> td_role user \<notin> set visibility_wide_roles then []
      else take limit (sort_key (\<lambda>r. - rr_created_at r) (filter (in_scope db user scope) (visible_set db user))))"

definition visibility_can_view_run :: "access_db \<Rightarrow> token_data \<Rightarrow> string \<Rightarrow> bool" where
  "visibility_can_view_run db user run_id \<longleftrightarrow> list_ex (\<lambda>r. rr_run_id r = run_id) (visible_set db user)"

text \<open>The mutators: an upsert on the primary key, after the check of the role and under the foreign keys.\<close>

definition known_user :: "access_db \<Rightarrow> string \<Rightarrow> bool" where
  "known_user db user_id \<longleftrightarrow> list_ex (\<lambda>u. us_user_id u = user_id) (xd_users db)"

definition known_run :: "access_db \<Rightarrow> string \<Rightarrow> bool" where
  "known_run db run_id \<longleftrightarrow> list_ex (\<lambda>r. rr_run_id r = run_id) (xd_runs db)"

definition upsert_where :: "('a \<Rightarrow> bool) \<Rightarrow> ('a \<Rightarrow> 'a) \<Rightarrow> 'a \<Rightarrow> 'a list \<Rightarrow> 'a list" where
  "upsert_where P f x xs = (if list_ex P xs then map (\<lambda>y. if P y then f y else y) xs else xs @ [x])"

definition add_collaborator :: "string \<Rightarrow> string \<Rightarrow> string \<Rightarrow> string \<Rightarrow> access_db \<Rightarrow> access_db result" where
  "add_collaborator run_id user_id role added_by db =
     (if role \<notin> {''viewer'', ''reviewer'', ''editor''} then Inl (ValueError (''Invalid collaborator role: '' @ role))
      else if \<not> (known_run db run_id \<and> known_user db user_id \<and> known_user db added_by)
      then Inl (ExternalError ''rfp_collaborators_fkey'')
      else Inr (db\<lparr>xd_collaborators := upsert_where (\<lambda>c. cb_run_id c = run_id \<and> cb_user_id c = user_id)
        (\<lambda>c. c\<lparr>cb_role := role\<rparr>)
        \<lparr>cb_run_id = run_id, cb_user_id = user_id, cb_role = role, cb_added_by = added_by\<rparr> (xd_collaborators db)\<rparr>))"

definition remove_collaborator :: "string \<Rightarrow> string \<Rightarrow> access_db \<Rightarrow> access_db" where
  "remove_collaborator run_id user_id db =
     db\<lparr>xd_collaborators := filter (\<lambda>c. \<not> (cb_run_id c = run_id \<and> cb_user_id c = user_id)) (xd_collaborators db)\<rparr>"

definition add_user_to_department :: "string \<Rightarrow> string \<Rightarrow> string \<Rightarrow> access_db \<Rightarrow> access_db result" where
  "add_user_to_department user_id department_id role_in_dept db =
     (if role_in_dept \<notin> {''member'', ''lead'', ''observer''} then Inl (ValueError (''Invalid role_in_dept: '' @ role_in_dept))
      else if \<not> known_user db user_id then Inl (ExternalError ''user_departments_user_id_fkey'')
      else Inr (db\<lparr>xd_depts := upsert_where (\<lambda>d. dr_user_id d = user_id \<and> dr_department_id d = department_id)
        (\<lambda>d. d\<lparr>dr_role_in_dept := role_in_dept\<rparr>)
        \<lparr>dr_user_id = user_id, dr_department_id = department_id, dr_role_in_dept = role_in_dept\<rparr> (xd_depts db)\<rparr>))"

definition assign_approver :: "string \<Rightarrow> string \<Rightarrow> string \<Rightarrow> access_db \<Rightarrow> access_db result" where
  "assign_approver run_id approver_user_id approver_role db =
     (if \<not> (known_run db run_id \<and> known_user db approver_user_id) then Inl (ExternalError ''approval_assignments_fkey'')
      else Inr (db\<lparr>xd_approvals := upsert_where (\<lambda>a. ap_run_id a = run_id \<and> ap_approver_user_id a = approver_user_id)
       (\<lambda>a. a\<lparr>ap_approver_role := approver_role, ap_status := ''pending''\<rparr>)
       \<lparr>ap_run_id = run_id, ap_approver_user_id = approver_user_id, ap_approver_role = approver_role, ap_status = ''pending''\<rparr>
       (xd_approvals db)\<rparr>))"

section \<open>app/auth/rbac.py\<close>

definition rbac_wide_roles :: "string list" where
  "rbac_wide_roles = [''platform_admin'', ''company_admin'', ''department_admin'']"

text \<open>The run is the row the route read.\<close>

definition rbac_can_view_run :: "access_db \<Rightarrow> token_data \<Rightarrow> run_row \<Rightarrow> bool" where
  "rbac_can_view_run db user run \<longleftrightarrow>
     td_role user \<in> set rbac_wide_roles \<or> rr_created_by_email run = Some (td_email user) \<or>
     (rr_run_id run \<noteq> [] \<and> visibility_can_view_run db user (rr_run_id run))"

definition require_run_access :: "access_db \<Rightarrow> token_data \<Rightarrow> run_row \<Rightarrow> unit response" where
  "require_run_access db user run =
     (if rbac_can_view_run db user run then Inr ()
      else Inl (Http 403 ''You do not have access to this evaluation run''))"

definition require_audit_read :: "string list \<Rightarrow> token_data \<Rightarrow> unit response" where
  "require_audit_read audit_read_roles user =
     (if td_role user \<notin> set audit_read_roles then Inl (Http 403 ''Reading the audit trail requires an audit-read role'')
      else Inr ())"

definition require_write_role :: "string list \<Rightarrow> token_data \<Rightarrow> unit response" where
  "require_write_role write_roles user =
     (if td_role user \<notin> set write_roles then Inl (Http 403 ''Your role cannot perform this action'') else Inr ())"

definition require_admin_role :: "token_data \<Rightarrow> unit response" where
  "require_admin_role user =
     (if td_role user \<notin> set rbac_wide_roles
      then Inl (Http 403 ''Override and approval actions require department_admin role or above'') else Inr ())"

section \<open>What is visible\<close>

text \<open>The five predicates of the module's docstring, for a run of the organisation.\<close>

definition may_see :: "access_db \<Rightarrow> token_data \<Rightarrow> run_row \<Rightarrow> bool" where
  "may_see db user r \<longleftrightarrow>
     td_role user \<in> set visibility_wide_roles \<or> rr_created_by_email r = Some (td_email user) \<or>
     in_department db (caller_id db user) r \<or> is_collaborator db (caller_id db user) r \<or> is_approver db (caller_id db user) r"

lemma visible_set_iff: "r \<in> set (visible_set db user) \<longleftrightarrow> r \<in> set (xd_runs db) \<and> rr_org_id r = td_org_id user \<and> may_see db user r"
  unfolding visible_set_def runs_visible_to_def may_see_def visibility_wide_roles_def set_filter mem_Collect_eq
    list.set insert_iff empty_iff by blast

lemma visible_runs_subset: "r \<in> set (visible_runs db user scope limit) \<Longrightarrow> r \<in> set (visible_set db user)"
  by (auto simp: visible_runs_def dest: in_set_takeD split: if_splits)

definition run_keys_ok :: "access_db \<Rightarrow> bool" where
  "run_keys_ok db \<longleftrightarrow> distinct (map rr_run_id (xd_runs db))"

lemma can_view_iff:
  assumes "run_keys_ok db" and "r \<in> set (xd_runs db)"
  shows "visibility_can_view_run db user (rr_run_id r) \<longleftrightarrow> rr_org_id r = td_org_id user \<and> may_see db user r"
proof -
  have "inj_on rr_run_id (set (xd_runs db))" using assms(1) by (simp add: run_keys_ok_def distinct_map)
  then have uniq: "q = r" if "q \<in> set (xd_runs db)" "rr_run_id q = rr_run_id r" for q
    using that assms(2) by (meson inj_onD)
  have "visibility_can_view_run db user (rr_run_id r) \<longleftrightarrow> (\<exists>q \<in> set (visible_set db user). rr_run_id q = rr_run_id r)"
    by (simp add: visibility_can_view_run_def list_ex_iff)
  also have "... \<longleftrightarrow> r \<in> set (visible_set db user)"
    using uniq visible_set_iff by metis
  also have "... \<longleftrightarrow> rr_org_id r = td_org_id user \<and> may_see db user r"
    by (simp add: visible_set_iff assms(2))
  finally show ?thesis .
qed

lemma pending_is_approver: "pending_approver db u r \<Longrightarrow> is_approver db u r"
  by (auto simp: is_approver_def pending_approver_def list_ex_iff)

lemma scopes_within:
  "scope \<in> {''mine'', ''department'', ''approvals'', ''shared''} \<Longrightarrow> in_scope db user scope r \<Longrightarrow> may_see db user r"
  by (elim insertE emptyE; simp add: in_scope_def may_see_def pending_is_approver)

lemma scoped_runs:
  assumes "scope \<noteq> ''all'' \<or> td_role user \<in> set visibility_wide_roles" and "length (xd_runs db) \<le> limit"
  shows "r \<in> set (visible_runs db user scope limit) \<longleftrightarrow> r \<in> set (visible_set db user) \<and> in_scope db user scope r"
proof -
  have "length (filter (in_scope db user scope) (visible_set db user)) \<le> limit"
    using assms(2) length_filter_le[of "in_scope db user scope" "visible_set db user"]
    by (auto simp: visible_set_def runs_visible_to_def intro: order_trans length_filter_le)
  then show ?thesis using assms(1) by (auto simp: visible_runs_def)
qed

end
