(* ===== verification/Org_Settings.thy ===== *)
theory Org_Settings
  imports Auth
begin

text \<open>
  The settings of an organisation: \<open>app/domain/org_settings.py\<close> and the routes of
  \<open>app/api/org_settings_routes.py\<close>. The state is the table \<open>org_settings\<close> with its audit table and the
  in-process cache. Parameters, in \<open>settings_env\<close>: the product configuration, pydantic's conversion of one
  value to the type of a field, the column that stores a field, and \<open>str\<close>.
\<close>

section \<open>State\<close>

type_synonym fields = "(string, json) dict"

record org_settings =
  os_org_id :: string
  os_fields :: fields

record audit_row =
  oa_org_id :: string
  oa_changed_by :: string
  oa_field_name :: string
  oa_old_value :: string
  oa_new_value :: string

record settings_state =
  ss_rows :: "(string, fields) dict"
  ss_audit :: "audit_row list"
  ss_cache :: "(string, int \<times> org_settings) dict"

record settings_env =
  sn_new_org_defaults :: fields
  sn_presets :: "(string, fields) dict"
  sn_reranker_provider :: string
  sn_cache_ttl :: int
  sn_coerce :: "string \<Rightarrow> json \<Rightarrow> json option"
  sn_column :: "string \<Rightarrow> json \<Rightarrow> json option"
  sn_str :: "json \<Rightarrow> string"

section \<open>The model OrgSettings\<close>

definition all_fields :: "string list" where
  "all_fields = [''quality_tier'', ''use_hyde'', ''use_reranking'', ''use_query_rewriting'', ''use_hybrid_search'',
     ''reranker_provider'', ''retrieval_top_k'', ''rerank_top_n'', ''mandatory_check_use_llm_verify'',
     ''confidence_retry_threshold'', ''score_variance_threshold'', ''rank_margin_threshold'', ''llm_temperature'',
     ''output_tone'', ''output_language'', ''citation_style'', ''include_confidence_score'',
     ''include_evidence_quotes'', ''max_evidence_quote_chars'', ''parallel_vendors'']"

text \<open>The \<open>Field(ge=..., le=...)\<close> constraints.\<close>

definition field_bounds :: "(string, rat \<times> rat) dict" where
  "field_bounds = [(''confidence_retry_threshold'', 0, 1), (''score_variance_threshold'', 0, 1),
     (''rank_margin_threshold'', 0, 100), (''llm_temperature'', 0, 2), (''max_evidence_quote_chars'', 50, 2000)]"

fun value_within :: "rat \<times> rat \<Rightarrow> json \<Rightarrow> bool" where
  "value_within (a, b) (JNum x) \<longleftrightarrow> a \<le> x \<and> x \<le> b"
| "value_within _ _ \<longleftrightarrow> False"

definition in_bounds :: "string \<Rightarrow> json \<Rightarrow> bool" where
  "in_bounds k v = (case dict_get field_bounds k of None \<Rightarrow> True | Some ab \<Rightarrow> value_within ab v)"

definition field_value :: "settings_env \<Rightarrow> fields \<Rightarrow> string \<Rightarrow> (string \<times> json) result" where
  "field_value env d k =
     (case (case dict_get d k of Some v \<Rightarrow> Some v | None \<Rightarrow> if k = ''quality_tier'' then Some (JStr ''balanced'') else None) of
        None \<Rightarrow> Inl (ValidationError k)
      | Some v \<Rightarrow> (case sn_coerce env k v of
                     None \<Rightarrow> Inl (ValidationError k)
                   | Some w \<Rightarrow> if in_bounds k w then Inr (k, w) else Inl (ValidationError k)))"

fun validate_fields :: "settings_env \<Rightarrow> fields \<Rightarrow> string list \<Rightarrow> fields result" where
  "validate_fields env d [] = Inr []"
| "validate_fields env d (k # ks) = rbind (field_value env d k) (\<lambda>kv. rbind (validate_fields env d ks) (\<lambda>kvs. Inr (kv # kvs)))"

definition make_org_settings :: "settings_env \<Rightarrow> string \<Rightarrow> fields \<Rightarrow> org_settings result" where
  "make_org_settings env org_id d =
     (if dict_mem ''org_id'' d then Inl (TypeError ''got multiple values for keyword argument org_id'')
      else rbind (validate_fields env d all_fields) (\<lambda>fs. Inr \<lparr>os_org_id = org_id, os_fields = fs\<rparr>))"

section \<open>Reading\<close>

fun preset_key :: "json \<Rightarrow> string option result" where
  "preset_key (JStr s) = Inr (Some s)"
| "preset_key (JArr _) = Inl (TypeError ''unhashable type: list'')"
| "preset_key (JObj _) = Inl (TypeError ''unhashable type: dict'')"
| "preset_key _ = Inr None"

definition preset_of :: "settings_env \<Rightarrow> json \<Rightarrow> fields option result" where
  "preset_of env tier = rbind (preset_key tier) (\<lambda>k. Inr (case k of None \<Rightarrow> None | Some t \<Rightarrow> dict_get (sn_presets env) t))"

definition defaults_for :: "settings_env \<Rightarrow> string \<Rightarrow> org_settings result" where
  "defaults_for env org_id =
     (let d = sn_new_org_defaults env; tier = get_default d ''quality_tier'' (JStr ''balanced'')
      in rbind (preset_of env tier) (\<lambda>p.
         rbind (case p of Some config \<Rightarrow> Inr config
                | None \<Rightarrow> (case dict_get (sn_presets env) ''balanced'' of
                             None \<Rightarrow> Inl (KeyError (quoted ''balanced'')) | Some config \<Rightarrow> Inr config)) (\<lambda>config.
         make_org_settings env org_id
           (dict_set ''reranker_provider'' (JStr (sn_reranker_provider env))
             (dict_set ''quality_tier'' tier (dict_update d config))))))"

definition cached :: "settings_env \<Rightarrow> int \<Rightarrow> string \<Rightarrow> settings_state \<Rightarrow> org_settings option" where
  "cached env now org_id s =
     (case dict_get (ss_cache s) org_id of
        None \<Rightarrow> None
      | Some (ts, val) \<Rightarrow> if now - ts < sn_cache_ttl env then Some val else None)"

text \<open>The part between the two critical sections: read the row, build the value.\<close>

definition read_settings :: "settings_env \<Rightarrow> string \<Rightarrow> settings_state \<Rightarrow> org_settings result" where
  "read_settings env org_id s =
     (case dict_get (ss_rows s) org_id of
        Some row \<Rightarrow> make_org_settings env org_id row
      | None \<Rightarrow> defaults_for env org_id)"

definition store_settings :: "int \<Rightarrow> string \<Rightarrow> org_settings \<Rightarrow> settings_state \<Rightarrow> settings_state" where
  "store_settings now org_id val s = s\<lparr>ss_cache := dict_set org_id (now, val) (ss_cache s)\<rparr>"

definition get_org_settings :: "settings_env \<Rightarrow> int \<Rightarrow> string \<Rightarrow> settings_state \<Rightarrow> org_settings result \<times> settings_state" where
  "get_org_settings env now org_id s =
     (case cached env now org_id s of
        Some val \<Rightarrow> (Inr val, s)
      | None \<Rightarrow>
          (case read_settings env org_id s of
             Inl e \<Rightarrow> (Inl e, s)
           | Inr val \<Rightarrow> (Inr val, store_settings now org_id val s)))"

definition invalidate_org_settings :: "string \<Rightarrow> settings_state \<Rightarrow> settings_state" where
  "invalidate_org_settings org_id s = s\<lparr>ss_cache := filter (\<lambda>kv. fst kv \<noteq> org_id) (ss_cache s)\<rparr>"

section \<open>Writing\<close>

definition overlay_preset :: "fields \<Rightarrow> json \<Rightarrow> fields \<Rightarrow> fields" where
  "overlay_preset preset tier given =
     dict_set ''quality_tier'' tier (dict_update preset (filter (\<lambda>kv. \<not> dict_mem (fst kv) preset) given))"

definition effective_fields :: "settings_env \<Rightarrow> bool \<Rightarrow> fields \<Rightarrow> fields \<Rightarrow> fields result" where
  "effective_fields env apply_preset current given =
     (let tier = get_default given ''quality_tier'' (get_default current ''quality_tier'' JNull)
      in if \<not> apply_preset then Inr given
         else rbind (preset_of env tier) (\<lambda>p.
              Inr (case p of None \<Rightarrow> given | Some preset \<Rightarrow> overlay_preset preset tier given)))"

text \<open>\<open>model_copy(update=...)\<close> assigns without validation.\<close>

definition model_copy :: "fields \<Rightarrow> fields \<Rightarrow> fields" where
  "model_copy current upd = map (\<lambda>(k, v). (k, get_default upd k v)) current"

definition one_of :: "string list \<Rightarrow> json \<Rightarrow> bool" where
  "one_of xs v \<longleftrightarrow> list_ex (\<lambda>x. v = JStr x) xs"

text \<open>The CHECK constraints of the table.\<close>

definition row_ok :: "string \<times> json \<Rightarrow> bool" where
  "row_ok kv = (let (k, v) = kv in
     if k = ''output_tone'' then one_of [''formal'', ''conversational'', ''technical''] v
     else if k = ''citation_style'' then one_of [''inline'', ''footnote'', ''appendix''] v
     else if k = ''reranker_provider'' then one_of [''cohere'', ''bge'', ''colbert'', ''modal'', ''none''] v
     else in_bounds k v)"

fun stored_row :: "settings_env \<Rightarrow> fields \<Rightarrow> fields result" where
  "stored_row env [] = Inr []"
| "stored_row env ((k, v) # kvs) =
     (case sn_column env k v of
        None \<Rightarrow> Inl (ExternalError k)
      | Some w \<Rightarrow> if row_ok (k, w) then rbind (stored_row env kvs) (\<lambda>rest. Inr ((k, w) # rest)) else Inl (ExternalError k))"

definition changed_fields :: "settings_env \<Rightarrow> string \<Rightarrow> string \<Rightarrow> fields \<Rightarrow> fields \<Rightarrow> audit_row list" where
  "changed_fields env org_id updated_by old new =
     List.map_filter (\<lambda>k. let o_val = sn_str env (get_default old k JNull); n_val = sn_str env (get_default new k JNull)
       in if o_val \<noteq> n_val
          then Some \<lparr>oa_org_id = org_id, oa_changed_by = updated_by, oa_field_name = k, oa_old_value = o_val, oa_new_value = n_val\<rparr>
          else None) all_fields"

definition write_settings ::
  "settings_env \<Rightarrow> string \<Rightarrow> string \<Rightarrow> fields \<Rightarrow> fields \<Rightarrow> settings_state \<Rightarrow> settings_state result" where
  "write_settings env org_id updated_by current new s =
     rbind (stored_row env new) (\<lambda>row.
     Inr (s\<lparr>ss_rows := dict_set org_id row (ss_rows s),
            ss_audit := ss_audit s @ changed_fields env org_id updated_by current new\<rparr>))"

definition upsert_org_settings ::
  "settings_env \<Rightarrow> int \<Rightarrow> string \<Rightarrow> string \<Rightarrow> bool \<Rightarrow> fields \<Rightarrow> settings_state \<Rightarrow> org_settings result \<times> settings_state" where
  "upsert_org_settings env now org_id updated_by apply_preset given s =
     (case get_org_settings env now org_id s of
        (Inl e, s1) \<Rightarrow> (Inl e, s1)
      | (Inr current, s1) \<Rightarrow>
          (case rbind (effective_fields env apply_preset (os_fields current) given) (\<lambda>upd.
                  write_settings env org_id updated_by (os_fields current) (model_copy (os_fields current) upd) s1) of
             Inl e \<Rightarrow> (Inl e, s1)
           | Inr s2 \<Rightarrow> get_org_settings env now org_id (invalidate_org_settings org_id s2)))"

section \<open>app/api/org_settings_routes.py\<close>

text \<open>\<open>Depends(require_role(...))\<close>: the parameter \<open>token_data: TokenData\<close> of the returned function is a
  pydantic model, which FastAPI reads from the body of the request.\<close>

definition role_guard :: "string list \<Rightarrow> token_data option \<Rightarrow> unit response" where
  "role_guard allowed_roles body_token =
     (case body_token of
        None \<Rightarrow> Inl (Http 422 ''Field required: token_data'')
      | Some td \<Rightarrow> fbind (require_role allowed_roles td) (\<lambda>_. Inr ()))"

text \<open>\<open>upsert_org_settings(user.org_id, updated_by=user.email, **body.fields)\<close>.\<close>

definition reserved :: "string list" where
  "reserved = [''org_id'', ''updated_by'']"

definition update_org_settings ::
  "settings_env \<Rightarrow> int \<Rightarrow> token_data response \<Rightarrow> token_data option \<Rightarrow> fields \<Rightarrow> settings_state \<Rightarrow>
     org_settings response \<times> settings_state" where
  "update_org_settings env now user body_token given s =
     (case fbind user (\<lambda>u. fbind (role_guard [''platform_admin'', ''company_admin''] body_token) (\<lambda>_. Inr u)) of
        Inl e \<Rightarrow> (Inl e, s)
      | Inr u \<Rightarrow>
          if list_ex (\<lambda>k. dict_mem k given) reserved
          then (Inl (Http 400 ''upsert_org_settings() got multiple values for argument''), s)
          else
            (case upsert_org_settings env now (td_org_id u) (td_email u)
                    (truthy (get_default given ''apply_preset'' (JBool True)))
                    (filter (\<lambda>kv. fst kv \<noteq> ''apply_preset'') given) s of
               (Inl e, s') \<Rightarrow> (Inl (Http 400 (exn_str e)), s')
             | (Inr val, s') \<Rightarrow> (Inr val, s')))"

definition reset_org_settings ::
  "settings_env \<Rightarrow> int \<Rightarrow> token_data response \<Rightarrow> token_data option \<Rightarrow> settings_state \<Rightarrow> org_settings response \<times> settings_state" where
  "reset_org_settings env now user body_token s =
     (case fbind user (\<lambda>u. fbind (role_guard [''platform_admin'', ''company_admin''] body_token) (\<lambda>_. Inr u)) of
        Inl e \<Rightarrow> (Inl e, s)
      | Inr u \<Rightarrow>
          (case get_org_settings env now (td_org_id u) (invalidate_org_settings (td_org_id u)
                  (s\<lparr>ss_rows := filter (\<lambda>kv. fst kv \<noteq> td_org_id u) (ss_rows s)\<rparr>)) of
             (Inl e, s') \<Rightarrow> (Inl (Raised e), s')
           | (Inr val, s') \<Rightarrow> (Inr val, s')))"

section \<open>What an update writes\<close>

lemma get_default_overlay:
  assumes "k \<noteq> ''quality_tier''" and "dict_get preset k = Some v"
  shows "get_default (overlay_preset preset tier given) k w = v"
proof -
  have "map_of (rev (filter (\<lambda>kv. \<not> dict_mem (fst kv) preset) given)) k = None"
  proof -
    have "k \<in> fst ` set preset" using assms(2) map_of_eq_None_iff[of preset k] by (metis option.distinct(1))
    then show ?thesis unfolding map_of_eq_None_iff by force
  qed
  then show ?thesis using assms by (simp add: overlay_preset_def get_default_def dict_get_update)
qed

lemma preset_of_Some: "dict_get (sn_presets env) t = Some preset \<Longrightarrow> preset_of env (JStr t) = Inr (Some preset)"
  by (simp add: preset_of_def)

lemma map_of_map_keyed: "map_of (map (\<lambda>(k, v). (k, f k v)) m) k = map_option (f k) (map_of m k)"
  by (induction m) auto

lemma model_copy_get: "k \<in> set (dict_keys current) \<Longrightarrow> get_default (model_copy current upd) k w = get_default upd k (get_default current k w)"
proof -
  assume "k \<in> set (dict_keys current)"
  then obtain x where "map_of current k = Some x" by (metis map_of_eq_None_iff not_Some_eq list.set_map)
  then show ?thesis by (simp add: model_copy_def get_default_def map_of_map_keyed split: option.split)
qed

text \<open>A field of the tier's preset takes the preset's value, whatever the request says.\<close>

lemma preset_field_wins:
  assumes "dict_get (sn_presets env) t = Some preset"
    and "get_default given ''quality_tier'' (get_default current ''quality_tier'' JNull) = JStr t"
    and "k \<noteq> ''quality_tier''" "dict_get preset k = Some v" "k \<in> set (dict_keys current)"
    and "effective_fields env True current given = Inr upd"
  shows "get_default (model_copy current upd) k w = v"
proof -
  have "upd = overlay_preset preset (JStr t) given"
    using assms(2,6) by (simp add: effective_fields_def Let_def preset_of_Some[OF assms(1)])
  then show ?thesis using get_default_overlay[OF assms(3,4)] by (simp add: model_copy_get[OF assms(5)])
qed

lemma stored_row_get: "stored_row env kvs = Inr row \<Longrightarrow> map_of kvs k = Some v \<Longrightarrow> map_of row k = sn_column env k v"
proof (induction kvs arbitrary: row)
  case (Cons kv kvs)
  obtain j u where kv: "kv = (j, u)" by fastforce
  from Cons.prems(1) obtain w rest where w: "sn_column env j u = Some w" "stored_row env kvs = Inr rest" "row = (j, w) # rest"
    by (auto simp: kv rbind_Inr_iff split: option.splits if_splits)
  then show ?case using Cons.IH[OF w(2)] Cons.prems(2) by (auto simp: kv split: if_splits)
qed simp

lemma model_copy_map_of:
  assumes "k \<in> set (dict_keys current)"
  shows "map_of (model_copy current upd) k = Some (get_default (model_copy current upd) k w)"
proof -
  obtain x where "map_of current k = Some x" using assms by (metis map_of_eq_None_iff not_Some_eq list.set_map)
  then show ?thesis by (simp add: model_copy_def get_default_def map_of_map_keyed)
qed

lemma get_keeps_rows: "ss_rows (snd (get_org_settings env now org_id s)) = ss_rows s"
  by (simp add: get_org_settings_def store_settings_def split: option.split sum.split)

text \<open>What a successful update leaves in the row.\<close>

lemma upsert_row:
  assumes "upsert_org_settings env now org_id updated_by True given s = (Inr val, s')"
    and "get_org_settings env now org_id s = (Inr current, s1)"
    and "dict_get (sn_presets env) t = Some preset"
    and "get_default given ''quality_tier'' (get_default (os_fields current) ''quality_tier'' JNull) = JStr t"
    and "k \<noteq> ''quality_tier''" "dict_get preset k = Some v" "k \<in> set (dict_keys (os_fields current))"
  shows "\<exists>row. dict_get (ss_rows s') org_id = Some row \<and> dict_get row k = sn_column env k v"
proof -
  let ?cur = "os_fields current"
  obtain upd where u: "effective_fields env True ?cur given = Inr upd"
    using assms(1,2) by (cases "effective_fields env True ?cur given") (auto simp: upsert_org_settings_def)
  obtain row where r: "stored_row env (model_copy ?cur upd) = Inr row"
    using assms(1,2) u by (cases "stored_row env (model_copy ?cur upd)") (auto simp: upsert_org_settings_def write_settings_def)
  let ?s2 = "s1\<lparr>ss_rows := dict_set org_id row (ss_rows s1),
    ss_audit := ss_audit s1 @ changed_fields env org_id updated_by ?cur (model_copy ?cur upd)\<rparr>"
  have "get_org_settings env now org_id (invalidate_org_settings org_id ?s2) = (Inr val, s')"
    using assms(1,2) u r by (simp add: upsert_org_settings_def write_settings_def)
  then have "ss_rows s' = dict_set org_id row (ss_rows s1)"
    using get_keeps_rows[of env now org_id "invalidate_org_settings org_id ?s2"] by (simp add: invalidate_org_settings_def)
  moreover have "map_of (model_copy (os_fields current) upd) k = Some v"
    using model_copy_map_of[OF assms(7), of upd JNull] preset_field_wins[OF assms(3,4,5,6,7) u, of JNull] by simp
  ultimately show ?thesis using stored_row_get[OF r] by simp
qed

section \<open>The cache\<close>

lemma cached_after_invalidate [simp]: "cached env now org_id (invalidate_org_settings org_id s) = None"
  by (auto simp: cached_def invalidate_org_settings_def map_of_eq_None_iff split: option.split dest: map_of_SomeD)

lemma get_stores:
  assumes "get_org_settings env now org_id s = (Inr val, s')" and "now \<le> now'" "now' - now < sn_cache_ttl env"
    and "cached env now org_id s = None"
  shows "get_org_settings env now' org_id s' = (Inr val, s')"
  using assms by (auto simp: get_org_settings_def store_settings_def cached_def split: sum.splits)

end
