(* ===== verification/Admin.thy ===== *)
theory Admin
  imports Access Org_Settings
begin

text \<open>
  The membership routes of \<open>app/api/admin_routes.py\<close> over the tables of \<open>Access\<close>. Both carry the role guard
  whose token comes from the request's body (\<open>Org_Settings.role_guard\<close>). Row level security is not modelled.
\<close>

record dept_assignment =
  da_user_id :: string
  da_department_id :: string
  da_role_in_dept :: string

definition add_user_department ::
  "token_data response \<Rightarrow> token_data option \<Rightarrow> dept_assignment \<Rightarrow> access_db \<Rightarrow> unit response \<times> access_db" where
  "add_user_department user body_token body db =
     (case fbind user (\<lambda>_. role_guard [''platform_admin'', ''company_admin'', ''department_admin''] body_token) of
        Inl e \<Rightarrow> (Inl e, db)
      | Inr _ \<Rightarrow>
          (case add_user_to_department (da_user_id body) (da_department_id body) (da_role_in_dept body) db of
             Inl (ValueError m) \<Rightarrow> (Inl (Http 400 m), db)
           | Inl e \<Rightarrow> (Inl (Raised e), db)
           | Inr db' \<Rightarrow> (Inr (), db')))"

record approval_request =
  aa_run_id :: string
  aa_approver_user_id :: string
  aa_approver_role :: string

definition add_approval_assignment ::
  "token_data response \<Rightarrow> token_data option \<Rightarrow> approval_request \<Rightarrow> access_db \<Rightarrow> unit response \<times> access_db" where
  "add_approval_assignment user body_token body db =
     (case fbind user (\<lambda>_. role_guard [''platform_admin'', ''company_admin'', ''department_admin''] body_token) of
        Inl e \<Rightarrow> (Inl e, db)
      | Inr _ \<Rightarrow>
          (case assign_approver (aa_run_id body) (aa_approver_user_id body) (aa_approver_role body) db of
             Inl e \<Rightarrow> (Inl (Http 400 (exn_str e)), db)
           | Inr db' \<Rightarrow> (Inr (), db')))"

section \<open>The guard\<close>

lemma role_guard_iff: "role_guard roles body_token = Inr () \<longleftrightarrow> (\<exists>td. body_token = Some td \<and> td_role td \<in> set roles)"
  by (auto simp: role_guard_def require_role_def split: option.split)

lemma list_ex_map_where: "list_ex P xs \<Longrightarrow> (\<And>y. P y \<Longrightarrow> P (f y)) \<Longrightarrow> list_ex P (map (\<lambda>y. if P y then f y else y) xs)"
  by (induction xs) auto

lemma upsert_where_has: "P x \<Longrightarrow> (\<And>y. P y \<Longrightarrow> P (f y)) \<Longrightarrow> list_ex P (upsert_where P f x xs)"
  by (simp add: upsert_where_def list_ex_map_where)

text \<open>The caller's own role plays no part.\<close>

lemma membership_granted:
  assumes "td_role claimed \<in> {''platform_admin'', ''company_admin'', ''department_admin''}"
    and "da_role_in_dept body \<in> {''member'', ''lead'', ''observer''}" "known_user db (da_user_id body)"
  shows "\<exists>db'. add_user_department (Inr user) (Some claimed) body db = (Inr (), db') \<and>
    list_ex (\<lambda>d. dr_user_id d = da_user_id body \<and> dr_department_id d = da_department_id body) (xd_depts db') \<and>
    xd_users db' = xd_users db \<and> xd_runs db' = xd_runs db"
proof -
  have g: "role_guard [''platform_admin'', ''company_admin'', ''department_admin''] (Some claimed) = Inr ()"
    unfolding role_guard_iff using assms(1) by auto
  let ?P = "\<lambda>d. dr_user_id d = da_user_id body \<and> dr_department_id d = da_department_id body"
  have "list_ex ?P (upsert_where ?P (\<lambda>d. d\<lparr>dr_role_in_dept := da_role_in_dept body\<rparr>)
      \<lparr>dr_user_id = da_user_id body, dr_department_id = da_department_id body, dr_role_in_dept = da_role_in_dept body\<rparr> (xd_depts db))"
    by (rule upsert_where_has) auto
  then show ?thesis using assms(2,3) by (simp add: add_user_department_def g add_user_to_department_def)
qed

lemma member_sees:
  assumes "list_ex (\<lambda>d. dr_user_id d = caller_id db user \<and> dr_department_id d = dept) (xd_depts db)"
    and "r \<in> set (xd_runs db)" "rr_org_id r = td_org_id user" "rr_creator_dept_id r = Some dept"
  shows "r \<in> set (visible_set db user)"
  using assms by (auto simp: visible_set_iff may_see_def in_department_def list_ex_iff)

end
