(* ===== verification/Demo_Access.thy ===== *)
theory Demo_Access
  imports Auth_Laws Admin "HOL-Library.Countable"
begin

text \<open>
  Concrete inputs for the witnesses about accounts, sessions, run access and settings: a password hash that is
  the password itself, a token that spells its claims in unary, one organisation with two users, two runs and
  the settings of one tier. Nothing here models code.
\<close>

section \<open>Tokens and passwords\<close>

definition spell_claims :: "claims \<Rightarrow> string" where
  "spell_claims p = replicate (to_nat (cl_sub p, cl_org_id p, cl_role p, cl_jti p, cl_dept_id p, cl_exp p)) (CHR ''x'')"

definition read_claims :: "string \<Rightarrow> claims" where
  "read_claims t = (let (s, o_id, r, j, d, e) = from_nat (length t)
     in \<lparr>cl_sub = s, cl_org_id = o_id, cl_role = r, cl_jti = j, cl_dept_id = d, cl_exp = e\<rparr>)"

lemma read_spelled [simp]: "read_claims (spell_claims p) = p"
  by (simp add: read_claims_def spell_claims_def)

definition demo_aenv :: auth_env where
  "demo_aenv = \<lparr>ae_hashpw = (\<lambda>p salt. salt @ p), ae_checkpw = (\<lambda>p h. Inr (h = ''s'' @ p)), ae_sha256 = (\<lambda>p. p),
     ae_encode = spell_claims,
     ae_decode = (\<lambda>now t. if now < cl_exp (read_claims t) then Inr (read_claims t) else Inl (ValueError ''expired'')),
     ae_valid_roles_repr = []\<rparr>"

lemma demo_jwt: "jwt_law demo_aenv" "jwt_stable demo_aenv"
  by (auto simp: jwt_law_def jwt_stable_def demo_aenv_def split: if_splits)

definition demo_ast :: auth_settings where
  "demo_ast = \<lparr>as_jwt_expiry_minutes = 60, as_environment = ''production'', as_dev_user_email = ''dev'',
     as_dev_user_password = ''dev-password'', as_dev_user_role = ''company_admin'', as_dev_org_id = ''D''\<rparr>"

definition demo_user :: user_row where
  "demo_user = \<lparr>us_user_id = ''1'', us_email = ''u@o'', us_hashed_pw = ''sold-password'', us_org_id = ''O'',
     us_role = ''department_user'', us_dept_id = None, us_is_active = True\<rparr>"

definition demo_adb :: auth_db where
  "demo_adb = \<lparr>ad_orgs = [(''O'', ''Org'', ''Tech'')], ad_users = [demo_user], ad_modules = [''O''], ad_billing = [''O''],
     ad_sessions = [\<lparr>se_jti = ''j0'', se_user_id = ''1'', se_org_id = ''O'', se_expires_at = 3600, se_revoked_at = None,
       se_revoked_reason = None\<rparr>],
     ad_tokens = [\<lparr>ot_token_hash = ''t'', ot_purpose = ''password_reset'', ot_email = ''u@o'', ot_org_id = Some ''O'',
       ot_role = None, ot_dept_id = None, ot_user_id = Some ''1'', ot_expires_at = 3600, ot_used_at = None\<rparr>]\<rparr>"

definition demo_fresh :: "string \<Rightarrow> fresh" where
  "demo_fresh jti = \<lparr>fr_org_id = ''N'', fr_user_id = ''2'', fr_jti = jti, fr_salt = ''s'', fr_token = ''n''\<rparr>"

definition demo_login :: login_request where
  "demo_login = \<lparr>lq_email = ''u@o'', lq_password = ''old-password''\<rparr>"

definition demo_reset :: accept_request where
  "demo_reset = \<lparr>aq_token = ''t'', aq_password = ''new-password''\<rparr>"

text \<open>The request of the session \<open>j0\<close>, issued at time 0.\<close>

definition demo_claims :: claims where
  "demo_claims = \<lparr>cl_sub = Some ''u@o'', cl_org_id = Some ''O'', cl_role = Some ''department_user'', cl_jti = Some ''j0'',
     cl_dept_id = None, cl_exp = 3600\<rparr>"

definition demo_td :: token_data where
  "demo_td = \<lparr>td_email = ''u@o'', td_org_id = ''O'', td_role = ''department_user'', td_dept_id = None, td_jti = Some ''j0''\<rparr>"

definition demo_request :: request where
  "demo_request = bearer (spell_claims demo_claims)"

lemma demo_keys: "keys_ok demo_adb"
  by code_simp

lemma demo_decoded: "decode_token demo_aenv 10 (spell_claims demo_claims) = Inr demo_td"
  by (simp add: decode_token_def demo_aenv_def demo_claims_def demo_td_def missing_claim_def valid_roles_def)

lemma demo_accepted: "get_current_user demo_aenv 10 demo_request (Some demo_adb) = Inr demo_td"
proof -
  have "token_not_revoked 10 demo_td (Some demo_adb)" by code_simp
  then show ?thesis by (simp add: get_current_user_def demo_request_def bearer_def request_token_def demo_decoded)
qed

lemma demo_reset_ok:
  "confirm_password_reset demo_aenv 20 (demo_fresh ''j2'') demo_reset demo_adb =
     (Inr (), snd (confirm_password_reset demo_aenv 20 (demo_fresh ''j2'') demo_reset demo_adb))"
  by (simp add: confirm_password_reset_def validate_password_def demo_reset_def consume_token_def redeemable_def demo_adb_def
      demo_aenv_def)

lemma demo_reset_token:
  "fst (consume_token demo_aenv 20 (aq_token demo_reset) ''password_reset'' demo_adb) = Some (hd (ad_tokens demo_adb))"
  by (simp add: consume_token_def redeemable_def demo_reset_def demo_adb_def demo_aenv_def)

lemma demo_checked: "login_check demo_aenv demo_ast (demo_fresh ''j1'') demo_login demo_adb = (Inr demo_user, demo_adb)"
  by (simp add: login_check_def get_user_by_email_def demo_login_def demo_adb_def demo_user_def demo_aenv_def verify_password_def
      bcrypt_bytes_def Let_def)

lemma demo_login_ok:
  "\<exists>token db'. login demo_aenv demo_ast 10 (demo_fresh ''j1'') demo_login demo_adb = (Inr token, db') \<and> ad_users db' = [demo_user]"
  by (simp add: login_def demo_checked login_issue_def create_access_token_def register_session_def issue_session_def)
    (simp add: demo_user_def demo_adb_def valid_roles_def)

section \<open>Runs\<close>

definition demo_xdb :: access_db where
  "demo_xdb = \<lparr>xd_users = [demo_user],
     xd_runs = [\<lparr>rr_run_id = ''r1'', rr_org_id = ''O'', rr_created_by_email = Some ''v@o'', rr_creator_dept_id = Some ''d'', rr_created_at = 1\<rparr>,
       \<lparr>rr_run_id = ''r2'', rr_org_id = ''O'', rr_created_by_email = Some ''u@o'', rr_creator_dept_id = None, rr_created_at = 2\<rparr>],
     xd_depts = [], xd_collaborators = [],
     xd_approvals = [\<lparr>ap_run_id = ''r1'', ap_approver_user_id = ''1'', ap_approver_role = ''cfo'', ap_status = ''approved''\<rparr>]\<rparr>"

definition demo_run :: run_row where
  "demo_run = \<lparr>rr_run_id = ''r1'', rr_org_id = ''O'', rr_created_by_email = Some ''v@o'', rr_creator_dept_id = Some ''d'', rr_created_at = 1\<rparr>"

lemma demo_runs: "run_keys_ok demo_xdb" "demo_run \<in> set (xd_runs demo_xdb)"
  by (simp_all add: run_keys_ok_def demo_xdb_def demo_run_def)

section \<open>Settings\<close>

definition demo_preset :: fields where
  "demo_preset = map (\<lambda>k. (k, if k = ''quality_tier'' then JStr ''balanced'' else if k = ''output_tone'' then JStr ''formal''
     else if k = ''citation_style'' then JStr ''inline'' else if k = ''reranker_provider'' then JStr ''none''
     else if k = ''max_evidence_quote_chars'' then JNum 200 else JNum 1)) all_fields"

definition demo_senv :: settings_env where
  "demo_senv = \<lparr>sn_new_org_defaults = [(''quality_tier'', JStr ''balanced'')], sn_presets = [(''balanced'', demo_preset)],
     sn_reranker_provider = ''none'', sn_cache_ttl = 60, sn_coerce = (\<lambda>_ v. Some v), sn_column = (\<lambda>_ v. Some v), sn_str = (\<lambda>_. [])\<rparr>"

definition demo_settings :: settings_state where
  "demo_settings = \<lparr>ss_rows = [], ss_audit = [], ss_cache = []\<rparr>"

lemma demo_current: "get_org_settings demo_senv 0 ''O'' demo_settings =
  (Inr \<lparr>os_org_id = ''O'', os_fields = demo_preset\<rparr>,
   store_settings 0 ''O'' \<lparr>os_org_id = ''O'', os_fields = demo_preset\<rparr> demo_settings)"
  by code_simp

lemma demo_upserted:
  "\<exists>val. upsert_org_settings demo_senv 0 ''O'' ''u@o'' True [(''use_hyde'', JNum 0)] demo_settings =
     (Inr val, snd (upsert_org_settings demo_senv 0 ''O'' ''u@o'' True [(''use_hyde'', JNum 0)] demo_settings))"
proof -
  have "\<not> isl (fst (upsert_org_settings demo_senv 0 ''O'' ''u@o'' True [(''use_hyde'', JNum 0)] demo_settings))" by code_simp
  then show ?thesis by (metis isl_def prod.collapse sum.collapse(2))
qed

end
