(* ===== verification/Service_Properties.thy ===== *)
theory Service_Properties
  imports Demo_Store Demo_Access
begin

text \<open>
  The properties of the vector store, the ingestion of documents, the production agents, accounts, access
  to runs and the settings of an organisation, each with its witness.
\<close>

section \<open>Documents\<close>

text \<open>C9: Tenant isolation. Whatever the index ranks and the reranker does, every chunk a vendor's
  retrieval stage passes on carries the text of a point stored for that organisation and that vendor.\<close>

theorem tenant_isolation:
  assumes "query_law (re_rank env)"
    and "\<And>q m. wd_retrieve w vid q m = run_retrieval_agent cfg g env cs os (default_retrieval_args q vid org_id m)"
    and "retrieval_per_vendor cfg w s vid = Inr (us, es)" and "RetrievalObjects [(v, out)] \<in> set us"
  shows "v = vid \<and> list_all (from_point org_id vid
    (points_of (org_collection_name (rg_collection_prefix g) org_id) cs)) (ro_chunks out)"
proof (rule retrieval_stage_chunks[OF _ assms(3,4)])
  fix q m out critic
  assume "wd_retrieve w vid q m = Inr (out, critic)"
  then show "list_all (from_point org_id vid (points_of (org_collection_name (rg_collection_prefix g) org_id) cs)) (ro_chunks out)"
    using run_retrieval_chunks[OF assms(1)] assms(2) by (fastforce simp: default_retrieval_args_def)
qed

lemma tenant_isolation_witness:
  "list_all (from_point ''O'' ''a'' (points_of (org_collection_name ''c'' ''O'') demo_points)) (ro_chunks demo_found) \<and>
   ro_chunks demo_found \<noteq> []"
  using tenant_isolation[OF demo_query_law, of demo_retrieval_world "''a''" default_cfg demo_rcfg demo_points None "''O''", OF _ demo_retrieved]
  by (simp add: demo_retrieval_world_def demo_rcfg_def demo_found_def)



text \<open>C35: An archive whose first member is injected and whose second is a damaged Word document does not
  block: the exception of the damaged member discards the critics, and the gate passes.\<close>

theorem damaged_archive_passes:
  assumes "ends_str ''.zip'' (lower filename)" and "ie_zip_names env content = Inr names"
    and "validate_zip_contents (ie_supported_repr env) (zip_members names) = (True, fname # broken # rest, warning)"
    and "ie_zip_read env content fname = Inr b1" "ie_zip_read env content broken = Inr b2"
    and "injected cfg g env a b1 fname"
    and "ingest_single_file cfg g env a (ie_uuid4 env 0) b1 fname cs = (Inr (out1, critics1), cs1)"
    and "ends_str ''.docx'' (lower broken)" "\<not> ends_str ''.pdf'' (lower broken)" "ie_docx_paragraphs env b2 = Inl (BadZipFile m)"
  shows "blocks critics1 \<and>
    (\<exists>out. run_ingestion_agent cfg g env a content filename cs = (Inr (out, []), cs1) \<and> io_status out = ''failed'') \<and>
    ingest_one (w\<lparr>wd_ingest := \<lambda>_. rbind (fst (run_ingestion_agent cfg g env a content filename cs)) (\<lambda>(out, critics). Inr critics)\<rparr>)
      vid ctx = Inr ()"
proof -
  obtain out where "run_ingestion_agent cfg g env a content filename cs = (Inr (out, []), cs1)" "io_status out = ''failed''"
    using damaged_docx[OF assms(2-5,7-10)] assms(1) by (auto simp: run_ingestion_agent_def)
  then show ?thesis using injected_file_blocks[OF assms(6,7)] by (simp add: ingest_one_def)
qed

lemma damaged_archive_passes_witness:
  "\<exists>out. run_ingestion_agent default_cfg demo_icfg demo_ienv demo_iargs [] ''a.zip'' [] = (Inr (out, []), demo_indexed) \<and>
     io_status out = ''failed''"
proof -
  have names: "ie_zip_names demo_ienv [] = Inr [''a.txt'', ''b.docx'']" "ie_uuid4 demo_ienv 0 = ''D''"
      "ie_zip_read demo_ienv [] ''a.txt'' = Inr demo_text" "ie_zip_read demo_ienv [] ''b.docx'' = Inr []"
      "ie_docx_paragraphs demo_ienv [] = Inl (BadZipFile ''File is not a zip file'')" "ie_supported_repr demo_ienv = []"
    by (simp_all add: demo_ienv_def)
  have v: "validate_zip_contents (ie_supported_repr demo_ienv) (zip_members [''a.txt'', ''b.docx'']) = (True, ''a.txt'' # ''b.docx'' # [], [])"
    unfolding names(6) by code_simp
  have pdf: "\<not> ends_str ''.pdf'' (lower ''b.docx'')" by code_simp
  obtain out critics where "ingest_single_file default_cfg demo_icfg demo_ienv demo_iargs ''D'' demo_text ''a.txt'' [] = (Inr (out, critics), demo_indexed)"
    using demo_ingested[of "''D''"] unfolding demo_indexed_def by blast
  then show ?thesis
    using damaged_archive_passes[OF demo_file_names(5) names(1) v names(3,4) demo_injected, unfolded names(2), OF _ demo_file_names(4) pdf names(5)]
    by blast
qed

text \<open>A document ingested again under another setup keeps its points' ids: the points of the first
  setup are stamped with the second, and deleting the data of the second setup removes them all.\<close>

theorem reingested_moves:
  assumes "ingest_single_file cfg g env a1 d1 content filename cs = (Inr (out1, critics1), cs1)"
    and "ingest_single_file cfg g env a2 d2 content filename cs1 = (Inr (out2, critics2), cs2)"
    and "ia_org_id a2 = ia_org_id a1" "ia_vendor_id a2 = ia_vendor_id a1"
    and "process_document g env content filename (ia_vendor_id a1) (ia_org_id a1) (ia_setup a1) = Inr chunks"
  shows "let name = org_collection_name (ic_collection_prefix g) (ia_org_id a1);
       cs3 = snd (delete_setup_data (ic_collection_prefix g) (ia_org_id a1) (es_setup_id (ia_setup a2)) cs2)
     in map pt_id (points_of name cs2) = map pt_id (points_of name cs1) \<and>
        set (map dc_chunk_id chunks) \<subseteq> set (map pt_id (points_of name cs1)) \<and>
        set (map dc_chunk_id chunks) \<inter> set (map pt_id (points_of name cs3)) = {}"
  using ingested_twice[OF assms] by (simp add: Let_def)

lemma reingested_moves_witness:
  "\<exists>i. i \<in> set (map pt_id (points_of ''c_o'' demo_indexed)) \<and>
     i \<notin> set (map pt_id (points_of ''c_o'' (snd (delete_setup_data ''c'' ''O'' ''F'' demo_reindexed))))"
proof -
  obtain out critics where 1: "ingest_single_file default_cfg demo_icfg demo_ienv demo_iargs ''D'' demo_text ''a.txt'' [] = (Inr (out, critics), demo_indexed)"
    using demo_ingested[of "''D''"] unfolding demo_indexed_def by blast
  obtain out2 critics2 where 2: "ingest_single_file default_cfg demo_icfg demo_ienv (demo_iargs\<lparr>ia_setup := demo_setup\<lparr>es_setup_id := ''F''\<rparr>\<rparr>)
      ''D2'' demo_text ''a.txt'' demo_indexed = (Inr (out2, critics2), demo_reindexed)"
    using demo_ingested_again by blast
  note d = demo_document[OF demo_file_names(1,2), of "ia_vendor_id demo_iargs" "ia_org_id demo_iargs" "ia_setup demo_iargs"]
  have name: "org_collection_name ''c'' ''O'' = ''c_o''" by code_simp
  show ?thesis
    using reingested_moves[OF 1 2 _ _ d]
    by (intro exI[of _ "dc_chunk_id (chunk_of_node demo_ienv ''a.txt'' ''a'' ''O'' demo_setup
        \<lparr>nd_content = demo_text, nd_section_title = None, nd_section_id = None, nd_page_label = None, nd_window = None\<rparr> demo_text)"])
      (simp add: Let_def demo_iargs_def demo_icfg_def name)
qed

section \<open>The production agents\<close>



section \<open>Accounts\<close>

text \<open>C11: A one-time token is redeemed at most once, in any sequence of the transactions of the endpoints.\<close>

theorem token_redeemed_once:
  assumes "keys_ok db"
  shows "redemptions env st h ops db \<le> 1"
  by (rule redeemed_at_most_once[OF assms])

lemma token_redeemed_once_witness:
  "redemptions demo_aenv demo_ast ''t'' [(20, OpConfirmReset (demo_fresh ''j2'') demo_reset), (30, OpConfirmReset (demo_fresh ''j3'') demo_reset)]
     demo_adb = 1"
proof -
  have "fst (confirm_password_reset demo_aenv 20 (demo_fresh ''j2'') demo_reset demo_adb) = Inr ()"
    by (subst demo_reset_ok) simp
  then have "redeems demo_aenv ''t'' 20 (OpConfirmReset (demo_fresh ''j2'') demo_reset) demo_adb"
    by simp (simp add: demo_aenv_def demo_reset_def)
  then show ?thesis
    by (intro le_antisym token_redeemed_once[OF demo_keys]) (simp only: redemptions.simps(2) if_True le_add1)
qed

text \<open>C37: Login and the session it opens. A successful login comes from the right password of an active account,
  and until the token expires its bearer is that account's user.\<close>

theorem login_roundtrip:
  assumes "jwt_law env" and "login env st now fr req db = (Inr token, db')"
    and "list_all (\<lambda>s. se_jti s \<noteq> fr_jti fr) (ad_sessions db)" "fr_jti fr \<noteq> []" "lq_email req \<noteq> []"
    and "list_all (\<lambda>u. us_org_id u \<noteq> []) (ad_users db)" "as_dev_org_id st \<noteq> []"
    and "now' < now + as_jwt_expiry_minutes st * 60"
  shows "\<exists>u. get_user_by_email (lq_email req) db' = Some u \<and> us_is_active u \<and>
    verify_password env (lq_password req) (us_hashed_pw u) = Inr True \<and>
    get_current_user env now' (bearer (tk_access_token token)) (Some db') =
      Inr \<lparr>td_email = lq_email req, td_org_id = us_org_id u, td_role = us_role u, td_dept_id = nullif_empty (us_dept_id u),
           td_jti = Some (fr_jti fr)\<rparr>"
proof -
  obtain u db1 where c: "login_check env st fr req db = (Inr u, db1)" "login_issue env st now fr u db1 = (Inr token, db')"
    using assms(2) by (auto simp: login_def split: prod.splits sum.splits)
  note u = login_check_user[OF c(1)]
  have "us_email u \<noteq> []" "us_org_id u \<noteq> []" using u assms(5-7) by (auto simp: list_all_iff)
  moreover have "list_all (\<lambda>s. se_jti s \<noteq> fr_jti fr) (ad_sessions db1)" using u(5) assms(3) by simp
  ultimately have "get_current_user env now' (bearer (tk_access_token token)) (Some db') =
      Inr \<lparr>td_email = us_email u, td_org_id = us_org_id u, td_role = us_role u, td_dept_id = nullif_empty (us_dept_id u),
           td_jti = Some (fr_jti fr)\<rparr>"
    using issued_accepted[OF assms(1) c(2) _ assms(4) _ _ assms(8)] by blast
  moreover have "get_user_by_email (lq_email req) db' = Some u"
    using u(1) login_issue_users[OF c(2)] by (simp add: get_user_by_email_def)
  ultimately show ?thesis using u by auto
qed

lemma login_roundtrip_witness:
  "\<exists>token db'. login demo_aenv demo_ast 10 (demo_fresh ''j1'') demo_login demo_adb = (Inr token, db') \<and>
     get_current_user demo_aenv 20 (bearer (tk_access_token token)) (Some db') =
       Inr \<lparr>td_email = ''u@o'', td_org_id = ''O'', td_role = ''department_user'', td_dept_id = None, td_jti = Some ''j1''\<rparr>"
proof -
  obtain token db' where l: "login demo_aenv demo_ast 10 (demo_fresh ''j1'') demo_login demo_adb = (Inr token, db')"
      "ad_users db' = [demo_user]"
    using demo_login_ok by blast
  have "list_all (\<lambda>s. se_jti s \<noteq> fr_jti (demo_fresh ''j1'')) (ad_sessions demo_adb)" "fr_jti (demo_fresh ''j1'') \<noteq> []"
      "lq_email demo_login \<noteq> []" "list_all (\<lambda>u. us_org_id u \<noteq> []) (ad_users demo_adb)" "as_dev_org_id demo_ast \<noteq> []"
      "(20::int) < 10 + as_jwt_expiry_minutes demo_ast * 60"
    by code_simp+
  from login_roundtrip[OF demo_jwt(1) l(1) this] l show ?thesis
    by (auto simp: get_user_by_email_def demo_login_def demo_user_def demo_fresh_def nullif_empty_def)
qed

text \<open>C12: Logout is final: the session's token is rejected from then on, whatever transactions follow, unless
  one of them issues a session under the same id; also when the lookup of the session fails.\<close>

theorem logout_final:
  assumes "jwt_stable env" and "get_current_user env now rq (Some db) = Inr td" "td_jti td = Some jti" "jti \<noteq> []"
    and "jti \<notin> (\<Union>(_, op) \<in> set ops. issued op)" and "request_token rq' = request_token rq"
    and "odb = Some (run_ops env st ops (snd (logout env now rq db))) \<or> odb = None"
  shows "fst (logout env now rq db) = Inr () \<and> get_current_user env now' rq' odb = Inl (Http 401 ''Invalid or expired token'')"
proof -
  have l: "logout env now rq db = (Inr (), snd (logout env now rq db))" using assms(2) by (simp add: logout_def)
  have "dead jti (run_ops env st ops (snd (logout env now rq db)))"
    by (rule run_ops_kept(3)[OF logged_out[OF l assms(2-4)] assms(5)])
  then show ?thesis using dead_session_rejected[OF assms(1-4) _ assms(6)] assms(7) l by (metis fst_conv)
qed

lemma logout_final_witness:
  "get_current_user demo_aenv 40 demo_request
     (Some (run_ops demo_aenv demo_ast [(30, OpPurge)] (snd (logout demo_aenv 10 demo_request demo_adb)))) =
   Inl (Http 401 ''Invalid or expired token'')"
  using logout_final[OF demo_jwt(2) demo_accepted, of "''j0''" "[(30, OpPurge)]" demo_request
    "Some (run_ops demo_aenv demo_ast [(30, OpPurge)] (snd (logout demo_aenv 10 demo_request demo_adb)))"]
  by (simp add: demo_td_def)

text \<open>C38: A password reset ends every session the account had: their tokens are rejected from then on, unless a
  later transaction issues a session under the same id.\<close>

theorem reset_ends_sessions:
  assumes "jwt_stable env" "keys_ok db" and "confirm_password_reset env now fr req db = (Inr (), db')"
    and "fst (consume_token env now (aq_token req) ''password_reset'' db) = Some payload" "ot_user_id payload = Some uid"
    and "s \<in> set (ad_sessions db)" "se_user_id s = uid" "se_jti s \<noteq> []"
    and "get_current_user env before rq (Some db) = Inr td" "td_jti td = Some (se_jti s)"
    and "se_jti s \<notin> (\<Union>(_, op) \<in> set ops. issued op)" and "request_token rq' = request_token rq"
  shows "get_current_user env later rq' (Some (run_ops env st ops db')) = Inl (Http 401 ''Invalid or expired token'')"
proof (rule dead_session_rejected[OF assms(1,9,10,8) _ assms(12)])
  show "dead (se_jti s) (run_ops env st ops db')"
    by (rule run_ops_kept(3)[OF reset_user_sessions[OF assms(3,4,5,2,6,7)] assms(11)])
qed simp

lemma reset_ends_sessions_witness:
  "get_current_user demo_aenv 30 demo_request
     (Some (run_ops demo_aenv demo_ast [] (snd (confirm_password_reset demo_aenv 20 (demo_fresh ''j2'') demo_reset demo_adb)))) =
   Inl (Http 401 ''Invalid or expired token'')"
proof -
  have s: "hd (ad_sessions demo_adb) \<in> set (ad_sessions demo_adb)" "ot_user_id (hd (ad_tokens demo_adb)) = Some ''1''"
      "se_user_id (hd (ad_sessions demo_adb)) = ''1''" "se_jti (hd (ad_sessions demo_adb)) = ''j0''" "td_jti demo_td = Some ''j0''"
    by code_simp+
  show ?thesis
    using reset_ends_sessions[OF demo_jwt(2) demo_keys demo_reset_ok demo_reset_token s(2,1,3) _ demo_accepted,
        of "[]" demo_request 30 demo_ast] s(4,5) by simp
qed

text \<open>A login races with a reset: when the password is checked before the reset and the session opened after
  it, the token obtained with the old password outlives the reset.\<close>

theorem reset_race:
  assumes "jwt_law env" and "login_check env st fr1 lreq db = (Inr u, db1)"
    and "confirm_password_reset env now fr2 areq db1 = (Inr (), db2)"
    and "us_role u \<in> set valid_roles" "us_email u \<noteq> []" "us_org_id u \<noteq> []"
    and "list_all (\<lambda>s. se_jti s \<noteq> fr_jti fr3) (ad_sessions db2)" "fr_jti fr3 \<noteq> []"
    and "now' < now + as_jwt_expiry_minutes st * 60"
  shows "verify_password env (lq_password lreq) (us_hashed_pw u) = Inr True \<and>
    (\<exists>token db3. login_issue env st now fr3 u db2 = (Inr token, db3) \<and>
       (\<exists>td. get_current_user env now' (bearer (tk_access_token token)) (Some db3) = Inr td \<and> td_email td = us_email u))"
proof -
  obtain token db3 where t: "login_issue env st now fr3 u db2 = (Inr token, db3)"
    using assms(4) by (simp add: login_issue_def create_access_token_def)
  then show ?thesis
    using issued_accepted[OF assms(1) t assms(7,8,5,6,9)] login_check_user(4)[OF assms(2)] by auto
qed

lemma reset_race_witness:
  "\<exists>token db3. login_issue demo_aenv demo_ast 20 (demo_fresh ''j1'') demo_user
       (snd (confirm_password_reset demo_aenv 20 (demo_fresh ''j2'') demo_reset demo_adb)) = (Inr token, db3) \<and>
     (\<exists>td. get_current_user demo_aenv 30 (bearer (tk_access_token token)) (Some db3) = Inr td \<and> td_email td = ''u@o'')"
proof -
  have h: "us_role demo_user \<in> set valid_roles" "us_email demo_user \<noteq> []" "us_org_id demo_user \<noteq> []"
      "list_all (\<lambda>s. se_jti s \<noteq> fr_jti (demo_fresh ''j1''))
        (ad_sessions (snd (confirm_password_reset demo_aenv 20 (demo_fresh ''j2'') demo_reset demo_adb)))"
      "fr_jti (demo_fresh ''j1'') \<noteq> []" "(30::int) < 20 + as_jwt_expiry_minutes demo_ast * 60"
    by code_simp+
  show ?thesis using reset_race[OF demo_jwt(1) demo_checked demo_reset_ok h] by (simp add: demo_user_def)
qed

section \<open>Access to runs\<close>

text \<open>C39: The two modules that decide whether a user may open a run of the organisation agree but for one
  role: rbac.py lets a department admin open every run, visibility.py only those of the five predicates.\<close>

theorem access_agrees:
  assumes "run_keys_ok db" and "r \<in> set (xd_runs db)" "rr_org_id r = td_org_id user" "rr_run_id r \<noteq> []"
  shows "require_run_access db user r = Inr () \<longleftrightarrow>
    visibility_can_view_run db user (rr_run_id r) \<or> td_role user = ''department_admin''"
  using can_view_iff[OF assms(1,2), of user] assms(3,4)
  by (auto simp: require_run_access_def rbac_can_view_run_def may_see_def rbac_wide_roles_def visibility_wide_roles_def)

lemma access_agrees_witness:
  "require_run_access demo_xdb (demo_td\<lparr>td_role := ''department_admin''\<rparr>) demo_run = Inr () \<and>
   require_run_access demo_xdb demo_td demo_run = Inr ()"
proof -
  have "visibility_can_view_run demo_xdb demo_td (rr_run_id demo_run)" by code_simp
  then show ?thesis
    using access_agrees[OF demo_runs, of demo_td] access_agrees[OF demo_runs, of "demo_td\<lparr>td_role := ''department_admin''\<rparr>"]
    by (simp add: demo_td_def demo_run_def)
qed

text \<open>The lists of runs cover what a user may open by its id, but for the runs visible only through an
  approval that is no longer pending: these are in no list.\<close>

theorem lists_miss:
  assumes "run_keys_ok db" and "r \<in> set (xd_runs db)" and "td_role user \<notin> set visibility_wide_roles"
    and "length (xd_runs db) \<le> limit"
  shows "visibility_can_view_run db user (rr_run_id r) \<and>
      list_all (\<lambda>scope. r \<notin> set (visible_runs db user scope limit)) [''mine'', ''department'', ''approvals'', ''shared'', ''all''] \<longleftrightarrow>
    rr_org_id r = td_org_id user \<and> is_approver db (caller_id db user) r \<and> \<not> pending_approver db (caller_id db user) r \<and>
    rr_created_by_email r \<noteq> Some (td_email user) \<and> \<not> in_department db (caller_id db user) r \<and>
    \<not> is_collaborator db (caller_id db user) r"
proof -
  have all: "visible_runs db user ''all'' limit = []" using assms(3) by (simp add: visible_runs_def)
  have s: "r \<in> set (visible_runs db user scope limit) \<longleftrightarrow> rr_org_id r = td_org_id user \<and> may_see db user r \<and> in_scope db user scope r"
    if "scope \<noteq> ''all''" for scope
    using scoped_runs[OF _ assms(4)] that assms(2) by (simp add: visible_set_iff)
  show ?thesis
    unfolding can_view_iff[OF assms(1,2)] may_see_def
    using assms(3) s[unfolded may_see_def, of "''mine''"] s[unfolded may_see_def, of "''department''"] s[unfolded may_see_def, of "''approvals''"]
      s[unfolded may_see_def, of "''shared''"] pending_is_approver[of db "caller_id db user" r]
    by (simp add: all in_scope_def) blast
qed

lemma lists_miss_witness:
  "visibility_can_view_run demo_xdb demo_td ''r1'' \<and>
   list_all (\<lambda>scope. demo_run \<notin> set (visible_runs demo_xdb demo_td scope 10)) [''mine'', ''department'', ''approvals'', ''shared'', ''all'']"
proof -
  have "td_role demo_td \<notin> set visibility_wide_roles" "length (xd_runs demo_xdb) \<le> 10" by code_simp+
  moreover have "rr_org_id demo_run = td_org_id demo_td" "is_approver demo_xdb (caller_id demo_xdb demo_td) demo_run"
      "\<not> pending_approver demo_xdb (caller_id demo_xdb demo_td) demo_run" "rr_created_by_email demo_run \<noteq> Some (td_email demo_td)"
      "\<not> in_department demo_xdb (caller_id demo_xdb demo_td) demo_run" "\<not> is_collaborator demo_xdb (caller_id demo_xdb demo_td) demo_run"
      "rr_run_id demo_run = ''r1''"
    by code_simp+
  ultimately show ?thesis using lists_miss[OF demo_runs, of demo_td 10] by simp
qed

text \<open>C40: The membership route checks the role of a token that its caller writes into the request's body: a user of
  any role joins a department with it, and then sees every run of that department.\<close>

theorem membership_self_service:
  assumes "td_role body_td \<in> {''platform_admin'', ''company_admin'', ''department_admin''}"
    and "da_role_in_dept body \<in> {''member'', ''lead'', ''observer''}" "da_user_id body = caller_id db user" "known_user db (caller_id db user)"
    and "r \<in> set (xd_runs db)" "rr_org_id r = td_org_id user" "rr_creator_dept_id r = Some (da_department_id body)"
  shows "\<exists>db'. add_user_department (Inr user) (Some body_td) body db = (Inr (), db') \<and> r \<in> set (visible_set db' user)"
proof -
  obtain db' where d: "add_user_department (Inr user) (Some body_td) body db = (Inr (), db')"
      "list_ex (\<lambda>d. dr_user_id d = caller_id db user \<and> dr_department_id d = da_department_id body) (xd_depts db')"
      "xd_users db' = xd_users db" "xd_runs db' = xd_runs db"
    using membership_granted[OF assms(1,2), of db user] assms(3,4) by auto
  have "caller_id db' user = caller_id db user" by (simp add: caller_id_def lookup_user_id_def d(3))
  then have "r \<in> set (visible_set db' user)" using member_sees[of db' user "da_department_id body"] d assms(5-7) by simp
  then show ?thesis using d(1) by blast
qed

lemma membership_self_service_witness:
  "\<exists>db'. add_user_department (Inr demo_td) (Some (demo_td\<lparr>td_role := ''platform_admin''\<rparr>))
     \<lparr>da_user_id = ''1'', da_department_id = ''d'', da_role_in_dept = ''member''\<rparr> (demo_xdb\<lparr>xd_approvals := []\<rparr>) = (Inr (), db') \<and>
     demo_run \<in> set (visible_set db' demo_td)"
  by (rule membership_self_service)
    (simp_all add: demo_td_def demo_run_def demo_xdb_def caller_id_def lookup_user_id_def known_user_def demo_user_def)

section \<open>Settings of an organisation\<close>

text \<open>An update with a preset stores the preset's value for each field the preset names: a value the
  same request gives for such a field is dropped without an error.\<close>

theorem preset_field_ignored:
  assumes "get_org_settings env now org_id s = (Inr current, s1)"
    and "upsert_org_settings env now org_id updated_by True given s = (Inr val, s')"
    and "get_default given ''quality_tier'' (get_default (os_fields current) ''quality_tier'' JNull) = JStr t"
    and "dict_get (sn_presets env) t = Some preset"
    and "k \<noteq> ''quality_tier''" "dict_get preset k = Some v" "k \<in> set (dict_keys (os_fields current))"
  shows "\<exists>row. dict_get (ss_rows s') org_id = Some row \<and> dict_get row k = sn_column env k v"
  by (rule upsert_row[OF assms(2,1,4,3,5-7)])

lemma preset_field_ignored_witness:
  "\<exists>row. dict_get (ss_rows (snd (upsert_org_settings demo_senv 0 ''O'' ''u@o'' True [(''use_hyde'', JNum 0)] demo_settings))) ''O'' = Some row \<and>
     dict_get row ''use_hyde'' = Some (JNum 1)"
proof -
  obtain val where u: "upsert_org_settings demo_senv 0 ''O'' ''u@o'' True [(''use_hyde'', JNum 0)] demo_settings =
      (Inr val, snd (upsert_org_settings demo_senv 0 ''O'' ''u@o'' True [(''use_hyde'', JNum 0)] demo_settings))"
    using demo_upserted by blast
  have "dict_get demo_preset ''use_hyde'' = Some (JNum 1)" "''use_hyde'' \<in> set (dict_keys demo_preset)"
      "get_default [(''use_hyde'', JNum 0)] ''quality_tier'' (get_default demo_preset ''quality_tier'' JNull) = JStr ''balanced''"
      "dict_get (sn_presets demo_senv) ''balanced'' = Some demo_preset" "sn_column demo_senv ''use_hyde'' (JNum 1) = Some (JNum 1)"
    by code_simp+
  then show ?thesis using preset_field_ignored[OF demo_current u, of "''balanced''" demo_preset "''use_hyde''" "JNum 1"] by simp
qed

end
