(* ===== verification/Fact_Store.thy ===== *)
theory Fact_Store
  imports Fact_Retry Evaluation
begin

text \<open>
  The tables of extracted facts: \<open>save_extraction_output\<close>, \<open>get_vendor_facts\<close>, \<open>facts_already_extracted\<close> and
  \<open>_safe_uuid\<close> of \<open>app/db/fact_store.py\<close>, over the tables of \<open>app/db/schema.sql\<close>. A row keeps the columns its
  INSERT names; a date is its ISO text. The primary key is a fresh UUID, here a counter, so
  \<open>ON CONFLICT DO NOTHING\<close> never applies; the foreign keys are checked. Parsing a UUID is a parameter.
\<close>

section \<open>Tables\<close>

datatype fact_table = Certifications | Insurance | SLAs | Projects | Pricing | CustomFacts

record fact_row =
  fw_id :: nat
  fw_doc_id :: "string option"
  fw_org_id :: string
  fw_vendor_id :: string
  fw_setup_id :: "string option"
  fw_confidence :: rat
  fw_columns :: "(string, json) dict"

text \<open>A document's id and RFP, the ids of the setups, and the rows of the six tables.\<close>

record fact_tables =
  tf_documents :: "(string, string) dict"
  tf_setups :: "string list"
  tf_rows :: "fact_table \<Rightarrow> fact_row list"
  tf_next :: nat

section \<open>The columns of an item\<close>

definition json_opt :: "('a \<Rightarrow> json) \<Rightarrow> 'a option \<Rightarrow> json" where
  "json_opt f v = (case v of None \<Rightarrow> JNull | Some x \<Rightarrow> f x)"

definition grounded_columns :: "rat \<Rightarrow> string \<Rightarrow> string \<Rightarrow> (string, json) dict" where
  "grounded_columns confidence quote chunk =
     [(''confidence'', JNum confidence), (''grounding_quote'', JStr quote), (''source_chunk_id'', JStr chunk)]"

definition certification_columns :: "extracted_certification \<Rightarrow> (string, json) dict" where
  "certification_columns c =
     [(''standard_name'', JStr (xc_standard_name c)), (''version'', json_opt JStr (xc_version c)),
      (''cert_number'', json_opt JStr (xc_cert_number c)), (''issuing_body'', json_opt JStr (xc_issuing_body c)),
      (''scope'', json_opt JStr (xc_scope c)), (''valid_until'', json_opt (\<lambda>d. JStr (str_date d)) (xc_valid_until c)),
      (''status'', JStr (document_status_value (xc_status c)))] @
     grounded_columns (xc_confidence c) (xc_grounding_quote c) (xc_source_chunk_id c)"

definition insurance_columns :: "extracted_insurance \<Rightarrow> (string, json) dict" where
  "insurance_columns x =
     [(''insurance_type'', json_opt JStr (xn_insurance_type x)), (''amount_gbp'', json_opt JNum (xn_amount_gbp x)),
      (''provider'', json_opt JStr (xn_provider x))] @
     grounded_columns (xn_confidence x) (xn_grounding_quote x) (xn_source_chunk_id x)"

definition sla_columns :: "extracted_sla \<Rightarrow> (string, json) dict" where
  "sla_columns x =
     [(''priority_level'', json_opt JStr (xs_priority_level x)),
      (''response_minutes'', json_opt (\<lambda>i. JNum (of_int i)) (xs_response_minutes x)),
      (''resolution_hours'', json_opt (\<lambda>i. JNum (of_int i)) (xs_resolution_hours x)),
      (''uptime_percentage'', json_opt JNum (xs_uptime_percentage x))] @
     grounded_columns (xs_confidence x) (xs_grounding_quote x) (xs_source_chunk_id x)"

definition project_columns :: "extracted_project \<Rightarrow> (string, json) dict" where
  "project_columns x =
     [(''client_name'', json_opt JStr (xp_client_name x)), (''client_sector'', json_opt JStr (xp_client_sector x)),
      (''user_count'', json_opt (\<lambda>i. JNum (of_int i)) (xp_user_count x)), (''outcomes'', json_opt JStr (xp_outcomes x)),
      (''reference_available'', json_opt JBool (xp_reference_available x))] @
     grounded_columns (xp_confidence x) (xp_grounding_quote x) (xp_source_chunk_id x)"

definition pricing_columns :: "extracted_pricing \<Rightarrow> (string, json) dict" where
  "pricing_columns x =
     [(''year'', json_opt (\<lambda>i. JNum (of_int i)) (xr_year x)), (''amount_gbp'', json_opt JNum (xr_amount_gbp x)),
      (''total_gbp'', json_opt JNum (xr_total_gbp x)), (''includes'', JArr (map JStr (xr_includes x)))] @
     grounded_columns (xr_confidence x) (xr_grounding_quote x) (xr_source_chunk_id x)"

text \<open>The model has no \<open>unit\<close>, so the column is null.\<close>

definition fact_columns :: "extracted_fact \<Rightarrow> (string, json) dict" where
  "fact_columns x =
     [(''target_id'', JStr (xf_target_id x)), (''fact_type'', JStr (xf_fact_type x)), (''fact_name'', JStr (xf_fact_name x)),
      (''text_value'', JStr (xf_text_value x)), (''numeric_value'', json_opt JNum (xf_numeric_value x)),
      (''boolean_value'', json_opt JBool (xf_boolean_value x)), (''unit'', JNull)] @
     grounded_columns (xf_confidence x) (xf_grounding_quote x) (xf_source_chunk_id x)"

fun table_of :: "extracted_item \<Rightarrow> fact_table" where
  "table_of (CertificationItem _) = Certifications"
| "table_of (InsuranceItem _) = Insurance"
| "table_of (SLAItem _) = SLAs"
| "table_of (ProjectItem _) = Projects"
| "table_of (PricingItem _) = Pricing"
| "table_of (FactItem _) = CustomFacts"

fun columns_of :: "extracted_item \<Rightarrow> (string, json) dict" where
  "columns_of (CertificationItem x) = certification_columns x"
| "columns_of (InsuranceItem x) = insurance_columns x"
| "columns_of (SLAItem x) = sla_columns x"
| "columns_of (ProjectItem x) = project_columns x"
| "columns_of (PricingItem x) = pricing_columns x"
| "columns_of (FactItem x) = fact_columns x"

fun xi_confidence :: "extracted_item \<Rightarrow> rat" where
  "xi_confidence (CertificationItem x) = xc_confidence x"
| "xi_confidence (InsuranceItem x) = xn_confidence x"
| "xi_confidence (SLAItem x) = xs_confidence x"
| "xi_confidence (ProjectItem x) = xp_confidence x"
| "xi_confidence (PricingItem x) = xr_confidence x"
| "xi_confidence (FactItem x) = xf_confidence x"

section \<open>Saving\<close>

definition output_items :: "extraction_output \<Rightarrow> extracted_item list" where
  "output_items out =
     map CertificationItem (xo_certifications out) @ map InsuranceItem (xo_insurance out) @ map SLAItem (xo_slas out) @
     map ProjectItem (xo_projects out) @ map PricingItem (xo_pricing out) @ map FactItem (xo_extracted_facts out)"

text \<open>Only \<open>extracted_facts\<close> has the column \<open>setup_id\<close>.\<close>

definition insert_item ::
  "string option \<Rightarrow> string \<Rightarrow> string \<Rightarrow> string option \<Rightarrow> fact_tables \<Rightarrow> extracted_item \<Rightarrow> fact_tables result" where
  "insert_item doc org_id vendor_id setup_id t item =
     (let tbl = table_of item; setup = (if tbl = CustomFacts then setup_id else None)
      in if \<not> (case doc of None \<Rightarrow> True | Some d \<Rightarrow> dict_mem d (tf_documents t)) then Inl (ExternalError ''doc_id_fkey'')
         else if \<not> (case setup of None \<Rightarrow> True | Some s \<Rightarrow> s \<in> set (tf_setups t)) then Inl (ExternalError ''setup_id_fkey'')
         else Inr (t\<lparr>tf_rows := (tf_rows t)(tbl := tf_rows t tbl @
                [\<lparr>fw_id = tf_next t, fw_doc_id = doc, fw_org_id = org_id, fw_vendor_id = vendor_id, fw_setup_id = setup,
                  fw_confidence = xi_confidence item, fw_columns = columns_of item\<rparr>]),
              tf_next := Suc (tf_next t)\<rparr>))"

text \<open>\<open>_safe_uuid\<close> is the parameter \<open>uuid_of\<close>: the canonical text of a UUID, \<open>None\<close> for anything else.\<close>

definition save_extraction_output ::
  "(string \<Rightarrow> string option) \<Rightarrow> string \<Rightarrow> string \<Rightarrow> string option \<Rightarrow> extraction_output \<Rightarrow> string \<Rightarrow> fact_tables \<Rightarrow> fact_tables result" where
  "save_extraction_output uuid_of org_id vendor_id setup_id out doc_id t =
     rfold (insert_item (uuid_of doc_id) org_id vendor_id setup_id) t (output_items out)"

section \<open>Reading\<close>

text \<open>\<open>dict(r._mapping)\<close>; the creation time is left out.\<close>

definition row_json :: "fact_row \<Rightarrow> json" where
  "row_json r = JObj ([(''id'', JNum (of_nat (fw_id r))), (''doc_id'', json_opt JStr (fw_doc_id r)), (''org_id'', JStr (fw_org_id r)),
     (''vendor_id'', JStr (fw_vendor_id r)), (''setup_id'', json_opt JStr (fw_setup_id r))] @ fw_columns r)"

definition vendor_rows :: "string \<Rightarrow> string \<Rightarrow> fact_tables \<Rightarrow> fact_table \<Rightarrow> fact_row list" where
  "vendor_rows org_id vendor_id t tbl = filter (\<lambda>r. fw_org_id r = org_id \<and> fw_vendor_id r = vendor_id) (tf_rows t tbl)"

fun year_key :: "json option \<Rightarrow> bool \<times> rat" where
  "year_key (Some (JNum y)) = (False, y)"
| "year_key _ = (True, 0)"

text \<open>\<open>ORDER BY year ASC\<close>: nulls last. Equal keys keep the order of the table.\<close>

definition by_year :: "fact_row list \<Rightarrow> fact_row list" where
  "by_year rows =
     (let key = (\<lambda>r. year_key (dict_get (fw_columns r) ''year''))
      in sort_key (\<lambda>r. snd (key r)) (filter (\<lambda>r. \<not> fst (key r)) rows) @ filter (\<lambda>r. fst (key r)) rows)"

fun str_key :: "json option \<Rightarrow> string" where
  "str_key (Some (JStr s)) = s"
| "str_key _ = []"

text \<open>\<open>ORDER BY target_id, confidence DESC\<close>.\<close>

definition by_target :: "fact_row list \<Rightarrow> fact_row list" where
  "by_target rows = sort_key (\<lambda>r. str_key (dict_get (fw_columns r) ''target_id'')) (sort_desc fw_confidence rows)"

definition get_vendor_facts :: "string \<Rightarrow> string \<Rightarrow> string option \<Rightarrow> fact_tables \<Rightarrow> (string, json list) dict" where
  "get_vendor_facts org_id vendor_id setup_id t =
     (let rows = vendor_rows org_id vendor_id t;
          custom = filter (\<lambda>r. setup_id = None \<or> setup_id = Some [] \<or> fw_setup_id r = setup_id) (rows CustomFacts)
      in [(''certifications'', map row_json (sort_desc fw_confidence (rows Certifications))),
          (''insurance'', map row_json (sort_desc fw_confidence (rows Insurance))),
          (''slas'', map row_json (sort_desc fw_confidence (rows SLAs))),
          (''projects'', map row_json (sort_desc fw_confidence (rows Projects))),
          (''pricing'', map row_json (by_year (rows Pricing))),
          (''extracted_facts'', map row_json (by_target custom))])"

definition facts_already_extracted :: "string \<Rightarrow> string \<Rightarrow> fact_tables \<Rightarrow> bool" where
  "facts_already_extracted rfp_id vendor_id t \<longleftrightarrow>
     list_ex (\<lambda>r. fw_vendor_id r = vendor_id \<and>
       (case fw_doc_id r of None \<Rightarrow> False | Some d \<Rightarrow> dict_get (tf_documents t) d = Some rfp_id)) (tf_rows t CustomFacts)"

end
