(* ===== verification/Json_Text.thy ===== *)
theory Json_Text
  imports Schemas
begin

text \<open>
  How JSON reaches a \<open>jsonb\<close> column in \<open>app/api/_evaluation/db.py\<close>: the text of \<open>json.dumps\<close> with every
  \<open>\u0000\<close> removed from it, since PostgreSQL refuses the null character. The removal works on the text: it drops the
  null characters of a string without backslashes (\<open>clean_string_plain\<close>) and damages one that spells the six
  characters itself (\<open>clean_string_spelled\<close>). A string is treated on its own: the pattern has no quote, so a match
  lies within the body of one string.
\<close>

section \<open>The body of a JSON string\<close>

definition json_hex_digit :: "nat \<Rightarrow> char" where
  "json_hex_digit n = (if n < 10 then char_of (48 + n) else char_of (87 + n))"

definition quote_char :: char where "quote_char = CHR 0x22"
definition backslash :: char where "backslash = CHR 0x5C"

text \<open>\<open>json.dumps\<close> with \<open>ensure_ascii\<close>.\<close>

definition escape_char :: "char \<Rightarrow> string" where
  "escape_char c =
     (if c = quote_char \<or> c = backslash then [backslash, c]
      else if c = CHR 0x0A then [backslash, CHR ''n''] else if c = CHR 0x0D then [backslash, CHR ''r'']
      else if c = CHR 0x09 then [backslash, CHR ''t''] else if c = CHR 0x0C then [backslash, CHR ''f'']
      else if c = CHR 0x08 then [backslash, CHR ''b'']
      else let n = of_char c :: nat
           in if 32 \<le> n \<and> n < 127 then [c]
              else [backslash, CHR ''u'', CHR ''0'', CHR ''0'', json_hex_digit (n div 16), json_hex_digit (n mod 16)])"

definition escape :: "string \<Rightarrow> string" where
  "escape s = concat (map escape_char s)"

text \<open>\<open>.replace("\\u0000", "")\<close>.\<close>

definition null_escape :: string where
  "null_escape = backslash # ''u0000''"

function remove_nulls :: "string \<Rightarrow> string" where
  "remove_nulls [] = []"
| "remove_nulls (c # cs) =
     (if starts_with null_escape (c # cs) then remove_nulls (drop 5 cs) else c # remove_nulls cs)"
  by pat_completeness auto
termination by (relation "measure length") auto

text \<open>The reader of PostgreSQL on the body of a string; \<open>None\<close> is a syntax error or a refused character. A code point
  above 255, which no text of this model holds, is read as a question mark.\<close>

definition json_hex_value :: "char \<Rightarrow> nat option" where
  "json_hex_value c =
     (let n = of_char c :: nat
      in if 48 \<le> n \<and> n \<le> 57 then Some (n - 48) else if 97 \<le> n \<and> n \<le> 102 then Some (n - 87)
         else if 65 \<le> n \<and> n \<le> 70 then Some (n - 55) else None)"

definition code_point :: "char \<Rightarrow> char \<Rightarrow> char \<Rightarrow> char \<Rightarrow> char option" where
  "code_point a b c d =
     (case (json_hex_value a, json_hex_value b, json_hex_value c, json_hex_value d) of
        (Some i, Some j, Some k, Some l) \<Rightarrow>
          let n = ((i * 16 + j) * 16 + k) * 16 + l
          in if n = 0 then None else Some (if n < 256 then char_of n else CHR 0x3F)
      | _ \<Rightarrow> None)"

definition simple_escape :: "char \<Rightarrow> char option" where
  "simple_escape c =
     (if c = quote_char \<or> c = backslash \<or> c = CHR ''/'' then Some c
      else if c = CHR ''n'' then Some (CHR 0x0A) else if c = CHR ''r'' then Some (CHR 0x0D)
      else if c = CHR ''t'' then Some (CHR 0x09) else if c = CHR ''f'' then Some (CHR 0x0C)
      else if c = CHR ''b'' then Some (CHR 0x08) else None)"

fun unescape :: "string \<Rightarrow> string option" where
  "unescape [] = Some []"
| "unescape [c] =
     (if c = backslash \<or> c = quote_char \<or> (of_char c :: nat) < 32 then None else Some [c])"
| "unescape (c # d # cs) =
     (if c = quote_char \<or> (of_char c :: nat) < 32 then None
      else if c \<noteq> backslash then map_option ((#) c) (unescape (d # cs))
      else if d = CHR ''u''
      then (case cs of
              h1 # h2 # h3 # h4 # rest \<Rightarrow>
                (case code_point h1 h2 h3 h4 of None \<Rightarrow> None | Some x \<Rightarrow> map_option ((#) x) (unescape rest))
            | _ \<Rightarrow> None)
      else (case simple_escape d of None \<Rightarrow> None | Some x \<Rightarrow> map_option ((#) x) (unescape cs)))"

definition clean_string :: "string \<Rightarrow> string option" where
  "clean_string s = unescape (remove_nulls (escape s))"

declare remove_nulls.simps(2) [simp del]

section \<open>Whole values\<close>

fun clean_json :: "json \<Rightarrow> json option" and clean_values :: "json list \<Rightarrow> json list option"
  and clean_pairs :: "(string \<times> json) list \<Rightarrow> (string \<times> json) list option" where
  "clean_json (JStr s) = map_option JStr (clean_string s)"
| "clean_json (JArr xs) = map_option JArr (clean_values xs)"
| "clean_json (JObj kvs) = map_option JObj (clean_pairs kvs)"
| "clean_json v = Some v"
| "clean_values [] = Some []"
| "clean_values (x # xs) =
     (case clean_json x of None \<Rightarrow> None | Some y \<Rightarrow> map_option ((#) y) (clean_values xs))"
| "clean_pairs [] = Some []"
| "clean_pairs ((k, v) # kvs) =
     (case (clean_string k, clean_json v) of
        (Some k', Some v') \<Rightarrow> map_option ((#) (k', v')) (clean_pairs kvs)
      | _ \<Rightarrow> None)"

section \<open>Strings without backslashes\<close>

lemma escape_simps [simp]: "escape [] = []" "escape (c # cs) = escape_char c @ escape cs"
  by (simp_all add: escape_def)

lemma hex_inverse: "n < 16 \<Longrightarrow> json_hex_value (json_hex_digit n) = Some n"
  by (auto simp: json_hex_value_def json_hex_digit_def Let_def)

lemma hex_digit_plain: "n < 16 \<Longrightarrow> json_hex_digit n \<noteq> backslash"
  using hex_inverse[of n] by (auto simp: json_hex_value_def backslash_def)

lemma hex_digit_0: "n < 16 \<Longrightarrow> json_hex_digit n = CHR ''0'' \<longleftrightarrow> n = 0"
  using hex_inverse[of n] by (auto simp: json_hex_value_def json_hex_digit_def char_of_eq_iff take_bit_eq_mod)

lemma remove_plain: "c \<noteq> backslash \<Longrightarrow> remove_nulls (c # cs) = c # remove_nulls cs"
  by (simp add: remove_nulls.simps(2) starts_with_def null_escape_def)

lemma remove_two: "d \<noteq> CHR ''u'' \<Longrightarrow> d \<noteq> backslash \<Longrightarrow> remove_nulls (backslash # d # cs) = backslash # d # remove_nulls cs"
  by (simp add: remove_nulls.simps(2) starts_with_def null_escape_def)

lemma remove_pattern: "remove_nulls (backslash # CHR ''u'' # CHR ''0'' # CHR ''0'' # CHR ''0'' # CHR ''0'' # cs) = remove_nulls cs"
  by (simp add: remove_nulls.simps(2) starts_with_def null_escape_def)

lemma remove_hex:
  "x \<noteq> backslash \<Longrightarrow> y \<noteq> backslash \<Longrightarrow> \<not> (x = CHR ''0'' \<and> y = CHR ''0'') \<Longrightarrow>
   remove_nulls (backslash # CHR ''u'' # CHR ''0'' # CHR ''0'' # x # y # cs) =
     backslash # CHR ''u'' # CHR ''0'' # CHR ''0'' # x # y # remove_nulls cs"
  by (simp add: remove_nulls.simps(2) starts_with_def null_escape_def backslash_def)

lemma unescape_plain:
  "c \<noteq> backslash \<Longrightarrow> c \<noteq> quote_char \<Longrightarrow> 32 \<le> (of_char c :: nat) \<Longrightarrow> unescape (c # cs) = map_option ((#) c) (unescape cs)"
  by (cases cs) simp_all

text \<open>The five forms of an escaped character.\<close>

lemma escape_char_cases:
  assumes "c \<noteq> backslash"
  obtains d where "escape_char c = [backslash, d]" "d \<noteq> CHR ''u''" "d \<noteq> backslash" "simple_escape d = Some c" "c \<noteq> CHR 0x00"
  | "escape_char c = [c]" "c \<noteq> quote_char" "32 \<le> (of_char c :: nat)" "c \<noteq> CHR 0x00"
  | "escape_char c = [backslash, CHR ''u'', CHR ''0'', CHR ''0'', CHR ''0'', CHR ''0'']" "c = CHR 0x00"
  | x y where "escape_char c = [backslash, CHR ''u'', CHR ''0'', CHR ''0'', x, y]" "x \<noteq> backslash" "y \<noteq> backslash"
      "\<not> (x = CHR ''0'' \<and> y = CHR ''0'')" "code_point (CHR ''0'') (CHR ''0'') x y = Some c" "c \<noteq> CHR 0x00"
proof -
  note defs = escape_char_def simple_escape_def quote_char_def backslash_def
  consider "c \<in> {quote_char, CHR 0x0A, CHR 0x0D, CHR 0x09, CHR 0x0C, CHR 0x08}"
    | "c \<notin> {quote_char, CHR 0x0A, CHR 0x0D, CHR 0x09, CHR 0x0C, CHR 0x08}" by blast
  then show ?thesis
  proof cases
    case 1
    then show ?thesis
      by (elim insertE emptyE)
        (rule that(1)[of quote_char] that(1)[of "CHR ''n''"] that(1)[of "CHR ''r''"] that(1)[of "CHR ''t''"]
           that(1)[of "CHR ''f''"] that(1)[of "CHR ''b''"]; (simp add: defs; fail))+
  next
    case 2
    let ?n = "of_char c :: nat"
    have n: "?n < 256" using of_char_mod_256[of c, where ?'a = nat] mod_less_divisor[of 256 ?n] by linarith
    have esc: "escape_char c = (if 32 \<le> ?n \<and> ?n < 127 then [c]
        else [backslash, CHR ''u'', CHR ''0'', CHR ''0'', json_hex_digit (?n div 16), json_hex_digit (?n mod 16)])"
      using 2 assms by (simp add: escape_char_def Let_def)
    have nz: "?n = 0 \<longleftrightarrow> c = CHR 0x00" using of_char_eq_iff[of c "CHR 0x00", where ?'a = nat] by simp
    show ?thesis
    proof (cases "32 \<le> ?n \<and> ?n < 127")
      case True
      then show ?thesis using esc 2 nz by (intro that(2)) auto
    next
      case False
      have d: "?n div 16 < 16" "?n mod 16 < 16" using n by (simp_all add: div_less_iff_less_mult)
      show ?thesis
      proof (cases "c = CHR 0x00")
        case True
        then show ?thesis by (intro that(3)) (simp_all add: defs json_hex_digit_def Let_def char_of_eq_iff take_bit_eq_mod)
      next
        case nonnull: False
        then have "\<not> (?n div 16 = 0 \<and> ?n mod 16 = 0)" using nz by presburger
        then have "\<not> (json_hex_digit (?n div 16) = CHR ''0'' \<and> json_hex_digit (?n mod 16) = CHR ''0'')"
          using hex_digit_0 d by simp
        moreover have "code_point (CHR ''0'') (CHR ''0'') (json_hex_digit (?n div 16)) (json_hex_digit (?n mod 16)) = Some c"
        proof -
          have "json_hex_value (CHR ''0'') = Some 0" by (simp add: json_hex_value_def)
          moreover have "(?n div 16) * 16 + ?n mod 16 = ?n" by simp
          ultimately show ?thesis using nonnull nz n by (simp add: code_point_def hex_inverse[OF d(1)] hex_inverse[OF d(2)] Let_def)
        qed
        ultimately show ?thesis
          using esc False hex_digit_plain[OF d(1)] hex_digit_plain[OF d(2)] nonnull by (intro that(4)) auto
      qed
    qed
  qed
qed

lemma clean_cons:
  assumes "c \<noteq> backslash"
  shows "clean_string (c # cs) = (if c = CHR 0x00 then clean_string cs else map_option ((#) c) (clean_string cs))"
  using assms
proof (cases rule: escape_char_cases)
  case (1 d)
  then show ?thesis by (simp add: clean_string_def remove_two) (simp add: quote_char_def backslash_def)
next
  case 2
  then show ?thesis using assms by (simp add: clean_string_def remove_plain unescape_plain)
next
  case 3
  then show ?thesis by (simp add: clean_string_def remove_pattern)
next
  case (4 x y)
  then show ?thesis
    by (simp add: clean_string_def remove_hex) (simp add: quote_char_def backslash_def)
qed

lemma clean_string_plain: "backslash \<notin> set s \<Longrightarrow> clean_string s = Some (filter (\<lambda>c. c \<noteq> CHR 0x00) s)"
  by (induction s) (auto simp: clean_cons, simp add: clean_string_def)

text \<open>A text that spells the pattern before a quote is no JSON any more; before another letter it becomes something else.\<close>

lemma clean_string_spelled:
  "clean_string (backslash # ''u0000'' @ [quote_char]) = None"
  "clean_string (backslash # ''u0000n'') = Some [CHR 0x0A]"
  by code_simp+

end
