(* ===== verification/Run_Store.thy ===== *)
theory Run_Store
  imports Access Criteria Fact_Store Json_Text
begin

text \<open>
  The tables of an evaluation run and the helpers that read and write them: \<open>app/api/_evaluation/db.py\<close>,
  \<open>save_evaluation_setup\<close> of \<open>app/db/fact_store.py\<close>, \<open>audit\<close> of \<open>app/infra/audit.py\<close> and \<open>log_access\<close> of
  \<open>app/auth/rbac.py\<close>, over the tables, foreign keys and row-level policies of \<open>app/db/schema.sql\<close>. A run id is
  the text of a UUID. Left out: the bytes of the RFP, \<open>agent_log\<close> (the log lines), the columns nothing modelled
  reads. A \<open>jsonb\<close> object keeps its keys in another order; only lookups are made in it.
\<close>

section \<open>Tables\<close>

record eval_run = run_row +
  er_setup_id :: "string option"
  er_rfp_id :: string
  er_rfp_title :: "string option"
  er_department :: "string option"
  er_rfp_filename :: "string option"
  er_status :: string
  er_vendor_ids :: "string list"
  er_contract_value :: "rat option"
  er_currency :: string
  er_vendor_names :: json
  er_events :: "json list"
  er_decision :: "(string, json) dict option"
  er_explanation :: "json option"
  er_gaps :: "json option"
  er_completed_at :: "int option"
  er_cost :: "(rat \<times> int) option"

record setup_row =
  su_org_id :: string
  su_json :: "(string, json) dict"

record doc_row =
  dw_doc_id :: string
  dw_org_id :: string
  dw_vendor_id :: string
  dw_rfp_id :: string
  dw_setup_id :: "string option"
  dw_file_name :: "string option"
  dw_bytes :: "string option"
  dw_hash :: string

record audit_event =
  ua_org_id :: string
  ua_run_id :: "string option"
  ua_event_type :: string
  ua_actor :: string
  ua_agent :: "string option"

record override_row =
  ov_override_id :: string
  ov_run_id :: string
  ov_org_id :: string
  ov_overridden_by :: string
  ov_original :: "(string, json) dict"
  ov_new :: "(string, json) dict"
  ov_reason :: string

record correction_row =
  kr_correction_id :: string
  kr_org_id :: string
  kr_run_id :: string
  kr_vendor_id :: string
  kr_target_type :: string
  kr_target_id :: string
  kr_target_name :: string
  kr_original :: "(string, json) dict"
  kr_corrected :: "(string, json) dict"
  kr_reason :: string
  kr_corrected_by :: string
  kr_active :: bool
  kr_created_at :: int

text \<open>The runs of \<open>approvals\<close>, \<open>decisions\<close> and \<open>retrieval_log\<close>, and the documents ingestion jobs point to, are kept
  as ids.\<close>

record run_db =
  rb_users :: "user_row list"
  rb_depts :: "dept_row list"
  rb_collaborators :: "collaborator_row list"
  rb_assignments :: "approval_row list"
  rb_runs :: "eval_run list"
  rb_setups :: "(string, setup_row) dict"
  rb_documents :: "doc_row list"
  rb_facts :: "fact_table \<Rightarrow> fact_row list"
  rb_job_docs :: "string list"
  rb_approvals :: "string list"
  rb_decisions :: "string list"
  rb_retrieval_log :: "string option list"
  rb_audit :: "audit_event list"
  rb_access_log :: "(string option \<times> string \<times> string) list"
  rb_overrides :: "override_row list"
  rb_corrections :: "correction_row list"

text \<open>What visibility.py and rbac.py see of it.\<close>

definition access_of :: "run_db \<Rightarrow> access_db" where
  "access_of db = \<lparr>xd_users = rb_users db, xd_runs = map run_row.truncate (rb_runs db), xd_depts = rb_depts db,
     xd_collaborators = rb_collaborators db, xd_approvals = rb_assignments db\<rparr>"

definition run_exists :: "string \<Rightarrow> run_db \<Rightarrow> bool" where
  "run_exists run_id db \<longleftrightarrow> list_ex (\<lambda>r. rr_run_id r = run_id) (rb_runs db)"

section \<open>A decision as JSON\<close>

definition jstrs :: "string list \<Rightarrow> json" where
  "jstrs ss = JArr (map JStr ss)"

definition jint :: "int \<Rightarrow> json" where
  "jint i = JNum (of_int i)"

definition score_json :: "criterion_score \<Rightarrow> json" where
  "score_json c = JObj
     [(''criterion_id'', JStr (cs_criterion_id c)), (''vendor_id'', JStr (cs_vendor_id c)),
      (''raw_score'', jint (cs_raw_score c)), (''weighted_contribution'', JNum (cs_weighted_contribution c)),
      (''confidence'', JNum (cs_confidence c)), (''rubric_band_applied'', JStr (cs_rubric_band_applied c)),
      (''evidence_used'', jstrs (cs_evidence_used c)), (''score_rationale'', JStr (cs_score_rationale c)),
      (''variance_estimate'', JNum (cs_variance_estimate c)), (''insufficient_evidence'', JBool (cs_insufficient_evidence c))]"

text \<open>The decision agent puts the vendor's id for its name.\<close>

definition shortlisted_json :: "shortlisted_vendor \<Rightarrow> json" where
  "shortlisted_json v = JObj
     [(''vendor_id'', JStr (sv_vendor_id v)), (''vendor_name'', JStr (sv_vendor_id v)), (''rank'', jint (int (sv_rank v))),
      (''total_score'', JNum (sv_total_score v)), (''coverage'', JNum (sv_coverage v)),
      (''coverage_normalised_score'', JNum (sv_coverage_normalised_score v)),
      (''score_confidence'', JNum (sv_score_confidence v)),
      (''criterion_breakdown'', JArr (map score_json (sv_criterion_breakdown v))), (''recommendation'', JStr (sv_recommendation v))]"

definition rejection_json :: "rejection_notice \<Rightarrow> json" where
  "rejection_json v = JObj
     [(''vendor_id'', JStr (rn_vendor_id v)), (''vendor_name'', JStr (rn_vendor_id v)),
      (''failed_checks'', jstrs (rn_failed_checks v)), (''rejection_reasons'', jstrs (rn_rejection_reasons v)),
      (''evidence_citations'', jstrs (rn_evidence_citations v)), (''clause_references'', jstrs (rn_clause_references v))]"

text \<open>The decision's id and the SLA deadline, which the record of the decision leaves out, are arguments.\<close>

definition routing_json :: "string \<Rightarrow> approval_routing \<Rightarrow> json" where
  "routing_json deadline a = JObj
     [(''approval_tier'', jint (ar_approval_tier a)), (''approver_role'', JStr (ar_approver_role a)),
      (''contract_value'', JNum (ar_contract_value a)), (''sla_hours'', jint (int (ar_sla_hours a))),
      (''sla_deadline'', JStr deadline), (''escalation_reason'', json_opt JStr (ar_escalation_reason a))]"

definition decision_dict :: "string \<Rightarrow> string \<Rightarrow> decision_output \<Rightarrow> (string, json) dict" where
  "decision_dict decision_id deadline d =
     [(''decision_id'', JStr decision_id), (''rfp_id'', JStr (do_rfp_id d)),
      (''rejected_vendors'', JArr (map rejection_json (do_rejected_vendors d))),
      (''shortlisted_vendors'', JArr (map shortlisted_json (do_shortlisted_vendors d))),
      (''approval_routing'', routing_json deadline (do_approval_routing d)),
      (''decision_confidence'', JNum (do_decision_confidence d)), (''requires_human_review'', JBool (do_requires_human_review d)),
      (''review_reasons'', jstrs (do_review_reasons d)), (''decision_warnings'', JArr [])]"

section \<open>A setup from JSON\<close>

text \<open>pydantic on a field: missing, or of a value the type does not accept.\<close>

definition field :: "(string, json) dict \<Rightarrow> string \<Rightarrow> (json \<Rightarrow> 'a result) \<Rightarrow> 'a result" where
  "field d k conv = (case dict_get d k of None \<Rightarrow> Inl (ValidationError (''Field required: '' @ k)) | Some v \<Rightarrow> conv v)"

definition optional_field :: "(string, json) dict \<Rightarrow> string \<Rightarrow> (json \<Rightarrow> unit result) \<Rightarrow> unit result" where
  "optional_field d k conv = (case dict_get d k of None \<Rightarrow> Inr () | Some JNull \<Rightarrow> Inr () | Some v \<Rightarrow> conv v)"

definition as_float :: "json \<Rightarrow> rat result" where
  "as_float v = (case to_float v of Inl _ \<Rightarrow> Inl (ValidationError ''Input should be a valid number'') | Inr x \<Rightarrow> Inr x)"

definition bool_words :: "string list" where
  "bool_words = [''0'', ''off'', ''f'', ''false'', ''n'', ''no'', ''1'', ''on'', ''t'', ''true'', ''y'', ''yes'']"

fun as_bool :: "json \<Rightarrow> unit result" where
  "as_bool (JBool _) = Inr ()"
| "as_bool (JNum x) = (if x = 0 \<or> x = 1 then Inr () else Inl (ValidationError ''Input should be a valid boolean''))"
| "as_bool (JStr s) = (if lower s \<in> set bool_words then Inr () else Inl (ValidationError ''Input should be a valid boolean''))"
| "as_bool _ = Inl (ValidationError ''Input should be a valid boolean'')"

definition is_str :: "json \<Rightarrow> unit result" where
  "is_str v = rbind (as_str v) (\<lambda>_. Inr ())"

fun dict_value :: "json \<Rightarrow> (string, json) dict result" where
  "dict_value (JObj kvs) = Inr kvs"
| "dict_value _ = Inl (ValidationError ''Input should be a valid dictionary'')"

fun as_list :: "json \<Rightarrow> json list result" where
  "as_list (JArr xs) = Inr xs"
| "as_list _ = Inl (ValidationError ''Input should be a valid list'')"

definition annotations_ok :: "(string, json) dict \<Rightarrow> unit result" where
  "annotations_ok d = rbind (optional_field d ''source'' is_str) (\<lambda>_. rbind (optional_field d ''is_locked'' as_bool) (\<lambda>_.
     optional_field d ''page_reference'' is_str))"

definition parse_extraction_target :: "json \<Rightarrow> extraction_target result" where
  "parse_extraction_target j =
     rbind (dict_value j) (\<lambda>d. rbind (field d ''target_id'' as_str) (\<lambda>i. rbind (field d ''name'' as_str) (\<lambda>n.
     rbind (field d ''description'' as_str) (\<lambda>t. rbind (field d ''fact_type'' as_str) (\<lambda>f.
     rbind (field d ''is_mandatory'' as_bool) (\<lambda>_. rbind (optional_field d ''feeds_criterion_id'' is_str) (\<lambda>_.
     rbind (optional_field d ''feeds_check_id'' is_str) (\<lambda>_.
     Inr \<lparr>et_target_id = i, et_name = n, et_description = t, et_fact_type = f\<rparr>))))))))"

definition parse_check :: "json \<Rightarrow> mandatory_check result" where
  "parse_check j =
     rbind (dict_value j) (\<lambda>d. rbind (field d ''check_id'' as_str) (\<lambda>i. rbind (field d ''name'' as_str) (\<lambda>n.
     rbind (field d ''description'' as_str) (\<lambda>t. rbind (field d ''what_passes'' as_str) (\<lambda>p.
     rbind (field d ''extraction_target_id'' as_str) (\<lambda>e. rbind (annotations_ok d) (\<lambda>_.
     Inr \<lparr>mc_check_id = i, mc_name = n, mc_description = t, mc_what_passes = p, mc_extraction_target_id = e\<rparr>)))))))"

definition parse_criterion :: "json \<Rightarrow> scoring_criterion result" where
  "parse_criterion j =
     rbind (dict_value j) (\<lambda>d. rbind (field d ''criterion_id'' as_str) (\<lambda>i. rbind (field d ''name'' as_str) (\<lambda>n.
     rbind (field d ''weight'' as_float) (\<lambda>w. rbind (field d ''rubric_9_10'' as_str) (\<lambda>a.
     rbind (field d ''rubric_6_8'' as_str) (\<lambda>b. rbind (field d ''rubric_3_5'' as_str) (\<lambda>c.
     rbind (field d ''rubric_0_2'' as_str) (\<lambda>e. rbind (field d ''extraction_target_ids'' as_str_list) (\<lambda>ts.
     rbind (annotations_ok d) (\<lambda>_.
     Inr \<lparr>sc_criterion_id = i, sc_name = n, sc_weight = w, sc_rubric_9_10 = a, sc_rubric_6_8 = b, sc_rubric_3_5 = c,
          sc_rubric_0_2 = e, sc_extraction_target_ids = ts\<rparr>))))))))))"

text \<open>\<open>EvaluationSetup(**d)\<close>; \<open>datetime_ok\<close> is pydantic's reading of a date.\<close>

definition parse_setup :: "(json \<Rightarrow> bool) \<Rightarrow> (string, json) dict \<Rightarrow> evaluation_setup result" where
  "parse_setup datetime_ok d =
     rbind (field d ''setup_id'' as_str) (\<lambda>setup_id.
     rbind (field d ''org_id'' as_str) (\<lambda>_. rbind (field d ''department'' as_str) (\<lambda>_. rbind (field d ''rfp_id'' as_str) (\<lambda>_.
     rbind (field d ''rfp_confirmed'' as_bool) (\<lambda>_.
     rbind (rbind (field d ''mandatory_checks'' as_list) (rmap parse_check)) (\<lambda>checks.
     rbind (rbind (field d ''scoring_criteria'' as_list) (rmap parse_criterion)) (\<lambda>criteria.
     rbind (rbind (field d ''extraction_targets'' as_list) (rmap parse_extraction_target)) (\<lambda>targets.
     rbind (field d ''total_weight'' as_float) (\<lambda>total.
     rbind (field d ''confirmed_by'' as_str) (\<lambda>_.
     rbind (optional_field d ''confirmed_at'' (\<lambda>v. if datetime_ok v then Inr () else Inl (ValidationError ''datetime''))) (\<lambda>_.
     rbind (field d ''source'' as_str) (\<lambda>_.
     make_setup \<lparr>es_setup_id = setup_id, es_mandatory_checks = checks, es_scoring_criteria = criteria,
       es_extraction_targets = targets, es_total_weight = total\<rparr>))))))))))))"

section \<open>Reading and writing\<close>

text \<open>A statement that fails outside any handler is an internal error of the route.\<close>

definition raised :: "'a result \<Rightarrow> 'a response" where
  "raised r = (case r of Inl e \<Rightarrow> Inl (Raised e) | Inr x \<Rightarrow> Inr x)"

definition db_get_run :: "string \<Rightarrow> string \<Rightarrow> run_db \<Rightarrow> eval_run response" where
  "db_get_run run_id org_id db =
     (case List.find (\<lambda>r. rr_run_id r = run_id \<and> rr_org_id r = org_id) (rb_runs db) of
        None \<Rightarrow> Inl (Http 404 ''Run not found'') | Some r \<Rightarrow> Inr r)"

text \<open>\<open>UPDATE evaluation_runs ... WHERE run_id = :rid\<close> under the policy of the organisation.\<close>

definition update_run :: "string \<Rightarrow> string \<Rightarrow> (eval_run \<Rightarrow> eval_run) \<Rightarrow> run_db \<Rightarrow> run_db" where
  "update_run run_id org_id f db =
     db\<lparr>rb_runs := map (\<lambda>r. if rr_run_id r = run_id \<and> rr_org_id r = org_id then f r else r) (rb_runs db)\<rparr>"

definition db_update_status :: "string \<Rightarrow> string \<Rightarrow> string \<Rightarrow> bool \<Rightarrow> int \<Rightarrow> run_db \<Rightarrow> run_db" where
  "db_update_status run_id org_id status completed now =
     update_run run_id org_id (\<lambda>r. r\<lparr>er_status := status,
       er_completed_at := (if completed then Some now else er_completed_at r)\<rparr>)"

definition bad_json :: exn where
  "bad_json = ExternalError ''invalid input syntax for type json''"

definition db_append_event :: "string \<Rightarrow> string \<Rightarrow> json \<Rightarrow> run_db \<Rightarrow> run_db result" where
  "db_append_event run_id org_id event db =
     (case clean_json event of None \<Rightarrow> Inl bad_json
      | Some ev \<Rightarrow> Inr (update_run run_id org_id (\<lambda>r. r\<lparr>er_events := er_events r @ [ev]\<rparr>) db))"

definition db_save_decision :: "string \<Rightarrow> string \<Rightarrow> (string, json) dict \<Rightarrow> int \<Rightarrow> run_db \<Rightarrow> run_db result" where
  "db_save_decision run_id org_id decision now db =
     (case clean_pairs decision of None \<Rightarrow> Inl bad_json
      | Some dec \<Rightarrow> Inr (update_run run_id org_id (\<lambda>r. r\<lparr>er_decision := Some dec, er_status := ''complete'',
          er_completed_at := Some now\<rparr>) db))"

definition db_save_explanation :: "string \<Rightarrow> string \<Rightarrow> json \<Rightarrow> run_db \<Rightarrow> run_db result" where
  "db_save_explanation run_id org_id explanation db =
     (case clean_json explanation of None \<Rightarrow> Inl bad_json
      | Some ex \<Rightarrow> Inr (update_run run_id org_id (\<lambda>r. r\<lparr>er_explanation := Some ex\<rparr>) db))"

definition file_label :: "doc_row \<Rightarrow> string" where
  "file_label d = (case dw_file_name d of None \<Rightarrow> dw_vendor_id d | Some n \<Rightarrow> if n = [] then dw_vendor_id d else n)"

definition file_bytes :: "doc_row \<Rightarrow> string" where
  "file_bytes d = (case dw_bytes d of None \<Rightarrow> [] | Some b \<Rightarrow> b)"

text \<open>The comprehension assigns in row order, so a vendor's last document wins. Empty bytes are skipped.\<close>

definition db_load_vendor_files :: "string \<Rightarrow> string \<Rightarrow> run_db \<Rightarrow> (string, string \<times> string) dict" where
  "db_load_vendor_files run_id org_id db =
     (case List.find (\<lambda>r. rr_run_id r = run_id \<and> rr_org_id r = org_id) (rb_runs db) of
        None \<Rightarrow> []
      | Some run \<Rightarrow>
          dict_of (map (\<lambda>d. (dw_vendor_id d, file_bytes d, file_label d))
            (filter (\<lambda>d. dw_org_id d = org_id \<and> dw_rfp_id d = er_rfp_id run \<and> dw_vendor_id d \<noteq> ''rfp'' \<and>
               file_bytes d \<noteq> []) (rb_documents db))))"

definition db_get_setup :: "string option \<Rightarrow> string \<Rightarrow> run_db \<Rightarrow> (string, json) dict option" where
  "db_get_setup setup_id org_id db =
     (case setup_id of None \<Rightarrow> None
      | Some sid \<Rightarrow> (case dict_get (rb_setups db) sid of None \<Rightarrow> None
          | Some row \<Rightarrow> if su_org_id row = org_id then Some (su_json row) else None))"

text \<open>The upsert of another organisation's setup violates the policy.\<close>

definition save_evaluation_setup :: "(string, json) dict \<Rightarrow> string \<Rightarrow> run_db \<Rightarrow> run_db result" where
  "save_evaluation_setup setup org_id db =
     (case dict_get setup ''setup_id'' of
        None \<Rightarrow> Inl (KeyError (quoted ''setup_id''))
      | Some (JStr sid) \<Rightarrow>
          (case dict_get (rb_setups db) sid of
             None \<Rightarrow> Inr (db\<lparr>rb_setups := dict_set sid \<lparr>su_org_id = org_id, su_json = setup\<rparr> (rb_setups db)\<rparr>)
           | Some row \<Rightarrow>
               if su_org_id row = org_id then Inr (db\<lparr>rb_setups := dict_set sid (row\<lparr>su_json := setup\<rparr>) (rb_setups db)\<rparr>)
               else Inl (ExternalError ''row-level security''))
      | Some _ \<Rightarrow> Inl (ExternalError ''setup_id''))"

text \<open>\<open>audit\<close> and \<open>log_access\<close> swallow every error; the foreign key on the run is checked.\<close>

definition audit :: "string \<Rightarrow> string option \<Rightarrow> string \<Rightarrow> string \<Rightarrow> string option \<Rightarrow> run_db \<Rightarrow> run_db" where
  "audit org_id run_id event_type actor agent db =
     (case run_id of
        Some r \<Rightarrow> if run_exists r db
          then db\<lparr>rb_audit := rb_audit db @ [\<lparr>ua_org_id = org_id, ua_run_id = run_id, ua_event_type = event_type,
                 ua_actor = actor, ua_agent = agent\<rparr>]\<rparr>
          else db
      | None \<Rightarrow> db\<lparr>rb_audit := rb_audit db @ [\<lparr>ua_org_id = org_id, ua_run_id = None, ua_event_type = event_type,
                 ua_actor = actor, ua_agent = agent\<rparr>]\<rparr>)"

definition log_access :: "string \<Rightarrow> string \<Rightarrow> string \<Rightarrow> run_db \<Rightarrow> run_db" where
  "log_access run_id email action db =
     (if run_exists run_id db then db\<lparr>rb_access_log := rb_access_log db @ [(Some run_id, email, action)]\<rparr> else db)"

end
