(* ===== verification/Run_Routes.thy ===== *)
theory Run_Routes
  imports Run_Store Cost Ingest
begin

text \<open>
  The endpoints of \<open>app/api/evaluation_routes.py\<close> on one run: reading and editing its setup, starting, re-running,
  cancelling and deleting it, its collaborators, results, overrides, corrections and cost, with
  \<open>extract_decision_summary\<close> of \<open>app/domain/decision_summary.py\<close>. A handler maps the tables to its response and the
  new tables; an exception that leaves a handler is \<open>Raised\<close>. The background tasks it schedules are part of the
  response. The routes that check a status before they write are split into their check and their commit, which
  are separate transactions.
\<close>

type_synonym 'a handled = "'a response \<times> run_db"

definition respond :: "'a response \<Rightarrow> ('a \<Rightarrow> run_db \<Rightarrow> 'b handled) \<Rightarrow> run_db \<Rightarrow> 'b handled" where
  "respond r f db = (case r of Inl e \<Rightarrow> (Inl e, db) | Inr x \<Rightarrow> f x db)"

datatype task = RunPipeline string string | RerunPipeline string string string bool | RefineSetup string string

text \<open>The two lines every handler starts with.\<close>

definition load_run :: "string \<Rightarrow> token_data \<Rightarrow> run_db \<Rightarrow> eval_run response" where
  "load_run run_id user db =
     fbind (db_get_run run_id (td_org_id user) db) (\<lambda>run.
     fbind (require_run_access (access_of db) user (run_row.truncate run)) (\<lambda>_. Inr run))"

section \<open>The setup\<close>

definition default_gaps :: json where
  "default_gaps = JObj [(''has_gaps'', JBool False), (''score_guides_generated'', JArr []), (''mandatory_checks_suggested'', JArr [])]"

definition text_or :: "string \<Rightarrow> string option \<Rightarrow> string" where
  "text_or d s = (case s of None \<Rightarrow> d | Some t \<Rightarrow> if t = [] then d else t)"

definition get_setup :: "string \<Rightarrow> token_data \<Rightarrow> run_db \<Rightarrow> (string, json) dict handled" where
  "get_setup run_id user db =
     respond (load_run run_id user db) (\<lambda>run db.
       let db' = log_access run_id (td_email user) ''view_setup'' db
       in case db_get_setup (er_setup_id run) (td_org_id user) db' of
            None \<Rightarrow> (Inl (Http 404 ''Setup not found''), db')
          | Some setup \<Rightarrow> if setup = [] then (Inl (Http 404 ''Setup not found''), db') else
              (Inr (dict_update setup
                 [(''currency'', JStr (if er_currency run = [] then ''GBP'' else er_currency run)),
                  (''contract_value'', json_opt JNum (er_contract_value run)),
                  (''vendor_count'', jint (int (length (er_vendor_ids run)))),
                  (''rfp_title'', JStr (text_or [] (er_rfp_title run))),
                  (''department'', JStr (text_or [] (er_department run))),
                  (''gaps_report'', case er_gaps run of None \<Rightarrow> default_gaps | Some g \<Rightarrow> g)]), db')) db"

record setup_edit =
  sx_scoring_criteria :: "(string, json) dict list"
  sx_mandatory_checks :: "(string, json) dict list"
  sx_extraction_targets :: "(string, json) dict list option"

definition dict_or :: "(string, json) dict \<Rightarrow> string \<Rightarrow> json \<Rightarrow> json" where
  "dict_or d k v = get_default d k v"

text \<open>\<open>chk['check_id'].lower()\<close>: a missing key or a value that is no string raises.\<close>

definition user_target_id :: "(string, json) dict \<Rightarrow> string result" where
  "user_target_id chk =
     (case dict_get chk ''check_id'' of
        None \<Rightarrow> Inl (KeyError (quoted ''check_id''))
      | Some (JStr s) \<Rightarrow> Inr (''ext-user-'' @ lower s)
      | Some _ \<Rightarrow> Inl (AttributeError ''object has no attribute lower''))"

record edit_state =
  ed_checks :: "json list"
  ed_targets :: "json list"
  ed_ids :: "json list"

definition edit_check :: "edit_state \<Rightarrow> (string, json) dict \<Rightarrow> edit_state result" where
  "edit_check st chk =
     (if truthy (dict_or chk ''extraction_target_id'' JNull) then Inr (st\<lparr>ed_checks := ed_checks st @ [JObj chk]\<rparr>)
      else rbind (user_target_id chk) (\<lambda>tid.
        let st' = st\<lparr>ed_checks := ed_checks st @ [JObj (dict_set ''extraction_target_id'' (JStr tid) chk)]\<rparr>
        in Inr (if JStr tid \<in> set (ed_ids st) then st'
                else st'\<lparr>ed_ids := ed_ids st @ [JStr tid],
                     ed_targets := ed_targets st @ [JObj
                       [(''target_id'', JStr tid), (''name'', dict_or chk ''name'' (JStr ''User check'')),
                        (''description'', dict_or chk ''description'' (JStr [])), (''fact_type'', JStr ''custom''),
                        (''is_mandatory'', JBool True), (''feeds_check_id'', dict_or chk ''check_id'' JNull)]]\<rparr>)))"

text \<open>The targets of the request or, when it has none, those stored.\<close>

definition edit_targets :: "setup_edit \<Rightarrow> (string, json) dict \<Rightarrow> json list result" where
  "edit_targets body existing =
     (case sx_extraction_targets body of
        Some (t # ts) \<Rightarrow> Inr (map JObj (t # ts))
      | _ \<Rightarrow> let v = dict_or existing ''extraction_targets'' JNull in if truthy v then as_iter v else Inr [])"

definition hashable :: "json \<Rightarrow> json result" where
  "hashable v = (case v of JArr _ \<Rightarrow> Inl (TypeError ''unhashable type: list'') | JObj _ \<Rightarrow> Inl (TypeError ''unhashable type: dict'')
     | _ \<Rightarrow> Inr v)"

definition weight_of :: "(string, json) dict \<Rightarrow> rat result" where
  "weight_of c = to_float (dict_or c ''weight'' (JNum 0))"

definition edited_setup :: "setup_edit \<Rightarrow> (string, json) dict \<Rightarrow> (string, json) dict result" where
  "edited_setup body existing =
     rbind (edit_targets body existing) (\<lambda>targets.
     rbind (rmap (\<lambda>t. rbind (jindex t ''target_id'') hashable) targets) (\<lambda>ids.
     rbind (rfold edit_check \<lparr>ed_checks = [], ed_targets = targets, ed_ids = ids\<rparr> (sx_mandatory_checks body)) (\<lambda>st.
     rbind (rmap weight_of (sx_scoring_criteria body)) (\<lambda>weights.
     let d = dict_update existing
       [(''mandatory_checks'', JArr (ed_checks st)), (''scoring_criteria'', JArr (map JObj (sx_scoring_criteria body))),
        (''extraction_targets'', JArr (ed_targets st)), (''source'', JStr ''manually_edited'')]
     in Inr (if sx_scoring_criteria body = [] then d
             else dict_set ''total_weight'' (JNum (py_round 3 (sum_list weights))) d)))))"

text \<open>A setup that is missing fails at \<open>existing.get\<close> or at the assignment to \<open>None\<close>.\<close>

definition update_setup :: "(json \<Rightarrow> bool) \<Rightarrow> string \<Rightarrow> setup_edit \<Rightarrow> token_data \<Rightarrow> run_db \<Rightarrow> unit handled" where
  "update_setup datetime_ok run_id body user db =
     respond (load_run run_id user db) (\<lambda>run db.
       if er_status run \<notin> {''pending'', ''pending_confirm''}
       then (Inl (Http 409 ''Cannot edit setup after pipeline has started''), db)
       else case db_get_setup (er_setup_id run) (td_org_id user) db of
         None \<Rightarrow> (Inl (Raised (AttributeError ''NoneType'')), db)
       | Some existing \<Rightarrow>
           (case edited_setup body existing of
              Inl e \<Rightarrow> (Inl (Raised e), db)
            | Inr setup \<Rightarrow>
                (case parse_setup datetime_ok setup of
                   Inl e \<Rightarrow> (Inl (Http 422 (''Invalid setup: '' @ exn_str e)), db)
                 | Inr _ \<Rightarrow> respond (raised (save_evaluation_setup setup (td_org_id user) db)) (\<lambda>db' _. (Inr (), db')) db))) db"

section \<open>Starting the pipeline\<close>

definition confirm_check :: "string list \<Rightarrow> string \<Rightarrow> token_data \<Rightarrow> run_db \<Rightarrow> eval_run response" where
  "confirm_check write_roles run_id user db =
     fbind (load_run run_id user db) (\<lambda>run.
     fbind (require_write_role write_roles user) (\<lambda>_.
     if er_status run \<noteq> ''pending_confirm'' then Inl (Http 409 (''Run already in status: '' @ er_status run)) else Inr run))"

definition confirm_commit :: "string \<Rightarrow> token_data \<Rightarrow> run_db \<Rightarrow> task list handled" where
  "confirm_commit run_id user db =
     (Inr [RunPipeline run_id (td_org_id user)],
      audit (td_org_id user) (Some run_id) ''run.confirmed'' (td_email user) None
        (db_update_status run_id (td_org_id user) ''running'' False 0 db))"

definition confirm_run :: "string list \<Rightarrow> string \<Rightarrow> token_data \<Rightarrow> run_db \<Rightarrow> task list handled" where
  "confirm_run write_roles run_id user db =
     respond (confirm_check write_roles run_id user db) (\<lambda>_. confirm_commit run_id user) db"

definition re_evaluate_check :: "string list \<Rightarrow> string \<Rightarrow> token_data \<Rightarrow> run_db \<Rightarrow> eval_run response" where
  "re_evaluate_check write_roles run_id user db =
     fbind (load_run run_id user db) (\<lambda>run.
     fbind (require_write_role write_roles user) (\<lambda>_.
     if er_status run = ''running'' then Inl (Http 409 ''Pipeline is still running'') else Inr run))"

definition reset_run :: "eval_run \<Rightarrow> eval_run" where
  "reset_run r = r\<lparr>er_status := ''running'', er_decision := None, er_events := [], er_completed_at := None\<rparr>"

definition re_evaluate_commit :: "string \<Rightarrow> token_data \<Rightarrow> run_db \<Rightarrow> task list handled" where
  "re_evaluate_commit run_id user db =
     (Inr [RunPipeline run_id (td_org_id user)],
      audit (td_org_id user) (Some run_id) ''run.confirmed'' (td_email user) None
        (update_run run_id (td_org_id user) reset_run db))"

definition re_evaluate :: "string list \<Rightarrow> string \<Rightarrow> token_data \<Rightarrow> run_db \<Rightarrow> task list handled" where
  "re_evaluate write_roles run_id user db =
     respond (re_evaluate_check write_roles run_id user db) (\<lambda>_. re_evaluate_commit run_id user) db"

definition rerun_check :: "string list \<Rightarrow> string \<Rightarrow> token_data \<Rightarrow> run_db \<Rightarrow> eval_run response" where
  "rerun_check write_roles run_id user db =
     fbind (load_run run_id user db) (\<lambda>run.
     fbind (require_write_role write_roles user) (\<lambda>_.
     if er_status run \<notin> {''complete'', ''blocked''}
     then Inl (Http 409 (''Cannot rerun while original status is '' @ quoted (er_status run) @ ''.'')) else Inr run))"

text \<open>\<open>INSERT INTO ... SELECT\<close>: the columns that are not copied take their defaults.\<close>

definition cloned_run :: "string \<Rightarrow> string \<Rightarrow> int \<Rightarrow> eval_run \<Rightarrow> eval_run" where
  "cloned_run new_id email now r =
     r\<lparr>rr_run_id := new_id, rr_created_by_email := Some email, rr_created_at := now, er_status := ''running'',
       er_events := [], er_decision := None, er_explanation := None, er_gaps := None, er_completed_at := None,
       er_cost := None\<rparr>"

definition rerun_commit :: "string \<Rightarrow> bool \<Rightarrow> string \<Rightarrow> int \<Rightarrow> token_data \<Rightarrow> run_db \<Rightarrow> task list handled" where
  "rerun_commit run_id bypass_cache new_id now user db =
     (case filter (\<lambda>r. rr_run_id r = run_id \<and> rr_org_id r = td_org_id user) (rb_runs db) of
        [] \<Rightarrow> (Inl (Http 409 ''Original run was deleted before the rerun could be cloned.''), db)
      | rs \<Rightarrow> (Inr [RerunPipeline run_id new_id (td_org_id user) bypass_cache],
          audit (td_org_id user) (Some new_id) ''run.rerun_started'' (td_email user) None
            (db\<lparr>rb_runs := rb_runs db @ map (cloned_run new_id (td_email user) now) rs\<rparr>)))"

definition rerun_evaluation ::
  "string list \<Rightarrow> string \<Rightarrow> bool \<Rightarrow> string \<Rightarrow> int \<Rightarrow> token_data \<Rightarrow> run_db \<Rightarrow> task list handled" where
  "rerun_evaluation write_roles run_id bypass_cache new_id now user db =
     respond (rerun_check write_roles run_id user db) (\<lambda>_. rerun_commit run_id bypass_cache new_id now user) db"

end
