(* ===== verification/Run_Actions.thy ===== *)
theory Run_Actions
  imports Run_Routes
begin

text \<open>
  More endpoints of \<open>app/api/evaluation_routes.py\<close>: cancelling and deleting a run, its collaborators, overrides
  and corrections, with \<open>app/domain/override.py\<close> and the two functions on corrections of \<open>app/db/fact_store.py\<close>.
  Null characters in the texts of a request are left out. Deleting is one transaction under the foreign keys of \<open>app/db/schema.sql\<close>: those without an action on delete refuse
  the statement, \<open>SET NULL\<close> and \<open>CASCADE\<close> act on the referring rows.
\<close>

section \<open>Cancelling\<close>

definition cancel_run :: "string \<Rightarrow> int \<Rightarrow> token_data \<Rightarrow> run_db \<Rightarrow> unit handled" where
  "cancel_run run_id now user db =
     respond (load_run run_id user db) (\<lambda>run db.
       if er_status run \<notin> {''running'', ''pending''}
       then (Inl (Http 409 (''Cannot cancel a run with status '' @ quoted (er_status run) @ ''.'')), db)
       else (Inr (), db_update_status run_id (td_org_id user) ''interrupted'' True now db)) db"

section \<open>Deleting\<close>

text \<open>\<open>DELETE FROM vendor_documents WHERE rfp_id = ... AND org_id = ...\<close>: facts and ingestion jobs refer to documents.\<close>

definition delete_documents :: "string \<Rightarrow> string \<Rightarrow> run_db \<Rightarrow> run_db result" where
  "delete_documents rfp_id org_id db =
     (let goes = (\<lambda>d. dw_rfp_id d = rfp_id \<and> dw_org_id d = org_id);
          ids = map dw_doc_id (filter goes (rb_documents db));
          used = (\<lambda>i. i \<in> set (rb_job_docs db) \<or>
            list_ex (\<lambda>tbl. list_ex (\<lambda>f. fw_doc_id f = Some i) (rb_facts db tbl))
              [Certifications, Insurance, SLAs, Projects, Pricing, CustomFacts])
      in if list_ex used ids then Inl (ExternalError ''vendor_documents_fkey'')
         else Inr (db\<lparr>rb_documents := filter (\<lambda>d. \<not> goes d) (rb_documents db)\<rparr>))"

definition delete_facts :: "string \<Rightarrow> string \<Rightarrow> run_db \<Rightarrow> run_db" where
  "delete_facts setup_id org_id db =
     db\<lparr>rb_facts := (rb_facts db)(CustomFacts :=
       filter (\<lambda>f. \<not> (fw_setup_id f = Some setup_id \<and> fw_org_id f = org_id)) (rb_facts db CustomFacts))\<rparr>"

text \<open>The run with what its deletion does to the rows that refer to it.\<close>

definition delete_run_row :: "string \<Rightarrow> string \<Rightarrow> run_db \<Rightarrow> run_db result" where
  "delete_run_row run_id org_id db =
     (if \<not> list_ex (\<lambda>r. rr_run_id r = run_id \<and> rr_org_id r = org_id) (rb_runs db) then Inr db
      else if run_id \<in> set (rb_approvals db) \<or> run_id \<in> set (rb_decisions db)
      then Inl (ExternalError ''evaluation_runs_fkey'')
      else Inr (db\<lparr>rb_runs := filter (\<lambda>r. \<not> (rr_run_id r = run_id \<and> rr_org_id r = org_id)) (rb_runs db),
        rb_collaborators := filter (\<lambda>c. cb_run_id c \<noteq> run_id) (rb_collaborators db),
        rb_assignments := filter (\<lambda>a. ap_run_id a \<noteq> run_id) (rb_assignments db),
        rb_retrieval_log := map (\<lambda>r. if r = Some run_id then None else r) (rb_retrieval_log db),
        rb_audit := map (\<lambda>a. if ua_run_id a = Some run_id then a\<lparr>ua_run_id := None\<rparr> else a) (rb_audit db),
        rb_access_log := map (\<lambda>(r, e, k). (if r = Some run_id then None else r, e, k)) (rb_access_log db)\<rparr>))"

text \<open>\<open>DELETE FROM evaluation_setups WHERE setup_id = ...\<close>: runs, documents and facts refer to setups.\<close>

definition delete_setup :: "string \<Rightarrow> string \<Rightarrow> run_db \<Rightarrow> run_db result" where
  "delete_setup setup_id org_id db =
     (case dict_get (rb_setups db) setup_id of
        None \<Rightarrow> Inr db
      | Some row \<Rightarrow>
          if su_org_id row \<noteq> org_id then Inr db
          else if list_ex (\<lambda>r. er_setup_id r = Some setup_id) (rb_runs db) \<or>
                  list_ex (\<lambda>d. dw_setup_id d = Some setup_id) (rb_documents db) \<or>
                  list_ex (\<lambda>f. fw_setup_id f = Some setup_id) (rb_facts db CustomFacts)
          then Inl (ExternalError ''evaluation_setups_fkey'')
          else Inr (db\<lparr>rb_setups := filter (\<lambda>kv. fst kv \<noteq> setup_id) (rb_setups db)\<rparr>))"

definition delete_txn :: "eval_run \<Rightarrow> string \<Rightarrow> string \<Rightarrow> run_db \<Rightarrow> run_db result" where
  "delete_txn run run_id org_id db =
     (let db1 = db\<lparr>rb_approvals := filter (\<lambda>r. r \<noteq> run_id) (rb_approvals db),
                   rb_decisions := filter (\<lambda>r. r \<noteq> run_id) (rb_decisions db),
                   rb_retrieval_log := filter (\<lambda>r. r \<noteq> Some run_id) (rb_retrieval_log db),
                   rb_audit := map (\<lambda>a. if ua_run_id a = Some run_id then a\<lparr>ua_run_id := None\<rparr> else a) (rb_audit db)\<rparr>;
          sid = (case er_setup_id run of None \<Rightarrow> [] | Some s \<Rightarrow> s)
      in rbind (delete_documents (er_rfp_id run) org_id db1) (\<lambda>db2.
         rbind (delete_run_row run_id org_id (if sid = [] then db2 else delete_facts sid org_id db2)) (\<lambda>db3.
         if sid = [] then Inr db3 else delete_setup sid org_id db3)))"

definition delete_run :: "string \<Rightarrow> token_data \<Rightarrow> run_db \<Rightarrow> unit handled" where
  "delete_run run_id user db =
     respond (load_run run_id user db) (\<lambda>run db.
       if er_status run = ''completed''
       then (Inl (Http 409 (''Completed runs cannot be deleted'' @ dash @ ''they are audit records.'')), db)
       else if er_status run = ''running''
       then (Inl (Http 409 ''Cannot delete a run that is currently in progress.''), db)
       else respond (raised (delete_txn run run_id (td_org_id user) db)) (\<lambda>db' _.
         (Inr (), audit (td_org_id user) (Some run_id) ''run.deleted'' (td_email user) None db')) db) db"

section \<open>Collaborators\<close>

definition with_access :: "access_db \<Rightarrow> run_db \<Rightarrow> run_db" where
  "with_access x db = db\<lparr>rb_collaborators := xd_collaborators x\<rparr>"

definition add_run_collaborator :: "string \<Rightarrow> string \<Rightarrow> string \<Rightarrow> token_data \<Rightarrow> run_db \<Rightarrow> unit handled" where
  "add_run_collaborator run_id user_id role user db =
     respond (load_run run_id user db) (\<lambda>_ db.
       case lookup_user_id (access_of db) (td_email user) (td_org_id user) of
         None \<Rightarrow> (Inl (Http 404 ''Caller user record not found''), db)
       | Some adder \<Rightarrow>
           (case add_collaborator run_id user_id role adder (access_of db) of
              Inl (ValueError m) \<Rightarrow> (Inl (Http 400 m), db)
            | Inl e \<Rightarrow> (Inl (Raised e), db)
            | Inr x \<Rightarrow> (Inr (), audit (td_org_id user) (Some run_id) ''collaborator.added'' (td_email user) None
                (with_access x db)))) db"

definition remove_run_collaborator :: "string \<Rightarrow> string \<Rightarrow> token_data \<Rightarrow> run_db \<Rightarrow> unit handled" where
  "remove_run_collaborator run_id user_id user db =
     respond (load_run run_id user db) (\<lambda>_ db.
       (Inr (), audit (td_org_id user) (Some run_id) ''collaborator.removed'' (td_email user) None
         (with_access (remove_collaborator run_id user_id (access_of db)) db))) db"

section \<open>Overrides\<close>

text \<open>\<open>decision.get(k, [])\<close> as a list of vendors; \<open>v["vendor_id"]\<close> of each in turn.\<close>

definition vendors_at :: "(string, json) dict \<Rightarrow> string \<Rightarrow> json list result" where
  "vendors_at decision k = as_iter (get_default decision k (JArr []))"

definition both_lists :: "(string, json) dict \<Rightarrow> json list result" where
  "both_lists decision =
     rbind (vendors_at decision ''shortlisted_vendors'') (\<lambda>s. rbind (vendors_at decision ''rejected_vendors'') (\<lambda>r. Inr (s @ r)))"

fun find_vendor :: "string \<Rightarrow> json list \<Rightarrow> json option result" where
  "find_vendor vid [] = Inr None"
| "find_vendor vid (v # vs) =
     rbind (jindex v ''vendor_id'') (\<lambda>i. if i = JStr vid then Inr (Some v) else find_vendor vid vs)"

definition decision_of :: "eval_run \<Rightarrow> (string, json) dict" where
  "decision_of run = (case er_decision run of None \<Rightarrow> [] | Some d \<Rightarrow> d)"

definition valid_reason :: "string \<Rightarrow> unit result" where
  "valid_reason reason =
     (if length (strip reason) < 20
      then Inl (ValidationError (''Override reason must be at least 20 characters. '' @
        ''Documented reasoning is required for audit compliance.'')) else Inr ())"

definition override_value :: "string \<Rightarrow> string \<Rightarrow> (string, json) dict" where
  "override_value vid reason = [(''vendor_id'', JStr vid), (''override'', JBool True), (''reason'', JStr reason)]"

definition submit_override ::
  "string \<Rightarrow> string \<Rightarrow> string \<Rightarrow> string \<Rightarrow> token_data \<Rightarrow> run_db \<Rightarrow> string handled" where
  "submit_override override_id run_id vid reason user db =
     respond (load_run run_id user db) (\<lambda>run db.
       respond (require_admin_role user) (\<lambda>_ db.
         respond (raised (rbind (both_lists (decision_of run)) (find_vendor vid))) (\<lambda>found db.
           case found of
             Some (JObj (kv # kvs)) \<Rightarrow>
               respond (raised (valid_reason reason)) (\<lambda>_ db.
                 (Inr override_id,
                  audit (td_org_id user) (Some run_id) ''override.submitted'' (td_email user) None
                    (db\<lparr>rb_overrides := rb_overrides db @ [\<lparr>ov_override_id = override_id, ov_run_id = run_id,
                       ov_org_id = td_org_id user, ov_overridden_by = td_email user, ov_original = kv # kvs,
                       ov_new = override_value vid reason, ov_reason = reason\<rparr>]\<rparr>))) db
           | _ \<Rightarrow> (Inl (Http 404 (''Vendor '' @ vid @ '' not found'')), db)) db) db) db"

section \<open>Corrections\<close>

record correction_request =
  kq_target_type :: string
  kq_target_id :: string
  kq_target_name :: string
  kq_vendor_id :: string
  kq_original_value :: "(string, json) dict"
  kq_corrected_value :: "(string, json) dict"
  kq_reason :: string

text \<open>A JSON number stands for a Python integer when it is integral; a list or an object has no hash.\<close>

definition score_ok :: "json \<Rightarrow> bool" where
  "score_ok v = (case v of JNum x \<Rightarrow> of_int \<lfloor>x\<rfloor> = x \<and> 0 \<le> x \<and> x \<le> 10 | _ \<Rightarrow> False)"

definition correction_value_ok :: "correction_request \<Rightarrow> unit response" where
  "correction_value_ok q =
     (if kq_target_type q \<notin> {''criterion'', ''check''}
      then Inl (Http 400 (''target_type must be '' @ quoted ''criterion'' @ '' or '' @ quoted ''check''))
      else if kq_target_type q = ''criterion''
      then (if score_ok (get_default (kq_corrected_value q) ''raw_score'' JNull) then Inr ()
            else Inl (Http 400 ''criterion correction needs corrected_value.raw_score as an integer 0-10''))
      else (case get_default (kq_corrected_value q) ''decision'' JNull of
              JArr _ \<Rightarrow> Inl (Raised (TypeError ''unhashable type''))
            | JObj _ \<Rightarrow> Inl (Raised (TypeError ''unhashable type''))
            | v \<Rightarrow> if v \<in> set (map JStr [''pass'', ''fail'', ''insufficient_evidence'']) then Inr ()
                   else Inl (Http 400 ''check correction needs corrected_value.decision'')))"

text \<open>\<open>v.get("vendor_id") == vendor_id\<close>.\<close>

fun vendor_in_list :: "string \<Rightarrow> json list \<Rightarrow> bool result" where
  "vendor_in_list vid [] = Inr False"
| "vendor_in_list vid (v # vs) =
     rbind (jget v ''vendor_id'' JNull) (\<lambda>i. if i = JStr vid then Inr True else vendor_in_list vid vs)"

definition vendor_in_run :: "(string, json) dict \<Rightarrow> string \<Rightarrow> bool result" where
  "vendor_in_run decision vid = rbind (both_lists decision) (vendor_in_list vid)"

text \<open>\<open>save_override\<close> spells its casts \<open>:x::jsonb\<close>; whether the statement binds is the driver's matter,
  the parameter \<open>override_saves\<close>.\<close>

definition save_override :: "bool \<Rightarrow> override_row \<Rightarrow> run_db \<Rightarrow> run_db result" where
  "save_override override_saves row db =
     (if \<not> override_saves then Inl (ExternalError ''statement'')
      else if list_ex (\<lambda>o1. ov_override_id o1 = ov_override_id row) (rb_overrides db) then Inr db
      else Inr (db\<lparr>rb_overrides := rb_overrides db @ [row]\<rparr>))"

definition save_evaluation_correction :: "correction_row \<Rightarrow> run_db \<Rightarrow> run_db" where
  "save_evaluation_correction row db =
     (if list_ex (\<lambda>k. kr_correction_id k = kr_correction_id row) (rb_corrections db) then db
      else db\<lparr>rb_corrections := rb_corrections db @ [row]\<rparr>)"

definition correction_side :: "correction_request \<Rightarrow> (string, json) dict \<Rightarrow> (string, json) dict" where
  "correction_side q v = [(''target_type'', JStr (kq_target_type q)), (''target_id'', JStr (kq_target_id q)),
     (''vendor_id'', JStr (kq_vendor_id q)), (''value'', JObj v)]"

definition correction_of :: "string \<Rightarrow> int \<Rightarrow> string \<Rightarrow> correction_request \<Rightarrow> token_data \<Rightarrow> correction_row" where
  "correction_of correction_id now run_id q user =
     \<lparr>kr_correction_id = correction_id, kr_org_id = td_org_id user, kr_run_id = run_id, kr_vendor_id = kq_vendor_id q,
      kr_target_type = kq_target_type q, kr_target_id = kq_target_id q, kr_target_name = kq_target_name q,
      kr_original = kq_original_value q, kr_corrected = kq_corrected_value q, kr_reason = kq_reason q,
      kr_corrected_by = td_email user, kr_active = True, kr_created_at = now\<rparr>"

definition submit_correction ::
  "(string \<Rightarrow> string \<Rightarrow> string option) \<Rightarrow> injection_pattern list \<Rightarrow> bool \<Rightarrow> string \<Rightarrow> string \<Rightarrow> int \<Rightarrow> string \<Rightarrow>
   correction_request \<Rightarrow> token_data \<Rightarrow> run_db \<Rightarrow> string handled" where
  "submit_correction search patterns override_saves correction_id override_id now run_id q user db =
     respond (load_run run_id user db) (\<lambda>run db.
       respond (fbind (require_admin_role user) (\<lambda>_. correction_value_ok q)) (\<lambda>_ db.
         respond (if kq_vendor_id q = [] then Inr True else raised (vendor_in_run (decision_of run) (kq_vendor_id q))) (\<lambda>present db.
           if \<not> present then (Inl (Http 404 (''Vendor '' @ kq_vendor_id q @ '' not found in run '' @ run_id)), db)
           else if length (strip (kq_reason q)) < 20
           then (Inl (Http 400 ''Correction reason must be at least 20 characters.''), db)
           else if patterns \<noteq> [] \<and> scan_text search patterns (kq_reason q) \<noteq> []
           then (Inl (Http 400 ''Correction reason rejected: it matches a prompt-injection pattern.''), db)
           else
             let db1 = save_evaluation_correction (correction_of correction_id now run_id q user) db
             in respond (raised (save_override override_saves
                  \<lparr>ov_override_id = override_id, ov_run_id = run_id, ov_org_id = td_org_id user,
                   ov_overridden_by = td_email user, ov_original = correction_side q (kq_original_value q),
                   ov_new = correction_side q (kq_corrected_value q) @ [(''correction_id'', JStr correction_id)],
                   ov_reason = kq_reason q\<rparr> db1)) (\<lambda>db2 _.
                (Inr correction_id, audit (td_org_id user) (Some run_id) ''correction.submitted'' (td_email user) None db2)) db1)
           db) db) db"

definition get_evaluation_corrections ::
  "string \<Rightarrow> string \<Rightarrow> string \<Rightarrow> string \<Rightarrow> int \<Rightarrow> bool \<Rightarrow> run_db \<Rightarrow> correction_row list" where
  "get_evaluation_corrections org_id target_type target_id run_id limit active_only db =
     (let safe_limit = nat (max 0 (min limit 200))
      in take safe_limit (sort_key (\<lambda>k. - kr_created_at k) (filter (\<lambda>k.
           kr_org_id k = org_id \<and> (active_only \<longrightarrow> kr_active k) \<and>
           (target_type = [] \<or> kr_target_type k = target_type) \<and> (target_id = [] \<or> kr_target_id k = target_id) \<and>
           (run_id = [] \<or> kr_run_id k = run_id)) (rb_corrections db))))"

definition list_corrections :: "string \<Rightarrow> token_data \<Rightarrow> run_db \<Rightarrow> correction_row list response" where
  "list_corrections run_id user db =
     fbind (load_run run_id user db) (\<lambda>_.
     Inr (get_evaluation_corrections (td_org_id user) [] [] run_id 200 True db))"

end
