(* ===== verification/Run_Views.thy ===== *)
theory Run_Views
  imports Run_Actions
begin

text \<open>
  The endpoints of \<open>app/api/evaluation_routes.py\<close> that only read a run: the list, the results, one vendor's
  decision, the audit trail, the export, the cost, the gate of the reports; and the comparison of a rerun
  with its original (\<open>app/domain/decision_summary.py\<close>, \<open>_compute_divergence\<close>). Cells of the export are JSON values:
  the writing of a CSV file is left out.
\<close>

section \<open>The list\<close>

record run_summary =
  rz_run_id :: string
  rz_rfp_title :: string
  rz_department :: string
  rz_status :: string
  rz_vendor_count :: nat
  rz_shortlisted :: nat
  rz_rejected :: nat
  rz_created_at :: int
  rz_contract_value :: "rat option"
  rz_cost :: "rat option"

fun json_len :: "json \<Rightarrow> nat result" where
  "json_len (JArr xs) = Inr (length xs)"
| "json_len (JObj kvs) = Inr (length kvs)"
| "json_len (JStr s) = Inr (length s)"
| "json_len _ = Inl (TypeError ''object has no len()'')"

definition summarise_run :: "eval_run \<Rightarrow> run_summary result" where
  "summarise_run r =
     (let dec = decision_of r
      in rbind (json_len (get_default dec ''shortlisted_vendors'' (JArr []))) (\<lambda>shortlisted.
         rbind (json_len (get_default dec ''rejected_vendors'' (JArr []))) (\<lambda>rejected.
         rbind (if dec = [] then Inr JNull else jget (get_default dec ''approval_routing'' (JObj [])) ''approver_role'' JNull) (\<lambda>_.
         Inr \<lparr>rz_run_id = rr_run_id r, rz_rfp_title = text_or (er_rfp_id r) (er_rfp_title r),
              rz_department = text_or [] (er_department r), rz_status = er_status r,
              rz_vendor_count = length (er_vendor_ids r), rz_shortlisted = shortlisted, rz_rejected = rejected,
              rz_created_at = rr_created_at r, rz_contract_value = er_contract_value r,
              rz_cost = map_option fst (er_cost r)\<rparr>))))"

definition newest :: "eval_run list \<Rightarrow> eval_run list" where
  "newest rs = take 100 (sort_key (\<lambda>r. - rr_created_at r) rs)"

definition listed_runs :: "string \<Rightarrow> token_data \<Rightarrow> run_db \<Rightarrow> eval_run list response" where
  "listed_runs scope user db =
     (let own = filter (\<lambda>r. rr_org_id r = td_org_id user) (rb_runs db)
      in if scope = ''auto''
         then Inr (newest (if td_role user = ''department_user''
                then filter (\<lambda>r. rr_created_by_email r = Some (td_email user)) own else own))
         else if scope \<notin> {''mine'', ''department'', ''approvals'', ''shared'', ''all''}
         then Inl (Http 400 (''Unknown scope: '' @ scope))
         else if scope = ''all'' \<and> td_role user \<notin> {''platform_admin'', ''company_admin''}
         then Inl (Http 403 ''scope=all requires a wide-role account'')
         else let ids = map rr_run_id (visible_runs (access_of db) user scope 100)
              in Inr (newest (filter (\<lambda>r. rr_run_id r \<in> set ids) own)))"

definition list_runs :: "string list \<Rightarrow> string \<Rightarrow> token_data \<Rightarrow> run_db \<Rightarrow> run_summary list response" where
  "list_runs write_roles scope user db =
     (if td_role user \<notin> set write_roles then Inr []
      else fbind (listed_runs scope user db) (\<lambda>rs. raised (rmap summarise_run rs)))"

section \<open>Results\<close>

fun join_texts :: "string \<Rightarrow> json list \<Rightarrow> string result" where
  "join_texts sep xs = rbind (rmap (\<lambda>x. case x of JStr s \<Rightarrow> Inr s | _ \<Rightarrow> Inl (TypeError ''expected str instance'')) xs)
     (\<lambda>ss. Inr (join sep ss))"

definition vendor_label :: "json \<Rightarrow> json \<Rightarrow> json result" where
  "vendor_label v d = rbind (jget v ''vendor_id'' d) (jget v ''vendor_name'')"

definition shortlisted_view :: "json \<Rightarrow> json result" where
  "shortlisted_view v =
     rbind (vendor_label v (JStr ''Unknown'')) (\<lambda>name. rbind (jget v ''total_score'' (JNum 0)) (\<lambda>score.
     rbind (jget v ''score_confidence'' JNull) (\<lambda>confidence. rbind (jget v ''recommendation'' JNull) (\<lambda>rec.
     rbind (jget v ''recommendation'' (JStr [])) (\<lambda>summary.
     Inr (JObj [(''vendor_name'', name), (''decision'', JStr ''shortlisted''), (''total_score'', score),
       (''score_confidence'', confidence), (''recommendation'', rec), (''summary'', summary)]))))))"

definition rejected_view :: "json \<Rightarrow> json result" where
  "rejected_view v =
     rbind (vendor_label v (JStr ''Unknown'')) (\<lambda>name.
     rbind (rbind (rbind (jget v ''rejection_reasons'' (JArr [])) as_iter) (join_texts ''; '')) (\<lambda>summary.
     Inr (JObj [(''vendor_name'', name), (''decision'', JStr ''rejected''), (''total_score'', JNum 0),
       (''score_confidence'', JNull), (''recommendation'', JNull), (''summary'', JStr summary)])))"

definition top_recommendation :: "(string, json) dict \<Rightarrow> json result" where
  "top_recommendation decision =
     (case dict_get decision ''shortlisted_vendors'' of
        Some (JArr (v # vs)) \<Rightarrow> jget v ''recommendation'' (JStr [])
      | _ \<Rightarrow> Inr (JStr []))"

record run_results =
  rx_status :: string
  rx_vendors :: "json list"
  rx_recommendation :: json
  rx_approval_tier :: json
  rx_requires_human_review :: json
  rx_review_reasons :: json
  rx_decision :: "(string, json) dict"

definition results_of :: "eval_run \<Rightarrow> run_results result" where
  "results_of run =
     (let decision = decision_of run; routing = get_default decision ''approval_routing'' JNull
      in rbind (rbind (vendors_at decision ''shortlisted_vendors'') (rmap shortlisted_view)) (\<lambda>s.
         rbind (rbind (vendors_at decision ''rejected_vendors'') (rmap rejected_view)) (\<lambda>r.
         rbind (top_recommendation decision) (\<lambda>rec.
         rbind (if truthy routing then jget routing ''approval_tier'' JNull else Inr JNull) (\<lambda>tier.
         Inr \<lparr>rx_status = er_status run, rx_vendors = s @ r, rx_recommendation = rec, rx_approval_tier = tier,
              rx_requires_human_review = get_default decision ''requires_human_review'' (JBool False),
              rx_review_reasons = get_default decision ''review_reasons'' (JArr []), rx_decision = decision\<rparr>)))))"

definition get_results :: "string \<Rightarrow> token_data \<Rightarrow> run_db \<Rightarrow> run_results handled" where
  "get_results run_id user db =
     respond (load_run run_id user db) (\<lambda>run db.
       (raised (results_of run), log_access run_id (td_email user) ''view_results'' db)) db"

definition keys_of :: "json \<Rightarrow> string list \<Rightarrow> (string \<times> json) list result" where
  "keys_of v ks = rmap (\<lambda>k. rbind (jindex v k) (\<lambda>x. Inr (k, x))) ks"

definition get_vendor_decision :: "string \<Rightarrow> string \<Rightarrow> token_data \<Rightarrow> run_db \<Rightarrow> json response" where
  "get_vendor_decision run_id vid user db =
     fbind (load_run run_id user db) (\<lambda>run.
     fbind (raised (rbind (vendors_at (decision_of run) ''shortlisted_vendors'') (find_vendor vid))) (\<lambda>short.
     case short of
       Some v \<Rightarrow> raised (rbind (keys_of v [''vendor_id'', ''vendor_name'', ''rank'', ''total_score'']) (\<lambda>kvs.
         Inr (JObj (kvs @ [(''decision_type'', JStr ''shortlisted''), (''evidence_citations'', JArr [])]))))
     | None \<Rightarrow>
         fbind (raised (rbind (vendors_at (decision_of run) ''rejected_vendors'') (find_vendor vid))) (\<lambda>rej.
         case rej of
           Some v \<Rightarrow> raised (rbind (keys_of v [''vendor_id'', ''vendor_name'']) (\<lambda>kvs.
             rbind (jget v ''rejection_reasons'' (JArr [])) (\<lambda>reasons. rbind (jget v ''evidence_citations'' (JArr [])) (\<lambda>cites.
             Inr (JObj (kvs @ [(''decision_type'', JStr ''rejected''), (''rejection_reasons'', reasons),
               (''evidence_citations'', cites)]))))))
         | None \<Rightarrow> Inl (Http 404 (''Vendor '' @ vid @ '' not found in run '' @ run_id)))))"

text \<open>The gate of both report routes.\<close>

definition run_report_or_404 :: "string \<Rightarrow> string \<Rightarrow> token_data \<Rightarrow> run_db \<Rightarrow> eval_run handled" where
  "run_report_or_404 action run_id user db =
     respond (load_run run_id user db) (\<lambda>run db.
       (if decision_of run = [] then Inl (Http 409 (''Report not available'' @ dash @ ''this run has not completed.''))
        else Inr run, log_access run_id (td_email user) action db)) db"

definition get_audit_trail :: "string \<Rightarrow> token_data \<Rightarrow> run_db \<Rightarrow> audit_event list response" where
  "get_audit_trail run_id user db =
     fbind (load_run run_id user db) (\<lambda>_.
     Inr (filter (\<lambda>a. ua_run_id a = Some run_id \<and> ua_org_id a = td_org_id user) (rb_audit db)))"

section \<open>The export\<close>

definition nth_or_empty :: "nat \<Rightarrow> json list \<Rightarrow> json" where
  "nth_or_empty n xs = (if n < length xs then xs ! n else JStr [])"

definition export_criterion :: "json list \<Rightarrow> json \<Rightarrow> json list result" where
  "export_criterion base c =
     rbind (rbind (jget c ''evidence_used'' (JArr [])) as_iter) (\<lambda>evidence.
     rbind (rmap (\<lambda>k. jget c k (JStr []))
       [''criterion_id'', ''raw_score'', ''weighted_contribution'', ''confidence'', ''rubric_band_applied'', ''score_rationale'']) (\<lambda>cells.
     Inr (base @ cells @ [nth_or_empty 0 evidence, nth_or_empty 1 evidence])))"

definition export_shortlisted :: "json list \<Rightarrow> json \<Rightarrow> json list list result" where
  "export_shortlisted prefix v =
     rbind (vendor_label v (JStr [])) (\<lambda>name. rbind (rbind (jget v ''criterion_breakdown'' (JArr [])) as_iter) (\<lambda>breakdown.
     rbind (rmap (\<lambda>k. jget v k (JStr [])) [''total_score'', ''score_confidence'', ''recommendation'']) (\<lambda>cells.
     let base = prefix @ [name, JStr ''shortlisted''] @ cells
     in if breakdown = [] then Inr [base @ replicate 8 (JStr [])] else rmap (export_criterion base) breakdown)))"

definition export_rejected :: "json list \<Rightarrow> json \<Rightarrow> json list list result" where
  "export_rejected prefix v =
     rbind (vendor_label v (JStr [])) (\<lambda>name.
     rbind (rbind (rbind (jget v ''rejection_reasons'' (JArr [])) as_iter) (join_texts ''; '')) (\<lambda>reasons.
     Inr [prefix @ [name, JStr ''rejected''] @ replicate 3 (JStr []) @ replicate 5 (JStr []) @
          [JStr reasons, JStr [], JStr []]]))"

definition export_header :: "json list" where
  "export_header = map JStr [''run_id'', ''rfp_title'', ''department'', ''started_at'', ''vendor_name'', ''decision'',
     ''total_score'', ''score_confidence'', ''recommendation'', ''criterion_id'', ''raw_score'', ''weighted_contribution'',
     ''criterion_confidence'', ''rubric_band'', ''rationale'', ''evidence_1'', ''evidence_2'']"

definition export_rows :: "(int \<Rightarrow> string) \<Rightarrow> eval_run \<Rightarrow> json list list result" where
  "export_rows isoformat run =
     (let prefix = [JStr (rr_run_id run), json_opt JStr (er_rfp_title run), json_opt JStr (er_department run),
            JStr (isoformat (rr_created_at run))]
      in rbind (rbind (vendors_at (decision_of run) ''shortlisted_vendors'') (rmap (export_shortlisted prefix))) (\<lambda>s.
         rbind (rbind (vendors_at (decision_of run) ''rejected_vendors'') (rmap (export_rejected prefix))) (\<lambda>r.
         Inr (export_header # concat s @ concat r))))"

definition export_run_csv :: "(int \<Rightarrow> string) \<Rightarrow> string \<Rightarrow> token_data \<Rightarrow> run_db \<Rightarrow> json list list response" where
  "export_run_csv isoformat run_id user db = fbind (load_run run_id user db) (\<lambda>run. raised (export_rows isoformat run))"

section \<open>Cost\<close>

datatype run_cost_view = Live cost_summary | Persisted "(rat \<times> int) option"

definition get_run_cost_endpoint :: "costs \<Rightarrow> string \<Rightarrow> token_data \<Rightarrow> run_db \<Rightarrow> run_cost_view response" where
  "get_run_cost_endpoint c run_id user db =
     fbind (load_run run_id user db) (\<lambda>run.
     Inr (case get_run_cost run_id c of Some acc \<Rightarrow> Live (cost_summary_of acc) | None \<Rightarrow> Persisted (er_cost run)))"

definition get_cost_estimate :: "string \<Rightarrow> string \<Rightarrow> token_data \<Rightarrow> run_db \<Rightarrow> (rat \<times> rat) response" where
  "get_cost_estimate openai_model run_id user db =
     fbind (load_run run_id user db) (\<lambda>run.
     let n = (if er_vendor_ids run = [] then 1 else int (length (er_vendor_ids run)));
         model = (if openai_model = [] then ''gpt-4o'' else openai_model)
     in Inr (py_round 4 (estimate_cost model (n * 9 * 2000) (n * 9 * 500)),
             py_round 4 (estimate_cost model (n * 9 * 5000) (n * 9 * 1500))))"

section \<open>Comparing a rerun with its original\<close>

record decision_summary =
  dm_winner :: "string option"
  dm_shortlist :: "string list"
  dm_rejected :: "string list"

definition safe_vendor_id :: "json \<Rightarrow> string option" where
  "safe_vendor_id v =
     (case v of JObj kvs \<Rightarrow> (case dict_get kvs ''vendor_id'' of
        Some (JStr s) \<Rightarrow> if strip s \<noteq> [] then Some s else None | _ \<Rightarrow> None) | _ \<Rightarrow> None)"

definition safe_vendor_ids :: "json option \<Rightarrow> string list" where
  "safe_vendor_ids items =
     (case items of Some (JArr vs) \<Rightarrow> sort (remdups (List.map_filter safe_vendor_id vs)) | _ \<Rightarrow> [])"

definition extract_decision_summary :: "(string, json) dict \<Rightarrow> decision_summary" where
  "extract_decision_summary d =
     \<lparr>dm_winner = (case dict_get d ''recommended_vendor'' of
        Some (JObj kvs) \<Rightarrow> (case dict_get kvs ''vendor_id'' of Some (JStr s) \<Rightarrow> Some s | _ \<Rightarrow> None) | _ \<Rightarrow> None),
      dm_shortlist = safe_vendor_ids (dict_get d ''shortlisted_vendors''),
      dm_rejected = safe_vendor_ids (dict_get d ''rejected_vendors'')\<rparr>"

definition summary_json :: "decision_summary \<Rightarrow> json" where
  "summary_json s = JObj [(''winner'', json_opt JStr (dm_winner s)), (''shortlist'', jstrs (dm_shortlist s)),
     (''rejected'', jstrs (dm_rejected s))]"

definition divergence_flag :: "string \<Rightarrow> decision_summary \<Rightarrow> decision_summary \<Rightarrow> json" where
  "divergence_flag original_id a b = JObj
     [(''diverges_from'', JStr original_id), (''cached_signature'', summary_json a), (''fresh_signature'', summary_json b),
      (''message'', JStr (''Re-run with bypass_cache produced a different shortlist '' @
         ''than the cached run'' @ dash @ ''model is non-deterministic on '' @ ''this RFP. Review both runs.''))]"

definition run_decision :: "string \<Rightarrow> string \<Rightarrow> run_db \<Rightarrow> (string, json) dict" where
  "run_decision run_id org_id db = (case db_get_run run_id org_id db of Inl _ \<Rightarrow> [] | Inr r \<Rightarrow> decision_of r)"

definition compute_divergence :: "string \<Rightarrow> string \<Rightarrow> string \<Rightarrow> run_db \<Rightarrow> run_db" where
  "compute_divergence original_id new_id org_id db =
     (let b = run_decision new_id org_id db;
          sa = extract_decision_summary (run_decision original_id org_id db); sb = extract_decision_summary b
      in if sa = sb then db
         else audit org_id (Some new_id) ''run.divergence_flagged'' ''system'' None
           (update_run new_id org_id (\<lambda>r. r\<lparr>er_decision := Some (dict_set ''divergence_flag'' (divergence_flag original_id sa sb) b)\<rparr>) db))"

end
