(* ===== verification/Run_Start.thy ===== *)
theory Run_Start
  imports Run_Views
begin

text \<open>
  \<open>POST /start\<close> of \<open>app/api/evaluation_routes.py\<close> and the background task \<open>_refine_setup_with_llm\<close> of
  \<open>app/api/_evaluation/refinement.py\<close>. The texts the model is asked about reach it as parameters: the criteria the
  LLM finds in the RFP and in the user's sheet, the templates of the organisation and the department. Ids and
  hashes are parameters. The setup is stored before the run; each is a transaction of its own.
\<close>

section \<open>The stored form of a setup\<close>

text \<open>\<open>model_dump(mode="json")\<close>; a key the source did not set is null.\<close>

definition dump_check :: "merged_check \<Rightarrow> json" where
  "dump_check k = JObj
     [(''check_id'', JStr (kc_check_id k)), (''name'', JStr (kc_name k)), (''description'', kc_description k),
      (''what_passes'', kc_what_passes k), (''extraction_target_id'', JStr (kc_extraction_target_id k)),
      (''source'', JStr (kc_source k)), (''is_locked'', JBool (kc_is_locked k)), (''page_reference'', kc_page_reference k)]"

definition dump_score :: "merged_score \<Rightarrow> json" where
  "dump_score k = JObj
     [(''criterion_id'', JStr (ks_criterion_id k)), (''name'', JStr (ks_name k)), (''weight'', JNum (ks_weight k)),
      (''rubric_9_10'', ks_rubric_9_10 k), (''rubric_6_8'', ks_rubric_6_8 k), (''rubric_3_5'', ks_rubric_3_5 k),
      (''rubric_0_2'', ks_rubric_0_2 k), (''extraction_target_ids'', jstrs (ks_extraction_target_ids k)),
      (''source'', JStr (ks_source k)), (''is_locked'', JBool (ks_is_locked k)), (''page_reference'', ks_page_reference k)]"

text \<open>Targets of checks are mandatory, those of criteria are not.\<close>

definition dump_target :: "merged_target \<Rightarrow> json" where
  "dump_target t = JObj
     [(''target_id'', JStr (kt_target_id t)), (''name'', JStr (kt_name t)), (''description'', kt_description t),
      (''fact_type'', JStr ''custom''), (''is_mandatory'', JBool (kt_is_mandatory t)),
      (''feeds_criterion_id'', if kt_is_mandatory t then JNull else JStr (kt_feeds_id t)),
      (''feeds_check_id'', if kt_is_mandatory t then JStr (kt_feeds_id t) else JNull)]"

definition dump_default_check :: "mandatory_check \<Rightarrow> json" where
  "dump_default_check c = JObj
     [(''check_id'', JStr (mc_check_id c)), (''name'', JStr (mc_name c)), (''description'', JStr (mc_description c)),
      (''what_passes'', JStr (mc_what_passes c)), (''extraction_target_id'', JStr (mc_extraction_target_id c)),
      (''source'', JNull), (''is_locked'', JNull), (''page_reference'', JNull)]"

definition dump_default_score :: "scoring_criterion \<Rightarrow> json" where
  "dump_default_score c = JObj
     [(''criterion_id'', JStr (sc_criterion_id c)), (''name'', JStr (sc_name c)), (''weight'', JNum (sc_weight c)),
      (''rubric_9_10'', JStr (sc_rubric_9_10 c)), (''rubric_6_8'', JStr (sc_rubric_6_8 c)),
      (''rubric_3_5'', JStr (sc_rubric_3_5 c)), (''rubric_0_2'', JStr (sc_rubric_0_2 c)),
      (''extraction_target_ids'', jstrs (sc_extraction_target_ids c)),
      (''source'', JNull), (''is_locked'', JNull), (''page_reference'', JNull)]"

definition dump_default_target :: "extraction_target \<Rightarrow> json" where
  "dump_default_target t = JObj
     [(''target_id'', JStr (et_target_id t)), (''name'', JStr (et_name t)), (''description'', JStr (et_description t)),
      (''fact_type'', JStr (et_fact_type t)), (''is_mandatory'', JBool True), (''feeds_criterion_id'', JNull),
      (''feeds_check_id'', JStr ''chk-default-001'')]"

definition dumped :: "('a \<Rightarrow> json) \<Rightarrow> 'a list \<Rightarrow> ('b \<Rightarrow> json) \<Rightarrow> 'b list \<Rightarrow> json" where
  "dumped f xs g ds = JArr (if xs = [] then map g ds else map f xs)"

definition dump_setup :: "string \<Rightarrow> string \<Rightarrow> string \<Rightarrow> merged \<Rightarrow> evaluation_setup \<Rightarrow> (string, json) dict" where
  "dump_setup org_id department rfp_id m s =
     [(''setup_id'', JStr (es_setup_id s)), (''org_id'', JStr org_id), (''department'', JStr department),
      (''rfp_id'', JStr rfp_id), (''rfp_confirmed'', JBool False),
      (''mandatory_checks'', dumped dump_check (mg_mandatory_checks m) dump_default_check default_checks),
      (''scoring_criteria'', dumped dump_score (mg_scoring_criteria m) dump_default_score default_scores),
      (''extraction_targets'', dumped dump_target (mg_extraction_targets m) dump_default_target default_targets),
      (''total_weight'', JNum (es_total_weight s)), (''confirmed_by'', JStr ''pending''), (''confirmed_at'', JNull),
      (''source'', JStr (mg_source m))]"

section \<open>The request\<close>

record start_request =
  sg_rfp_title :: string
  sg_department :: string
  sg_contract_value :: rat
  sg_vendor_ids :: string
  sg_vendor_names :: string
  sg_rfp_filename :: "string option"
  sg_vendor_files :: "(string option \<times> string) list"
  sg_currency :: string

record start_env =
  sy_loads :: "string \<Rightarrow> json option"
  sy_sha256 :: "string \<Rightarrow> string"
  sy_doc_id :: "nat \<Rightarrow> string"
  sy_digest :: "string \<Rightarrow> string"
  sy_gap_env :: gap_env
  sy_org_templates :: "template list"
  sy_dept_templates :: "template list"
  sy_rfp_criteria :: "json result"
  sy_user_criteria :: "json result"

definition strip_chars :: "string \<Rightarrow> string \<Rightarrow> string" where
  "strip_chars cs s = rev (dropWhile (\<lambda>c. c \<in> set cs) (rev (dropWhile (\<lambda>c. c \<in> set cs) s)))"

definition vendor_list_of :: "(string \<Rightarrow> json option) \<Rightarrow> string \<Rightarrow> json" where
  "vendor_list_of loads s =
     (if strip s = [] then JArr []
      else case loads s of
        Some v \<Rightarrow> v
      | None \<Rightarrow> jstrs (filter (\<lambda>v. v \<noteq> []) (map (\<lambda>v. strip_chars [quote_char] (strip v)) (split_char (CHR '','') (strip_chars ''[]'' s)))))"

text \<open>\<open>name.rsplit(".", 1)[0]\<close>.\<close>

definition file_stem :: "string \<Rightarrow> string" where
  "file_stem name = (if CHR ''.'' \<in> set name then take (length name - Suc (length (after_last (CHR ''.'') name))) name else name)"

definition vendor_files_of :: "(string option \<times> string) list \<Rightarrow> (string, string \<times> string) dict" where
  "vendor_files_of files = dict_of (map (\<lambda>(name, content).
     let vid = file_stem (text_or ''vendor'' name) in (vid, content, text_or vid name)) files)"

text \<open>\<open>any(v)\<close>.\<close>

definition json_any :: "json \<Rightarrow> bool result" where
  "json_any v = rbind (as_iter v) (\<lambda>xs. Inr (list_ex truthy xs))"

text \<open>A value that is no list of strings does not fit the column.\<close>

definition text_array :: "json \<Rightarrow> string list result" where
  "text_array v = (case as_str_list v of Inl _ \<Rightarrow> Inl (ExternalError ''vendor_ids'') | Inr ss \<Rightarrow> Inr ss)"

section \<open>The setup of the request\<close>

definition request_setup :: "start_env \<Rightarrow> string \<Rightarrow> (merged \<times> evaluation_setup \<times> gaps_report) result" where
  "request_setup env setup_id =
     rbind (sy_user_criteria env) (\<lambda>user. rbind (sy_rfp_criteria env) (\<lambda>rfp.
     rbind (merge_criteria (sy_digest env) (sy_org_templates env) (sy_dept_templates env) rfp user) (\<lambda>m0.
     let (m, report) = detect_and_fill_gaps (sy_digest env) (sy_gap_env env) m0
     in rbind (setup_of_merged setup_id m) (\<lambda>s. Inr (m, s, report)))))"

definition report_json :: "gaps_report \<Rightarrow> json" where
  "report_json g = JObj [(''has_gaps'', JBool (gr_has_gaps g)),
     (''score_guides_generated'', JArr (map (\<lambda>n. JObj [(''criterion_name'', JStr n), (''source'', JStr ''generated'')])
        (gr_score_guides_generated g))),
     (''mandatory_checks_suggested'', JArr (map (\<lambda>n. JObj [(''name'', JStr n), (''source'', JStr ''generated'')])
        (gr_mandatory_checks_suggested g)))]"

section \<open>Storing the run\<close>

definition new_run ::
  "start_request \<Rightarrow> token_data \<Rightarrow> string \<Rightarrow> string \<Rightarrow> string \<Rightarrow> int \<Rightarrow> string list \<Rightarrow> json \<Rightarrow> eval_run" where
  "new_run q user run_id rfp_id setup_id now vendor_ids vendor_names =
     \<lparr>rr_run_id = run_id, rr_org_id = td_org_id user, rr_created_by_email = Some (td_email user),
      rr_creator_dept_id = td_dept_id user, rr_created_at = now, er_setup_id = Some setup_id, er_rfp_id = rfp_id,
      er_rfp_title = Some (sg_rfp_title q), er_department = Some (sg_department q),
      er_rfp_filename = Some (text_or ''rfp.pdf'' (sg_rfp_filename q)), er_status = ''pending_confirm'',
      er_vendor_ids = vendor_ids, er_contract_value = Some (sg_contract_value q),
      er_currency = take 3 (strip (upper (sg_currency q))), er_vendor_names = vendor_names, er_events = [],
      er_decision = None, er_explanation = None, er_gaps = None, er_completed_at = None, er_cost = None\<rparr>"

definition insert_document :: "start_env \<Rightarrow> string \<Rightarrow> string \<Rightarrow> string \<Rightarrow> run_db \<Rightarrow> string \<times> string \<times> string \<Rightarrow> run_db" where
  "insert_document env org_id rfp_id setup_id db = (\<lambda>(vid, content, name).
     let h = sy_sha256 env content
     in if list_ex (\<lambda>d. dw_org_id d = org_id \<and> dw_vendor_id d = vid \<and> dw_rfp_id d = rfp_id \<and> dw_hash d = h) (rb_documents db)
        then db
        else db\<lparr>rb_documents := rb_documents db @ [\<lparr>dw_doc_id = sy_doc_id env (length (rb_documents db)), dw_org_id = org_id,
               dw_vendor_id = vid, dw_rfp_id = rfp_id, dw_setup_id = Some setup_id, dw_file_name = Some name,
               dw_bytes = Some content, dw_hash = h\<rparr>]\<rparr>)"

definition insert_run ::
  "start_env \<Rightarrow> start_request \<Rightarrow> token_data \<Rightarrow> string \<Rightarrow> string \<Rightarrow> string \<Rightarrow> int \<Rightarrow> json \<Rightarrow>
   (string, string \<times> string) dict \<Rightarrow> run_db \<Rightarrow> run_db result" where
  "insert_run env q user run_id rfp_id setup_id now vendors files db =
     rbind (text_array vendors) (\<lambda>vendor_ids.
     case sy_loads env (if strip (sg_vendor_names q) = [] then ''{}'' else sg_vendor_names q) of
       None \<Rightarrow> Inl bad_json
     | Some names \<Rightarrow>
         Inr (foldl (insert_document env (td_org_id user) rfp_id setup_id)
           (db\<lparr>rb_runs := rb_runs db @ [new_run q user run_id rfp_id setup_id now vendor_ids names]\<rparr>) files))"

definition start_evaluation ::
  "string list \<Rightarrow> start_env \<Rightarrow> string \<Rightarrow> int \<Rightarrow> start_request \<Rightarrow> token_data \<Rightarrow> run_db \<Rightarrow> task list handled" where
  "start_evaluation write_roles env run_id now q user db =
     (let rfp_id = ''rfp-'' @ take 8 run_id; setup_id = ''setup-'' @ take 8 run_id;
          parsed = vendor_list_of (sy_loads env) (sg_vendor_ids q); files = vendor_files_of (sg_vendor_files q)
      in respond (require_write_role write_roles user) (\<lambda>_ db.
         respond (raised (if files = [] then Inr True else json_any parsed)) (\<lambda>named db.
         respond (raised (request_setup env setup_id)) (\<lambda>(m, s, report) db.
         respond (raised (save_evaluation_setup (dump_setup (td_org_id user) (sg_department q) rfp_id m s) (td_org_id user) db)) (\<lambda>db1 _.
         respond (raised (insert_run env q user run_id rfp_id setup_id now
             (if named then parsed else jstrs (dict_keys files)) files db1)) (\<lambda>db2 _.
           (Inr [RefineSetup setup_id (td_org_id user)],
            audit (td_org_id user) (Some run_id) ''run.created'' (td_email user) None
              (if gr_has_gaps report
               then update_run run_id (td_org_id user) (\<lambda>r. r\<lparr>er_gaps := Some (report_json report)\<rparr>) db2 else db2))) db1)
         db) db) db) db)"

section \<open>The refinement in the background\<close>

text \<open>Its criteria come from a second answer of the model. When some are found there are targets
  (\<open>merged_has_targets\<close>), so the branch that makes targets for the stored checks is never taken. Every exception
  ends the task with a log line.\<close>

definition refine_json :: "merged \<Rightarrow> (string, json) dict \<Rightarrow> (string, json) dict" where
  "refine_json m existing = dict_update existing
     ((if mg_mandatory_checks m = [] then [] else [(''mandatory_checks'', JArr (map dump_check (mg_mandatory_checks m)))]) @
      (if mg_scoring_criteria m = [] then [] else [(''scoring_criteria'', JArr (map dump_score (mg_scoring_criteria m)))]) @
      [(''extraction_targets'', JArr (map dump_target (mg_extraction_targets m))), (''source'', JStr (mg_source m))])"

definition refine_merged :: "start_env \<Rightarrow> merged result" where
  "refine_merged env =
     rbind (sy_user_criteria env) (\<lambda>user. rbind (sy_rfp_criteria env) (\<lambda>rfp.
     merge_criteria (sy_digest env) (sy_org_templates env) (sy_dept_templates env) rfp user))"

definition refine_setup :: "start_env \<Rightarrow> string \<Rightarrow> string \<Rightarrow> run_db \<Rightarrow> run_db" where
  "refine_setup env setup_id org_id db =
     (case refine_merged env of
        Inl _ \<Rightarrow> db
      | Inr m \<Rightarrow>
          if mg_mandatory_checks m = [] \<and> mg_scoring_criteria m = [] then db
          else case db_get_setup (Some setup_id) org_id db of
                 None \<Rightarrow> db
               | Some existing \<Rightarrow> (case save_evaluation_setup (refine_json m existing) org_id db of Inl _ \<Rightarrow> db | Inr db' \<Rightarrow> db'))"

end
