(* ===== verification/Run_Pipeline.thy ===== *)
theory Run_Pipeline
  imports Run_Start Graph_Laws
begin

text \<open>
  The background run of a pipeline, \<open>_run_pipeline\<close> of \<open>app/api/_evaluation/pipeline.py\<close>, as the list of writes it
  makes: once the run is loaded nothing it does depends on the tables, so other requests may fall between any two
  writes. The stream of a run's events, \<open>app/api/_evaluation/streaming.py\<close>, reads them by polling.
  Fuel 25 is enough for the graph (\<open>run_graph_ends\<close>). Log lines are left out.
\<close>

section \<open>Loading\<close>

record pipe_env =
  pe_cfg :: platform_cfg
  pe_world :: world
  pe_org_settings :: "unit result"
    \<comment> \<open>\<open>get_org_settings\<close>, which may raise\<close>
  pe_datetime_ok :: "json \<Rightarrow> bool"
  pe_decision_id :: string
  pe_deadline :: string
  pe_explanation_json :: "explanation_output \<Rightarrow> json"
    \<comment> \<open>its record leaves fields out\<close>
  pe_cost :: "(rat \<times> int) option"
    \<comment> \<open>what the cost tracker holds at the end\<close>

definition load_state :: "pipe_env \<Rightarrow> string \<Rightarrow> string \<Rightarrow> run_db \<Rightarrow> pipeline_state result" where
  "load_state env run_id org_id db =
     (case db_get_run run_id org_id db of
        Inl _ \<Rightarrow> Inl (RuntimeError ''Run not found in DB'')
      | Inr run \<Rightarrow>
          (case db_get_setup (er_setup_id run) org_id db of
             None \<Rightarrow> Inl (RuntimeError ''EvaluationSetup not found'')
           | Some setup_json \<Rightarrow>
               if setup_json = [] then Inl (RuntimeError ''EvaluationSetup not found'')
               else rbind (parse_setup (pe_datetime_ok env) setup_json) (\<lambda>setup.
                    rbind (pe_org_settings env) (\<lambda>_.
                    Inr (initial_state (er_rfp_id run) (text_or ''rfp.pdf'' (er_rfp_filename run)) (er_vendor_ids run)
                      (case er_contract_value run of None \<Rightarrow> 0 | Some v \<Rightarrow> v) setup
                      (map (\<lambda>(v, _, name). (v, name)) (db_load_vendor_files run_id org_id db)))))))"

section \<open>The writes\<close>

datatype db_write =
    WEvent json
  | WAudit string "string option"
  | WStatus string
  | WDecision "(string, json) dict"
  | WExplanation json
  | WCost rat int

text \<open>A write that raises inside a handler of its own is swallowed.\<close>

fun apply_write :: "string \<Rightarrow> string \<Rightarrow> int \<Rightarrow> run_db \<Rightarrow> db_write \<Rightarrow> run_db" where
  "apply_write run_id org_id now db (WEvent ev) = (case db_append_event run_id org_id ev db of Inl _ \<Rightarrow> db | Inr db' \<Rightarrow> db')"
| "apply_write run_id org_id now db (WAudit t agent) = audit org_id (Some run_id) t ''system'' agent db"
| "apply_write run_id org_id now db (WStatus s) = db_update_status run_id org_id s True now db"
| "apply_write run_id org_id now db (WDecision d) = (case db_save_decision run_id org_id d now db of Inl _ \<Rightarrow> db | Inr db' \<Rightarrow> db')"
| "apply_write run_id org_id now db (WExplanation j) = (case db_save_explanation run_id org_id j db of Inl _ \<Rightarrow> db | Inr db' \<Rightarrow> db')"
| "apply_write run_id org_id now db (WCost c n) = update_run run_id org_id (\<lambda>r. r\<lparr>er_cost := Some (c, n)\<rparr>) db"

definition apply_writes :: "string \<Rightarrow> string \<Rightarrow> int \<Rightarrow> run_db \<Rightarrow> db_write list \<Rightarrow> run_db" where
  "apply_writes run_id org_id now db ws = foldl (apply_write run_id org_id now) db ws"

definition event_json :: "string \<Rightarrow> string \<Rightarrow> string \<Rightarrow> json" where
  "event_json agent status message = JObj [(''agent'', JStr agent), (''status'', JStr status), (''message'', JStr message)]"

fun effect_write :: "effect \<Rightarrow> db_write" where
  "effect_write (Event agent status message) = WEvent (event_json agent status message)"
| "effect_write (Audit t agent) = WAudit t (if t = ''run.blocked'' then None else Some agent)"
| "effect_write (SetStatus s) = WStatus s"

text \<open>The handler of the whole run.\<close>

definition blocked_writes :: "db_write list" where
  "blocked_writes = [WStatus ''blocked'', WAudit ''run.blocked'' None]"

definition final_event :: json where
  "final_event = event_json ''critic'' ''done'' ''All agent outputs validated by Critic''"

text \<open>The end of a run that was not blocked; a decision that is no JSON raises before anything is written.\<close>

definition finish_writes :: "pipe_env \<Rightarrow> pipeline_state \<Rightarrow> db_write list" where
  "finish_writes env s =
     (let decision = map_option (decision_dict (pe_decision_id env) (pe_deadline env)) (ps_decision_output s)
      in if (case decision of None \<Rightarrow> False | Some d \<Rightarrow> clean_pairs d = None) then blocked_writes
         else (case decision of None \<Rightarrow> [] | Some d \<Rightarrow> [WDecision d]) @
              (case ps_explanation_output s of None \<Rightarrow> [] | Some x \<Rightarrow> [WExplanation (pe_explanation_json env x)]) @
              [WEvent final_event, WStatus ''complete'', WAudit ''run.completed'' None])"

definition cost_writes :: "pipe_env \<Rightarrow> db_write list" where
  "cost_writes env = (case pe_cost env of None \<Rightarrow> [] | Some (c, n) \<Rightarrow> [WCost c n])"

definition graph_writes :: "pipe_env \<Rightarrow> pipeline_state \<Rightarrow> db_write list" where
  "graph_writes env s0 =
     (case run_graph (pe_cfg env) (pe_world env) 25 (PLANNER, s0, []) of
        Inr (Some (_, s, tr)) \<Rightarrow> map effect_write tr @ (if ps_blocked s then [] else finish_writes env s)
      | _ \<Rightarrow> blocked_writes)"

definition pipeline_writes :: "pipe_env \<Rightarrow> string \<Rightarrow> string \<Rightarrow> run_db \<Rightarrow> db_write list" where
  "pipeline_writes env run_id org_id db =
     (case load_state env run_id org_id db of Inl _ \<Rightarrow> blocked_writes | Inr s0 \<Rightarrow> graph_writes env s0) @ cost_writes env"

text \<open>The run when nothing else happens.\<close>

definition run_pipeline :: "pipe_env \<Rightarrow> string \<Rightarrow> string \<Rightarrow> int \<Rightarrow> run_db \<Rightarrow> run_db" where
  "run_pipeline env run_id org_id now db = apply_writes run_id org_id now db (pipeline_writes env run_id org_id db)"

text \<open>\<open>_rerun_with_bypass\<close>.\<close>

definition rerun_with_bypass :: "pipe_env \<Rightarrow> string \<Rightarrow> string \<Rightarrow> bool \<Rightarrow> string \<Rightarrow> int \<Rightarrow> run_db \<Rightarrow> run_db" where
  "rerun_with_bypass env original_id new_id bypass_cache org_id now db =
     (let db' = run_pipeline env new_id org_id now db
      in if bypass_cache then compute_divergence original_id new_id org_id db' else db')"

section \<open>The stream of events\<close>

text \<open>One poll: the database may fail, the row may be gone. The client disconnects after the last poll given.\<close>

datatype poll = PollFailed | PollMissing | PollRow "json list" string

datatype sse = SseEvent json | SseHeartbeat | SseError | SseDone string

definition terminal_status :: "string \<Rightarrow> bool" where
  "terminal_status s \<longleftrightarrow> s \<in> {''complete'', ''blocked'', ''failed'', ''interrupted''}"

fun event_stream :: "nat \<Rightarrow> poll list \<Rightarrow> sse list" where
  "event_stream seen [] = []"
| "event_stream seen (PollFailed # ps) = SseHeartbeat # event_stream seen ps"
| "event_stream seen (PollMissing # ps) = [SseError]"
| "event_stream seen (PollRow events status # ps) =
     map SseEvent (drop seen events) @
     (if terminal_status status then [SseDone status]
      else SseHeartbeat # event_stream (seen + length (drop seen events)) ps)"

definition poll_run :: "string \<Rightarrow> string \<Rightarrow> run_db \<Rightarrow> poll" where
  "poll_run run_id org_id db =
     (case db_get_run run_id org_id db of Inl _ \<Rightarrow> PollMissing | Inr r \<Rightarrow> PollRow (er_events r) (er_status r))"

end
