(* ===== verification/Graph_Status.thy ===== *)
theory Graph_Status
  imports Graph_Laws
begin

text \<open>
  What a run of the graph writes into the run's status column: nothing, or once \<open>blocked\<close>. A block by the planner,
  the ingestion, the comparator or the decision writes it; the explanation critic, which blocks when its retries
  are used up, does not (\<open>graph_statuses\<close>).
\<close>

fun status_of :: "effect \<Rightarrow> string option" where
  "status_of (SetStatus s) = Some s"
| "status_of _ = None"

definition statuses :: "effect list \<Rightarrow> string list" where
  "statuses es = List.map_filter status_of es"

lemma statuses_simps [simp]:
  "statuses [] = []"
  "statuses (e # es) = (case status_of e of None \<Rightarrow> statuses es | Some s \<Rightarrow> s # statuses es)"
  "statuses (xs @ ys) = statuses xs @ statuses ys"
  by (simp_all add: statuses_def List.map_filter_def split: option.split)

lemma statuses_concat [simp]: "statuses (concat xss) = concat (map statuses xss)"
  by (induction xss) simp_all

lemma statuses_emit [simp]: "statuses (emit agent status message) = []"
  by (simp add: emit_def split: option.split)

lemma statuses_attempts [simp]: "statuses (attempts_emit agent es) = []"
  by (induction es) (auto simp: attempts_emit_def)

lemma statuses_emits [simp]: "statuses (concat (map (\<lambda>x. emit (f x) (g x) (h x)) xs)) = []"
  by (induction xs) simp_all

section \<open>Nodes and branches\<close>

fun no_block :: "channel_update \<Rightarrow> bool" where
  "no_block (Blocked _) = False"
| "no_block _ = True"

lemma no_block_updates: "list_all no_block us \<Longrightarrow> ps_blocked (apply_updates s us) = ps_blocked s"
proof (induction us arbitrary: s)
  case (Cons u us)
  then show ?case by (cases u) simp_all
qed simp

lemma guarded_statuses:
  assumes "guarded agent started body = Inr (us, es)" and "statuses started = []"
    and "\<And>us' es'. body = Inr (us', es') \<Longrightarrow> list_all no_block us' \<and> statuses es' = []"
  shows "(list_all no_block us \<and> statuses es = []) \<or> (is_block us \<and> statuses es = [''blocked''])"
  using assms by (auto simp: guarded_def block_update_def split: sum.splits)

text \<open>A single node writes no status, or it blocks the run and writes that.\<close>

lemma node_statuses:
  assumes "exec_node cfg w n s = Inr (us, es)" and "n \<noteq> EXPLANATION_CRITIC"
  shows "(list_all no_block us \<and> statuses es = []) \<or> (is_block us \<and> statuses es = [''blocked''])"
proof (cases n)
  case INGESTION
  note out = assms(1)[unfolded INGESTION exec_node.simps ingestion_node_def Let_def]
  show ?thesis
  proof (cases "ps_vendor_file_map s \<noteq> [] \<and> list_all (\<lambda>(vid, _). wd_facts_extracted w ''ingestion'' vid) (ps_vendor_file_map s)")
    case True
    from out[unfolded if_P[OF True]] show ?thesis by (auto simp: case_prod_unfold)
  next
    case False
    show ?thesis by (rule guarded_statuses[OF out[unfolded if_not_P[OF False]]]) (auto simp: rbind_Inr_iff)
  qed
next
  case EXPLANATION_CRITIC
  with assms(2) show ?thesis by simp
next
  case PLANNER
  show ?thesis
    by (rule guarded_statuses[OF assms(1)[unfolded PLANNER exec_node.simps planner_node_def]])
      (auto simp: rbind_Inr_iff split: prod.splits)
next
  case COMPARATOR
  show ?thesis
    by (rule guarded_statuses[OF assms(1)[unfolded COMPARATOR exec_node.simps comparator_node_def]])
      (auto simp: rbind_Inr_iff split: prod.splits option.splits)
next
  case DECISION
  show ?thesis
    by (rule guarded_statuses[OF assms(1)[unfolded DECISION exec_node.simps decision_node_def]])
      (auto simp: rbind_Inr_iff split: prod.splits option.splits)
next
  case EXPLANATION_FINALISE
  show ?thesis
    by (rule guarded_statuses[OF assms(1)[unfolded EXPLANATION_FINALISE exec_node.simps explanation_finalise_def Let_def]])
      (auto simp: rbind_Inr_iff Let_def split: prod.splits option.splits)
qed (use assms in \<open>auto simp: retrieval_start_def retrieval_done_def extraction_start_def extraction_done_def
    evaluation_start_def evaluation_done_def explanation_start_def Let_def\<close>)

lemma branch_statuses:
  assumes "branch_of cfg w n = Some branch" and "branch s v = Inr (us, es)"
  shows "statuses es = []"
  using assms
  by (cases n) (auto simp: retrieval_per_vendor_def extraction_per_vendor_def evaluation_per_vendor_def
      explanation_per_vendor_def Let_def split: option.splits sum.splits prod.splits if_splits)

lemma branches_statuses: "branch_of cfg w n = Some branch \<Longrightarrow> rmap (branch s) vs = Inr rs \<Longrightarrow> statuses (concat (map snd rs)) = []"
proof (induction vs arbitrary: rs)
  case (Cons v vs)
  then obtain r rs' where "branch s v = Inr r" "rmap (branch s) vs = Inr rs'" "rs = r # rs'"
    by (auto simp: rbind_Inr_iff)
  then show ?case using Cons.IH[of rs'] Cons.prems(1) branch_statuses[of cfg w n branch s v "fst r" "snd r"] by simp
qed simp

lemma critic_statuses:
  assumes "explanation_critic cfg s = Inr (us, es)"
  shows "statuses es = []" and "ps_decision_output (apply_updates s us) = ps_decision_output s"
  using assms by (auto simp: explanation_critic_def Let_def split: option.splits if_splits)

section \<open>A whole run\<close>

definition status_inv :: "node \<Rightarrow> pipeline_state \<Rightarrow> effect list \<Rightarrow> bool" where
  "status_inv n s tr \<longleftrightarrow>
     (if n = END then (statuses tr = [] \<and> (ps_blocked s \<longrightarrow> ps_decision_output s \<noteq> None)) \<or>
        (statuses tr = [''blocked''] \<and> ps_blocked s \<and> ps_decision_output s = None)
      else statuses tr = [])"

lemma silent_step:
  assumes inv: "graph_inv cfg s0 n s" and "n \<noteq> END" "n \<noteq> EXPLANATION_CRITIC" and "exec_node cfg w n s = Inr (us, es)"
    and "branch_of cfg w n = None" and "list_all no_block us"
  shows "next_node n (apply_updates s us) \<noteq> END"
proof -
  have nb: "\<not> ps_blocked (apply_updates s us)"
    using no_block_updates[OF assms(6)] inv assms(2) by (simp add: graph_inv_def)
  have "n \<noteq> PLANNER \<Longrightarrow> ps_vendor_ids (apply_updates s us) \<noteq> []"
    using inv assms(2) by (simp add: graph_inv_def)
  then show ?thesis using nb assms(2,3,5) by (cases n) (simp_all add: route_after_def fan_out_def)
qed

lemma blocking_step:
  assumes inv: "graph_inv cfg s0 n s" and "n \<noteq> END" "n \<noteq> EXPLANATION_CRITIC" and "exec_node cfg w n s = Inr (us, es)"
    and "is_block us"
  shows "next_node n (apply_updates s us) = END \<and> ps_decision_output (apply_updates s us) = None"
proof -
  have b: "ps_blocked (apply_updates s us)" by (rule is_block_blocked[OF assms(5)])
  have n: "n \<in> {PLANNER, INGESTION, COMPARATOR, DECISION}"
  proof (cases n)
    case EXPLANATION_FINALISE
    then have "ps_decision_output s \<noteq> None" using inv by (simp add: graph_inv_def reporting_def)
    then show ?thesis using finalise_updates[of s us es] assms(4,5) EXPLANATION_FINALISE by auto
  qed (use assms in \<open>auto simp: retrieval_start_def retrieval_done_def extraction_start_def extraction_done_def
      evaluation_start_def evaluation_done_def explanation_start_def Let_def\<close>)
  then have "ps_decision_output s = None" using inv by (auto simp: graph_inv_def reporting_def)
  then show ?thesis using n b is_block_keeps(1)[OF assms(5), of s] by (auto simp: route_after_def)
qed

lemma status_step:
  assumes step: "graph_step cfg w (n, s, tr) (n', s', tr')" and inv: "graph_inv cfg s0 n s" and st: "status_inv n s tr"
  shows "status_inv n' s' tr'"
  using step
proof (cases rule: graph_step.cases)
  case (single us es)
  then have tr: "statuses tr = []" using st by (simp add: status_inv_def)
  show ?thesis
  proof (cases "n = EXPLANATION_CRITIC")
    case True
    then have "explanation_critic cfg s = Inr (us, es)" using single by simp
    moreover have "ps_decision_output s \<noteq> None" using inv True by (simp add: graph_inv_def reporting_def)
    ultimately show ?thesis using critic_statuses single tr by (simp add: status_inv_def)
  next
    case False
    from node_statuses[OF _ False] single consider "list_all no_block us" "statuses es = []"
      | "is_block us" "statuses es = [''blocked'']" by blast
    then show ?thesis
    proof cases
      case 1
      then show ?thesis using silent_step[OF inv _ False] single tr by (simp add: status_inv_def)
    next
      case 2
      then show ?thesis using blocking_step[OF inv _ False] single tr is_block_blocked[of us s]
        by (simp add: status_inv_def)
    qed
  qed
next
  case (parallel branch vs rs)
  then have "n' \<noteq> END" "n \<noteq> END" by (cases n; simp)+
  then show ?thesis using parallel st branches_statuses[of cfg w n branch s vs rs] by (simp add: status_inv_def)
qed

lemma run_statuses:
  assumes "run_graph cfg w fuel (n, s, tr) = Inr (Some (n', s', tr'))" and "graph_inv cfg s0 n s" and "status_inv n s tr"
  shows "n' = END \<and> status_inv n' s' tr'"
  using assms
proof (induction fuel arbitrary: n s tr)
  case 0
  then show ?case by (simp split: if_splits)
next
  case (Suc fuel)
  show ?case
  proof (cases "n = END")
    case True
    with Suc.prems show ?thesis by simp
  next
    case False
    with Suc.prems(1) obtain n1 s1 tr1 where ex: "exec_step cfg w (n, s, tr) = Inr (n1, s1, tr1)"
        and rest: "run_graph cfg w fuel (n1, s1, tr1) = Inr (Some (n', s', tr'))"
      by (auto simp: rbind_Inr_iff)
    have step: "graph_step cfg w (n, s, tr) (n1, s1, tr1)" by (rule exec_step_sound[OF False ex])
    show ?thesis by (rule Suc.IH[OF rest inv_step[OF step Suc.prems(2)] status_step[OF step Suc.prems(2,3)]])
  qed
qed

text \<open>A run from the start ends, and what it wrote depends on how.\<close>

lemma graph_statuses:
  assumes "fresh_start s0"
  shows "\<exists>s tr. run_graph cfg w 25 (PLANNER, s0, []) = Inr (Some (END, s, tr)) \<and> graph_inv cfg s0 END s \<and> status_inv END s tr"
proof -
  have inv: "graph_inv cfg s0 PLANNER s0" by (rule inv_start[OF assms])
  then have "ps_explanation_retry_count s0 \<le> EXPLANATION_MAX_RETRIES" by (simp add: graph_inv_def)
  then have "steps_left PLANNER (ps_explanation_retry_count s0) \<le> 25"
    by (simp add: steps_left_def EXPLANATION_MAX_RETRIES_def)
  from run_graph_ends[OF inv this] obtain s tr where
    r: "run_graph cfg w 25 (PLANNER, s0, []) = Inr (Some (END, s, tr))" "graph_inv cfg s0 END s" by blast
  then show ?thesis using run_statuses[OF r(1) inv] by (auto simp: status_inv_def)
qed

end
