(* ===== verification/Run_Laws.thy ===== *)
theory Run_Laws
  imports Run_Pipeline Graph_Status
begin

text \<open>
  What the routes and the pipeline do to a run. A write acts on the row of its run alone (\<open>get_apply_write\<close>), so a
  background run is a fold over the row and requests may fall between its writes. What a run ends in follows
  from the statuses its graph writes (\<open>run_outcome\<close>).
\<close>

section \<open>Rows\<close>

lemma find_map:
  "(\<And>x. P (f x) = P x) \<Longrightarrow> List.find P (map (\<lambda>x. if P x then f x else x) xs) = map_option f (List.find P xs)"
  by (induction xs) auto

definition keeps_key :: "(eval_run \<Rightarrow> eval_run) \<Rightarrow> bool" where
  "keeps_key f \<longleftrightarrow> (\<forall>r. rr_run_id (f r) = rr_run_id r \<and> rr_org_id (f r) = rr_org_id r)"

lemma get_update_run:
  assumes "keeps_key f"
  shows "db_get_run run_id org_id (update_run run_id org_id f db) = map_sum id f (db_get_run run_id org_id db)"
proof -
  have "List.find (\<lambda>r. rr_run_id r = run_id \<and> rr_org_id r = org_id)
      (map (\<lambda>r. if rr_run_id r = run_id \<and> rr_org_id r = org_id then f r else r) (rb_runs db)) =
    map_option f (List.find (\<lambda>r. rr_run_id r = run_id \<and> rr_org_id r = org_id) (rb_runs db))"
    using assms by (intro find_map) (simp add: keeps_key_def)
  then show ?thesis by (simp add: db_get_run_def update_run_def split: option.split)
qed

lemma get_audit [simp]: "db_get_run run_id org_id (audit o' r t a g db) = db_get_run run_id org_id db"
  by (simp add: audit_def db_get_run_def split: option.split)

lemma get_log_access [simp]: "db_get_run run_id org_id (log_access r e k db) = db_get_run run_id org_id db"
  by (simp add: log_access_def db_get_run_def)

lemma db_get_run_found: "db_get_run run_id org_id db = Inr run \<Longrightarrow> rr_run_id run = run_id \<and> rr_org_id run = org_id \<and> run \<in> set (rb_runs db)"
  by (auto simp: db_get_run_def find_Some_iff in_set_conv_nth split: option.splits)

section \<open>Writes\<close>

fun write_on :: "int \<Rightarrow> eval_run \<Rightarrow> db_write \<Rightarrow> eval_run" where
  "write_on now r (WEvent ev) = (case clean_json ev of None \<Rightarrow> r | Some e \<Rightarrow> r\<lparr>er_events := er_events r @ [e]\<rparr>)"
| "write_on now r (WAudit t agent) = r"
| "write_on now r (WStatus s) = r\<lparr>er_status := s, er_completed_at := Some now\<rparr>"
| "write_on now r (WDecision d) = (case clean_pairs d of None \<Rightarrow> r
     | Some dec \<Rightarrow> r\<lparr>er_decision := Some dec, er_status := ''complete'', er_completed_at := Some now\<rparr>)"
| "write_on now r (WExplanation j) = (case clean_json j of None \<Rightarrow> r | Some x \<Rightarrow> r\<lparr>er_explanation := Some x\<rparr>)"
| "write_on now r (WCost c n) = r\<lparr>er_cost := Some (c, n)\<rparr>"

lemma map_sum_ident: "map_sum id (\<lambda>x. x) s = s"
  by (cases s) simp_all

lemma get_apply_write:
  "db_get_run run_id org_id (apply_write run_id org_id now db w) = map_sum id (\<lambda>r. write_on now r w) (db_get_run run_id org_id db)"
  by (cases w) (auto simp: db_append_event_def db_save_decision_def db_save_explanation_def db_update_status_def
      get_update_run keeps_key_def map_sum_ident split: option.split)

lemma get_apply_writes:
  "db_get_run run_id org_id (apply_writes run_id org_id now db ws) = map_sum id (\<lambda>r. foldl (write_on now) r ws) (db_get_run run_id org_id db)"
proof (induction ws arbitrary: db)
  case (Cons w ws)
  have "apply_writes run_id org_id now db (w # ws) = apply_writes run_id org_id now (apply_write run_id org_id now db w) ws"
    by (simp add: apply_writes_def)
  then show ?case using Cons.IH[of "apply_write run_id org_id now db w"]
    by (cases "db_get_run run_id org_id db") (simp_all add: get_apply_write)
qed (simp add: apply_writes_def map_sum_ident)

lemma apply_writes_append: "apply_writes r o' now db (xs @ ys) = apply_writes r o' now (apply_writes r o' now db xs) ys"
  by (simp add: apply_writes_def)

lemma write_on_key [simp]: "rr_run_id (write_on now r w) = rr_run_id r" "rr_org_id (write_on now r w) = rr_org_id r"
    "er_vendor_ids (write_on now r w) = er_vendor_ids r"
  by (cases w; simp split: option.split)+

lemma writes_key [simp]: "er_vendor_ids (foldl (write_on now) r ws) = er_vendor_ids r"
  by (induction ws arbitrary: r) simp_all

lemma effect_status: "er_status (foldl (write_on now) r (map effect_write es)) = last (er_status r # statuses es)"
proof (induction es arbitrary: r)
  case (Cons e es)
  have "er_status (write_on now r (effect_write e)) = (case status_of e of None \<Rightarrow> er_status r | Some s \<Rightarrow> s)"
    by (cases e) (simp_all split: option.split)
  then show ?case using Cons.IH[of "write_on now r (effect_write e)"] by (cases "status_of e") simp_all
qed simp

lemma effect_decision: "er_decision (foldl (write_on now) r (map effect_write es)) = er_decision r"
proof (induction es arbitrary: r)
  case (Cons e es)
  have "er_decision (write_on now r (effect_write e)) = er_decision r"
    by (cases e) (simp_all split: option.split)
  then show ?case using Cons.IH by simp
qed simp

lemma cost_row: "er_status (foldl (write_on now) r (cost_writes env)) = er_status r"
    "er_decision (foldl (write_on now) r (cost_writes env)) = er_decision r"
  by (simp_all add: cost_writes_def split: option.split)

lemma blocked_row: "er_status (foldl (write_on now) r blocked_writes) = ''blocked''"
  by (simp add: blocked_writes_def)

lemma finish_row:
  assumes "ps_decision_output s = Some dec" and "clean_pairs (decision_dict (pe_decision_id env) (pe_deadline env) dec) = Some d"
  shows "er_status (foldl (write_on now) r (finish_writes env s)) = ''complete''"
    "er_decision (foldl (write_on now) r (finish_writes env s)) = Some d"
  using assms by (simp_all add: finish_writes_def Let_def split: option.split)

section \<open>How a run ends\<close>

definition final_state :: "pipe_env \<Rightarrow> pipeline_state \<Rightarrow> pipeline_state option" where
  "final_state env s0 = (case run_graph (pe_cfg env) (pe_world env) 25 (PLANNER, s0, []) of Inr (Some (_, s, _)) \<Rightarrow> Some s | _ \<Rightarrow> None)"

text \<open>The graph was blocked after its decision: the report could not pass its critic.\<close>

definition report_exhausted :: "pipe_env \<Rightarrow> pipeline_state \<Rightarrow> bool" where
  "report_exhausted env s0 \<longleftrightarrow>
     (case final_state env s0 of None \<Rightarrow> False | Some s \<Rightarrow> ps_blocked s \<and> ps_decision_output s \<noteq> None)"

text \<open>A stored decision is the graph's, and gives every vendor of the run an outcome.\<close>

definition decision_covers :: "pipe_env \<Rightarrow> pipeline_state \<Rightarrow> (string, json) dict \<Rightarrow> bool" where
  "decision_covers env s0 d \<longleftrightarrow>
     (case final_state env s0 of None \<Rightarrow> False | Some s \<Rightarrow>
        (case ps_decision_output s of None \<Rightarrow> False | Some dec \<Rightarrow>
           clean_pairs (decision_dict (pe_decision_id env) (pe_deadline env) dec) = Some d \<and>
           set (ps_vendor_ids s0) \<subseteq> sv_vendor_id ` set (do_shortlisted_vendors dec) \<union>
             rn_vendor_id ` set (do_rejected_vendors dec) \<union> fv_vendor_id ` set (ps_failed_vendors s)))"

lemma load_state_fresh:
  assumes "load_state env run_id org_id db = Inr s0" and "db_get_run run_id org_id db = Inr run"
  shows "fresh_start s0 \<and> ps_vendor_ids s0 = er_vendor_ids run"
proof -
  obtain st fs cv where "s0 = initial_state (er_rfp_id run) (text_or ''rfp.pdf'' (er_rfp_filename run))
      (er_vendor_ids run) cv st fs"
    using assms by (auto simp: load_state_def rbind_Inr_iff split: option.splits if_splits)
  then show ?thesis using fresh_initial by (simp add: initial_state_def)
qed

lemma inv_covers:
  assumes "graph_inv cfg s0 END s" and "\<not> ps_blocked s" and "ps_decision_output s = Some dec"
  shows "set (ps_vendor_ids s0) \<subseteq> sv_vendor_id ` set (do_shortlisted_vendors dec) \<union>
    rn_vendor_id ` set (do_rejected_vendors dec) \<union> fv_vendor_id ` set (ps_failed_vendors s)"
proof -
  have "ps_vendor_ids s = ps_vendor_ids s0" using assms(1) by (simp add: graph_inv_def inputs_of_def)
  moreover have "settles s dec" "\<forall>v \<in> set (ps_vendor_ids s). accounted v s" using assms by (simp_all add: graph_inv_def)
  ultimately show ?thesis unfolding settles_def accounted_def subset_iff by (metis UnCI)
qed

lemma graph_outcome:
  assumes "fresh_start s0"
  shows "if report_exhausted env s0
    then er_status (foldl (write_on now) r (graph_writes env s0)) = er_status r
    else er_status (foldl (write_on now) r (graph_writes env s0)) = ''blocked'' \<or>
      er_status (foldl (write_on now) r (graph_writes env s0)) = ''complete'' \<and>
      (\<exists>d. er_decision (foldl (write_on now) r (graph_writes env s0)) = Some d \<and> decision_covers env s0 d)"
proof -
  obtain s tr where run: "run_graph (pe_cfg env) (pe_world env) 25 (PLANNER, s0, []) = Inr (Some (END, s, tr))"
      and inv: "graph_inv (pe_cfg env) s0 END s" and st: "status_inv END s tr"
    using graph_statuses[OF assms] by blast
  have ex: "report_exhausted env s0 \<longleftrightarrow> ps_blocked s \<and> ps_decision_output s \<noteq> None" by (simp add: report_exhausted_def final_state_def run)
  show ?thesis
  proof (cases "ps_blocked s")
    case True
    then show ?thesis using st by (auto simp: ex graph_writes_def run effect_status status_inv_def)
  next
    case False
    then obtain dec where dec: "ps_decision_output s = Some dec" using inv by (auto simp: graph_inv_def delivered_def)
    let ?d = "decision_dict (pe_decision_id env) (pe_deadline env) dec"
    have w: "graph_writes env s0 = map effect_write tr @ finish_writes env s" using False by (simp add: graph_writes_def run)
    show ?thesis
    proof (cases "clean_pairs ?d")
      case None
      then have "finish_writes env s = blocked_writes" by (simp add: finish_writes_def dec)
      then show ?thesis using False by (simp add: ex w blocked_row)
    next
      case (Some d)
      then have "decision_covers env s0 d"
        using inv_covers[OF inv False dec] dec by (simp add: decision_covers_def final_state_def run)
      then show ?thesis using False finish_row[OF dec Some] by (simp add: ex w)
    qed
  qed
qed

lemma run_outcome:
  assumes "db_get_run run_id org_id db = Inr run"
  shows "\<exists>run'. db_get_run run_id org_id (run_pipeline env run_id org_id now db) = Inr run' \<and>
    (case load_state env run_id org_id db of Inl _ \<Rightarrow> er_status run' = ''blocked''
     | Inr s0 \<Rightarrow> if report_exhausted env s0 then er_status run' = er_status run
         else er_status run' = ''blocked'' \<or> er_status run' = ''complete'' \<and>
           (\<exists>d. er_decision run' = Some d \<and> decision_covers env s0 d))"
proof -
  let ?ws = "pipeline_writes env run_id org_id db" and ?r = "foldl (write_on now) run (pipeline_writes env run_id org_id db)"
  have "db_get_run run_id org_id (run_pipeline env run_id org_id now db) = Inr ?r"
    by (simp add: run_pipeline_def get_apply_writes assms)
  moreover have "case load_state env run_id org_id db of Inl _ \<Rightarrow> er_status ?r = ''blocked''
     | Inr s0 \<Rightarrow> if report_exhausted env s0 then er_status ?r = er_status run
         else er_status ?r = ''blocked'' \<or> er_status ?r = ''complete'' \<and>
           (\<exists>d. er_decision ?r = Some d \<and> decision_covers env s0 d)"
  proof (cases "load_state env run_id org_id db")
    case (Inl e)
    then show ?thesis by (simp add: pipeline_writes_def cost_row blocked_row)
  next
    case (Inr s0)
    note fresh = load_state_fresh[OF Inr assms]
    show ?thesis
      using graph_outcome[of s0 env now run] fresh
      by (simp add: Inr pipeline_writes_def cost_row split: if_splits)
  qed
  ultimately show ?thesis by blast
qed

end
