(* ===== verification/Run_Requests.thy ===== *)
theory Run_Requests
  imports Run_Laws
begin

text \<open>
  All requests on runs as one type. Whatever a user requests, the rows of other organisations stay as they are
  (\<open>serve_others\<close>), and a pipeline is only launched by a user who may see the run and has a write role
  (\<open>serve_launches\<close>). Cancelling, deleting, editing and inviting ask for no role.
\<close>

section \<open>Requests\<close>

record server =
  sr_write_roles :: "string list"
  sr_datetime_ok :: "json \<Rightarrow> bool"
  sr_search :: "string \<Rightarrow> string \<Rightarrow> string option"
  sr_patterns :: "injection_pattern list"
  sr_override_saves :: bool

datatype run_request =
    ReqStart start_env string int start_request
  | ReqGetSetup string
  | ReqUpdateSetup string setup_edit
  | ReqConfirm string
  | ReqRerun string bool string int
  | ReqReEvaluate string
  | ReqCancel string int
  | ReqDelete string
  | ReqAddCollaborator string string string
  | ReqRemoveCollaborator string string
  | ReqResults string
  | ReqReport string string
  | ReqOverride string string string string
  | ReqCorrect string string int string correction_request

text \<open>The new tables, with the tasks that were scheduled when the request succeeded.\<close>

definition outcome :: "(task list \<times> run_db) handled \<Rightarrow> task list \<times> run_db" where
  "outcome h = (case fst h of Inl _ \<Rightarrow> [] | Inr (ts, _) \<Rightarrow> ts, snd h)"

definition unscheduled :: "'a handled \<Rightarrow> task list \<times> run_db" where
  "unscheduled h = ([], snd h)"

definition launching :: "task list handled \<Rightarrow> task list \<times> run_db" where
  "launching h = (case fst h of Inl _ \<Rightarrow> [] | Inr ts \<Rightarrow> ts, snd h)"

fun serve :: "server \<Rightarrow> token_data \<Rightarrow> run_request \<Rightarrow> run_db \<Rightarrow> task list \<times> run_db" where
  "serve sv user (ReqStart env run_id now q) db = launching (start_evaluation (sr_write_roles sv) env run_id now q user db)"
| "serve sv user (ReqGetSetup run_id) db = unscheduled (get_setup run_id user db)"
| "serve sv user (ReqUpdateSetup run_id body) db = unscheduled (update_setup (sr_datetime_ok sv) run_id body user db)"
| "serve sv user (ReqConfirm run_id) db = launching (confirm_run (sr_write_roles sv) run_id user db)"
| "serve sv user (ReqRerun run_id bypass new_id now) db = launching (rerun_evaluation (sr_write_roles sv) run_id bypass new_id now user db)"
| "serve sv user (ReqReEvaluate run_id) db = launching (re_evaluate (sr_write_roles sv) run_id user db)"
| "serve sv user (ReqCancel run_id now) db = unscheduled (cancel_run run_id now user db)"
| "serve sv user (ReqDelete run_id) db = unscheduled (delete_run run_id user db)"
| "serve sv user (ReqAddCollaborator run_id who role) db = unscheduled (add_run_collaborator run_id who role user db)"
| "serve sv user (ReqRemoveCollaborator run_id who) db = unscheduled (remove_run_collaborator run_id who user db)"
| "serve sv user (ReqResults run_id) db = unscheduled (get_results run_id user db)"
| "serve sv user (ReqReport action run_id) db = unscheduled (run_report_or_404 action run_id user db)"
| "serve sv user (ReqOverride override_id run_id vid reason) db = unscheduled (submit_override override_id run_id vid reason user db)"
| "serve sv user (ReqCorrect correction_id override_id now run_id q) db =
     unscheduled (submit_correction (sr_search sv) (sr_patterns sv) (sr_override_saves sv) correction_id override_id now run_id q user db)"

section \<open>Other organisations\<close>

text \<open>The rows of organisations other than the given one.\<close>

record foreign_rows =
  fg_runs :: "eval_run list"
  fg_setups :: "(string, setup_row) dict"
  fg_documents :: "doc_row list"
  fg_facts :: "fact_table \<Rightarrow> fact_row list"
  fg_overrides :: "override_row list"
  fg_corrections :: "correction_row list"

definition others :: "string \<Rightarrow> run_db \<Rightarrow> foreign_rows" where
  "others org db =
     \<lparr>fg_runs = filter (\<lambda>r. rr_org_id r \<noteq> org) (rb_runs db),
      fg_setups = filter (\<lambda>kv. su_org_id (snd kv) \<noteq> org) (rb_setups db),
      fg_documents = filter (\<lambda>d. dw_org_id d \<noteq> org) (rb_documents db),
      fg_facts = (\<lambda>tbl. filter (\<lambda>f. fw_org_id f \<noteq> org) (rb_facts db tbl)),
      fg_overrides = filter (\<lambda>x. ov_org_id x \<noteq> org) (rb_overrides db),
      fg_corrections = filter (\<lambda>x. kr_org_id x \<noteq> org) (rb_corrections db)\<rparr>"

lemma respond_split: "P (respond r f db) \<longleftrightarrow> (\<forall>e. r = Inl e \<longrightarrow> P (Inl e, db)) \<and> (\<forall>x. r = Inr x \<longrightarrow> P (f x db))"
  by (cases r) (auto simp: respond_def)

lemma others_respond:
  assumes "\<And>x. r = Inr x \<Longrightarrow> others org (snd (f x db)) = others org db"
  shows "others org (snd (respond r f db)) = others org db"
  using assms by (cases r) (simp_all add: respond_def)

lemma others_respond_after:
  assumes "others org db' = others org db" and "\<And>x. r = Inr x \<Longrightarrow> others org (snd (f x db')) = others org db"
  shows "others org (snd (respond r f db')) = others org db"
  using assms by (cases r) (simp_all add: respond_def)

lemma others_audit [simp]: "others org (audit o' r t a g db) = others org db"
  by (simp add: others_def audit_def split: option.split)

lemma others_log_access [simp]: "others org (log_access r e k db) = others org db"
  by (simp add: others_def log_access_def)

lemma filter_map_own: "(\<And>x. P x \<Longrightarrow> \<not> Q x) \<Longrightarrow> (\<And>x. P x \<Longrightarrow> \<not> Q (f x)) \<Longrightarrow>
   filter Q (map (\<lambda>x. if P x then f x else x) xs) = filter Q xs"
  by (induction xs) auto

lemma others_update_run [simp]: "keeps_key f \<Longrightarrow> others org (update_run run_id org f db) = others org db"
  by (auto simp: others_def update_run_def keeps_key_def intro!: filter_map_own)

lemma others_update_status [simp]: "others org (db_update_status run_id org s c now db) = others org db"
  by (simp add: db_update_status_def keeps_key_def)

lemma others_runs_append [simp]: "\<forall>r \<in> set rs. rr_org_id r = org \<Longrightarrow> others org (db\<lparr>rb_runs := rb_runs db @ rs\<rparr>) = others org db"
  by (simp add: others_def filter_empty_conv)

lemma filter_dict_set:
  assumes "\<not> Q (k, v)" and "\<And>w. dict_get d k = Some w \<Longrightarrow> \<not> Q (k, w)"
  shows "filter Q (dict_set k v d) = filter Q d"
  using assms
proof (induction d)
  case (Cons kv d)
  then show ?case by (cases kv) (auto split: if_splits)
qed simp

lemma others_save_setup: "save_evaluation_setup setup_json org db = Inr db' \<Longrightarrow> others org db' = others org db"
  by (auto simp: save_evaluation_setup_def others_def intro!: filter_dict_set split: option.splits json.splits if_splits)

lemma others_insert_document [simp]: "others org (insert_document env org rfp sid db x) = others org db"
  by (cases x) (simp add: insert_document_def others_def Let_def)

lemma others_insert_documents: "others org (foldl (insert_document env org rfp sid) db xs) = others org db"
  by (induction xs arbitrary: db) simp_all

lemma raised_Inr [simp]: "raised r = Inr x \<longleftrightarrow> r = Inr x"
  by (cases r) (simp_all add: raised_def)

lemma others_insert_run:
  assumes "insert_run env q user rid rfp sid now vendors files db = Inr db'"
  shows "others (td_org_id user) db' = others (td_org_id user) db"
  using assms by (auto simp: insert_run_def rbind_Inr_iff others_insert_documents new_run_def split: option.splits)

lemma keys_kept [simp]: "keeps_key reset_run" "keeps_key (\<lambda>r. r\<lparr>er_gaps := g\<rparr>)"
  by (simp_all add: keeps_key_def reset_run_def)

section \<open>Deleting stays within the organisation\<close>

lemma filter_own: "(\<And>x. x \<in> set xs \<Longrightarrow> Q x \<Longrightarrow> P x) \<Longrightarrow> filter Q (filter P xs) = filter Q xs"
  by (induction xs) auto

lemma others_delete_documents: "delete_documents rfp org db = Inr db' \<Longrightarrow> others org db' = others org db"
  by (auto simp: delete_documents_def others_def Let_def simp del: filter_filter intro!: filter_own split: if_splits)

lemma others_delete_facts [simp]: "others org (delete_facts sid org db) = others org db"
  by (auto simp: delete_facts_def others_def simp del: filter_filter intro!: filter_own)

lemma others_delete_run_row: "delete_run_row rid org db = Inr db' \<Longrightarrow> others org db' = others org db"
  by (auto simp: delete_run_row_def others_def simp del: filter_filter intro!: filter_own split: if_splits)

lemma others_delete_setup:
  assumes "delete_setup sid org db = Inr db'" and "distinct (dict_keys (rb_setups db))"
  shows "others org db' = others org db"
proof (cases "db' = db")
  case False
  then obtain row where row: "dict_get (rb_setups db) sid = Some row" "su_org_id row = org"
      and db': "db' = db\<lparr>rb_setups := filter (\<lambda>kv. fst kv \<noteq> sid) (rb_setups db)\<rparr>"
    using assms(1) by (auto simp: delete_setup_def split: option.splits if_splits)
  have "kv \<in> set (rb_setups db) \<Longrightarrow> fst kv = sid \<Longrightarrow> su_org_id (snd kv) = org" for kv
    using row assms(2) by (metis map_of_eq_Some_iff option.inject prod.collapse)
  then show ?thesis unfolding db' by (auto simp: others_def simp del: filter_filter intro!: filter_own)
qed simp

lemma delete_parts_setups:
  "delete_documents rfp org db = Inr db1 \<Longrightarrow> rb_setups db1 = rb_setups db"
  "rb_setups (delete_facts sid org db) = rb_setups db"
  "delete_run_row rid org db = Inr db1 \<Longrightarrow> rb_setups db1 = rb_setups db"
  by (auto simp: delete_documents_def delete_facts_def delete_run_row_def Let_def split: if_splits)

lemma delete_txn_parts:
  assumes "delete_txn run rid org db = Inr db'"
  obtains db1 db2 db3 sid where "rb_setups db1 = rb_setups db" "\<And>o'. others o' db1 = others o' db"
    "rb_runs db1 = rb_runs db" "sid = (case er_setup_id run of None \<Rightarrow> [] | Some s \<Rightarrow> s)"
    "delete_documents (er_rfp_id run) org db1 = Inr db2"
    "delete_run_row rid org (if sid = [] then db2 else delete_facts sid org db2) = Inr db3"
    "(if sid = [] then Inr db3 else delete_setup sid org db3) = Inr db'"
proof -
  let ?sid = "case er_setup_id run of None \<Rightarrow> [] | Some s \<Rightarrow> s"
  let ?db1 = "db\<lparr>rb_approvals := filter (\<lambda>r. r \<noteq> rid) (rb_approvals db), rb_decisions := filter (\<lambda>r. r \<noteq> rid) (rb_decisions db),
      rb_retrieval_log := filter (\<lambda>r. r \<noteq> Some rid) (rb_retrieval_log db),
      rb_audit := map (\<lambda>a. if ua_run_id a = Some rid then a\<lparr>ua_run_id := None\<rparr> else a) (rb_audit db)\<rparr>"
  obtain db2 db3 where "delete_documents (er_rfp_id run) org ?db1 = Inr db2"
      "delete_run_row rid org (if ?sid = [] then db2 else delete_facts ?sid org db2) = Inr db3"
      "(if ?sid = [] then Inr db3 else delete_setup ?sid org db3) = Inr db'"
    using assms by (auto simp: delete_txn_def Let_def rbind_Inr_iff)
  then show thesis using that[of ?db1 ?sid db2 db3] by (simp add: others_def)
qed

lemma delete_txn_setups:
  "delete_documents rfp org db1 = Inr db2 \<Longrightarrow> delete_run_row rid org (if sid = [] then db2 else delete_facts sid org db2) = Inr db3 \<Longrightarrow>
   rb_setups db3 = rb_setups db1"
  by (auto simp: delete_parts_setups(2) dest!: delete_parts_setups(1,3) split: if_splits)

lemma others_delete_txn:
  assumes "delete_txn run rid org db = Inr db'" and "distinct (dict_keys (rb_setups db))"
  shows "others org db' = others org db"
  using assms(1)
proof (rule delete_txn_parts)
  fix db1 db2 db3 sid
  assume db1: "rb_setups db1 = rb_setups db" "\<And>o'. others o' db1 = others o' db"
    and d: "delete_documents (er_rfp_id run) org db1 = Inr db2"
    and r: "delete_run_row rid org (if sid = [] then db2 else delete_facts sid org db2) = Inr db3"
    and s: "(if sid = [] then Inr db3 else delete_setup sid org db3) = Inr db'"
  have "rb_setups db3 = rb_setups db" using delete_txn_setups[OF d r] db1(1) by simp
  then show "others org db' = others org db"
    using others_delete_documents[OF d] others_delete_run_row[OF r] db1(2) s assms(2) others_delete_setup[of sid org db3 db']
    by (simp split: if_splits)
qed

section \<open>Every request\<close>

lemma others_start: "others (td_org_id user) (snd (start_evaluation wr env rid now q user db)) = others (td_org_id user) db"
  unfolding start_evaluation_def Let_def
  by (intro others_respond) (auto intro!: others_respond_after simp: others_insert_run others_save_setup split: prod.splits)

lemma others_update_setup: "others (td_org_id user) (snd (update_setup dt rid body user db)) = others (td_org_id user) db"
  unfolding update_setup_def
  by (intro others_respond) (auto intro!: others_respond simp: others_save_setup split: option.splits sum.splits)

lemma others_delete_run:
  assumes "distinct (dict_keys (rb_setups db))"
  shows "others (td_org_id user) (snd (delete_run rid user db)) = others (td_org_id user) db"
  unfolding delete_run_def by (intro others_respond) (auto intro!: others_respond simp: others_delete_txn[OF _ assms])

lemma others_add_override [simp]:
  "ov_org_id row = org \<Longrightarrow> others org (db\<lparr>rb_overrides := rb_overrides db @ [row]\<rparr>) = others org db"
  by (simp add: others_def)

lemma others_override: "others (td_org_id user) (snd (submit_override oid rid vid reason user db)) = others (td_org_id user) db"
  unfolding submit_override_def
  by (intro others_respond) (auto intro!: others_respond split: option.splits json.splits list.splits)

lemma others_save_override:
  "save_override ok row db = Inr db' \<Longrightarrow> ov_org_id row = org \<Longrightarrow> others org db' = others org db"
  by (auto simp: save_override_def others_def split: if_splits)

lemma others_save_correction [simp]: "kr_org_id row = org \<Longrightarrow> others org (save_evaluation_correction row db) = others org db"
  by (simp add: save_evaluation_correction_def others_def)

lemma others_correction:
  "others (td_org_id user) (snd (submit_correction search ps ok cid oid now rid q user db)) = others (td_org_id user) db"
proof -
  have c: "kr_org_id (correction_of cid now rid q user) = td_org_id user" by (simp add: correction_of_def)
  show ?thesis unfolding submit_correction_def Let_def
    by (intro others_respond) (auto intro!: others_respond_after simp: c dest!: others_save_override)
qed

lemma others_with_access [simp]: "others org (with_access x db) = others org db"
  by (simp add: with_access_def others_def)

lemma others_rerun_commit: "others (td_org_id user) (snd (rerun_commit rid b nid now user db)) = others (td_org_id user) db"
proof (cases "filter (\<lambda>r. rr_run_id r = rid \<and> rr_org_id r = td_org_id user) (rb_runs db)")
  case (Cons r rs)
  have "\<forall>x \<in> set (filter (\<lambda>r. rr_run_id r = rid \<and> rr_org_id r = td_org_id user) (rb_runs db)). rr_org_id x = td_org_id user"
    by simp
  then have "\<forall>x \<in> set (map (cloned_run nid (td_email user) now) (r # rs)). rr_org_id x = td_org_id user"
    unfolding Cons by (auto simp: cloned_run_def)
  from others_runs_append[OF this, of db] show ?thesis by (simp only: rerun_commit_def Cons list.case snd_conv others_audit)
qed (simp add: rerun_commit_def)

lemma serve_others:
  assumes "distinct (dict_keys (rb_setups db))"
  shows "others (td_org_id user) (snd (serve sv user rq db)) = others (td_org_id user) db"
proof (cases rq)
  case (ReqDelete rid)
  then show ?thesis using others_delete_run[OF assms] by (simp add: unscheduled_def)
next
  case (ReqRerun rid b nid now)
  show ?thesis unfolding ReqRerun serve.simps launching_def snd_conv rerun_evaluation_def
    by (rule others_respond) (rule others_rerun_commit)
qed (auto simp: unscheduled_def launching_def others_start others_update_setup others_override others_correction
    get_setup_def confirm_run_def confirm_commit_def re_evaluate_def re_evaluate_commit_def cancel_run_def
    add_run_collaborator_def remove_run_collaborator_def get_results_def run_report_or_404_def Let_def
    intro!: others_respond split: option.splits sum.splits exn.splits)

text \<open>The ids of the setups stay distinct, so this holds of any requests in a row.\<close>

definition setups_ok :: "run_db \<Rightarrow> bool" where
  "setups_ok db \<longleftrightarrow> distinct (dict_keys (rb_setups db))"

lemma setups_ok_same: "rb_setups db' = rb_setups db \<Longrightarrow> setups_ok db' = setups_ok db"
  by (simp add: setups_ok_def)

lemma rb_setups_kept [simp]:
  "rb_setups (audit o' ro t a g db) = rb_setups db" "rb_setups (log_access r e k db) = rb_setups db"
  "rb_setups (update_run r o' f db) = rb_setups db" "rb_setups (db_update_status r o' s c now db) = rb_setups db"
  "rb_setups (insert_document env o' rfp sid db x) = rb_setups db" "rb_setups (with_access y db) = rb_setups db"
  "rb_setups (save_evaluation_correction row db) = rb_setups db"
  by (simp_all add: audit_def log_access_def update_run_def db_update_status_def insert_document_def Let_def
      with_access_def save_evaluation_correction_def split: option.split prod.split)

lemma setups_ok_kept [simp]:
  "setups_ok (audit o' ro t a g db) = setups_ok db" "setups_ok (update_run r o' f db) = setups_ok db"
  "setups_ok (log_access r e k db) = setups_ok db" "setups_ok (db_update_status r o' st c now db) = setups_ok db"
  "setups_ok (with_access y db) = setups_ok db"
  by (simp_all add: setups_ok_def)

lemma rb_setups_documents [simp]: "rb_setups (foldl (insert_document env o' rfp sid) db xs) = rb_setups db"
  by (induction xs arbitrary: db) simp_all

lemma setups_respond:
  "setups_ok db \<Longrightarrow> (\<And>x. r = Inr x \<Longrightarrow> setups_ok (snd (f x db))) \<Longrightarrow> setups_ok (snd (respond r f db))"
  by (cases r) (simp_all add: respond_def)

lemma setups_saved: "save_evaluation_setup j org db = Inr db' \<Longrightarrow> setups_ok db \<Longrightarrow> setups_ok db'"
  by (auto simp: save_evaluation_setup_def setups_ok_def split: option.splits json.splits if_splits)

lemma setups_inserted: "insert_run env q user rid rfp sid now vendors files db = Inr db' \<Longrightarrow> rb_setups db' = rb_setups db"
  by (auto simp: insert_run_def rbind_Inr_iff split: option.splits)

lemma setups_filtered: "setups_ok db \<Longrightarrow> setups_ok (db\<lparr>rb_setups := filter P (rb_setups db)\<rparr>)"
  by (simp add: setups_ok_def distinct_map inj_on_def)

lemma setups_delete_setup: "delete_setup sid org db = Inr db' \<Longrightarrow> setups_ok db \<Longrightarrow> setups_ok db'"
  by (auto simp: delete_setup_def setups_filtered split: option.splits if_splits)

lemma setups_deleted:
  assumes "delete_txn run rid org db = Inr db'" and "setups_ok db"
  shows "setups_ok db'"
  using assms(1)
proof (rule delete_txn_parts)
  fix db1 db2 db3 sid
  assume "rb_setups db1 = rb_setups db" "delete_documents (er_rfp_id run) org db1 = Inr db2"
    "delete_run_row rid org (if sid = [] then db2 else delete_facts sid org db2) = Inr db3"
    and s: "(if sid = [] then Inr db3 else delete_setup sid org db3) = Inr db'"
  then have "setups_ok db3" using delete_txn_setups assms(2) by (metis setups_ok_same)
  then show "setups_ok db'" using s setups_delete_setup by (simp split: if_splits)
qed

lemma setups_ok_inserted: "insert_run env q user rid rfp sid now vendors files db = Inr db' \<Longrightarrow> setups_ok db \<Longrightarrow> setups_ok db'"
  by (simp add: setups_ok_def setups_inserted)

lemma setups_commit:
  assumes "setups_ok db" and "\<And>x. setups_ok (h x) = setups_ok x"
  shows "setups_ok (snd (respond (raised (save_evaluation_setup j org db)) (\<lambda>db1 _.
    respond (raised (insert_run env q user rid rfp sid now vs files db1)) (\<lambda>db2 _. (Inr ts, h db2)) db1) db))"
proof (intro setups_respond)
  fix db1 db2
  assume "raised (save_evaluation_setup j org db) = Inr db1"
  then show ok: "setups_ok db1" using setups_saved assms(1) by simp
  assume "raised (insert_run env q user rid rfp sid now vs files db1) = Inr db2"
  then show "setups_ok (snd (Inr ts, h db2))" using setups_ok_inserted ok assms(2) by simp
qed (rule assms(1))

lemma setups_started: "setups_ok db \<Longrightarrow> setups_ok (snd (start_evaluation wr env rid now q user db))"
  unfolding start_evaluation_def Let_def case_prod_unfold
  by (intro setups_respond setups_commit) simp_all

lemma setups_edited: "setups_ok db \<Longrightarrow> setups_ok (snd (update_setup dt rid body user db))"
  unfolding update_setup_def
  by (intro setups_respond) (auto intro!: setups_respond dest: setups_saved split: option.split sum.split)

lemma setups_after_delete: "setups_ok db \<Longrightarrow> setups_ok (snd (delete_run rid user db))"
  unfolding delete_run_def by (intro setups_respond) (auto intro!: setups_respond dest: setups_deleted)

lemma respond_same:
  "rb_setups db' = rb_setups db \<Longrightarrow> (\<And>x. r = Inr x \<Longrightarrow> rb_setups (snd (f x db')) = rb_setups db) \<Longrightarrow>
   rb_setups (snd (respond r f db')) = rb_setups db"
  by (cases r) (simp_all add: respond_def)

lemma setups_overridden:
  "rb_setups (snd (submit_override oid rid vid reason user db)) = rb_setups db"
  unfolding submit_override_def
  by (intro respond_same) (auto intro!: respond_same split: option.split json.split list.split)

lemma setups_corrected:
  "rb_setups (snd (submit_correction search ps ok cid oid now rid q user db)) = rb_setups db"
  unfolding submit_correction_def Let_def
  by (intro respond_same) (auto intro!: respond_same simp: save_override_def split: if_splits)

lemma setups_rerun: "rb_setups (snd (rerun_evaluation wr rid b nid now user db)) = rb_setups db"
  unfolding rerun_evaluation_def by (rule respond_same) (auto simp: rerun_commit_def split: list.split)

lemmas setups_simple = get_setup_def confirm_run_def confirm_commit_def re_evaluate_def re_evaluate_commit_def
  cancel_run_def add_run_collaborator_def remove_run_collaborator_def get_results_def run_report_or_404_def

lemma serve_setups:
  assumes "setups_ok db"
  shows "setups_ok (snd (serve sv user rq db))"
proof (cases rq)
  case (ReqOverride oid rid vid reason)
  then show ?thesis using assms by (simp add: unscheduled_def setups_ok_def setups_overridden)
next
  case (ReqCorrect cid oid now rid q)
  then show ?thesis using assms by (simp add: unscheduled_def setups_ok_def setups_corrected)
next
  case (ReqRerun rid b nid now)
  then show ?thesis using assms by (simp add: launching_def setups_ok_def setups_rerun)
qed (use assms in \<open>auto simp: unscheduled_def launching_def setups_after_delete setups_edited setups_started setups_simple Let_def
    intro!: setups_respond split: option.split sum.split exn.split\<close>)

definition serve_all :: "server \<Rightarrow> (token_data \<times> run_request) list \<Rightarrow> run_db \<Rightarrow> run_db" where
  "serve_all sv rqs db = foldl (\<lambda>db (user, rq). snd (serve sv user rq db)) db rqs"

lemma serve_all_others:
  assumes "setups_ok db" and "list_all (\<lambda>(user, _). td_org_id user = org) rqs"
  shows "others org (serve_all sv rqs db) = others org db"
  using assms
proof (induction rqs arbitrary: db)
  case (Cons urq rqs)
  obtain user rq where urq: "urq = (user, rq)" by fastforce
  have "others org (serve_all sv (urq # rqs) db) = others org (serve_all sv rqs (snd (serve sv user rq db)))"
    by (simp add: serve_all_def urq)
  also have "... = others org (snd (serve sv user rq db))"
    using Cons serve_setups by (simp add: urq)
  also have "... = others org db"
    using Cons.prems serve_others[of db user sv rq] by (simp add: urq setups_ok_def)
  finally show ?case .
qed (simp add: serve_all_def)

section \<open>Launches\<close>

fun launched :: "task \<Rightarrow> (string \<times> string) option" where
  "launched (RunPipeline run_id org_id) = Some (run_id, org_id)"
| "launched (RerunPipeline original_id new_id org_id bypass) = Some (original_id, org_id)"
| "launched (RefineSetup setup_id org_id) = None"

lemma fst_respond_Inr: "fst (respond r f db) = Inr y \<longleftrightarrow> (\<exists>x. r = Inr x \<and> fst (f x db) = Inr y)"
  by (cases r) (simp_all add: respond_def)

lemma launching_iff: "t \<in> set (fst (launching h)) \<longleftrightarrow> (\<exists>ts. fst h = Inr ts \<and> t \<in> set ts)"
  by (cases "fst h") (simp_all add: launching_def)

lemma start_launches: "fst (start_evaluation wr env rid now q user db) = Inr ts \<Longrightarrow> t \<in> set ts \<Longrightarrow> launched t = None"
  unfolding start_evaluation_def Let_def by (auto simp: fst_respond_Inr split: prod.splits)

lemma serve_launches:
  assumes "t \<in> set (fst (serve sv user rq db))" and "launched t = Some (run_id, org_id)"
  shows "td_role user \<in> set (sr_write_roles sv) \<and> org_id = td_org_id user \<and> (\<exists>run. load_run run_id user db = Inr run)"
proof (cases rq)
  case (ReqStart env rid now q)
  then show ?thesis using assms start_launches by (fastforce simp: launching_iff)
next
  case (ReqConfirm rid)
  then show ?thesis using assms
    by (auto simp: launching_iff fst_respond_Inr confirm_run_def confirm_check_def confirm_commit_def fbind_Inr_iff
        require_write_role_def split: if_splits)
next
  case (ReqReEvaluate rid)
  then show ?thesis using assms
    by (auto simp: launching_iff fst_respond_Inr re_evaluate_def re_evaluate_check_def re_evaluate_commit_def fbind_Inr_iff
        require_write_role_def split: if_splits)
next
  case (ReqRerun rid b nid now)
  then show ?thesis using assms
    by (auto simp: launching_iff fst_respond_Inr rerun_evaluation_def rerun_check_def rerun_commit_def fbind_Inr_iff
        require_write_role_def split: if_splits list.splits)
qed (use assms in \<open>auto simp: unscheduled_def\<close>)

end
