(* ===== verification/Run_Fates.thy ===== *)
theory Run_Fates
  imports Run_Requests "HOL-Library.Sublist"
begin

text \<open>
  What becomes of a run in unhappy cases: its report cannot pass the critic (\<open>stranded_requests\<close>), it is cancelled
  while its pipeline goes on (\<open>cancelled_completes\<close>), it shares its setup with a rerun (\<open>shared_setup_undeletable\<close>).
  And what a client sees of it: the stream delivers every event once (\<open>stream_delivers_all\<close>).
\<close>

section \<open>Requests after writes\<close>

lemma truncate_write_on [simp]: "run_row.truncate (write_on now r w) = run_row.truncate r"
  by (cases w) (simp_all add: run_row.truncate_def split: option.split)

lemma access_update_run:
  assumes "\<And>r. run_row.truncate (f r) = run_row.truncate r"
  shows "access_of (update_run run_id org_id f db) = access_of db"
  using assms by (simp add: access_of_def update_run_def comp_def if_distrib[of run_row.truncate] cong: if_cong)

lemma access_audit [simp]: "access_of (audit o' r t a g db) = access_of db"
  by (simp add: access_of_def audit_def split: option.split)

lemma access_apply_write: "access_of (apply_write run_id org_id now db w) = access_of db"
  by (cases w) (auto simp: db_append_event_def db_save_decision_def db_save_explanation_def db_update_status_def
      access_update_run run_row.truncate_def split: option.split)

lemma access_apply_writes [simp]: "access_of (apply_writes run_id org_id now db ws) = access_of db"
  by (induction ws arbitrary: db) (simp_all add: apply_writes_def access_apply_write)

lemma load_run_Inr:
  "load_run run_id user db = Inr run \<longleftrightarrow> db_get_run run_id (td_org_id user) db = Inr run \<and>
     require_run_access (access_of db) user (run_row.truncate run) = Inr ()"
  by (auto simp: load_run_def fbind_Inr_iff)

lemma truncate_writes [simp]: "run_row.truncate (foldl (write_on now) r ws) = run_row.truncate r"
  by (induction ws arbitrary: r) simp_all

lemma load_run_writes:
  "load_run run_id user db = Inr run \<Longrightarrow>
   load_run run_id user (apply_writes run_id (td_org_id user) now db ws) = Inr (foldl (write_on now) run ws)"
  by (simp add: load_run_Inr get_apply_writes)

section \<open>A report that never passes\<close>

lemma exhausted_row:
  assumes "load_run run_id user db = Inr run" and "load_state env run_id (td_org_id user) db = Inr s0"
    and "report_exhausted env s0"
  shows "\<exists>run'. load_run run_id user (run_pipeline env run_id (td_org_id user) now db) = Inr run' \<and>
    er_status run' = er_status run"
proof -
  let ?ws = "pipeline_writes env run_id (td_org_id user) db"
  have "fresh_start s0" using load_state_fresh[OF assms(2)] assms(1) by (simp add: load_run_Inr)
  then have "er_status (foldl (write_on now) run ?ws) = er_status run"
    using graph_outcome[of s0 env now run] assms(2,3) by (simp add: pipeline_writes_def cost_row)
  then show ?thesis using load_run_writes[OF assms(1)] by (auto simp: run_pipeline_def)
qed

text \<open>What can be requested of a running run that will never end.\<close>

lemma running_requests:
  assumes "load_run run_id user db = Inr run" and "er_status run = ''running''"
  shows "isl (fst (confirm_run wr run_id user db))" "isl (fst (re_evaluate wr run_id user db))"
    "isl (fst (rerun_evaluation wr run_id b nid now user db))" "isl (fst (delete_run run_id user db))"
    "fst (cancel_run run_id now user db) = Inr ()"
    "poll_run run_id (td_org_id user) db = PollRow (er_events run) ''running''"
proof -
  show "isl (fst (confirm_run wr run_id user db))" "isl (fst (re_evaluate wr run_id user db))"
    "isl (fst (rerun_evaluation wr run_id b nid now user db))" "isl (fst (delete_run run_id user db))"
    "fst (cancel_run run_id now user db) = Inr ()"
    using assms by (simp_all add: confirm_run_def confirm_check_def re_evaluate_def re_evaluate_check_def rerun_evaluation_def
        rerun_check_def delete_run_def cancel_run_def respond_def require_write_role_def)
  show "poll_run run_id (td_org_id user) db = PollRow (er_events run) ''running''"
    using assms by (simp add: poll_run_def load_run_Inr)
qed

section \<open>Cancelling\<close>

lemma effect_no_decision [simp]: "effect_write e \<noteq> WDecision d" "WDecision d \<noteq> effect_write e"
  by (cases e; simp)+

lemma finish_no_decision: "WDecision d \<in> set (finish_writes env s) \<Longrightarrow>
  \<exists>dec. ps_decision_output s = Some dec \<and> d = decision_dict (pe_decision_id env) (pe_deadline env) dec \<and> clean_pairs d \<noteq> None"
  by (auto simp: finish_writes_def blocked_writes_def Let_def split: option.splits if_splits)

text \<open>What is left of a pipeline whose decision is not stored yet.\<close>

lemma rest_of_writes:
  assumes "graph_writes env s0 = ws1 @ ws2" and "WDecision d \<in> set ws2"
  shows "\<exists>s es dec. final_state env s0 = Some s \<and> ps_decision_output s = Some dec \<and>
    d = decision_dict (pe_decision_id env) (pe_deadline env) dec \<and> clean_pairs d \<noteq> None \<and>
    ws2 = map effect_write es @ finish_writes env s"
proof -
  obtain n s tr where run: "run_graph (pe_cfg env) (pe_world env) 25 (PLANNER, s0, []) = Inr (Some (n, s, tr))"
      and w: "graph_writes env s0 = map effect_write tr @ (if ps_blocked s then [] else finish_writes env s)"
  proof -
    have "WDecision d \<in> set (graph_writes env s0)" using assms by simp
    then have "graph_writes env s0 \<noteq> blocked_writes" by (auto simp: blocked_writes_def)
    then show thesis using that by (auto simp: graph_writes_def split: sum.splits option.splits prod.splits)
  qed
  have "WDecision d \<in> set (map effect_write tr @ (if ps_blocked s then [] else finish_writes env s))"
    using assms by (metis Un_iff set_append w)
  then have nb: "\<not> ps_blocked s" and d: "WDecision d \<in> set (finish_writes env s)" by (auto split: if_splits)
  obtain dec where dec: "ps_decision_output s = Some dec" "d = decision_dict (pe_decision_id env) (pe_deadline env) dec"
      "clean_pairs d \<noteq> None" using finish_no_decision[OF d] by blast
  obtain rest where fin: "finish_writes env s = WDecision d # rest" and rest: "WDecision d \<notin> set rest"
    using dec by (auto simp: finish_writes_def Let_def split: option.splits)
  have eq: "ws1 @ ws2 = map effect_write tr @ finish_writes env s" using assms(1) w nb by simp
  then obtain us where "ws1 @ us = map effect_write tr \<and> ws2 = us @ finish_writes env s \<or>
      ws1 = map effect_write tr @ us \<and> us @ ws2 = finish_writes env s" by (auto simp: append_eq_append_conv2)
  then have "\<exists>us. ws1 @ us = map effect_write tr \<and> ws2 = us @ finish_writes env s"
  proof
    assume us: "ws1 = map effect_write tr @ us \<and> us @ ws2 = finish_writes env s"
    then have "us = []" using fin rest assms(2) by (cases us) auto
    then show ?thesis using us by simp
  qed blast
  then obtain us es where "map effect_write es = us" "ws2 = us @ finish_writes env s" by (metis map_eq_append_conv)
  then show ?thesis using run dec by (auto simp: final_state_def)
qed

lemma cancelled_completes:
  assumes "graph_writes env s0 = ws1 @ ws2" and "WDecision d \<in> set ws2" and "fst (cancel_run run_id t user db) = Inr ()"
  shows "\<exists>r r'. db_get_run run_id (td_org_id user) (snd (cancel_run run_id t user db)) = Inr r \<and> er_status r = ''interrupted'' \<and>
    db_get_run run_id (td_org_id user) (apply_writes run_id (td_org_id user) now (snd (cancel_run run_id t user db)) (ws2 @ cost_writes env)) = Inr r' \<and>
    er_status r' = ''complete'' \<and> er_decision r' = clean_pairs d"
proof -
  obtain s es dec x where s: "ps_decision_output s = Some dec" "d = decision_dict (pe_decision_id env) (pe_deadline env) dec"
      "clean_pairs d = Some x" "ws2 = map effect_write es @ finish_writes env s"
    using rest_of_writes[OF assms(1,2)] by blast
  obtain run where run: "load_run run_id user db = Inr run"
      and c: "snd (cancel_run run_id t user db) = db_update_status run_id (td_org_id user) ''interrupted'' True t db"
    using assms(3) by (auto simp: cancel_run_def respond_def split: sum.splits if_splits)
  let ?r = "run\<lparr>er_status := ''interrupted'', er_completed_at := Some t\<rparr>"
  have "db_get_run run_id (td_org_id user) (snd (cancel_run run_id t user db)) = Inr ?r"
    using run by (simp add: c load_run_Inr db_update_status_def get_update_run keeps_key_def)
  then show ?thesis using finish_row[of s dec env x] s by (simp add: get_apply_writes cost_row)
qed

section \<open>A shared setup\<close>

lemma rbind_Inl_iff: "rbind r f = Inl e \<longleftrightarrow> r = Inl e \<or> (\<exists>x. r = Inr x \<and> f x = Inl e)"
  by (cases r) simp_all

lemma find_append_old: "List.find P xs = Some x \<Longrightarrow> List.find P (xs @ ys) = Some x"
  by (induction xs) (auto split: if_splits)

lemma delete_parts_error:
  "delete_documents rfp org_id db = Inl e \<Longrightarrow> \<exists>m. e = ExternalError m"
  "delete_run_row rid org_id db = Inl e \<Longrightarrow> \<exists>m. e = ExternalError m"
  "delete_setup sid org_id db = Inl e \<Longrightarrow> \<exists>m. e = ExternalError m"
  by (auto simp: delete_documents_def delete_run_row_def delete_setup_def Let_def split: if_splits option.splits)

lemma delete_txn_error:
  assumes "delete_txn run run_id org_id db = Inl e"
  shows "\<exists>m. e = ExternalError m"
proof -
  have "(\<exists>db1. delete_documents (er_rfp_id run) org_id db1 = Inl e) \<or> (\<exists>db2. delete_run_row run_id org_id db2 = Inl e) \<or>
      (\<exists>sid db3. delete_setup sid org_id db3 = Inl e)"
    using assms unfolding delete_txn_def Let_def rbind_Inl_iff by (metis Inl_Inr_False)
  then show ?thesis using delete_parts_error by blast
qed

lemma shared_setup_kept:
  assumes "er_setup_id run = Some sid" and "sid \<noteq> []" and "db_get_setup (Some sid) org_id db \<noteq> None"
    and "r \<in> set (rb_runs db)" and "rr_run_id r \<noteq> run_id" and "er_setup_id r = Some sid"
  shows "\<exists>m. delete_txn run run_id org_id db = Inl (ExternalError m)"
proof (rule ccontr)
  assume "\<nexists>m. delete_txn run run_id org_id db = Inl (ExternalError m)"
  then obtain db' where "delete_txn run run_id org_id db = Inr db'"
    using delete_txn_error by (cases "delete_txn run run_id org_id db") blast+
  then show False
  proof (rule delete_txn_parts)
    fix db1 db2 db3 sid'
    assume db1: "rb_setups db1 = rb_setups db" "rb_runs db1 = rb_runs db"
      and sid': "sid' = (case er_setup_id run of None \<Rightarrow> [] | Some s \<Rightarrow> s)"
      and d: "delete_documents (er_rfp_id run) org_id db1 = Inr db2"
      and r: "delete_run_row run_id org_id (if sid' = [] then db2 else delete_facts sid' org_id db2) = Inr db3"
      and s: "(if sid' = [] then Inr db3 else delete_setup sid' org_id db3) = Inr db'"
    have id: "sid' = sid" using sid' assms(1) by simp
    have "rb_runs db2 = rb_runs db" using d db1(2) by (auto simp: delete_documents_def Let_def split: if_splits)
    then have "r \<in> set (rb_runs db3)"
      using assms(4,5) r by (auto simp: delete_run_row_def delete_facts_def split: if_splits)
    then have "list_ex (\<lambda>r. er_setup_id r = Some sid) (rb_runs db3)" using assms(6) by (auto simp: list_ex_iff)
    moreover have "rb_setups db3 = rb_setups db" using delete_txn_setups[OF d r] db1(1) by simp
    ultimately show False using s assms(2,3) by (auto simp: id delete_setup_def db_get_setup_def split: option.splits if_splits)
  qed
qed

lemma rerun_shares:
  assumes "rerun_evaluation wr run_id b nid now user db = (Inr ts, db1)" and "db_get_run run_id (td_org_id user) db = Inr run"
  shows "er_status run \<in> {''complete'', ''blocked''}" and "rb_setups db1 = rb_setups db"
    and "\<exists>r \<in> set (rb_runs db1). rr_run_id r = nid \<and> er_setup_id r = er_setup_id run"
    and "db_get_run run_id (td_org_id user) db1 = Inr run"
proof -
  let ?mine = "\<lambda>r. rr_run_id r = run_id \<and> rr_org_id r = td_org_id user"
  have st: "er_status run \<in> {''complete'', ''blocked''}" and c: "rerun_commit run_id b nid now user db = (Inr ts, db1)"
    using assms by (auto simp: rerun_evaluation_def respond_def rerun_check_def load_run_def fbind_Inr_iff split: sum.splits if_splits)
  show "er_status run \<in> {''complete'', ''blocked''}" by (rule st)
  have f: "List.find ?mine (rb_runs db) = Some run" using assms(2) by (auto simp: db_get_run_def split: option.splits)
  then have "run \<in> set (filter ?mine (rb_runs db))" by (auto simp: find_Some_iff in_set_conv_nth)
  then obtain rs where rs: "filter ?mine (rb_runs db) = rs" "run \<in> set rs" by blast
  have db1: "db1 = audit (td_org_id user) (Some nid) ''run.rerun_started'' (td_email user) None
      (db\<lparr>rb_runs := rb_runs db @ map (cloned_run nid (td_email user) now) rs\<rparr>)"
    using c rs by (cases rs) (auto simp: rerun_commit_def)
  show "rb_setups db1 = rb_setups db" by (simp add: db1)
  have "cloned_run nid (td_email user) now run \<in> set (rb_runs db1)" using rs(2) by (simp add: db1 audit_def)
  then show "\<exists>r \<in> set (rb_runs db1). rr_run_id r = nid \<and> er_setup_id r = er_setup_id run"
    by (intro bexI[of _ "cloned_run nid (td_email user) now run"]) (auto simp: cloned_run_def)
  have "db_get_run run_id (td_org_id user) (db\<lparr>rb_runs := rb_runs db @ xs\<rparr>) = Inr run" for xs
    using find_append_old[OF f] by (simp add: db_get_run_def)
  then show "db_get_run run_id (td_org_id user) db1 = Inr run" by (simp add: db1)
qed

section \<open>The stream\<close>

text \<open>The rows a client reads, up to the first one that ends the stream.\<close>

fun rows_read :: "poll list \<Rightarrow> json list list" where
  "rows_read [] = []"
| "rows_read (PollRow events status # ps) = events # (if terminal_status status then [] else rows_read ps)"
| "rows_read (p # ps) = rows_read ps"

fun sse_events :: "sse list \<Rightarrow> json list" where
  "sse_events [] = []"
| "sse_events (SseEvent e # xs) = e # sse_events xs"
| "sse_events (x # xs) = sse_events xs"

lemma sse_events_append [simp]: "sse_events (map SseEvent es @ xs) = es @ sse_events xs"
  by (induction es) simp_all

lemma stream_from:
  assumes "PollMissing \<notin> set ps" and "sorted_wrt prefix (seen # rows_read ps)"
  shows "seen @ sse_events (event_stream (length seen) ps) = last (seen # rows_read ps)"
  using assms
proof (induction ps arbitrary: seen)
  case (Cons p ps)
  show ?case
  proof (cases p)
    case (PollRow events status)
    then have "prefix seen events" using Cons.prems(2) by simp
    then obtain new where ev: "events = seen @ new" by (auto simp: prefix_def)
    show ?thesis
    proof (cases "terminal_status status")
      case False
      then have "events @ sse_events (event_stream (length events) ps) = last (events # rows_read ps)"
        using Cons.IH[of events] Cons.prems PollRow by simp
      then show ?thesis using False by (simp add: PollRow ev)
    qed (simp add: PollRow ev)
  qed (use Cons in simp_all)
qed simp

lemma stream_delivers_all:
  assumes "PollMissing \<notin> set ps" and "sorted_wrt prefix (rows_read ps)"
  shows "sse_events (event_stream 0 ps) = last ([] # rows_read ps)"
  using stream_from[of ps "[]"] assms by simp

text \<open>The events of a run only grow while its pipeline writes.\<close>

lemma events_grow: "prefix (er_events r) (er_events (foldl (write_on now) r ws))"
proof (induction ws arbitrary: r)
  case (Cons w ws)
  have "prefix (er_events r) (er_events (write_on now r w))" by (cases w) (simp_all split: option.split)
  then show ?case using Cons.IH[of "write_on now r w"] by (auto intro: prefix_order.trans)
qed simp

text \<open>The decision's write already ends the stream, before the last event is appended.\<close>

lemma stream_ends_early:
  assumes "db_get_run run_id org_id db = Inr run" and "clean_pairs d = Some x"
  shows "event_stream (length (er_events run)) [poll_run run_id org_id (apply_write run_id org_id now db (WDecision d))] = [SseDone ''complete'']"
  using assms by (simp add: poll_run_def get_apply_write terminal_status_def del: apply_write.simps)

section \<open>Comparing a rerun\<close>

text \<open>A stored decision has no \<open>recommended_vendor\<close>: the winner is never compared.\<close>

lemma winner_never_stored:
  assumes "clean_pairs (decision_dict i t dec) = Some d"
  shows "dm_winner (extract_decision_summary d) = None"
  using assms by (auto simp: decision_dict_def extract_decision_summary_def clean_string_plain backslash_def split: option.splits)

end
