(* ===== verification/Setup_Laws.thy ===== *)
theory Setup_Laws
  imports Run_Requests
begin

text \<open>
  The life of a stored setup: what \<open>/start\<close> stores is read back as the setup it validated (\<open>parse_dump_setup\<close>,
  \<open>started_run_loads\<close>), and the refinement in the background replaces the lists a user has edited meanwhile
  (\<open>refined_replaces\<close>).
\<close>

section \<open>Reading back what was stored\<close>

lemma as_str_Inr [simp]: "as_str v = Inr s \<longleftrightarrow> v = JStr s"
  by (cases v) auto

lemma opt_str_Inr: "opt_str v = Inr x \<longleftrightarrow> (v = JNull \<and> x = None \<or> (\<exists>s. v = JStr s \<and> x = Some s))"
  by (cases v) (auto simp: rbind_Inr_iff)

lemma to_float_num [simp]: "as_float (JNum x) = Inr x"
  by (simp add: as_float_def)

lemma as_strs [simp]: "as_str_list (jstrs ss) = Inr ss"
proof -
  have "as_str_elems (map JStr ss) = Inr ss" by (induction ss) simp_all
  then show ?thesis by (simp add: jstrs_def)
qed

lemmas parse_defs = field_def optional_field_def annotations_ok_def is_str_def

lemma parse_dump_check: "setup_check k = Inr c \<Longrightarrow> parse_check (dump_check k) = Inr c"
  by (auto simp: setup_check_def dump_check_def parse_check_def parse_defs rbind_Inr_iff opt_str_Inr)

lemma parse_dump_score: "setup_score k = Inr c \<Longrightarrow> parse_criterion (dump_score k) = Inr c"
  by (auto simp: setup_score_def dump_score_def parse_criterion_def parse_defs rbind_Inr_iff opt_str_Inr)

lemma parse_dump_target: "setup_target k = Inr c \<Longrightarrow> parse_extraction_target (dump_target k) = Inr c"
  by (auto simp: setup_target_def dump_target_def parse_extraction_target_def parse_defs rbind_Inr_iff)

lemma parse_dump_default:
  "parse_check (dump_default_check c) = Inr c" "parse_criterion (dump_default_score s) = Inr s"
  "parse_extraction_target (dump_default_target t) = Inr t"
  by (simp_all add: dump_default_check_def parse_check_def dump_default_score_def parse_criterion_def
      dump_default_target_def parse_extraction_target_def parse_defs)

lemma parse_dumped:
  assumes "rmap conv xs = Inr ys" and "\<And>x y. conv x = Inr y \<Longrightarrow> parse (f x) = Inr y" and "\<And>d. parse (g d) = Inr d"
  shows "rmap parse (case dumped f xs g ds of JArr js \<Rightarrow> js | _ \<Rightarrow> []) = Inr (or_default ys ds)"
proof -
  have "rmap parse (map f xs) = Inr ys" using assms(1,2) by (induction xs arbitrary: ys) (auto simp: rbind_Inr_iff)
  moreover have "rmap parse (map g ds) = Inr ds" using assms(3) by (induction ds) simp_all
  moreover have "xs = [] \<longleftrightarrow> ys = []" using rmap_Inr_length[OF assms(1)] by (metis length_0_conv)
  ultimately show ?thesis by (simp add: dumped_def or_default_def)
qed

lemma dumped_list: "as_list (dumped f xs g ds) = Inr (case dumped f xs g ds of JArr js \<Rightarrow> js | _ \<Rightarrow> [])"
  by (simp add: dumped_def)

lemma parse_dump_setup:
  assumes "setup_of_merged sid m = Inr s"
  shows "parse_setup datetime_ok (dump_setup org_id department rfp_id m s) = Inr s"
proof -
  obtain checks scores targets where c: "rmap setup_check (mg_mandatory_checks m) = Inr checks"
      and k: "rmap setup_score (mg_scoring_criteria m) = Inr scores"
      and t: "rmap setup_target (mg_extraction_targets m) = Inr targets"
      and mk: "make_setup \<lparr>es_setup_id = sid, es_mandatory_checks = or_default checks default_checks,
          es_scoring_criteria = or_default scores default_scores, es_extraction_targets = or_default targets default_targets,
          es_total_weight = py_round 3 (sum_list (map sc_weight (or_default scores default_scores)))\<rparr> = Inr s"
    using assms by (auto simp: setup_of_merged_def rbind_Inr_iff Let_def)
  have s: "s = \<lparr>es_setup_id = sid, es_mandatory_checks = or_default checks default_checks,
      es_scoring_criteria = or_default scores default_scores, es_extraction_targets = or_default targets default_targets,
      es_total_weight = py_round 3 (sum_list (map sc_weight (or_default scores default_scores)))\<rparr>"
    by (rule make_setup_Inr(1)[OF mk])
  show ?thesis
    using mk parse_dumped[OF c parse_dump_check parse_dump_default(1)] parse_dumped[OF k parse_dump_score parse_dump_default(2)]
      parse_dumped[OF t parse_dump_target parse_dump_default(3)]
    by (simp add: parse_setup_def dump_setup_def parse_defs dumped_list s[symmetric]) (simp add: s)
qed

section \<open>A started run can be loaded\<close>

lemma saved_setup_found:
  assumes "save_evaluation_setup j org_id db = Inr db'" and "dict_get j ''setup_id'' = Some (JStr sid)"
  shows "db_get_setup (Some sid) org_id db' = Some j" "rb_runs db' = rb_runs db"
proof -
  obtain row where "db' = db\<lparr>rb_setups := dict_set sid row (rb_setups db)\<rparr>" "su_org_id row = org_id" "su_json row = j"
    using assms by (cases "dict_get (rb_setups db) sid") (auto simp: save_evaluation_setup_def split: if_splits)
  then show "db_get_setup (Some sid) org_id db' = Some j" "rb_runs db' = rb_runs db" by (simp_all add: db_get_setup_def)
qed

lemma find_append_new: "(\<And>y. y \<in> set xs \<Longrightarrow> \<not> P y) \<Longrightarrow> P x \<Longrightarrow> List.find P (xs @ [x]) = Some x"
  by (induction xs) auto

lemma insert_documents_kept [simp]:
  "rb_runs (foldl (insert_document env o' rfp sid) db xs) = rb_runs db"
  "rb_setups (foldl (insert_document env o' rfp sid) db xs) = rb_setups db"
  by (induction xs arbitrary: db) (auto simp: insert_document_def Let_def)

lemma inserted_run:
  assumes "insert_run env q user run_id rfp_id setup_id now vendors files db = Inr db'" and "run_id \<notin> rr_run_id ` set (rb_runs db)"
  shows "\<exists>vs names. text_array vendors = Inr vs \<and> rb_setups db' = rb_setups db \<and>
    db_get_run run_id (td_org_id user) db' = Inr (new_run q user run_id rfp_id setup_id now vs names)"
proof -
  obtain vs names where vs: "text_array vendors = Inr vs"
      and db': "db' = foldl (insert_document env (td_org_id user) rfp_id setup_id)
        (db\<lparr>rb_runs := rb_runs db @ [new_run q user run_id rfp_id setup_id now vs names]\<rparr>) files"
    using assms(1) by (auto simp: insert_run_def rbind_Inr_iff split: option.splits)
  have "List.find (\<lambda>r. rr_run_id r = run_id \<and> rr_org_id r = td_org_id user)
      (rb_runs db @ [new_run q user run_id rfp_id setup_id now vs names]) = Some (new_run q user run_id rfp_id setup_id now vs names)"
    using assms(2) by (intro find_append_new) (auto simp: new_run_def)
  then show ?thesis using vs by (auto simp: db_get_run_def db')
qed

lemma respond_Inr: "respond r f db = (Inr y, db') \<longleftrightarrow> (\<exists>x. r = Inr x \<and> f x db = (Inr y, db'))"
  by (cases r) (simp_all add: respond_def)

lemma request_setup_merged: "request_setup env sid = Inr (m, s, report) \<Longrightarrow> setup_of_merged sid m = Inr s"
  by (auto simp: request_setup_def rbind_Inr_iff Let_def case_prod_unfold)

lemma started_run_loads:
  assumes "start_evaluation wr env run_id now q user db = (Inr ts, db')" and "run_id \<notin> rr_run_id ` set (rb_runs db)"
    and "pe_org_settings penv = Inr ()"
  shows "\<exists>m s report s0. request_setup env (''setup-'' @ take 8 run_id) = Inr (m, s, report) \<and>
    load_state penv run_id (td_org_id user) db' = Inr s0 \<and> ps_evaluation_setup s0 = s"
proof -
  let ?rfp = "''rfp-'' @ take 8 run_id" and ?sid = "''setup-'' @ take 8 run_id" and ?org = "td_org_id user"
  obtain y db1 db2 vendors where y: "request_setup env ?sid = Inr y"
      and sv': "save_evaluation_setup (dump_setup ?org (sg_department q) ?rfp (fst y) (fst (snd y))) ?org db = Inr db1"
      and ins: "insert_run env q user run_id ?rfp ?sid now vendors (vendor_files_of (sg_vendor_files q)) db1 = Inr db2"
      and db': "db' = audit ?org (Some run_id) ''run.created'' (td_email user) None
        (if gr_has_gaps (snd (snd y)) then update_run run_id ?org (\<lambda>r. r\<lparr>er_gaps := Some (report_json (snd (snd y)))\<rparr>) db2 else db2)"
    using assms(1) unfolding start_evaluation_def Let_def case_prod_unfold respond_Inr raised_Inr by blast
  obtain m s report where rq: "request_setup env ?sid = Inr (m, s, report)" and ys: "y = (m, s, report)" using y by (cases y) auto
  note sv = sv'[unfolded ys fst_conv snd_conv]
  have mk: "setup_of_merged ?sid m = Inr s" by (rule request_setup_merged[OF rq])
  have "es_setup_id s = ?sid" using mk by (auto simp: setup_of_merged_def rbind_Inr_iff Let_def dest!: make_setup_Inr(1))
  then have "dict_get (dump_setup ?org (sg_department q) ?rfp m s) ''setup_id'' = Some (JStr ?sid)" by (simp add: dump_setup_def)
  note saved = saved_setup_found[OF sv this]
  obtain vs names where vs: "text_array vendors = Inr vs" "rb_setups db2 = rb_setups db1"
      "db_get_run run_id ?org db2 = Inr (new_run q user run_id ?rfp ?sid now vs names)"
    using inserted_run[OF ins] assms(2) saved(2) by auto
  have "\<exists>run. db_get_run run_id ?org db' = Inr run \<and> er_setup_id run = Some ?sid"
    using vs(3) by (simp add: db' get_update_run keeps_key_def new_run_def)
  moreover have "db_get_setup (Some ?sid) ?org db' = Some (dump_setup ?org (sg_department q) ?rfp m s)"
    using saved(1) vs(2) by (simp add: db' db_get_setup_def audit_def update_run_def split: option.splits)
  moreover have "dump_setup ?org (sg_department q) ?rfp m s \<noteq> []" by (simp add: dump_setup_def)
  ultimately show ?thesis
    using parse_dump_setup[OF mk] assms(3) rq by (auto simp: load_state_def initial_state_def)
qed

section \<open>Edits and the refinement\<close>

text \<open>Whatever the stored lists are, the refinement writes its own.\<close>

lemma refined_replaces:
  assumes "refine_merged env = Inr m" and "mg_mandatory_checks m \<noteq> []"
    and "db_get_setup (Some sid) org_id db = Some j" and "dict_get j ''setup_id'' = Some (JStr sid)"
  shows "\<exists>j'. db_get_setup (Some sid) org_id (refine_setup env sid org_id db) = Some j' \<and>
    dict_get j' ''mandatory_checks'' = Some (JArr (map dump_check (mg_mandatory_checks m))) \<and>
    dict_get j' ''source'' = Some (JStr (mg_source m))"
proof -
  let ?j = "refine_json m j"
  have id: "dict_get ?j ''setup_id'' = Some (JStr sid)" using assms(4) by (simp add: refine_json_def)
  obtain row where row: "dict_get (rb_setups db) sid = Some row" "su_org_id row = org_id"
    using assms(3) by (auto simp: db_get_setup_def split: option.splits if_splits)
  then obtain db' where sv: "save_evaluation_setup ?j org_id db = Inr db'" by (simp add: save_evaluation_setup_def id)
  have "refine_setup env sid org_id db = db'" using assms sv by (simp add: refine_setup_def)
  then show ?thesis using saved_setup_found(1)[OF sv id] assms(2) by (simp add: refine_json_def)
qed

text \<open>When the second merge has criteria but no checks, the stored checks stay and lose their targets.\<close>

lemma parse_setup_parts:
  assumes "parse_setup datetime_ok j = Inr s"
  obtains cj tj where "dict_get j ''mandatory_checks'' = Some (JArr cj)" "rmap parse_check cj = Inr (es_mandatory_checks s)"
    "dict_get j ''extraction_targets'' = Some (JArr tj)" "rmap parse_extraction_target tj = Inr (es_extraction_targets s)"
    "make_setup s = Inr s"
proof -
  obtain checks targets s1 where "rbind (field j ''mandatory_checks'' as_list) (rmap parse_check) = Inr checks"
      and "rbind (field j ''extraction_targets'' as_list) (rmap parse_extraction_target) = Inr targets" and mk: "make_setup s1 = Inr s"
      and s1: "es_mandatory_checks s1 = checks" "es_extraction_targets s1 = targets"
    using assms unfolding parse_setup_def rbind_Inr_iff by auto
  moreover have "s1 = s" using make_setup_Inr(1)[OF mk] by simp
  moreover have "as_list v = Inr xs \<longleftrightarrow> v = JArr xs" for v xs by (cases v) auto
  ultimately show thesis using that by (auto simp: rbind_Inr_iff field_def split: option.splits)
qed

lemma parsed_target_ids: "rmap parse_extraction_target (map dump_target ts) = Inr targets \<Longrightarrow> map et_target_id targets = map kt_target_id ts"
  by (induction ts arbitrary: targets) (auto simp: rbind_Inr_iff parse_extraction_target_def dump_target_def parse_defs)

lemma refined_unreadable:
  assumes "refine_merged env = Inr m" and "mg_mandatory_checks m = []" and "mg_scoring_criteria m \<noteq> []"
    and "db_get_setup (Some sid) org_id db = Some j" and "parse_setup datetime_ok j = Inr s" and "es_setup_id s = sid"
    and "c \<in> set (es_mandatory_checks s)" and "mc_extraction_target_id c \<notin> kt_target_id ` set (mg_extraction_targets m)"
  shows "\<exists>j' e. db_get_setup (Some sid) org_id (refine_setup env sid org_id db) = Some j' \<and> parse_setup datetime_ok j' = Inl e"
proof -
  let ?j = "refine_json m j"
  have id: "dict_get ?j ''setup_id'' = Some (JStr sid)"
    using assms(5,6) by (auto simp: refine_json_def parse_setup_def rbind_Inr_iff field_def split: option.splits dest!: make_setup_Inr(1))
  obtain row where row: "dict_get (rb_setups db) sid = Some row" "su_org_id row = org_id"
    using assms(4) by (auto simp: db_get_setup_def split: option.splits if_splits)
  then obtain db' where sv: "save_evaluation_setup ?j org_id db = Inr db'" by (simp add: save_evaluation_setup_def id)
  have stored: "db_get_setup (Some sid) org_id (refine_setup env sid org_id db) = Some ?j"
    using saved_setup_found(1)[OF sv id] assms(1,3,4) sv by (simp add: refine_setup_def)
  have "parse_setup datetime_ok ?j \<noteq> Inr s'" for s'
  proof
    assume "parse_setup datetime_ok ?j = Inr s'"
    then obtain cj tj where new: "dict_get ?j ''mandatory_checks'' = Some (JArr cj)" "rmap parse_check cj = Inr (es_mandatory_checks s')"
        "dict_get ?j ''extraction_targets'' = Some (JArr tj)" "rmap parse_extraction_target tj = Inr (es_extraction_targets s')" "make_setup s' = Inr s'"
      by (rule parse_setup_parts)
    obtain cj' where old: "dict_get j ''mandatory_checks'' = Some (JArr cj')" "rmap parse_check cj' = Inr (es_mandatory_checks s)"
      using parse_setup_parts[OF assms(5)] by blast
    have "c \<in> set (es_mandatory_checks s')" using new(1,2) old assms(2,3,7) by (simp add: refine_json_def)
    then have "mc_extraction_target_id c \<in> et_target_id ` set (es_extraction_targets s')" by (rule make_setup_Inr(6)[OF new(5)])
    also have "tj = map dump_target (mg_extraction_targets m)" using new(3) assms(2,3) by (simp add: refine_json_def)
    then have "et_target_id ` set (es_extraction_targets s') = kt_target_id ` set (mg_extraction_targets m)"
      using parsed_target_ids new(4) by (metis set_map)
    finally show False using assms(8) by simp
  qed
  then show ?thesis using stored by (cases "parse_setup datetime_ok ?j") auto
qed

end
