(* ===== verification/Fact_Store_Laws.thy ===== *)
theory Fact_Store_Laws
  imports Fact_Store
begin

text \<open>
  What the fact tables promise. A save appends one row per item and touches nothing else (\<open>saved_rows\<close>), so
  saves accumulate; what is read for a vendor is what was saved for it, in any run (\<open>read_columns\<close>). A document
  id that is no UUID is stored as null, so these facts never count as already extracted.
\<close>

section \<open>One save\<close>

definition items_in :: "fact_table \<Rightarrow> extracted_item list \<Rightarrow> extracted_item list" where
  "items_in tbl items = filter (\<lambda>i. table_of i = tbl) items"

lemma items_in_simps [simp]:
  "items_in tbl [] = []" "items_in tbl (i # is) = (if table_of i = tbl then i # items_in tbl is else items_in tbl is)"
  by (simp_all add: items_in_def)

definition row_for :: "string option \<Rightarrow> string \<Rightarrow> string \<Rightarrow> fact_row \<Rightarrow> bool" where
  "row_for doc org_id vendor_id r \<longleftrightarrow> fw_doc_id r = doc \<and> fw_org_id r = org_id \<and> fw_vendor_id r = vendor_id"

lemma insert_item_Inr:
  assumes "insert_item doc org_id vendor_id setup_id t item = Inr t'"
  shows "tf_documents t' = tf_documents t" "tf_setups t' = tf_setups t"
    "\<exists>r. row_for doc org_id vendor_id r \<and> fw_columns r = columns_of item \<and>
       (\<forall>tbl. tf_rows t' tbl = (if tbl = table_of item then tf_rows t tbl @ [r] else tf_rows t tbl))"
  using assms by (auto simp: insert_item_def Let_def row_for_def split: if_splits)

lemma saved_items:
  assumes "rfold (insert_item doc org_id vendor_id setup_id) t items = Inr t'"
  shows "tf_documents t' = tf_documents t \<and> tf_setups t' = tf_setups t \<and>
    (\<forall>tbl. \<exists>new. tf_rows t' tbl = tf_rows t tbl @ new \<and> list_all (row_for doc org_id vendor_id) new \<and>
       map fw_columns new = map columns_of (items_in tbl items))"
  using assms
proof (induction items arbitrary: t)
  case (Cons i items)
  then obtain t1 where one: "insert_item doc org_id vendor_id setup_id t i = Inr t1"
      and rest: "rfold (insert_item doc org_id vendor_id setup_id) t1 items = Inr t'"
    by (auto simp: rbind_Inr_iff)
  note step = insert_item_Inr[OF one]
  obtain r where r: "row_for doc org_id vendor_id r" "fw_columns r = columns_of i"
      "\<And>tbl. tf_rows t1 tbl = (if tbl = table_of i then tf_rows t tbl @ [r] else tf_rows t tbl)"
    using step(3) by blast
  have "\<exists>new. tf_rows t' tbl = tf_rows t tbl @ new \<and> list_all (row_for doc org_id vendor_id) new \<and>
       map fw_columns new = map columns_of (items_in tbl (i # items))" for tbl
  proof -
    obtain new where n: "tf_rows t' tbl = tf_rows t1 tbl @ new" "list_all (row_for doc org_id vendor_id) new"
        "map fw_columns new = map columns_of (items_in tbl items)"
      using Cons.IH[OF rest] by blast
    show ?thesis
      using n r by (intro exI[of _ "(if tbl = table_of i then [r] else []) @ new"]) auto
  qed
  then show ?case using Cons.IH[OF rest] step(1,2) by simp
qed simp

lemma saved_rows:
  assumes "save_extraction_output uuid_of org_id vendor_id setup_id out doc_id t = Inr t'"
  obtains new where "tf_rows t' tbl = tf_rows t tbl @ new" "list_all (row_for (uuid_of doc_id) org_id vendor_id) new"
    "map fw_columns new = map columns_of (items_in tbl (output_items out))"
  using saved_items[OF assms[unfolded save_extraction_output_def]] by blast

lemma saved_keeps:
  assumes "save_extraction_output uuid_of org_id vendor_id setup_id out doc_id t = Inr t'"
  shows "tf_documents t' = tf_documents t" "tf_setups t' = tf_setups t"
  using saved_items[OF assms[unfolded save_extraction_output_def]] by simp_all

section \<open>Saves accumulate\<close>

definition vendor_columns :: "string \<Rightarrow> string \<Rightarrow> fact_tables \<Rightarrow> fact_table \<Rightarrow> (string, json) dict multiset" where
  "vendor_columns org_id vendor_id t tbl = mset (map fw_columns (vendor_rows org_id vendor_id t tbl))"

lemma filter_row_for: "list_all (row_for doc org_id vendor_id) new \<Longrightarrow>
   filter (\<lambda>r. fw_org_id r = o' \<and> fw_vendor_id r = v') new = (if o' = org_id \<and> v' = vendor_id then new else [])"
  by (induction new) (auto simp: row_for_def)

lemma saved_columns:
  assumes "save_extraction_output uuid_of org_id vendor_id setup_id out doc_id t = Inr t'"
  shows "vendor_columns o' v' t' tbl = vendor_columns o' v' t tbl +
    (if o' = org_id \<and> v' = vendor_id then mset (map columns_of (items_in tbl (output_items out))) else {#})"
proof -
  obtain new where new: "tf_rows t' tbl = tf_rows t tbl @ new" "list_all (row_for (uuid_of doc_id) org_id vendor_id) new"
      "map fw_columns new = map columns_of (items_in tbl (output_items out))"
    using saved_rows[OF assms] by blast
  have "mset (map fw_columns new) = mset (map columns_of (items_in tbl (output_items out)))" using new(3) by (rule arg_cong)
  then show ?thesis using new(1,2) by (simp add: vendor_columns_def vendor_rows_def filter_row_for)
qed

text \<open>The same output saved over and over.\<close>

fun save_times ::
  "nat \<Rightarrow> (string \<Rightarrow> string option) \<Rightarrow> string \<Rightarrow> string \<Rightarrow> string option \<Rightarrow> extraction_output \<Rightarrow> string \<Rightarrow> fact_tables \<Rightarrow> fact_tables result" where
  "save_times 0 uuid_of org_id vendor_id setup_id out doc_id t = Inr t"
| "save_times (Suc n) uuid_of org_id vendor_id setup_id out doc_id t =
     rbind (save_extraction_output uuid_of org_id vendor_id setup_id out doc_id t)
       (save_times n uuid_of org_id vendor_id setup_id out doc_id)"

lemma saved_times_columns:
  "save_times n uuid_of org_id vendor_id setup_id out doc_id t = Inr t' \<Longrightarrow>
   vendor_columns org_id vendor_id t' tbl =
     vendor_columns org_id vendor_id t tbl + repeat_mset n (mset (map columns_of (items_in tbl (output_items out))))"
  by (induction n arbitrary: t) (auto simp: rbind_Inr_iff saved_columns)

section \<open>Reading\<close>

definition json_columns :: "json \<Rightarrow> (string, json) dict" where
  "json_columns j = (case j of JObj kvs \<Rightarrow> drop 5 kvs | _ \<Rightarrow> [])"

lemma json_columns_row [simp]: "json_columns (row_json r) = fw_columns r"
  by (simp add: json_columns_def row_json_def)

lemma set_by_year [simp]: "set (by_year rows) = set rows"
  by (auto simp: by_year_def Let_def)

lemma set_by_target [simp]: "set (by_target rows) = set rows"
  by (simp add: by_target_def)

definition fact_key :: "fact_table \<Rightarrow> string" where
  "fact_key tbl = (case tbl of Certifications \<Rightarrow> ''certifications'' | Insurance \<Rightarrow> ''insurance'' | SLAs \<Rightarrow> ''slas''
     | Projects \<Rightarrow> ''projects'' | Pricing \<Rightarrow> ''pricing'' | CustomFacts \<Rightarrow> ''extracted_facts'')"

text \<open>The five standard tables are read without regard to the setup.\<close>

lemma read_rows:
  assumes "tbl \<noteq> CustomFacts"
  shows "set (get_default (get_vendor_facts org_id vendor_id setup_id t) (fact_key tbl) []) = row_json ` set (vendor_rows org_id vendor_id t tbl)"
  using assms by (cases tbl) (simp_all add: get_vendor_facts_def get_default_def fact_key_def Let_def)

lemma saved_item_read:
  assumes "save_extraction_output uuid_of org_id vendor_id setup_id out doc_id t = Inr t'"
    and "item \<in> set (output_items out)" "table_of item \<noteq> CustomFacts"
  shows "\<exists>j \<in> set (get_default (get_vendor_facts org_id vendor_id any_setup t') (fact_key (table_of item)) []). json_columns j = columns_of item"
proof -
  have "columns_of item \<in># mset (map columns_of (items_in (table_of item) (output_items out)))"
    using assms(2) by (auto simp: items_in_def)
  then have "columns_of item \<in># vendor_columns org_id vendor_id t' (table_of item)"
    by (simp add: saved_columns[OF assms(1)])
  then obtain r where "r \<in> set (vendor_rows org_id vendor_id t' (table_of item))" "fw_columns r = columns_of item"
    by (auto simp: vendor_columns_def)
  then show ?thesis unfolding read_rows[OF assms(3)] by (intro bexI[of _ "row_json r"]) auto
qed

section \<open>Document ids\<close>

lemma saved_without_document:
  assumes "save_extraction_output uuid_of org_id vendor_id setup_id out doc_id t = Inr t'" and "uuid_of doc_id = None"
  shows "facts_already_extracted rfp v t' \<longleftrightarrow> facts_already_extracted rfp v t"
proof -
  obtain new where new: "tf_rows t' CustomFacts = tf_rows t CustomFacts @ new" "list_all (row_for (uuid_of doc_id) org_id vendor_id) new"
    using saved_rows[OF assms(1)] by blast
  have "\<not> list_ex (\<lambda>r. fw_vendor_id r = v \<and>
      (case fw_doc_id r of None \<Rightarrow> False | Some d \<Rightarrow> dict_get (tf_documents t) d = Some rfp)) new"
    using new(2) assms(2) by (induction new) (auto simp: row_for_def)
  then show ?thesis unfolding facts_already_extracted_def new(1) saved_keeps(1)[OF assms(1)] by simp
qed

lemma unknown_document_fails:
  assumes "uuid_of doc_id = Some d" and "\<not> dict_mem d (tf_documents t)" and "output_items out \<noteq> []"
  shows "save_extraction_output uuid_of org_id vendor_id setup_id out doc_id t = Inl (ExternalError ''doc_id_fkey'')"
  using assms by (cases "output_items out") (auto simp: save_extraction_output_def insert_item_def Let_def)

text \<open>With known references every save succeeds.\<close>

lemma save_total:
  assumes "(case uuid_of doc_id of None \<Rightarrow> True | Some d \<Rightarrow> dict_mem d (tf_documents t))"
    and "(case setup_id of None \<Rightarrow> True | Some s \<Rightarrow> s \<in> set (tf_setups t))"
  shows "\<exists>t'. save_extraction_output uuid_of org_id vendor_id setup_id out doc_id t = Inr t'"
proof -
  have "\<exists>t'. rfold (insert_item (uuid_of doc_id) org_id vendor_id setup_id) s items = Inr t'"
    if "tf_documents s = tf_documents t" "tf_setups s = tf_setups t" for s items
    using that
  proof (induction items arbitrary: s)
    case (Cons i items)
    obtain s1 where s1: "insert_item (uuid_of doc_id) org_id vendor_id setup_id s i = Inr s1"
      using assms Cons.prems by (cases setup_id; cases "table_of i = CustomFacts") (auto simp: insert_item_def Let_def split: option.splits)
    show ?case using Cons.IH[of s1] insert_item_Inr(1,2)[OF s1] Cons.prems s1 by simp
  qed simp
  then show ?thesis by (simp add: save_extraction_output_def)
qed

end
