(* ===== verification/Demo_Runs.thy ===== *)
theory Demo_Runs
  imports Run_Fates Setup_Laws Demo_Access Demo_Store Demo_Criteria Demo_Facts Fact_Store_Laws
begin

text \<open>
  Concrete inputs for the witnesses about runs: a run of one vendor whose setup is stored as JSON, a pipeline
  whose report is never accepted and one whose vendor fails. Nothing here models code.
\<close>

definition demo_small_setup :: evaluation_setup where
  "demo_small_setup = demo_setup\<lparr>es_scoring_criteria := []\<rparr>"

definition demo_setup_json :: "(string, json) dict" where
  "demo_setup_json =
     [(''setup_id'', JStr ''E''), (''org_id'', JStr ''O''), (''department'', JStr ''IT''), (''rfp_id'', JStr ''R''),
      (''rfp_confirmed'', JBool False),
      (''mandatory_checks'', JArr [dump_default_check demo_check]), (''scoring_criteria'', JArr []),
      (''extraction_targets'', JArr [dump_default_target demo_target]), (''total_weight'', JNum 1),
      (''confirmed_by'', JStr ''pending''), (''source'', JStr ''merged'')]"

lemma demo_setup_parses: "parse_setup (\<lambda>_. True) demo_setup_json = Inr demo_small_setup"
  by code_simp

definition demo_eval_run :: "string \<Rightarrow> string \<Rightarrow> eval_run" where
  "demo_eval_run run_id status =
     \<lparr>rr_run_id = run_id, rr_org_id = ''O'', rr_created_by_email = Some ''u@o'', rr_creator_dept_id = None, rr_created_at = 1,
      er_setup_id = Some ''E'', er_rfp_id = ''R'', er_rfp_title = None, er_department = None, er_rfp_filename = None,
      er_status = status, er_vendor_ids = [''a''], er_contract_value = Some 1, er_currency = ''GBP'', er_vendor_names = JObj [],
      er_events = [], er_decision = None, er_explanation = None, er_gaps = None, er_completed_at = None, er_cost = None\<rparr>"

definition demo_rdb :: "string \<Rightarrow> run_db" where
  "demo_rdb status =
     \<lparr>rb_users = [], rb_depts = [], rb_collaborators = [], rb_assignments = [], rb_runs = [demo_eval_run ''r'' status],
      rb_setups = [(''E'', \<lparr>su_org_id = ''O'', su_json = demo_setup_json\<rparr>)], rb_documents = [], rb_facts = (\<lambda>_. []),
      rb_job_docs = [], rb_approvals = [], rb_decisions = [], rb_retrieval_log = [], rb_audit = [], rb_access_log = [],
      rb_overrides = [], rb_corrections = []\<rparr>"

definition demo_admin :: token_data where
  "demo_admin = \<lparr>td_email = ''u@o'', td_org_id = ''O'', td_role = ''company_admin'', td_dept_id = None, td_jti = Some ''j0''\<rparr>"

section \<open>Pipelines\<close>

text \<open>The model answers the explanation with something that is no JSON.\<close>

definition demo_mute_world :: world where
  "demo_mute_world = demo_world
     \<lparr>wd_retrieve := (\<lambda>_ _ _. Inr (demo_found, critic_out ''retrieval_agent'' [])),
      wd_extract := (\<lambda>_ _ _ _. Inr (empty_extraction, critic_out ''extraction_agent'' []))\<rparr>"

definition demo_penv :: "world \<Rightarrow> pipe_env" where
  "demo_penv w = \<lparr>pe_cfg = default_cfg, pe_world = w, pe_org_settings = Inr (), pe_datetime_ok = (\<lambda>_. True),
     pe_decision_id = ''d'', pe_deadline = ''t'', pe_explanation_json = (\<lambda>_. JNull), pe_cost = None\<rparr>"

definition demo_start :: pipeline_state where
  "demo_start = initial_state ''R'' ''rfp.pdf'' [''a''] 1 demo_small_setup []"

lemma demo_loads: "load_state (demo_penv w) ''r'' ''O'' (demo_rdb status) = Inr demo_start"
  by (simp add: load_state_def db_get_run_def demo_rdb_def demo_eval_run_def db_get_setup_def demo_penv_def demo_setup_parses
      text_or_def demo_start_def db_load_vendor_files_def dict_of_def) (simp add: demo_setup_json_def)

lemma demo_exhausted: "report_exhausted (demo_penv demo_mute_world) demo_start"
  by code_simp

lemma demo_not_exhausted: "\<not> report_exhausted (demo_penv demo_world) demo_start"
  by code_simp

lemma demo_decides: "\<exists>d. WDecision d \<in> set (graph_writes (demo_penv demo_world) demo_start)"
proof -
  have "list_ex (\<lambda>w. case w of WDecision d \<Rightarrow> True | _ \<Rightarrow> False) (graph_writes (demo_penv demo_world) demo_start)" by code_simp
  then obtain w where w: "w \<in> set (graph_writes (demo_penv demo_world) demo_start)" "case w of WDecision d \<Rightarrow> True | _ \<Rightarrow> False"
    unfolding list_ex_iff by blast
  have "\<exists>d. w = WDecision d" using w(2) by (cases w) simp_all
  with w(1) show ?thesis by blast
qed

section \<open>Requests\<close>

definition demo_server :: server where
  "demo_server = \<lparr>sr_write_roles = [''company_admin''], sr_datetime_ok = (\<lambda>_. True), sr_search = (\<lambda>_ _. None),
     sr_patterns = [], sr_override_saves = True\<rparr>"

text \<open>Beside the run of the organisation there is one of another organisation.\<close>

definition demo_shared_db :: run_db where
  "demo_shared_db = (demo_rdb ''complete'')\<lparr>rb_runs := [demo_eval_run ''r'' ''complete'', (demo_eval_run ''p'' ''complete'')\<lparr>rr_org_id := ''P''\<rparr>]\<rparr>"

text \<open>A start without criteria of any kind takes the default setup.\<close>

definition demo_syenv :: start_env where
  "demo_syenv = \<lparr>sy_loads = (\<lambda>_. Some (JObj [])), sy_sha256 = (\<lambda>s. s), sy_doc_id = (\<lambda>_. ''d''), sy_digest = (\<lambda>s. s),
     sy_gap_env = demo_gap_env, sy_org_templates = [], sy_dept_templates = [], sy_rfp_criteria = Inr (JObj []),
     sy_user_criteria = Inr (JObj [])\<rparr>"

definition demo_start_request :: start_request where
  "demo_start_request = \<lparr>sg_rfp_title = ''T'', sg_department = ''IT'', sg_contract_value = 1, sg_vendor_ids = [],
     sg_vendor_names = [], sg_rfp_filename = None, sg_vendor_files = [(Some ''a.txt'', ''x'')], sg_currency = ''gbp''\<rparr>"

lemma demo_started:
  "\<not> isl (fst (start_evaluation [''company_admin''] demo_syenv ''12345678-9'' 5 demo_start_request demo_admin (demo_rdb ''complete'')))"
  by code_simp

text \<open>The organisation has a criterion and no check.\<close>

definition demo_refine_env :: start_env where
  "demo_refine_env = demo_syenv\<lparr>sy_org_templates := demo_unchecked\<rparr>"

lemma unchecked_targets:
  "merge_criteria digest org dept rfp user = Inr m \<Longrightarrow> mg_mandatory_checks m = [] \<Longrightarrow> t \<in> set (mg_extraction_targets m) \<Longrightarrow>
   kt_target_id t \<noteq> ''T''"
  by (auto simp: merge_criteria_def rbind_Inr_iff Let_def build_targets_def score_target_def score_target_id_def split: if_splits)

lemma demo_refined:
  "\<exists>m. refine_merged demo_refine_env = Inr m \<and> mg_mandatory_checks m = [] \<and> mg_scoring_criteria m \<noteq> [] \<and>
     ''T'' \<notin> kt_target_id ` set (mg_extraction_targets m)"
proof -
  obtain m where m: "merge_criteria (\<lambda>s. s) demo_unchecked [] (JObj []) (JObj []) = Inr m" "mg_mandatory_checks m = []"
      "mg_scoring_criteria m \<noteq> []" using demo_unchecked_merged by blast
  have "''T'' \<notin> kt_target_id ` set (mg_extraction_targets m)"
    using unchecked_targets[OF m(1,2)] by force
  with m show ?thesis by (simp add: refine_merged_def demo_refine_env_def demo_syenv_def)
qed

section \<open>Facts\<close>

definition demo_output :: extraction_output where
  "demo_output = empty_extraction\<lparr>xo_certifications := fs_certifications demo_facts_state\<rparr>"

definition demo_fact_tables :: fact_tables where
  "demo_fact_tables = \<lparr>tf_documents = [], tf_setups = [], tf_rows = (\<lambda>_. []), tf_next = 0\<rparr>"

lemma demo_saved: "\<exists>t'. save_times 2 (\<lambda>_. None) ''O'' ''a'' None demo_output [] demo_fact_tables = Inr t'"
proof -
  have "\<not> isl (save_times 2 (\<lambda>_. None) ''O'' ''a'' None demo_output [] demo_fact_tables)" by code_simp
  then show ?thesis by (metis isl_def sum.exhaust)
qed

end
