(* ===== verification/Run_Properties.thy ===== *)
theory Run_Properties
  imports Demo_Runs Demo_Facts Fact_Store_Laws
begin

text \<open>
  The properties of evaluation runs over the tables: how a run ends, what cancelling, re-running and deleting do to
  it, what its stream delivers, who can change and launch it, that a stored setup is read back, and what saving facts
  again does. Each has its witness.
\<close>

section \<open>How a run ends\<close>

text \<open>C3: Every background run settles: when it is over the run's row is blocked, or it is complete and stores the
  graph's decision, in which every vendor of the run is shortlisted or rejected unless the run recorded it as failed.
  The only exception is a run whose report exhausted its retries.\<close>

theorem run_settles:
  assumes "db_get_run run_id org_id db = Inr run"
    and "case load_state env run_id org_id db of Inl _ \<Rightarrow> True | Inr s0 \<Rightarrow> \<not> report_exhausted env s0"
  shows "\<exists>run'. db_get_run run_id org_id (run_pipeline env run_id org_id now db) = Inr run' \<and>
    (er_status run' = ''blocked'' \<or> er_status run' = ''complete'' \<and>
      (\<exists>s0 d. load_state env run_id org_id db = Inr s0 \<and> er_decision run' = Some d \<and> decision_covers env s0 d))"
  using run_outcome[OF assms(1), of env now] assms(2)
  by (cases "load_state env run_id org_id db") (auto split: if_splits)

lemma run_settles_witness:
  "\<exists>run'. db_get_run ''r'' ''O'' (run_pipeline (demo_penv demo_world) ''r'' ''O'' 7 (demo_rdb ''running'')) = Inr run' \<and>
    er_status run' \<in> {''blocked'', ''complete''}"
proof -
  have "db_get_run ''r'' ''O'' (demo_rdb ''running'') = Inr (demo_eval_run ''r'' ''running'')"
    by (simp add: db_get_run_def demo_rdb_def demo_eval_run_def)
  from run_settles[OF this, of "demo_penv demo_world" 7] show ?thesis
    using demo_not_exhausted by (simp add: demo_loads) blast
qed



section \<open>Cancelling, re-running, deleting\<close>

text \<open>C14: Cancelling does not stop the pipeline: when a run is cancelled while its decision is not stored yet, the row
  is interrupted, and the rest of the pipeline's writes makes it complete again, with the decision.\<close>

theorem cancelled_run_completes:
  assumes "graph_writes env s0 = ws1 @ ws2" and "WDecision d \<in> set ws2" and "fst (cancel_run run_id t user db) = Inr ()"
  shows "\<exists>r r'. db_get_run run_id (td_org_id user) (snd (cancel_run run_id t user db)) = Inr r \<and> er_status r = ''interrupted'' \<and>
    db_get_run run_id (td_org_id user)
      (apply_writes run_id (td_org_id user) now (snd (cancel_run run_id t user db)) (ws2 @ cost_writes env)) = Inr r' \<and>
    er_status r' = ''complete'' \<and> er_decision r' = clean_pairs d"
  by (rule cancelled_completes[OF assms])

lemma cancelled_run_completes_witness:
  "\<exists>ws r'. db_get_run ''r'' ''O'' (apply_writes ''r'' ''O'' 9 (snd (cancel_run ''r'' 8 demo_admin (demo_rdb ''running''))) ws) = Inr r' \<and>
    er_status r' = ''complete''"
proof -
  let ?ws = "graph_writes (demo_penv demo_world) demo_start"
  obtain d where "WDecision d \<in> set ?ws" using demo_decides by blast
  moreover have "fst (cancel_run ''r'' 8 demo_admin (demo_rdb ''running'')) = Inr ()" by code_simp
  ultimately have "\<exists>r'. db_get_run ''r'' ''O'' (apply_writes ''r'' ''O'' 9 (snd (cancel_run ''r'' 8 demo_admin (demo_rdb ''running'')))
      (?ws @ cost_writes (demo_penv demo_world))) = Inr r' \<and> er_status r' = ''complete''"
    using cancelled_run_completes[of "demo_penv demo_world" demo_start "[]" ?ws d "''r''" 8 demo_admin "demo_rdb ''running''" 9]
    by (auto simp: demo_admin_def)
  then show ?thesis by blast
qed

text \<open>C15: A rerun shares its setup with the original, so the original can no longer be deleted: the deletion of the
  setup violates the foreign key of the rerun, and the whole transaction is rolled back.\<close>

theorem rerun_undeletable:
  assumes "rerun_evaluation wr run_id bypass new_id now user db = (Inr ts, db')" and "new_id \<noteq> run_id"
    and "load_run run_id user db' = Inr run" and "er_setup_id run = Some sid" and "sid \<noteq> []"
    and "db_get_setup (Some sid) (td_org_id user) db \<noteq> None"
  shows "\<exists>m. delete_run run_id user db' = (Inl (Raised (ExternalError m)), db')"
proof -
  obtain old where old: "db_get_run run_id (td_org_id user) db = Inr old"
    using assms(1) by (auto simp: rerun_evaluation_def respond_def rerun_check_def load_run_def fbind_Inr_iff split: sum.splits)
  note rr = rerun_shares[OF assms(1) old]
  have run: "run = old" using rr(4) assms(3) by (simp add: load_run_Inr)
  obtain r where "r \<in> set (rb_runs db')" "rr_run_id r = new_id" "er_setup_id r = Some sid" using rr(3) assms(4) run by auto
  then obtain m where "delete_txn run run_id (td_org_id user) db' = Inl (ExternalError m)"
    using shared_setup_kept[OF assms(4,5), of "td_org_id user" db' r run_id] assms(2,6) rr(2)
    by (auto simp: db_get_setup_def)
  then show ?thesis using assms(3) rr(1) by (auto simp: delete_run_def respond_def raised_def run)
qed

lemma rerun_undeletable_witness:
  "\<exists>m. fst (delete_run ''r'' demo_admin (snd (rerun_evaluation [''company_admin''] ''r'' True ''n'' 9 demo_admin (demo_rdb ''complete'')))) =
    Inl (Raised (ExternalError m))"
proof -
  let ?db = "snd (rerun_evaluation [''company_admin''] ''r'' True ''n'' 9 demo_admin (demo_rdb ''complete''))"
  have "fst (rerun_evaluation [''company_admin''] ''r'' True ''n'' 9 demo_admin (demo_rdb ''complete'')) =
      Inr [RerunPipeline ''r'' ''n'' ''O'' True]" by code_simp
  then have r: "rerun_evaluation [''company_admin''] ''r'' True ''n'' 9 demo_admin (demo_rdb ''complete'') =
      (Inr [RerunPipeline ''r'' ''n'' ''O'' True], ?db)" by (metis prod.collapse)
  have l: "load_run ''r'' demo_admin ?db = Inr (demo_eval_run ''r'' ''complete'')" by code_simp
  have "\<exists>m. delete_run ''r'' demo_admin ?db = (Inl (Raised (ExternalError m)), ?db)"
    by (rule rerun_undeletable[OF r _ l, of "''E''"]) (simp_all add: demo_eval_run_def demo_admin_def db_get_setup_def demo_rdb_def)
  then show ?thesis by (metis fst_conv)
qed

section \<open>The stream of events\<close>



section \<open>Who changes and launches a run\<close>



text \<open>C5: A pipeline is only launched by a request of a user with a write role who may see the run, and it runs in that
  user's organisation. (Cancelling, deleting, editing the setup and inviting ask for no role.)\<close>

theorem launches_authorised:
  assumes "t \<in> set (fst (serve sv user rq db))" and "launched t = Some (run_id, org_id)"
  shows "td_role user \<in> set (sr_write_roles sv) \<and> org_id = td_org_id user \<and> (\<exists>run. load_run run_id user db = Inr run)"
  by (rule serve_launches[OF assms])

lemma launches_authorised_witness: "\<exists>run. load_run ''r'' demo_admin (demo_rdb ''complete'') = Inr run"
proof -
  have "fst (serve demo_server demo_admin (ReqReEvaluate ''r'') (demo_rdb ''complete'')) = [RunPipeline ''r'' ''O'']" by code_simp
  then have "RunPipeline ''r'' ''O'' \<in> set (fst (serve demo_server demo_admin (ReqReEvaluate ''r'') (demo_rdb ''complete'')))" by simp
  from launches_authorised[OF this] show ?thesis by simp
qed

section \<open>Stored data\<close>

text \<open>C6: A started run can be loaded: what the start stores as JSON is read back by the pipeline as the very setup the
  start validated.\<close>

theorem stored_setup_loads:
  assumes "start_evaluation wr env run_id now q user db = (Inr ts, db')" and "run_id \<notin> rr_run_id ` set (rb_runs db)"
    and "pe_org_settings penv = Inr ()"
  shows "\<exists>m s report s0. request_setup env (''setup-'' @ take 8 run_id) = Inr (m, s, report) \<and>
    load_state penv run_id (td_org_id user) db' = Inr s0 \<and> ps_evaluation_setup s0 = s"
  by (rule started_run_loads[OF assms])

lemma stored_setup_loads_witness:
  "\<exists>s0. load_state (demo_penv demo_world) ''12345678-9'' ''O'' (snd (start_evaluation [''company_admin''] demo_syenv ''12345678-9'' 5
     demo_start_request demo_admin (demo_rdb ''complete''))) = Inr s0"
proof -
  let ?h = "start_evaluation [''company_admin''] demo_syenv ''12345678-9'' 5 demo_start_request demo_admin (demo_rdb ''complete'')"
  obtain ts where "?h = (Inr ts, snd ?h)" using demo_started by (metis isl_def prod.collapse sum.collapse(2))
  from stored_setup_loads[OF this, of "demo_penv demo_world"] show ?thesis
    by (simp add: demo_rdb_def demo_eval_run_def demo_penv_def demo_admin_def) blast
qed

text \<open>C17: The refinement in the background can make a setup unreadable: when its merge has criteria but no mandatory
  check, the stored checks stay while the targets are replaced, so a check loses its target and no pipeline can load
  the setup any more.\<close>

theorem refinement_unreadable:
  assumes "refine_merged env = Inr m" and "mg_mandatory_checks m = []" and "mg_scoring_criteria m \<noteq> []"
    and "db_get_setup (Some sid) org_id db = Some j" and "parse_setup datetime_ok j = Inr s" and "es_setup_id s = sid"
    and "c \<in> set (es_mandatory_checks s)" and "mc_extraction_target_id c \<notin> kt_target_id ` set (mg_extraction_targets m)"
  shows "\<exists>j' e. db_get_setup (Some sid) org_id (refine_setup env sid org_id db) = Some j' \<and> parse_setup datetime_ok j' = Inl e"
  by (rule refined_unreadable[OF assms])

lemma refinement_unreadable_witness:
  "\<exists>j' e. db_get_setup (Some ''E'') ''O'' (refine_setup demo_refine_env ''E'' ''O'' (demo_rdb ''pending_confirm'')) = Some j' \<and>
    parse_setup (\<lambda>_. True) j' = Inl e"
proof -
  obtain m where m: "refine_merged demo_refine_env = Inr m" "mg_mandatory_checks m = []" "mg_scoring_criteria m \<noteq> []"
      "mc_extraction_target_id demo_check \<notin> kt_target_id ` set (mg_extraction_targets m)"
    using demo_refined by (auto simp: demo_check_def)
  have stored: "db_get_setup (Some ''E'') ''O'' (demo_rdb ''pending_confirm'') = Some demo_setup_json"
    by (simp add: db_get_setup_def demo_rdb_def)
  show ?thesis
    by (rule refinement_unreadable[OF m(1-3) stored demo_setup_parses _ _ m(4)]) (simp_all add: demo_small_setup_def demo_setup_def)
qed

text \<open>C18: Saving facts accumulates: after n saves of one extraction output each table holds n further copies of each of
  its facts for the vendor, where the docstring promises an idempotent write.\<close>

theorem facts_accumulate:
  assumes "save_times n uuid_of org_id vendor_id setup_id out doc_id t = Inr t'"
  shows "vendor_columns org_id vendor_id t' tbl =
    vendor_columns org_id vendor_id t tbl + repeat_mset n (mset (map columns_of (items_in tbl (output_items out))))"
  by (rule saved_times_columns[OF assms])

lemma facts_accumulate_witness:
  "\<exists>t'. save_times 2 (\<lambda>_. None) ''O'' ''a'' None demo_output [] demo_fact_tables = Inr t' \<and>
    size (vendor_columns ''O'' ''a'' t' Certifications) = 2"
proof -
  obtain t' where t': "save_times 2 (\<lambda>_. None) ''O'' ''a'' None demo_output [] demo_fact_tables = Inr t'" using demo_saved by blast
  have "length (items_in Certifications (output_items demo_output)) = 1" by code_simp
  then have "size (vendor_columns ''O'' ''a'' t' Certifications) = 2"
    unfolding facts_accumulate[OF t'] by (simp add: vendor_columns_def vendor_rows_def demo_fact_tables_def numeral_2_eq_2)
  with t' show ?thesis by blast
qed

end
