(* ===== verification/Spec2Isabelle.thy ===== *)
theory Spec2Isabelle
  imports Demo_Facts Demo_Jobs Demo_Criteria Demo_Llm Service_Properties Run_Properties
begin

text \<open>
A verification model of the RFP evaluation pipeline: a LangGraph state machine (\<open>app/pipeline\<close>)
that runs a chain of LLM agents (\<open>app/agents\<close>) over a request for proposals and the vendors'
answers, with a critic after each agent that may stop, warn, escalate or ask for a retry.

\<^bold>\<open>Parts and how they interact.\<close> A new run merges the organisation's, the department's, the user's and
the RFP's criteria into an evaluation setup. The planner checks the setup; ingestion indexes the
documents; retrieval, extraction and evaluation each run once per vendor in parallel and write
\<open>{vendor: result}\<close> into the state through reducers; the comparator ranks, the decision agent rejects,
shortlists and routes for approval; the explanation agent writes a grounded narrative per vendor; its
critic ends the run or sends the stage back with feedback. A vendor that fails a parallel stage is
recorded in \<open>failed_vendors\<close> and the others go on; a blocked single node ends the run. Beside the run,
a watcher turns dropped files into jobs, and a scheduler closes expired RFPs, ingests their files and
announces them as ready. Every agent reaches its model through one function with a cache, a rate
limiter and retries, whose tokens the cost tracker books on the run. Around all this stand the accounts:
tokens and sessions say who calls, roles and memberships say which runs he sees, and an organisation's
settings tune its runs. The routes of a run tie this together: a start stores the setup and the run, a
confirmation launches the pipeline in the background, which writes its events, its decision and its final
status into the run's row while requests read, stream, cancel, re-run, override or delete it.

\<^bold>\<open>Theories and sources.\<close>
  \<^item> \<open>Prelude\<close>: exceptions as values, insertion-ordered dicts, Python's strings, rounding, sorting.
  \<^item> \<open>Schemas\<close>: \<open>app/schemas/*.py\<close> and the settings of \<open>app/config/loader.py\<close>; JSON values.
  \<^item> \<open>Grounding\<close>: \<open>verify_grounding\<close> and \<open>compute_grounding\<close> of \<open>app/agents/explanation.py\<close>.
  \<^item> \<open>Critic\<close>, \<open>Critic_Laws\<close>: \<open>app/agents/critic.py\<close> and the gate of \<open>nodes.py\<close>; the interface
    \<open>critic_contract\<close> (a verdict is determined by the flags, the gate raises exactly on BLOCKED),
    interpreted on all eight critics.
  \<^item> \<open>Pipeline_State\<close>: \<open>app/pipeline/state.py\<close>; the interface \<open>reducer\<close> (folding updates of
    different vendors commutes), interpreted on the dict and the telemetry reducer.
  \<^item> \<open>Critic_Retry\<close>: \<open>app/pipeline/critic_retry.py\<close>, with the abstract outcome of a controlled agent
    (\<open>Succeeded\<close>, \<open>Crashed\<close>, \<open>Exhausted\<close>) that the loop refines.
  \<^item> \<open>Planner\<close>, \<open>Evaluation\<close> and \<open>Evaluation_Laws\<close>, \<open>Comparator\<close>, \<open>Decision\<close>, \<open>Explanation\<close>: the
    agents of the same names in \<open>app/agents\<close>.
  \<^item> \<open>Fact_Extraction\<close>, \<open>Fact_Retry\<close>, \<open>Fact_Laws\<close>: \<open>app/agents/extraction.py\<close>, \<open>app/agents/_extraction\<close>
    (parsers; scoring and the three retry loops) and \<open>app/validators/extraction.py\<close>; the interface
    \<open>keyed_retry\<close> (a step marks its key and asks at most once), interpreted on the three loops.
  \<^item> \<open>Criteria\<close>, \<open>Criteria_Laws\<close>: \<open>app/domain/criteria.py\<close> and the setup that \<open>start_evaluation\<close> of
    \<open>app/api/evaluation_routes.py\<close> builds; the interface \<open>merge_source\<close> (a later source only appends
    criteria under new names), interpreted on the sources after the organisation's.
  \<^item> \<open>Nodes\<close>, \<open>Nodes_Laws\<close>: \<open>app/pipeline/nodes.py\<close>; the interface \<open>vendor_stage\<close> (a branch writes
    only what its vendor owns), interpreted on the four parallel stages.
  \<^item> \<open>Graph\<close>, \<open>Graph_Laws\<close>: \<open>app/pipeline/graph.py\<close> and the initial state of
    \<open>app/api/_evaluation/pipeline.py\<close>; the superstep relation, its executable run, and the invariant.
  \<^item> \<open>Jobs\<close>: the tables of the background ingestion, the statements of \<open>app/db/fact_store.py\<close> on them,
    \<open>app/jobs/ingestion_watcher.py\<close>, \<open>app/domain/rfp.py\<close> and the attribution requests of
    \<open>app/api/admin_routes.py\<close>. \<open>Scheduler\<close>: \<open>app/jobs/deadline_processor.py\<close> and
    \<open>app/pipeline/ingestion_graph.py\<close>. \<open>Scheduler_Laws\<close>, \<open>Tick_Laws\<close>: the interface \<open>table_op\<close> (an
    operation on the tables moves rows along their state machines), interpreted on the operations.
    \<open>Lifecycle\<close>: all of them interleaved, transaction by transaction.
  \<^item> \<open>Text_Tools\<close>, \<open>Vectors\<close>, \<open>Retrieve\<close>, \<open>Retrieve_Laws\<close>: \<open>app/retrieval/qdrant.py\<close>, \<open>app/providers/reranker.py\<close>,
    \<open>app/agents/retrieval.py\<close>. The state is a map from collection names to points; a search is a query with
    its filter, ranked by a parameter of which \<open>query_law\<close> says that it returns points that pass the filter.
  \<^item> \<open>Ingest\<close>, \<open>Ingest_Laws\<close>: \<open>app/agents/ingestion.py\<close>, \<open>app/retrieval/pipeline.py\<close>, \<open>app/validators\<close>.
    \<open>Production\<close>: the production runners (\<open>real_agents\<close> of \<open>app/pipeline/ingestion_graph.py\<close>).
  \<^item> \<open>Auth\<close>, \<open>Auth_Routes\<close>, \<open>Auth_Laws\<close>: \<open>app/auth\<close> and \<open>app/api/auth_routes.py\<close> over the tables of accounts,
    sessions and one-time tokens; the interface \<open>identity_op\<close> (a transaction keeps the primary keys, spent
    tokens spent and revoked sessions dead), interpreted on every transaction of the endpoints (\<open>run_op\<close>).
  \<^item> \<open>Access\<close>, \<open>Org_Settings\<close>, \<open>Admin\<close>: \<open>app/domain/visibility.py\<close> with the SQL function it calls,
    \<open>app/auth/rbac.py\<close>, \<open>app/domain/org_settings.py\<close> and its routes, the membership routes of
    \<open>app/api/admin_routes.py\<close>.
  \<^item> \<open>Service_Properties\<close>: the properties of the parts in the last four items, with their witnesses.
  \<^item> \<open>Limiter\<close>, \<open>Cost\<close>, \<open>Llm\<close>, \<open>Llm_Laws\<close>: \<open>app/infra/rate_limiter.py\<close>, \<open>app/infra/cost_tracker.py\<close>,
    \<open>app/providers/llm.py\<close>, \<open>app/providers/llm_cache.py\<close>.
  \<^item> \<open>Fact_Store\<close>, \<open>Fact_Store_Laws\<close>: the tables of facts, saving and reading them (\<open>app/db/fact_store.py\<close>).
    \<open>Json_Text\<close>: strings as \<open>json.dumps\<close> writes them, the removal of null escapes in
    \<open>app/api/_evaluation/db.py\<close>, and their reading by a \<open>jsonb\<close> column.
  \<^item> \<open>Run_Store\<close>: the tables of runs (\<open>app/db/schema.sql\<close>), \<open>app/api/_evaluation/db.py\<close>, \<open>app/infra/audit.py\<close>, a
    decision as JSON and pydantic's reading of a setup. \<open>Run_Routes\<close>, \<open>Run_Actions\<close>, \<open>Run_Views\<close>,
    \<open>Run_Start\<close>: \<open>app/api/evaluation_routes.py\<close>, \<open>app/domain/override.py\<close>, \<open>app/domain/decision_summary.py\<close> and
    \<open>app/api/_evaluation/refinement.py\<close>. \<open>Run_Pipeline\<close>: \<open>app/api/_evaluation/pipeline.py\<close> as the list of writes
    it makes, and \<open>app/api/_evaluation/streaming.py\<close>.
  \<^item> \<open>Graph_Status\<close> (which statuses a graph attempts to write), \<open>Run_Laws\<close> (what a row is after the writes of a
    pipeline), \<open>Run_Requests\<close> (all requests that write, served one after another, and what they leave alone in
    other organisations), \<open>Setup_Laws\<close> (a stored setup is read back), \<open>Run_Fates\<close> (cancelling, re-running,
    deleting, streaming). \<open>Run_Properties\<close>: their properties, with their witnesses.
  \<^item> \<open>Demo\<close>, \<open>Demo_Jobs\<close>, \<open>Demo_Facts\<close>, \<open>Demo_Criteria\<close>, \<open>Demo_Llm\<close>, \<open>Demo_Store\<close>, \<open>Demo_Access\<close>,
    \<open>Demo_Runs\<close>: concrete inputs on which the witnesses evaluate.

\<^bold>\<open>Correspondence.\<close> Functions keep their Python names. Record fields carry a prefix of their class.
An exception is \<open>Inl\<close>; \<open>try: ... except Exception\<close> is a case on it. A node returns its channel
updates and the effects it attempts (timeline events, audit rows, the status column). Floats are
rational numbers and \<open>round\<close> is exact half-to-even rounding, so rounding errors of IEEE arithmetic are
not modelled; JSON numbers are finite. A string is a list of code points below 256, with one code
standing for each of the em dash, the arrow, the bullet and the euro sign. A database transaction is
one atomic step on the tables. Row level security is the condition on the organisation in each statement.
A handler returns its response, the background tasks it schedules and the new tables; where the code reads
in one transaction and writes in another the model has a check and a commit. The stored JSON of a setup or
decision is a value, whose objects keep their keys in order.

\<^bold>\<open>Parameters.\<close> Everything behind a network or a database is an argument of the definitions that call
it: LLM replies, the tables of facts, the registry prompts, the vector index's ranking, embeddings, the
readers of PDF, Word and ZIP files, regular expressions, bcrypt and the JWT codec, collected in \<open>eval_env\<close>,
\<open>explanation_env\<close>, \<open>extraction_env\<close>, \<open>gap_env\<close>, \<open>job_env\<close>, \<open>llm_env\<close>, \<open>retrieval_env\<close>, \<open>ingest_env\<close>, \<open>auth_env\<close>,
\<open>settings_env\<close> and \<open>world\<close>; digests are functions. The nodes take retrieval and ingestion from \<open>world\<close>; properties
that span both instantiate its fields with the modelled agents. They are arbitrary, may raise, and may answer each
attempt differently; a prompt is represented by the data it is rendered from. No law is assumed of
them beyond what a property names; \<open>retry_law\<close> is the documented behaviour of tenacity's \<open>retry\<close>,
\<open>query_law\<close> of Qdrant's filters, \<open>jwt_law\<close> and \<open>jwt_stable\<close> of the JWT codec.

\<^bold>\<open>What the lemmas show.\<close> Graph: termination, progress, delivery, isolation of vendors. Controller:
refinement of the abstract outcome, exhaustion. Critics and planner: exact conditions of the
verdicts. Evaluation: voting, contradictions, totality, score bounds, coverage, the fail-open case.
Comparison, decision and explanation: what is ranked, partitioned, cited and grounded. Background
ingestion: legal transitions in every interleaving, at most one announcement, the tick settles every
RFP, and the gap through which a late insert strands one. Extraction: bounded retries, an erasing
retry, a vendor whose facts cannot be saved. Criteria: priority and unique names, the valid and the
refused setups. Model calls: the limiter's window, the bound of one call, the pinned reply; the shares
of the agents add up to the run's totals (\<open>agent_shares\<close>); seeds fit 32 bits (\<open>stable_seed_bound\<close>).
Documents: retrieved chunks belong to their organisation and vendor, injected documents block a run and
how a damaged archive lets them pass, what a second ingestion overwrites, why production jobs fail.
Accounts: tokens redeemed once, what ends a session and what outlives a reset; who sees which run; what an
update of the settings drops. Runs: every background run ends blocked or complete with a decision that covers
its vendors, but for an exhausted report, which leaves the run running; a cancelled run completes; a rerun
makes its original undeletable; the stream delivers the events in order; requests leave other organisations
alone and launch pipelines only for write roles; a started setup is read back, and a refinement can make it
unreadable; saving facts again adds copies of them.

\<^bold>\<open>Bounds.\<close> A run takes at most 25 supersteps: 17 nodes in line, and four more for each of the two
report retries (\<open>steps_left\<close>); the fuel of \<open>run_graph\<close> is 25 and \<open>graph_terminates\<close> proves it enough.
The recursion limit of the code is 50. The cycle search recurses on the tasks not yet visited.

\<^bold>\<open>Not modelled.\<close> Log lines, most timestamps and generated identifiers; prompt texts. The agents of a run take
the facts they read as a parameter: the tables of \<open>Fact_Store\<close> are not threaded through the graph. The detail of
audit rows, \<open>agent_log\<close>, the bytes of an RFP. The rendering of reports and their delivery (\<open>app/output\<close>,
\<open>app/delivery\<close>: text and I/O), the reading of sheets and of the RFP by a model, erasure of an organisation
(\<open>app/domain/org_erasure.py\<close>), few-shot examples, the registry of agents, the routes of RFPs, tenants, logs and chat,
cookies, middleware, the command line tools, benchmarks, migrations and the frontend; the circuit breaker,
which nothing calls.
\<close>

section \<open>The pipeline graph\<close>


text \<open>C2: A run ends blocked, or it has delivered: a decision, a report that the critic does not
  block, every rejection with a citation, and every requested vendor shortlisted, rejected or on
  record in \<open>failed_vendors\<close>.\<close>

theorem graph_delivers:
  "\<exists>s tr. run_graph cfg w 25 (PLANNER, initial_state rfp_id file vendor_ids contract_value setup files, []) =
       Inr (Some (END, s, tr)) \<and>
     (ps_blocked s \<or>
      (\<exists>dec report. ps_decision_output s = Some dec \<and> ps_explanation_output s = Some report \<and>
         co_overall_verdict (critic_after_explanation cfg report (ps_source_chunks s)) \<noteq> BLOCKED \<and>
         list_all (\<lambda>rej. rn_evidence_citations rej \<noteq> []) (do_rejected_vendors dec) \<and>
         set vendor_ids \<subseteq> sv_vendor_id ` set (do_shortlisted_vendors dec) \<union>
           rn_vendor_id ` set (do_rejected_vendors dec) \<union> fv_vendor_id ` set (ps_failed_vendors s)))"
proof -
  let ?s0 = "initial_state rfp_id file vendor_ids contract_value setup files"
  have "graph_inv cfg ?s0 PLANNER ?s0" by (rule inv_start) simp
  moreover have "steps_left PLANNER (ps_explanation_retry_count ?s0) \<le> 25"
    by (simp add: steps_left_def EXPLANATION_MAX_RETRIES_def)
  ultimately obtain s tr where run: "run_graph cfg w 25 (PLANNER, ?s0, []) = Inr (Some (END, s, tr))"
    and inv: "graph_inv cfg ?s0 END s" using run_graph_ends by blast
  have vids: "ps_vendor_ids s = vendor_ids" using inv by (simp add: graph_inv_def inputs_of_def initial_state_def)
  show ?thesis
  proof (cases "ps_blocked s")
    case True
    with run show ?thesis by blast
  next
    case False
    then obtain dec report where out: "ps_decision_output s = Some dec" "ps_explanation_output s = Some report"
        "co_overall_verdict (critic_after_explanation cfg report (ps_source_chunks s)) \<noteq> BLOCKED"
      using inv by (auto simp: graph_inv_def delivered_def)
    have "settles s dec" and acc: "\<forall>v \<in> set vendor_ids. accounted v s"
      using inv False out(1) vids by (simp_all add: graph_inv_def)
    then have "set vendor_ids \<subseteq> sv_vendor_id ` set (do_shortlisted_vendors dec) \<union>
        rn_vendor_id ` set (do_rejected_vendors dec) \<union> fv_vendor_id ` set (ps_failed_vendors s)"
      unfolding settles_def accounted_def subset_iff by (metis UnCI)
    with run out \<open>settles s dec\<close> show ?thesis by (auto simp: settles_def list_all_iff)
  qed
qed

text \<open>C7: Whatever the order in which parallel branches finish, a run takes at most 25 supersteps and
  the report is retried at most twice.\<close>

theorem superstep_bound:
  assumes "steps cfg w k (PLANNER, initial_state rfp_id file vendor_ids contract_value setup files, []) (n, s, tr)"
  shows "k \<le> 25 \<and> ps_explanation_retry_count s \<le> 2"
  using steps_bounded[OF assms]
  by (simp add: steps_left_def EXPLANATION_MAX_RETRIES_def initial_state_def)

lemma superstep_bound_witness:
  "\<exists>n s tr. steps default_cfg demo_world 1 (PLANNER, demo_state, []) (n, s, tr) \<and>
     (1 :: nat) \<le> 25 \<and> ps_explanation_retry_count s \<le> 2"
proof -
  have "graph_inv default_cfg demo_state PLANNER demo_state"
    by (rule inv_start) (simp add: demo_state_def)
  then obtain n s tr where "exec_step default_cfg demo_world (PLANNER, demo_state, []) = Inr (n, s, tr)"
    using inv_progress by (metis node.distinct(33) prod_cases3)
  then have st: "steps default_cfg demo_world 1 (PLANNER, demo_state, []) (n, s, tr)"
    using exec_step_sound[of PLANNER] by simp
  from superstep_bound[OF this[unfolded demo_state_def]] st show ?thesis by blast
qed

text \<open>A configuration the graph can reach, in any order of the branches, is END or can move on:
  no node raises and no node waits for an output that is not there.\<close>

theorem graph_progress:
  assumes "reachable cfg w (initial_state rfp_id file vendor_ids contract_value setup files) (n, s, tr)"
    and "n \<noteq> END"
  shows "\<exists>c'. graph_step cfg w (n, s, tr) c'"
  using inv_progress[OF inv_reachable[OF assms(1)] assms(2)] exec_step_sound[OF assms(2)] by fastforce

lemma graph_progress_witness:
  "\<exists>c'. graph_step default_cfg demo_world (PLANNER, demo_state, []) c'"
  using graph_progress[OF reachable.start] unfolding demo_state_def by blast

text \<open>C8: Isolation of the parallel stages. Two runs of a stage in which the branch of vendor \<open>v\<close> does
  the same, in any two orders and whatever the branches of the other vendors do, leave \<open>v\<close> with the
  same outputs, failures, narratives and telemetry.\<close>

theorem stage_isolation:
  assumes "branch_of cfg w n = Some branch" and "branch_of cfg' w' n = Some branch'"
    and "rmap (branch s) vs = Inr rs" and "rmap (branch' s) ws = Inr rs'"
    and "distinct vs" and "mset ws = mset vs" and "v \<in> set vs" and "branch s v = branch' s v"
  shows "view v (fan_in s rs) = view v (fan_in s rs')"
proof -
  have ws: "distinct ws" "v \<in> set ws" using assms(5-7) by (metis mset_eq_imp_distinct_iff, metis mset_eq_setD)
  obtain us es where b: "branch s v = Inr (us, es)"
    using assms(3,7) by (metis in_set_conv_nth rmap_Inr_nth surj_pair)
  show ?thesis
    using branch_isolation[OF assms(1,3,5,7) b] branch_isolation[OF assms(2,4) ws b[unfolded assms(8)]] by simp
qed

lemma stage_isolation_witness:
  "\<exists>rs rs'. rmap (retrieval_per_vendor default_cfg demo_world demo_state) [''a'', ''b''] = Inr rs \<and>
     rmap (retrieval_per_vendor default_cfg demo_world demo_state) [''b'', ''a''] = Inr rs' \<and>
     view ''a'' (fan_in demo_state rs) = view ''a'' (fan_in demo_state rs')"
proof -
  have b: "branch_of default_cfg demo_world RETRIEVAL_PER_VENDOR =
      Some (retrieval_per_vendor default_cfg demo_world)" by simp
  have total: "\<exists>rs. rmap (retrieval_per_vendor default_cfg demo_world demo_state) vs = Inr rs" for vs
    by (rule branches_total[OF b]) simp
  obtain rs where rs: "rmap (retrieval_per_vendor default_cfg demo_world demo_state) [''a'', ''b''] = Inr rs"
    using total by blast
  obtain rs' where rs': "rmap (retrieval_per_vendor default_cfg demo_world demo_state) [''b'', ''a''] = Inr rs'"
    using total by blast
  have "view ''a'' (fan_in demo_state rs) = view ''a'' (fan_in demo_state rs')"
    by (rule stage_isolation[OF b b rs rs']) simp_all
  with rs rs' show ?thesis by blast
qed

section \<open>The self-correcting controller\<close>

text \<open>C19: The retry loop computes the rendering of its abstract outcome: the first attempt that is not
  blocked succeeds or crashes, and only when all are blocked is the vendor isolated.\<close>

theorem critic_retry_refines:
  "fst (run_with_critic_retry agent vid attempt_fn build_feedback on_success max_retries) =
   render_outcome agent vid on_success max_retries (last_critic attempt_fn build_feedback (max_retries + 1))
     (retry_outcome attempt_fn build_feedback max_retries)"
  by (rule retry_refines)

text \<open>The controller gives up exactly when every one of its \<open>max_retries + 1\<close> attempts is blocked,
  and never makes more attempts than that.\<close>

theorem critic_retry_exhausts:
  "(retry_outcome attempt_fn build_feedback max_retries = Exhausted \<longleftrightarrow>
     list_all (\<lambda>k. blocked_result (attempt_result attempt_fn build_feedback k)) [0..<max_retries + 1]) \<and>
   attempts_of max_retries (retry_outcome attempt_fn build_feedback max_retries) \<le> max_retries + 1"
proof (rule conjI)
  show "retry_outcome attempt_fn build_feedback max_retries = Exhausted \<longleftrightarrow>
     list_all (\<lambda>k. blocked_result (attempt_result attempt_fn build_feedback k)) [0..<max_retries + 1]"
    by (auto simp: retry_outcome_Exhausted list_all_iff less_Suc_eq_le)
qed (rule retry_outcome_bounded)

text \<open>The evaluation agent's critic never blocks what the agent returns, so the evaluation stage
  never retries: the first attempt always decides.\<close>

theorem evaluation_never_retries:
  "attempts_of max_retries (retry_outcome
     (\<lambda>k fb. run_evaluation_agent cfg (env k) vid setup extraction fb) build_feedback max_retries) = 1"
proof -
  let ?f = "\<lambda>k fb. run_evaluation_agent cfg (env k) vid setup extraction fb"
  have "\<not> blocked_result (attempt_result ?f build_feedback 0)"
    using run_evaluation_not_blocked
    by (cases "attempt_result ?f build_feedback 0") (fastforce simp: attempt_result_def)+
  then show ?thesis
    by (subst retry_outcome_Some[where k = 0]) (auto split: sum.split)
qed

section \<open>Critics and the gate\<close>


text \<open>The extraction critic blocks exactly when a strict majority of the extracted items has a
  quote that is not in the chunk it cites.\<close>

lemma extraction_critic_majority:
  "co_overall_verdict (critic_after_extraction output source_chunks) = BLOCKED \<longleftrightarrow>
     length (all_items output) < 2 * length (filter (item_fails_grounding source_chunks) (all_items output))"
proof -
  let ?hard = "\<lambda>f. cf_severity f = HARD"
  let ?n = "length (all_items output)" and ?k = "length (filter (item_fails_grounding source_chunks) (all_items output))"
  have "(\<exists>f \<in> set (co_flags (critic_after_extraction output source_chunks)). ?hard f) \<longleftrightarrow> ?n \<noteq> 0 \<and> ?n div 2 < ?k"
    by (auto simp: critic_after_extraction_def Let_def)
  also have "\<dots> \<longleftrightarrow> ?n < 2 * ?k" by (auto simp: div_less_iff_less_mult) 
  finally show ?thesis using extraction_critic.blocked_iff[of "(output, source_chunks)"] by simp
qed

text \<open>The plan the planner builds passes its own guardrail: it is approved unless there are no
  vendors or it has more than 500 tasks, and then it is blocked.\<close>

theorem planner_verdict:
  "co_overall_verdict (snd (run_planner cfg rfp_id vendor_ids setup)) =
     (if vendor_ids = [] \<or> 500 < plan_size vendor_ids setup then BLOCKED else APPROVED)"
proof (cases "vendor_ids = []")
  case True
  let ?c = "snd (run_planner cfg rfp_id vendor_ids setup)"
  obtain out where c: "?c = critic_after_planner out [''No vendor IDs provided'']"
    using True by (simp add: run_planner_def Let_def)
  have "co_overall_verdict ?c = BLOCKED"
    using planner_critic.blocked_iff[of "(out, [''No vendor IDs provided''])"]
    by (simp add: c critic_after_planner_def)
  with True show ?thesis by simp
next
  case False
  let ?tasks = "plan_tasks rfp_id vendor_ids setup"
  obtain out where out: "run_planner cfg rfp_id vendor_ids setup =
      (out, critic_after_planner out (validate_plan ?tasks setup))" "po_vendor_ids out = vendor_ids" "po_tasks out = ?tasks"
    using False by (simp add: run_planner_def Let_def)
  have "?tasks \<noteq> []" by (metis False add_is_0 length_plan_tasks list.size(3) numeral_neq_zero plan_size_def)
  with out False have flags: "co_flags (snd (run_planner cfg rfp_id vendor_ids setup)) =
      map (\<lambda>error. make_flag HARD ''planner_agent'' ''plan_validation_error'' error
        (''Fix evaluation_setup before proceeding'' @ dash @ ''plan does not cover all requirements.''))
        (validate_plan ?tasks setup)"
    unfolding critic_after_planner_def by simp
  show ?thesis
  proof (cases "500 < plan_size vendor_ids setup")
    case True
    then have "\<exists>f \<in> set (co_flags (snd (run_planner cfg rfp_id vendor_ids setup))). cf_severity f = HARD"
      unfolding flags validate_own_plan[OF False] by simp
    then show ?thesis
      using planner_critic.blocked_iff[of "(out, validate_plan ?tasks setup)"] out True by simp
  next
    case small: False
    then have "co_flags (snd (run_planner cfg rfp_id vendor_ids setup)) = []"
      unfolding flags validate_own_plan[OF False] by simp
    then show ?thesis
      using planner_critic.verdict_is[of "(out, validate_plan ?tasks setup)"] out False small
      by (simp add: verdict_APPROVED_iff)
  qed
qed

text \<open>A task the planner's cycle search reports really lies behind a dependency cycle.\<close>

theorem cycle_search_sound:
  assumes "first_cycle (task_map_of tasks) [] tasks = Some tid"
  shows "\<exists>x. (x, x) \<in> (depends (task_map_of tasks))\<^sup>+"
  using first_cycle_sound[OF assms] .

lemma cycle_search_sound_witness:
  "\<exists>x. (x, x) \<in> (depends (task_map_of
     [\<lparr>ti_task_id = ''t'', ti_task_type = Decide, ti_agent = [], ti_inputs = VendorInputs [],
       ti_depends_on = [''t''], ti_priority = 1\<rparr>]))\<^sup>+"
  by (rule cycle_search_sound[of _ "''t''"]) code_simp

section \<open>Evaluation\<close>

text \<open>C21: The vote: the decision with a strict majority of the samples wins with its count, and without
  one the result is \<open>insufficient_evidence\<close>.\<close>

theorem vote_is_strict_majority:
  "vote_winner ds =
     (case List.find (\<lambda>c. length ds < 2 * count_list ds c) [PASS, FAIL, INSUFFICIENT_EVIDENCE] of
        Some c \<Rightarrow> (c, count_list ds c)
      | None \<Rightarrow> (INSUFFICIENT_EVIDENCE, count_list ds INSUFFICIENT_EVIDENCE))"
proof (cases "List.find (\<lambda>c. length ds < 2 * count_list ds c) [PASS, FAIL, INSUFFICIENT_EVIDENCE]")
  case None
  then have none: "\<not> length ds < 2 * count_list ds c" for c
    by (cases c) (auto split: if_splits)
  obtain w n where "vote_winner ds = (w, n)" by fastforce
  with vote_winner_cases[OF this] none show ?thesis unfolding None by auto
next
  case (Some c)
  then have "length ds < 2 * count_list ds c" by (auto split: if_splits)
  with Some show ?thesis by (simp add: vote_winner_majority)
qed

text \<open>When a check was resampled, the record passed on carries the vote's winner as its decision
  and the share of samples that agree with it as its confidence.\<close>

theorem voted_record:
  assumes "decide_check_with_voting sc call = Inr (parsed, votes)" and "1 < vb_samples votes"
  shows "\<exists>ds. length ds = sk_samples sc \<and> vb_samples votes = sk_samples sc \<and>
    vb_tally votes = tally_votes [] ds \<and> vb_winner votes = Some (fst (vote_winner ds)) \<and>
    jget parsed ''decision'' JNull = Inr (JStr (compliance_value (fst (vote_winner ds)))) \<and>
    jget parsed ''confidence'' JNull = Inr (JNum (of_nat (count_list ds (fst (vote_winner ds))) / of_nat (sk_samples sc)))"
  by (rule decide_voted[OF assms]) (metis fst_conv)

definition demo_votes :: "nat option \<Rightarrow> reply" where
  "demo_votes seed = Inr (Some (JObj
     [(''decision'', JStr (if seed = Some 2 then ''fail'' else ''pass'')), (''confidence'', JNum (6 / 10))]))"

lemma voted_record_witness:
  "\<exists>parsed votes. decide_check_with_voting (pc_self_consistency default_cfg) demo_votes = Inr (parsed, votes) \<and>
     (\<exists>ds. length ds = 3 \<and> vb_tally votes = tally_votes [] ds \<and> vb_winner votes = Some (fst (vote_winner ds)))"
proof -
  let ?r = "decide_check_with_voting (pc_self_consistency default_cfg) demo_votes"
  have ev: "map_sum id (\<lambda>pv. vb_samples (snd pv)) ?r = Inr 3" by code_simp
  then obtain parsed votes where r: "?r = Inr (parsed, votes)" and n: "vb_samples votes = 3"
    by (cases ?r) auto
  have "sk_samples (pc_self_consistency default_cfg) = 3" by (simp add: default_cfg_def)
  with voted_record[OF r] r n show ?thesis by auto
qed

text \<open>C22: A check whose evidence contradicts itself is never decided PASS or FAIL, whatever the model
  or the fallback said; and a vendor with such a check and no FAIL is not rejected.\<close>

theorem contradictions_reach_humans:
  assumes "run_evaluation_agent cfg env vid setup extraction fb = Inr (out, critic)"
    and "d \<in> set (eo_compliance_decisions out)" and "cd_contradictions_found d \<noteq> []"
  shows "cd_decision d = INSUFFICIENT_EVIDENCE \<and>
    (is_rejected out \<longleftrightarrow> list_ex (\<lambda>d. cd_decision d = FAIL) (eo_compliance_decisions out))"
  using run_evaluation_contradictions[OF assms] assms(2,3) by (auto simp: is_rejected_iff list_ex_iff)

lemma contradictions_reach_humans_witness:
  "\<exists>out critic d. run_evaluation_agent default_cfg (demo_env conflict_reply) ''a'' demo_setup None [] = Inr (out, critic) \<and>
     d \<in> set (eo_compliance_decisions out) \<and> cd_decision d = INSUFFICIENT_EVIDENCE"
proof -
  let ?env = "demo_env conflict_reply"
  have f: "ev_facts ?env = Inr demo_facts" by (simp add: demo_env_def)
  obtain out critic where run: "run_evaluation_agent default_cfg ?env ''a'' demo_setup None [] = Inr (out, critic)"
    using run_evaluation_total[OF demo_setup_ok demo_setup_distinct f] by blast
  have "eo_compliance_decisions out = decisions_of default_cfg ?env demo_setup demo_facts ''a'' [] []"
    by (rule run_evaluation_cases[OF run]) (use f in auto)
  then have "map cd_contradictions_found (eo_compliance_decisions out) = [[''a vs b'']]"
    by (simp only:) code_simp
  then obtain d where "d \<in> set (eo_compliance_decisions out)" "cd_contradictions_found d \<noteq> []"
    by (auto simp: map_eq_Cons_conv)
  with contradictions_reach_humans[OF run this] run show ?thesis by blast
qed



text \<open>A criterion's score is an integer from 0 to 10, its contribution lies between 0 and the
  criterion's rounded weight, and it is marked unassessed exactly when there were no facts.\<close>

theorem criterion_score_bounds:
  assumes "score_criterion env c facts vid fb = Inr s" and "criterion_field_ok c"
  shows "0 \<le> cs_raw_score s \<and> cs_raw_score s \<le> 10 \<and> 0 \<le> cs_weighted_contribution s \<and>
    cs_weighted_contribution s \<le> py_round 4 (sc_weight c) \<and> (cs_insufficient_evidence s \<longleftrightarrow> facts = [])"
  using score_criterion_Inr(3,6)[OF assms(1)] weighted_contribution_bounds[OF assms(1)] assms(2)
  by (simp add: criterion_field_ok_def)

lemma criterion_score_bounds_witness:
  "\<exists>s. score_criterion (demo_env JNull) demo_criterion [JNull] ''a'' [] = Inr s \<and> cs_raw_score s \<le> 10"
proof -
  have "map_sum id cs_raw_score (score_criterion (demo_env JNull) demo_criterion [JNull] ''a'' []) = Inr 10"
    by code_simp
  then obtain s where s: "score_criterion (demo_env JNull) demo_criterion [JNull] ''a'' [] = Inr s"
    by (cases "score_criterion (demo_env JNull) demo_criterion [JNull] ''a'' []") auto
  have "criterion_field_ok demo_criterion" by (simp add: criterion_field_ok_def demo_criterion_def)
  from criterion_score_bounds[OF s this] s show ?thesis by blast
qed

text \<open>When every criterion was scored on evidence, coverage is 1 and the coverage-normalised score
  is the absolute total.\<close>

theorem full_coverage_is_absolute:
  assumes "make_setup setup = Inr setup" and "distinct (map sc_criterion_id (es_scoring_criteria setup))"
    and "es_scoring_criteria setup \<noteq> []"
    and "run_evaluation_agent cfg env vid setup extraction fb = Inr (out, critic)"
    and "map cs_criterion_id (eo_criterion_scores out) = map sc_criterion_id (es_scoring_criteria setup)"
    and "\<forall>s \<in> set (eo_criterion_scores out). \<not> cs_insufficient_evidence s"
  shows "eo_coverage out = 1 \<and> eo_coverage_normalised_score out = eo_total_weighted_score out"
proof -
  have cov: "coverage_of setup (eo_criterion_scores out) = 1"
    by (rule full_assessment[OF assms(1,2,5,6,3)])
  show ?thesis
    by (rule run_evaluation_cases[OF assms(4)]) (use cov normalised_full in auto)
qed

lemma full_coverage_is_absolute_witness:
  "\<exists>out critic. run_evaluation_agent default_cfg (demo_env conflict_reply) ''a'' demo_setup None [] = Inr (out, critic) \<and>
     eo_coverage out = 1 \<and> eo_coverage_normalised_score out = eo_total_weighted_score out"
proof -
  let ?env = "demo_env conflict_reply"
  have f: "ev_facts ?env = Inr demo_facts" by (simp add: demo_env_def)
  obtain out critic where run: "run_evaluation_agent default_cfg ?env ''a'' demo_setup None [] = Inr (out, critic)"
    using run_evaluation_total[OF demo_setup_ok demo_setup_distinct f] by blast
  have sc: "eo_criterion_scores out = scores_of ?env demo_setup demo_facts ''a'' []"
    by (rule run_evaluation_cases[OF run]) (use f in auto)
  have ids: "map (\<lambda>s. (cs_criterion_id s, cs_insufficient_evidence s)) (scores_of ?env demo_setup demo_facts ''a'' []) = [(''S'', False)]"
    by code_simp
  have "es_scoring_criteria demo_setup \<noteq> []" by (simp add: demo_setup_def)
  moreover have "map cs_criterion_id (eo_criterion_scores out) = map sc_criterion_id (es_scoring_criteria demo_setup)"
    "\<forall>s \<in> set (eo_criterion_scores out). \<not> cs_insufficient_evidence s"
    using ids by (auto simp: sc demo_setup_def demo_criterion_def)
  ultimately show ?thesis using full_coverage_is_absolute[OF demo_setup_ok demo_setup_distinct _ run] run by blast
qed

text \<open>C24: Checks fail open: when the LLM call of every mandatory check raises, no decision is recorded,
  compliance is reported as \<open>pass\<close> and the vendor is not rejected.\<close>

theorem raising_checks_pass:
  assumes "run_evaluation_agent cfg env vid setup extraction fb = Inr (out, critic)"
    and "\<And>c t fs sd. ev_check_llm env fb c t fs sd = Inl e"
  shows "eo_compliance_decisions out = [] \<and> eo_overall_compliance out = ''pass'' \<and> \<not> is_rejected out"
proof -
  have ds: "eo_compliance_decisions out = []"
    by (rule run_evaluation_cases[OF assms(1)]) (simp add: raising_checks_dropped[OF assms(2)])
  have "eo_overall_compliance out = overall_compliance (eo_compliance_decisions out)"
    by (rule run_evaluation_cases[OF assms(1)])
  with ds show ?thesis by (simp add: overall_compliance_def is_rejected_def rejecting_decisions_def)
qed

lemma raising_checks_pass_witness:
  "\<exists>out critic. run_evaluation_agent default_cfg raising_env ''a'' demo_setup None [] = Inr (out, critic) \<and>
     eo_overall_compliance out = ''pass''"
proof -
  have f: "ev_facts raising_env = Inr demo_facts" by (simp add: raising_env_def demo_env_def)
  obtain out critic where run: "run_evaluation_agent default_cfg raising_env ''a'' demo_setup None [] = Inr (out, critic)"
    using run_evaluation_total[OF demo_setup_ok demo_setup_distinct f] by blast
  show ?thesis using raising_checks_pass[OF run, of "ExternalError ''timeout''"] run by (auto simp: raising_env_def)
qed

section \<open>Comparison\<close>

text \<open>C25: The overall ranking is a permutation of exactly the requested vendors that were evaluated, in
  descending order of the coverage-normalised score.\<close>

theorem ranking_sorted:
  assumes "distinct (dict_keys evs)"
  shows "set (cp_overall_ranking (fst (run_comparator_agent cfg llm vendor_ids rfp_id setup evs))) =
      set vendor_ids \<inter> set (dict_keys evs) \<and>
    distinct (cp_overall_ranking (fst (run_comparator_agent cfg llm vendor_ids rfp_id setup evs))) \<and>
    sorted_wrt (\<lambda>v w. \<exists>ev ew. dict_get evs v = Some ev \<and> dict_get evs w = Some ew \<and>
        eo_coverage_normalised_score ew \<le> eo_coverage_normalised_score ev)
      (cp_overall_ranking (fst (run_comparator_agent cfg llm vendor_ids rfp_id setup evs)))"
  unfolding run_comparator_sel
  using overall_ranking_set overall_ranking_distinct[OF assms] overall_ranking_sorted[OF assms] by blast

lemma ranking_sorted_witness:
  "distinct (cp_overall_ranking (fst (run_comparator_agent default_cfg (\<lambda>_ _ _ _ _. Inr None) [''a'', ''b''] ''R''
     demo_setup demo_evaluations)))"
  using ranking_sorted[OF demo_evaluations_distinct] by blast

text \<open>A criterion's ranking is called stable exactly when every two vendors' scores differ by at
  least the margin, although the code compares neighbours only.\<close>

lemma stable_iff_pairwise:
  "rank_is_stable scores margin_threshold \<longleftrightarrow>
     sorted_wrt (\<lambda>x y. margin_threshold \<le> \<bar>snd x - snd y\<bar>) scores"
proof -
  have t: "0 < margin_threshold" by (simp add: margin_threshold_def)
  have sym: "margin_threshold \<le> \<bar>snd y - snd x\<bar>" if "margin_threshold \<le> \<bar>snd x - snd y\<bar>" for x y :: "string \<times> rat"
    using that by (simp add: abs_minus_commute)
  show ?thesis using rank_is_stable_pairs[OF t, of scores] sorted_wrt_symp_nth[of _ scores, OF sym] by simp
qed

text \<open>With at least one vendor requested the comparator never stops the pipeline, and a vendor
  without evaluation makes its verdict ESCALATED, which the gate lets through.\<close>

theorem comparator_never_stops:
  assumes "vendor_ids \<noteq> []"
  shows "hard_block_if (snd (run_comparator_agent cfg llm vendor_ids rfp_id setup evs)) ctx = Inr () \<and>
    (\<not> set vendor_ids \<subseteq> set (dict_keys evs) \<longrightarrow>
     co_overall_verdict (snd (run_comparator_agent cfg llm vendor_ids rfp_id setup evs)) = ESCALATED)"
proof -
  let ?r = "run_comparator_agent cfg llm vendor_ids rfp_id setup evs"
  have c: "snd ?r = critic_after_comparator (fst ?r)" by (rule run_comparator_sel(6))
  have "cp_vendor_ids (fst ?r) \<noteq> []" using assms by (simp add: run_comparator_sel)
  then have "hard_block_if (snd ?r) ctx = Inr ()"
    unfolding c using comparator_never_blocked_if_requested comparator_critic.gate_raises_iff by blast
  moreover have "co_overall_verdict (snd ?r) = ESCALATED" if "\<not> set vendor_ids \<subseteq> set (dict_keys evs)"
  proof -
    have "set (missing_vendors (fst ?r)) \<noteq> {}" using that unfolding missing_vendors_run by blast
    then show ?thesis unfolding c by (intro comparator_escalates) auto
  qed
  ultimately show ?thesis by blast
qed

lemma comparator_never_stops_witness:
  "co_overall_verdict (snd (run_comparator_agent default_cfg (\<lambda>_ _ _ _ _. Inr None) [''a''] ''R'' demo_setup [])) = ESCALATED"
  using comparator_never_stops[of "[''a'']" default_cfg "\<lambda>_ _ _ _ _. Inr None" "''R''" demo_setup "[]"] by simp

section \<open>Decision\<close>

text \<open>The settings under which the decision cannot raise; the shipped ones satisfy it.\<close>

definition governance_ok :: "platform_cfg \<Rightarrow> bool" where
  "governance_ok cfg \<longleftrightarrow> pc_approval_tiers cfg \<noteq> [] \<and>
     list_all (\<lambda>kv. fst kv \<in> set recommendation_labels) (pc_recommendation_thresholds cfg)"

lemma default_governance_ok: "governance_ok default_cfg"
  by code_simp

lemma recommendation_label: "governance_ok cfg \<Longrightarrow> recommendation cfg x \<in> set recommendation_labels"
  using find_desc_greatest(1)[of _ snd "pc_recommendation_thresholds cfg"]
  by (auto simp: recommendation_def governance_ok_def list_all_iff recommendation_labels_def split: option.split)

lemma run_decision_total:
  assumes "governance_ok cfg"
  shows "\<exists>out critic. run_decision_agent cfg dec_llm evs comparison cv = Inr (out, critic)"
proof -
  let ?xs = "sort_key (rank_key (cp_overall_ranking comparison)) (filter (\<lambda>(_, ev). \<not> is_rejected ev) evs)"
  obtain svs where "rmap (shortlist_entry cfg) (enumerate_from 1 ?xs) = Inr svs"
    using rmap_all_Inr[of "enumerate_from 1 ?xs" "shortlist_entry cfg"] recommendation_label[OF assms]
    by (auto simp: shortlist_entry_def Let_def)
  moreover obtain routing where "route_to_approval_tier cfg cv = Inr routing"
  proof -
    have "sort_key tier_limit (pc_approval_tiers cfg) \<noteq> []"
      using assms by (metis governance_ok_def length_0_conv length_sort)
    then have "\<exists>routing. route_to_approval_tier cfg cv = Inr routing"
      by (simp add: route_to_approval_tier_def Let_def split: option.split)
    then show ?thesis using that by blast
  qed
  ultimately show ?thesis by (simp add: run_decision_agent_def Let_def)
qed



text \<open>Every rejection carries a citation, so the decision never stops the pipeline; the critic
  escalates exactly when all evaluated vendors are rejected.\<close>

theorem decision_never_stops:
  assumes "run_decision_agent cfg dec_llm evs comparison cv = Inr (out, critic)"
  shows "list_all (\<lambda>rej. rn_evidence_citations rej \<noteq> []) (do_rejected_vendors out) \<and>
    hard_block_if critic ctx = Inr () \<and>
    (co_overall_verdict critic = ESCALATED \<longleftrightarrow> do_shortlisted_vendors out = [] \<and> do_rejected_vendors out \<noteq> [])"
proof -
  have c: "critic = critic_after_decision out" by (rule run_decision_cases[OF assms])
  note v = decision_critic_not_blocked[of out, OF decision_cited[OF assms]]
  show ?thesis using decision_cited[OF assms] v unfolding c
    by (auto simp: list_all_iff hard_block_if_def)
qed

lemma decision_never_stops_witness:
  "\<exists>out critic. run_decision_agent default_cfg (\<lambda>_. Inr None) demo_evaluations demo_comparison 250000 = Inr (out, critic) \<and>
     list_all (\<lambda>rej. rn_evidence_citations rej \<noteq> []) (do_rejected_vendors out)"
proof -
  obtain out critic where "run_decision_agent default_cfg (\<lambda>_. Inr None) demo_evaluations demo_comparison 250000 = Inr (out, critic)"
    using run_decision_total[OF default_governance_ok] by blast
  with decision_never_stops[OF this] show ?thesis by blast
qed

text \<open>The approval tier of a contract is, among the tiers that cover its value, one with the lowest
  limit.\<close>

lemma approval_tier_least:
  assumes "t \<in> set (pc_approval_tiers cfg)" and "tier_covers contract_value t"
  shows "\<exists>t' \<in> set (pc_approval_tiers cfg). route_to_approval_tier cfg contract_value = Inr (routing_for contract_value t') \<and>
    tier_covers contract_value t' \<and> tier_limit t' \<le> tier_limit t"
proof -
  obtain t' where f: "List.find (tier_covers contract_value) (sort_key tier_limit (pc_approval_tiers cfg)) = Some t'"
    using assms find_None_sorted[of "tier_covers contract_value" tier_limit "pc_approval_tiers cfg"]
    by (cases "List.find (tier_covers contract_value) (sort_key tier_limit (pc_approval_tiers cfg))") auto
  have "route_to_approval_tier cfg contract_value = Inr (routing_for contract_value t')"
    by (simp add: route_to_approval_tier_def Let_def f)
  then show ?thesis using find_sorted_least[OF f] assms by blast
qed

text \<open>A recommendation is a band the score reaches, and no configured band the score reaches is
  higher.\<close>

lemma recommendation_highest:
  assumes "(label, threshold) \<in> set (pc_recommendation_thresholds cfg)" and "threshold \<le> score"
  shows "\<exists>x. (recommendation cfg score, x) \<in> set (pc_recommendation_thresholds cfg) \<and> threshold \<le> x \<and> x \<le> score"
proof -
  let ?find = "List.find (\<lambda>kv. snd kv \<le> score) (sort_desc snd (pc_recommendation_thresholds cfg))"
  obtain kv where f: "?find = Some kv"
    using assms by (cases ?find) (auto simp: find_None_iff)
  note g = find_desc_greatest[OF f]
  have "(recommendation cfg score, snd kv) \<in> set (pc_recommendation_thresholds cfg)"
    using g(1) by (simp add: recommendation_def f)
  moreover have "threshold \<le> snd kv" using g(3)[OF assms(1)] assms(2) by simp
  ultimately show ?thesis using g(2) by blast
qed

section \<open>Explanation\<close>

text \<open>Grounding completeness is a fraction: it lies in [0, 1] for every set of narratives.\<close>

lemma grounding_fraction:
  "0 \<le> fst (compute_grounding narratives) \<and> fst (compute_grounding narratives) \<le> 1"
  by (rule compute_grounding_unit)



text \<open>The narrative of a rejected vendor always says why: it carries system facts, so the critic
  never calls it empty, whatever the model answered.\<close>

theorem rejected_narrative_explains:
  assumes "generate_vendor_narrative cfg env vid True ev extraction source_chunks dec fb = Inr n"
    and "vid \<in> rn_vendor_id ` set (do_rejected_vendors dec)"
  shows "vn_system_facts n \<noteq> [] \<and> list_all (\<lambda>f. cf_check_name f \<noteq> ''empty_narrative'') (narrative_flags n)"
  using narrative_rejected_facts[OF assms] by (auto simp: narrative_flags_def list_all_iff)

lemma rejected_narrative_explains_witness:
  "\<exists>n. generate_vendor_narrative default_cfg demo_explain ''b'' True (demo_evaluation ''b'' [] 0) empty_extraction
     demo_chunks demo_dec [] = Inr n \<and> vn_system_facts n \<noteq> []"
proof -
  obtain n where n: "generate_vendor_narrative default_cfg demo_explain ''b'' True (demo_evaluation ''b'' [] 0)
      empty_extraction demo_chunks demo_dec [] = Inr n"
    using generate_total[OF demo_explain_returns] by blast
  have "''b'' \<in> rn_vendor_id ` set (do_rejected_vendors demo_dec)" by (simp add: demo_dec_def demo_rejection_def)
  from rejected_narrative_explains[OF n this] n show ?thesis by blast
qed

text \<open>The key under which a narrative is accumulated is read back as its vendor and attempt, for
  every vendor id without the separator.\<close>

theorem accum_key_roundtrip:
  assumes "\<not> contains_str attempt_tag vid"
  shows "parse_key (accum_key vid attempt) = (vid, int attempt)"
  using parse_accum_key[OF assms] .

lemma accum_key_roundtrip_witness: "parse_key (accum_key ''acme'' 3) = (''acme'', 3)"
  using accum_key_roundtrip[of "''acme''" 3] by (simp add: attempt_tag_def starts_with_def)

section \<open>Background ingestion\<close>

text \<open>C28: Whatever ticks, workers, watchers and administrators do, and in whatever order, each
  transaction moves an RFP by at most one transition that \<open>can_transition\<close> allows and never one in
  manual mode, moves a job along its state machine, loses no row and no event, and keeps
  \<open>(rfp, vendor, content hash)\<close> and the identifiers unique.\<close>

theorem lifecycle_legal:
  assumes "wf_tables t0" and "automatic t0" and "life_reachable (quiet t0) s" and "life_step s s'"
  shows "evolves (lf_tables s) (lf_tables s') \<and> wf_tables (lf_tables s')"
proof -
  have "running_ok s" using assms(3) quiet_ok[OF assms(1,2)] by induction (blast dest: life_step_moves)+
  from life_step_moves[OF assms(4) this] show ?thesis by (simp add: running_ok_def)
qed

lemma lifecycle_legal_witness:
  "evolves demo_queued (fst (flip_completed_rfps demo_queued)) \<and> wf_tables (fst (flip_completed_rfps demo_queued))"
  using lifecycle_legal[OF demo_tables_ok(1,2) demo_queued_reached, OF life_step.flip[OF surjective_pairing]] by simp

text \<open>C29: However many ticks overlap, at most one event is emitted for an RFP, and once it is emitted
  the RFP is past \<open>facts_ready\<close> and has a job with facts.\<close>

theorem announced_once:
  assumes "wf_tables t0" and "automatic t0" and "events_of i t0 = 0" and "life_reachable (quiet t0) s"
  shows "events_of i (lf_tables s) \<le> 1 \<and> (events_of i (lf_tables s) = 1 \<longrightarrow> facts_delivered i (lf_tables s))"
proof -
  have "heard i (quiet t0) = 0" using assms(3) by (simp add: heard_def quiet_def count_if_def)
  from life_reachable_ok[OF assms(4) quiet_ok[OF assms(1,2)] this] show ?thesis by (simp add: heard_def)
qed

lemma announced_once_witness:
  "events_of ''R'' (lf_tables demo_announced) = 1 \<and> facts_delivered ''R'' (lf_tables demo_announced)"
proof -
  have "events_of ''R'' (lf_tables demo_announced) = 1" by code_simp
  with announced_once[OF demo_tables_ok demo_announced_reached, of "''R''"] show ?thesis by simp
qed



text \<open>The jobs of a tick may run in any order, and on more than one scheduler: the tables end the same.\<close>

theorem jobs_in_any_order:
  assumes "wf_tables t" and "set jids = set jids'"
  shows "fst (process_jobs env jids t) = fst (process_jobs env jids' t)"
  using assms by (simp add: process_jobs_once)

lemma jobs_in_any_order_witness:
  "fst (process_jobs demo_job_env [0, 1] demo_queued) = fst (process_jobs demo_job_env [1, 0, 1] demo_queued)"
proof -
  have "wf_tables demo_queued" using queue_due_wf[OF demo_tables_ok(1)] by (simp add: queue_due_def demo_queued_def)
  from jobs_in_any_order[OF this, of "[0, 1]" "[1, 0, 1]"] show ?thesis by (simp add: insert_commute)
qed

text \<open>A dropped file is received only for an open RFP before its deadline and from an invited
  vendor, and it is then that vendor's only received job: earlier versions are superseded.\<close>

theorem drop_received:
  assumes "wf_tables t" and "handle_dropped_file now f t = (t', d)" and "dr_status d = ''received''"
  shows "\<exists>rfp v r. parse_drop_path (df_parts f) = (Some rfp, Some v) \<and> get_rfp_lifecycle rfp t = Some r \<and>
    rf_status r = RfpOpen \<and> (\<forall>dl. rf_deadline r = Some dl \<longrightarrow> now \<le> dl) \<and> is_invited_vendor rfp v t \<and>
    dr_job_id d = Some (tb_next t) \<and>
    filter (\<lambda>j. jb_rfp j = rfp \<and> jb_vendor j = v \<and> jb_status j = JobReceived) (tb_jobs t') =
      [new_job (tb_next t) (rf_org r) rfp v (df_hash f) (df_name f) (df_uri f) JobReceived]"
proof -
  obtain rfp v r where h: "parse_drop_path (df_parts f) = (Some rfp, Some v)" "get_rfp_lifecycle rfp t = Some r"
      "rf_status r = RfpOpen" "\<forall>dl. rf_deadline r = Some dl \<longrightarrow> now \<le> dl" "is_invited_vendor rfp v t"
      "ingest_received f rfp v (rf_org r) t = (t', d)"
    using drop_received_path[OF assms(2,3)] by blast
  with ingest_received_only[OF assms(1) h(6) assms(3)] show ?thesis by blast
qed

lemma drop_received_witness:
  "map jb_status (filter (\<lambda>j. jb_vendor j = ''a'') (tb_jobs (fst (handle_dropped_file 0 demo_drop demo_tables)))) =
     [JobSuperseded, JobReceived] \<and>
   dr_job_id (snd (handle_dropped_file 0 demo_drop demo_tables)) = Some 1"
proof
  show "map jb_status (filter (\<lambda>j. jb_vendor j = ''a'') (tb_jobs (fst (handle_dropped_file 0 demo_drop demo_tables)))) =
     [JobSuperseded, JobReceived]" by code_simp
  have "dr_status (snd (handle_dropped_file 0 demo_drop demo_tables)) = ''received''" by code_simp
  from drop_received[OF demo_tables_ok(1) surjective_pairing this]
  show "dr_job_id (snd (handle_dropped_file 0 demo_drop demo_tables)) = Some 1" by (auto simp: demo_tables_def)
qed



section \<open>Extraction\<close>

text \<open>Facts that could not be written never reach the evaluation: when every save fails, a vendor
  with retrieved chunks ends the extraction stage in \<open>failed_vendors\<close> and has no extraction output.\<close>

theorem unsaved_vendor_fails:
  assumes "\<not> wd_facts_extracted w ''extraction'' vid"
    and "dict_get (ps_retrieval_output_objects s) vid = Some ro" and "ro_chunks ro \<noteq> []"
    and "\<And>k fb. wd_extract w vid k ro fb = run_extraction_agent cfg (env k) ro org_id doc_id stp fb"
    and "\<And>k out. \<exists>e. xe_save (env k) out doc_id = Inl e"
  shows "\<exists>e m es. extraction_per_vendor cfg w s vid =
    Inr ([FailedVendors [failed_entry vid ''extraction'' e], CriticMetrics m], es)"
proof -
  have "co_overall_verdict critic = BLOCKED" if "wd_extract w vid k ro fb = Inr (out, critic)" for k fb out critic
  proof (rule ccontr)
    assume "co_overall_verdict critic \<noteq> BLOCKED"
    with that assms(3,4) have "xe_save (env k) out doc_id = Inr ()" by (auto intro: agent_saves)
    with assms(5)[of k out] show False by simp
  qed
  from never_unblocked_fails[of "\<lambda>k. wd_extract w vid k ro", OF this] show ?thesis
    using assms(1,2) by (simp add: extraction_per_vendor_def split_def Let_def)
qed

lemma unsaved_vendor_fails_witness:
  "\<exists>e m es. extraction_per_vendor default_cfg demo_extraction_world demo_retrieved ''a'' =
     Inr ([FailedVendors [failed_entry ''a'' ''extraction'' e], CriticMetrics m], es)"
  by (rule unsaved_vendor_fails[of _ _ _ demo_retrieval default_cfg "\<lambda>_. demo_extraction_env (Inl (ExternalError ''down''))"
        "''org''" "''doc''" demo_setup])
    (simp_all add: demo_extraction_world_def demo_world_def demo_retrieved_def demo_state_def demo_retrieval_def
      demo_extraction_env_def)

text \<open>The retries of an extraction are bounded: each key is marked before its only request, so the
  model is asked at most once per standard type, mandatory check and pair of a criterion and a target.\<close>

theorem extraction_retries_bounded:
  assumes "fs_retried_fact_types st = []" and "fs_requests st = []"
  shows "length (fs_requests (run_extraction_critic_retries cfg env ctxt stp st)) \<le>
      5 + length (es_mandatory_checks stp) + length (scoring_pairs stp) \<and>
    distinct (fs_retried_fact_types (run_extraction_critic_retries cfg env ctxt stp st))"
  using retries_bounded[OF assms, of cfg env ctxt stp] retries_balanced[of st cfg env ctxt stp] assms
  by (simp add: balanced_def)

lemma extraction_retries_bounded_witness:
  "length (fs_requests (run_extraction_critic_retries default_cfg (demo_extraction_env (Inr ())) [] demo_setup demo_facts_state)) \<le> 7"
  using extraction_retries_bounded[of demo_facts_state default_cfg "demo_extraction_env (Inr ())" "[]" demo_setup]
  by (simp add: demo_facts_state_def demo_setup_def demo_criterion_def scoring_pairs_def)

text \<open>A retry whose reply has no facts erases the facts it should have improved and leaves no
  warning: an empty list is judged adequate.\<close>

theorem empty_retry_erases:
  assumes "fact_type \<in> set standard_types" and "xe_retry env req ctxt = Inr (Some (JObj kvs))"
    and "map_of kvs (rq_response_key req) \<in> {None, Some (JArr [])}"
  shows "facts_of fact_type (retry_facts cfg env ctxt req (parse_into env fact_type) fact_type failed weak st) = [] \<and>
    fs_warnings (retry_facts cfg env ctxt req (parse_into env fact_type) fact_type failed weak st) = fs_warnings st"
  using empty_reply_erases[OF assms] .

lemma empty_retry_erases_witness:
  "facts_of ''certification'' demo_facts_state \<noteq> [] \<and>
   facts_of ''certification'' (retry_facts default_cfg (demo_extraction_env (Inr ())) [] demo_retry
     (parse_into (demo_extraction_env (Inr ())) ''certification'') ''certification'' [] [] demo_facts_state) = []"
proof
  show "facts_of ''certification'' demo_facts_state \<noteq> []" by code_simp
  show "facts_of ''certification'' (retry_facts default_cfg (demo_extraction_env (Inr ())) [] demo_retry
     (parse_into (demo_extraction_env (Inr ())) ''certification'') ''certification'' [] [] demo_facts_state) = []"
    using empty_retry_erases[of "''certification''" "demo_extraction_env (Inr ())" demo_retry "[]" "[]"]
    by (simp add: standard_types_def demo_extraction_env_def)
qed

section \<open>Criteria\<close>



text \<open>Up to twenty merged criteria with weights in (0, 1], at least one check, and texts for texts, make
  a valid setup: rounding to three digits keeps the sum of the weights within the validator's band and
  every check has its extraction target.\<close>

theorem merged_setup_valid:
  assumes "merge_criteria digest org dept rfp user = Inr m"
    and "mg_mandatory_checks m \<noteq> []" and "mg_scoring_criteria m \<noteq> []" and "length (mg_scoring_criteria m) \<le> 20"
    and "\<forall>k \<in> set (mg_scoring_criteria m). 0 < ks_weight k \<and> ks_weight k \<le> 1"
    and "rmap setup_check (mg_mandatory_checks m) = Inr cs" and "rmap setup_score (mg_scoring_criteria m) = Inr ss"
  shows "\<exists>s. setup_of_merged setup_id m = Inr s \<and> es_mandatory_checks s = cs \<and> es_scoring_criteria s = ss"
  using merged_valid[OF assms] .

lemma merged_setup_valid_witness:
  "\<exists>m s. merge_criteria (\<lambda>s. s) demo_small [] (JObj []) (JObj []) = Inr m \<and> setup_of_merged ''S'' m = Inr s \<and>
     map sc_weight (es_scoring_criteria s) = [1]"
proof -
  obtain m cs ss where m: "merge_criteria (\<lambda>s. s) demo_small [] (JObj []) (JObj []) = Inr m"
      "mg_mandatory_checks m \<noteq> []" "mg_scoring_criteria m \<noteq> []" "length (mg_scoring_criteria m) \<le> 20"
      "\<forall>k \<in> set (mg_scoring_criteria m). 0 < ks_weight k \<and> ks_weight k \<le> 1"
      "rmap setup_check (mg_mandatory_checks m) = Inr cs" "rmap setup_score (mg_scoring_criteria m) = Inr ss"
    and w: "map sc_weight ss = [1]"
    using demo_small_merged by (elim exE conjE) (rule that)
  from merged_setup_valid[OF m, of "''S''"] m(1) w show ?thesis by auto
qed

text \<open>A run without mandatory checks never starts when criteria exist and the suggestion of checks
  yields none: the default check names an extraction target that only the default list holds.\<close>

theorem unchecked_run_refused:
  assumes "merge_criteria digest org dept rfp user = Inr m"
    and "mg_mandatory_checks m = []" and "mg_scoring_criteria m \<noteq> []"
    and "gr_mandatory_checks_suggested (snd (detect_and_fill_gaps digest env m)) = []"
  shows "\<exists>e. start_setup digest env setup_id org dept rfp user = Inl e"
proof (cases "start_setup digest env setup_id org dept rfp user")
  case (Inr r)
  then obtain s report where r: "start_setup digest env setup_id org dept rfp user = Inr (s, report)" by (cases r) auto
  then have "report = snd (detect_and_fill_gaps digest env m)"
    using assms(1) by (auto simp: start_setup_def rbind_Inr_iff split: prod.splits)
  with empty_checks_refused[OF r _ assms(1,2)] assms(3,4) show ?thesis by blast
qed blast

lemma unchecked_run_refused_witness:
  "\<exists>e. start_setup (\<lambda>s. s) demo_gap_env ''S'' demo_unchecked [] (JObj []) (JObj []) = Inl e"
proof -
  obtain m where m: "merge_criteria (\<lambda>s. s) demo_unchecked [] (JObj []) (JObj []) = Inr m"
      "mg_mandatory_checks m = []" "mg_scoring_criteria m \<noteq> []"
    using demo_unchecked_merged by blast
  have "gr_mandatory_checks_suggested (snd (detect_and_fill_gaps (\<lambda>s. s) demo_gap_env m)) = []"
    by (simp add: detect_and_fill_gaps_def reply_items_def demo_gap_env_def split_def Let_def)
  then show ?thesis by (rule unchecked_run_refused[OF m])
qed

section \<open>Calls of the model\<close>

text \<open>C33: In every run of the rate limiter on a clock that does not run backwards no window of sixty seconds
  holds more than the allowed number of stamps.\<close>

theorem limiter_window:
  assumes "limiter_reaches l0 stamps l" and "lm_timestamps l0 = []" and "0 < lm_rpm l0"
  shows "length (filter (\<lambda>s. t \<le> s \<and> s < t + window) stamps) \<le> lm_rpm l0"
  using limiter_reaches_inv[OF assms] unfolding limiter_inv_def by (blast intro: spaced_window)

lemma limiter_window_witness:
  "length (filter (\<lambda>s. 1 / 2 \<le> s \<and> s < 1 / 2 + window) [0, 601 / 10]) \<le> 1"
  using limiter_window[OF demo_limiter_reaches, of "1 / 2"] by (simp add: demo_limiter_def new_limiter_def)

text \<open>One call of the model sends its request at most five times, always the same one, and takes at most
  one slot of the rate limiter.\<close>

theorem call_bounded:
  assumes "retry_law (le_retry env)"
  shows "\<exists>k \<le> 5. ls_requests (fst (call_llm env cfg args s)) = ls_requests s @ replicate k (request_of env cfg args) \<and>
    ls_slots (fst (call_llm env cfg args s)) \<le> Suc (ls_slots s)"
  using call_effect[OF assms] .

lemma call_bounded_witness:
  "ls_requests (fst (call_llm demo_llm_env demo_llm_cfg demo_llm_args demo_llm_state)) =
     replicate 2 (request_of demo_llm_env demo_llm_cfg demo_llm_args)"
proof -
  obtain s where "call_llm demo_llm_env demo_llm_cfg demo_llm_args demo_llm_state = (s, Inr (Some ''text''))"
      "length (ls_requests s) = 2"
    using demo_llm_call by blast
  then show ?thesis
    using call_bounded[OF demo_llm_law, of demo_llm_cfg demo_llm_args demo_llm_state] by (auto simp: demo_llm_state_def)
qed

text \<open>C34: A reply that came through the cache is pinned: after any further calls the same call gets the same
  text without a request and without a slot, also when it asks for another number of tokens.\<close>

theorem cached_reply_pinned:
  assumes "retry_law (le_retry env)" and "call_llm env cfg args s = (s', Inr t)"
    and "la_use_cache args" and "cache_enabled cfg"
  shows "\<exists>s''. call_llm env cfg (args\<lparr>la_max_tokens := n\<rparr>) (llm_run env cfg calls s') = (s'', Inr t) \<and>
    ls_requests s'' = ls_requests (llm_run env cfg calls s') \<and> ls_slots s'' = ls_slots (llm_run env cfg calls s')"
  using cached_reply[OF assms] by (auto simp: quiet_step_def)

lemma cached_reply_pinned_witness:
  "\<exists>s. snd (call_llm demo_llm_env demo_llm_cfg (demo_llm_args\<lparr>la_max_tokens := 9\<rparr>) s) = Inr (Some ''text'') \<and>
     length (ls_requests s) = 2"
proof -
  obtain s where s: "call_llm demo_llm_env demo_llm_cfg demo_llm_args demo_llm_state = (s, Inr (Some ''text''))"
      "length (ls_requests s) = 2"
    using demo_llm_call by blast
  from cached_reply_pinned[OF demo_llm_law s(1) demo_llm_on, of 9 "[]"] s(2) show ?thesis
    by (intro exI[of _ s]) (auto simp: llm_run_def)
qed

end
